(* ===== verification/XMHF_Prelude.thy ===== *)
theory XMHF_Prelude
  imports Main "HOL-Library.Word"
begin

text \<open>
  Shared vocabulary of the development: the machine integer types of the C sources
  (\<^verbatim>\<open>u8\<close> to \<^verbatim>\<open>u64\<close> on the 32-bit target), the error sum every fallible operation returns,
  the loop combinator that models the counted \<^verbatim>\<open>for\<close> loops of the sources with its
  invariant rules, and the word lemmas the component theories use.
\<close>

unbundle bit_operations_syntax

section \<open>Collections and types\<close>

named_theorems xconst \<open>definitions of the numeric constants of the C headers\<close>
named_theorems xops \<open>definitions of the small helpers that are unfolded in component proofs\<close>

type_synonym u8 = "8 word"
type_synonym u16 = "16 word"
type_synonym u32 = "32 word"
type_synonym u64 = "64 word"

section \<open>Ways an operation stops\<close>

text \<open>
  \<^verbatim>\<open>HALT()\<close> executes \<^verbatim>\<open>hlt\<close>; \<^verbatim>\<open>HALT_ON_ERRORCOND(p)\<close> halts when \<open>p\<close> is false
  (\<^verbatim>\<open>include/arch/x86/_error.h\<close>); a failed \<^verbatim>\<open>assert\<close> and \<^verbatim>\<open>EU_VERIFY\<close> call
  \<^verbatim>\<open>abort()\<close>; the shutdown handler reboots the platform; \<open>OutOfBounds\<close> marks an access outside
  an array and \<open>Undefined\<close> a shift by a negative count, undefined in C; \<open>Hang\<close> marks a loop that
  never ends (\<^verbatim>\<open>while(1);\<close>). They are told apart, so that a theorem can say which of them happens.
\<close>

datatype xmhf_error = Halt | ErrorCond | Abort | Reboot | OutOfBounds | Hang | Undefined

definition bindE :: "'e + 'a \<Rightarrow> ('a \<Rightarrow> 'e + 'b) \<Rightarrow> 'e + 'b" where
  "bindE m f = (case m of Inl e \<Rightarrow> Inl e | Inr x \<Rightarrow> f x)"

definition HALT_ON_ERRORCOND :: "bool \<Rightarrow> xmhf_error + unit" where
  "HALT_ON_ERRORCOND p = (if p then Inr () else Inl ErrorCond)"

definition assertE :: "bool \<Rightarrow> xmhf_error + unit" where
  "assertE p = (if p then Inr () else Inl Abort)"

lemma bindE_simps [simp]:
  "bindE (Inl e) f = Inl e"
  "bindE (Inr x) f = f x"
  by (simp_all add: bindE_def)

lemma bindE_eq_Inr [simp]:
  "bindE m f = Inr y \<longleftrightarrow> (\<exists>x. m = Inr x \<and> f x = Inr y)"
  by (cases m) simp_all

lemma bindE_eq_Inl:
  "bindE m f = Inl e \<longleftrightarrow> m = Inl e \<or> (\<exists>x. m = Inr x \<and> f x = Inl e)"
  by (cases m) auto

lemma bindE_assoc: "bindE (bindE m f) g = bindE m (\<lambda>x. bindE (f x) g)"
  by (cases m) simp_all

lemma bindE_Inr_right [simp]: "bindE m Inr = m"
  by (cases m) simp_all

lemma HALT_ON_ERRORCOND_simps [simp]:
  "HALT_ON_ERRORCOND True = Inr ()"
  "HALT_ON_ERRORCOND False = Inl ErrorCond"
  "HALT_ON_ERRORCOND p = Inr u \<longleftrightarrow> p"
  "HALT_ON_ERRORCOND p = Inl e \<longleftrightarrow> \<not> p \<and> e = ErrorCond"
  by (auto simp: HALT_ON_ERRORCOND_def)

lemma assertE_simps [simp]:
  "assertE True = Inr ()"
  "assertE False = Inl Abort"
  "assertE p = Inr u \<longleftrightarrow> p"
  "assertE p = Inl e \<longleftrightarrow> \<not> p \<and> e = Abort"
  by (auto simp: assertE_def)

section \<open>Counted loops\<close>

text \<open>\<^verbatim>\<open>for (i = lo; i < lo + n; i++) body\<close>, stopping at the first error of the body.\<close>

primrec forE :: "nat \<Rightarrow> nat \<Rightarrow> (nat \<Rightarrow> 's \<Rightarrow> 'e + 's) \<Rightarrow> 's \<Rightarrow> 'e + 's" where
  "forE 0 lo body s = Inr s"
| "forE (Suc n) lo body s = bindE (body lo s) (forE n (Suc lo) body)"

text \<open>Total correctness: every iteration succeeds and keeps the invariant.\<close>

lemma forE_total:
  assumes "Inv lo s"
    and "\<And>i s. lo \<le> i \<Longrightarrow> i < lo + n \<Longrightarrow> Inv i s \<Longrightarrow> \<exists>s'. body i s = Inr s' \<and> Inv (Suc i) s'"
  shows "\<exists>s'. forE n lo body s = Inr s' \<and> Inv (lo + n) s'"
  using assms
proof (induction n arbitrary: lo s)
  case 0
  then show ?case by simp
next
  case (Suc n)
  from Suc.prems(2)[OF _ _ Suc.prems(1)] obtain s1
    where s1: "body lo s = Inr s1" "Inv (Suc lo) s1" by auto
  have "\<exists>s'. forE n (Suc lo) body s1 = Inr s' \<and> Inv (Suc lo + n) s'"
    by (rule Suc.IH[OF s1(2)]) (rule Suc.prems(2); simp)
  with s1 show ?case by simp
qed

text \<open>Partial correctness: a run that returned kept the invariant.\<close>

lemma forE_partial:
  assumes "forE n lo body s = Inr s'" and "Inv lo s"
    and "\<And>i s s'. lo \<le> i \<Longrightarrow> i < lo + n \<Longrightarrow> Inv i s \<Longrightarrow> body i s = Inr s' \<Longrightarrow> Inv (Suc i) s'"
  shows "Inv (lo + n) s'"
  using assms
proof (induction n arbitrary: lo s)
  case 0
  then show ?case by simp
next
  case (Suc n)
  from Suc.prems(1) obtain s1 where s1: "body lo s = Inr s1" "forE n (Suc lo) body s1 = Inr s'"
    by auto
  have "Inv (Suc lo) s1" by (rule Suc.prems(3)[OF _ _ Suc.prems(2) s1(1)]) simp_all
  then have "Inv (Suc lo + n) s'"
    by (rule Suc.IH[OF s1(2)]) (rule Suc.prems(3); simp)
  then show ?case by simp
qed

lemma forE_cong:
  assumes "\<And>i s. lo \<le> i \<Longrightarrow> i < lo + n \<Longrightarrow> body i s = body' i s"
  shows "forE n lo body s = forE n lo body' s"
  using assms
proof (induction n arbitrary: lo s)
  case 0
  then show ?case by simp
next
  case (Suc n)
  have "forE n (Suc lo) body = forE n (Suc lo) body'"
    by (rule ext, rule Suc.IH) (rule Suc.prems; simp)
  then show ?case by (simp add: Suc.prems)
qed

lemma forE_append:
  "forE (m + n) lo body s = bindE (forE m lo body s) (forE n (lo + m) body)"
proof (induction m arbitrary: lo s)
  case 0
  then show ?case by simp
next
  case (Suc m)
  have "forE (m + n) (Suc lo) body
    = (\<lambda>x. bindE (forE m (Suc lo) body x) (forE n (Suc lo + m) body))"
    by (rule ext) (rule Suc.IH)
  then show ?case by (simp add: bindE_assoc)
qed

section \<open>Words\<close>

lemma unat_of_nat_small:
  "n < 2 ^ LENGTH('a) \<Longrightarrow> unat (of_nat n :: 'a::len word) = n"
  by (simp add: unat_of_nat)

lemma word_of_nat_eq_iff_small:
  "m < 2 ^ LENGTH('a) \<Longrightarrow> n < 2 ^ LENGTH('a) \<Longrightarrow>
   (of_nat m :: 'a::len word) = of_nat n \<longleftrightarrow> m = n"
  by (metis unat_of_nat_small)

lemma and_nonzero_iff_bit:
  "(x AND (2 ^ n) :: 'a::len word) \<noteq> 0 \<longleftrightarrow> bit x n"
  by (simp add: and_exp_eq_0_iff_not_bit)

lemma bit_of_masked:
  fixes x m :: "'a::len word"
  assumes "x AND NOT m = 0" and "bit x n"
  shows "bit m n"
proof -
  have "\<not> bit (x AND NOT m) n" using assms(1) by simp
  with assms(2) have "\<not> bit (NOT m) n" by (simp add: bit_and_iff)
  with bit_imp_le_length[OF assms(2)] show ?thesis by (simp only: bit_not_iff) simp
qed

lemma word_div_4096: "(x :: 'a::len word) div 2 ^ n = drop_bit n x"
  by (simp add: drop_bit_eq_div)

section \<open>Words bit by bit\<close>

text \<open>
  Equality of words of a fixed width, bit position by bit position: with the positions written
  out as numerals the simplifier evaluates the masks and shifts of the C headers.
\<close>

lemma all_less_Suc: "(\<forall>n<Suc k. P n) \<longleftrightarrow> (\<forall>n<k. P n) \<and> P k"
  by (auto simp: less_Suc_eq)

lemma all_less_8:
  "(\<forall>n<8::nat. P n) \<longleftrightarrow>
   P 0 \<and> P 1 \<and> P 2 \<and> P 3 \<and> P 4 \<and> P 5 \<and> P 6 \<and> P 7"
  by (simp add: eval_nat_numeral all_less_Suc conj_ac)

lemma all_less_32:
  "(\<forall>n<32::nat. P n) \<longleftrightarrow>
   P 0 \<and> P 1 \<and> P 2 \<and> P 3 \<and> P 4 \<and> P 5 \<and> P 6 \<and> P 7 \<and>
   P 8 \<and> P 9 \<and> P 10 \<and> P 11 \<and> P 12 \<and> P 13 \<and> P 14 \<and> P 15 \<and>
   P 16 \<and> P 17 \<and> P 18 \<and> P 19 \<and> P 20 \<and> P 21 \<and> P 22 \<and> P 23 \<and>
   P 24 \<and> P 25 \<and> P 26 \<and> P 27 \<and> P 28 \<and> P 29 \<and> P 30 \<and> P 31"
  by (simp add: eval_nat_numeral all_less_Suc conj_ac)

lemma all_less_64:
  "(\<forall>n<64::nat. P n) \<longleftrightarrow>
   P 0 \<and> P 1 \<and> P 2 \<and> P 3 \<and> P 4 \<and> P 5 \<and> P 6 \<and> P 7 \<and>
   P 8 \<and> P 9 \<and> P 10 \<and> P 11 \<and> P 12 \<and> P 13 \<and> P 14 \<and> P 15 \<and>
   P 16 \<and> P 17 \<and> P 18 \<and> P 19 \<and> P 20 \<and> P 21 \<and> P 22 \<and> P 23 \<and>
   P 24 \<and> P 25 \<and> P 26 \<and> P 27 \<and> P 28 \<and> P 29 \<and> P 30 \<and> P 31 \<and>
   P 32 \<and> P 33 \<and> P 34 \<and> P 35 \<and> P 36 \<and> P 37 \<and> P 38 \<and> P 39 \<and>
   P 40 \<and> P 41 \<and> P 42 \<and> P 43 \<and> P 44 \<and> P 45 \<and> P 46 \<and> P 47 \<and>
   P 48 \<and> P 49 \<and> P 50 \<and> P 51 \<and> P 52 \<and> P 53 \<and> P 54 \<and> P 55 \<and>
   P 56 \<and> P 57 \<and> P 58 \<and> P 59 \<and> P 60 \<and> P 61 \<and> P 62 \<and> P 63"
  by (simp add: eval_nat_numeral all_less_Suc conj_ac)

lemma u8_eqI: "(\<forall>n<8. bit x n = bit y n) \<Longrightarrow> x = (y :: u8)"
  by (intro bit_word_eqI) simp

lemma u32_eqI: "(\<forall>n<32. bit x n = bit y n) \<Longrightarrow> x = (y :: u32)"
  by (intro bit_word_eqI) simp

lemma u64_eqI: "(\<forall>n<64. bit x n = bit y n) \<Longrightarrow> x = (y :: u64)"
  by (intro bit_word_eqI) simp

lemmas u8_bitsI = u8_eqI[unfolded all_less_8]
lemmas u32_bitsI = u32_eqI[unfolded all_less_32]
lemmas u64_bitsI = u64_eqI[unfolded all_less_64]

end
