(* ===== verification/XMHF_Memory.thy ===== *)
theory XMHF_Memory
  imports XMHF_Prelude
begin

text \<open>
  Byte-addressed memory of the 32-bit target. Pointers are \<^typ>\<open>32 word\<close> values and pointer
  arithmetic wraps; multi-byte accesses are little-endian. \<open>ldw n\<close> and \<open>stw n\<close> read and
  write \<open>n\<close> bytes; \<open>ld16\<close>, \<open>ld32\<close>, \<open>ld64\<close> and their stores are the accesses of
  the C sources through \<^verbatim>\<open>u16 *\<close>, \<^verbatim>\<open>u32 *\<close> and \<^verbatim>\<open>u64 *\<close>. The lemmas give the
  read-after-write laws every component proof rests on.
\<close>

type_synonym memory = "u32 \<Rightarrow> u8"

primrec ldw :: "nat \<Rightarrow> memory \<Rightarrow> u32 \<Rightarrow> 'a::len word" where
  "ldw 0 m a = 0"
| "ldw (Suc n) m a = ucast (m a) OR push_bit 8 (ldw n m (a + 1))"

primrec stw :: "nat \<Rightarrow> memory \<Rightarrow> u32 \<Rightarrow> 'a::len word \<Rightarrow> memory" where
  "stw 0 m a v = m"
| "stw (Suc n) m a v = stw n (m(a := ucast v)) (a + 1) (drop_bit 8 v)"

definition ld16 :: "memory \<Rightarrow> u32 \<Rightarrow> u16" where "ld16 = ldw 2"
definition ld32 :: "memory \<Rightarrow> u32 \<Rightarrow> u32" where "ld32 = ldw 4"
definition ld64 :: "memory \<Rightarrow> u32 \<Rightarrow> u64" where "ld64 = ldw 8"
definition st16 :: "memory \<Rightarrow> u32 \<Rightarrow> u16 \<Rightarrow> memory" where "st16 = stw 2"
definition st32 :: "memory \<Rightarrow> u32 \<Rightarrow> u32 \<Rightarrow> memory" where "st32 = stw 4"
definition st64 :: "memory \<Rightarrow> u32 \<Rightarrow> u64 \<Rightarrow> memory" where "st64 = stw 8"

text \<open>The bytes an access of length \<open>n\<close> at \<open>a\<close> touches.\<close>

definition span :: "u32 \<Rightarrow> nat \<Rightarrow> u32 set" where
  "span a n = {b. unat (b - a) < n}"

lemma span_iff: "b \<in> span a n \<longleftrightarrow> unat (b - a) < n"
  by (simp add: span_def)

lemma span_0 [simp]: "span a 0 = {}"
  by (simp add: span_def)

lemma span_Suc:
  assumes "n < 2 ^ 32"
  shows "span a (Suc n) = insert a (span (a + 1) n)"
proof -
  have "unat (b - a) < Suc n \<longleftrightarrow> b = a \<or> unat (b - (a + 1)) < n" for b
  proof (cases "b = a")
    case True
    then show ?thesis by simp
  next
    case False
    then have nz: "b - a \<noteq> 0" by simp
    have eq: "b - (a + 1) = (b - a) - 1" by simp
    have "unat (b - (a + 1)) = unat (b - a) - 1"
      unfolding eq using nz by (rule unat_minus_one)
    moreover have "unat (b - a) > 0" using nz by (simp add: unat_gt_0)
    ultimately show ?thesis using False by (auto simp del: diff_diff_eq)
  qed
  then show ?thesis by (auto simp: span_def)
qed

lemma span_offset:
  "x \<in> span a n \<Longrightarrow> unat k + n \<le> m \<Longrightarrow> m \<le> 2 ^ 32 \<Longrightarrow> k' = k \<Longrightarrow> x + k' \<in> span a m"
proof -
  assume x: "x \<in> span a n" and m: "unat k + n \<le> m" "m \<le> 2 ^ 32" and k: "k' = k"
  have "unat (x - a + k) = unat (x - a) + unat k"
    using x m by (intro unat_add_lem[THEN iffD1]) (simp add: span_iff)
  then show ?thesis using x m k by (simp add: span_iff algebra_simps)
qed

lemma span_shift: "unat k + n \<le> l \<Longrightarrow> x \<in> span (a + k) n \<Longrightarrow> x \<in> span a l"
proof -
  assume l: "unat k + n \<le> l" and x: "x \<in> span (a + k) n"
  have "unat (y + k) \<le> unat y + unat k" for y :: u32 by (simp add: unat_word_ariths)
  from this[of "x - (a + k)"] show ?thesis using l x by (simp add: span_iff)
qed

section \<open>Read-after-write laws\<close>

lemma bit_ldw:
  "bit (ldw n m a :: 'a::len word) k \<longleftrightarrow>
   k < LENGTH('a) \<and> k < 8 * n \<and> bit (m (a + of_nat (k div 8))) (k mod 8)"
proof (induction n arbitrary: a k)
  case 0
  then show ?case by simp
next
  case (Suc n)
  show ?case
  proof (cases "k < 8")
    case True
    then show ?thesis by (auto simp: bit_simps)
  next
    case False
    then have k: "k div 8 = Suc ((k - 8) div 8)" "k mod 8 = (k - 8) mod 8"
      by (auto simp: le_div_geq le_mod_geq)
    have "\<not> bit (m a) k" using False by (auto dest: bit_imp_le_length)
    then show ?thesis
      using False Suc[of "a + 1" "k - 8"] k
      by (auto simp: bit_simps algebra_simps)
  qed
qed

lemma stw_outside: "n < 2 ^ 32 \<Longrightarrow> b \<notin> span a n \<Longrightarrow> stw n m a v b = m b"
proof (induction n arbitrary: m a v)
  case 0
  then show ?case by simp
next
  case (Suc n)
  then have "b \<noteq> a" "b \<notin> span (a + 1) n" by (auto simp: span_Suc)
  then show ?case using Suc by simp
qed

lemma stw_inside:
  "n < 2 ^ 32 \<Longrightarrow> i < n \<Longrightarrow> stw n m a v (a + of_nat i) = ucast (drop_bit (8 * i) v)"
proof (induction n arbitrary: m a v i)
  case 0
  then show ?case by simp
next
  case (Suc n)
  show ?case
  proof (cases i)
    case 0
    have "a - (a + 1) = 0xFFFFFFFF" by simp
    then have "unat (a - (a + 1)) = 0xFFFFFFFF" by (simp only: unat_numeral) simp
    then have "a \<notin> span (a + 1) n" using Suc.prems by (simp add: span_iff)
    then show ?thesis using 0 Suc.prems by (simp add: stw_outside)
  next
    case (Suc j)
    then have j: "j < n" using Suc.prems by simp
    have "stw n (m(a := ucast v)) (a + 1) (drop_bit 8 v) ((a + 1) + of_nat j)
      = ucast (drop_bit (8 * j) (drop_bit 8 v))"
      by (rule Suc.IH) (use Suc.prems j in simp_all)
    then show ?thesis using Suc by (simp add: algebra_simps drop_bit_drop_bit)
  qed
qed

lemma ldw_cong:
  "n < 2 ^ 32 \<Longrightarrow> (\<And>b. b \<in> span a n \<Longrightarrow> m b = m' b) \<Longrightarrow>
   (ldw n m a :: 'a::len word) = ldw n m' a"
proof (induction n arbitrary: a)
  case 0
  then show ?case by simp
next
  case (Suc n)
  have "m a = m' a" by (rule Suc.prems(2)) (simp add: span_iff)
  moreover have "(ldw n m (a + 1) :: 'a word) = ldw n m' (a + 1)"
  proof (rule Suc.IH)
    show "n < 2 ^ 32" using Suc.prems(1) by simp
  next
    fix b
    assume "b \<in> span (a + 1) n"
    then show "m b = m' b" using Suc.prems by (auto simp: span_Suc)
  qed
  ultimately show ?case by simp
qed

lemma ldw_stw_same:
  fixes v :: "'a::len word"
  assumes "8 * n = LENGTH('a)" and "n < 2 ^ 32"
  shows "ldw n (stw n m a v) a = v"
proof (rule bit_word_eqI)
  fix k
  assume k: "k < LENGTH('a)"
  then have i: "k div 8 < n" using assms by auto
  have "bit (stw n m a v (a + of_nat (k div 8))) (k mod 8) \<longleftrightarrow> bit v k"
    by (simp add: stw_inside[OF assms(2) i] bit_simps)
  then show "bit (ldw n (stw n m a v) a :: 'a word) k \<longleftrightarrow> bit v k"
    using k assms by (simp add: bit_ldw)
qed

lemma ldw_stw_disjoint:
  assumes "n < 2 ^ 32" "l < 2 ^ 32" and "span a n \<inter> span b l = {}"
  shows "ldw l (stw n m a v) b = ldw l m b"
  by (rule ldw_cong[OF assms(2)], rule stw_outside[OF assms(1)]) (use assms(3) in auto)

lemma ld16_st16_same [simp]: "ld16 (st16 m a x) a = x"
  unfolding ld16_def st16_def by (rule ldw_stw_same) simp_all

lemma ld32_st32_same [simp]: "ld32 (st32 m a x) a = x"
  unfolding ld32_def st32_def by (rule ldw_stw_same) simp_all

lemma ld64_st64_same [simp]: "ld64 (st64 m a x) a = x"
  unfolding ld64_def st64_def by (rule ldw_stw_same) simp_all

lemma ld64_st64_disjoint:
  "span a 8 \<inter> span b 8 = {} \<Longrightarrow> ld64 (st64 m a v) b = ld64 m b"
  unfolding ld64_def st64_def by (rule ldw_stw_disjoint) simp_all

lemma st64_outside: "b \<notin> span a 8 \<Longrightarrow> st64 m a v b = m b"
  unfolding st64_def by (rule stw_outside) simp_all

lemma ld64_cong: "(\<And>b. b \<in> span a 8 \<Longrightarrow> m b = m' b) \<Longrightarrow> ld64 m a = ld64 m' a"
  unfolding ld64_def by (rule ldw_cong) simp_all

lemma ld32_cong: "(\<And>b. b \<in> span a 4 \<Longrightarrow> m b = m' b) \<Longrightarrow> ld32 m a = ld32 m' a"
  unfolding ld32_def by (rule ldw_cong) simp_all

section \<open>Arrays of 64-bit entries\<close>

text \<open>The address of \<^verbatim>\<open>((u64 * )base)[i]\<close>.\<close>

definition elem64 :: "u32 \<Rightarrow> nat \<Rightarrow> u32" where
  "elem64 base i = base + 8 * of_nat i"

lemma elem64_span_disjoint:
  assumes "i < 2 ^ 29" "j < 2 ^ 29" "i \<noteq> j"
  shows "span (elem64 base i) 8 \<inter> span (elem64 base j) 8 = {}"
proof -
  have False if x: "unat (x - elem64 base i) < 8" and y: "unat (x - elem64 base j) < 8" for x
  proof -
    define p q where "p = unat (x - elem64 base i)" and "q = unat (x - elem64 base j)"
    have "x = base + of_nat (8 * i + p)" "x = base + of_nat (8 * j + q)"
      by (simp_all add: p_def q_def elem64_def)
    then have "(of_nat (8 * i + p) :: u32) = of_nat (8 * j + q)" by simp
    moreover have "8 * i + p < 2 ^ LENGTH(32)" "8 * j + q < 2 ^ LENGTH(32)"
      using assms x y by (simp_all add: p_def q_def)
    ultimately have "8 * i + p = 8 * j + q" by (simp only: word_of_nat_eq_iff_small)
    then show False using assms(3) x y by (simp add: p_def[symmetric] q_def[symmetric])
  qed
  then show ?thesis by (auto simp: span_iff)
qed

lemma elem64_span_sub:
  assumes "i < n" and "n < 2 ^ 29"
  shows "span (elem64 base i) 8 \<subseteq> span base (8 * n)"
proof
  fix x
  assume "x \<in> span (elem64 base i) 8"
  then have lt: "unat (x - elem64 base i) < 8" by (simp add: span_iff)
  have eq: "x - base = of_nat (unat (x - elem64 base i) + 8 * i)"
    by (simp add: elem64_def)
  have "unat (x - elem64 base i) + 8 * i < 2 ^ LENGTH(32)" using assms lt by simp
  then have "unat (x - base) = unat (x - elem64 base i) + 8 * i"
    unfolding eq by (rule unat_of_nat_small)
  then show "x \<in> span base (8 * n)" using assms lt by (simp add: span_iff)
qed

lemma ld64_elem_st64_elem:
  assumes "i < 2 ^ 29" "j < 2 ^ 29"
  shows "ld64 (st64 m (elem64 base i) v) (elem64 base j)
    = (if i = j then v else ld64 m (elem64 base j))"
  using elem64_span_disjoint[OF assms] by (simp add: ld64_st64_disjoint)

text \<open>Loads by their bytes, to evaluate them on a concrete memory.\<close>

lemma ld16_bytes: "ld16 m a = ucast (m a) OR push_bit 8 (ucast (m (a + 1)))"
  by (simp add: ld16_def eval_nat_numeral add.assoc)

lemma ld32_bytes: "ld32 m a = ucast (m a) OR push_bit 8 (ucast (m (a + 1)) OR push_bit 8 (ucast (m (a + 2))
    OR push_bit 8 (ucast (m (a + 3)))))"
  by (simp add: ld32_def eval_nat_numeral add.assoc)

lemma ld64_bytes: "ld64 m a = ucast (m a) OR push_bit 8 (ucast (m (a + 1)) OR push_bit 8 (ucast (m (a + 2))
    OR push_bit 8 (ucast (m (a + 3)) OR push_bit 8 (ucast (m (a + 4)) OR push_bit 8 (ucast (m (a + 5))
    OR push_bit 8 (ucast (m (a + 6)) OR push_bit 8 (ucast (m (a + 7)))))))))"
  by (simp add: ld64_def eval_nat_numeral add.assoc)

end
