(* ===== verification/XMHF_Paging.thy ===== *)
theory XMHF_Paging
  imports XMHF_Memory
begin

text \<open>
  The paging macros of \<^verbatim>\<open>include/arch/x86/_paging.h\<close>: page sizes, entry flags, and the
  field accessors of PAE and non-PAE page-table entries and virtual addresses. The lemmas show
  that the index and offset accessors split a 32-bit address without loss, that every index is
  within its table, and that an entry built from an address and flags gives both back.
\<close>

section \<open>Sizes, shifts, masks and flags\<close>

definition PAGE_SIZE_4K :: "'a::len word" where [xconst]: "PAGE_SIZE_4K = 0x1000"
definition PAGE_SIZE_2M :: "'a::len word" where [xconst]: "PAGE_SIZE_2M = 0x200000"
definition PAGE_SIZE_4M :: "'a::len word" where [xconst]: "PAGE_SIZE_4M = 0x400000"

definition PAE_PTRS_PER_PDPT :: nat where [xconst]: "PAE_PTRS_PER_PDPT = 4"
definition PAE_PTRS_PER_PDT :: nat where [xconst]: "PAE_PTRS_PER_PDT = 512"
definition PAE_PTRS_PER_PT :: nat where [xconst]: "PAE_PTRS_PER_PT = 512"

definition PAGE_PRESENT :: "'a::len word" where [xconst]: "PAGE_PRESENT = 0x001"
definition PAGE_RW :: "'a::len word" where [xconst]: "PAGE_RW = 0x002"
definition PAGE_USER :: "'a::len word" where [xconst]: "PAGE_USER = 0x004"
definition PAGE_PSE :: "'a::len word" where [xconst]: "PAGE_PSE = 0x080"
definition PAGE_NX :: u64 where [xconst]: "PAGE_NX = 0x8000000000000000"

definition PAGE_ALIGN_UP4K :: "u32 \<Rightarrow> u32" where
  "PAGE_ALIGN_UP4K sz = (sz + PAGE_SIZE_4K - 1) AND NOT (PAGE_SIZE_4K - 1)"
definition PAGE_ALIGN_4K :: "u32 \<Rightarrow> u32" where
  "PAGE_ALIGN_4K sz = sz AND NOT (PAGE_SIZE_4K - 1)"
definition PAGE_ALIGNED_4K :: "u32 \<Rightarrow> bool" where
  "PAGE_ALIGNED_4K sz \<longleftrightarrow> PAGE_ALIGN_4K sz = sz"

section \<open>PAE entries\<close>

definition pae_make_pdpe :: "u64 \<Rightarrow> u64 \<Rightarrow> u64" where [xops]:
  "pae_make_pdpe paddr flags = (paddr AND NOT ((PAGE_SIZE_4K - 1) OR PAGE_NX)) OR flags"
definition pae_make_pde_big :: "u64 \<Rightarrow> u64 \<Rightarrow> u64" where [xops]:
  "pae_make_pde_big paddr flags = (paddr AND NOT ((PAGE_SIZE_2M - 1) OR PAGE_NX)) OR flags"
definition pae_make_pde :: "u64 \<Rightarrow> u64 \<Rightarrow> u64" where [xops]:
  "pae_make_pde paddr flags = (paddr AND NOT ((PAGE_SIZE_4K - 1) OR PAGE_NX)) OR flags"
definition pae_make_pte :: "u64 \<Rightarrow> u64 \<Rightarrow> u64" where [xops]:
  "pae_make_pte paddr flags = (paddr AND NOT ((PAGE_SIZE_4K - 1) OR PAGE_NX)) OR flags"

definition pae_get_addr_from_32bit_cr3 :: "u32 \<Rightarrow> u32" where [xops]:
  "pae_get_addr_from_32bit_cr3 entry = entry AND NOT (0x20 - 1)"
definition pae_get_addr_from_pdpe :: "u64 \<Rightarrow> u64" where [xops]:
  "pae_get_addr_from_pdpe entry = entry AND NOT ((PAGE_SIZE_4K - 1) OR PAGE_NX)"
definition pae_get_flags_from_pdpe :: "u64 \<Rightarrow> u64" where [xops]:
  "pae_get_flags_from_pdpe entry = entry AND ((PAGE_SIZE_4K - 1) OR PAGE_NX)"
definition pae_get_addr_from_pde_big :: "u64 \<Rightarrow> u64" where [xops]:
  "pae_get_addr_from_pde_big entry = entry AND NOT ((PAGE_SIZE_2M - 1) OR PAGE_NX)"
definition pae_get_flags_from_pde_big :: "u64 \<Rightarrow> u64" where [xops]:
  "pae_get_flags_from_pde_big entry = entry AND ((PAGE_SIZE_2M - 1) OR PAGE_NX)"
definition pae_get_addr_from_pde :: "u64 \<Rightarrow> u64" where [xops]:
  "pae_get_addr_from_pde entry = entry AND NOT ((PAGE_SIZE_4K - 1) OR PAGE_NX)"
definition pae_get_flags_from_pde :: "u64 \<Rightarrow> u64" where [xops]:
  "pae_get_flags_from_pde entry = entry AND ((PAGE_SIZE_4K - 1) OR PAGE_NX)"
definition pae_get_addr_from_pte :: "u64 \<Rightarrow> u64" where [xops]:
  "pae_get_addr_from_pte entry = entry AND NOT ((PAGE_SIZE_4K - 1) OR PAGE_NX)"
definition pae_get_flags_from_pte :: "u64 \<Rightarrow> u64" where [xops]:
  "pae_get_flags_from_pte entry = entry AND ((PAGE_SIZE_4K - 1) OR PAGE_NX)"

section \<open>Non-PAE entries\<close>

definition npae_get_addr_from_32bit_cr3 :: "u32 \<Rightarrow> u32" where [xops]:
  "npae_get_addr_from_32bit_cr3 entry = entry AND NOT (PAGE_SIZE_4K - 1)"
definition npae_get_addr_from_pde :: "u32 \<Rightarrow> u32" where [xops]:
  "npae_get_addr_from_pde entry = entry AND NOT (PAGE_SIZE_4K - 1)"
definition npae_get_addr_from_pde_big :: "u32 \<Rightarrow> u32" where [xops]:
  "npae_get_addr_from_pde_big entry = entry AND NOT (PAGE_SIZE_4M - 1)"
definition npae_get_addr_from_pte :: "u32 \<Rightarrow> u32" where [xops]:
  "npae_get_addr_from_pte entry = entry AND NOT (PAGE_SIZE_4K - 1)"

section \<open>Fields of a virtual address\<close>

definition pae_get_offset_4K_page :: "u32 \<Rightarrow> u32" where [xops]:
  "pae_get_offset_4K_page vaddr = vaddr AND (PAGE_SIZE_4K - 1)"
definition pae_get_offset_big :: "u32 \<Rightarrow> u32" where [xops]:
  "pae_get_offset_big vaddr = vaddr AND (PAGE_SIZE_2M - 1)"
definition npae_get_offset_4K_page :: "u32 \<Rightarrow> u32" where [xops]:
  "npae_get_offset_4K_page vaddr = vaddr AND (PAGE_SIZE_4K - 1)"
definition npae_get_offset_big :: "u32 \<Rightarrow> u32" where [xops]:
  "npae_get_offset_big vaddr = vaddr AND (PAGE_SIZE_4M - 1)"
definition pae_get_pdpt_index :: "u32 \<Rightarrow> u32" where [xops]:
  "pae_get_pdpt_index paddr = drop_bit 30 (paddr AND 0xc0000000)"
definition pae_get_pdt_index :: "u32 \<Rightarrow> u32" where [xops]:
  "pae_get_pdt_index paddr = drop_bit 21 (paddr AND 0x3fe00000)"
definition pae_get_pt_index :: "u32 \<Rightarrow> u32" where [xops]:
  "pae_get_pt_index paddr = drop_bit 12 (paddr AND 0x001ff000)"
definition npae_get_pdt_index :: "u32 \<Rightarrow> u32" where [xops]:
  "npae_get_pdt_index paddr = drop_bit 22 (paddr AND 0xffc00000)"
definition npae_get_pt_index :: "u32 \<Rightarrow> u32" where [xops]:
  "npae_get_pt_index paddr = drop_bit 12 (paddr AND 0x003ff000)"

section \<open>Properties\<close>

lemmas pae_fields = pae_get_pdpt_index_def pae_get_pdt_index_def pae_get_pt_index_def
  pae_get_offset_4K_page_def pae_get_offset_big_def
lemmas npae_fields = npae_get_pdt_index_def npae_get_pt_index_def
  npae_get_offset_4K_page_def npae_get_offset_big_def

lemma pae_index_take:
  "pae_get_pdpt_index va = take_bit 2 (drop_bit 30 va)"
  "pae_get_pdt_index va = take_bit 9 (drop_bit 21 va)"
  "pae_get_pt_index va = take_bit 9 (drop_bit 12 va)"
  "pae_get_offset_4K_page va = take_bit 12 va"
  "pae_get_offset_big va = take_bit 21 va"
  by (rule u32_bitsI, simp add: pae_fields bit_simps xconst)+

lemma npae_index_take:
  "npae_get_pdt_index va = take_bit 10 (drop_bit 22 va)"
  "npae_get_pt_index va = take_bit 10 (drop_bit 12 va)"
  "npae_get_offset_4K_page va = take_bit 12 va"
  "npae_get_offset_big va = take_bit 22 va"
  by (rule u32_bitsI, simp add: npae_fields bit_simps xconst)+

lemma unat_take_bit_less: "unat (take_bit n x :: 'a::len word) < 2 ^ n"
  by (simp add: unsigned_take_bit_eq)

lemma pae_index_bounds:
  "unat (pae_get_pdpt_index va) < PAE_PTRS_PER_PDPT"
  "unat (pae_get_pdt_index va) < PAE_PTRS_PER_PDT"
  "unat (pae_get_pt_index va) < PAE_PTRS_PER_PT"
  using unat_take_bit_less[of 2 "drop_bit 30 va"] unat_take_bit_less[of 9 "drop_bit 21 va"]
    unat_take_bit_less[of 9 "drop_bit 12 va"]
  by (simp_all add: pae_index_take xconst)

text \<open>
  The four fields the PAE accessors cut out of a 32-bit address are a lossless split of it:
  placed back at their positions they give the address again.
\<close>

theorem pae_address_split:
  "push_bit 30 (pae_get_pdpt_index va) OR push_bit 21 (pae_get_pdt_index va)
    OR push_bit 12 (pae_get_pt_index va) OR pae_get_offset_4K_page va = va"
  by (rule u32_bitsI) (simp add: pae_fields bit_simps xconst)

lemma npae_address_split:
  "push_bit 22 (npae_get_pdt_index va) OR push_bit 12 (npae_get_pt_index va)
    OR npae_get_offset_4K_page va = va"
  by (rule u32_bitsI) (simp add: npae_fields bit_simps xconst)

lemma pae_pte_roundtrip:
  assumes "flags AND NOT ((PAGE_SIZE_4K - 1) OR PAGE_NX) = 0"
  shows "pae_get_addr_from_pte (pae_make_pte paddr flags)
      = paddr AND NOT ((PAGE_SIZE_4K - 1) OR PAGE_NX)"
    and "pae_get_flags_from_pte (pae_make_pte paddr flags) = flags"
proof -
  let ?M = "(PAGE_SIZE_4K - 1) OR PAGE_NX :: u64"
  have f: "bit ?M n" if "bit flags n" for n
    using assms that by (rule bit_of_masked)
  show "pae_get_addr_from_pte (pae_make_pte paddr flags) = paddr AND NOT ?M"
    unfolding pae_get_addr_from_pte_def pae_make_pte_def
    by (rule bit_word_eqI) (use f in \<open>auto simp only: bit_and_iff bit_or_iff bit_not_iff\<close>)
  show "pae_get_flags_from_pte (pae_make_pte paddr flags) = flags"
    unfolding pae_get_flags_from_pte_def pae_make_pte_def
    by (rule bit_word_eqI) (use f in \<open>auto simp only: bit_and_iff bit_or_iff bit_not_iff\<close>)
qed

end
