(* ===== verification/XMHF_Platform.thy ===== *)
theory XMHF_Platform
  imports XMHF_Paging
begin

text \<open>
  The data of the hypervisor core: the constants of the x86, VMX and MSR headers the modelled
  code uses, the C structures as records (\<^verbatim>\<open>struct regs\<close>, \<^verbatim>\<open>struct _vmx_vmcsfields\<close>,
  \<^verbatim>\<open>struct _memorytype\<close>, \<^verbatim>\<open>VCPU\<close>, \<^verbatim>\<open>MIDTAB\<close>, \<^verbatim>\<open>GRUBE820\<close>, \<^verbatim>\<open>RPB\<close>), the state the
  operations pass along, and the address translations of \<^verbatim>\<open>xmhf-baseplatform.h\<close>.

  A \<^verbatim>\<open>VCPU *\<close> is a \<^typ>\<open>u32\<close> pointer into the store \<open>vcpus\<close>, so that a handler which
  reaches another core's structure through the master-id table can alias its own. Processor
  instructions with an input (\<^verbatim>\<open>rdmsr\<close>, \<^verbatim>\<open>cpuid\<close>, port reads) are functions of the
  \<open>hardware\<close> record, a parameter of the model; instructions with an effect outside memory are
  recorded in \<open>hwlog\<close>, oldest first.
\<close>

section \<open>Constants\<close>

definition EFLAGS_CF :: "'a::len word" where [xconst]: "EFLAGS_CF = 0x00000001"
definition EFLAGS_TF :: "'a::len word" where [xconst]: "EFLAGS_TF = 0x00000100"
definition EFLAGS_IF :: "'a::len word" where [xconst]: "EFLAGS_IF = 0x00000200"
definition EFLAGS_VM :: "'a::len word" where [xconst]: "EFLAGS_VM = 0x00020000"
definition CR0_PE :: "'a::len word" where [xconst]: "CR0_PE = 0x00000001"
definition CR0_NW :: "'a::len word" where [xconst]: "CR0_NW = 0x20000000"
definition CR0_CD :: "'a::len word" where [xconst]: "CR0_CD = 0x40000000"
definition CR0_PG :: "'a::len word" where [xconst]: "CR0_PG = 0x80000000"
definition CR4_PAE :: "'a::len word" where [xconst]: "CR4_PAE = 0x0020"
definition CPU_VENDOR_INTEL :: "'a::len word" where [xconst]: "CPU_VENDOR_INTEL = 0xAB"
definition CPU_VENDOR_AMD :: "'a::len word" where [xconst]: "CPU_VENDOR_AMD = 0xCD"
definition CPU_EXCEPTION_NMI :: "'a::len word" where [xconst]: "CPU_EXCEPTION_NMI = 2"
definition XCR_XFEATURE_ENABLED_MASK :: "'a::len word" where [xconst]: "XCR_XFEATURE_ENABLED_MASK = 0"
definition LAPIC_ICR_LOW :: "'a::len word" where [xconst]: "LAPIC_ICR_LOW = 0x300"
definition LAPIC_ICR_HIGH :: "'a::len word" where [xconst]: "LAPIC_ICR_HIGH = 0x310"
definition LAPIC_OP_RSVD :: "'a::len word" where [xconst]: "LAPIC_OP_RSVD = 3"
definition LAPIC_OP_READ :: "'a::len word" where [xconst]: "LAPIC_OP_READ = 2"
definition LAPIC_OP_WRITE :: "'a::len word" where [xconst]: "LAPIC_OP_WRITE = 1"
definition INTR_INFO_VECTOR_MASK :: "'a::len word" where [xconst]: "INTR_INFO_VECTOR_MASK = 0x000000ff"
definition INTR_INFO_INTR_TYPE_MASK :: "'a::len word" where [xconst]: "INTR_INFO_INTR_TYPE_MASK = 0x00000700"
definition INTR_INFO_VALID_MASK :: "'a::len word" where [xconst]: "INTR_INFO_VALID_MASK = 0x80000000"
definition INTR_TYPE_NMI :: "'a::len word" where [xconst]: "INTR_TYPE_NMI = 0x200"
definition NMI_VECTOR :: "'a::len word" where [xconst]: "NMI_VECTOR = 0x2"
definition VMX_VMEXIT_EXCEPTION :: "'a::len word" where [xconst]: "VMX_VMEXIT_EXCEPTION = 0x00"
definition VMX_VMEXIT_INIT :: "'a::len word" where [xconst]: "VMX_VMEXIT_INIT = 0x3"
definition VMX_VMEXIT_TASKSWITCH :: "'a::len word" where [xconst]: "VMX_VMEXIT_TASKSWITCH = 0x9"
definition VMX_VMEXIT_CPUID :: "'a::len word" where [xconst]: "VMX_VMEXIT_CPUID = 0x0a"
definition VMX_VMEXIT_HLT :: "'a::len word" where [xconst]: "VMX_VMEXIT_HLT = 12"
definition VMX_VMEXIT_VMCALL :: "'a::len word" where [xconst]: "VMX_VMEXIT_VMCALL = 18"
definition VMX_VMEXIT_CRX_ACCESS :: "'a::len word" where [xconst]: "VMX_VMEXIT_CRX_ACCESS = 0x1C"
definition VMX_VMEXIT_IOIO :: "'a::len word" where [xconst]: "VMX_VMEXIT_IOIO = 30"
definition VMX_VMEXIT_RDMSR :: "'a::len word" where [xconst]: "VMX_VMEXIT_RDMSR = 0x1f"
definition VMX_VMEXIT_WRMSR :: "'a::len word" where [xconst]: "VMX_VMEXIT_WRMSR = 0x20"
definition VMX_VMEXIT_EPT_VIOLATION :: "'a::len word" where [xconst]: "VMX_VMEXIT_EPT_VIOLATION = 0x30"
definition VMX_VMEXIT_XSETBV :: "'a::len word" where [xconst]: "VMX_VMEXIT_XSETBV = 55"
definition VMX_CRX_ACCESS_TO :: "'a::len word" where [xconst]: "VMX_CRX_ACCESS_TO = 0x0"
definition TASK_SWITCH_GATE :: "'a::len word" where [xconst]: "TASK_SWITCH_GATE = 3"
definition IO_SIZE_BYTE :: "'a::len word" where [xconst]: "IO_SIZE_BYTE = 0x0"
definition IO_SIZE_WORD :: "'a::len word" where [xconst]: "IO_SIZE_WORD = 0x1"
definition IO_SIZE_DWORD :: "'a::len word" where [xconst]: "IO_SIZE_DWORD = 0x3"
definition IO_TYPE_IN :: "'a::len word" where [xconst]: "IO_TYPE_IN = 0x1"
definition IO_TYPE_OUT :: "'a::len word" where [xconst]: "IO_TYPE_OUT = 0x0"
definition EPT_ERRORCODE_WRITE :: "'a::len word" where [xconst]: "EPT_ERRORCODE_WRITE = 2"
definition EPT_PROT_READ :: "'a::len word" where [xconst]: "EPT_PROT_READ = 1"
definition EPT_PROT_WRITE :: "'a::len word" where [xconst]: "EPT_PROT_WRITE = 2"
definition VMX_INVEPT_SINGLECONTEXT :: "'a::len word" where [xconst]: "VMX_INVEPT_SINGLECONTEXT = 1"
definition VMX_INVVPID_SINGLECONTEXT :: "'a::len word" where [xconst]: "VMX_INVVPID_SINGLECONTEXT = 1"
definition VMX_UG_E820HOOK_CS :: "'a::len word" where [xconst]: "VMX_UG_E820HOOK_CS = 0x0040"
definition VMX_UG_E820HOOK_IP :: "'a::len word" where [xconst]: "VMX_UG_E820HOOK_IP = 0x00AC"
definition MSR_APIC_BASE :: "'a::len word" where [xconst]: "MSR_APIC_BASE = 0x0000001B"
definition IA32_SYSENTER_CS_MSR :: "'a::len word" where [xconst]: "IA32_SYSENTER_CS_MSR = 0x174"
definition IA32_SYSENTER_EIP_MSR :: "'a::len word" where [xconst]: "IA32_SYSENTER_EIP_MSR = 0x176"
definition IA32_SYSENTER_ESP_MSR :: "'a::len word" where [xconst]: "IA32_SYSENTER_ESP_MSR = 0x175"
definition IA32_MTRRCAP :: "'a::len word" where [xconst]: "IA32_MTRRCAP = 0x000000fe"
definition IA32_MTRR_PHYSBASE0 :: "'a::len word" where [xconst]: "IA32_MTRR_PHYSBASE0 = 0x00000200"
definition MTRR_TYPE_UC :: "'a::len word" where [xconst]: "MTRR_TYPE_UC = 0x0"
definition MTRR_TYPE_WT :: "'a::len word" where [xconst]: "MTRR_TYPE_WT = 0x4"
definition MTRR_TYPE_WB :: "'a::len word" where [xconst]: "MTRR_TYPE_WB = 0x6"
definition MTRR_TYPE_RESV :: "'a::len word" where [xconst]: "MTRR_TYPE_RESV = 0x7"
definition APP_SUCCESS :: "'a::len word" where [xconst]: "APP_SUCCESS = 0x1"
definition APP_ERROR :: "'a::len word" where [xconst]: "APP_ERROR = 0x0"
definition APP_IOINTERCEPT_CHAIN :: "'a::len word" where [xconst]: "APP_IOINTERCEPT_CHAIN = 0xA0"
definition APP_IOINTERCEPT_SKIP :: "'a::len word" where [xconst]: "APP_IOINTERCEPT_SKIP = 0xA1"

definition MAX_MEMORYTYPE_ENTRIES :: nat where [xconst]: "MAX_MEMORYTYPE_ENTRIES = 98"
definition MAX_FIXED_MEMORYTYPE_ENTRIES :: nat where [xconst]: "MAX_FIXED_MEMORYTYPE_ENTRIES = 88"
definition MAX_VARIABLE_MEMORYTYPE_ENTRIES :: nat where [xconst]:
  "MAX_VARIABLE_MEMORYTYPE_ENTRIES = 10"

section \<open>Structures\<close>

record regs =
  edi :: u32
  esi :: u32
  ebp :: u32
  esp :: u32
  ebx :: u32
  edx :: u32
  ecx :: u32
  eax :: u32

text \<open>The fields \<^verbatim>\<open>reserved[6]\<close> of a memory type entry are never read and left out.\<close>

record memorytype =
  startaddr :: u64
  endaddr :: u64
  mt_type :: u32
  mt_invalid :: u32

record MIDTAB =
  cpu_lapic_id :: u32
  vcpu_vaddr_ptr :: u32

record GRUBE820 =
  baseaddr_low :: u32
  baseaddr_high :: u32
  length_low :: u32
  length_high :: u32
  e820_type :: u32

text \<open>The numeric fields of the runtime parameter block; its UART and command line are left out.\<close>

record RPB =
  magic :: u32
  XtVmmEntryPoint :: u32
  XtVmmPdptBase :: u32
  XtVmmPdtsBase :: u32
  XtGuestOSBootModuleBase :: u32
  XtGuestOSBootModuleSize :: u32
  runtime_appmodule_base :: u32
  runtime_appmodule_size :: u32
  XtVmmStackBase :: u32
  XtVmmStackSize :: u32
  XtVmmGdt :: u32
  XtVmmIdt :: u32
  XtVmmIdtFunctionPointers :: u32
  XtVmmIdtEntries :: u32
  XtVmmRuntimePhysBase :: u32
  XtVmmRuntimeVirtBase :: u32
  XtVmmRuntimeSize :: u32
  XtVmmE820Buffer :: u32
  XtVmmE820NumEntries :: u32
  XtVmmMPCpuinfoBuffer :: u32
  XtVmmMPCpuinfoNumEntries :: u32
  XtVmmTSSBase :: u32
  isEarlyInit :: u32

record vmcsfields =
  control_vpid :: u32
  control_VMX_pin_based :: u32
  control_VMX_cpu_based :: u32
  control_VMX_seccpu_based :: u32
  control_exception_bitmap :: u32
  control_pagefault_errorcode_mask :: u32
  control_pagefault_errorcode_match :: u32
  control_CR3_target_count :: u32
  control_VM_exit_controls :: u32
  control_VM_exit_MSR_store_count :: u32
  control_VM_exit_MSR_load_count :: u32
  control_VM_entry_controls :: u32
  control_VM_entry_MSR_load_count :: u32
  control_VM_entry_interruption_information :: u32
  control_VM_entry_exception_errorcode :: u32
  control_VM_entry_instruction_length :: u32
  control_Task_PRivilege_Threshold :: u32
  control_CR0_mask :: u64
  control_CR4_mask :: u64
  control_CR0_shadow :: u64
  control_CR4_shadow :: u64
  control_CR3_target0 :: u64
  control_CR3_target1 :: u64
  control_CR3_target2 :: u64
  control_CR3_target3 :: u64
  control_IO_BitmapA_address_full :: u32
  control_IO_BitmapA_address_high :: u32
  control_IO_BitmapB_address_full :: u32
  control_IO_BitmapB_address_high :: u32
  control_MSR_Bitmaps_address_full :: u32
  control_MSR_Bitmaps_address_high :: u32
  control_VM_exit_MSR_store_address_full :: u32
  control_VM_exit_MSR_store_address_high :: u32
  control_VM_exit_MSR_load_address_full :: u32
  control_VM_exit_MSR_load_address_high :: u32
  control_VM_entry_MSR_load_address_full :: u32
  control_VM_entry_MSR_load_address_high :: u32
  control_Executive_VMCS_pointer_full :: u32
  control_Executive_VMCS_pointer_high :: u32
  control_TSC_offset_full :: u32
  control_TSC_offset_high :: u32
  control_virtual_APIC_page_address_full :: u32
  control_virtual_APIC_page_address_high :: u32
  control_EPT_pointer_full :: u32
  control_EPT_pointer_high :: u32
  host_CR0 :: u64
  host_CR3 :: u64
  host_CR4 :: u64
  host_FS_base :: u64
  host_GS_base :: u64
  host_TR_base :: u64
  host_GDTR_base :: u64
  host_IDTR_base :: u64
  host_SYSENTER_ESP :: u64
  host_SYSENTER_EIP :: u64
  host_RSP :: u64
  host_RIP :: u64
  host_SYSENTER_CS :: u32
  host_ES_selector :: u32
  host_CS_selector :: u32
  host_SS_selector :: u32
  host_DS_selector :: u32
  host_FS_selector :: u32
  host_GS_selector :: u32
  host_TR_selector :: u32
  guest_CR0 :: u64
  guest_CR3 :: u64
  guest_CR4 :: u64
  guest_ES_base :: u64
  guest_CS_base :: u64
  guest_SS_base :: u64
  guest_DS_base :: u64
  guest_FS_base :: u64
  guest_GS_base :: u64
  guest_LDTR_base :: u64
  guest_TR_base :: u64
  guest_GDTR_base :: u64
  guest_IDTR_base :: u64
  guest_DR7 :: u64
  guest_RSP :: u64
  guest_RIP :: u64
  guest_RFLAGS :: u64
  guest_pending_debug_x :: u64
  guest_SYSENTER_ESP :: u64
  guest_SYSENTER_EIP :: u64
  guest_ES_limit :: u32
  guest_CS_limit :: u32
  guest_SS_limit :: u32
  guest_DS_limit :: u32
  guest_FS_limit :: u32
  guest_GS_limit :: u32
  guest_LDTR_limit :: u32
  guest_TR_limit :: u32
  guest_GDTR_limit :: u32
  guest_IDTR_limit :: u32
  guest_ES_access_rights :: u32
  guest_CS_access_rights :: u32
  guest_SS_access_rights :: u32
  guest_DS_access_rights :: u32
  guest_FS_access_rights :: u32
  guest_GS_access_rights :: u32
  guest_LDTR_access_rights :: u32
  guest_TR_access_rights :: u32
  guest_interruptibility :: u32
  guest_activity_state :: u32
  guest_SMBASE :: u32
  guest_SYSENTER_CS :: u32
  guest_ES_selector :: u32
  guest_CS_selector :: u32
  guest_SS_selector :: u32
  guest_DS_selector :: u32
  guest_FS_selector :: u32
  guest_GS_selector :: u32
  guest_LDTR_selector :: u32
  guest_TR_selector :: u32
  guest_VMCS_link_pointer_full :: u32
  guest_VMCS_link_pointer_high :: u32
  guest_IA32_DEBUGCTL_full :: u32
  guest_IA32_DEBUGCTL_high :: u32
  guest_paddr_full :: u32
  guest_paddr_high :: u32
  guest_PDPTE0_full :: u32
  guest_PDPTE0_high :: u32
  guest_PDPTE1_full :: u32
  guest_PDPTE1_high :: u32
  guest_PDPTE2_full :: u32
  guest_PDPTE2_high :: u32
  guest_PDPTE3_full :: u32
  guest_PDPTE3_high :: u32
  info_vminstr_error :: u32
  info_vmexit_reason :: u32
  info_vmexit_interrupt_information :: u32
  info_vmexit_interrupt_error_code :: u32
  info_IDT_vectoring_information :: u32
  info_IDT_vectoring_error_code :: u32
  info_vmexit_instruction_length :: u32
  info_vmx_instruction_information :: u32
  info_exit_qualification :: u64
  info_IO_RCX :: u64
  info_IO_RSI :: u64
  info_IO_RDI :: u64
  info_IO_RIP :: u64
  info_guest_linear_address :: u64

text \<open>
  The \<^verbatim>\<open>VCPU\<close> structure. \<open>vcpu_id\<close> and \<open>vcpu_esp\<close> are its fields \<^verbatim>\<open>id\<close> and
  \<^verbatim>\<open>esp\<close>, renamed because of the name clash.
\<close>

record VCPU =
  vcpu_esp :: u32
  sipi_page_vaddr :: u32
  vcpu_id :: u32
  idx :: u32
  sipivector :: u32
  sipireceived :: u32
  cpu_vendor :: u32
  isbsp :: u32
  quiesced :: u32
  hsave_vaddr_ptr :: u32
  vmcb_vaddr_ptr :: u32
  npt_vaddr_ptr :: u32
  npt_vaddr_pdts :: u32
  npt_asid :: u32
  npt_vaddr_pts :: u32
  svm_vaddr_iobitmap :: u32
  vmx_msrs :: "u64 list"
  vmx_msr_efer :: u64
  vmx_msr_efcr :: u64
  vmx_vmxonregion_vaddr :: u32
  vmx_vmcs_vaddr :: u32
  vmx_vaddr_iobitmap :: u32
  vmx_vaddr_msr_area_host :: u32
  vmx_vaddr_msr_area_guest :: u32
  vmx_vaddr_msrbitmaps :: u32
  vmx_vaddr_ept_pml4_table :: u32
  vmx_vaddr_ept_pdp_table :: u32
  vmx_vaddr_ept_pd_tables :: u32
  vmx_vaddr_ept_p_tables :: u32
  vmx_ept_memorytypes :: "memorytype list"
  vmx_guestmtrrmsrs :: "(u32 \<times> u32) list"
  vmx_guest_currentstate :: u32
  vmx_guest_nextstate :: u32
  vmx_guest_unrestricted :: u32
  vmcs :: vmcsfields

text \<open>The cleared structures, as \<^verbatim>\<open>memset\<close> leaves them before a core is set up.\<close>

definition zero_vmcs :: vmcsfields where
  "zero_vmcs = \<lparr>control_vpid = 0, control_VMX_pin_based = 0, control_VMX_cpu_based = 0,
     control_VMX_seccpu_based = 0, control_exception_bitmap = 0,
     control_pagefault_errorcode_mask = 0, control_pagefault_errorcode_match = 0,
     control_CR3_target_count = 0, control_VM_exit_controls = 0,
     control_VM_exit_MSR_store_count = 0, control_VM_exit_MSR_load_count = 0,
     control_VM_entry_controls = 0, control_VM_entry_MSR_load_count = 0,
     control_VM_entry_interruption_information = 0, control_VM_entry_exception_errorcode = 0,
     control_VM_entry_instruction_length = 0, control_Task_PRivilege_Threshold = 0,
     control_CR0_mask = 0, control_CR4_mask = 0, control_CR0_shadow = 0, control_CR4_shadow = 0,
     control_CR3_target0 = 0, control_CR3_target1 = 0, control_CR3_target2 = 0,
     control_CR3_target3 = 0, control_IO_BitmapA_address_full = 0,
     control_IO_BitmapA_address_high = 0, control_IO_BitmapB_address_full = 0,
     control_IO_BitmapB_address_high = 0, control_MSR_Bitmaps_address_full = 0,
     control_MSR_Bitmaps_address_high = 0, control_VM_exit_MSR_store_address_full = 0,
     control_VM_exit_MSR_store_address_high = 0, control_VM_exit_MSR_load_address_full = 0,
     control_VM_exit_MSR_load_address_high = 0, control_VM_entry_MSR_load_address_full = 0,
     control_VM_entry_MSR_load_address_high = 0, control_Executive_VMCS_pointer_full = 0,
     control_Executive_VMCS_pointer_high = 0, control_TSC_offset_full = 0,
     control_TSC_offset_high = 0, control_virtual_APIC_page_address_full = 0,
     control_virtual_APIC_page_address_high = 0, control_EPT_pointer_full = 0,
     control_EPT_pointer_high = 0, host_CR0 = 0, host_CR3 = 0, host_CR4 = 0, host_FS_base = 0,
     host_GS_base = 0, host_TR_base = 0, host_GDTR_base = 0, host_IDTR_base = 0,
     host_SYSENTER_ESP = 0, host_SYSENTER_EIP = 0, host_RSP = 0, host_RIP = 0,
     host_SYSENTER_CS = 0, host_ES_selector = 0, host_CS_selector = 0, host_SS_selector = 0,
     host_DS_selector = 0, host_FS_selector = 0, host_GS_selector = 0, host_TR_selector = 0,
     guest_CR0 = 0, guest_CR3 = 0, guest_CR4 = 0, guest_ES_base = 0, guest_CS_base = 0,
     guest_SS_base = 0, guest_DS_base = 0, guest_FS_base = 0, guest_GS_base = 0,
     guest_LDTR_base = 0, guest_TR_base = 0, guest_GDTR_base = 0, guest_IDTR_base = 0,
     guest_DR7 = 0, guest_RSP = 0, guest_RIP = 0, guest_RFLAGS = 0, guest_pending_debug_x = 0,
     guest_SYSENTER_ESP = 0, guest_SYSENTER_EIP = 0, guest_ES_limit = 0, guest_CS_limit = 0,
     guest_SS_limit = 0, guest_DS_limit = 0, guest_FS_limit = 0, guest_GS_limit = 0,
     guest_LDTR_limit = 0, guest_TR_limit = 0, guest_GDTR_limit = 0, guest_IDTR_limit = 0,
     guest_ES_access_rights = 0, guest_CS_access_rights = 0, guest_SS_access_rights = 0,
     guest_DS_access_rights = 0, guest_FS_access_rights = 0, guest_GS_access_rights = 0,
     guest_LDTR_access_rights = 0, guest_TR_access_rights = 0, guest_interruptibility = 0,
     guest_activity_state = 0, guest_SMBASE = 0, guest_SYSENTER_CS = 0, guest_ES_selector = 0,
     guest_CS_selector = 0, guest_SS_selector = 0, guest_DS_selector = 0, guest_FS_selector = 0,
     guest_GS_selector = 0, guest_LDTR_selector = 0, guest_TR_selector = 0,
     guest_VMCS_link_pointer_full = 0, guest_VMCS_link_pointer_high = 0,
     guest_IA32_DEBUGCTL_full = 0, guest_IA32_DEBUGCTL_high = 0, guest_paddr_full = 0,
     guest_paddr_high = 0, guest_PDPTE0_full = 0, guest_PDPTE0_high = 0, guest_PDPTE1_full = 0,
     guest_PDPTE1_high = 0, guest_PDPTE2_full = 0, guest_PDPTE2_high = 0, guest_PDPTE3_full = 0,
     guest_PDPTE3_high = 0, info_vminstr_error = 0, info_vmexit_reason = 0,
     info_vmexit_interrupt_information = 0, info_vmexit_interrupt_error_code = 0,
     info_IDT_vectoring_information = 0, info_IDT_vectoring_error_code = 0,
     info_vmexit_instruction_length = 0, info_vmx_instruction_information = 0,
     info_exit_qualification = 0, info_IO_RCX = 0, info_IO_RSI = 0, info_IO_RDI = 0,
     info_IO_RIP = 0, info_guest_linear_address = 0\<rparr>"

definition zero_VCPU :: VCPU where
  "zero_VCPU = \<lparr>vcpu_esp = 0, sipi_page_vaddr = 0, vcpu_id = 0, idx = 0, sipivector = 0, sipireceived = 0,
     cpu_vendor = 0, isbsp = 0, quiesced = 0, hsave_vaddr_ptr = 0, vmcb_vaddr_ptr = 0,
     npt_vaddr_ptr = 0, npt_vaddr_pdts = 0, npt_asid = 0, npt_vaddr_pts = 0,
     svm_vaddr_iobitmap = 0, vmx_msrs = [], vmx_msr_efer = 0, vmx_msr_efcr = 0,
     vmx_vmxonregion_vaddr = 0, vmx_vmcs_vaddr = 0, vmx_vaddr_iobitmap = 0,
     vmx_vaddr_msr_area_host = 0, vmx_vaddr_msr_area_guest = 0, vmx_vaddr_msrbitmaps = 0,
     vmx_vaddr_ept_pml4_table = 0, vmx_vaddr_ept_pdp_table = 0, vmx_vaddr_ept_pd_tables = 0,
     vmx_vaddr_ept_p_tables = 0, vmx_ept_memorytypes = [], vmx_guestmtrrmsrs = [],
     vmx_guest_currentstate = 0, vmx_guest_nextstate = 0, vmx_guest_unrestricted = 0,
     vmcs = zero_vmcs\<rparr>"

text \<open>
  The AMD virtual machine control block, with the fields the hypervisor uses. The injected event is the bit field
  structure of the source.
\<close>

record svmdesc =
  desc_selector :: u16
  desc_attrib :: u16
  desc_limit :: u32
  desc_base :: u64

record svmeventinj =
  inj_vector :: u8
  inj_type :: u8
  inj_ev :: bool
  inj_v :: bool
  inj_errorcode :: u32

record svm_vmcbfields =
  exception_intercepts_bitmask :: u32
  class1_intercepts_bitmask :: u32
  class2_intercepts_bitmask :: u32
  iopm_base_pa :: u64
  msrpm_base_pa :: u64
  guest_asid :: u32
  tlb_control :: u8
  exitcode :: u64
  exitinfo1 :: u64
  exitinfo2 :: u64
  np_enable :: u64
  eventinj :: svmeventinj
  n_cr3 :: u64
  vmcb_es :: svmdesc
  vmcb_cs :: svmdesc
  vmcb_ss :: svmdesc
  vmcb_ds :: svmdesc
  vmcb_fs :: svmdesc
  vmcb_gs :: svmdesc
  vmcb_idtr :: svmdesc
  vmcb_cpl :: u8
  vmcb_efer :: u64
  vmcb_cr4 :: u64
  vmcb_cr3 :: u64
  vmcb_cr0 :: u64
  vmcb_dr7 :: u64
  vmcb_dr6 :: u64
  vmcb_rflags :: u64
  vmcb_rip :: u64
  vmcb_rsp :: u64
  vmcb_rax :: u64
  vmcb_cr2 :: u64
  vmcb_g_pat :: u64

definition zero_svmdesc :: svmdesc where
  "zero_svmdesc = \<lparr>desc_selector = 0, desc_attrib = 0, desc_limit = 0, desc_base = 0\<rparr>"

definition zero_vmcb :: svm_vmcbfields where
  "zero_vmcb = \<lparr>exception_intercepts_bitmask = 0, class1_intercepts_bitmask = 0, class2_intercepts_bitmask = 0,
     iopm_base_pa = 0, msrpm_base_pa = 0, guest_asid = 0, tlb_control = 0, exitcode = 0, exitinfo1 = 0, exitinfo2 = 0,
     np_enable = 0, eventinj = \<lparr>inj_vector = 0, inj_type = 0, inj_ev = False, inj_v = False, inj_errorcode = 0\<rparr>,
     n_cr3 = 0, vmcb_es = zero_svmdesc, vmcb_cs = zero_svmdesc, vmcb_ss = zero_svmdesc, vmcb_ds = zero_svmdesc,
     vmcb_fs = zero_svmdesc, vmcb_gs = zero_svmdesc, vmcb_idtr = zero_svmdesc, vmcb_cpl = 0, vmcb_efer = 0, vmcb_cr4 = 0,
     vmcb_cr3 = 0, vmcb_cr0 = 0, vmcb_dr7 = 0, vmcb_dr6 = 0, vmcb_rflags = 0, vmcb_rip = 0, vmcb_rsp = 0, vmcb_rax = 0,
     vmcb_cr2 = 0, vmcb_g_pat = 0\<rparr>"

section \<open>Hardware\<close>

datatype hw_op =
    InvEPT u32 u64
  | InvVPID u32 u32 u32
  | WrMsr u32 u32 u32
  | OutB u8 u32
  | OutW u16 u32
  | OutL u32 u32
  | XSetBV u32 u64
  | MmioWrite32 u32 u32
  | Lgdt u32 u16
  | Lidt u32 u16
  | Ltr u16
  | LoadGS u16
  | WrCr0 u32
  | WrCr4 u32
  | VmxOn u64
  | VmClear u64
  | VmPtrLd u64
  | VmLaunch
  | Clgi
  | Stgi
  | VmRun u64

record hardware =
  rdmsr :: "u32 \<Rightarrow> u32 \<times> u32"
  cpuid :: "u32 \<Rightarrow> u32 \<Rightarrow> u32 \<times> u32 \<times> u32 \<times> u32"
  inb :: "u32 \<Rightarrow> u8"
  inw :: "u32 \<Rightarrow> u16"
  inl :: "u32 \<Rightarrow> u32"
  lapic_read :: "u32 \<Rightarrow> u32"

section \<open>State\<close>

text \<open>
  The state the operations share: memory and the structures, and the globals of the components.
  \<open>g_vmx_virtual_LAPIC_base\<close>, \<open>g_svm_virtual_LAPIC_base\<close>, \<open>g_svm_msrpm\<close>, \<open>x_my_gdt_start\<close> and
  \<open>user_tss\<close> hold the addresses of the arrays
  of these names; \<open>g_midtable\<close> holds the first \<^verbatim>\<open>g_midtable_numentries\<close> entries of the table.
\<close>

record xmhf_state =
  mem :: memory
  vcpus :: "u32 \<Rightarrow> VCPU"
  vmcbs :: "u32 \<Rightarrow> svm_vmcbfields"
  rpb :: RPB
  g_midtable :: "MIDTAB list"
  g_e820map :: "GRUBE820 list"
  g_vmx_lapic_base :: u32
  g_vmx_virtual_LAPIC_base :: u32
  g_vmx_lapic_reg :: u32
  g_vmx_lapic_op :: u32
  g_vmx_lapic_guest_eflags_tfifmask :: u32
  x_my_gdt_start :: u32
  user_tss :: u32
  g_vmx_quiesce :: u32
  g_svm_lapic_base :: u32
  g_svm_virtual_LAPIC_base :: u32
  g_svm_lapic_reg :: u32
  g_svm_lapic_op :: u32
  g_svm_quiesce :: u32
  g_svm_msrpm :: u32
  hwlog :: "hw_op list"

definition upd_vcpu :: "u32 \<Rightarrow> (VCPU \<Rightarrow> VCPU) \<Rightarrow> xmhf_state \<Rightarrow> xmhf_state" where
  "upd_vcpu vp f s = s\<lparr>vcpus := (vcpus s)(vp := f (vcpus s vp))\<rparr>"

definition upd_vmcs :: "u32 \<Rightarrow> (vmcsfields \<Rightarrow> vmcsfields) \<Rightarrow> xmhf_state \<Rightarrow> xmhf_state" where
  "upd_vmcs vp f = upd_vcpu vp (\<lambda>v. v\<lparr>vmcs := f (vmcs v)\<rparr>)"

definition hw_do :: "hw_op \<Rightarrow> xmhf_state \<Rightarrow> xmhf_state" where
  "hw_do a s = s\<lparr>hwlog := hwlog s @ [a]\<rparr>"

text \<open>\<^verbatim>\<open>vcpu->vmcs\<close> of the core behind the pointer.\<close>

abbreviation vmcs_of :: "u32 \<Rightarrow> xmhf_state \<Rightarrow> vmcsfields" where
  "vmcs_of vp s \<equiv> vmcs (vcpus s vp)"

lemma upd_vcpu_simps [simp]:
  "vcpus (upd_vcpu vp f s) = (vcpus s)(vp := f (vcpus s vp))"
  "mem (upd_vcpu vp f s) = mem s"
  "vmcbs (upd_vcpu vp f s) = vmcbs s"
  "rpb (upd_vcpu vp f s) = rpb s"
  "g_midtable (upd_vcpu vp f s) = g_midtable s"
  "g_e820map (upd_vcpu vp f s) = g_e820map s"
  "g_vmx_lapic_base (upd_vcpu vp f s) = g_vmx_lapic_base s"
  "g_vmx_virtual_LAPIC_base (upd_vcpu vp f s) = g_vmx_virtual_LAPIC_base s"
  "g_vmx_lapic_reg (upd_vcpu vp f s) = g_vmx_lapic_reg s"
  "g_vmx_lapic_op (upd_vcpu vp f s) = g_vmx_lapic_op s"
  "g_vmx_lapic_guest_eflags_tfifmask (upd_vcpu vp f s) = g_vmx_lapic_guest_eflags_tfifmask s"
  "x_my_gdt_start (upd_vcpu vp f s) = x_my_gdt_start s"
  "user_tss (upd_vcpu vp f s) = user_tss s"
  "g_vmx_quiesce (upd_vcpu vp f s) = g_vmx_quiesce s"
  "g_svm_lapic_base (upd_vcpu vp f s) = g_svm_lapic_base s"
  "g_svm_virtual_LAPIC_base (upd_vcpu vp f s) = g_svm_virtual_LAPIC_base s"
  "g_svm_lapic_reg (upd_vcpu vp f s) = g_svm_lapic_reg s"
  "g_svm_lapic_op (upd_vcpu vp f s) = g_svm_lapic_op s"
  "g_svm_quiesce (upd_vcpu vp f s) = g_svm_quiesce s"
  "g_svm_msrpm (upd_vcpu vp f s) = g_svm_msrpm s"
  "hwlog (upd_vcpu vp f s) = hwlog s"
  by (simp_all add: upd_vcpu_def)

lemma upd_vmcs_simps [simp]:
  "vcpus (upd_vmcs vp f s) = (vcpus s)(vp := (vcpus s vp)\<lparr>vmcs := f (vmcs_of vp s)\<rparr>)"
  "mem (upd_vmcs vp f s) = mem s"
  "vmcbs (upd_vmcs vp f s) = vmcbs s"
  "rpb (upd_vmcs vp f s) = rpb s"
  "g_midtable (upd_vmcs vp f s) = g_midtable s"
  "g_e820map (upd_vmcs vp f s) = g_e820map s"
  "g_vmx_lapic_base (upd_vmcs vp f s) = g_vmx_lapic_base s"
  "g_vmx_virtual_LAPIC_base (upd_vmcs vp f s) = g_vmx_virtual_LAPIC_base s"
  "g_vmx_lapic_reg (upd_vmcs vp f s) = g_vmx_lapic_reg s"
  "g_vmx_lapic_op (upd_vmcs vp f s) = g_vmx_lapic_op s"
  "g_vmx_lapic_guest_eflags_tfifmask (upd_vmcs vp f s) = g_vmx_lapic_guest_eflags_tfifmask s"
  "x_my_gdt_start (upd_vmcs vp f s) = x_my_gdt_start s"
  "user_tss (upd_vmcs vp f s) = user_tss s"
  "g_vmx_quiesce (upd_vmcs vp f s) = g_vmx_quiesce s"
  "g_svm_lapic_base (upd_vmcs vp f s) = g_svm_lapic_base s"
  "g_svm_virtual_LAPIC_base (upd_vmcs vp f s) = g_svm_virtual_LAPIC_base s"
  "g_svm_lapic_reg (upd_vmcs vp f s) = g_svm_lapic_reg s"
  "g_svm_lapic_op (upd_vmcs vp f s) = g_svm_lapic_op s"
  "g_svm_quiesce (upd_vmcs vp f s) = g_svm_quiesce s"
  "g_svm_msrpm (upd_vmcs vp f s) = g_svm_msrpm s"
  "hwlog (upd_vmcs vp f s) = hwlog s"
  by (simp_all add: upd_vmcs_def)

lemma hw_do_simps [simp]:
  "vcpus (hw_do a s) = vcpus s"
  "mem (hw_do a s) = mem s"
  "vmcbs (hw_do a s) = vmcbs s"
  "rpb (hw_do a s) = rpb s"
  "g_midtable (hw_do a s) = g_midtable s"
  "g_e820map (hw_do a s) = g_e820map s"
  "g_vmx_lapic_base (hw_do a s) = g_vmx_lapic_base s"
  "g_vmx_virtual_LAPIC_base (hw_do a s) = g_vmx_virtual_LAPIC_base s"
  "g_vmx_lapic_reg (hw_do a s) = g_vmx_lapic_reg s"
  "g_vmx_lapic_op (hw_do a s) = g_vmx_lapic_op s"
  "g_vmx_lapic_guest_eflags_tfifmask (hw_do a s) = g_vmx_lapic_guest_eflags_tfifmask s"
  "x_my_gdt_start (hw_do a s) = x_my_gdt_start s"
  "user_tss (hw_do a s) = user_tss s"
  "g_vmx_quiesce (hw_do a s) = g_vmx_quiesce s"
  "g_svm_lapic_base (hw_do a s) = g_svm_lapic_base s"
  "g_svm_virtual_LAPIC_base (hw_do a s) = g_svm_virtual_LAPIC_base s"
  "g_svm_lapic_reg (hw_do a s) = g_svm_lapic_reg s"
  "g_svm_lapic_op (hw_do a s) = g_svm_lapic_op s"
  "g_svm_quiesce (hw_do a s) = g_svm_quiesce s"
  "g_svm_msrpm (hw_do a s) = g_svm_msrpm s"
  "hwlog (hw_do a s) = hwlog s @ [a]"
  by (simp_all add: hw_do_def)

section \<open>Address translation\<close>

definition hva2spa :: "u32 \<Rightarrow> u64" where [xops]: "hva2spa hva = ucast hva"
definition spa2hva :: "u64 \<Rightarrow> u32" where [xops]: "spa2hva spa = ucast spa"
definition gpa2spa :: "u64 \<Rightarrow> u64" where [xops]: "gpa2spa gpa = gpa"
definition spa2gpa :: "u64 \<Rightarrow> u64" where [xops]: "spa2gpa spa = spa"
definition gpa2hva :: "u64 \<Rightarrow> u32" where [xops]: "gpa2hva gpa = spa2hva (gpa2spa gpa)"
definition hva2gpa :: "u32 \<Rightarrow> u64" where [xops]: "hva2gpa hva = spa2gpa (hva2spa hva)"

text \<open>
  \<^verbatim>\<open>hva2spa1\<close> computes in \<^verbatim>\<open>uintptr_t\<close> (32 bits) and widens; \<^verbatim>\<open>spa2hva1\<close> narrows
  to a pointer first.
\<close>

definition hva2spa1 :: "RPB \<Rightarrow> u32 \<Rightarrow> u64" where [xops]:
  "hva2spa1 b hva = ucast (hva + XtVmmRuntimePhysBase b - XtVmmRuntimeVirtBase b)"
definition spa2hva1 :: "RPB \<Rightarrow> u64 \<Rightarrow> u32" where [xops]:
  "spa2hva1 b spa = ucast spa - XtVmmRuntimePhysBase b + XtVmmRuntimeVirtBase b"

lemma ucast_ucast_u32 [simp]: "(ucast (ucast (x :: u32) :: u64) :: u32) = x"
  by (rule bit_word_eqI) (simp add: bit_simps)

lemma spa2hva1_hva2spa1 [simp]: "spa2hva1 b (hva2spa1 b hva) = hva"
  by (simp add: xops)

lemma gpa2hva_hva2gpa [simp]: "gpa2hva (hva2gpa hva) = hva"
  by (simp add: xops)

end
