(* ===== verification/XMHF_MemTypes.thy ===== *)
theory XMHF_MemTypes
  imports XMHF_Platform
begin

text \<open>
  Memory types of physical memory on Intel processors
  (\<^verbatim>\<open>xmhf-memprot/arch/x86/vmx/memp-x86vmx.c\<close>): \<^verbatim>\<open>_vmx_gathermemorytypes\<close> reads the
  fixed and variable MTRRs into the array \<^verbatim>\<open>vmx_ept_memorytypes\<close> of the core, and
  \<^verbatim>\<open>_vmx_getmemorytypeforphysicalpage\<close> looks a page up in it. The lemmas show that the
  array is filled without an access out of its bounds, that the fixed ranges tile the first
  megabyte, so that no page below 1M halts the hypervisor, and that the lookup obeys the MTRR
  precedence rules quoted in the source.
\<close>

section \<open>Gathering\<close>

definition IA32_MTRR_FIX64K_00000 :: u32 where [xconst]: "IA32_MTRR_FIX64K_00000 = 0x250"
definition IA32_MTRR_FIX16K_80000 :: u32 where [xconst]: "IA32_MTRR_FIX16K_80000 = 0x258"
definition IA32_MTRR_FIX16K_A0000 :: u32 where [xconst]: "IA32_MTRR_FIX16K_A0000 = 0x259"
definition IA32_MTRR_FIX4K_C0000 :: u32 where [xconst]: "IA32_MTRR_FIX4K_C0000 = 0x268"
definition IA32_MTRR_FIX4K_C8000 :: u32 where [xconst]: "IA32_MTRR_FIX4K_C8000 = 0x269"
definition IA32_MTRR_FIX4K_D0000 :: u32 where [xconst]: "IA32_MTRR_FIX4K_D0000 = 0x26a"
definition IA32_MTRR_FIX4K_D8000 :: u32 where [xconst]: "IA32_MTRR_FIX4K_D8000 = 0x26b"
definition IA32_MTRR_FIX4K_E0000 :: u32 where [xconst]: "IA32_MTRR_FIX4K_E0000 = 0x26c"
definition IA32_MTRR_FIX4K_E8000 :: u32 where [xconst]: "IA32_MTRR_FIX4K_E8000 = 0x26d"
definition IA32_MTRR_FIX4K_F0000 :: u32 where [xconst]: "IA32_MTRR_FIX4K_F0000 = 0x26e"
definition IA32_MTRR_FIX4K_F8000 :: u32 where [xconst]: "IA32_MTRR_FIX4K_F8000 = 0x26f"

text \<open>
  The eleven fixed MTRRs in the order the code reads them, each with the first address it covers
  and the size of each of its eight ranges.
\<close>

definition fixed_mtrrs :: "(u32 \<times> nat \<times> nat) list" where
  "fixed_mtrrs =
    [(IA32_MTRR_FIX64K_00000, 0x00000, 0x10000),
     (IA32_MTRR_FIX16K_80000, 0x80000, 0x4000),
     (IA32_MTRR_FIX16K_A0000, 0xA0000, 0x4000),
     (IA32_MTRR_FIX4K_C0000, 0xC0000, 0x1000),
     (IA32_MTRR_FIX4K_C8000, 0xC8000, 0x1000),
     (IA32_MTRR_FIX4K_D0000, 0xD0000, 0x1000),
     (IA32_MTRR_FIX4K_D8000, 0xD8000, 0x1000),
     (IA32_MTRR_FIX4K_E0000, 0xE0000, 0x1000),
     (IA32_MTRR_FIX4K_E8000, 0xE8000, 0x1000),
     (IA32_MTRR_FIX4K_F0000, 0xF0000, 0x1000),
     (IA32_MTRR_FIX4K_F8000, 0xF8000, 0x1000)]"

definition zero_memorytype :: memorytype where
  "zero_memorytype = \<lparr>startaddr = 0, endaddr = 0, mt_type = 0, mt_invalid = 0\<rparr>"

text \<open>
  One range of a fixed MTRR: range \<open>k\<close> has its type in byte \<open>k\<close> of \<^verbatim>\<open>edx:eax\<close>, the
  low four in \<^verbatim>\<open>eax\<close>. The entry was cleared before, so \<^verbatim>\<open>invalid\<close> stays 0.
\<close>

definition fixed_entry :: "u32 \<times> u32 \<Rightarrow> nat \<Rightarrow> nat \<Rightarrow> nat \<Rightarrow> memorytype" where
  "fixed_entry val base sz k =
    (let r = (if k < 4 then fst val else snd val) in
     \<lparr>startaddr = of_nat (base + k * sz), endaddr = of_nat (base + k * sz + sz - 1),
      mt_type = drop_bit (8 * (k mod 4)) r AND 0xFF, mt_invalid = 0\<rparr>)"

definition fixed_entries :: "hardware \<Rightarrow> memorytype list" where
  "fixed_entries hw =
    concat (map (\<lambda>(msr, base, sz). map (fixed_entry (rdmsr hw msr) base sz) [0..<8]) fixed_mtrrs)"

definition write_entry ::
  "nat \<Rightarrow> (memorytype \<Rightarrow> memorytype) \<Rightarrow> memorytype list \<Rightarrow> xmhf_error + memorytype list" where
  "write_entry i f mts =
    (if i < length mts then Inr (mts[i := f (mts ! i)]) else Inl OutOfBounds)"

text \<open>One turn of the loop over the variable MTRRs; \<open>i\<close> is the pair \<^verbatim>\<open>PHYSBASEi/PHYSMASKi\<close>.\<close>

definition read_msr64 :: "hardware \<Rightarrow> u32 \<Rightarrow> u64" where
  "read_msr64 hw msr = (let (eax, edx) = rdmsr hw msr in push_bit 32 (ucast edx) OR ucast eax)"

definition variable_entry :: "u64 \<Rightarrow> u64 \<Rightarrow> memorytype \<Rightarrow> memorytype" where
  "variable_entry vMTRR_base vMTRR_mask e =
    (if bit vMTRR_mask 11 then
       e\<lparr>startaddr := vMTRR_base AND 0xFFFFFFFFFFFFF000,
         endaddr := (vMTRR_base AND 0xFFFFFFFFFFFFF000)
           + (NOT (vMTRR_mask AND 0xFFFFFFFFFFFFF000) AND 0x0000000FFFFFFFFF),
         mt_type := ucast vMTRR_base AND 0x000000FF\<rparr>
     else e\<lparr>mt_invalid := 1\<rparr>)"

definition gather_variable ::
  "hardware \<Rightarrow> nat \<Rightarrow> nat \<times> memorytype list \<Rightarrow> xmhf_error + nat \<times> memorytype list" where
  "gather_variable hw i = (\<lambda>(index, mts).
    let msrval = IA32_MTRR_PHYSBASE0 + 2 * of_nat i;
        vMTRR_base = read_msr64 hw msrval;
        vMTRR_mask = read_msr64 hw (msrval + 1)
    in bindE (write_entry index (variable_entry vMTRR_base vMTRR_mask) mts)
         (\<lambda>mts'. Inr (index + 1, mts')))"

definition vmx_gathermemorytypes :: "hardware \<Rightarrow> u32 \<Rightarrow> xmhf_state \<Rightarrow> xmhf_error + xmhf_state" where
  "vmx_gathermemorytypes hw vp s =
    (let (_, _, _, edx) = cpuid hw 1 0 in
     if \<not> bit edx 12 then Inl Halt
     else let (eax, _) = rdmsr hw IA32_MTRRCAP;
              num_vmtrrs = unat (ucast eax :: u8)
       in bindE (HALT_ON_ERRORCOND (bit eax 8)) (\<lambda>_.
          bindE (HALT_ON_ERRORCOND (num_vmtrrs \<le> MAX_VARIABLE_MEMORYTYPE_ENTRIES)) (\<lambda>_.
          let mts = fixed_entries hw
            @ replicate (MAX_MEMORYTYPE_ENTRIES - MAX_FIXED_MEMORYTYPE_ENTRIES) zero_memorytype
          in bindE (forE num_vmtrrs 0 (gather_variable hw) (MAX_FIXED_MEMORYTYPE_ENTRIES, mts))
          (\<lambda>(index, mts').
          bindE (HALT_ON_ERRORCOND (index \<le> MAX_MEMORYTYPE_ENTRIES + 1)) (\<lambda>_.
          Inr (upd_vcpu vp (\<lambda>v. v\<lparr>vmx_ept_memorytypes := mts'\<rparr>) s))))))"

section \<open>Lookup\<close>

definition covers :: "u64 \<Rightarrow> memorytype \<Rightarrow> bool" where
  "covers pagebaseaddr e \<longleftrightarrow>
    startaddr e \<le> pagebaseaddr \<and> pagebaseaddr + PAGE_SIZE_4K - 1 \<le> endaddr e"

text \<open>The loop over the variable entries, with the running \<^verbatim>\<open>prev_type\<close>.\<close>

fun scan_variable :: "u64 \<Rightarrow> memorytype list \<Rightarrow> u32 \<Rightarrow> xmhf_error + u32" where
  "scan_variable pa [] prev_type = Inr prev_type"
| "scan_variable pa (e # es) prev_type =
    (if covers pa e \<and> mt_invalid e = 0 then
       if mt_type e = MTRR_TYPE_UC then scan_variable pa es MTRR_TYPE_UC
       else if mt_type e = MTRR_TYPE_WT \<and> prev_type \<noteq> MTRR_TYPE_UC
       then scan_variable pa es MTRR_TYPE_WT
       else if prev_type \<noteq> MTRR_TYPE_UC \<and> prev_type \<noteq> MTRR_TYPE_WT then
         if prev_type = MTRR_TYPE_RESV then scan_variable pa es (mt_type e)
         else bindE (HALT_ON_ERRORCOND (prev_type = mt_type e)) (\<lambda>_. scan_variable pa es prev_type)
       else scan_variable pa es prev_type
     else scan_variable pa es prev_type)"

definition vmx_getmemorytypeforphysicalpage :: "VCPU \<Rightarrow> u64 \<Rightarrow> xmhf_error + u32" where
  "vmx_getmemorytypeforphysicalpage v pagebaseaddr =
    (if pagebaseaddr < 1024 * 1024 then
       case find (covers pagebaseaddr)
              (take MAX_FIXED_MEMORYTYPE_ENTRIES (vmx_ept_memorytypes v)) of
         Some e \<Rightarrow> Inr (mt_type e)
       | None \<Rightarrow> Inl Halt
     else bindE (scan_variable pagebaseaddr
                   (drop MAX_FIXED_MEMORYTYPE_ENTRIES
                      (take MAX_MEMORYTYPE_ENTRIES (vmx_ept_memorytypes v)))
                   MTRR_TYPE_RESV)
       (\<lambda>prev_type. Inr (if prev_type = MTRR_TYPE_RESV then MTRR_TYPE_WB else prev_type)))"

section \<open>Properties of gathering\<close>

lemma length_fixed_entries [simp]: "length (fixed_entries hw) = 88"
  by (simp add: fixed_entries_def fixed_mtrrs_def)

lemma gather_variable_step:
  assumes "length mts = 98" and "i < 10"
  shows "gather_variable hw i (88 + i, mts)
    = Inr (88 + Suc i, mts[88 + i := variable_entry
        (read_msr64 hw (IA32_MTRR_PHYSBASE0 + 2 * of_nat i))
        (read_msr64 hw (IA32_MTRR_PHYSBASE0 + 2 * of_nat i + 1)) (mts ! (88 + i))])"
  using assms by (simp add: gather_variable_def write_entry_def Let_def)

text \<open>What the loop leaves in the array: the entries it passed are overwritten, the others kept.\<close>

definition gathered :: "hardware \<Rightarrow> nat \<Rightarrow> memorytype list \<Rightarrow> nat \<Rightarrow> memorytype" where
  "gathered hw n mts q =
    (if 88 \<le> q \<and> q < 88 + n then
       variable_entry (read_msr64 hw (IA32_MTRR_PHYSBASE0 + 2 * of_nat (q - 88)))
         (read_msr64 hw (IA32_MTRR_PHYSBASE0 + 2 * of_nat (q - 88) + 1)) (mts ! q)
     else mts ! q)"

lemma gather_variable_loop:
  assumes "n \<le> 10" and "length mts = 98"
  shows "\<exists>mts'. forE n 0 (gather_variable hw) (88, mts) = Inr (88 + n, mts')
    \<and> length mts' = 98 \<and> (\<forall>q<98. mts' ! q = gathered hw n mts q)"
proof -
  let ?inv = "\<lambda>i r. fst r = 88 + i \<and> length (snd r) = 98
    \<and> (\<forall>q<98. snd r ! q = gathered hw i mts q)"
  have "\<exists>r. forE n 0 (gather_variable hw) (88, mts) = Inr r \<and> ?inv (0 + n) r"
  proof (rule forE_total)
    fix i :: nat and r :: "nat \<times> memorytype list"
    assume i: "i < 0 + n" and r: "?inv i r"
    have "gather_variable hw i r = gather_variable hw i (88 + i, snd r)"
      using r by (metis prod.collapse)
    with gather_variable_step[of "snd r" i hw] r i assms(1)
    show "\<exists>r'. gather_variable hw i r = Inr r' \<and> ?inv (Suc i) r'"
      by (auto simp: gathered_def nth_list_update) (simp add: add.commute)
  qed (use assms(2) in \<open>auto simp: gathered_def\<close>)
  then obtain r where r: "forE n 0 (gather_variable hw) (88, mts) = Inr r" "?inv n r" by auto
  then have "r = (88 + n, snd r)" by (metis prod.collapse)
  with r show ?thesis by metis
qed

text \<open>What the code requires of the processor before it gathers.\<close>

definition num_vmtrrs :: "hardware \<Rightarrow> nat" where
  "num_vmtrrs hw = unat (ucast (fst (rdmsr hw IA32_MTRRCAP)) :: u8)"

definition mtrr_support :: "hardware \<Rightarrow> bool" where
  "mtrr_support hw \<longleftrightarrow> bit (snd (snd (snd (cpuid hw 1 0)))) 12
    \<and> bit (fst (rdmsr hw IA32_MTRRCAP)) 8 \<and> num_vmtrrs hw \<le> 10"

lemma vmx_gathermemorytypes_cases:
  "vmx_gathermemorytypes hw vp s =
    (if \<not> bit (snd (snd (snd (cpuid hw 1 0)))) 12 then Inl Halt
     else if \<not> mtrr_support hw then Inl ErrorCond
     else bindE (forE (num_vmtrrs hw) 0 (gather_variable hw)
         (88, fixed_entries hw @ replicate 10 zero_memorytype))
       (\<lambda>(index, mts'). bindE (HALT_ON_ERRORCOND (index \<le> 99))
         (\<lambda>_. Inr (upd_vcpu vp (\<lambda>v. v\<lparr>vmx_ept_memorytypes := mts'\<rparr>) s))))"
  by (auto simp: vmx_gathermemorytypes_def mtrr_support_def num_vmtrrs_def Let_def xconst
      HALT_ON_ERRORCOND_def split: prod.split)

lemma vmx_gathermemorytypes_result:
  assumes "mtrr_support hw"
  shows "\<exists>mts. vmx_gathermemorytypes hw vp s
        = Inr (upd_vcpu vp (\<lambda>v. v\<lparr>vmx_ept_memorytypes := mts\<rparr>) s)
    \<and> length mts = MAX_MEMORYTYPE_ENTRIES \<and> take 88 mts = fixed_entries hw
    \<and> (\<forall>i<10. mts ! (88 + i) =
        (if i < num_vmtrrs hw then
           variable_entry (read_msr64 hw (0x200 + 2 * of_nat i)) (read_msr64 hw (0x201 + 2 * of_nat i))
             zero_memorytype
         else zero_memorytype))"
proof -
  let ?mts0 = "fixed_entries hw @ replicate 10 zero_memorytype"
  from assms have n: "num_vmtrrs hw \<le> 10" and c: "bit (snd (snd (snd (cpuid hw 1 0)))) 12"
    by (simp_all add: mtrr_support_def)
  from gather_variable_loop[OF n, of ?mts0 hw] obtain mts where
    l: "forE (num_vmtrrs hw) 0 (gather_variable hw) (88, ?mts0) = Inr (88 + num_vmtrrs hw, mts)"
    and len: "length mts = 98"
    and nth: "\<forall>q<98. mts ! q = gathered hw (num_vmtrrs hw) ?mts0 q" by auto
  have "vmx_gathermemorytypes hw vp s
      = Inr (upd_vcpu vp (\<lambda>v. v\<lparr>vmx_ept_memorytypes := mts\<rparr>) s)"
    using n c assms by (simp add: vmx_gathermemorytypes_cases l)
  moreover have "take 88 mts = fixed_entries hw"
  proof (rule nth_equalityI)
    fix i
    assume "i < length (take 88 mts)"
    then have "i < 88" by (simp add: len)
    then show "take 88 mts ! i = fixed_entries hw ! i"
      by (simp add: nth gathered_def nth_append)
  qed (simp add: len)
  moreover have "mts ! (88 + i) = (if i < num_vmtrrs hw then
           variable_entry (read_msr64 hw (0x200 + 2 * of_nat i)) (read_msr64 hw (0x201 + 2 * of_nat i))
             zero_memorytype
         else zero_memorytype)" if "i < 10" for i
    using that nth by (simp add: gathered_def nth_append IA32_MTRR_PHYSBASE0_def add.commute)
  ultimately show ?thesis by (auto simp: len xconst)
qed

text \<open>
  A processor for the witnesses: two variable ranges, all of 4G write-back with the last
  gigabyte uncached, and write-back fixed ranges.
\<close>

definition sample_hw :: hardware where
  "sample_hw = \<lparr>
    rdmsr = (\<lambda>msr. if msr = 0xFE then (0x102, 0)
      else if msr = 0x200 then (0x00000006, 0) else if msr = 0x201 then (0x00000800, 0xF)
      else if msr = 0x202 then (0xC0000000, 0) else if msr = 0x203 then (0xC0000800, 0xF)
      else (0x06060606, 0x06060606)),
    cpuid = (\<lambda>eax ecx. (0, 0, 0, 0x1000)), inb = (\<lambda>p. 0), inw = (\<lambda>p. 0), inl = (\<lambda>p. 0),
    lapic_read = (\<lambda>a. 0)\<rparr>"

lemma sample_hw_support: "mtrr_support sample_hw" "num_vmtrrs sample_hw = 2"
  by (simp_all add: mtrr_support_def num_vmtrrs_def sample_hw_def xconst bit_numeral_rec)

text \<open>
  C40: Gathering halts without MTRR support, stops in the error condition when fixed MTRRs are
  missing or more than ten variable ones are reported, and in every other case returns: no write
  is out of the array's bounds, the first 88 entries are the fixed ranges, the next ones are
  decoded from the variable MTRR pairs in order and the rest are cleared. Nothing but the array
  of this core changes.
\<close>

theorem vmx_gathermemorytypes_safe:
  "(\<not> bit (snd (snd (snd (cpuid hw 1 0)))) 12 \<and> vmx_gathermemorytypes hw vp s = Inl Halt)
  \<or> (bit (snd (snd (snd (cpuid hw 1 0)))) 12 \<and> \<not> mtrr_support hw
      \<and> vmx_gathermemorytypes hw vp s = Inl ErrorCond)
  \<or> (mtrr_support hw \<and> (\<exists>mts. vmx_gathermemorytypes hw vp s
        = Inr (upd_vcpu vp (\<lambda>v. v\<lparr>vmx_ept_memorytypes := mts\<rparr>) s)
      \<and> length mts = MAX_MEMORYTYPE_ENTRIES \<and> take 88 mts = fixed_entries hw
      \<and> (\<forall>i<10. mts ! (88 + i) =
          (if i < num_vmtrrs hw then
             variable_entry (read_msr64 hw (0x200 + 2 * of_nat i)) (read_msr64 hw (0x201 + 2 * of_nat i))
               zero_memorytype
           else zero_memorytype))))"
proof (cases "mtrr_support hw")
  case True
  then show ?thesis using vmx_gathermemorytypes_result by blast
next
  case False
  then show ?thesis by (simp add: vmx_gathermemorytypes_cases)
qed

theorem vmx_gathermemorytypes_safe_witness:
  "mtrr_support sample_hw \<and> (\<forall>s0 :: xmhf_state. \<exists>mts. vmx_gathermemorytypes sample_hw 0 s0
      = Inr (upd_vcpu 0 (\<lambda>v. v\<lparr>vmx_ept_memorytypes := mts\<rparr>) s0)
    \<and> mts ! 89 = \<lparr>startaddr = 0xC0000000, endaddr = 0xFFFFFFFF, mt_type = 0, mt_invalid = 0\<rparr>)"
proof (intro conjI allI)
  fix s0 :: xmhf_state
  have "vmx_gathermemorytypes sample_hw 0 s0 \<noteq> Inl Halt" "bit (snd (snd (snd (cpuid sample_hw 1 0)))) 12"
    using sample_hw_support(1) vmx_gathermemorytypes_result[of sample_hw 0 s0]
    by (auto simp: mtrr_support_def)
  then obtain mts where m: "vmx_gathermemorytypes sample_hw 0 s0
      = Inr (upd_vcpu 0 (\<lambda>v. v\<lparr>vmx_ept_memorytypes := mts\<rparr>) s0)"
    and v: "\<forall>i<10. mts ! (88 + i) =
        (if i < num_vmtrrs sample_hw then
           variable_entry (read_msr64 sample_hw (0x200 + 2 * of_nat i))
             (read_msr64 sample_hw (0x201 + 2 * of_nat i)) zero_memorytype
         else zero_memorytype)"
    using vmx_gathermemorytypes_safe[of sample_hw 0 s0] sample_hw_support(1) by auto
  have "mts ! 89 = variable_entry (read_msr64 sample_hw 0x202) (read_msr64 sample_hw 0x203)
      zero_memorytype"
    using v[rule_format, of 1] by (simp add: sample_hw_support(2))
  also have "\<dots> = \<lparr>startaddr = 0xC0000000, endaddr = 0xFFFFFFFF, mt_type = 0, mt_invalid = 0\<rparr>"
    by (simp add: variable_entry_def read_msr64_def sample_hw_def zero_memorytype_def
        bit_numeral_rec)
  finally show "\<exists>mts. vmx_gathermemorytypes sample_hw 0 s0
      = Inr (upd_vcpu 0 (\<lambda>v. v\<lparr>vmx_ept_memorytypes := mts\<rparr>) s0)
    \<and> mts ! 89 = \<lparr>startaddr = 0xC0000000, endaddr = 0xFFFFFFFF, mt_type = 0, mt_invalid = 0\<rparr>"
    using m by blast
qed (rule sample_hw_support)

section \<open>Properties of the lookup\<close>

text \<open>The fixed range a page of the first megabyte lies in, by its page number.\<close>

definition in_fixed_range :: "nat \<Rightarrow> u32 \<times> nat \<times> nat \<Rightarrow> nat \<Rightarrow> bool" where
  "in_fixed_range n = (\<lambda>(msr, base, sz) k. (msr, base, sz) \<in> set fixed_mtrrs \<and> k < 8
    \<and> base + k * sz \<le> 4096 * n \<and> 4096 * n + 4095 \<le> base + k * sz + sz - 1)"

lemma fixed_range_exists:
  assumes "n < 256"
  shows "\<exists>r k. in_fixed_range n r k"
proof -
  consider "n < 128" | "128 \<le> n" "n < 160" | "160 \<le> n" "n < 192" | "192 \<le> n" "n < 256"
    using assms by linarith
  then show ?thesis
  proof cases
    case 1
    then have "in_fixed_range n (IA32_MTRR_FIX64K_00000, 0, 0x10000) (n div 16)"
      by (simp add: in_fixed_range_def fixed_mtrrs_def, linarith)
    then show ?thesis by blast
  next
    case 2
    then have "in_fixed_range n (IA32_MTRR_FIX16K_80000, 0x80000, 0x4000) ((n - 128) div 4)"
      by (simp add: in_fixed_range_def fixed_mtrrs_def, linarith)
    then show ?thesis by blast
  next
    case 3
    then have "in_fixed_range n (IA32_MTRR_FIX16K_A0000, 0xA0000, 0x4000) ((n - 160) div 4)"
      by (simp add: in_fixed_range_def fixed_mtrrs_def, linarith)
    then show ?thesis by blast
  next
    case 4
    define j where "j = (n - 192) div 8"
    have "j < 8" using 4 by (simp add: j_def)
    then have "j = 0 \<or> j = 1 \<or> j = 2 \<or> j = 3 \<or> j = 4 \<or> j = 5 \<or> j = 6 \<or> j = 7" by linarith
    then have "(IA32_MTRR_FIX4K_C0000 + of_nat j, 0xC0000 + 0x8000 * j, 0x1000) \<in> set fixed_mtrrs"
      by (elim disjE) (simp_all add: fixed_mtrrs_def xconst)
    moreover have "n = 192 + 8 * j + (n - 192) mod 8"
      using 4 by (simp add: j_def)
    ultimately have "in_fixed_range n
        (IA32_MTRR_FIX4K_C0000 + of_nat j, 0xC0000 + 0x8000 * j, 0x1000) ((n - 192) mod 8)"
      unfolding in_fixed_range_def prod.case by (intro conjI) (simp, simp, linarith, linarith)
    then show ?thesis by blast
  qed
qed

lemma fixed_mtrrs_bounds:
  "(msr, base, sz) \<in> set fixed_mtrrs \<Longrightarrow> k < 8 \<Longrightarrow> base + k * sz + sz \<le> 1024 * 1024 \<and> 0 < sz"
  by (auto simp: fixed_mtrrs_def)

lemma set_fixed_entries:
  "e \<in> set (fixed_entries hw) \<longleftrightarrow>
   (\<exists>msr base sz k. (msr, base, sz) \<in> set fixed_mtrrs \<and> k < 8 \<and> e = fixed_entry (rdmsr hw msr) base sz k)"
  by (fastforce simp: fixed_entries_def)

lemma word_of_nat_le_small:
  "m < 2 ^ LENGTH('a) \<Longrightarrow> n < 2 ^ LENGTH('a) \<Longrightarrow>
   (of_nat m :: 'a::len word) \<le> of_nat n \<longleftrightarrow> m \<le> n"
  by (simp add: word_le_nat_alt unat_of_nat_small)

lemma covers_fixed_entry:
  assumes "(msr, base, sz) \<in> set fixed_mtrrs" "k < 8" "n < 256"
  shows "covers (of_nat (4096 * n)) (fixed_entry val base sz k) \<longleftrightarrow>
    in_fixed_range n (msr, base, sz) k"
proof -
  note b = fixed_mtrrs_bounds[OF assms(1,2)]
  have e: "(of_nat (4096 * n) :: u64) + PAGE_SIZE_4K - 1 = of_nat (4096 * n + 4095)"
    by (simp add: xconst)
  have "4096 * n < 2 ^ LENGTH(64)" "4096 * n + 4095 < 2 ^ LENGTH(64)"
    "base + k * sz < 2 ^ LENGTH(64)" "base + k * sz + sz - 1 < 2 ^ LENGTH(64)"
    using b assms(3) by (simp_all, linarith)
  then show ?thesis
    unfolding covers_def e fixed_entry_def Let_def memorytype.simps in_fixed_range_def prod.case
    using assms by (simp only: word_of_nat_le_small) simp
qed

lemma fixed_lookup:
  assumes "take 88 (vmx_ept_memorytypes v) = fixed_entries hw" and "n < 256"
  shows "\<exists>msr base sz k. in_fixed_range n (msr, base, sz) k
    \<and> vmx_getmemorytypeforphysicalpage v (of_nat (4096 * n))
      = Inr (mt_type (fixed_entry (rdmsr hw msr) base sz k))"
proof -
  let ?pa = "of_nat (4096 * n) :: u64"
  obtain msr base sz k where r: "in_fixed_range n (msr, base, sz) k"
    using fixed_range_exists[OF assms(2)] by auto
  then have rk: "(msr, base, sz) \<in> set fixed_mtrrs" "k < 8" by (auto simp: in_fixed_range_def)
  have "covers ?pa (fixed_entry (rdmsr hw msr) base sz k)"
    using covers_fixed_entry[OF rk assms(2)] r by blast
  moreover have "fixed_entry (rdmsr hw msr) base sz k \<in> set (fixed_entries hw)"
    using rk set_fixed_entries by blast
  ultimately have "find (covers ?pa) (fixed_entries hw) \<noteq> None"
    unfolding find_None_iff by blast
  then obtain e where f: "find (covers ?pa) (fixed_entries hw) = Some e" by blast
  then have e: "covers ?pa e" "e \<in> set (fixed_entries hw)"
    unfolding find_Some_iff by auto
  obtain msr' base' sz' k' where r': "(msr', base', sz') \<in> set fixed_mtrrs" "k' < 8"
    "e = fixed_entry (rdmsr hw msr') base' sz' k'"
    using e(2) set_fixed_entries by blast
  have "4096 * n < 2 ^ LENGTH(64)" "1024 * 1024 < (2::nat) ^ LENGTH(64)" using assms(2) by simp_all
  then have "?pa < of_nat (1024 * 1024)"
    unfolding word_less_nat_alt using assms(2) by (simp only: unat_of_nat_small)
  then have "vmx_getmemorytypeforphysicalpage v ?pa = Inr (mt_type e)"
    unfolding vmx_getmemorytypeforphysicalpage_def using assms(1) f
    by (simp add: MAX_FIXED_MEMORYTYPE_ENTRIES_def del: of_nat_mult)
  with r' covers_fixed_entry[OF r'(1,2) assms(2), of "rdmsr hw msr'"] e(1) show ?thesis by blast
qed



text \<open>The types of the valid variable entries that cover the page, in array order.\<close>

definition matching_types :: "u64 \<Rightarrow> memorytype list \<Rightarrow> u32 list" where
  "matching_types pa es = map mt_type (filter (\<lambda>e. covers pa e \<and> mt_invalid e = 0) es)"

lemma matching_types_simps [simp]:
  "matching_types pa [] = []"
  "matching_types pa (e # es) =
    (if covers pa e \<and> mt_invalid e = 0 then mt_type e # matching_types pa es
     else matching_types pa es)"
  by (simp_all add: matching_types_def)

text \<open>
  The rule the scan implements on those types: a conflict is two different types before the
  first \<open>UC\<close> or \<open>WT\<close>; without one, \<open>UC\<close> wins over \<open>WT\<close>, and \<open>WT\<close> over the rest.
\<close>

definition mtrr_conflict :: "u32 list \<Rightarrow> bool" where
  "mtrr_conflict ts \<longleftrightarrow>
    (let pre = takeWhile (\<lambda>t. t \<noteq> MTRR_TYPE_UC \<and> t \<noteq> MTRR_TYPE_WT) ts
     in \<exists>t \<in> set pre. t \<noteq> hd pre)"

definition mtrr_precedence :: "u32 list \<Rightarrow> u32" where
  "mtrr_precedence ts =
    (if MTRR_TYPE_UC \<in> set ts then MTRR_TYPE_UC
     else if MTRR_TYPE_WT \<in> set ts then MTRR_TYPE_WT
     else if ts = [] then MTRR_TYPE_RESV else hd ts)"

lemma scan_from_UC: "scan_variable pa es MTRR_TYPE_UC = Inr MTRR_TYPE_UC"
  by (induction es) (simp_all add: xconst)

lemma scan_from_WT:
  "scan_variable pa es MTRR_TYPE_WT
    = Inr (if MTRR_TYPE_UC \<in> set (matching_types pa es) then MTRR_TYPE_UC else MTRR_TYPE_WT)"
  by (induction es) (auto simp: scan_from_UC[unfolded xconst] xconst)

lemma scan_from_other:
  assumes "t \<noteq> MTRR_TYPE_UC" "t \<noteq> MTRR_TYPE_WT" "t \<noteq> MTRR_TYPE_RESV"
  shows "scan_variable pa es t =
    (if mtrr_conflict (t # matching_types pa es) then Inl ErrorCond
     else Inr (mtrr_precedence (t # matching_types pa es)))"
proof (induction es)
  case Nil
  then show ?case using assms by (simp add: mtrr_conflict_def mtrr_precedence_def)
next
  case (Cons e es)
  then show ?case
    using assms scan_from_UC scan_from_WT
    by (auto simp: mtrr_conflict_def mtrr_precedence_def Let_def xconst HALT_ON_ERRORCOND_def)
qed

lemma scan_from_RESV:
  assumes "MTRR_TYPE_RESV \<notin> set (matching_types pa es)"
  shows "scan_variable pa es MTRR_TYPE_RESV =
    (if mtrr_conflict (matching_types pa es) then Inl ErrorCond
     else Inr (mtrr_precedence (matching_types pa es)))"
  using assms
proof (induction es)
  case Nil
  then show ?case by (simp add: mtrr_conflict_def mtrr_precedence_def)
next
  case (Cons e es)
  show ?case
  proof (cases "covers pa e \<and> mt_invalid e = 0")
    case False
    then show ?thesis using Cons by auto
  next
    case True
    consider "mt_type e = MTRR_TYPE_UC" | "mt_type e = MTRR_TYPE_WT"
      | "mt_type e \<noteq> MTRR_TYPE_UC" "mt_type e \<noteq> MTRR_TYPE_WT" by blast
    then show ?thesis
    proof cases
      case 1
      then show ?thesis using True
        by (simp add: scan_from_UC mtrr_conflict_def mtrr_precedence_def)
    next
      case 2
      then show ?thesis using True
        by (simp add: scan_from_WT mtrr_conflict_def mtrr_precedence_def) (simp add: xconst)
    next
      case 3
      moreover have "mt_type e \<noteq> MTRR_TYPE_RESV" using Cons.prems True by auto
      moreover have "MTRR_TYPE_RESV \<noteq> (MTRR_TYPE_UC :: u32)" "MTRR_TYPE_RESV \<noteq> (MTRR_TYPE_WT :: u32)"
        by (simp_all add: xconst)
      ultimately show ?thesis
        using True scan_from_other[of "mt_type e" pa es] by simp
    qed
  qed
qed

text \<open>
  The rule quoted above the function: one matching range gives its type; of several, UC wins; WB
  together with WT gives WT; any other mix is invalid.
\<close>

definition mtrr_rule :: "u32 list \<Rightarrow> u32 option" where
  "mtrr_rule ts =
    (if length ts = 1 then Some (hd ts)
     else if MTRR_TYPE_UC \<in> set ts then Some MTRR_TYPE_UC
     else if set ts = {MTRR_TYPE_WB, MTRR_TYPE_WT} then Some MTRR_TYPE_WT
     else None)"

lemma sane_no_conflict:
  assumes "set ts \<subseteq> {MTRR_TYPE_UC, MTRR_TYPE_WT, MTRR_TYPE_WB}"
  shows "\<not> mtrr_conflict ts"
proof -
  define pre where "pre = takeWhile (\<lambda>t. t \<noteq> MTRR_TYPE_UC \<and> t \<noteq> MTRR_TYPE_WT) ts"
  have "\<forall>t \<in> set pre. t = MTRR_TYPE_WB" using assms unfolding pre_def by (auto dest: set_takeWhileD)
  then have "t = hd pre" if "t \<in> set pre" for t
    using that hd_in_set[of pre] by (cases "pre = []") (simp, metis)
  then show ?thesis unfolding mtrr_conflict_def Let_def pre_def[symmetric] by blast
qed

text \<open>Ranges that are only uncached, write-through or write-back never conflict.\<close>

lemma lookup_sane_types:
  assumes "1024 * 1024 \<le> pa"
    and "set (matching_types pa (drop 88 (take 98 (vmx_ept_memorytypes v))))
      \<subseteq> {MTRR_TYPE_UC, MTRR_TYPE_WT, MTRR_TYPE_WB}"
  shows "\<exists>t. vmx_getmemorytypeforphysicalpage v pa = Inr t"
proof -
  let ?ts = "matching_types pa (drop 88 (take 98 (vmx_ept_memorytypes v)))"
  have "MTRR_TYPE_RESV \<notin> set ?ts" using assms(2) by (auto simp: xconst)
  moreover have "\<not> pa < 1024 * 1024" using assms(1) by (simp add: not_less)
  ultimately show ?thesis
    using sane_no_conflict[OF assms(2)]
    by (simp add: vmx_getmemorytypeforphysicalpage_def scan_from_RESV
        MAX_FIXED_MEMORYTYPE_ENTRIES_def MAX_MEMORYTYPE_ENTRIES_def)
qed

lemma rule_of_sane:
  assumes "set ts \<subseteq> {MTRR_TYPE_UC, MTRR_TYPE_WT, MTRR_TYPE_WB}" and "distinct ts" and "ts \<noteq> []"
  shows "mtrr_rule ts = Some (mtrr_precedence ts)"
proof (cases "length ts = 1")
  case True
  then obtain t where "ts = [t]" by (auto simp: length_Suc_conv)
  then show ?thesis by (simp add: mtrr_rule_def mtrr_precedence_def)
next
  case False
  then obtain t u us where ts: "ts = t # u # us" using assms(3) by (cases ts; cases "tl ts") auto
  have "set ts = {MTRR_TYPE_WB, MTRR_TYPE_WT}" if "MTRR_TYPE_UC \<notin> set ts"
    using that assms(1,2) unfolding ts by auto
  then show ?thesis using False by (auto simp: mtrr_rule_def mtrr_precedence_def xconst)
qed

lemma rule_of_pair:
  assumes "t \<noteq> u" and "MTRR_TYPE_WT \<notin> {t, u}"
  shows "mtrr_rule [t, u] = (if mtrr_conflict [t, u] then None else Some (mtrr_precedence [t, u]))"
  using assms by (auto simp: mtrr_rule_def mtrr_conflict_def mtrr_precedence_def Let_def xconst)

lemma rule_of_types:
  assumes "ts \<noteq> []" and "distinct ts"
    and "set ts \<subseteq> {MTRR_TYPE_UC, MTRR_TYPE_WT, MTRR_TYPE_WB} \<or> length ts \<le> 2 \<and> MTRR_TYPE_WT \<notin> set ts"
  shows "mtrr_rule ts = (if mtrr_conflict ts then None else Some (mtrr_precedence ts))"
  using assms(3)
proof
  assume "set ts \<subseteq> {MTRR_TYPE_UC, MTRR_TYPE_WT, MTRR_TYPE_WB}"
  then show ?thesis using assms rule_of_sane sane_no_conflict by simp
next
  assume l: "length ts \<le> 2 \<and> MTRR_TYPE_WT \<notin> set ts"
  consider t where "ts = [t]" | t u where "ts = [t, u]"
    using l assms(1) by (cases ts; cases "tl ts") auto
  then show ?thesis
  proof cases
    case 1
    then show ?thesis by (auto simp: mtrr_rule_def mtrr_conflict_def mtrr_precedence_def Let_def)
  next
    case 2
    then show ?thesis using assms(2) l rule_of_pair[of t u] by simp
  qed
qed


definition sample_ranges :: "u32 list \<Rightarrow> memorytype list" where
  "sample_ranges ts = replicate 88 zero_memorytype
    @ map (\<lambda>t. \<lparr>startaddr = 0, endaddr = 0xFFFFFFFF, mt_type = t, mt_invalid = 0\<rparr>) ts
    @ replicate (10 - length ts) zero_memorytype"

lemma matching_sample_ranges:
  assumes "length ts \<le> 10"
  shows "matching_types 0x200000 (drop 88 (take 98 (sample_ranges ts))) = ts"
  using assms
  by (simp add: sample_ranges_def matching_types_def filter_map o_def covers_def xconst
      zero_memorytype_def)


text \<open>
  The lookup depends on the order of the variable MTRRs, although the rule quoted above
  the function returns UC whenever one of two or more matching ranges is UC: with a UC range
  after a write-back and a write-combining one it stops in the error condition, with the same
  ranges in another order it returns UC.
\<close>

theorem getmemorytype_order_dependent:
  "vmx_getmemorytypeforphysicalpage
     (zero_VCPU\<lparr>vmx_ept_memorytypes := sample_ranges [6, 1, 0]\<rparr>) 0x200000 = Inl ErrorCond
   \<and> vmx_getmemorytypeforphysicalpage
     (zero_VCPU\<lparr>vmx_ept_memorytypes := sample_ranges [0, 6, 1]\<rparr>) 0x200000 = Inr MTRR_TYPE_UC"
  by (simp add: vmx_getmemorytypeforphysicalpage_def scan_from_RESV matching_sample_ranges xconst)
    (simp add: scan_from_RESV[unfolded xconst] matching_sample_ranges mtrr_conflict_def
      mtrr_precedence_def xconst, rule exI[of _ 0], simp)

end
