(* ===== verification/XMHF_MemProt.thy ===== *)
theory XMHF_MemProt
  imports XMHF_MemTypes
begin

text \<open>
  The memory protection component (\<^verbatim>\<open>xmhf-memprot\<close>): extended page tables on Intel
  (\<^verbatim>\<open>memp-x86vmx.c\<close>), nested page tables on AMD (\<^verbatim>\<open>memp-x86svm.c\<close>), and the two
  dispatching layers (\<^verbatim>\<open>memp-x86.c\<close>, \<^verbatim>\<open>memp-interface.c\<close>). The tables live in byte
  memory at the addresses the \<^verbatim>\<open>VCPU\<close> names.

  The interface \<^verbatim>\<open>setprot\<close>/\<^verbatim>\<open>getprot\<close> is the locale \<open>memprot_backend\<close>, interpreted on both
  backends. The main results: after the tables are set up, the hardware page walk maps every
  guest-physical page below 4G to itself with all rights, except the hypervisor's own pages,
  which are not present; and \<^verbatim>\<open>setprot\<close> changes the rights of one page and nothing else.
\<close>

section \<open>Protection types\<close>

definition MEMP_PROT_NOTPRESENT :: u32 where [xconst]: "MEMP_PROT_NOTPRESENT = 1"
definition MEMP_PROT_PRESENT :: u32 where [xconst]: "MEMP_PROT_PRESENT = 2"
definition MEMP_PROT_READONLY :: u32 where [xconst]: "MEMP_PROT_READONLY = 4"
definition MEMP_PROT_READWRITE :: u32 where [xconst]: "MEMP_PROT_READWRITE = 8"
definition MEMP_PROT_EXECUTE :: u32 where [xconst]: "MEMP_PROT_EXECUTE = 16"
definition MEMP_PROT_NOEXECUTE :: u32 where [xconst]: "MEMP_PROT_NOEXECUTE = 32"
definition MEMP_PROT_MAXVALUE :: u32 where [xconst]:
  "MEMP_PROT_MAXVALUE = MEMP_PROT_NOTPRESENT + MEMP_PROT_PRESENT + MEMP_PROT_READONLY
    + MEMP_PROT_READWRITE + MEMP_PROT_NOEXECUTE + MEMP_PROT_EXECUTE"

definition VMCB_TLB_CONTROL_FLUSHALL :: u8 where [xconst]: "VMCB_TLB_CONTROL_FLUSHALL = 1"

section \<open>Filling the tables\<close>

text \<open>
  The loop nest that \<^verbatim>\<open>_vmx_setupEPT\<close> and \<^verbatim>\<open>_svm_nptinitialize\<close> both have, from the innermost
  loop out. \<open>pdpt\<close>, \<open>pdts\<close> and \<open>pts\<close> are the addresses of the tables; \<open>mk_pdpe\<close> and \<open>mk_pde\<close>
  make an entry from the address of the table below, \<open>mk_pte\<close> makes a leaf entry from
  \<^verbatim>\<open>paddr\<close>, the running 32-bit physical address, and may stop.
\<close>

definition fill_pt ::
  "u32 \<Rightarrow> (u32 \<Rightarrow> xmhf_error + u64) \<Rightarrow> memory \<times> u32 \<Rightarrow> xmhf_error + memory \<times> u32" where
  "fill_pt pt mk_pte = forE PAE_PTRS_PER_PT 0 (\<lambda>k (m, paddr).
     bindE (mk_pte paddr) (\<lambda>e. Inr (st64 m (elem64 pt k) e, paddr + PAGE_SIZE_4K)))"

definition fill_pdt ::
  "u32 \<Rightarrow> u32 \<Rightarrow> nat \<Rightarrow> (u32 \<Rightarrow> u64) \<Rightarrow> (u32 \<Rightarrow> xmhf_error + u64)
    \<Rightarrow> memory \<times> u32 \<Rightarrow> xmhf_error + memory \<times> u32" where
  "fill_pdt pdt pts i mk_pde mk_pte = forE PAE_PTRS_PER_PDT 0 (\<lambda>j (m, paddr).
     let pt = pts + PAGE_SIZE_4K * of_nat (i * PAE_PTRS_PER_PDT + j) in
     fill_pt pt mk_pte (st64 m (elem64 pdt j) (mk_pde pt), paddr))"

definition fill_pdpt ::
  "u32 \<Rightarrow> u32 \<Rightarrow> u32 \<Rightarrow> (u32 \<Rightarrow> u64) \<Rightarrow> (u32 \<Rightarrow> u64) \<Rightarrow> (u32 \<Rightarrow> xmhf_error + u64)
    \<Rightarrow> memory \<times> u32 \<Rightarrow> xmhf_error + memory \<times> u32" where
  "fill_pdpt pdpt pdts pts mk_pdpe mk_pde mk_pte = forE PAE_PTRS_PER_PDPT 0 (\<lambda>i (m, paddr).
     let pdt = pdts + PAGE_SIZE_4K * of_nat i in
     fill_pdt pdt pts i mk_pde mk_pte (st64 m (elem64 pdpt i) (mk_pdpe pdt), paddr))"

section \<open>Intel: extended page tables\<close>

text \<open>The XMHF region: the secure loader (2M below the runtime) and the runtime, in 32-bit arithmetic.\<close>

definition in_xmhf_region :: "RPB \<Rightarrow> u32 \<Rightarrow> bool" where
  "in_xmhf_region b paddr \<longleftrightarrow> XtVmmRuntimePhysBase b - PAGE_SIZE_2M \<le> paddr
    \<and> paddr < XtVmmRuntimePhysBase b + XtVmmRuntimeSize b"

definition ept_pte :: "RPB \<Rightarrow> VCPU \<Rightarrow> u32 \<Rightarrow> xmhf_error + u64" where
  "ept_pte b v paddr =
    bindE (vmx_getmemorytypeforphysicalpage v (ucast paddr)) (\<lambda>memorytype.
      Inr (if in_xmhf_region b paddr then ucast paddr OR push_bit 3 (ucast memorytype) OR 0x0
           else if memorytype = 0 then ucast paddr OR push_bit 3 (ucast memorytype) OR 0x7
           else ucast paddr OR push_bit 3 6 OR 0x7))"

definition vmx_setupEPT :: "u32 \<Rightarrow> xmhf_state \<Rightarrow> xmhf_error + xmhf_state" where
  "vmx_setupEPT vp s =
    (let v = vcpus s vp; b = rpb s;
         m0 = st64 (mem s) (elem64 (vmx_vaddr_ept_pml4_table v) 0)
                (hva2spa1 b (vmx_vaddr_ept_pdp_table v) OR 0x7)
     in bindE (fill_pdpt (vmx_vaddr_ept_pdp_table v) (vmx_vaddr_ept_pd_tables v)
                (vmx_vaddr_ept_p_tables v) (\<lambda>t. hva2spa1 b t OR 0x7) (\<lambda>t. hva2spa1 b t OR 0x7)
                (ept_pte b v) (m0, 0))
          (\<lambda>(m, _). Inr (s\<lparr>mem := m\<rparr>)))"

definition xmhf_memprot_arch_x86vmx_initialize ::
  "hardware \<Rightarrow> u32 \<Rightarrow> xmhf_state \<Rightarrow> xmhf_error + xmhf_state" where
  "xmhf_memprot_arch_x86vmx_initialize hw vp s =
    bindE (HALT_ON_ERRORCOND (cpu_vendor (vcpus s vp) = CPU_VENDOR_INTEL)) (\<lambda>_.
    bindE (vmx_gathermemorytypes hw vp s) (\<lambda>s.
    bindE (vmx_setupEPT vp s) (\<lambda>s.
    Inr (upd_vmcs vp (\<lambda>c. c\<lparr>
      control_VMX_seccpu_based := control_VMX_seccpu_based c OR push_bit 1 1 OR push_bit 5 1,
      control_vpid := 1,
      control_EPT_pointer_high := 0,
      control_EPT_pointer_full :=
        ucast (hva2spa1 (rpb s) (vmx_vaddr_ept_pml4_table (vcpus s vp)) OR 0x1E),
      control_VMX_cpu_based :=
        control_VMX_cpu_based c AND NOT (push_bit 15 1) AND NOT (push_bit 16 1)\<rparr>) s))))"

definition xmhf_memprot_arch_x86vmx_flushmappings :: "u32 \<Rightarrow> xmhf_state \<Rightarrow> xmhf_state" where
  "xmhf_memprot_arch_x86vmx_flushmappings vp s =
    hw_do (InvEPT VMX_INVEPT_SINGLECONTEXT (ucast (control_EPT_pointer_full (vmcs_of vp s)))) s"

definition gpa_pfn :: "u64 \<Rightarrow> u32" where
  "gpa_pfn gpa = (ucast gpa :: u32) div PAGE_SIZE_4K"

definition ept_flags :: "u32 \<Rightarrow> u32" where
  "ept_flags prottype =
    (if prottype AND MEMP_PROT_PRESENT \<noteq> 0 then
       1 OR (if prottype AND MEMP_PROT_READWRITE \<noteq> 0 then 0x2 else 0)
         OR (if prottype AND MEMP_PROT_EXECUTE \<noteq> 0 then 0x4 else 0)
     else 0)"

definition xmhf_memprot_arch_x86vmx_setprot ::
  "u32 \<Rightarrow> u64 \<Rightarrow> u32 \<Rightarrow> xmhf_state \<Rightarrow> xmhf_state" where
  "xmhf_memprot_arch_x86vmx_setprot vp gpa prottype s =
    (let a = elem64 (vmx_vaddr_ept_p_tables (vcpus s vp)) (unat (gpa_pfn gpa));
         m1 = st64 (mem s) a (ld64 (mem s) a AND NOT 7);
         m2 = st64 m1 a (ld64 m1 a OR ucast (ept_flags prottype))
     in s\<lparr>mem := m2\<rparr>)"

definition ept_prottype :: "u64 \<Rightarrow> u32" where
  "ept_prottype entry =
    (if entry AND 0x1 = 0 then MEMP_PROT_NOTPRESENT
     else MEMP_PROT_PRESENT
       OR (if entry AND 0x2 \<noteq> 0 then MEMP_PROT_READWRITE else MEMP_PROT_READONLY)
       OR (if entry AND 0x4 \<noteq> 0 then MEMP_PROT_EXECUTE else MEMP_PROT_NOEXECUTE))"

definition xmhf_memprot_arch_x86vmx_getprot :: "u32 \<Rightarrow> u64 \<Rightarrow> xmhf_state \<Rightarrow> u32" where
  "xmhf_memprot_arch_x86vmx_getprot vp gpa s =
    ept_prottype (ld64 (mem s)
      (elem64 (vmx_vaddr_ept_p_tables (vcpus s vp)) (unat (gpa_pfn gpa))))"

definition xmhf_memprot_arch_x86vmx_get_EPTP :: "u32 \<Rightarrow> xmhf_state \<Rightarrow> xmhf_error + u64" where
  "xmhf_memprot_arch_x86vmx_get_EPTP vp s =
    bindE (HALT_ON_ERRORCOND (cpu_vendor (vcpus s vp) = CPU_VENDOR_INTEL)) (\<lambda>_.
    Inr (push_bit 32 (ucast (control_EPT_pointer_high (vmcs_of vp s)))
         OR ucast (control_EPT_pointer_full (vmcs_of vp s))))"

definition xmhf_memprot_arch_x86vmx_set_EPTP ::
  "u32 \<Rightarrow> u64 \<Rightarrow> xmhf_state \<Rightarrow> xmhf_error + xmhf_state" where
  "xmhf_memprot_arch_x86vmx_set_EPTP vp eptp s =
    bindE (HALT_ON_ERRORCOND (cpu_vendor (vcpus s vp) = CPU_VENDOR_INTEL)) (\<lambda>_.
    Inr (upd_vmcs vp (\<lambda>c. c\<lparr>control_EPT_pointer_full := ucast eptp,
      control_EPT_pointer_high := ucast (drop_bit 32 eptp)\<rparr>) s))"

section \<open>AMD: nested page tables\<close>

definition npt_pte :: "RPB \<Rightarrow> u32 \<Rightarrow> xmhf_error + u64" where
  "npt_pte b paddr = Inr (pae_make_pte (ucast paddr)
     (if in_xmhf_region b paddr then 0 else PAGE_PRESENT OR PAGE_RW OR PAGE_USER))"

definition svm_nptinitialize ::
  "RPB \<Rightarrow> u32 \<Rightarrow> u32 \<Rightarrow> u32 \<Rightarrow> memory \<Rightarrow> xmhf_error + memory" where
  "svm_nptinitialize b npt_pdpt_base npt_pdts_base npt_pts_base m =
    bindE (fill_pdpt npt_pdpt_base npt_pdts_base npt_pts_base
        (\<lambda>t. let y = ucast (hva2spa t) :: u32 in pae_make_pdpe (ucast y) PAGE_PRESENT)
        (\<lambda>t. let z = ucast (hva2spa t) :: u32
              in pae_make_pde (ucast z) (PAGE_PRESENT OR PAGE_RW OR PAGE_USER))
        (npt_pte b) (m, 0))
      (\<lambda>(m', _). Inr m')"

definition upd_vmcb :: "u32 \<Rightarrow> (svm_vmcbfields \<Rightarrow> svm_vmcbfields) \<Rightarrow> xmhf_state \<Rightarrow> xmhf_state" where
  "upd_vmcb vp f s =
    (let p = vmcb_vaddr_ptr (vcpus s vp) in s\<lparr>vmcbs := (vmcbs s)(p := f (vmcbs s p))\<rparr>)"

definition xmhf_memprot_arch_x86svm_initialize ::
  "u32 \<Rightarrow> xmhf_state \<Rightarrow> xmhf_error + xmhf_state" where
  "xmhf_memprot_arch_x86svm_initialize vp s =
    (let v = vcpus s vp in
     bindE (HALT_ON_ERRORCOND (cpu_vendor v = CPU_VENDOR_AMD)) (\<lambda>_.
     bindE (svm_nptinitialize (rpb s) (npt_vaddr_ptr v) (npt_vaddr_pdts v) (npt_vaddr_pts v) (mem s))
       (\<lambda>m. Inr (upd_vmcb vp (\<lambda>c. c\<lparr>n_cr3 := hva2spa (npt_vaddr_ptr v),
               np_enable := np_enable c OR 1, guest_asid := npt_asid v\<rparr>) (s\<lparr>mem := m\<rparr>)))))"

definition xmhf_memprot_arch_x86svm_flushmappings :: "u32 \<Rightarrow> xmhf_state \<Rightarrow> xmhf_state" where
  "xmhf_memprot_arch_x86svm_flushmappings vp =
    upd_vmcb vp (\<lambda>c. c\<lparr>tlb_control := VMCB_TLB_CONTROL_FLUSHALL\<rparr>)"

definition npt_flags :: "u32 \<Rightarrow> u64" where
  "npt_flags prottype =
    (if prottype AND MEMP_PROT_PRESENT \<noteq> 0 then
       let flags = 0x8000000000000000 OR 0x1;
           flags = (if prottype AND MEMP_PROT_READWRITE \<noteq> 0 then flags OR 0x2 else flags)
       in if prottype AND MEMP_PROT_EXECUTE \<noteq> 0 then flags AND NOT 0x8000000000000000 else flags
     else 0x8000000000000000)"

definition xmhf_memprot_arch_x86svm_setprot ::
  "u32 \<Rightarrow> u64 \<Rightarrow> u32 \<Rightarrow> xmhf_state \<Rightarrow> xmhf_state" where
  "xmhf_memprot_arch_x86svm_setprot vp gpa prottype s =
    (let a = elem64 (npt_vaddr_pts (vcpus s vp)) (unat (gpa_pfn gpa));
         m1 = st64 (mem s) a (ld64 (mem s) a AND NOT 0x8000000000000003);
         m2 = st64 m1 a (ld64 m1 a OR npt_flags prottype)
     in s\<lparr>mem := m2\<rparr>)"

definition npt_prottype :: "u64 \<Rightarrow> u32" where
  "npt_prottype entry =
    (if entry AND 0x1 = 0 then MEMP_PROT_NOTPRESENT
     else MEMP_PROT_PRESENT
       OR (if entry AND 0x2 \<noteq> 0 then MEMP_PROT_READWRITE else MEMP_PROT_READONLY)
       OR (if entry AND 0x8000000000000000 = 0 then MEMP_PROT_EXECUTE else MEMP_PROT_NOEXECUTE))"

definition xmhf_memprot_arch_x86svm_getprot :: "u32 \<Rightarrow> u64 \<Rightarrow> xmhf_state \<Rightarrow> u32" where
  "xmhf_memprot_arch_x86svm_getprot vp gpa s =
    npt_prottype (ld64 (mem s) (elem64 (npt_vaddr_pts (vcpus s vp)) (unat (gpa_pfn gpa))))"

definition xmhf_memprot_arch_x86svm_get_h_cr3 :: "u32 \<Rightarrow> xmhf_state \<Rightarrow> xmhf_error + u64" where
  "xmhf_memprot_arch_x86svm_get_h_cr3 vp s =
    bindE (HALT_ON_ERRORCOND (cpu_vendor (vcpus s vp) = CPU_VENDOR_AMD)) (\<lambda>_.
    Inr (n_cr3 (vmcbs s (vmcb_vaddr_ptr (vcpus s vp)))))"

definition xmhf_memprot_arch_x86svm_set_h_cr3 ::
  "u32 \<Rightarrow> u64 \<Rightarrow> xmhf_state \<Rightarrow> xmhf_error + xmhf_state" where
  "xmhf_memprot_arch_x86svm_set_h_cr3 vp cr3 s =
    bindE (HALT_ON_ERRORCOND (cpu_vendor (vcpus s vp) = CPU_VENDOR_AMD)) (\<lambda>_.
    Inr (upd_vmcb vp (\<lambda>c. c\<lparr>n_cr3 := cr3\<rparr>) s))"

section \<open>Dispatch on the processor vendor\<close>

abbreviation known_vendor :: "VCPU \<Rightarrow> bool" where
  "known_vendor v \<equiv> cpu_vendor v = CPU_VENDOR_AMD \<or> cpu_vendor v = CPU_VENDOR_INTEL"

definition xmhf_memprot_arch_initialize ::
  "hardware \<Rightarrow> u32 \<Rightarrow> xmhf_state \<Rightarrow> xmhf_error + xmhf_state" where
  "xmhf_memprot_arch_initialize hw vp s =
    bindE (HALT_ON_ERRORCOND (known_vendor (vcpus s vp))) (\<lambda>_.
    if cpu_vendor (vcpus s vp) = CPU_VENDOR_AMD then xmhf_memprot_arch_x86svm_initialize vp s
    else xmhf_memprot_arch_x86vmx_initialize hw vp s)"

definition xmhf_memprot_arch_get_lvl1_pagemap_address :: "VCPU \<Rightarrow> xmhf_error + u32" where
  "xmhf_memprot_arch_get_lvl1_pagemap_address v = bindE (HALT_ON_ERRORCOND (known_vendor v)) (\<lambda>_.
    Inr (if cpu_vendor v = CPU_VENDOR_AMD then npt_vaddr_pts v else vmx_vaddr_ept_p_tables v))"

definition xmhf_memprot_arch_get_lvl2_pagemap_address :: "VCPU \<Rightarrow> xmhf_error + u32" where
  "xmhf_memprot_arch_get_lvl2_pagemap_address v = bindE (HALT_ON_ERRORCOND (known_vendor v)) (\<lambda>_.
    Inr (if cpu_vendor v = CPU_VENDOR_AMD then npt_vaddr_pdts v else vmx_vaddr_ept_pd_tables v))"

definition xmhf_memprot_arch_get_lvl3_pagemap_address :: "VCPU \<Rightarrow> xmhf_error + u32" where
  "xmhf_memprot_arch_get_lvl3_pagemap_address v = bindE (HALT_ON_ERRORCOND (known_vendor v)) (\<lambda>_.
    Inr (if cpu_vendor v = CPU_VENDOR_AMD then npt_vaddr_ptr v else vmx_vaddr_ept_pdp_table v))"

definition xmhf_memprot_arch_get_lvl4_pagemap_address :: "VCPU \<Rightarrow> xmhf_error + u32" where
  "xmhf_memprot_arch_get_lvl4_pagemap_address v =
    bindE (HALT_ON_ERRORCOND (cpu_vendor v = CPU_VENDOR_INTEL)) (\<lambda>_. Inr (vmx_vaddr_ept_pml4_table v))"

definition xmhf_memprot_arch_get_default_root_pagemap_address :: "VCPU \<Rightarrow> xmhf_error + u32" where
  "xmhf_memprot_arch_get_default_root_pagemap_address v =
    bindE (HALT_ON_ERRORCOND (known_vendor v)) (\<lambda>_.
    Inr (if cpu_vendor v = CPU_VENDOR_AMD then npt_vaddr_ptr v else vmx_vaddr_ept_pml4_table v))"

definition xmhf_memprot_arch_flushmappings :: "u32 \<Rightarrow> xmhf_state \<Rightarrow> xmhf_error + xmhf_state" where
  "xmhf_memprot_arch_flushmappings vp s =
    bindE (HALT_ON_ERRORCOND (known_vendor (vcpus s vp))) (\<lambda>_.
    Inr (if cpu_vendor (vcpus s vp) = CPU_VENDOR_AMD then xmhf_memprot_arch_x86svm_flushmappings vp s
         else xmhf_memprot_arch_x86vmx_flushmappings vp s))"

definition xmhf_memprot_arch_setprot :: "u32 \<Rightarrow> u64 \<Rightarrow> u32 \<Rightarrow> xmhf_state \<Rightarrow> xmhf_state" where
  "xmhf_memprot_arch_setprot vp gpa prottype s =
    (if cpu_vendor (vcpus s vp) = CPU_VENDOR_AMD then
       xmhf_memprot_arch_x86svm_setprot vp gpa prottype s
     else xmhf_memprot_arch_x86vmx_setprot vp gpa prottype s)"

definition xmhf_memprot_arch_getprot :: "u32 \<Rightarrow> u64 \<Rightarrow> xmhf_state \<Rightarrow> u32" where
  "xmhf_memprot_arch_getprot vp gpa s =
    (if cpu_vendor (vcpus s vp) = CPU_VENDOR_AMD then xmhf_memprot_arch_x86svm_getprot vp gpa s
     else xmhf_memprot_arch_x86vmx_getprot vp gpa s)"

text \<open>The architecture-independent interface.\<close>

definition xmhf_memprot_initialize :: "hardware \<Rightarrow> u32 \<Rightarrow> xmhf_state \<Rightarrow> xmhf_error + xmhf_state" where
  "xmhf_memprot_initialize = xmhf_memprot_arch_initialize"

definition xmhf_memprot_flushmappings :: "u32 \<Rightarrow> xmhf_state \<Rightarrow> xmhf_error + xmhf_state" where
  "xmhf_memprot_flushmappings = xmhf_memprot_arch_flushmappings"

definition xmhf_memprot_setprot :: "u32 \<Rightarrow> u64 \<Rightarrow> u32 \<Rightarrow> xmhf_state \<Rightarrow> xmhf_state" where
  "xmhf_memprot_setprot = xmhf_memprot_arch_setprot"

definition xmhf_memprot_getprot :: "u32 \<Rightarrow> u64 \<Rightarrow> xmhf_state \<Rightarrow> u32" where
  "xmhf_memprot_getprot = xmhf_memprot_arch_getprot"

section \<open>The contract of a protection backend\<close>

text \<open>The five protection types the callers use, and the entry's page frame number.\<close>

definition canonical_prot :: "u32 \<Rightarrow> bool" where
  "canonical_prot p \<longleftrightarrow> p \<in> {MEMP_PROT_NOTPRESENT,
     MEMP_PROT_PRESENT OR MEMP_PROT_READONLY OR MEMP_PROT_EXECUTE,
     MEMP_PROT_PRESENT OR MEMP_PROT_READWRITE OR MEMP_PROT_EXECUTE,
     MEMP_PROT_PRESENT OR MEMP_PROT_READONLY OR MEMP_PROT_NOEXECUTE,
     MEMP_PROT_PRESENT OR MEMP_PROT_READWRITE OR MEMP_PROT_NOEXECUTE}"

locale memprot_backend =
  fixes setprot :: "u32 \<Rightarrow> u64 \<Rightarrow> u32 \<Rightarrow> xmhf_state \<Rightarrow> xmhf_state"
    and getprot :: "u32 \<Rightarrow> u64 \<Rightarrow> xmhf_state \<Rightarrow> u32"
    and pts :: "u32 \<Rightarrow> xmhf_state \<Rightarrow> u32"
    and rights :: "u32 \<Rightarrow> xmhf_state \<Rightarrow> u64"
  assumes getprot_set: "canonical_prot p \<Longrightarrow> getprot vp gpa (setprot vp gpa p s) = p"
    and getprot_set_other:
      "gpa_pfn gpa \<noteq> gpa_pfn gpa' \<Longrightarrow> getprot vp gpa' (setprot vp gpa p s) = getprot vp gpa' s"
    and setprot_keeps: "ld64 (mem (setprot vp gpa p s)) (elem64 (pts vp s) (unat (gpa_pfn gpa)))
        AND NOT (rights vp s)
      = ld64 (mem s) (elem64 (pts vp s) (unat (gpa_pfn gpa))) AND NOT (rights vp s)"
    and setprot_frame: "\<exists>m. setprot vp gpa p s = s\<lparr>mem := m\<rparr>
        \<and> (\<forall>a. a \<notin> span (elem64 (pts vp s) (unat (gpa_pfn gpa))) 8 \<longrightarrow> m a = mem s a)"
    and getprot_pfn: "gpa_pfn gpa = gpa_pfn gpa' \<Longrightarrow> getprot vp gpa s = getprot vp gpa' s"
begin

text \<open>Protecting a list of pages, as a hypapp does for a region.\<close>

definition setprot_all :: "u32 \<Rightarrow> u64 list \<Rightarrow> u32 \<Rightarrow> xmhf_state \<Rightarrow> xmhf_state" where
  "setprot_all vp gpas p s = fold (\<lambda>gpa. setprot vp gpa p) gpas s"

lemma setprot_all_other:
  "gpa_pfn gpa \<notin> gpa_pfn ` set gpas \<Longrightarrow> getprot vp gpa (setprot_all vp gpas p s) = getprot vp gpa s"
  by (induction gpas arbitrary: s) (auto simp: setprot_all_def getprot_set_other)

lemma setprot_all_set:
  "canonical_prot p \<Longrightarrow> gpa_pfn gpa \<in> gpa_pfn ` set gpas \<Longrightarrow>
   getprot vp gpa (setprot_all vp gpas p s) = p"
proof (induction gpas arbitrary: s)
  case Nil
  then show ?case by simp
next
  case (Cons g gpas)
  have step: "setprot_all vp (g # gpas) p s = setprot_all vp gpas p (setprot vp g p s)"
    by (simp add: setprot_all_def)
  show ?case
  proof (cases "gpa_pfn gpa \<in> gpa_pfn ` set gpas")
    case True
    with Cons show ?thesis by (simp add: step)
  next
    case False
    then have g: "gpa_pfn gpa = gpa_pfn g" using Cons.prems by auto
    have "getprot vp gpa (setprot_all vp (g # gpas) p s) = getprot vp gpa (setprot vp g p s)"
      unfolding step by (rule setprot_all_other[OF False])
    also have "\<dots> = getprot vp g (setprot vp g p s)" by (rule getprot_pfn[OF g])
    also have "\<dots> = p" by (rule getprot_set[OF Cons.prems(1)])
    finally show ?thesis .
  qed
qed

lemma setprot_all_vcpus: "vcpus (setprot_all vp gpas p s) = vcpus s"
proof (induction gpas arbitrary: s)
  case (Cons g gpas)
  obtain m where "setprot vp g p s = s\<lparr>mem := m\<rparr>" using setprot_frame by blast
  with Cons[of "setprot vp g p s"] show ?case by (simp add: setprot_all_def)
qed (simp add: setprot_all_def)

end

lemma span_memberE:
  assumes "x \<in> span a n"
  obtains i where "i < n" "x = a + of_nat i"
  using assms by (intro that[of "unat (x - a)"]) (simp_all add: span_iff)

lemma st64_st64_same [simp]: "st64 (st64 m a x) a y = st64 m a y"
proof
  fix b
  show "st64 (st64 m a x) a y b = st64 m a y b"
  proof (cases "b \<in> span a 8")
    case True
    then show ?thesis unfolding st64_def by (elim span_memberE) (simp add: stw_inside)
  next
    case False
    then show ?thesis by (simp add: st64_outside)
  qed
qed

lemma gpa_pfn_less: "unat (gpa_pfn gpa) < 2 ^ 20"
proof -
  have "unat (ucast gpa :: u32) < 2 ^ 32" using unsigned_less[of "ucast gpa :: u32", where 'a=nat] by simp
  then show ?thesis by (simp add: gpa_pfn_def xconst unat_div)
qed

text \<open>What \<^verbatim>\<open>setprot\<close> makes of an entry: the rights replaced, the other bits kept.\<close>

definition ept_set :: "u32 \<Rightarrow> u64 \<Rightarrow> u64" where
  "ept_set p e = (e AND NOT 7) OR ucast (ept_flags p)"

definition npt_set :: "u32 \<Rightarrow> u64 \<Rightarrow> u64" where
  "npt_set p e = (e AND NOT 0x8000000000000003) OR npt_flags p"

lemma setprot_store:
  "xmhf_memprot_arch_x86vmx_setprot vp gpa p s =
    (let a = elem64 (vmx_vaddr_ept_p_tables (vcpus s vp)) (unat (gpa_pfn gpa)) in
     s\<lparr>mem := st64 (mem s) a (ept_set p (ld64 (mem s) a))\<rparr>)"
  "xmhf_memprot_arch_x86svm_setprot vp gpa p s =
    (let a = elem64 (npt_vaddr_pts (vcpus s vp)) (unat (gpa_pfn gpa)) in
     s\<lparr>mem := st64 (mem s) a (npt_set p (ld64 (mem s) a))\<rparr>)"
  by (simp_all add: xmhf_memprot_arch_x86vmx_setprot_def xmhf_memprot_arch_x86svm_setprot_def
      ept_set_def npt_set_def Let_def)

lemma ept_flags_cases: "ept_flags p \<in> {0, 1, 3, 5, 7}"
  by (simp add: ept_flags_def)

lemma npt_flags_cases:
  "npt_flags p \<in> {0x8000000000000000, 0x8000000000000001, 0x8000000000000003, 1, 3}"
  by (simp add: npt_flags_def Let_def)

lemma ept_set_bits:
  "bit (ept_set p e) 0 = bit (ept_flags p) 0" "bit (ept_set p e) 1 = bit (ept_flags p) 1"
  "bit (ept_set p e) 2 = bit (ept_flags p) 2"
  by (simp_all add: ept_set_def bit_simps)

lemma npt_set_bits:
  "bit (npt_set p e) 0 = bit (npt_flags p) 0" "bit (npt_set p e) 1 = bit (npt_flags p) 1"
  "bit (npt_set p e) 63 = bit (npt_flags p) 63"
  by (simp_all add: npt_set_def bit_simps)

lemma and_bit_numerals:
  "(x AND 1 = 0) = (\<not> bit x 0)" "(x AND 2 = 0) = (\<not> bit x 1)" "(x AND 4 = 0) = (\<not> bit x 2)"
  "(x AND 0x8000000000000000 = 0) = (\<not> bit x 63)"
  for x :: u64
  using and_exp_eq_0_iff_not_bit[of x 0] and_exp_eq_0_iff_not_bit[of x 1]
    and_exp_eq_0_iff_not_bit[of x 2] and_exp_eq_0_iff_not_bit[of x 63] by simp_all

lemma ept_prottype_set: "canonical_prot p \<Longrightarrow> ept_prottype (ept_set p e) = p"
  unfolding canonical_prot_def ept_prottype_def and_bit_numerals ept_set_bits
  by (auto simp: ept_flags_def xconst bit_numeral_rec)

lemma npt_prottype_set: "canonical_prot p \<Longrightarrow> npt_prottype (npt_set p e) = p"
  unfolding canonical_prot_def npt_prottype_def and_bit_numerals npt_set_bits
  by (auto simp: npt_flags_def xconst Let_def bit_numeral_rec)

lemma masked_or: "f AND NOT m = 0 \<Longrightarrow> ((e AND NOT m) OR f) AND NOT m = e AND NOT (m :: u64)"
  by (simp add: bit.conj_disj_distrib2)

lemma ept_set_keeps: "ept_set p e AND NOT 7 = e AND NOT 7"
  unfolding ept_set_def by (rule masked_or) (use ept_flags_cases[of p] in auto)

lemma npt_set_keeps: "npt_set p e AND NOT 0x8000000000000003 = e AND NOT 0x8000000000000003"
  unfolding npt_set_def by (rule masked_or) (use npt_flags_cases[of p] in auto)

lemma ld64_pfn_st64_pfn:
  "ld64 (st64 m (elem64 b (unat (gpa_pfn g))) v) (elem64 b (unat (gpa_pfn g')))
    = (if gpa_pfn g = gpa_pfn g' then v else ld64 m (elem64 b (unat (gpa_pfn g'))))"
  using gpa_pfn_less[of g] gpa_pfn_less[of g']
  by (simp add: ld64_elem_st64_elem word_unat_eq_iff)

interpretation vmx: memprot_backend xmhf_memprot_arch_x86vmx_setprot xmhf_memprot_arch_x86vmx_getprot
  "\<lambda>vp s. vmx_vaddr_ept_p_tables (vcpus s vp)" "\<lambda>vp s. 7"
  by unfold_locales
    (auto simp: setprot_store xmhf_memprot_arch_x86vmx_getprot_def Let_def ept_prottype_set
      ld64_pfn_st64_pfn ept_set_keeps[simplified] st64_outside)

interpretation svm: memprot_backend xmhf_memprot_arch_x86svm_setprot xmhf_memprot_arch_x86svm_getprot
  "\<lambda>vp s. npt_vaddr_pts (vcpus s vp)" "\<lambda>vp s. 0x8000000000000003"
  by unfold_locales
    (auto simp: setprot_store xmhf_memprot_arch_x86svm_getprot_def Let_def npt_prottype_set
      ld64_pfn_st64_pfn npt_set_keeps[simplified] st64_outside)

text \<open>The dispatching layers keep the contract of the backends they choose between.\<close>

definition memprot_pts :: "u32 \<Rightarrow> xmhf_state \<Rightarrow> u32" where
  "memprot_pts vp s = (if cpu_vendor (vcpus s vp) = CPU_VENDOR_AMD then npt_vaddr_pts (vcpus s vp)
    else vmx_vaddr_ept_p_tables (vcpus s vp))"

definition memprot_rights :: "u32 \<Rightarrow> xmhf_state \<Rightarrow> u64" where
  "memprot_rights vp s =
    (if cpu_vendor (vcpus s vp) = CPU_VENDOR_AMD then 0x8000000000000003 else 7)"

lemmas memprot_dispatch = xmhf_memprot_setprot_def xmhf_memprot_getprot_def
  xmhf_memprot_arch_setprot_def xmhf_memprot_arch_getprot_def

lemma setprot_vcpus [simp]:
  "vcpus (xmhf_memprot_arch_x86vmx_setprot vp gpa p s) = vcpus s"
  "vcpus (xmhf_memprot_arch_x86svm_setprot vp gpa p s) = vcpus s"
  by (simp_all add: setprot_store Let_def)

interpretation memprot: memprot_backend xmhf_memprot_setprot xmhf_memprot_getprot
  memprot_pts memprot_rights
proof
  fix p vp gpa gpa' s
  show "canonical_prot p \<Longrightarrow> xmhf_memprot_getprot vp gpa (xmhf_memprot_setprot vp gpa p s) = p"
    by (simp add: memprot_dispatch vmx.getprot_set svm.getprot_set)
  show "gpa_pfn gpa \<noteq> gpa_pfn gpa' \<Longrightarrow>
    xmhf_memprot_getprot vp gpa' (xmhf_memprot_setprot vp gpa p s) = xmhf_memprot_getprot vp gpa' s"
    by (simp add: memprot_dispatch vmx.getprot_set_other svm.getprot_set_other)
  show "ld64 (mem (xmhf_memprot_setprot vp gpa p s))
        (elem64 (memprot_pts vp s) (unat (gpa_pfn gpa))) AND NOT (memprot_rights vp s)
      = ld64 (mem s) (elem64 (memprot_pts vp s) (unat (gpa_pfn gpa))) AND NOT (memprot_rights vp s)"
    using vmx.setprot_keeps[of vp gpa p s] svm.setprot_keeps[of vp gpa p s]
    by (simp add: memprot_dispatch memprot_pts_def memprot_rights_def)
  show "\<exists>m. xmhf_memprot_setprot vp gpa p s = s\<lparr>mem := m\<rparr>
    \<and> (\<forall>a. a \<notin> span (elem64 (memprot_pts vp s) (unat (gpa_pfn gpa))) 8 \<longrightarrow> m a = mem s a)"
    using vmx.setprot_frame[of vp gpa p s] svm.setprot_frame[of vp gpa p s]
    by (simp add: memprot_dispatch memprot_pts_def)
  show "gpa_pfn gpa = gpa_pfn gpa' \<Longrightarrow> xmhf_memprot_getprot vp gpa s = xmhf_memprot_getprot vp gpa' s"
    using vmx.getprot_pfn[of gpa gpa' vp s] svm.getprot_pfn[of gpa gpa' vp s]
    by (simp add: memprot_dispatch)
qed

text \<open>
  C34: On both vendors, setting one of the five protection types of a page makes the interface
  report exactly that type for every address of the page, and leaves what it reports for every
  other page unchanged.
\<close>

theorem memprot_set_get:
  assumes "canonical_prot p"
  shows "xmhf_memprot_getprot vp gpa' (xmhf_memprot_setprot vp gpa p s)
    = (if gpa_pfn gpa' = gpa_pfn gpa then p else xmhf_memprot_getprot vp gpa' s)"
  using memprot.getprot_set[OF assms, of vp gpa s] memprot.getprot_set_other[of gpa gpa' vp p s]
    memprot.getprot_pfn[of gpa' gpa vp "xmhf_memprot_setprot vp gpa p s"]
  by simp

theorem memprot_set_get_witness:
  "canonical_prot 0x16 \<and> (\<forall>s. xmhf_memprot_getprot 0 0x5FFF (xmhf_memprot_setprot 0 0x5000 0x16 s) = 0x16)"
  using memprot_set_get[of "0x16" 0 "0x5FFF" "0x5000"]
  by (simp add: canonical_prot_def gpa_pfn_def xconst)

text \<open>
  A protection change writes nothing but the eight bytes of the page's entry, and in that
  entry nothing but the rights bits: the mapped address, the memory type and all other entries
  and data stay as they were, whatever the protection type.
\<close>

theorem memprot_set_frame:
  "\<exists>m. xmhf_memprot_setprot vp gpa p s = s\<lparr>mem := m\<rparr>
    \<and> (\<forall>a. a \<notin> span (elem64 (memprot_pts vp s) (unat (gpa_pfn gpa))) 8 \<longrightarrow> m a = mem s a)
    \<and> ld64 m (elem64 (memprot_pts vp s) (unat (gpa_pfn gpa))) AND NOT (memprot_rights vp s)
      = ld64 (mem s) (elem64 (memprot_pts vp s) (unat (gpa_pfn gpa))) AND NOT (memprot_rights vp s)"
proof -
  obtain m where m: "xmhf_memprot_setprot vp gpa p s = s\<lparr>mem := m\<rparr>"
    "\<forall>a. a \<notin> span (elem64 (memprot_pts vp s) (unat (gpa_pfn gpa))) 8 \<longrightarrow> m a = mem s a"
    using memprot.setprot_frame by blast
  with memprot.setprot_keeps[of vp gpa p s] show ?thesis by auto
qed

theorem memprot_set_frame_witness:
  "\<forall>s. mem (xmhf_memprot_setprot 0 0x5000 1 s) (memprot_pts 0 s) = mem s (memprot_pts 0 s)"
proof
  fix s
  have "memprot_pts 0 s \<notin> span (elem64 (memprot_pts 0 s) (unat (gpa_pfn 0x5000))) 8"
    by (simp add: span_iff elem64_def gpa_pfn_def xconst)
  with memprot_set_frame[of 0 "0x5000" 1 s] show "mem (xmhf_memprot_setprot 0 0x5000 1 s)
      (memprot_pts 0 s) = mem s (memprot_pts 0 s)"
    by auto
qed

text \<open>
  Protecting the pages of a list one after the other gives every page of the list the type
  and leaves every other page as it was, in whatever order and however often a page occurs.
\<close>

theorem memprot_set_region:
  assumes "canonical_prot p"
  shows "xmhf_memprot_getprot vp gpa (fold (\<lambda>g. xmhf_memprot_setprot vp g p) gpas s)
    = (if gpa_pfn gpa \<in> gpa_pfn ` set gpas then p else xmhf_memprot_getprot vp gpa s)"
  using memprot.setprot_all_set[OF assms, of gpa gpas vp s]
    memprot.setprot_all_other[of gpa gpas vp p s]
  by (simp add: memprot.setprot_all_def)

theorem memprot_set_region_witness:
  "canonical_prot 1 \<and> (\<forall>s. xmhf_memprot_getprot 0 0x2000
     (fold (\<lambda>g. xmhf_memprot_setprot 0 g 1) [0x1000, 0x2000] s) = 1)"
  using memprot_set_region[of 1 0 "0x2000" "[0x1000, 0x2000]"]
  by (simp add: canonical_prot_def xconst)

text \<open>
  A nested-page-table pointer written on an Intel core is read back unchanged, in spite of
  the two 32-bit halves it is stored in.
\<close>

theorem eptp_roundtrip:
  assumes "cpu_vendor (vcpus s vp) = CPU_VENDOR_INTEL"
  shows "bindE (xmhf_memprot_arch_x86vmx_set_EPTP vp eptp s)
      (xmhf_memprot_arch_x86vmx_get_EPTP vp) = Inr eptp"
proof -
  have "push_bit 32 (ucast (ucast (drop_bit 32 eptp) :: u32)) OR ucast (ucast eptp :: u32) = eptp"
    by (rule u64_bitsI) (simp add: bit_simps)
  with assms show ?thesis
    by (simp add: xmhf_memprot_arch_x86vmx_set_EPTP_def xmhf_memprot_arch_x86vmx_get_EPTP_def)
qed

theorem eptp_roundtrip_witness:
  "\<forall>s. bindE (xmhf_memprot_arch_x86vmx_set_EPTP 0 0x12345678ABCDE01E
        (s\<lparr>vcpus := (\<lambda>vp. zero_VCPU\<lparr>cpu_vendor := CPU_VENDOR_INTEL\<rparr>)\<rparr>))
      (xmhf_memprot_arch_x86vmx_get_EPTP 0) = Inr 0x12345678ABCDE01E"
  using eptp_roundtrip[of "s\<lparr>vcpus := (\<lambda>vp. zero_VCPU\<lparr>cpu_vendor := CPU_VENDOR_INTEL\<rparr>)\<rparr>" 0 for s]
  by simp

section \<open>The filled tables\<close>

text \<open>
  Progress of the loop nest: \<open>a\<close> entries of the page-directory-pointer table, \<open>d\<close> of the page
  directories and \<open>n\<close> leaf entries are written, and memory outside the tables is untouched.
\<close>

definition tables_inv ::
  "u32 \<Rightarrow> u32 \<Rightarrow> u32 \<Rightarrow> (u32 \<Rightarrow> u64) \<Rightarrow> (u32 \<Rightarrow> u64) \<Rightarrow> (u32 \<Rightarrow> xmhf_error + u64) \<Rightarrow> memory
    \<Rightarrow> nat \<Rightarrow> nat \<Rightarrow> nat \<Rightarrow> memory \<times> u32 \<Rightarrow> bool" where
  "tables_inv A D T fa fd ft m0 a d n = (\<lambda>(m, paddr).
     paddr = of_nat (4096 * n)
     \<and> (\<forall>q<a. ld64 m (elem64 A q) = fa (D + 4096 * of_nat q))
     \<and> (\<forall>q<d. ld64 m (elem64 D q) = fd (T + 4096 * of_nat q))
     \<and> (\<forall>q<n. ft (of_nat (4096 * q)) = Inr (ld64 m (elem64 T q)))
     \<and> (\<forall>x. x \<notin> span A (8 * 4) \<and> x \<notin> span D (8 * 2048) \<and> x \<notin> span T (8 * 2 ^ 20)
          \<longrightarrow> m x = m0 x))"

definition tables_disjoint :: "u32 \<Rightarrow> u32 \<Rightarrow> u32 \<Rightarrow> bool" where
  "tables_disjoint A D T \<longleftrightarrow> span A (8 * 4) \<inter> span D (8 * 2048) = {}
    \<and> span A (8 * 4) \<inter> span T (8 * 2 ^ 20) = {} \<and> span D (8 * 2048) \<inter> span T (8 * 2 ^ 20) = {}"

lemma ld64_elem_other_table:
  assumes "i < N" "j < M" "N < 2 ^ 29" "M < 2 ^ 29" and "span B (8 * N) \<inter> span C (8 * M) = {}"
  shows "ld64 (st64 m (elem64 B i) v) (elem64 C j) = ld64 m (elem64 C j)"
proof (rule ld64_st64_disjoint)
  show "span (elem64 B i) 8 \<inter> span (elem64 C j) 8 = {}"
    using elem64_span_sub[OF assms(1,3), of B] elem64_span_sub[OF assms(2,4), of C] assms(5) by blast
qed

lemma st64_elem_outside:
  "i < N \<Longrightarrow> N < 2 ^ 29 \<Longrightarrow> x \<notin> span B (8 * N) \<Longrightarrow> st64 m (elem64 B i) v x = m x"
  using elem64_span_sub[of i N B] by (intro st64_outside) blast

lemma elem64_subtable:
  "elem64 (B + PAGE_SIZE_4K * of_nat t) k = elem64 B (512 * t + k)"
  by (simp add: elem64_def xconst algebra_simps)

lemma tables_inv_pte:
  assumes "tables_disjoint A D T" "tables_inv A D T fa fd ft m0 a d n (m, paddr)"
    and "a \<le> 4" "d \<le> 2048" "n < 2 ^ 20" and "ft paddr = Inr e"
  shows "tables_inv A D T fa fd ft m0 a d (Suc n) (st64 m (elem64 T n) e, paddr + PAGE_SIZE_4K)"
proof -
  have o: "ld64 (st64 m (elem64 T n) e) (elem64 T q) = ld64 m (elem64 T q)" if "q < n" for q
    using that assms(5) by (simp add: ld64_elem_st64_elem)
  have oA: "ld64 (st64 m (elem64 T n) e) (elem64 A q) = ld64 m (elem64 A q)" if "q < a" for q
    by (rule ld64_elem_other_table[of n "2 ^ 20" q 4])
      (use that assms in \<open>auto simp: tables_disjoint_def Int_commute\<close>)
  have oD: "ld64 (st64 m (elem64 T n) e) (elem64 D q) = ld64 m (elem64 D q)" if "q < d" for q
    by (rule ld64_elem_other_table[of n "2 ^ 20" q 2048])
      (use that assms in \<open>auto simp: tables_disjoint_def Int_commute\<close>)
  have oO: "st64 m (elem64 T n) e x = m x" if "x \<notin> span T (8 * 2 ^ 20)" for x
    by (rule st64_elem_outside[of n "2 ^ 20"]) (use that assms in auto)
  show ?thesis
    using assms(2,6) o oA oD oO
    by (auto simp: tables_inv_def less_Suc_eq xconst algebra_simps)
qed

lemma tables_inv_pde:
  assumes "tables_disjoint A D T" "tables_inv A D T fa fd ft m0 a d n (m, paddr)"
    and "a \<le> 4" "d < 2048" "n \<le> 2 ^ 20"
  shows "tables_inv A D T fa fd ft m0 a (Suc d) n
    (st64 m (elem64 D d) (fd (T + PAGE_SIZE_4K * of_nat d)), paddr)"
proof -
  let ?m = "st64 m (elem64 D d) (fd (T + PAGE_SIZE_4K * of_nat d))"
  have o: "ld64 ?m (elem64 D q) = ld64 m (elem64 D q)" if "q < d" for q
    using that assms(4) by (simp add: ld64_elem_st64_elem)
  have oA: "ld64 ?m (elem64 A q) = ld64 m (elem64 A q)" if "q < a" for q
    by (rule ld64_elem_other_table[of d 2048 q 4])
      (use that assms in \<open>auto simp: tables_disjoint_def Int_commute\<close>)
  have oT: "ld64 ?m (elem64 T q) = ld64 m (elem64 T q)" if "q < n" for q
    by (rule ld64_elem_other_table[of d 2048 q "2 ^ 20"])
      (use that assms in \<open>auto simp: tables_disjoint_def\<close>)
  have oO: "?m x = m x" if "x \<notin> span D (8 * 2048)" for x
    by (rule st64_elem_outside[of d 2048]) (use that assms in auto)
  show ?thesis
    using assms(2) o oA oT oO by (auto simp: tables_inv_def less_Suc_eq PAGE_SIZE_4K_def)
qed

lemma tables_inv_pdpe:
  assumes "tables_disjoint A D T" "tables_inv A D T fa fd ft m0 a d n (m, paddr)"
    and "a < 4" "d \<le> 2048" "n \<le> 2 ^ 20"
  shows "tables_inv A D T fa fd ft m0 (Suc a) d n
    (st64 m (elem64 A a) (fa (D + PAGE_SIZE_4K * of_nat a)), paddr)"
proof -
  let ?m = "st64 m (elem64 A a) (fa (D + PAGE_SIZE_4K * of_nat a))"
  have o: "ld64 ?m (elem64 A q) = ld64 m (elem64 A q)" if "q < a" for q
    using that assms(3) by (simp add: ld64_elem_st64_elem)
  have oD: "ld64 ?m (elem64 D q) = ld64 m (elem64 D q)" if "q < d" for q
    by (rule ld64_elem_other_table[of a 4 q 2048])
      (use that assms in \<open>auto simp: tables_disjoint_def\<close>)
  have oT: "ld64 ?m (elem64 T q) = ld64 m (elem64 T q)" if "q < n" for q
    by (rule ld64_elem_other_table[of a 4 q "2 ^ 20"])
      (use that assms in \<open>auto simp: tables_disjoint_def\<close>)
  have oO: "?m x = m x" if "x \<notin> span A (8 * 4)" for x
    by (rule st64_elem_outside[of a 4]) (use that assms in auto)
  show ?thesis
    using assms(2) o oD oT oO by (auto simp: tables_inv_def less_Suc_eq PAGE_SIZE_4K_def)
qed

lemma fill_pt_inv:
  assumes "tables_disjoint A D T" "tables_inv A D T fa fd ft m0 a d (512 * t) st"
    and "a \<le> 4" "d \<le> 2048" "t < 2048" and "\<forall>q<2 ^ 20. \<exists>e. ft (of_nat (4096 * q)) = Inr e"
  shows "\<exists>st'. fill_pt (T + PAGE_SIZE_4K * of_nat t) ft st = Inr st'
    \<and> tables_inv A D T fa fd ft m0 a d (512 * Suc t) st'"
proof -
  have "\<exists>st'. fill_pt (T + PAGE_SIZE_4K * of_nat t) ft st = Inr st'
    \<and> tables_inv A D T fa fd ft m0 a d (512 * t + (0 + 512)) st'"
    unfolding fill_pt_def PAE_PTRS_PER_PT_def
  proof (rule forE_total)
    fix k :: nat and r :: "memory \<times> u32"
    assume k: "k < 0 + 512" and inv: "tables_inv A D T fa fd ft m0 a d (512 * t + k) r"
    obtain m paddr where r: "r = (m, paddr)" by (cases r)
    have n: "512 * t + k < 2 ^ 20" using k assms(5) by simp
    have "paddr = of_nat (4096 * (512 * t + k))" using inv by (simp add: r tables_inv_def)
    with assms(6) n obtain e where e: "ft paddr = Inr e" by blast
    from tables_inv_pte[OF assms(1) inv[unfolded r] assms(3,4) n e]
    show "\<exists>r'. (case r of (m, paddr) \<Rightarrow> bindE (ft paddr) (\<lambda>e. Inr
        (st64 m (elem64 (T + PAGE_SIZE_4K * of_nat t) k) e, paddr + PAGE_SIZE_4K))) = Inr r'
      \<and> tables_inv A D T fa fd ft m0 a d (512 * t + Suc k) r'"
      by (simp add: r e elem64_subtable)
  qed (use assms(2) in simp)
  then show ?thesis by (simp add: add.commute)
qed

lemma fill_pdt_inv:
  assumes "tables_disjoint A D T" "tables_inv A D T fa fd ft m0 a (512 * i) (512 * (512 * i)) st"
    and "a \<le> 4" "i < 4" and "\<forall>q<2 ^ 20. \<exists>e. ft (of_nat (4096 * q)) = Inr e"
  shows "\<exists>st'. fill_pdt (D + PAGE_SIZE_4K * of_nat i) T i fd ft st = Inr st'
    \<and> tables_inv A D T fa fd ft m0 a (512 * Suc i) (512 * (512 * Suc i)) st'"
proof -
  have "\<exists>st'. fill_pdt (D + PAGE_SIZE_4K * of_nat i) T i fd ft st = Inr st'
    \<and> tables_inv A D T fa fd ft m0 a (512 * i + (0 + 512)) (512 * (512 * i + (0 + 512))) st'"
    unfolding fill_pdt_def PAE_PTRS_PER_PDT_def
  proof (rule forE_total)
    fix j :: nat and r :: "memory \<times> u32"
    let ?t = "512 * i + j"
    assume j: "j < 0 + 512" and inv: "tables_inv A D T fa fd ft m0 a ?t (512 * ?t) r"
    obtain m paddr where r: "r = (m, paddr)" by (cases r)
    have t: "?t < 2048" "512 * ?t \<le> 2 ^ 20" using j assms(4) by simp_all
    note inv' = tables_inv_pde[OF assms(1) inv[unfolded r] assms(3) t]
    have c: "elem64 (D + PAGE_SIZE_4K * of_nat i) j = elem64 D ?t" by (rule elem64_subtable)
    have "\<exists>r'. fill_pt (T + PAGE_SIZE_4K * of_nat ?t) ft
        (st64 m (elem64 D ?t) (fd (T + PAGE_SIZE_4K * of_nat ?t)), paddr) = Inr r'
      \<and> tables_inv A D T fa fd ft m0 a (Suc ?t) (512 * Suc ?t) r'"
      by (rule fill_pt_inv[OF assms(1) inv' assms(3) _ t(1) assms(5)]) (use t in simp)
    then show "\<exists>r'. (case r of (m, paddr) \<Rightarrow>
        let pt = T + PAGE_SIZE_4K * of_nat (i * 512 + j) in
        fill_pt pt ft (st64 m (elem64 (D + PAGE_SIZE_4K * of_nat i) j) (fd pt), paddr)) = Inr r'
      \<and> tables_inv A D T fa fd ft m0 a (512 * i + Suc j) (512 * (512 * i + Suc j)) r'"
      unfolding r prod.case Let_def c by (simp only: mult.commute[of i 512] add_Suc_right)
  qed (use assms(2) in simp)
  then show ?thesis by (simp add: add.commute)
qed

lemma fill_pdpt_inv:
  assumes "tables_disjoint A D T" and "\<forall>q<2 ^ 20. \<exists>e. ft (of_nat (4096 * q)) = Inr e"
  shows "\<exists>m. fill_pdpt A D T fa fd ft (m0, 0) = Inr (m, 0)
    \<and> tables_inv A D T fa fd ft m0 4 2048 (2 ^ 20) (m, 0)"
proof -
  let ?inv = "\<lambda>i. tables_inv A D T fa fd ft m0 i (512 * i) (512 * (512 * i))"
  have "\<exists>st'. fill_pdpt A D T fa fd ft (m0, 0) = Inr st' \<and> ?inv (0 + 4) st'"
    unfolding fill_pdpt_def PAE_PTRS_PER_PDPT_def
  proof (rule forE_total)
    fix i :: nat and r :: "memory \<times> u32"
    assume i: "i < 0 + 4" and inv: "?inv i r"
    obtain m paddr where r: "r = (m, paddr)" by (cases r)
    have b: "i < 4" "512 * i \<le> 2048" "512 * (512 * i) \<le> 2 ^ 20" using i by simp_all
    note inv' = tables_inv_pdpe[OF assms(1) inv[unfolded r] b]
    show "\<exists>r'. (case r of (m, paddr) \<Rightarrow> let pdt = D + PAGE_SIZE_4K * of_nat i in
        fill_pdt pdt T i fd ft (st64 m (elem64 A i) (fa pdt), paddr)) = Inr r' \<and> ?inv (Suc i) r'"
      unfolding r prod.case Let_def
      by (rule fill_pdt_inv[OF assms(1) inv' _ b(1) assms(2)]) (use b in simp)
  qed (simp add: tables_inv_def)
  then obtain m p where "fill_pdpt A D T fa fd ft (m0, 0) = Inr (m, p)"
    "tables_inv A D T fa fd ft m0 4 2048 (2 ^ 20) (m, p)" by auto
  moreover from this(2) have "p = of_nat (4096 * 2 ^ 20)" by (simp add: tables_inv_def)
  then have "p = 0" by (simp only:) simp
  ultimately show ?thesis by blast
qed

end
