(* ===== verification/XMHF_EPT.thy ===== *)
theory XMHF_EPT
  imports XMHF_MemProt
begin

text \<open>
  Correctness of the page tables the memory protection component builds. The hardware's walk of
  the extended page tables is stated as a function of memory, and the tables of
  \<^verbatim>\<open>_vmx_setupEPT\<close> are shown to make that walk the identity on the guest's memory and to hide
  the hypervisor's own.
\<close>

section \<open>The hardware walk\<close>

text \<open>
  What the processor does with the tables (Intel SDM, 28.2.2: four levels, 4K pages), as the
  specification the set-up is measured against: at each level an entry whose rights bits 2:0 are
  all clear is not present; the rights of the page are the conjunction over the levels, and the
  memory type is bits 5:3 of the leaf. A physical address \<open>a\<close> is read through the hypervisor's
  own mapping, at \<^term>\<open>spa2hva1 b a\<close>.
\<close>

definition walk_addr :: "u64 \<Rightarrow> u64" where
  "walk_addr e = e AND 0x000FFFFFFFFFF000"

definition walk_entry :: "RPB \<Rightarrow> memory \<Rightarrow> u64 \<Rightarrow> nat \<Rightarrow> u64" where
  "walk_entry b m e i = ld64 m (elem64 (spa2hva1 b (walk_addr e)) i)"

definition walk_index :: "nat \<Rightarrow> u64 \<Rightarrow> nat" where
  "walk_index l gpa = unat gpa div 2 ^ (12 + 9 * l) mod 512"

definition ept_walk :: "RPB \<Rightarrow> memory \<Rightarrow> u64 \<Rightarrow> u64 \<Rightarrow> (u64 \<times> u64 \<times> u64) option" where
  "ept_walk b m eptp gpa =
    (let e4 = walk_entry b m eptp (walk_index 3 gpa);
         e3 = walk_entry b m e4 (walk_index 2 gpa);
         e2 = walk_entry b m e3 (walk_index 1 gpa);
         e1 = walk_entry b m e2 (walk_index 0 gpa)
     in if e4 AND 7 = 0 \<or> e3 AND 7 = 0 \<or> e2 AND 7 = 0 \<or> e1 AND 7 = 0 then None
        else Some (walk_addr e1 OR (gpa AND 0xFFF), e4 AND e3 AND e2 AND e1 AND 7,
                   drop_bit 3 e1 AND 7))"

text \<open>A table whose physical address is page aligned.\<close>

definition spa_aligned :: "RPB \<Rightarrow> u32 \<Rightarrow> bool" where
  "spa_aligned b t \<longleftrightarrow> take_bit 12 (t + XtVmmRuntimePhysBase b - XtVmmRuntimeVirtBase b) = 0"

lemma take_bit_12_dvd: "take_bit 12 (x :: u32) = 0 \<longleftrightarrow> 4096 dvd unat x"
proof -
  have "unat (take_bit 12 x) = unat x mod 4096"
    by (simp only: unsigned_take_bit_eq) (simp add: take_bit_eq_mod)
  then show ?thesis by (metis dvd_eq_mod_eq_0 unat_eq_zero)
qed

lemma dvd_unat_add:
  assumes "4096 dvd unat x" and "4096 dvd unat y"
  shows "4096 dvd unat (x + y :: u32)"
proof -
  have "4096 dvd (unat x + unat y) mod 2 ^ 32"
    using assms by (intro dvd_mod dvd_add) simp_all
  then show ?thesis by (simp add: unat_word_ariths)
qed

lemma spa_aligned_offset:
  assumes "spa_aligned b t"
  shows "spa_aligned b (t + 4096 * n)"
proof -
  let ?x = "t + XtVmmRuntimePhysBase b - XtVmmRuntimeVirtBase b"
  have "4096 * n = push_bit 12 n" by (simp add: push_bit_eq_mult mult.commute)
  then have "take_bit 12 (4096 * n) = (0 :: u32)" by (simp add: take_bit_push_bit)
  then have "take_bit 12 (?x + 4096 * n) = 0"
    using assms dvd_unat_add unfolding spa_aligned_def take_bit_12_dvd by blast
  moreover have "?x + 4096 * n = t + 4096 * n + XtVmmRuntimePhysBase b - XtVmmRuntimeVirtBase b"
    by simp
  ultimately show ?thesis by (simp only: spa_aligned_def)
qed

lemma unat_ucast_u64 [simp]: "unat (ucast (x :: u32) :: u64) = unat x"
proof -
  have "unat x < 2 ^ 32" using unsigned_less[of x, where 'a=nat] by simp
  then show ?thesis by (simp add: unsigned_ucast_eq take_bit_nat_eq_self)
qed

lemma u32_high_bit: "32 \<le> n \<Longrightarrow> \<not> bit (x :: u32) n"
  by (auto dest: bit_imp_le_length)

lemma u64_high_bit: "64 \<le> n \<Longrightarrow> \<not> bit (x :: u64) n"
  by (auto dest: bit_imp_le_length)

lemma aligned_low_bits:
  "take_bit 12 (x :: u32) = 0 \<Longrightarrow> n < 12 \<Longrightarrow> \<not> bit x n"
  by (metis bit_take_bit_iff bit_0_eq bot_apply bot_bool_def)

lemma walk_addr_ucast:
  assumes "take_bit 12 (x :: u32) = 0"
  shows "walk_addr (ucast x OR 7) = ucast x" "walk_addr (ucast x OR 0x1E) = ucast x"
  using aligned_low_bits[OF assms]
  by (rule_tac [!] u64_bitsI) (simp_all add: walk_addr_def bit_simps u32_high_bit)

lemma walk_addr_table:
  assumes "spa_aligned b t"
  shows "spa2hva1 b (walk_addr (hva2spa1 b t OR 7)) = t"
    "spa2hva1 b (walk_addr (hva2spa1 b t OR 0x1E)) = t"
  using walk_addr_ucast[OF assms[unfolded spa_aligned_def]] spa2hva1_hva2spa1[of b t]
  by (simp_all add: hva2spa1_def)

text \<open>The leaf entry, as the walk reads it.\<close>

lemma ept_leaf_walk:
  assumes "ept_pte b v pg = Inr e" and "take_bit 12 pg = 0"
  shows "e AND 7 = (if in_xmhf_region b pg then 0 else 7)"
    and "\<not> in_xmhf_region b pg \<Longrightarrow> walk_addr e = ucast pg"
    and "\<not> in_xmhf_region b pg \<Longrightarrow> vmx_getmemorytypeforphysicalpage v (ucast pg) = Inr mt \<Longrightarrow>
      drop_bit 3 e AND 7 = (if mt = 0 then 0 else 6)"
proof -
  note lo = aligned_low_bits[OF assms(2)]
  obtain mt' where mt': "vmx_getmemorytypeforphysicalpage v (ucast pg) = Inr mt'"
    "e = (if in_xmhf_region b pg then ucast pg OR push_bit 3 (ucast mt')
          else if mt' = 0 then ucast pg OR 7 else ucast pg OR 0x37)"
    using assms(1) by (auto simp: ept_pte_def split: if_splits)
  have seven: "(ucast pg OR push_bit 3 (ucast mt')) AND 7 = (0 :: u64)"
    "(ucast pg OR 7) AND 7 = (7 :: u64)" "(ucast pg OR 0x37) AND 7 = (7 :: u64)"
    by (rule u64_bitsI, simp add: bit_simps lo)+
  have addr: "walk_addr (ucast pg OR 7) = ucast pg" "walk_addr (ucast pg OR 0x37) = ucast pg"
    by (rule u64_bitsI, simp add: walk_addr_def bit_simps lo u32_high_bit)+
  have mty: "drop_bit 3 (ucast pg OR 7) AND 7 = (0 :: u64)"
    "drop_bit 3 (ucast pg OR 0x37) AND 7 = (6 :: u64)"
    by (rule u64_bitsI, simp add: bit_simps lo)+
  show "e AND 7 = (if in_xmhf_region b pg then 0 else 7)"
    using seven by (simp add: mt'(2))
  show "\<not> in_xmhf_region b pg \<Longrightarrow> walk_addr e = ucast pg"
    using addr by (simp add: mt'(2))
  show "\<not> in_xmhf_region b pg \<Longrightarrow> vmx_getmemorytypeforphysicalpage v (ucast pg) = Inr mt \<Longrightarrow>
      drop_bit 3 e AND 7 = (if mt = 0 then 0 else 6)"
    using mty mt'(1) by (simp add: mt'(2))
qed

section \<open>Setting up the tables\<close>

text \<open>
  The tables of a core as the runtime allocates them: page aligned in physical memory, and no
  two of them overlapping.
\<close>

definition ept_layout :: "RPB \<Rightarrow> VCPU \<Rightarrow> bool" where
  "ept_layout b v \<longleftrightarrow>
    spa_aligned b (vmx_vaddr_ept_pml4_table v) \<and> spa_aligned b (vmx_vaddr_ept_pdp_table v)
    \<and> spa_aligned b (vmx_vaddr_ept_pd_tables v) \<and> spa_aligned b (vmx_vaddr_ept_p_tables v)
    \<and> tables_disjoint (vmx_vaddr_ept_pdp_table v) (vmx_vaddr_ept_pd_tables v)
        (vmx_vaddr_ept_p_tables v)
    \<and> span (vmx_vaddr_ept_pml4_table v) 8 \<inter> span (vmx_vaddr_ept_pdp_table v) (8 * 4) = {}
    \<and> span (vmx_vaddr_ept_pml4_table v) 8 \<inter> span (vmx_vaddr_ept_pd_tables v) (8 * 2048) = {}
    \<and> span (vmx_vaddr_ept_pml4_table v) 8 \<inter> span (vmx_vaddr_ept_p_tables v) (8 * 2 ^ 20) = {}"

text \<open>Every page has a memory type: the lookup stops for none of them.\<close>

definition memory_types_ok :: "VCPU \<Rightarrow> bool" where
  "memory_types_ok v \<longleftrightarrow> (\<forall>q<2 ^ 20. \<exists>mt. vmx_getmemorytypeforphysicalpage v (of_nat (4096 * q)) = Inr mt)"

lemma ucast_of_nat_u32_u64:
  "n < 2 ^ 32 \<Longrightarrow> (ucast (of_nat n :: u32) :: u64) = of_nat n"
  by (simp add: unsigned_of_nat take_bit_nat_eq_self)

lemma ept_pte_total:
  "memory_types_ok v \<Longrightarrow> q < 2 ^ 20 \<Longrightarrow> \<exists>e. ept_pte b v (of_nat (4096 * q)) = Inr e"
  unfolding memory_types_ok_def ept_pte_def
  by (subst ucast_of_nat_u32_u64) (auto simp del: of_nat_mult)

text \<open>What the four levels of tables hold after \<^verbatim>\<open>_vmx_setupEPT\<close>.\<close>

definition ept_built :: "RPB \<Rightarrow> VCPU \<Rightarrow> memory \<Rightarrow> bool" where
  "ept_built b v m \<longleftrightarrow>
    ld64 m (elem64 (vmx_vaddr_ept_pml4_table v) 0) = hva2spa1 b (vmx_vaddr_ept_pdp_table v) OR 7
    \<and> (\<forall>q<4. ld64 m (elem64 (vmx_vaddr_ept_pdp_table v) q)
         = hva2spa1 b (vmx_vaddr_ept_pd_tables v + 4096 * of_nat q) OR 7)
    \<and> (\<forall>q<2048. ld64 m (elem64 (vmx_vaddr_ept_pd_tables v) q)
         = hva2spa1 b (vmx_vaddr_ept_p_tables v + 4096 * of_nat q) OR 7)
    \<and> (\<forall>q<2 ^ 20. ept_pte b v (of_nat (4096 * q))
         = Inr (ld64 m (elem64 (vmx_vaddr_ept_p_tables v) q)))"

text \<open>The bytes of the tables the set-up writes.\<close>

definition ept_bytes :: "VCPU \<Rightarrow> u32 set" where
  "ept_bytes v = span (vmx_vaddr_ept_pml4_table v) 8 \<union> span (vmx_vaddr_ept_pdp_table v) (8 * 4)
    \<union> span (vmx_vaddr_ept_pd_tables v) (8 * 2048) \<union> span (vmx_vaddr_ept_p_tables v) (8 * 2 ^ 20)"

lemma vmx_setupEPT_built:
  assumes "ept_layout (rpb s) (vcpus s vp)" and "memory_types_ok (vcpus s vp)"
  shows "\<exists>m. vmx_setupEPT vp s = Inr (s\<lparr>mem := m\<rparr>) \<and> ept_built (rpb s) (vcpus s vp) m
    \<and> (\<forall>x. x \<notin> ept_bytes (vcpus s vp) \<longrightarrow> m x = mem s x)"
proof -
  define v b where "v = vcpus s vp" and "b = rpb s"
  let ?A = "vmx_vaddr_ept_pdp_table v" and ?D = "vmx_vaddr_ept_pd_tables v"
    and ?T = "vmx_vaddr_ept_p_tables v" and ?P = "elem64 (vmx_vaddr_ept_pml4_table v) 0"
  let ?f = "\<lambda>t. hva2spa1 b t OR 0x7"
  let ?m0 = "st64 (mem s) ?P (?f ?A)"
  have dj: "tables_disjoint ?A ?D ?T" using assms(1) by (simp add: ept_layout_def v_def)
  have tot: "\<forall>q<2 ^ 20. \<exists>e. ept_pte b v (of_nat (4096 * q)) = Inr e"
    using ept_pte_total[OF assms(2)] by (simp only: v_def) blast
  obtain m where m: "fill_pdpt ?A ?D ?T ?f ?f (ept_pte b v) (?m0, 0) = Inr (m, 0)"
    and inv: "tables_inv ?A ?D ?T ?f ?f (ept_pte b v) ?m0 4 2048 (2 ^ 20) (m, 0)"
    using fill_pdpt_inv[OF dj tot] by blast
  have "ld64 m ?P = ld64 ?m0 ?P"
  proof (rule ld64_cong)
    fix x
    assume "x \<in> span ?P 8"
    then have "x \<notin> span ?A (8 * 4) \<and> x \<notin> span ?D (8 * 2048) \<and> x \<notin> span ?T (8 * 2 ^ 20)"
      using assms(1) by (auto simp: ept_layout_def v_def elem64_def)
    with inv show "m x = ?m0 x" unfolding tables_inv_def prod.case by blast
  qed
  then have "ept_built b v m" using inv by (simp add: ept_built_def tables_inv_def)
  moreover have "m x = mem s x" if "x \<notin> ept_bytes v" for x
  proof -
    have "m x = ?m0 x" using inv that unfolding tables_inv_def prod.case ept_bytes_def by blast
    also have "\<dots> = mem s x" using that by (intro st64_outside) (simp add: ept_bytes_def elem64_def)
    finally show ?thesis .
  qed
  moreover have "vmx_setupEPT vp s = Inr (s\<lparr>mem := m\<rparr>)"
    using m by (simp add: vmx_setupEPT_def Let_def v_def b_def)
  ultimately show ?thesis unfolding v_def b_def by blast
qed

text \<open>The page a 32-bit guest-physical address lies in, by its walk indices.\<close>

lemma walk_index_ucast:
  fixes gpa :: u32
  defines "g \<equiv> unat gpa"
  shows "walk_index 3 (ucast gpa) = 0" "walk_index 2 (ucast gpa) = g div 2 ^ 30"
    "walk_index 1 (ucast gpa) = g div 2 ^ 21 mod 512" "walk_index 0 (ucast gpa) = g div 2 ^ 12 mod 512"
    "g div 2 ^ 30 < 4"
proof -
  have "g < 2 ^ 32" unfolding g_def using unsigned_less[of gpa, where 'a=nat] by simp
  then show "walk_index 3 (ucast gpa) = 0" "walk_index 2 (ucast gpa) = g div 2 ^ 30" "g div 2 ^ 30 < 4"
    by (simp_all add: walk_index_def g_def)
  show "walk_index 1 (ucast gpa) = g div 2 ^ 21 mod 512" "walk_index 0 (ucast gpa) = g div 2 ^ 12 mod 512"
    by (simp_all add: walk_index_def g_def)
qed

definition page_of :: "u32 \<Rightarrow> u32" where
  "page_of gpa = gpa AND NOT 0xFFF"

lemma page_of_nat: "page_of gpa = of_nat (4096 * (unat gpa div 4096))"
proof -
  have "page_of gpa = push_bit 12 (drop_bit 12 gpa)"
    by (rule u32_bitsI) (simp add: page_of_def bit_simps)
  also have "\<dots> = of_nat (push_bit 12 (drop_bit 12 (unat gpa)))"
    by (simp add: of_nat_push_bit flip: unat_drop_bit_eq)
  also have "\<dots> = of_nat (4096 * (unat gpa div 4096))"
    by (simp add: push_bit_eq_mult drop_bit_eq_div mult.commute)
  finally show ?thesis .
qed

lemma page_of_aligned: "take_bit 12 (page_of gpa) = 0"
  by (rule u32_bitsI) (simp add: page_of_def bit_simps)

lemma page_of_offset: "ucast (page_of gpa) OR (ucast gpa AND 0xFFF) = (ucast gpa :: u64)"
  by (rule u64_bitsI) (simp add: page_of_def bit_simps u32_high_bit)

lemma or_seven: "(x OR 7) AND 7 = (7 :: u64)"
  by (rule u64_bitsI) (simp add: bit_simps)

lemma and_or_sevens: "(a OR 7) AND (b OR 7) AND (c OR 7) AND e AND 7 = e AND (7 :: u64)"
  by (rule u64_bitsI) (simp add: bit_simps)

lemma walk_index_join:
  "512 * (512 * (g div 2 ^ 30) + g div 2 ^ 21 mod 512) + g div 2 ^ 12 mod 512 = g div (4096 :: nat)"
proof -
  define n where "n = g div 4096"
  have d: "g div 2 ^ 30 = n div 512 div 512" "g div 2 ^ 21 = n div 512" "g div 2 ^ 12 = n"
    unfolding n_def by (simp_all add: div_mult2_eq[symmetric])
  have "512 * (n div 512 div 512) + n div 512 mod 512 = n div 512"
    "512 * (n div 512) + n mod 512 = n" by simp_all
  then show ?thesis unfolding d by (simp only: n_def)
qed

text \<open>The levels above the leaves; they alone decide which leaf entry the walk reaches.\<close>

definition ept_upper :: "RPB \<Rightarrow> VCPU \<Rightarrow> memory \<Rightarrow> bool" where
  "ept_upper b v m \<longleftrightarrow>
    ld64 m (elem64 (vmx_vaddr_ept_pml4_table v) 0) = hva2spa1 b (vmx_vaddr_ept_pdp_table v) OR 7
    \<and> (\<forall>q<4. ld64 m (elem64 (vmx_vaddr_ept_pdp_table v) q)
         = hva2spa1 b (vmx_vaddr_ept_pd_tables v + 4096 * of_nat q) OR 7)
    \<and> (\<forall>q<2048. ld64 m (elem64 (vmx_vaddr_ept_pd_tables v) q)
         = hva2spa1 b (vmx_vaddr_ept_p_tables v + 4096 * of_nat q) OR 7)"

abbreviation ept_root :: "RPB \<Rightarrow> VCPU \<Rightarrow> u64" where
  "ept_root b v \<equiv> hva2spa1 b (vmx_vaddr_ept_pml4_table v) OR 0x1E"

lemma ept_walk_leaf:
  fixes gpa :: u32
  assumes lay: "ept_layout b v" and up: "ept_upper b v m"
  shows "ept_walk b m (ept_root b v) (ucast gpa)
    = (let e = ld64 m (elem64 (vmx_vaddr_ept_p_tables v) (unat gpa div 4096)) in
       if e AND 7 = 0 then None
       else Some (walk_addr e OR (ucast gpa AND 0xFFF), e AND 7, drop_bit 3 e AND 7))"
proof -
  define g i3 i2 i1 where "g = unat gpa" and "i3 = g div 2 ^ 30"
    and "i2 = g div 2 ^ 21 mod 512" and "i1 = g div 2 ^ 12 mod 512"
  note ix = walk_index_ucast[of gpa, folded g_def, folded i3_def i2_def i1_def]
  let ?A = "vmx_vaddr_ept_pdp_table v" and ?D = "vmx_vaddr_ept_pd_tables v"
    and ?T = "vmx_vaddr_ept_p_tables v"
  have q: "512 * (512 * i3 + i2) + i1 = g div 4096"
    unfolding i3_def i2_def i1_def by (rule walk_index_join)
  have "i2 < 512" by (simp add: i2_def)
  with ix(5) have t: "512 * i3 + i2 < 2048" by linarith
  have al: "spa_aligned b (vmx_vaddr_ept_pml4_table v)" "spa_aligned b ?A"
    "spa_aligned b (?D + 4096 * of_nat i3)" "spa_aligned b (?T + 4096 * of_nat (512 * i3 + i2))"
    using lay by (simp_all only: ept_layout_def spa_aligned_offset)
  define e1 where "e1 = ld64 m (elem64 ?T (g div 4096))"
  have e4: "walk_entry b m (ept_root b v) 0 = hva2spa1 b ?A OR 7"
    using up by (simp add: walk_entry_def walk_addr_table(2)[OF al(1)] ept_upper_def)
  have e3: "walk_entry b m (hva2spa1 b ?A OR 7) i3 = hva2spa1 b (?D + 4096 * of_nat i3) OR 7"
    using up ix(5) by (simp add: walk_entry_def walk_addr_table(1)[OF al(2)] ept_upper_def)
  have e2: "walk_entry b m (hva2spa1 b (?D + 4096 * of_nat i3) OR 7) i2
      = hva2spa1 b (?T + 4096 * of_nat (512 * i3 + i2)) OR 7"
    using up t elem64_subtable[of ?D i3 i2, unfolded PAGE_SIZE_4K_def]
    by (simp add: walk_entry_def walk_addr_table(1)[OF al(3)] ept_upper_def del: of_nat_add of_nat_mult)
  have e1: "walk_entry b m (hva2spa1 b (?T + 4096 * of_nat (512 * i3 + i2)) OR 7) i1 = e1"
    using elem64_subtable[of ?T "512 * i3 + i2" i1, unfolded PAGE_SIZE_4K_def] q
    by (simp add: walk_entry_def walk_addr_table(1)[OF al(4)] e1_def del: of_nat_add of_nat_mult)
  show ?thesis
    unfolding ept_walk_def Let_def ix e4 e3 e2 e1 g_def[symmetric] e1_def[symmetric]
    by (simp add: or_seven and_or_sevens)
qed

lemma ept_walk_built:
  fixes gpa :: u32
  assumes lay: "ept_layout b v" and bu: "ept_built b v m"
  shows "ept_walk b m (ept_root b v) (ucast gpa)
    = (if in_xmhf_region b (page_of gpa) then None
       else Some (ucast gpa, 7,
         if vmx_getmemorytypeforphysicalpage v (ucast (page_of gpa)) = Inr 0 then 0 else 6))"
proof -
  define e where "e = ld64 m (elem64 (vmx_vaddr_ept_p_tables v) (unat gpa div 4096))"
  have "unat gpa div 4096 < 2 ^ 20"
    using unsigned_less[of gpa, where 'a=nat] by simp
  then have leaf: "ept_pte b v (page_of gpa) = Inr e"
    using bu by (simp add: ept_built_def page_of_nat e_def del: of_nat_mult)
  obtain mt where mt: "vmx_getmemorytypeforphysicalpage v (ucast (page_of gpa)) = Inr mt"
    using leaf by (auto simp: ept_pte_def)
  note lw = ept_leaf_walk[OF leaf page_of_aligned]
  have up: "ept_upper b v m" using bu by (simp add: ept_built_def ept_upper_def)
  show ?thesis
    unfolding ept_walk_leaf[OF lay up] e_def[symmetric] Let_def
    using lw(1) lw(2) lw(3)[OF _ mt] by (simp add: page_of_offset mt)
qed

text \<open>A protection change of any page keeps the upper levels.\<close>

lemma ept_upper_leaf_store:
  assumes "ept_layout b v" and "ept_upper b v m" and n: "n < 2 ^ 20"
  shows "ept_upper b v (st64 m (elem64 (vmx_vaddr_ept_p_tables v) n) e)"
proof -
  let ?T = "vmx_vaddr_ept_p_tables v"
  have keep: "ld64 (st64 m (elem64 ?T n) e) (elem64 B j) = ld64 m (elem64 B j)"
    if "j < M" "M < 2 ^ 29" "span B (8 * M) \<inter> span ?T (8 * 2 ^ 20) = {}" for B j M
    using that by (intro ld64_elem_other_table[OF n]) (auto simp: Int_commute)
  have "ld64 (st64 m (elem64 ?T n) e) (elem64 (vmx_vaddr_ept_pml4_table v) 0)
      = ld64 m (elem64 (vmx_vaddr_ept_pml4_table v) 0)"
    by (rule keep[of 0 1]) (use assms(1) in \<open>simp_all add: ept_layout_def\<close>)
  moreover have "ld64 (st64 m (elem64 ?T n) e) (elem64 (vmx_vaddr_ept_pdp_table v) j)
      = ld64 m (elem64 (vmx_vaddr_ept_pdp_table v) j)" if "j < 4" for j
    by (rule keep[of j 4]) (use that assms(1) in \<open>simp_all add: ept_layout_def tables_disjoint_def\<close>)
  moreover have "ld64 (st64 m (elem64 ?T n) e) (elem64 (vmx_vaddr_ept_pd_tables v) j)
      = ld64 m (elem64 (vmx_vaddr_ept_pd_tables v) j)" if "j < 2048" for j
    by (rule keep[of j 2048]) (use that assms(1) in \<open>simp_all add: ept_layout_def tables_disjoint_def\<close>)
  ultimately show ?thesis using assms(2) unfolding ept_upper_def by simp
qed

lemma vmx_setprot_upper:
  "ept_layout b (vcpus s vp) \<Longrightarrow> ept_upper b (vcpus s vp) (mem s) \<Longrightarrow>
   ept_upper b (vcpus s vp) (mem (xmhf_memprot_arch_x86vmx_setprot vp gpa p s))"
  by (simp add: setprot_store Let_def ept_upper_leaf_store[OF _ _ gpa_pfn_less])

lemma gpa_pfn_ucast: "unat (gpa_pfn (ucast (gpa :: u32))) = unat gpa div 4096"
  by (simp add: gpa_pfn_def xconst unat_div)

lemma ept_set_and7: "ept_set p e AND 7 = ucast (ept_flags p)"
proof -
  have "ept_set p e AND 7 = ucast (ept_flags p) AND 7"
    by (rule u64_bitsI) (simp add: ept_set_def bit_simps)
  then show ?thesis using ept_flags_cases[of p] by auto
qed

lemma ept_set_walk_addr: "walk_addr (ept_set p e) = walk_addr e"
proof -
  have "(ept_set p e AND NOT 7) AND 0x000FFFFFFFFFF000 = (e AND NOT 7) AND 0x000FFFFFFFFFF000"
    by (simp only: ept_set_keeps)
  then show ?thesis by (simp add: walk_addr_def and.assoc)
qed

lemma ept_set_memtype: "drop_bit 3 (ept_set p e) = drop_bit 3 e"
  using ept_flags_cases[of p] by (intro u64_bitsI) (auto simp: ept_set_def bit_simps u64_high_bit)

text \<open>
  What the processor lets the guest do with an address, from the result of the walk (Intel SDM, table
  28-6: bit 0 of the rights allows reads, bit 1 writes, bit 2 instruction fetches).
\<close>

datatype guest_access = GuestRead | GuestWrite | GuestFetch

fun ept_permits :: "(u64 \<times> u64 \<times> u64) option \<Rightarrow> guest_access \<Rightarrow> bool" where
  "ept_permits None _ = False"
| "ept_permits (Some (_, r, _)) GuestRead = bit r 0"
| "ept_permits (Some (_, r, _)) GuestWrite = bit r 1"
| "ept_permits (Some (_, r, _)) GuestFetch = bit r 2"

text \<open>What a protection type means, from the comments beside its flags in \<^verbatim>\<open>xmhf-memprot.h\<close>.\<close>

definition prot_allows :: "u32 \<Rightarrow> guest_access set" where
  "prot_allows p =
    (if p = MEMP_PROT_PRESENT OR MEMP_PROT_READONLY OR MEMP_PROT_NOEXECUTE then {GuestRead}
     else if p = MEMP_PROT_PRESENT OR MEMP_PROT_READWRITE OR MEMP_PROT_NOEXECUTE then {GuestRead, GuestWrite}
     else if p = MEMP_PROT_PRESENT OR MEMP_PROT_READONLY OR MEMP_PROT_EXECUTE then {GuestRead, GuestFetch}
     else if p = MEMP_PROT_PRESENT OR MEMP_PROT_READWRITE OR MEMP_PROT_EXECUTE
       then {GuestRead, GuestWrite, GuestFetch}
     else {})"

lemma flags_of_prot:
  assumes "canonical_prot p"
  shows "bit (ept_flags p) 0 \<longleftrightarrow> GuestRead \<in> prot_allows p" "bit (ept_flags p) 1 \<longleftrightarrow> GuestWrite \<in> prot_allows p"
    "bit (ept_flags p) 2 \<longleftrightarrow> GuestFetch \<in> prot_allows p" "ept_flags p = 0 \<longleftrightarrow> p = MEMP_PROT_NOTPRESENT"
  using assms unfolding canonical_prot_def
  by (auto simp: ept_flags_def prot_allows_def xconst bit_numeral_rec)

lemma setprot_walk:
  fixes gpa gpa' :: u32
  assumes "ept_layout (rpb s) (vcpus s vp)" and "ept_upper (rpb s) (vcpus s vp) (mem s)"
  defines "e \<equiv> ld64 (mem s) (elem64 (vmx_vaddr_ept_p_tables (vcpus s vp)) (unat gpa div 4096))"
  shows "ept_walk (rpb s) (mem (xmhf_memprot_arch_x86vmx_setprot vp (ucast gpa) p s))
      (ept_root (rpb s) (vcpus s vp)) (ucast gpa')
    = (if unat gpa' div 4096 = unat gpa div 4096 then
         (if ept_flags p = 0 then None
          else Some (walk_addr e OR (ucast gpa' AND 0xFFF), ucast (ept_flags p), drop_bit 3 e AND 7))
       else ept_walk (rpb s) (mem s) (ept_root (rpb s) (vcpus s vp)) (ucast gpa'))"
proof -
  define v where "v = vcpus s vp"
  let ?T = "vmx_vaddr_ept_p_tables v"
  note up' = vmx_setprot_upper[OF assms(1,2), of "ucast gpa" p]
  have m: "mem (xmhf_memprot_arch_x86vmx_setprot vp (ucast gpa) p s)
      = st64 (mem s) (elem64 ?T (unat gpa div 4096)) (ept_set p e)"
    by (simp add: setprot_store Let_def v_def gpa_pfn_ucast e_def)
  have b: "unat x div 4096 < 2 ^ 29" for x :: u32
    using unsigned_less[of x, where 'a=nat] by simp
  have l: "ld64 (st64 (mem s) (elem64 ?T (unat gpa div 4096)) (ept_set p e)) (elem64 ?T (unat gpa' div 4096))
      = (if unat gpa' div 4096 = unat gpa div 4096 then ept_set p e
         else ld64 (mem s) (elem64 ?T (unat gpa' div 4096)))"
    using ld64_elem_st64_elem[OF b b, of "mem s" ?T gpa "ept_set p e" gpa'] by auto
  have z: "(ucast (ept_flags p) = (0 :: u64)) = (ept_flags p = 0)"
    using ept_flags_cases[of p] by auto
  show ?thesis
    unfolding ept_walk_leaf[OF assms(1) up'] ept_walk_leaf[OF assms(1,2)]
    unfolding m v_def[symmetric] l Let_def
    by (simp add: ept_set_and7 ept_set_walk_addr ept_set_memtype z)
qed

text \<open>
  C16: a protection change is what the processor enforces. On tables whose upper levels are built,
  after \<^verbatim>\<open>setprot\<close> with one of the five protection types the processor allows exactly the reads,
  writes and instruction fetches the type names at every address of that page, where a page that is
  present is still at the physical address and of the memory type of its entry; at an address of another
  page the walk is what it was.
\<close>

theorem setprot_enforced:
  fixes gpa gpa' :: u32
  assumes "ept_layout (rpb s) (vcpus s vp)" and "ept_upper (rpb s) (vcpus s vp) (mem s)" and "canonical_prot p"
  defines "e \<equiv> ld64 (mem s) (elem64 (vmx_vaddr_ept_p_tables (vcpus s vp)) (unat gpa div 4096))"
    and "W \<equiv> ept_walk (rpb s) (mem (xmhf_memprot_arch_x86vmx_setprot vp (ucast gpa) p s))
      (ept_root (rpb s) (vcpus s vp)) (ucast gpa')"
  shows "if unat gpa' div 4096 = unat gpa div 4096 then
      (\<forall>a. ept_permits W a \<longleftrightarrow> a \<in> prot_allows p)
      \<and> (p \<noteq> MEMP_PROT_NOTPRESENT \<longrightarrow> (\<exists>r. W = Some (walk_addr e OR (ucast gpa' AND 0xFFF), r, drop_bit 3 e AND 7)))
    else W = ept_walk (rpb s) (mem s) (ept_root (rpb s) (vcpus s vp)) (ucast gpa')"
proof (cases "unat gpa' div 4096 = unat gpa div 4096")
  case True
  with setprot_walk[OF assms(1,2), of gpa p gpa', folded e_def W_def]
  have W: "W = (if ept_flags p = 0 then None
      else Some (walk_addr e OR (ucast gpa' AND 0xFFF), ucast (ept_flags p), drop_bit 3 e AND 7))" by simp
  have "ept_permits W a \<longleftrightarrow> a \<in> prot_allows p" for a
    using flags_of_prot[OF assms(3)] unfolding W by (cases a) (auto simp: bit_simps)
  with W flags_of_prot(4)[OF assms(3)] True show ?thesis by simp
next
  case False
  with setprot_walk[OF assms(1,2), of gpa p gpa', folded e_def W_def] show ?thesis by simp
qed

text \<open>Every variable range the processor reports as valid is uncached, write-through or write-back.\<close>

definition sane_types :: "hardware \<Rightarrow> bool" where
  "sane_types hw \<longleftrightarrow> (\<forall>i<num_vmtrrs hw.
     bit (read_msr64 hw (0x201 + 2 * of_nat i)) 11 \<longrightarrow>
     (ucast (read_msr64 hw (0x200 + 2 * of_nat i)) AND 0xFF :: u32)
       \<in> {MTRR_TYPE_UC, MTRR_TYPE_WT, MTRR_TYPE_WB})"

lemma gathered_sane:
  assumes "sane_types hw" "length mts = 98"
    and e: "\<forall>i<10. mts ! (88 + i) =
        (if i < num_vmtrrs hw then
           variable_entry (read_msr64 hw (0x200 + 2 * of_nat i)) (read_msr64 hw (0x201 + 2 * of_nat i))
             zero_memorytype
         else zero_memorytype)"
  shows "set (matching_types pa (drop 88 (take 98 mts))) \<subseteq> {MTRR_TYPE_UC, MTRR_TYPE_WT, MTRR_TYPE_WB}"
proof
  fix t
  assume "t \<in> set (matching_types pa (drop 88 (take 98 mts)))"
  then obtain x where x: "x \<in> set (drop 88 mts)" "mt_invalid x = 0" "t = mt_type x"
    using assms(2) by (auto simp: matching_types_def)
  then obtain i where i: "i < 10" "x = mts ! (88 + i)"
    using assms(2) by (auto simp: in_set_conv_nth)
  show "t \<in> {MTRR_TYPE_UC, MTRR_TYPE_WT, MTRR_TYPE_WB}"
    using e[rule_format, OF i(1)] assms(1) x(2,3) unfolding i(2)
    by (auto simp: sane_types_def variable_entry_def zero_memorytype_def MTRR_TYPE_UC_def
        split: if_splits)
qed

lemma gathered_memory_types_ok:
  assumes "mtrr_support hw" and "sane_types hw"
  shows "\<exists>mts. vmx_gathermemorytypes hw vp s
      = Inr (upd_vcpu vp (\<lambda>v. v\<lparr>vmx_ept_memorytypes := mts\<rparr>) s)
    \<and> (\<forall>v. memory_types_ok (v\<lparr>vmx_ept_memorytypes := mts\<rparr>))"
proof -
  obtain mts where g: "vmx_gathermemorytypes hw vp s
      = Inr (upd_vcpu vp (\<lambda>v. v\<lparr>vmx_ept_memorytypes := mts\<rparr>) s)"
    and len: "length mts = 98" and fx: "take 88 mts = fixed_entries hw"
    and va: "\<forall>i<10. mts ! (88 + i) =
        (if i < num_vmtrrs hw then
           variable_entry (read_msr64 hw (0x200 + 2 * of_nat i)) (read_msr64 hw (0x201 + 2 * of_nat i))
             zero_memorytype
         else zero_memorytype)"
    using vmx_gathermemorytypes_result[OF assms(1), of vp s] by (auto simp: MAX_MEMORYTYPE_ENTRIES_def)
  have "memory_types_ok (v\<lparr>vmx_ept_memorytypes := mts\<rparr>)" for v
    unfolding memory_types_ok_def
  proof (intro allI impI)
    fix q :: nat
    assume q: "q < 2 ^ 20"
    show "\<exists>mt. vmx_getmemorytypeforphysicalpage (v\<lparr>vmx_ept_memorytypes := mts\<rparr>)
      (of_nat (4096 * q)) = Inr mt"
    proof (cases "q < 256")
      case True
      then show ?thesis using fixed_lookup[of "v\<lparr>vmx_ept_memorytypes := mts\<rparr>" hw q] fx by auto
    next
      case False
      have "(of_nat (1024 * 1024) :: u64) \<le> of_nat (4096 * q)"
        using False q by (subst word_of_nat_le_small) simp_all
      then have "(1024 * 1024 :: u64) \<le> of_nat (4096 * q)" by simp
      then show ?thesis
        by (rule lookup_sane_types) (use gathered_sane[OF assms(2) len va] in simp)
    qed
  qed
  with g show ?thesis by blast
qed

text \<open>The state initialisation ends in: tables built, their root in the EPT pointer, the rest of memory kept.\<close>

lemma vmx_initialize_result:
  assumes "cpu_vendor (vcpus s vp) = CPU_VENDOR_INTEL" and "mtrr_support hw" and "sane_types hw"
    and "ept_layout (rpb s) (vcpus s vp)"
  shows "\<exists>s' mts. xmhf_memprot_arch_x86vmx_initialize hw vp s = Inr s' \<and> rpb s' = rpb s
    \<and> bit (control_VMX_seccpu_based (vmcs_of vp s')) 1
    \<and> bit (control_VMX_seccpu_based (vmcs_of vp s')) 5 \<and> control_vpid (vmcs_of vp s') = 1
    \<and> xmhf_memprot_arch_x86vmx_get_EPTP vp s' = Inr (ept_root (rpb s) (vcpus s vp))
    \<and> vmx_ept_memorytypes (vcpus s' vp) = mts
    \<and> ept_layout (rpb s) ((vcpus s vp)\<lparr>vmx_ept_memorytypes := mts\<rparr>)
    \<and> ept_built (rpb s) ((vcpus s vp)\<lparr>vmx_ept_memorytypes := mts\<rparr>) (mem s')
    \<and> (\<forall>x. x \<notin> ept_bytes (vcpus s vp) \<longrightarrow> mem s' x = mem s x)"
proof -
  obtain mts where g: "vmx_gathermemorytypes hw vp s
      = Inr (upd_vcpu vp (\<lambda>v. v\<lparr>vmx_ept_memorytypes := mts\<rparr>) s)"
    and ok: "\<forall>v. memory_types_ok (v\<lparr>vmx_ept_memorytypes := mts\<rparr>)"
    using gathered_memory_types_ok[OF assms(2,3)] by blast
  define s1 v where "s1 = upd_vcpu vp (\<lambda>v. v\<lparr>vmx_ept_memorytypes := mts\<rparr>) s"
    and "v = (vcpus s vp)\<lparr>vmx_ept_memorytypes := mts\<rparr>"
  have v: "vcpus s1 vp = v" "rpb s1 = rpb s" "mem s1 = mem s" by (simp_all add: s1_def v_def)
  have vf: "cpu_vendor v = CPU_VENDOR_INTEL" "vmx_ept_memorytypes v = mts"
    "vmx_vaddr_ept_pml4_table v = vmx_vaddr_ept_pml4_table (vcpus s vp)" "ept_bytes v = ept_bytes (vcpus s vp)"
    using assms(1) by (simp_all add: v_def ept_bytes_def)
  have lay: "ept_layout (rpb s) v" using assms(4) by (simp add: ept_layout_def v_def)
  obtain m where m: "vmx_setupEPT vp s1 = Inr (s1\<lparr>mem := m\<rparr>)" "ept_built (rpb s) v m"
    "\<forall>x. x \<notin> ept_bytes v \<longrightarrow> m x = mem s x"
    using vmx_setupEPT_built[of s1 vp] lay ok unfolding v by (auto simp: v_def)
  let ?p = "ept_root (rpb s) v"
  have p: "ucast (ucast ?p :: u32) = ?p"
    by (rule u64_bitsI) (simp add: hva2spa1_def bit_simps u32_high_bit)
  obtain s' where s': "xmhf_memprot_arch_x86vmx_initialize hw vp s = Inr s'"
    and f: "mem s' = m" "rpb s' = rpb s" "cpu_vendor (vcpus s' vp) = CPU_VENDOR_INTEL"
      "vmx_ept_memorytypes (vcpus s' vp) = mts"
      "control_EPT_pointer_full (vmcs_of vp s') = ucast ?p" "control_EPT_pointer_high (vmcs_of vp s') = 0"
      "bit (control_VMX_seccpu_based (vmcs_of vp s')) 1"
      "bit (control_VMX_seccpu_based (vmcs_of vp s')) 5" "control_vpid (vmcs_of vp s') = 1"
    using assms(1) g m v vf
    by (simp add: xmhf_memprot_arch_x86vmx_initialize_def s1_def[symmetric] bit_simps)
  have e: "xmhf_memprot_arch_x86vmx_get_EPTP vp s' = Inr ?p"
    using f p by (simp add: xmhf_memprot_arch_x86vmx_get_EPTP_def)
  show ?thesis
    by (intro exI[of _ s'] exI[of _ mts] conjI)
      (use s' f e m lay vf in \<open>simp_all add: v_def[symmetric]\<close>)
qed

text \<open>
  C15: memory protection on an Intel core. On a processor with usable MTRRs, initialisation
  returns with EPT and VPID enabled, and the processor's walk of the tables it built maps every
  guest-physical address below 4G to itself with read, write and execute rights, uncached where
  the MTRRs say so and write-back elsewhere, except the pages of the hypervisor (the loader and
  the runtime), which are not present: the guest can neither read nor write them.
\<close>

theorem vmx_initialize_isolates:
  assumes "cpu_vendor (vcpus s vp) = CPU_VENDOR_INTEL" and "mtrr_support hw" and "sane_types hw"
    and "ept_layout (rpb s) (vcpus s vp)"
  shows "\<exists>s' eptp. xmhf_memprot_arch_x86vmx_initialize hw vp s = Inr s'
    \<and> bit (control_VMX_seccpu_based (vmcs_of vp s')) 1
    \<and> bit (control_VMX_seccpu_based (vmcs_of vp s')) 5 \<and> control_vpid (vmcs_of vp s') = 1
    \<and> xmhf_memprot_arch_x86vmx_get_EPTP vp s' = Inr eptp
    \<and> (\<forall>gpa. ept_walk (rpb s) (mem s') eptp (ucast gpa)
        = (if in_xmhf_region (rpb s) (page_of gpa) then None
           else Some (ucast gpa, 7,
             if vmx_getmemorytypeforphysicalpage (vcpus s' vp) (ucast (page_of gpa)) = Inr 0
             then 0 else 6)))"
proof -
  obtain s' mts where r: "xmhf_memprot_arch_x86vmx_initialize hw vp s = Inr s'"
    "bit (control_VMX_seccpu_based (vmcs_of vp s')) 1" "bit (control_VMX_seccpu_based (vmcs_of vp s')) 5"
    "control_vpid (vmcs_of vp s') = 1"
    "xmhf_memprot_arch_x86vmx_get_EPTP vp s' = Inr (ept_root (rpb s) (vcpus s vp))"
    and mts: "vmx_ept_memorytypes (vcpus s' vp) = mts"
    and bu: "ept_layout (rpb s) ((vcpus s vp)\<lparr>vmx_ept_memorytypes := mts\<rparr>)"
      "ept_built (rpb s) ((vcpus s vp)\<lparr>vmx_ept_memorytypes := mts\<rparr>) (mem s')"
    using vmx_initialize_result[OF assms] by blast
  have "vmx_getmemorytypeforphysicalpage (vcpus s' vp)
      = vmx_getmemorytypeforphysicalpage ((vcpus s vp)\<lparr>vmx_ept_memorytypes := mts\<rparr>)"
    by (rule ext) (simp add: vmx_getmemorytypeforphysicalpage_def mts)
  with r ept_walk_built[OF bu] show ?thesis by simp
qed

section \<open>A concrete core\<close>

lemma span_disjointI:
  assumes "n \<le> unat (B - A)" and "m \<le> unat (A - B)"
  shows "span A n \<inter> span B m = {}"
proof -
  have False if p: "unat (x - A) < n" and q: "unat (x - B) < m" for x
  proof (cases "unat (x - B) \<le> unat (x - A)")
    case True
    then have "unat ((x - A) - (x - B)) = unat (x - A) - unat (x - B)"
      by (intro unat_sub) (simp add: word_le_nat_alt)
    then show False using assms(1) p by (simp add: algebra_simps)
  next
    case False
    then have "unat ((x - B) - (x - A)) = unat (x - B) - unat (x - A)"
      by (intro unat_sub) (simp add: word_le_nat_alt)
    then show False using assms(2) q by (simp add: algebra_simps)
  qed
  then show ?thesis by (auto simp: span_iff)
qed

definition sample_vcpu :: VCPU where
  "sample_vcpu = zero_VCPU\<lparr>cpu_vendor := CPU_VENDOR_INTEL,
    vmx_vaddr_ept_pml4_table := 0x10001000, vmx_vaddr_ept_pdp_table := 0x10002000,
    vmx_vaddr_ept_pd_tables := 0x10004000, vmx_vaddr_ept_p_tables := 0x10800000\<rparr>"

definition sample_rpb :: RPB where
  "sample_rpb = \<lparr>magic = 0, XtVmmEntryPoint = 0, XtVmmPdptBase = 0, XtVmmPdtsBase = 0,
    XtGuestOSBootModuleBase = 0, XtGuestOSBootModuleSize = 0, runtime_appmodule_base = 0,
    runtime_appmodule_size = 0, XtVmmStackBase = 0, XtVmmStackSize = 0, XtVmmGdt = 0, XtVmmIdt = 0,
    XtVmmIdtFunctionPointers = 0, XtVmmIdtEntries = 0, XtVmmRuntimePhysBase = 0x10000000,
    XtVmmRuntimeVirtBase = 0x10000000, XtVmmRuntimeSize = 0x2000000, XtVmmE820Buffer = 0,
    XtVmmE820NumEntries = 0, XtVmmMPCpuinfoBuffer = 0, XtVmmMPCpuinfoNumEntries = 0,
    XtVmmTSSBase = 0, isEarlyInit = 0\<rparr>"

definition sample_state :: xmhf_state where
  "sample_state = \<lparr>mem = (\<lambda>a. 0), vcpus = (\<lambda>vp. sample_vcpu),
    vmcbs = (\<lambda>p. zero_vmcb), rpb = sample_rpb,
    g_midtable = [], g_e820map = [], g_vmx_lapic_base = 0, g_vmx_virtual_LAPIC_base = 0,
    g_vmx_lapic_reg = 0, g_vmx_lapic_op = 0, g_vmx_lapic_guest_eflags_tfifmask = 0,
    x_my_gdt_start = 0x10010000, user_tss = 0x10011000, g_vmx_quiesce = 0, g_svm_lapic_base = 0,
    g_svm_virtual_LAPIC_base = 0, g_svm_lapic_reg = 0, g_svm_lapic_op = 0, g_svm_quiesce = 0, g_svm_msrpm = 0, hwlog = []\<rparr>"

lemma sample_layout: "ept_layout sample_rpb sample_vcpu"
  unfolding ept_layout_def tables_disjoint_def
  by (intro conjI span_disjointI)
    (simp_all add: spa_aligned_def sample_rpb_def sample_vcpu_def)

lemma sample_sane: "sane_types sample_hw"
proof -
  have "i = 0 \<or> i = 1" if "i < num_vmtrrs sample_hw" for i
    using that by (simp add: sample_hw_support(2)) linarith
  then show ?thesis
    unfolding sane_types_def by (auto simp: read_msr64_def sample_hw_def xconst)
qed

theorem vmx_initialize_isolates_witness:
  "\<exists>s' eptp. xmhf_memprot_arch_x86vmx_initialize sample_hw 0 sample_state = Inr s'
    \<and> xmhf_memprot_arch_x86vmx_get_EPTP 0 s' = Inr eptp
    \<and> ept_walk sample_rpb (mem s') eptp 0x10000000 = None
    \<and> (\<exists>mt. ept_walk sample_rpb (mem s') eptp 0x200123 = Some (0x200123, 7, mt))"
proof -
  have v: "cpu_vendor (vcpus sample_state 0) = CPU_VENDOR_INTEL"
    "ept_layout (rpb sample_state) (vcpus sample_state 0)"
    using sample_layout by (simp_all add: sample_state_def sample_vcpu_def)
  have r: "rpb sample_state = sample_rpb" by (simp add: sample_state_def)
  obtain s' eptp where
    i: "xmhf_memprot_arch_x86vmx_initialize sample_hw 0 sample_state = Inr s'"
      "xmhf_memprot_arch_x86vmx_get_EPTP 0 s' = Inr eptp"
    and w: "\<forall>gpa. ept_walk sample_rpb (mem s') eptp (ucast gpa)
        = (if in_xmhf_region sample_rpb (page_of gpa) then None
           else Some (ucast gpa, 7,
             if vmx_getmemorytypeforphysicalpage (vcpus s' 0) (ucast (page_of gpa)) = Inr 0
             then 0 else 6))"
    using vmx_initialize_isolates[OF v(1) sample_hw_support(1) sample_sane v(2)] unfolding r by blast
  have "ept_walk sample_rpb (mem s') eptp 0x10000000 = None"
    using w[rule_format, of "0x10000000"]
    by (simp add: in_xmhf_region_def page_of_def sample_rpb_def xconst)
  moreover have "\<exists>mt. ept_walk sample_rpb (mem s') eptp 0x200123 = Some (0x200123, 7, mt)"
    using w[rule_format, of "0x200123"]
    by (simp add: in_xmhf_region_def page_of_def sample_rpb_def xconst)
  ultimately show ?thesis using i by blast
qed

lemma sample_built:
  "\<exists>s :: xmhf_state. rpb s = sample_rpb \<and> ept_layout (rpb s) (vcpus s 0)
    \<and> ept_built (rpb s) (vcpus s 0) (mem s)
    \<and> (\<exists>mts. vcpus s = (\<lambda>vp. sample_vcpu\<lparr>vmx_ept_memorytypes := mts\<rparr>))"
proof -
  obtain mts where "\<forall>v. memory_types_ok (v\<lparr>vmx_ept_memorytypes := mts\<rparr>)"
    using gathered_memory_types_ok[OF sample_hw_support(1) sample_sane] by blast
  then have ok: "memory_types_ok (sample_vcpu\<lparr>vmx_ept_memorytypes := mts\<rparr>)" by blast
  define s where "s = sample_state\<lparr>vcpus := (\<lambda>vp. sample_vcpu\<lparr>vmx_ept_memorytypes := mts\<rparr>)\<rparr>"
  have l: "ept_layout (rpb s) (vcpus s 0)"
    using sample_layout by (simp add: s_def sample_state_def ept_layout_def)
  with ok obtain m where "ept_built (rpb s) (vcpus s 0) m"
    using vmx_setupEPT_built[of s 0] by (auto simp: s_def)
  with l have "ept_layout (rpb (s\<lparr>mem := m\<rparr>)) (vcpus (s\<lparr>mem := m\<rparr>) 0)"
    "ept_built (rpb (s\<lparr>mem := m\<rparr>)) (vcpus (s\<lparr>mem := m\<rparr>) 0) (mem (s\<lparr>mem := m\<rparr>))" by simp_all
  moreover have "rpb (s\<lparr>mem := m\<rparr>) = sample_rpb"
    "vcpus (s\<lparr>mem := m\<rparr>) = (\<lambda>vp. sample_vcpu\<lparr>vmx_ept_memorytypes := mts\<rparr>)"
    by (simp_all add: s_def sample_state_def)
  ultimately show ?thesis by blast
qed

lemma ept_built_upper: "ept_built b v m \<Longrightarrow> ept_upper b v m"
  by (simp add: ept_built_def ept_upper_def)

theorem setprot_enforced_witness:
  "\<exists>s. ept_layout (rpb s) (vcpus s 0) \<and> ept_upper (rpb s) (vcpus s 0) (mem s)
    \<and> (let s' = xmhf_memprot_arch_x86vmx_setprot 0 0x300000 0x16 s in
        \<not> ept_permits (ept_walk (rpb s) (mem s') (ept_root (rpb s) (vcpus s 0)) 0x300004) GuestWrite
        \<and> ept_permits (ept_walk (rpb s) (mem s') (ept_root (rpb s) (vcpus s 0)) 0x300004) GuestFetch
        \<and> ept_walk (rpb s) (mem s') (ept_root (rpb s) (vcpus s 0)) 0x20000000
          = ept_walk (rpb s) (mem s) (ept_root (rpb s) (vcpus s 0)) 0x20000000)"
proof -
  obtain s :: xmhf_state where s: "ept_layout (rpb s) (vcpus s 0)" "ept_upper (rpb s) (vcpus s 0) (mem s)"
    using sample_built ept_built_upper by blast
  have c: "canonical_prot 0x16" by (simp add: canonical_prot_def xconst)
  show ?thesis
    using setprot_enforced[OF s c, of "0x300004" "0x300000"]
      setprot_enforced[OF s c, of "0x20000000" "0x300000"] s
    by (intro exI[of _ s]) (simp add: Let_def prot_allows_def xconst)
qed

section \<open>AMD: the nested page tables\<close>

text \<open>
  The nested tables in the guest's PAE format (AMD APM, 15.25): three levels below \<^verbatim>\<open>n_cr3\<close>, an entry
  present when bit 0 is set; the page is writable and a user page when every directory and leaf entry
  says so, and executable unless bit 63 of one of them is set. The backend turns the addresses of its
  tables into physical ones with \<^verbatim>\<open>hva2spa\<close>, the identity, so that \<^verbatim>\<open>n_cr3\<close> and the entries hold
  addresses of the hypervisor. \<open>npt_walk\<close> follows them as such: it states the content of the tables.
  It is the processor's walk only for a runtime that is mapped at its physical address, and the
  runtime is not (see \<open>svm_npt_root_virtual\<close> below), so nothing is concluded from it about
  the memory an AMD guest reaches.
\<close>

definition npt_entry :: "memory \<Rightarrow> u64 \<Rightarrow> nat \<Rightarrow> u64" where
  "npt_entry m e i = ld64 m (elem64 (spa2hva (walk_addr e)) i)"

definition npt_walk :: "memory \<Rightarrow> u64 \<Rightarrow> u64 \<Rightarrow> (u64 \<times> bool \<times> bool \<times> bool) option" where
  "npt_walk m cr3 gpa =
    (let e3 = npt_entry m cr3 (walk_index 2 gpa);
         e2 = npt_entry m e3 (walk_index 1 gpa);
         e1 = npt_entry m e2 (walk_index 0 gpa)
     in if bit e3 0 \<and> bit e2 0 \<and> bit e1 0 then
          Some (walk_addr e1 OR (gpa AND 0xFFF), bit e2 1 \<and> bit e1 1, bit e2 2 \<and> bit e1 2,
                \<not> bit e2 63 \<and> \<not> bit e1 63)
        else None)"

definition npt_layout :: "VCPU \<Rightarrow> bool" where
  "npt_layout v \<longleftrightarrow> take_bit 12 (npt_vaddr_ptr v) = 0 \<and> take_bit 12 (npt_vaddr_pdts v) = 0
    \<and> take_bit 12 (npt_vaddr_pts v) = 0
    \<and> tables_disjoint (npt_vaddr_ptr v) (npt_vaddr_pdts v) (npt_vaddr_pts v)"

lemma npt_made_entry:
  assumes "take_bit 12 (t :: u32) = 0"
  shows "pae_make_pdpe (ucast t) PAGE_PRESENT = ucast t OR 1"
    "pae_make_pde (ucast t) (PAGE_PRESENT OR PAGE_RW OR PAGE_USER) = ucast t OR 7"
    "pae_make_pte (ucast t) f = ucast t OR f"
proof -
  have "ucast t AND NOT ((PAGE_SIZE_4K - 1) OR PAGE_NX) = (ucast t :: u64)"
    by (rule u64_bitsI) (simp add: bit_simps xconst aligned_low_bits[OF assms] u32_high_bit)
  then show "pae_make_pdpe (ucast t) PAGE_PRESENT = ucast t OR 1"
    "pae_make_pde (ucast t) (PAGE_PRESENT OR PAGE_RW OR PAGE_USER) = ucast t OR 7"
    "pae_make_pte (ucast t) f = ucast t OR f"
    unfolding pae_make_pdpe_def pae_make_pde_def pae_make_pte_def
    by (simp_all only:) (simp_all add: xconst)
qed

lemma npt_walk_addr:
  assumes "take_bit 12 (t :: u32) = 0"
  shows "spa2hva (walk_addr (ucast t)) = t" "spa2hva (walk_addr (ucast t OR 1)) = t"
    "spa2hva (walk_addr (ucast t OR 7)) = t" "walk_addr (ucast t OR 7) = ucast t"
  unfolding spa2hva_def
  by (rule u32_bitsI u64_bitsI, simp add: walk_addr_def bit_simps aligned_low_bits[OF assms] u32_high_bit)+

lemma npt_entry_bits:
  assumes "take_bit 12 (t :: u32) = 0"
  shows "bit (ucast t OR 1 :: u64) 0" "bit (ucast t OR 7 :: u64) 0" "bit (ucast t OR 7 :: u64) 1"
    "bit (ucast t OR 7 :: u64) 2" "\<not> bit (ucast t OR 7 :: u64) 63" "\<not> bit (ucast t :: u64) 0"
  by (simp_all add: bit_simps aligned_low_bits[OF assms] u32_high_bit)

lemma aligned_offset: "take_bit 12 t = 0 \<Longrightarrow> take_bit 12 (t + 4096 * n) = (0 :: u32)"
  using spa_aligned_offset[of "sample_rpb" t n] by (simp add: spa_aligned_def sample_rpb_def)

text \<open>The two upper levels as they are filled; then the leaf entry decides.\<close>

definition npt_upper :: "VCPU \<Rightarrow> memory \<Rightarrow> bool" where
  "npt_upper v m \<longleftrightarrow> (\<forall>i<4. ld64 m (elem64 (npt_vaddr_ptr v) i) = ucast (npt_vaddr_pdts v + 4096 * of_nat i) OR 1)
    \<and> (\<forall>t<2048. ld64 m (elem64 (npt_vaddr_pdts v) t) = ucast (npt_vaddr_pts v + 4096 * of_nat t) OR 7)"

lemma npt_walk_leaf:
  fixes gpa :: u32
  assumes lay: "npt_layout v" and up: "npt_upper v m"
  shows "npt_walk m (hva2spa (npt_vaddr_ptr v)) (ucast gpa)
    = (let e = ld64 m (elem64 (npt_vaddr_pts v) (unat gpa div 4096))
       in if bit e 0 then Some (walk_addr e OR (ucast gpa AND 0xFFF), bit e 1, bit e 2, \<not> bit e 63) else None)"
proof -
  let ?A = "npt_vaddr_ptr v" and ?D = "npt_vaddr_pdts v" and ?T = "npt_vaddr_pts v"
  have al: "take_bit 12 ?A = 0" "take_bit 12 ?D = 0" "take_bit 12 ?T = 0" using lay by (simp_all add: npt_layout_def)
  define g i3 i2 i1 where "g = unat gpa" and "i3 = g div 2 ^ 30"
    and "i2 = g div 2 ^ 21 mod 512" and "i1 = g div 2 ^ 12 mod 512"
  note ix = walk_index_ucast[of gpa, folded g_def, folded i3_def i2_def i1_def]
  have q: "512 * (512 * i3 + i2) + i1 = g div 4096"
    unfolding i3_def i2_def i1_def by (rule walk_index_join)
  have "i2 < 512" by (simp add: i2_def)
  with ix(5) have t: "512 * i3 + i2 < 2048" by linarith
  note al' = aligned_offset[OF al(2), of "of_nat i3"] aligned_offset[OF al(3), of "of_nat (512 * i3 + i2)"]
  define e1 where "e1 = ld64 m (elem64 ?T (g div 4096))"
  have e3: "npt_entry m (hva2spa ?A) i3 = ucast (?D + 4096 * of_nat i3) OR 1"
    using up ix(5) by (simp add: npt_entry_def hva2spa_def npt_walk_addr(1)[OF al(1)] npt_upper_def)
  have e2: "npt_entry m (ucast (?D + 4096 * of_nat i3) OR 1) i2
      = ucast (?T + 4096 * of_nat (512 * i3 + i2)) OR 7"
    using up t elem64_subtable[of ?D i3 i2, unfolded PAGE_SIZE_4K_def]
    by (simp add: npt_entry_def npt_walk_addr(2)[OF al'(1)] npt_upper_def del: of_nat_add of_nat_mult)
  have e1: "npt_entry m (ucast (?T + 4096 * of_nat (512 * i3 + i2)) OR 7) i1 = e1"
    using elem64_subtable[of ?T "512 * i3 + i2" i1, unfolded PAGE_SIZE_4K_def] q
    by (simp add: npt_entry_def npt_walk_addr(3)[OF al'(2)] e1_def del: of_nat_add of_nat_mult)
  note bits = npt_entry_bits[OF al'(1)] npt_entry_bits[OF al'(2)]
  show ?thesis
    unfolding npt_walk_def Let_def ix e3 e2 e1 e1_def[symmetric, unfolded g_def] using bits by simp
qed

definition npt_built :: "RPB \<Rightarrow> VCPU \<Rightarrow> memory \<Rightarrow> bool" where
  "npt_built b v m \<longleftrightarrow> npt_upper v m
    \<and> (\<forall>q<2 ^ 20. npt_pte b (of_nat (4096 * q)) = Inr (ld64 m (elem64 (npt_vaddr_pts v) q)))"

lemma npt_walk_built:
  fixes gpa :: u32
  assumes lay: "npt_layout v" and bu: "npt_built b v m"
  shows "npt_walk m (hva2spa (npt_vaddr_ptr v)) (ucast gpa)
    = (if in_xmhf_region b (page_of gpa) then None else Some (ucast gpa, True, True, True))"
proof -
  define e1 where "e1 = ld64 m (elem64 (npt_vaddr_pts v) (unat gpa div 4096))"
  have "unat gpa div 4096 < 2 ^ 20" using unsigned_less[of gpa, where 'a=nat] by simp
  then have "npt_pte b (page_of gpa) = Inr e1"
    using bu by (simp add: npt_built_def page_of_nat e1_def del: of_nat_mult)
  then have leaf: "e1 = ucast (page_of gpa) OR (if in_xmhf_region b (page_of gpa) then 0 else 7)"
    unfolding npt_pte_def npt_made_entry(3)[OF page_of_aligned] by (auto simp: xconst)
  have "npt_upper v m" using bu by (simp add: npt_built_def)
  then show ?thesis
    unfolding npt_walk_leaf[OF lay \<open>npt_upper v m\<close>] Let_def e1_def[symmetric] leaf
    using npt_entry_bits[OF page_of_aligned[of gpa]] by (simp add: npt_walk_addr(4)[OF page_of_aligned] page_of_offset)
qed

lemma svm_nptinitialize_built:
  assumes lay: "npt_layout v"
  shows "\<exists>m'. svm_nptinitialize b (npt_vaddr_ptr v) (npt_vaddr_pdts v) (npt_vaddr_pts v) m = Inr m' \<and> npt_built b v m'"
proof -
  let ?A = "npt_vaddr_ptr v" and ?D = "npt_vaddr_pdts v" and ?T = "npt_vaddr_pts v"
  let ?fa = "\<lambda>t. let y = ucast (hva2spa t) :: u32 in pae_make_pdpe (ucast y) PAGE_PRESENT"
  let ?fd = "\<lambda>t. let z = ucast (hva2spa t) :: u32
              in pae_make_pde (ucast z) (PAGE_PRESENT OR PAGE_RW OR PAGE_USER)"
  have dj: "tables_disjoint ?A ?D ?T" and al: "take_bit 12 ?D = 0" "take_bit 12 ?T = 0"
    using lay by (simp_all add: npt_layout_def)
  have tot: "\<forall>q<2 ^ 20. \<exists>e. npt_pte b (of_nat (4096 * q)) = Inr e" by (simp add: npt_pte_def)
  obtain m' where m': "fill_pdpt ?A ?D ?T ?fa ?fd (npt_pte b) (m, 0) = Inr (m', 0)"
    and inv: "tables_inv ?A ?D ?T ?fa ?fd (npt_pte b) m 4 2048 (2 ^ 20) (m', 0)"
    using fill_pdpt_inv[OF dj tot, of ?fa ?fd m] by blast
  have "npt_built b v m'"
    using inv npt_made_entry(1)[OF aligned_offset[OF al(1)]] npt_made_entry(2)[OF aligned_offset[OF al(2)]]
    by (simp add: npt_built_def npt_upper_def tables_inv_def hva2spa_def)
  then show ?thesis using m' by (simp add: svm_nptinitialize_def)
qed

text \<open>
  Initialisation on an AMD core returns with nested paging enabled and the core's address space id
  set; the tables, followed through the hypervisor's addresses, list every page below 4G at its own
  address, writable, user and executable, except the pages of the hypervisor, which are not present.
\<close>

lemma svm_initialize_tables:
  fixes s :: xmhf_state
  assumes "cpu_vendor (vcpus s vp) = CPU_VENDOR_AMD" and "npt_layout (vcpus s vp)"
  shows "\<exists>s' cr3. xmhf_memprot_arch_x86svm_initialize vp s = Inr s'
    \<and> vcpus s' = vcpus s \<and> xmhf_memprot_arch_x86svm_get_h_cr3 vp s' = Inr cr3
    \<and> bit (np_enable (vmcbs s' (vmcb_vaddr_ptr (vcpus s vp)))) 0
    \<and> guest_asid (vmcbs s' (vmcb_vaddr_ptr (vcpus s vp))) = npt_asid (vcpus s vp)
    \<and> (\<forall>gpa. npt_walk (mem s') cr3 (ucast gpa)
        = (if in_xmhf_region (rpb s) (page_of gpa) then None
           else Some (ucast gpa, True, True, True)))"
proof -
  obtain m where m: "svm_nptinitialize (rpb s) (npt_vaddr_ptr (vcpus s vp)) (npt_vaddr_pdts (vcpus s vp))
      (npt_vaddr_pts (vcpus s vp)) (mem s) = Inr m" "npt_built (rpb s) (vcpus s vp) m"
    using svm_nptinitialize_built[OF assms(2)] by blast
  show ?thesis
    using m(1) npt_walk_built[OF assms(2) m(2)] assms(1)
    by (simp add: xmhf_memprot_arch_x86svm_initialize_def Let_def
        xmhf_memprot_arch_x86svm_get_h_cr3_def upd_vmcb_def bit_simps)
qed

text \<open>
  The root the processor is given is the address of the table in the hypervisor's address space. With
  the runtime linked at one address and loaded at another, as the secure loader does, the physical
  address of the table is a different one.
\<close>

lemma svm_npt_root_virtual:
  fixes s :: xmhf_state
  assumes "cpu_vendor (vcpus s vp) = CPU_VENDOR_AMD" and "npt_layout (vcpus s vp)"
    and "XtVmmRuntimeVirtBase (rpb s) \<noteq> XtVmmRuntimePhysBase (rpb s)"
  shows "\<exists>s'. xmhf_memprot_arch_x86svm_initialize vp s = Inr s'
    \<and> n_cr3 (vmcbs s' (vmcb_vaddr_ptr (vcpus s vp))) = ucast (npt_vaddr_ptr (vcpus s vp))
    \<and> n_cr3 (vmcbs s' (vmcb_vaddr_ptr (vcpus s vp))) \<noteq> hva2spa1 (rpb s) (npt_vaddr_ptr (vcpus s vp))"
proof -
  obtain m where m: "svm_nptinitialize (rpb s) (npt_vaddr_ptr (vcpus s vp)) (npt_vaddr_pdts (vcpus s vp))
      (npt_vaddr_pts (vcpus s vp)) (mem s) = Inr m"
    using svm_nptinitialize_built[OF assms(2)] by blast
  have "t + XtVmmRuntimePhysBase (rpb s) - XtVmmRuntimeVirtBase (rpb s) \<noteq> t" for t
    using assms(3) by simp
  then have "(ucast t :: u64) \<noteq> hva2spa1 (rpb s) t" for t
    unfolding hva2spa1_def by (metis unat_ucast_u64 word_unat_eq_iff)
  then show ?thesis
    using m assms(1) by (simp add: xmhf_memprot_arch_x86svm_initialize_def Let_def upd_vmcb_def hva2spa_def)
qed

end
