(* ===== verification/XMHF_SmpGuest.thy ===== *)
theory XMHF_SmpGuest
  imports XMHF_EPT
begin

text \<open>
  The SMP guest component on Intel (\<^verbatim>\<open>xmhf-smpguest/arch/x86/vmx/smpg-x86vmx.c\<close>), without the
  quiescing protocol: the interception of the local APIC that lets the hypervisor filter the
  INIT and STARTUP inter-processor interrupts of a booting guest, the bring-up of the application
  processors, the injection of guest NMIs, the descriptor tables of the cores that leave the
  guest, and the software walk of the guest's page tables.

  The lemmas follow one emulated access: the page fault handler redirects the access to a buffer
  and single-steps the guest, the debug exception handler inspects the buffered value, filters or
  forwards it, and puts the guest's flags and the interception back.
\<close>

section \<open>LAPIC interception\<close>

definition VMX_LAPIC_MAP :: u64 where [xconst]: "VMX_LAPIC_MAP = EPT_PROT_READ OR EPT_PROT_WRITE"
definition VMX_LAPIC_UNMAP :: u64 where [xconst]: "VMX_LAPIC_UNMAP = 0"

definition vmx_lapic_changemapping ::
  "u32 \<Rightarrow> u32 \<Rightarrow> u32 \<Rightarrow> u64 \<Rightarrow> xmhf_state \<Rightarrow> xmhf_state" where
  "vmx_lapic_changemapping vp lapic_paddr new_lapic_paddr mapflag s =
    (let pts = vmx_vaddr_ept_p_tables (vcpus s vp);
         lapic_page = lapic_paddr div PAGE_SIZE_4K;
         val = ucast new_lapic_paddr OR mapflag
     in xmhf_memprot_arch_x86vmx_flushmappings vp
          (s\<lparr>mem := st64 (mem s) (elem64 pts (unat lapic_page)) val\<rparr>))"

definition have_all_cores_recievedSIPI :: "xmhf_state \<Rightarrow> bool" where
  "have_all_cores_recievedSIPI s \<longleftrightarrow>
    list_all (\<lambda>e. let v = vcpus s (vcpu_vaddr_ptr e) in isbsp v \<noteq> 0 \<or> sipireceived v \<noteq> 0)
      (g_midtable s)"

text \<open>The result is true when the interception has to be discontinued.\<close>

definition processSIPI :: "u32 \<Rightarrow> u32 \<Rightarrow> xmhf_state \<Rightarrow> xmhf_error + xmhf_state \<times> bool" where
  "processSIPI icr_low_value icr_high_value s =
    bindE (HALT_ON_ERRORCOND (icr_low_value AND 0x000C0000 = 0)) (\<lambda>_.
    let dest_lapic_id = drop_bit 24 icr_high_value;
        entry = find (\<lambda>e. cpu_lapic_id e = dest_lapic_id) (g_midtable s)
    in bindE (case entry of None \<Rightarrow> Inr 0
              | Some e \<Rightarrow> bindE (HALT_ON_ERRORCOND
                  (vcpu_id (vcpus s (vcpu_vaddr_ptr e)) = dest_lapic_id))
                  (\<lambda>_. Inr (vcpu_vaddr_ptr e))) (\<lambda>dest_vcpu.
       bindE (HALT_ON_ERRORCOND (dest_vcpu \<noteq> 0)) (\<lambda>_.
       let s' = (if sipireceived (vcpus s dest_vcpu) \<noteq> 0 then s
                 else upd_vcpu dest_vcpu (\<lambda>v. v\<lparr>sipivector := ucast (ucast icr_low_value :: u8),
                        sipireceived := 1\<rparr>) s)
       in Inr (s', have_all_cores_recievedSIPI s'))))"

definition xmhf_smpguest_arch_x86vmx_initialize ::
  "hardware \<Rightarrow> u32 \<Rightarrow> xmhf_state \<Rightarrow> xmhf_error + xmhf_state" where
  "xmhf_smpguest_arch_x86vmx_initialize hw vp s =
    (let (eax, edx) = rdmsr hw MSR_APIC_BASE in
     bindE (HALT_ON_ERRORCOND (edx = 0)) (\<lambda>_.
     let base = eax AND 0xFFFFF000;
         s = s\<lparr>g_vmx_lapic_base := base\<rparr>
     in Inr (vmx_lapic_changemapping vp base base VMX_LAPIC_UNMAP s)))"

definition is_icr :: "u32 \<Rightarrow> bool" where
  "is_icr reg \<longleftrightarrow> reg = LAPIC_ICR_LOW \<or> reg = LAPIC_ICR_HIGH"

text \<open>The handler returns 0 in every case; the result is left out.\<close>

definition xmhf_smpguest_arch_x86vmx_eventhandler_hwpgtblviolation ::
  "u32 \<Rightarrow> u32 \<Rightarrow> u32 \<Rightarrow> xmhf_state \<Rightarrow> xmhf_state" where
  "xmhf_smpguest_arch_x86vmx_eventhandler_hwpgtblviolation vp paddr errorcode s =
    (let base = g_vmx_lapic_base s;
         reg = paddr - base;
         s = s\<lparr>g_vmx_lapic_reg := reg\<rparr>;
         virt = ucast (hva2spa1 (rpb s) (g_vmx_virtual_LAPIC_base s));
         s = (if errorcode AND EPT_ERRORCODE_WRITE \<noteq> 0 then
                if is_icr reg
                then vmx_lapic_changemapping vp base virt VMX_LAPIC_MAP
                       (s\<lparr>g_vmx_lapic_op := LAPIC_OP_WRITE\<rparr>)
                else vmx_lapic_changemapping vp base base VMX_LAPIC_MAP
                       (s\<lparr>g_vmx_lapic_op := LAPIC_OP_RSVD\<rparr>)
              else
                if is_icr reg
                then vmx_lapic_changemapping vp base virt VMX_LAPIC_MAP
                       (s\<lparr>g_vmx_lapic_op := LAPIC_OP_READ\<rparr>)
                else vmx_lapic_changemapping vp base base VMX_LAPIC_MAP
                       (s\<lparr>g_vmx_lapic_op := LAPIC_OP_RSVD\<rparr>));
         s = upd_vmcs vp (\<lambda>c. c\<lparr>control_exception_bitmap := control_exception_bitmap c OR push_bit 1 1\<rparr>) s;
         s = s\<lparr>g_vmx_lapic_guest_eflags_tfifmask :=
               ucast (guest_RFLAGS (vmcs_of vp s)) AND (EFLAGS_IF OR EFLAGS_TF)\<rparr>;
         s = upd_vmcs vp (\<lambda>c. c\<lparr>guest_RFLAGS := guest_RFLAGS c OR EFLAGS_TF\<rparr>) s
     in upd_vmcs vp (\<lambda>c. c\<lparr>guest_RFLAGS := guest_RFLAGS c AND NOT EFLAGS_IF\<rparr>) s)"

text \<open>
  The write the guest issued, as the debug handler treats it: an INIT IPI is dropped, a STARTUP
  IPI is emulated, everything else goes to the physical LAPIC. The result says whether the
  interception ends.
\<close>

definition lapic_emulate_write :: "xmhf_state \<Rightarrow> xmhf_error + xmhf_state \<times> bool" where
  "lapic_emulate_write s =
    (let reg = g_vmx_lapic_reg s in
     bindE (HALT_ON_ERRORCOND (is_icr reg)) (\<lambda>_.
     let src = g_vmx_virtual_LAPIC_base s + reg;
         dst = g_vmx_lapic_base s + reg;
         value_tobe_written = ld32 (mem s) src
     in if reg = LAPIC_ICR_LOW then
          if value_tobe_written AND 0x00000F00 = 0x500 then Inr (s, False)
          else if value_tobe_written AND 0x00000F00 = 0x600 then
            let icr_value_high = ld32 (mem s) (g_vmx_virtual_LAPIC_base s + LAPIC_ICR_HIGH)
            in processSIPI value_tobe_written icr_value_high s
          else Inr (hw_do (MmioWrite32 dst value_tobe_written) s, False)
        else Inr (hw_do (MmioWrite32 dst value_tobe_written) s, False)))"

definition xmhf_smpguest_arch_x86vmx_eventhandler_dbexception ::
  "u32 \<Rightarrow> xmhf_state \<Rightarrow> xmhf_error + xmhf_state" where
  "xmhf_smpguest_arch_x86vmx_eventhandler_dbexception vp s =
    bindE (if g_vmx_lapic_op s = LAPIC_OP_WRITE then lapic_emulate_write s
           else if g_vmx_lapic_op s = LAPIC_OP_READ then
             bindE (HALT_ON_ERRORCOND (is_icr (g_vmx_lapic_reg s))) (\<lambda>_. Inr (s, False))
           else Inr (s, False))
    (\<lambda>(s, delink_lapic_interception).
     let s = upd_vmcs vp (\<lambda>c. c\<lparr>control_exception_bitmap :=
               control_exception_bitmap c AND NOT (push_bit 1 1)\<rparr>) s;
         base = g_vmx_lapic_base s;
         s = vmx_lapic_changemapping vp base base
               (if delink_lapic_interception then VMX_LAPIC_MAP else VMX_LAPIC_UNMAP) s
     in Inr (upd_vmcs vp (\<lambda>c. c\<lparr>guest_RFLAGS :=
               (guest_RFLAGS c AND NOT EFLAGS_IF AND NOT EFLAGS_TF)
               OR ucast (g_vmx_lapic_guest_eflags_tfifmask s)\<rparr>) s))"

section \<open>Bringing up a core\<close>

definition xmhf_smpguest_arch_x86vmx_postCPUwakeup :: "u32 \<Rightarrow> xmhf_state \<Rightarrow> xmhf_state" where
  "xmhf_smpguest_arch_x86vmx_postCPUwakeup vp s =
    (let vec = sipivector (vcpus s vp) in
     upd_vmcs vp (\<lambda>c. c\<lparr>guest_CS_selector := drop_bit 4 (vec * PAGE_SIZE_4K),
       guest_CS_base := ucast (vec * PAGE_SIZE_4K), guest_RIP := 0\<rparr>) s)"

section \<open>NMIs outside quiescing\<close>

text \<open>
  The handler reads the exit reason and the interruption information with \<^verbatim>\<open>vmread\<close>; they are
  arguments here. This is its branch for \<^verbatim>\<open>g_vmx_quiesce == 0\<close>.
\<close>

definition nmiinhvm :: "u32 \<Rightarrow> u32 \<Rightarrow> bool" where
  "nmiinhvm exit_reason intr_info \<longleftrightarrow>
    exit_reason = VMX_VMEXIT_EXCEPTION \<and> intr_info AND INTR_INFO_VECTOR_MASK = 2"

definition nmi_outside_quiesce :: "u32 \<Rightarrow> u32 \<Rightarrow> u32 \<Rightarrow> xmhf_state \<Rightarrow> xmhf_state" where
  "nmi_outside_quiesce vp exit_reason intr_info s =
    (if nmiinhvm exit_reason intr_info then
       if control_exception_bitmap (vmcs_of vp s) AND CPU_EXCEPTION_NMI \<noteq> 0 then s
       else upd_vmcs vp (\<lambda>c. c\<lparr>control_VM_entry_exception_errorcode := 0,
         control_VM_entry_interruption_information :=
           NMI_VECTOR OR INTR_TYPE_NMI OR INTR_INFO_VALID_MASK\<rparr>) s
     else s)"

section \<open>Descriptor tables of a core that leaves the guest\<close>

text \<open>
  A GDT entry is eight packed bytes: \<^verbatim>\<open>limit_low\<close> at 0, \<^verbatim>\<open>base_low\<close> at 2, \<^verbatim>\<open>base_middle\<close>
  at 4, \<^verbatim>\<open>access\<close> at 5, \<^verbatim>\<open>granularity\<close> at 6 and \<^verbatim>\<open>base_high\<close> at 7.
\<close>

definition gdt_set_gate :: "u32 \<Rightarrow> u32 \<Rightarrow> u32 \<Rightarrow> u32 \<Rightarrow> u8 \<Rightarrow> u8 \<Rightarrow> memory \<Rightarrow> memory" where
  "gdt_set_gate gdt_base num base limit access gran m =
    (let e = gdt_base + 8 * num;
         m = st16 m (e + 2) (ucast (base AND 0xFFFF));
         m = m(e + 4 := ucast (drop_bit 16 base AND 0xFF));
         m = m(e + 7 := ucast (drop_bit 24 base AND 0xFF));
         m = st16 m e (ucast (limit AND 0xFFFF));
         m = m(e + 6 := ucast (drop_bit 16 limit AND 0x0F));
         m = m(e + 6 := m (e + 6) OR (gran AND 0xF0))
     in m(e + 5 := access))"

text \<open>\<^verbatim>\<open>sizeof(tss_entry_t)\<close> is 104; \<^verbatim>\<open>esp0\<close> is at offset 4, \<^verbatim>\<open>ss0\<close> at offset 8.\<close>

definition write_tss :: "VCPU \<Rightarrow> u32 \<Rightarrow> u32 \<Rightarrow> u32 \<Rightarrow> u8 \<Rightarrow> u8 \<Rightarrow> memory \<Rightarrow> memory" where
  "write_tss v tss_base gdt_base num access limit m =
    (let e = gdt_base + 8 * num;
         m = st16 m (e + 2) (ucast (tss_base AND 0xFFFF));
         m = m(e + 4 := ucast (drop_bit 16 tss_base AND 0xFF));
         m = m(e + 7 := ucast (drop_bit 24 tss_base AND 0xFF));
         m = st16 m e 104;
         m = m(e + 5 := access);
         m = m(e + 6 := limit);
         m = (\<lambda>a. if unat (a - tss_base) < 104 then 0 else m a);
         m = st16 m (tss_base + 8) 0x10
     in st32 m (tss_base + 4) (vcpu_esp v))"

definition update_gdt_remote_core :: "u32 \<Rightarrow> xmhf_state \<Rightarrow> xmhf_state" where
  "update_gdt_remote_core vp s =
    (let v = vcpus s vp; g = x_my_gdt_start s; gsb = ucast (guest_GS_base (vmcs v));
         m = gdt_set_gate g 0 0 0 0 0 (mem s);
         m = gdt_set_gate g 1 0 0xFFFFFFFF 0x9A 0xCF m;
         m = gdt_set_gate g 2 0 0xFFFFFFFF 0x92 0xCF m;
         m = gdt_set_gate g 3 0 0xFFFFFFFF 0xFA 0xCF m;
         m = gdt_set_gate g 4 0 0xFFFFFFFF 0xF2 0xCF m;
         m = write_tss v (user_tss s) g 5 0xE9 0x10 m;
         (gsselector, m) =
           (if vcpu_id v = 0xc then (0x33, gdt_set_gate g 6 gsb 0xFFFFFFFF 0xF2 0xDF m)
            else if vcpu_id v = 0xe then (0x3B, gdt_set_gate g 7 gsb 0xFFFFFFFF 0xF2 0xDF m)
            else if vcpu_id v = 0x1a then (0x43, gdt_set_gate g 8 gsb 0xFFFFFFFF 0xF2 0xDF m)
            else (0x33, m));
         s = s\<lparr>mem := m\<rparr>
     in hw_do (LoadGS gsselector) (hw_do (Ltr 0x2B) (hw_do (Lgdt g (8 * 9 - 1)) s)))"

section \<open>Walking the guest's page tables\<close>

definition xmhf_smpguest_arch_x86vmx_walk_pagetables :: "VCPU \<Rightarrow> memory \<Rightarrow> u32 \<Rightarrow> u32" where
  "xmhf_smpguest_arch_x86vmx_walk_pagetables v m vaddr =
    (let kcr3 = ucast (guest_CR3 (vmcs v)) in
     if (ucast (guest_CR4 (vmcs v)) :: u32) AND CR4_PAE \<noteq> 0 then
       let kpdpt = pae_get_addr_from_32bit_cr3 kcr3;
           pdpt_entry = ucast (ld64 m (elem64 kpdpt (unat (pae_get_pdpt_index vaddr)))) :: u32;
           kpd = ucast (pae_get_addr_from_pdpe (ucast pdpt_entry)) :: u32;
           pd_entry = ucast (ld64 m (elem64 kpd (unat (pae_get_pdt_index vaddr)))) :: u32;
           paddr = (if pd_entry AND PAGE_PSE = 0 then
               let kpt = ucast (pae_get_addr_from_pde (ucast pd_entry)) :: u32;
                   pt_entry = ucast (ld64 m (elem64 kpt (unat (pae_get_pt_index vaddr)))) :: u32
               in pae_get_addr_from_pte (ucast pt_entry) + ucast (pae_get_offset_4K_page vaddr)
             else pae_get_addr_from_pde_big (ucast pd_entry) + ucast (pae_get_offset_big vaddr))
       in ucast (paddr :: u64)
     else
       let kpd = npae_get_addr_from_32bit_cr3 kcr3;
           pd_entry = ld32 m (kpd + 4 * npae_get_pdt_index vaddr);
           paddr = (if pd_entry AND PAGE_PSE = 0 then
               let kpt = npae_get_addr_from_pde pd_entry;
                   pt_entry = ld32 m (kpt + 4 * npae_get_pt_index vaddr)
               in ucast (npae_get_addr_from_pte pt_entry) + ucast (npae_get_offset_4K_page vaddr)
             else ucast (npae_get_addr_from_pde_big pd_entry) + ucast (npae_get_offset_big vaddr))
       in ucast (paddr :: u64))"

section \<open>Properties of the LAPIC interception\<close>

lemma changemapping_simps [simp]:
  "vcpus (vmx_lapic_changemapping vp a b f s) = vcpus s"
  "rpb (vmx_lapic_changemapping vp a b f s) = rpb s"
  "g_midtable (vmx_lapic_changemapping vp a b f s) = g_midtable s"
  "g_vmx_lapic_base (vmx_lapic_changemapping vp a b f s) = g_vmx_lapic_base s"
  "g_vmx_virtual_LAPIC_base (vmx_lapic_changemapping vp a b f s) = g_vmx_virtual_LAPIC_base s"
  "g_vmx_lapic_reg (vmx_lapic_changemapping vp a b f s) = g_vmx_lapic_reg s"
  "g_vmx_lapic_op (vmx_lapic_changemapping vp a b f s) = g_vmx_lapic_op s"
  "g_vmx_lapic_guest_eflags_tfifmask (vmx_lapic_changemapping vp a b f s)
    = g_vmx_lapic_guest_eflags_tfifmask s"
  "hwlog (vmx_lapic_changemapping vp a b f s)
    = hwlog s @ [InvEPT 1 (ucast (control_EPT_pointer_full (vmcs_of vp s)))]"
  "mem (vmx_lapic_changemapping vp a b f s)
    = st64 (mem s) (elem64 (vmx_vaddr_ept_p_tables (vcpus s vp)) (unat (a div PAGE_SIZE_4K)))
        (ucast b OR f)"
  by (simp_all add: vmx_lapic_changemapping_def xmhf_memprot_arch_x86vmx_flushmappings_def
      Let_def VMX_INVEPT_SINGLECONTEXT_def)

text \<open>The page fault handler without its branches: where the page goes and which operation is noted.\<close>

definition lapic_target :: "xmhf_state \<Rightarrow> u32 \<Rightarrow> u32" where
  "lapic_target s paddr = (if is_icr (paddr - g_vmx_lapic_base s)
     then ucast (hva2spa1 (rpb s) (g_vmx_virtual_LAPIC_base s)) else g_vmx_lapic_base s)"

definition lapic_op_of :: "xmhf_state \<Rightarrow> u32 \<Rightarrow> u32 \<Rightarrow> u32" where
  "lapic_op_of s paddr errorcode = (if is_icr (paddr - g_vmx_lapic_base s)
     then (if errorcode AND EPT_ERRORCODE_WRITE \<noteq> 0 then LAPIC_OP_WRITE else LAPIC_OP_READ)
     else LAPIC_OP_RSVD)"

lemma hwpgtblviolation_effect:
  fixes s :: xmhf_state and vp paddr errorcode :: u32
  defines "s' \<equiv> xmhf_smpguest_arch_x86vmx_eventhandler_hwpgtblviolation vp paddr errorcode s"
  shows "g_vmx_lapic_reg s' = paddr - g_vmx_lapic_base s"
    and "g_vmx_lapic_op s' = lapic_op_of s paddr errorcode"
    and "g_vmx_lapic_base s' = g_vmx_lapic_base s"
    and "g_vmx_lapic_guest_eflags_tfifmask s'
      = ucast (guest_RFLAGS (vmcs_of vp s)) AND (EFLAGS_IF OR EFLAGS_TF)"
    and "vmcs_of vp s' = (vmcs_of vp s)\<lparr>control_exception_bitmap :=
        control_exception_bitmap (vmcs_of vp s) OR 2,
        guest_RFLAGS := (guest_RFLAGS (vmcs_of vp s) OR EFLAGS_TF) AND NOT EFLAGS_IF\<rparr>"
    and "mem s' = st64 (mem s)
        (elem64 (vmx_vaddr_ept_p_tables (vcpus s vp)) (unat (g_vmx_lapic_base s div PAGE_SIZE_4K)))
        (ucast (lapic_target s paddr) OR VMX_LAPIC_MAP)"
    and "hwlog s' = hwlog s @ [InvEPT 1 (ucast (control_EPT_pointer_full (vmcs_of vp s)))]"
    and "rpb s' = rpb s" "g_midtable s' = g_midtable s"
    and "g_vmx_virtual_LAPIC_base s' = g_vmx_virtual_LAPIC_base s"
    and "vmx_vaddr_ept_p_tables (vcpus s' vp) = vmx_vaddr_ept_p_tables (vcpus s vp)"
  unfolding s'_def xmhf_smpguest_arch_x86vmx_eventhandler_hwpgtblviolation_def Let_def
    lapic_target_def lapic_op_of_def
  by simp_all

text \<open>What a debug exception changes besides memory, whatever operation is pending.\<close>

lemma processSIPI_keeps:
  assumes "processSIPI lo hi s = Inr (s', d)"
  shows "vmcs_of p s' = vmcs_of p s" "mem s' = mem s" "hwlog s' = hwlog s"
    "g_vmx_lapic_base s' = g_vmx_lapic_base s" "g_vmx_lapic_reg s' = g_vmx_lapic_reg s"
    "g_vmx_lapic_guest_eflags_tfifmask s' = g_vmx_lapic_guest_eflags_tfifmask s"
    "vmx_vaddr_ept_p_tables (vcpus s' p) = vmx_vaddr_ept_p_tables (vcpus s p)"
    "g_midtable s' = g_midtable s" "rpb s' = rpb s"
    "vmx_vaddr_ept_pml4_table (vcpus s' p) = vmx_vaddr_ept_pml4_table (vcpus s p)"
    "vmx_vaddr_ept_pdp_table (vcpus s' p) = vmx_vaddr_ept_pdp_table (vcpus s p)"
    "vmx_vaddr_ept_pd_tables (vcpus s' p) = vmx_vaddr_ept_pd_tables (vcpus s p)"
  using assms unfolding processSIPI_def Let_def
  by (auto split: option.splits if_splits)

lemma emulate_write_keeps:
  assumes "lapic_emulate_write s = Inr (s', d)"
  shows "vmcs_of p s' = vmcs_of p s" "mem s' = mem s"
    "g_vmx_lapic_base s' = g_vmx_lapic_base s"
    "g_vmx_lapic_guest_eflags_tfifmask s' = g_vmx_lapic_guest_eflags_tfifmask s"
    "vmx_vaddr_ept_p_tables (vcpus s' p) = vmx_vaddr_ept_p_tables (vcpus s p)"
    "vmx_vaddr_ept_pml4_table (vcpus s' p) = vmx_vaddr_ept_pml4_table (vcpus s p)"
    "vmx_vaddr_ept_pdp_table (vcpus s' p) = vmx_vaddr_ept_pdp_table (vcpus s p)"
    "vmx_vaddr_ept_pd_tables (vcpus s' p) = vmx_vaddr_ept_pd_tables (vcpus s p)" "rpb s' = rpb s"
  using assms unfolding lapic_emulate_write_def Let_def
  by (auto split: if_splits simp: processSIPI_keeps)

lemma emulate_write_delink: "lapic_emulate_write s = Inr (s', True) \<Longrightarrow> have_all_cores_recievedSIPI s'"
  unfolding lapic_emulate_write_def processSIPI_def Let_def
  by (auto split: if_splits option.splits)

lemma dbexception_split:
  assumes "xmhf_smpguest_arch_x86vmx_eventhandler_dbexception vp s = Inr s'"
  obtains s1 d where
    "(if g_vmx_lapic_op s = LAPIC_OP_WRITE then lapic_emulate_write s else Inr (s, False)) = Inr (s1, d)"
    "vmcs_of vp s' = (vmcs_of vp s)\<lparr>control_exception_bitmap :=
        control_exception_bitmap (vmcs_of vp s) AND NOT 2,
        guest_RFLAGS := (guest_RFLAGS (vmcs_of vp s) AND NOT EFLAGS_IF AND NOT EFLAGS_TF)
          OR ucast (g_vmx_lapic_guest_eflags_tfifmask s)\<rparr>"
    "mem s' = st64 (mem s)
        (elem64 (vmx_vaddr_ept_p_tables (vcpus s vp)) (unat (g_vmx_lapic_base s div PAGE_SIZE_4K)))
        (ucast (g_vmx_lapic_base s) OR (if d then VMX_LAPIC_MAP else VMX_LAPIC_UNMAP))"
    "hwlog s' = hwlog s1 @ [InvEPT 1 (ucast (control_EPT_pointer_full (vmcs_of vp s)))]"
    "vcpus s' = (vcpus s1)(vp := (vcpus s1 vp)\<lparr>vmcs := vmcs_of vp s'\<rparr>)"
    "g_midtable s' = g_midtable s1" "rpb s' = rpb s"
proof -
  define fin where "fin = (\<lambda>(s1, d). upd_vmcs vp (\<lambda>c. c\<lparr>guest_RFLAGS :=
               (guest_RFLAGS c AND NOT EFLAGS_IF AND NOT EFLAGS_TF)
               OR ucast (g_vmx_lapic_guest_eflags_tfifmask s1)\<rparr>)
      (vmx_lapic_changemapping vp (g_vmx_lapic_base s1) (g_vmx_lapic_base s1)
        (if d then VMX_LAPIC_MAP else VMX_LAPIC_UNMAP)
        (upd_vmcs vp (\<lambda>c. c\<lparr>control_exception_bitmap := control_exception_bitmap c AND NOT 2\<rparr>) s1)))"
  let ?st = "if g_vmx_lapic_op s = LAPIC_OP_WRITE then lapic_emulate_write s else Inr (s, False)"
  have "\<exists>r. ?st = Inr r \<and> s' = fin r"
  proof (cases "g_vmx_lapic_op s = LAPIC_OP_WRITE")
    case True
    then show ?thesis
      using assms
      unfolding xmhf_smpguest_arch_x86vmx_eventhandler_dbexception_def Let_def fin_def
      by (cases "lapic_emulate_write s") auto
  next
    case False
    then show ?thesis
      using assms
      unfolding xmhf_smpguest_arch_x86vmx_eventhandler_dbexception_def Let_def fin_def
      by (auto split: if_splits)
  qed
  then obtain s1 d where st: "?st = Inr (s1, d)" and s': "s' = fin (s1, d)" by (metis prod.collapse)
  have k: "vmcs_of vp s1 = vmcs_of vp s" "mem s1 = mem s" "g_vmx_lapic_base s1 = g_vmx_lapic_base s"
    "g_vmx_lapic_guest_eflags_tfifmask s1 = g_vmx_lapic_guest_eflags_tfifmask s"
    "vmx_vaddr_ept_p_tables (vcpus s1 vp) = vmx_vaddr_ept_p_tables (vcpus s vp)" "rpb s1 = rpb s"
    using st by (auto simp: emulate_write_keeps split: if_splits)
  show thesis by (rule that[OF st]) (simp_all add: s' fin_def k)
qed


text \<open>
  The write filter. Whatever the guest writes to the interrupt command register, the debug
  handler forwards it to the physical LAPIC exactly once and unchanged, except an INIT or STARTUP
  IPI, which never reaches the hardware: no guest core can reset or start another core behind the
  hypervisor's back. The only other hardware operation is the flush of the page mappings.
\<close>

theorem lapic_write_filter:
  assumes "g_vmx_lapic_op s = LAPIC_OP_WRITE"
    and "xmhf_smpguest_arch_x86vmx_eventhandler_dbexception vp s = Inr s'"
  defines "v \<equiv> ld32 (mem s) (g_vmx_virtual_LAPIC_base s + g_vmx_lapic_reg s)"
  shows "hwlog s' = hwlog s
      @ (if g_vmx_lapic_reg s = LAPIC_ICR_LOW \<and> v AND 0xF00 \<in> {0x500, 0x600} then []
         else [MmioWrite32 (g_vmx_lapic_base s + g_vmx_lapic_reg s) v])
      @ [InvEPT 1 (ucast (control_EPT_pointer_full (vmcs_of vp s)))]"
proof -
  obtain s1 d where st: "lapic_emulate_write s = Inr (s1, d)"
    and h: "hwlog s' = hwlog s1 @ [InvEPT 1 (ucast (control_EPT_pointer_full (vmcs_of vp s)))]"
    using assms(2) by (rule dbexception_split) (use assms(1) in simp)
  have "hwlog s1 = hwlog s @ (if g_vmx_lapic_reg s = LAPIC_ICR_LOW \<and> v AND 0xF00 \<in> {0x500, 0x600}
      then [] else [MmioWrite32 (g_vmx_lapic_base s + g_vmx_lapic_reg s) v])"
    using st unfolding lapic_emulate_write_def Let_def v_def
    by (auto split: if_splits simp: processSIPI_keeps)
  then show ?thesis by (simp add: h)
qed

text \<open>The walk after one leaf entry was stored.\<close>

lemma leaf_store_walk:
  fixes gpa a :: u32
  assumes "ept_layout b v" and "ept_upper b v m"
  shows "ept_walk b (st64 m (elem64 (vmx_vaddr_ept_p_tables v) (unat (a div PAGE_SIZE_4K))) e)
      (ept_root b v) (ucast gpa)
    = (if page_of gpa = page_of a then
         (if e AND 7 = 0 then None
          else Some (walk_addr e OR (ucast gpa AND 0xFFF), e AND 7, drop_bit 3 e AND 7))
       else ept_walk b m (ept_root b v) (ucast gpa))"
proof -
  have d: "unat (a div PAGE_SIZE_4K) = unat a div 4096" by (simp add: unat_div xconst)
  have b20: "unat x div 4096 < 2 ^ 20" for x :: u32
    using unsigned_less[of x, where 'a=nat] by simp
  have b29: "unat x div 4096 < 2 ^ 29" for x :: u32 using b20[of x] by simp
  have pg: "page_of gpa = page_of a \<longleftrightarrow> unat gpa div 4096 = unat a div 4096"
  proof
    assume "page_of gpa = page_of a"
    then have "(of_nat (4096 * (unat gpa div 4096)) :: u32) = of_nat (4096 * (unat a div 4096))"
      by (simp only: page_of_nat)
    moreover have "4096 * (unat x div 4096) < 2 ^ LENGTH(32)" for x :: u32 using b20[of x] by simp
    ultimately have "4096 * (unat gpa div 4096) = 4096 * (unat a div 4096)"
      by (simp only: word_of_nat_eq_iff_small)
    then show "unat gpa div 4096 = unat a div 4096" by simp
  qed (simp only: page_of_nat)
  note up' = ept_upper_leaf_store[OF assms b20[of a], of e]
  show ?thesis
    unfolding d ept_walk_leaf[OF assms(1) up'] ept_walk_leaf[OF assms] pg Let_def
    using ld64_elem_st64_elem[OF b29[of a] b29[of gpa], of m "vmx_vaddr_ept_p_tables v" e] by auto
qed

lemma lapic_entry_walk:
  assumes "take_bit 12 (x :: u32) = 0"
  shows "(ucast x OR VMX_LAPIC_UNMAP) AND 7 = 0" "(ucast x OR VMX_LAPIC_MAP) AND 7 = 3"
    "walk_addr (ucast x OR VMX_LAPIC_MAP) = ucast x" "drop_bit 3 (ucast x OR VMX_LAPIC_MAP) AND 7 = 0"
  unfolding xconst
  by (rule u64_bitsI, simp add: walk_addr_def bit_simps aligned_low_bits[OF assms] u32_high_bit)+

lemma lapic_store_walk:
  fixes gpa a x :: u32
  assumes "ept_layout b v" and "ept_upper b v m" and x: "take_bit 12 x = 0"
  shows "ept_walk b (st64 m (elem64 (vmx_vaddr_ept_p_tables v) (unat (a div PAGE_SIZE_4K)))
      (ucast x OR (if d then VMX_LAPIC_MAP else VMX_LAPIC_UNMAP))) (ept_root b v) (ucast gpa)
    = (if page_of gpa = page_of a then
         (if d then Some (ucast x OR (ucast gpa AND 0xFFF), 3, 0) else None)
       else ept_walk b m (ept_root b v) (ucast gpa))"
  unfolding leaf_store_walk[OF assms(1,2)]
  by (cases d) (simp_all only: if_True if_False lapic_entry_walk[OF x] zero_neq_numeral[symmetric]
      simp_thms, simp_all)

text \<open>The interception is armed: the core's tables are built and its LAPIC page is page aligned.\<close>

definition lapic_ready :: "u32 \<Rightarrow> xmhf_state \<Rightarrow> bool" where
  "lapic_ready vp s \<longleftrightarrow> ept_layout (rpb s) (vcpus s vp) \<and> ept_upper (rpb s) (vcpus s vp) (mem s)
    \<and> take_bit 12 (g_vmx_lapic_base s) = 0
    \<and> take_bit 12 (ucast (hva2spa1 (rpb s) (g_vmx_virtual_LAPIC_base s)) :: u32) = 0"

abbreviation lapic_walk :: "u32 \<Rightarrow> xmhf_state \<Rightarrow> u32 \<Rightarrow> (u64 \<times> u64 \<times> u64) option" where
  "lapic_walk vp s gpa \<equiv> ept_walk (rpb s) (mem s) (ept_root (rpb s) (vcpus s vp)) (ucast gpa)"

text \<open>
  The page fault handler redirects the guest. While the access is emulated, the guest's LAPIC
  page is mapped readable and writable but not executable: an access to the interrupt command
  register hits the hypervisor's buffer page, any other register the real LAPIC page; no other
  page of the guest changes.
\<close>

theorem lapic_fault_redirects:
  fixes vp paddr errorcode :: u32
  assumes "lapic_ready vp s"
  defines "s' \<equiv> xmhf_smpguest_arch_x86vmx_eventhandler_hwpgtblviolation vp paddr errorcode s"
  shows "lapic_walk vp s' gpa =
    (if page_of gpa = page_of (g_vmx_lapic_base s) then
       Some (ucast (lapic_target s paddr) OR (ucast gpa AND 0xFFF), 3, 0)
     else lapic_walk vp s gpa)"
proof -
  note h = hwpgtblviolation_effect[where vp = vp and paddr = paddr and errorcode = errorcode and s = s,
      folded s'_def]
  have v: "vmx_vaddr_ept_pml4_table (vcpus s' vp) = vmx_vaddr_ept_pml4_table (vcpus s vp)"
    by (simp add: s'_def xmhf_smpguest_arch_x86vmx_eventhandler_hwpgtblviolation_def Let_def)
  have al: "take_bit 12 (lapic_target s paddr) = 0"
    using assms(1) by (simp add: lapic_target_def lapic_ready_def)
  show ?thesis
    using assms(1) lapic_store_walk[of "rpb s" "vcpus s vp" "mem s" "lapic_target s paddr"
        "g_vmx_lapic_base s" True gpa] al
    unfolding h(6,8) v by (simp only: lapic_ready_def if_True simp_thms)
qed

text \<open>
  C23: as long as an application processor has not received its STARTUP IPI, the LAPIC page is not
  present for the guest after every emulated access, so that the next access traps again; once
  the last one has, the page is given back with read and write rights.
\<close>

theorem lapic_interception_kept:
  assumes "lapic_ready vp s" and "page_of gpa = page_of (g_vmx_lapic_base s)"
    and "xmhf_smpguest_arch_x86vmx_eventhandler_dbexception vp s = Inr s'"
  shows "if have_all_cores_recievedSIPI s'
    then lapic_walk vp s' gpa \<in> {None, Some (ucast (g_vmx_lapic_base s) OR (ucast gpa AND 0xFFF), 3, 0)}
    else lapic_walk vp s' gpa = None"
proof -
  obtain s1 d where
    st: "(if g_vmx_lapic_op s = LAPIC_OP_WRITE then lapic_emulate_write s else Inr (s, False)) = Inr (s1, d)"
    and vm: "vmcs_of vp s' = (vmcs_of vp s)\<lparr>control_exception_bitmap :=
        control_exception_bitmap (vmcs_of vp s) AND NOT 2,
        guest_RFLAGS := (guest_RFLAGS (vmcs_of vp s) AND NOT EFLAGS_IF AND NOT EFLAGS_TF)
          OR ucast (g_vmx_lapic_guest_eflags_tfifmask s)\<rparr>"
    and m: "mem s' = st64 (mem s)
        (elem64 (vmx_vaddr_ept_p_tables (vcpus s vp)) (unat (g_vmx_lapic_base s div PAGE_SIZE_4K)))
        (ucast (g_vmx_lapic_base s) OR (if d then VMX_LAPIC_MAP else VMX_LAPIC_UNMAP))"
    and hl: "hwlog s' = hwlog s1 @ [InvEPT 1 (ucast (control_EPT_pointer_full (vmcs_of vp s)))]"
    and v: "vcpus s' = (vcpus s1)(vp := (vcpus s1 vp)\<lparr>vmcs := vmcs_of vp s'\<rparr>)"
    and mt: "g_midtable s' = g_midtable s1" and r: "rpb s' = rpb s"
    using assms(3) by (rule dbexception_split)
  have f: "isbsp (vcpus s' p) = isbsp (vcpus s1 p)" "sipireceived (vcpus s' p) = sipireceived (vcpus s1 p)"
    "vmx_vaddr_ept_pml4_table (vcpus s' p) = vmx_vaddr_ept_pml4_table (vcpus s1 p)" for p
    by (subst v, simp)+
  have "d \<Longrightarrow> have_all_cores_recievedSIPI s1"
    using st by (auto simp: emulate_write_delink split: if_splits)
  moreover have "have_all_cores_recievedSIPI s' = have_all_cores_recievedSIPI s1"
    unfolding have_all_cores_recievedSIPI_def mt by (simp add: f Let_def)
  moreover have p4: "vmx_vaddr_ept_pml4_table (vcpus s' vp) = vmx_vaddr_ept_pml4_table (vcpus s vp)"
    unfolding f using st by (auto simp: emulate_write_keeps split: if_splits)
  moreover have "lapic_walk vp s' gpa
      = (if d then Some (ucast (g_vmx_lapic_base s) OR (ucast gpa AND 0xFFF), 3, 0) else None)"
    using assms(1,2) lapic_store_walk[of "rpb s" "vcpus s vp" "mem s" "g_vmx_lapic_base s"
        "g_vmx_lapic_base s" d gpa]
    unfolding m r p4 by (simp only: lapic_ready_def if_True simp_thms)
  ultimately show ?thesis by (cases d) simp_all
qed

section \<open>Properties of the bring-up\<close>

text \<open>A well-formed master-id table: every entry names its own core, and no two are the same core.\<close>

definition wf_midtable :: "xmhf_state \<Rightarrow> bool" where
  "wf_midtable s \<longleftrightarrow> distinct (map cpu_lapic_id (g_midtable s))
    \<and> (\<forall>e \<in> set (g_midtable s). vcpu_vaddr_ptr e \<noteq> 0
        \<and> vcpu_id (vcpus s (vcpu_vaddr_ptr e)) = cpu_lapic_id e)"

lemma find_distinct:
  "distinct (map f xs) \<Longrightarrow> x \<in> set xs \<Longrightarrow> find (\<lambda>y. f y = f x) xs = Some x"
  by (induction xs) auto

definition sipi_deliver :: "u32 \<Rightarrow> u32 \<Rightarrow> xmhf_state \<Rightarrow> xmhf_state" where
  "sipi_deliver p icr_low s = (if sipireceived (vcpus s p) \<noteq> 0 then s
     else upd_vcpu p (\<lambda>v. v\<lparr>sipivector := ucast (ucast icr_low :: u8), sipireceived := 1\<rparr>) s)"

lemma sipi_deliver_simps [simp]:
  "g_midtable (sipi_deliver p lo s) = g_midtable s"
  "vcpu_id (vcpus (sipi_deliver p lo s) q) = vcpu_id (vcpus s q)"
  "isbsp (vcpus (sipi_deliver p lo s) q) = isbsp (vcpus s q)"
  "sipireceived (vcpus (sipi_deliver p lo s) p) \<noteq> 0"
  "sipireceived (vcpus s q) \<noteq> 0 \<Longrightarrow> sipireceived (vcpus (sipi_deliver p lo s) q) \<noteq> 0"
  by (auto simp: sipi_deliver_def)

lemma processSIPI_wf:
  assumes "wf_midtable s" "e \<in> set (g_midtable s)" "drop_bit 24 hi = cpu_lapic_id e"
    and "lo AND 0x000C0000 = 0"
  shows "processSIPI lo hi s = (let s' = sipi_deliver (vcpu_vaddr_ptr e) lo s
    in Inr (s', have_all_cores_recievedSIPI s'))"
proof -
  have "find (\<lambda>e'. cpu_lapic_id e' = drop_bit 24 hi) (g_midtable s) = Some e"
    using assms(1,2) find_distinct[of cpu_lapic_id "g_midtable s" e] unfolding assms(3)
    by (simp add: wf_midtable_def)
  then show ?thesis
    using assms by (simp add: processSIPI_def wf_midtable_def sipi_deliver_def Let_def)
qed

text \<open>
  C25: a STARTUP IPI with a destination shorthand, or to an APIC id that is in no table entry, stops
  the hypervisor in the error condition; to a core of a well-formed table it is delivered once.
  The first one sets the core's start vector to the low byte of the command and marks it started;
  every later one to that core changes nothing at all.
\<close>

theorem processSIPI_first_wins:
  "(lo AND 0x000C0000 \<noteq> 0 \<longrightarrow> processSIPI lo hi s = Inl ErrorCond)
  \<and> (drop_bit 24 hi \<notin> cpu_lapic_id ` set (g_midtable s) \<longrightarrow> processSIPI lo hi s = Inl ErrorCond)
  \<and> (wf_midtable s \<longrightarrow> lo AND 0x000C0000 = 0 \<longrightarrow> (\<forall>e \<in> set (g_midtable s).
       drop_bit 24 hi = cpu_lapic_id e \<longrightarrow>
       (\<exists>s'. processSIPI lo hi s = Inr (s', have_all_cores_recievedSIPI s')
         \<and> (if sipireceived (vcpus s (vcpu_vaddr_ptr e)) \<noteq> 0 then s' = s
            else s' = upd_vcpu (vcpu_vaddr_ptr e)
                   (\<lambda>v. v\<lparr>sipivector := ucast (ucast lo :: u8), sipireceived := 1\<rparr>) s
               \<and> (\<forall>lo'. lo' AND 0x000C0000 = 0 \<longrightarrow>
                    processSIPI lo' hi s' = Inr (s', have_all_cores_recievedSIPI s'))))))"
proof (intro conjI impI ballI)
  assume "drop_bit 24 hi \<notin> cpu_lapic_id ` set (g_midtable s)"
  then have "find (\<lambda>e. cpu_lapic_id e = drop_bit 24 hi) (g_midtable s) = None"
    unfolding find_None_iff by (metis imageI)
  then show "processSIPI lo hi s = Inl ErrorCond"
    by (simp add: processSIPI_def Let_def HALT_ON_ERRORCOND_def)
next
  fix e
  assume wf: "wf_midtable s" and lo: "lo AND 0x000C0000 = 0" and e: "e \<in> set (g_midtable s)"
    and hi: "drop_bit 24 hi = cpu_lapic_id e"
  define s' where "s' = sipi_deliver (vcpu_vaddr_ptr e) lo s"
  have p: "processSIPI lo hi s = Inr (s', have_all_cores_recievedSIPI s')"
    using processSIPI_wf[OF wf e hi lo] by (simp add: s'_def Let_def)
  have wf': "wf_midtable s'" "e \<in> set (g_midtable s')" using wf e by (simp_all add: s'_def wf_midtable_def)
  have again: "processSIPI lo' hi s' = Inr (s', have_all_cores_recievedSIPI s')"
    if "lo' AND 0x000C0000 = 0" for lo'
  proof -
    have "sipi_deliver (vcpu_vaddr_ptr e) lo' s' = s'"
      unfolding sipi_deliver_def[of _ lo' s'] using sipi_deliver_simps(4) by (simp add: s'_def)
    then show ?thesis using processSIPI_wf[OF wf' hi that] by (simp add: Let_def)
  qed
  show "\<exists>s'. processSIPI lo hi s = Inr (s', have_all_cores_recievedSIPI s')
         \<and> (if sipireceived (vcpus s (vcpu_vaddr_ptr e)) \<noteq> 0 then s' = s
            else s' = upd_vcpu (vcpu_vaddr_ptr e)
                   (\<lambda>v. v\<lparr>sipivector := ucast (ucast lo :: u8), sipireceived := 1\<rparr>) s
               \<and> (\<forall>lo'. lo' AND 0x000C0000 = 0 \<longrightarrow>
                    processSIPI lo' hi s' = Inr (s', have_all_cores_recievedSIPI s')))"
    using p again by (intro exI[of _ s']) (auto simp: s'_def sipi_deliver_def)
qed (simp add: processSIPI_def)

text \<open>The guest boots its processors by a sequence of STARTUP IPIs.\<close>

fun process_SIPIs :: "(u32 \<times> u32) list \<Rightarrow> xmhf_state \<Rightarrow> xmhf_error + xmhf_state \<times> bool" where
  "process_SIPIs [] s = Inr (s, have_all_cores_recievedSIPI s)"
| "process_SIPIs ((lo, hi) # ipis) s = bindE (processSIPI lo hi s) (\<lambda>(s', _). process_SIPIs ipis s')"

definition valid_sipis :: "(u32 \<times> u32) list \<Rightarrow> xmhf_state \<Rightarrow> bool" where
  "valid_sipis ipis s \<longleftrightarrow> (\<forall>(lo, hi) \<in> set ipis. lo AND 0x000C0000 = 0
     \<and> drop_bit 24 hi \<in> cpu_lapic_id ` set (g_midtable s))"

lemma process_SIPIs_run:
  assumes "wf_midtable s" and "valid_sipis ipis s"
  shows "\<exists>s'. process_SIPIs ipis s = Inr (s', have_all_cores_recievedSIPI s')
    \<and> g_midtable s' = g_midtable s \<and> (\<forall>p. isbsp (vcpus s' p) = isbsp (vcpus s p))
    \<and> (\<forall>p. sipireceived (vcpus s p) \<noteq> 0 \<longrightarrow> sipireceived (vcpus s' p) \<noteq> 0)
    \<and> (\<forall>e \<in> set (g_midtable s). cpu_lapic_id e \<in> (\<lambda>(lo, hi). drop_bit 24 hi) ` set ipis
        \<longrightarrow> sipireceived (vcpus s' (vcpu_vaddr_ptr e)) \<noteq> 0)"
  using assms
proof (induction ipis arbitrary: s)
  case Nil
  then show ?case by auto
next
  case (Cons i ipis)
  obtain lo hi where i: "i = (lo, hi)" by (cases i)
  from Cons.prems i obtain e where e: "e \<in> set (g_midtable s)" "drop_bit 24 hi = cpu_lapic_id e"
    and lo: "lo AND 0x000C0000 = 0"
    by (auto simp: valid_sipis_def)
  define s1 where "s1 = sipi_deliver (vcpu_vaddr_ptr e) lo s"
  have p: "processSIPI lo hi s = Inr (s1, have_all_cores_recievedSIPI s1)"
    using processSIPI_wf[OF Cons.prems(1) e lo] by (simp add: s1_def Let_def)
  have k: "g_midtable s1 = g_midtable s" "isbsp (vcpus s1 q) = isbsp (vcpus s q)"
    "sipireceived (vcpus s q) \<noteq> 0 \<Longrightarrow> sipireceived (vcpus s1 q) \<noteq> 0" for q
    by (simp_all add: s1_def)
  have "wf_midtable s1" "valid_sipis ipis s1"
    using Cons.prems by (simp_all add: s1_def wf_midtable_def valid_sipis_def)
  from Cons.IH[OF this] obtain s' where s': "process_SIPIs ipis s1 = Inr (s', have_all_cores_recievedSIPI s')"
    "g_midtable s' = g_midtable s" "\<forall>p. isbsp (vcpus s' p) = isbsp (vcpus s p)"
    "\<forall>p. sipireceived (vcpus s1 p) \<noteq> 0 \<longrightarrow> sipireceived (vcpus s' p) \<noteq> 0"
    "\<forall>e \<in> set (g_midtable s). cpu_lapic_id e \<in> (\<lambda>(lo, hi). drop_bit 24 hi) ` set ipis
        \<longrightarrow> sipireceived (vcpus s' (vcpu_vaddr_ptr e)) \<noteq> 0"
    unfolding k by blast
  have "sipireceived (vcpus s' (vcpu_vaddr_ptr e')) \<noteq> 0"
    if "e' \<in> set (g_midtable s)" "cpu_lapic_id e' = drop_bit 24 hi" for e'
  proof -
    have "e' = e"
      using that e Cons.prems(1) by (auto simp: wf_midtable_def distinct_map dest: inj_onD)
    then show ?thesis using s'(4) by (simp add: s1_def)
  qed
  then show ?case using p s' k(3) by (intro exI[of _ s']) (auto simp: i)
qed

text \<open>
  C26: SMP boot completes. On a well-formed core table, any sequence of directed STARTUP IPIs to
  cores of the table is processed without stopping, and once every application processor has
  been addressed the hypervisor reports that all have started, which ends the interception.
\<close>

theorem smp_boot_completes:
  assumes "wf_midtable s" and "valid_sipis ipis s"
    and "\<forall>e \<in> set (g_midtable s). isbsp (vcpus s (vcpu_vaddr_ptr e)) \<noteq> 0
      \<or> cpu_lapic_id e \<in> (\<lambda>(lo, hi). drop_bit 24 hi) ` set ipis"
  shows "\<exists>s'. process_SIPIs ipis s = Inr (s', True)"
proof -
  obtain s' where s': "process_SIPIs ipis s = Inr (s', have_all_cores_recievedSIPI s')"
    "g_midtable s' = g_midtable s" "\<forall>p. isbsp (vcpus s' p) = isbsp (vcpus s p)"
    "\<forall>e \<in> set (g_midtable s). cpu_lapic_id e \<in> (\<lambda>(lo, hi). drop_bit 24 hi) ` set ipis
        \<longrightarrow> sipireceived (vcpus s' (vcpu_vaddr_ptr e)) \<noteq> 0"
    using process_SIPIs_run[OF assms(1,2)] by blast
  have "have_all_cores_recievedSIPI s'"
    unfolding have_all_cores_recievedSIPI_def list_all_iff Let_def
    using s'(2-4) assms(3) by auto
  with s'(1) show ?thesis by auto
qed

lemma u8_high_bit: "8 \<le> n \<Longrightarrow> \<not> bit (x :: u8) n"
  by (auto dest: bit_imp_le_length)

text \<open>
  C36: The state a started core wakes up in is the real-mode state the STARTUP IPI prescribes: for
  the vector the filter stored (a byte), the code segment starts at 4K times the vector, its
  selector is a sixteenth of that and fits 16 bits, and execution starts at offset 0.
\<close>

theorem postCPUwakeup_real_mode:
  assumes "sipivector (vcpus s vp) = ucast (vec :: u8)"
  defines "c \<equiv> vmcs_of vp (xmhf_smpguest_arch_x86vmx_postCPUwakeup vp s)"
  shows "guest_RIP c = 0 \<and> guest_CS_base c = 4096 * ucast vec
    \<and> guest_CS_base c = 16 * ucast (guest_CS_selector c) \<and> guest_CS_selector c < 0x10000"
proof -
  define x :: u32 where "x = ucast vec * PAGE_SIZE_4K"
  have x: "x = push_bit 12 (ucast vec)" by (simp add: x_def xconst push_bit_eq_mult)
  have lo: "(ucast x :: u64) = push_bit 12 (ucast vec)"
    unfolding x by (rule u64_bitsI) (simp add: bit_simps u8_high_bit)
  have sel: "drop_bit 4 x = push_bit 8 (ucast vec)"
    unfolding x by (rule u32_bitsI) (simp add: bit_simps u8_high_bit)
  have base: "guest_CS_base c = ucast x" "guest_CS_selector c = drop_bit 4 x"
    using assms(1) by (simp_all add: c_def xmhf_smpguest_arch_x86vmx_postCPUwakeup_def Let_def x_def)
  have r1: "guest_RIP c = 0" by (simp add: c_def xmhf_smpguest_arch_x86vmx_postCPUwakeup_def Let_def)
  have r2: "guest_CS_base c = 4096 * ucast vec"
    unfolding base lo by (simp add: push_bit_eq_mult mult.commute)
  have "(push_bit 12 (ucast vec) :: u64) = push_bit 4 (ucast (push_bit 8 (ucast vec) :: u32))"
    by (rule u64_bitsI) (simp add: bit_simps u8_high_bit)
  then have r3: "guest_CS_base c = 16 * ucast (guest_CS_selector c)"
    unfolding base lo sel by (simp add: push_bit_eq_mult[of 4] mult.commute)
  have "take_bit 16 (push_bit 8 (ucast vec) :: u32) = push_bit 8 (ucast vec)"
    by (rule u32_bitsI) (simp add: bit_simps u8_high_bit)
  then have "guest_CS_selector c < 0x10000"
    unfolding base sel using unat_take_bit_less[of 16 "push_bit 8 (ucast vec) :: u32"]
    by (simp add: word_less_nat_alt)
  with r1 r2 r3 show ?thesis by blast
qed

theorem postCPUwakeup_real_mode_witness:
  "guest_CS_base (vmcs_of 0 (xmhf_smpguest_arch_x86vmx_postCPUwakeup 0
      (sample_state\<lparr>vcpus := (\<lambda>p. zero_VCPU\<lparr>sipivector := 0x9A\<rparr>)\<rparr>))) = 0x9A000"
  using postCPUwakeup_real_mode[of "sample_state\<lparr>vcpus := (\<lambda>p. zero_VCPU\<lparr>sipivector := 0x9A\<rparr>)\<rparr>"
      0 "0x9A"] by simp

section \<open>Properties of the descriptors\<close>

text \<open>The fields of a segment descriptor as the processor decodes them (Intel SDM, 3.4.5).\<close>

definition seg_base :: "memory \<Rightarrow> u32 \<Rightarrow> u32" where
  "seg_base m e = ucast (m (e + 2)) OR push_bit 8 (ucast (m (e + 3)))
    OR push_bit 16 (ucast (m (e + 4))) OR push_bit 24 (ucast (m (e + 7)))"

definition seg_limit :: "memory \<Rightarrow> u32 \<Rightarrow> u32" where
  "seg_limit m e = ucast (m e) OR push_bit 8 (ucast (m (e + 1))) OR push_bit 16 (ucast (m (e + 6) AND 0x0F))"

lemma st16_bytes: "st16 m a v = m(a := ucast v, a + 1 := ucast (drop_bit 8 v))"
  by (simp add: st16_def numeral_2_eq_2)

text \<open>
  C38: A descriptor written by \<^verbatim>\<open>gdt_set_gate\<close> is decoded by the processor to the base address,
  the low 20 bits of the limit, the access byte and the flag nibble it was given, and no byte
  outside the eight of the descriptor changes.
\<close>

theorem gdt_set_gate_decodes:
  fixes gdt_base num base limit :: u32 and access gran :: u8
  defines "e \<equiv> gdt_base + 8 * num"
    and "m' \<equiv> gdt_set_gate gdt_base num base limit access gran"
  shows "seg_base (m' m) e = base \<and> seg_limit (m' m) e = limit AND 0xFFFFF
    \<and> m' m (e + 5) = access \<and> m' m (e + 6) AND 0xF0 = gran AND 0xF0
    \<and> {a. m' m a \<noteq> m a} \<subseteq> span e 8"
proof -
  let ?m = "gdt_set_gate gdt_base num base limit access gran m"
  have bytes: "?m e = ucast limit" "?m (e + 1) = ucast (drop_bit 8 limit)" "?m (e + 2) = ucast base"
    "?m (e + 3) = ucast (drop_bit 8 base)" "?m (e + 4) = ucast (drop_bit 16 base)" "?m (e + 5) = access"
    "?m (e + 6) = (ucast (drop_bit 16 limit) AND 0x0F) OR (gran AND 0xF0)"
    "?m (e + 7) = ucast (drop_bit 24 base)"
    unfolding gdt_set_gate_def Let_def e_def[symmetric] st16_bytes
    by (simp_all add: add.assoc, (rule u8_bitsI, simp add: bit_simps)+)
  have r1: "seg_base ?m e = base"
    unfolding seg_base_def bytes by (rule u32_bitsI) (simp add: bit_simps)
  have r2: "seg_limit ?m e = limit AND 0xFFFFF"
    unfolding seg_limit_def bytes by (rule u32_bitsI) (simp add: bit_simps u8_high_bit)
  have r3: "?m (e + 6) AND 0xF0 = gran AND 0xF0"
    unfolding bytes by (rule u8_bitsI) (simp add: bit_simps)
  have "?m a = m a" if "a \<notin> span e 8" for a
  proof -
    from that have "\<not> unat (a - e) < 8" by (simp add: span_iff)
    then have "a \<noteq> e" "a \<noteq> e + 1" "a \<noteq> e + 2" "a \<noteq> e + 3" "a \<noteq> e + 4" "a \<noteq> e + 5" "a \<noteq> e + 6" "a \<noteq> e + 7"
      by auto
    then show ?thesis
      unfolding gdt_set_gate_def Let_def e_def[symmetric] st16_bytes by (simp add: add.assoc)
  qed
  then show ?thesis using r1 r2 r3 bytes(6) unfolding m'_def by blast
qed

section \<open>Properties of the page table walk\<close>

text \<open>
  The walk the processor does (Intel SDM, 4.3 and 4.4), with present bits, as the reference: in
  PAE mode the entries are 64 bits wide, and the reference is defined where all addresses on the
  way are below 4G, the range of the hypervisor's pointers. In 32-bit mode bit 7 of a directory entry
  makes it a 4M page only when CR4.PSE is set, and such a page takes the bits 39:32 of its address
  from the bits 20:13 of the entry (PSE-36). Without CR0.PG an address is its own translation.
\<close>

definition below_4G :: "u64 \<Rightarrow> bool" where
  "below_4G e \<longleftrightarrow> take_bit 20 (drop_bit 32 e) = 0"

definition guest_walk_pae :: "memory \<Rightarrow> u32 \<Rightarrow> u32 \<Rightarrow> u64 option" where
  "guest_walk_pae m cr3 va =
    (let pdpte = ld64 m (elem64 (cr3 AND NOT 0x1F) (unat (take_bit 2 (drop_bit 30 va))));
         pde = ld64 m (elem64 (ucast (walk_addr pdpte)) (unat (take_bit 9 (drop_bit 21 va))));
         pte = ld64 m (elem64 (ucast (walk_addr pde)) (unat (take_bit 9 (drop_bit 12 va))))
     in if \<not> bit pdpte 0 \<or> \<not> below_4G pdpte \<or> \<not> bit pde 0 \<or> \<not> below_4G pde then None
        else if bit pde 7 then Some ((pde AND 0x000FFFFFFFE00000) + ucast (take_bit 21 va))
        else if \<not> bit pte 0 \<or> \<not> below_4G pte then None
        else Some (walk_addr pte + ucast (take_bit 12 va)))"

definition guest_walk_npae :: "bool \<Rightarrow> memory \<Rightarrow> u32 \<Rightarrow> u32 \<Rightarrow> u64 option" where
  "guest_walk_npae pse m cr3 va =
    (let pde = ld32 m ((cr3 AND 0xFFFFF000) + 4 * take_bit 10 (drop_bit 22 va));
         pte = ld32 m ((pde AND 0xFFFFF000) + 4 * take_bit 10 (drop_bit 12 va))
     in if \<not> bit pde 0 then None
        else if pse \<and> bit pde 7 then
          Some (push_bit 32 (take_bit 8 (drop_bit 13 (ucast pde))) OR (ucast (pde AND 0xFFC00000) + ucast (take_bit 22 va)))
        else if \<not> bit pte 0 then None
        else Some (ucast (pte AND 0xFFFFF000) + ucast (take_bit 12 va)))"

definition guest_walk :: "u64 \<Rightarrow> u64 \<Rightarrow> u64 \<Rightarrow> memory \<Rightarrow> u32 \<Rightarrow> u64 option" where
  "guest_walk cr0 cr3 cr4 m va =
    (if \<not> bit cr0 31 then Some (ucast va)
     else if bit cr4 5 then guest_walk_pae m (ucast cr3) va
     else guest_walk_npae (bit cr4 4) m (ucast cr3) va)"

lemma below_4G_bits:
  assumes "below_4G e" and "32 \<le> n" "n < 52"
  shows "\<not> bit e n"
proof -
  have "\<not> bit (take_bit 20 (drop_bit 32 e)) (n - 32)" using assms(1) by (simp add: below_4G_def)
  then show ?thesis using assms(2,3) by (simp add: bit_simps)
qed

lemma truncated_entry:
  "ucast (pae_get_addr_from_pdpe (ucast (ucast e :: u32))) = (ucast (walk_addr e) :: u32)"
  "ucast (pae_get_addr_from_pde (ucast (ucast e :: u32))) = (ucast (walk_addr e) :: u32)"
  by (rule u32_bitsI, simp add: pae_get_addr_from_pdpe_def pae_get_addr_from_pde_def walk_addr_def
      bit_simps xconst)+

lemma truncated_leaf:
  assumes "below_4G e"
  shows "pae_get_addr_from_pte (ucast (ucast e :: u32)) = walk_addr e"
    "pae_get_addr_from_pde_big (ucast (ucast e :: u32)) = e AND 0x000FFFFFFFE00000"
  by (rule u64_bitsI, simp add: pae_get_addr_from_pte_def pae_get_addr_from_pde_big_def walk_addr_def
      bit_simps xconst below_4G_bits[OF assms] u32_high_bit)+

lemma pse_bit: "d AND PAGE_PSE = 0 \<longleftrightarrow> \<not> bit (d :: u32) 7"
  using and_exp_eq_0_iff_not_bit[of d 7] by (simp add: xconst)

lemma ucast_high_or: "(ucast (push_bit 32 x OR y :: u64) :: u32) = ucast y"
  by (rule u32_bitsI) (simp add: bit_simps)

lemma ucast_bit7: "bit (ucast (e :: u64) :: u32) 7 = bit e 7"
  by (simp add: bit_simps)

text \<open>
  The software walk agrees with the processor when paging is on, with PAE or with PSE: whenever the
  processor maps the address, with 4K and large pages, the function returns the low 32 bits of that
  physical address.
\<close>

lemma walk_pagetables_refines:
  assumes "guest_walk cr0 (guest_CR3 (vmcs v)) (guest_CR4 (vmcs v)) m va = Some pa" and "bit cr0 31"
    and "bit (guest_CR4 (vmcs v)) 5 \<or> bit (guest_CR4 (vmcs v)) 4"
  shows "xmhf_smpguest_arch_x86vmx_walk_pagetables v m va = ucast pa"
proof -
  have pae: "(ucast (guest_CR4 (vmcs v)) :: u32) AND CR4_PAE \<noteq> 0 \<longleftrightarrow> bit (guest_CR4 (vmcs v)) 5"
    using and_nonzero_iff_bit[of "ucast (guest_CR4 (vmcs v)) :: u32" 5] by (simp add: xconst bit_simps)
  have c3: "pae_get_addr_from_32bit_cr3 c = c AND NOT 0x1F"
    "npae_get_addr_from_32bit_cr3 c = c AND 0xFFFFF000" "npae_get_addr_from_pde c = c AND 0xFFFFF000"
    "npae_get_addr_from_pte c = c AND 0xFFFFF000" "npae_get_addr_from_pde_big c = c AND 0xFFC00000" for c
    by (rule u32_bitsI, simp add: xops xconst bit_simps)+
  have "xmhf_smpguest_arch_x86vmx_walk_pagetables v m va = ucast pa"
    if p: "bit (guest_CR4 (vmcs v)) 5" and w: "guest_walk_pae m (ucast (guest_CR3 (vmcs v))) va = Some pa"
    using w unfolding xmhf_smpguest_arch_x86vmx_walk_pagetables_def guest_walk_pae_def Let_def
      pae pse_bit truncated_entry c3 pae_index_take
    by (auto simp: p truncated_leaf ucast_bit7 split: if_splits)
  moreover have "xmhf_smpguest_arch_x86vmx_walk_pagetables v m va = ucast pa"
    if p: "\<not> bit (guest_CR4 (vmcs v)) 5" and w: "guest_walk_npae True m (ucast (guest_CR3 (vmcs v))) va = Some pa"
    using w unfolding xmhf_smpguest_arch_x86vmx_walk_pagetables_def guest_walk_npae_def Let_def
      pae pse_bit c3 npae_index_take
    by (auto simp: p ucast_high_or split: if_splits)
  ultimately show ?thesis using assms by (auto simp: guest_walk_def split: if_splits)
qed

lemma ld32_zero: "ld32 (\<lambda>a. 0) a = 0"
  unfolding ld32_def by (rule bit_word_eqI) (simp add: bit_ldw)

text \<open>
  For an address the guest does not map, the function does not return the 0xFFFFFFFF its
  comment promises: no present bit is ever tested, and with empty tables the page offset of the
  address comes back as if it were a physical address.
\<close>

theorem walk_pagetables_unmapped:
  "guest_walk_npae pse (\<lambda>a. 0) 0 va = None
   \<and> xmhf_smpguest_arch_x86vmx_walk_pagetables (zero_VCPU\<lparr>vmcs := zero_vmcs\<rparr>) (\<lambda>a. 0) va = va AND 0xFFF"
  by (simp add: guest_walk_npae_def xmhf_smpguest_arch_x86vmx_walk_pagetables_def ld32_zero Let_def
      zero_vmcs_def)
    (simp add: xops xconst)

section \<open>Properties of NMI delivery\<close>

text \<open>
  Outside quiescing, an NMI that interrupted the guest is injected into it unless bit 1 of the
  exception bitmap is set. The test means to ask whether the NMI, exception 2, is intercepted, but
  uses the vector number as a mask: bit 1 is the debug exception. So while a LAPIC access of the
  guest is emulated, when the handler above has set that bit, a guest NMI is lost.
\<close>

theorem guest_nmi_lost_during_lapic_emulation:
  assumes "nmiinhvm reason info"
  shows "control_VM_entry_interruption_information (vmcs_of vp (nmi_outside_quiesce vp reason info s))
      = (if bit (control_exception_bitmap (vmcs_of vp s)) 1
         then control_VM_entry_interruption_information (vmcs_of vp s) else 0x80000202)
    \<and> (let s1 = xmhf_smpguest_arch_x86vmx_eventhandler_hwpgtblviolation vp paddr errorcode s
       in nmi_outside_quiesce vp reason info s1 = s1)"
proof -
  have b: "control_exception_bitmap c AND CPU_EXCEPTION_NMI \<noteq> 0 \<longleftrightarrow> bit (control_exception_bitmap c) 1"
    for c :: vmcsfields
    using and_nonzero_iff_bit[of "control_exception_bitmap c" 1] by (simp add: xconst)
  have "bit (control_exception_bitmap (vmcs_of vp
      (xmhf_smpguest_arch_x86vmx_eventhandler_hwpgtblviolation vp paddr errorcode s))) 1"
    by (simp add: hwpgtblviolation_effect bit_simps)
  with assms b show ?thesis by (simp add: nmi_outside_quiesce_def Let_def xconst)
qed

theorem guest_nmi_lost_during_lapic_emulation_witness:
  "nmiinhvm 0 0x80000202 \<and> (let s1 = xmhf_smpguest_arch_x86vmx_eventhandler_hwpgtblviolation 0 0x300 2 sample_state
     in nmi_outside_quiesce 0 0 0x80000202 s1 = s1)"
  using guest_nmi_lost_during_lapic_emulation[of 0 "0x80000202" 0 sample_state "0x300" 2]
  by (simp add: nmiinhvm_def xconst)

section \<open>Witnesses\<close>

text \<open>
  Two cores, the boot processor (APIC id 0) and an application processor (id 0xc), in a state whose
  page tables are built and whose guest has written to the interrupt command register.
\<close>

definition two_cores :: "u32 \<Rightarrow> VCPU" where
  "two_cores p = (if p = 4 then zero_VCPU\<lparr>isbsp := 1\<rparr> else zero_VCPU\<lparr>vcpu_id := 0xc\<rparr>)"

definition two_core_state :: xmhf_state where
  "two_core_state = sample_state\<lparr>vcpus := two_cores,
    g_midtable := [\<lparr>cpu_lapic_id = 0, vcpu_vaddr_ptr = 4\<rparr>, \<lparr>cpu_lapic_id = 0xc, vcpu_vaddr_ptr = 8\<rparr>]\<rparr>"

lemma two_core_wf: "wf_midtable two_core_state"
  by (simp add: wf_midtable_def two_core_state_def two_cores_def zero_VCPU_def)

theorem smp_boot_completes_witness:
  "\<exists>s'. process_SIPIs [(0x69A, 0x0C000000)] two_core_state = Inr (s', True)"
  by (rule smp_boot_completes[OF two_core_wf])
    (simp_all add: valid_sipis_def two_core_state_def two_cores_def zero_VCPU_def)

theorem processSIPI_first_wins_witness:
  "\<exists>s'. processSIPI 0x69A 0x0C000000 two_core_state = Inr (s', True)
    \<and> sipivector (vcpus s' 8) = 0x9A \<and> processSIPI 0x611 0x0C000000 s' = Inr (s', True)"
proof -
  let ?e = "\<lparr>cpu_lapic_id = 0xc, vcpu_vaddr_ptr = 8\<rparr> :: MIDTAB"
  have e: "?e \<in> set (g_midtable two_core_state)" "drop_bit 24 0x0C000000 = cpu_lapic_id ?e"
    "sipireceived (vcpus two_core_state (vcpu_vaddr_ptr ?e)) = 0"
    by (simp_all add: two_core_state_def two_cores_def zero_VCPU_def)
  obtain s' where p: "processSIPI 0x69A 0x0C000000 two_core_state = Inr (s', have_all_cores_recievedSIPI s')"
    and s': "s' = upd_vcpu 8 (\<lambda>v. v\<lparr>sipivector := ucast (ucast (0x69A :: u32) :: u8), sipireceived := 1\<rparr>)
      two_core_state"
    and again: "processSIPI 0x611 0x0C000000 s' = Inr (s', have_all_cores_recievedSIPI s')"
    using processSIPI_first_wins[of "0x69A" "0x0C000000" two_core_state] two_core_wf e by auto
  have "have_all_cores_recievedSIPI s'"
    by (simp add: s' have_all_cores_recievedSIPI_def two_core_state_def two_cores_def zero_VCPU_def)
  moreover have "sipivector (vcpus s' 8) = 0x9A" by (simp add: s')
  ultimately show ?thesis using p again by auto
qed


theorem lapic_write_filter_witness:
  "\<exists>s'. xmhf_smpguest_arch_x86vmx_eventhandler_dbexception 0
      (sample_state\<lparr>g_vmx_lapic_op := LAPIC_OP_WRITE, g_vmx_lapic_reg := 0x300\<rparr>) = Inr s'
    \<and> MmioWrite32 0x300 0 \<in> set (hwlog s')"
proof -
  let ?s = "sample_state\<lparr>g_vmx_lapic_op := LAPIC_OP_WRITE, g_vmx_lapic_reg := 0x300\<rparr>"
  have m: "mem ?s = (\<lambda>a. 0)" by (simp add: sample_state_def)
  obtain s' where s': "xmhf_smpguest_arch_x86vmx_eventhandler_dbexception 0 ?s = Inr s'"
    by (simp add: xmhf_smpguest_arch_x86vmx_eventhandler_dbexception_def lapic_emulate_write_def
        Let_def is_icr_def xconst m[simplified] ld32_zero)
  have "MmioWrite32 0x300 0 \<in> set (hwlog s')"
    using lapic_write_filter[OF _ s']
    by (simp add: m[simplified] ld32_zero) (simp add: sample_state_def)
  with s' show ?thesis by blast
qed

lemma sample_lapic_ready:
  "\<exists>s. lapic_ready 0 s \<and> g_vmx_lapic_base s = 0xFEE00000 \<and> g_vmx_virtual_LAPIC_base s = 0x10003000
    \<and> rpb s = sample_rpb \<and> g_midtable s = [\<lparr>cpu_lapic_id = 0, vcpu_vaddr_ptr = 0\<rparr>]
    \<and> g_vmx_lapic_op s = LAPIC_OP_RSVD \<and> isbsp (vcpus s 0) = 0 \<and> sipireceived (vcpus s 0) = 0"
proof -
  obtain s :: xmhf_state and mts where s: "rpb s = sample_rpb" "ept_layout (rpb s) (vcpus s 0)"
    "ept_upper (rpb s) (vcpus s 0) (mem s)" "vcpus s = (\<lambda>vp. sample_vcpu\<lparr>vmx_ept_memorytypes := mts\<rparr>)"
    using sample_built ept_built_upper by blast
  let ?s = "s\<lparr>g_vmx_lapic_base := 0xFEE00000, g_vmx_virtual_LAPIC_base := 0x10003000,
    g_midtable := [\<lparr>cpu_lapic_id = 0, vcpu_vaddr_ptr = 0\<rparr>], g_vmx_lapic_op := LAPIC_OP_RSVD\<rparr>"
  have "lapic_ready 0 ?s"
    using s(1-3) by (simp add: lapic_ready_def hva2spa1_def sample_rpb_def)
  then show ?thesis
    using s(1,4) by (intro exI[of _ ?s]) (simp add: sample_vcpu_def zero_VCPU_def)
qed

theorem lapic_fault_redirects_witness:
  "\<exists>s. lapic_ready 0 s \<and> lapic_walk 0
      (xmhf_smpguest_arch_x86vmx_eventhandler_hwpgtblviolation 0 0xFEE00300 2 s) 0xFEE00310
    = Some (0x10003310, 3, 0)"
proof -
  obtain s where s: "lapic_ready 0 s" "g_vmx_lapic_base s = 0xFEE00000"
    "g_vmx_virtual_LAPIC_base s = 0x10003000" "rpb s = sample_rpb"
    using sample_lapic_ready by blast
  have "page_of 0xFEE00310 = page_of (g_vmx_lapic_base s)" by (simp add: s page_of_def)
  moreover have "lapic_target s 0xFEE00300 = 0x10003000"
    by (simp add: lapic_target_def s is_icr_def hva2spa1_def sample_rpb_def xconst)
  ultimately show ?thesis
    using lapic_fault_redirects[OF s(1), of "0xFEE00300" 2 "0xFEE00310"] s(1)
    by (intro exI[of _ s]) simp
qed

theorem lapic_interception_kept_witness:
  "\<exists>s s'. lapic_ready 0 s \<and> xmhf_smpguest_arch_x86vmx_eventhandler_dbexception 0 s = Inr s'
    \<and> lapic_walk 0 s' 0xFEE00300 = None"
proof -
  obtain s where s: "lapic_ready 0 s" "g_vmx_lapic_base s = 0xFEE00000"
    "g_midtable s = [\<lparr>cpu_lapic_id = 0, vcpu_vaddr_ptr = 0\<rparr>]"
    "g_vmx_lapic_op s = LAPIC_OP_RSVD" "isbsp (vcpus s 0) = 0" "sipireceived (vcpus s 0) = 0"
    using sample_lapic_ready by blast
  then obtain s' where s': "xmhf_smpguest_arch_x86vmx_eventhandler_dbexception 0 s = Inr s'"
    by (simp add: xmhf_smpguest_arch_x86vmx_eventhandler_dbexception_def Let_def xconst)
  have "\<not> have_all_cores_recievedSIPI s'"
    using s' s(3-6)
    by (auto simp: xmhf_smpguest_arch_x86vmx_eventhandler_dbexception_def Let_def xconst
        have_all_cores_recievedSIPI_def)
  moreover have "page_of 0xFEE00300 = page_of (g_vmx_lapic_base s)" by (simp add: s(2) page_of_def)
  ultimately have "lapic_walk 0 s' 0xFEE00300 = None"
    using lapic_interception_kept[OF s(1) _ s', of "0xFEE00300"] by simp
  with s(1) s' show ?thesis by blast
qed

end
