(* ===== verification/XMHF_EventHub.thy ===== *)
theory XMHF_EventHub
  imports XMHF_SmpGuest
begin

text \<open>
  The partition event hub on Intel (\<^verbatim>\<open>xmhf-eventhub/arch/x86/vmx/peh-x86vmx-main.c\<close>): what the
  hypervisor does for each reason the guest exits to it. The handler works on the saved general
  registers and the shared state; the VMCS fields of the core are the ones just read from the
  processor, and writing them back at the end is not modelled apart.

  The hypervisor application is the locale parameter of this component: its four callbacks are
  the record \<open>hypapp\<close>, and \<open>hypapp_contract\<close> states what the core relies on, that no callback
  turns nested paging off. The quiescing of the other cores around a callback is the sequential
  effect on the requesting core; how the cores meet is the subject of the quiescing theory.
\<close>

section \<open>Callbacks of the hypervisor application\<close>

type_synonym hub = "regs \<times> xmhf_state"

record hypapp =
  handleintercept_portaccess :: "u32 \<Rightarrow> u32 \<Rightarrow> u32 \<Rightarrow> u32 \<Rightarrow> hub \<Rightarrow> xmhf_error + u32 \<times> hub"
  handleintercept_hwpgtblviolation :: "u32 \<Rightarrow> u64 \<Rightarrow> u64 \<Rightarrow> u64 \<Rightarrow> hub \<Rightarrow> xmhf_error + u32 \<times> hub"
  handleshutdown :: "u32 \<Rightarrow> hub \<Rightarrow> xmhf_error + hub"
  handlehypercall :: "u32 \<Rightarrow> hub \<Rightarrow> xmhf_error + u32 \<times> hub"

section \<open>Quiescing, seen from the requesting core\<close>

text \<open>
  \<^verbatim>\<open>_vmx_send_quiesce_signal\<close> writes the command registers of the LAPIC and polls the delivery
  bit in the high register; the register is not changed by the poll, so a set bit is polled for
  ever.
\<close>

definition vmx_send_quiesce_signal :: "hardware \<Rightarrow> xmhf_state \<Rightarrow> xmhf_error + xmhf_state" where
  "vmx_send_quiesce_signal hw s =
    (let prev_icr_high_value = lapic_read hw 0xFEE00310;
         s = hw_do (MmioWrite32 0xFEE00310 0xFF000000) s;
         s = hw_do (MmioWrite32 0xFEE00300 0x000C0400) s
     in if lapic_read hw 0xFEE00310 AND 0x00001000 \<noteq> 0 then Inl Hang
        else Inr (hw_do (MmioWrite32 0xFEE00310 prev_icr_high_value) s))"

definition xmhf_smpguest_arch_x86vmx_quiesce ::
  "hardware \<Rightarrow> u32 \<Rightarrow> xmhf_state \<Rightarrow> xmhf_error + xmhf_state" where
  "xmhf_smpguest_arch_x86vmx_quiesce hw vp s =
    vmx_send_quiesce_signal hw ((upd_vcpu vp (\<lambda>v. v\<lparr>quiesced := 1\<rparr>) s)\<lparr>g_vmx_quiesce := 1\<rparr>)"

definition xmhf_smpguest_arch_x86vmx_endquiesce :: "u32 \<Rightarrow> xmhf_state \<Rightarrow> xmhf_state" where
  "xmhf_smpguest_arch_x86vmx_endquiesce vp s =
    (upd_vcpu vp (\<lambda>v. v\<lparr>quiesced := 0\<rparr>) s)\<lparr>g_vmx_quiesce := 0\<rparr>"

section \<open>Handlers\<close>

definition skip_instruction :: "u32 \<Rightarrow> xmhf_state \<Rightarrow> xmhf_state" where
  "skip_instruction vp = upd_vmcs vp (\<lambda>c. c\<lparr>guest_RIP :=
     guest_RIP c + ucast (info_vmexit_instruction_length c)\<rparr>)"

definition vmx_decode_reg :: "u32 \<Rightarrow> VCPU \<Rightarrow> regs \<Rightarrow> xmhf_error + u32" where
  "vmx_decode_reg gpr v r =
    (if gpr = 0 then Inr (eax r) else if gpr = 1 then Inr (ecx r)
     else if gpr = 2 then Inr (edx r) else if gpr = 3 then Inr (ebx r)
     else if gpr = 4 then Inr (ucast (guest_RSP (vmcs v)))
     else if gpr = 5 then Inr (ebp r) else if gpr = 6 then Inr (esi r)
     else if gpr = 7 then Inr (edi r) else Inl Halt)"

definition vmx_handle_intercept_cpuid :: "hardware \<Rightarrow> u32 \<Rightarrow> hub \<Rightarrow> hub" where
  "vmx_handle_intercept_cpuid hw vp = (\<lambda>(r, s).
    let (a, b, c, d) = cpuid hw (eax r) (ecx r)
    in (r\<lparr>eax := a, ebx := b, ecx := c, edx := d\<rparr>, skip_instruction vp s))"

text \<open>The guest runs in virtual-8086 mode.\<close>

definition v86_mode :: "vmcsfields \<Rightarrow> bool" where
  "v86_mode c \<longleftrightarrow> guest_CR0 c AND CR0_PE \<noteq> 0 \<and> guest_CR0 c AND CR0_PG \<noteq> 0
    \<and> guest_RFLAGS c AND EFLAGS_VM \<noteq> 0"

text \<open>
  The translation the handler applies to its two pointers: in virtual-8086 mode through the guest's
  page tables, with a halt when the result is not below the runtime.
\<close>

definition int15_translate :: "u32 \<Rightarrow> xmhf_state \<Rightarrow> u32 \<Rightarrow> xmhf_error + u32" where
  "int15_translate vp s a =
    (if v86_mode (vmcs_of vp s) then
       let p = xmhf_smpguest_arch_x86vmx_walk_pagetables (vcpus s vp) (mem s) a
       in if p < XtVmmRuntimePhysBase (rpb s) then Inr p else Inl Halt
     else Inr a)"

text \<open>\<^verbatim>\<open>GRUBE820\<close> is packed: five 32-bit fields, 20 bytes.\<close>

definition store_e820 :: "memory \<Rightarrow> u32 \<Rightarrow> GRUBE820 \<Rightarrow> memory" where
  "store_e820 m a e =
    (let m = st32 m a (baseaddr_low e);
         m = st32 m (a + 4) (baseaddr_high e);
         m = st32 m (a + 8) (length_low e);
         m = st32 m (a + 12) (length_high e)
     in st32 m (a + 16) (e820_type e))"

definition int15_e820_buffer :: "vmcsfields \<Rightarrow> regs \<Rightarrow> u32" where
  "int15_e820_buffer c r = ucast (guest_ES_base c + ucast (ucast (edi r) :: u16))"

definition vmx_int15_handleintercept :: "u32 \<Rightarrow> hub \<Rightarrow> xmhf_error + hub" where
  "vmx_int15_handleintercept vp = (\<lambda>(r, s).
    bindE (int15_translate vp s 0x4AC) (\<lambda>bdamemory.
    if (ucast (eax r) :: u16) = 0xE820 then
      if edx r = 0x534D4150 \<and> ebx r < XtVmmE820NumEntries (rpb s) then
        let buf = int15_e820_buffer (vmcs_of vp s) r in
        if buf < XtVmmRuntimePhysBase (rpb s) then
          if unat (ebx r) < length (g_e820map s) then
            let s = s\<lparr>mem := store_e820 (mem s) buf (g_e820map s ! unat (ebx r))\<rparr>;
                r = r\<lparr>ecx := 20, eax := edx r\<rparr>;
                stack = ucast (guest_SS_base (vmcs_of vp s))
                  + ucast (ucast (guest_RSP (vmcs_of vp s)) :: u16)
            in bindE (int15_translate vp s stack) (\<lambda>gueststackregion.
               let guest_flags = ld16 (mem s) (gueststackregion + 4);
                   ebx' = ebx r + 1;
                   (ebx', guest_flags) =
                     (if ebx' > XtVmmE820NumEntries (rpb s) - 1
                      then (0, guest_flags OR EFLAGS_CF)
                      else (ebx', guest_flags AND NOT EFLAGS_CF));
                   s = s\<lparr>mem := st16 (mem s) (gueststackregion + 4) guest_flags\<rparr>
               in Inr (r\<lparr>ebx := ebx'\<rparr>,
                    upd_vmcs vp (\<lambda>c. c\<lparr>guest_RIP := guest_RIP c + 3\<rparr>) s))
          else Inl OutOfBounds
        else Inl Halt
      else Inl Halt
    else
      let ip = ld16 (mem s) (bdamemory + 4);
          cs = ld16 (mem s) (bdamemory + 6)
      in Inr (r, upd_vmcs vp (\<lambda>c. c\<lparr>guest_RIP := ucast ip, guest_CS_base := ucast cs * 16,
                guest_CS_selector := ucast cs\<rparr>) s)))"

definition vmx_handle_intercept_wrmsr :: "u32 \<Rightarrow> hub \<Rightarrow> hub" where
  "vmx_handle_intercept_wrmsr vp = (\<lambda>(r, s).
    let s = (if ecx r = IA32_SYSENTER_CS_MSR then
               upd_vmcs vp (\<lambda>c. c\<lparr>guest_SYSENTER_CS := eax r\<rparr>) s
             else if ecx r = IA32_SYSENTER_EIP_MSR then
               upd_vmcs vp (\<lambda>c. c\<lparr>guest_SYSENTER_EIP := ucast (eax r)\<rparr>) s
             else if ecx r = IA32_SYSENTER_ESP_MSR then
               upd_vmcs vp (\<lambda>c. c\<lparr>guest_SYSENTER_ESP := ucast (eax r)\<rparr>) s
             else hw_do (WrMsr (ecx r) (eax r) (edx r)) s)
    in (r, skip_instruction vp s))"

definition vmx_handle_intercept_rdmsr :: "hardware \<Rightarrow> u32 \<Rightarrow> hub \<Rightarrow> hub" where
  "vmx_handle_intercept_rdmsr hw vp = (\<lambda>(r, s).
    let c = vmcs_of vp s;
        (a, d) = (if ecx r = IA32_SYSENTER_CS_MSR then (guest_SYSENTER_CS c, 0)
                  else if ecx r = IA32_SYSENTER_EIP_MSR then (ucast (guest_SYSENTER_EIP c), 0)
                  else if ecx r = IA32_SYSENTER_ESP_MSR then (ucast (guest_SYSENTER_ESP c), 0)
                  else rdmsr hw (ecx r))
    in (r\<lparr>eax := a, edx := d\<rparr>, skip_instruction vp s))"

definition vmx_handle_intercept_eptviolation ::
  "hypapp \<Rightarrow> hardware \<Rightarrow> u32 \<Rightarrow> hub \<Rightarrow> xmhf_error + hub" where
  "vmx_handle_intercept_eptviolation app hw vp = (\<lambda>(r, s).
    let errorcode = ucast (info_exit_qualification (vmcs_of vp s)) :: u32;
        gpa = guest_paddr_full (vmcs_of vp s);
        gva = ucast (info_guest_linear_address (vmcs_of vp s)) :: u32
    in if isbsp (vcpus s vp) \<noteq> 0 \<and> g_vmx_lapic_base s \<le> gpa \<and> gpa < g_vmx_lapic_base s + PAGE_SIZE_4K
       then Inr (r, xmhf_smpguest_arch_x86vmx_eventhandler_hwpgtblviolation vp gpa errorcode s)
       else bindE (xmhf_smpguest_arch_x86vmx_quiesce hw vp s) (\<lambda>s.
            bindE (handleintercept_hwpgtblviolation app vp (ucast gpa) (ucast gva)
                     (ucast (errorcode AND 7)) (r, s)) (\<lambda>(_, r, s).
            Inr (r, xmhf_smpguest_arch_x86vmx_endquiesce vp s))))"

text \<open>The port access the hypervisor makes on the guest's behalf.\<close>

definition chain_io :: "hardware \<Rightarrow> u32 \<Rightarrow> u32 \<Rightarrow> u32 \<Rightarrow> hub \<Rightarrow> hub" where
  "chain_io hw portnum access_type access_size = (\<lambda>(r, s).
    if access_type = IO_TYPE_OUT then
      (r, if access_size = IO_SIZE_BYTE then hw_do (OutB (ucast (eax r)) portnum) s
          else if access_size = IO_SIZE_WORD then hw_do (OutW (ucast (eax r)) portnum) s
          else if access_size = IO_SIZE_DWORD then hw_do (OutL (eax r) portnum) s
          else s)
    else
      (if access_size = IO_SIZE_BYTE
       then r\<lparr>eax := (eax r AND 0xFFFFFF00) OR ucast (inb hw portnum)\<rparr>
       else if access_size = IO_SIZE_WORD
       then r\<lparr>eax := (eax r AND 0xFFFF0000) OR ucast (inw hw portnum)\<rparr>
       else if access_size = IO_SIZE_DWORD then r\<lparr>eax := inl hw portnum\<rparr>
       else r, s))"

definition vmx_handle_intercept_ioportaccess ::
  "hypapp \<Rightarrow> hardware \<Rightarrow> u32 \<Rightarrow> hub \<Rightarrow> xmhf_error + hub" where
  "vmx_handle_intercept_ioportaccess app hw vp = (\<lambda>(r, s).
    let qual = ucast (info_exit_qualification (vmcs_of vp s)) :: u32;
        access_size = qual AND 0x00000007;
        access_type = drop_bit 3 (qual AND 0x00000008);
        portnum = drop_bit 16 (qual AND 0xFFFF0000);
        stringio = drop_bit 4 (qual AND 0x00000010)
    in bindE (HALT_ON_ERRORCOND (stringio = 0)) (\<lambda>_.
       bindE (xmhf_smpguest_arch_x86vmx_quiesce hw vp s) (\<lambda>s.
       bindE (handleintercept_portaccess app vp portnum access_type access_size (r, s))
         (\<lambda>(app_ret_status, r, s).
       let s = xmhf_smpguest_arch_x86vmx_endquiesce vp s;
           h = (if app_ret_status = APP_IOINTERCEPT_CHAIN
                then chain_io hw portnum access_type access_size (r, s) else (r, s))
       in Inr (fst h, skip_instruction vp (snd h))))))"

definition vmx_handle_intercept_cr0access_ug ::
  "u32 \<Rightarrow> u32 \<Rightarrow> u32 \<Rightarrow> hub \<Rightarrow> xmhf_error + hub" where
  "vmx_handle_intercept_cr0access_ug vp gpr tofrom = (\<lambda>(r, s).
    bindE (HALT_ON_ERRORCOND (tofrom = VMX_CRX_ACCESS_TO)) (\<lambda>_.
    bindE (vmx_decode_reg gpr (vcpus s vp) r) (\<lambda>cr0_value.
    Inr (r, xmhf_memprot_arch_x86vmx_flushmappings vp
      (upd_vmcs vp (\<lambda>c. c\<lparr>control_CR0_shadow := ucast cr0_value,
         guest_CR0 := ucast (cr0_value AND NOT (CR0_CD OR CR0_NW))\<rparr>) s)))))"

definition vmx_handle_intercept_cr4access_ug ::
  "u32 \<Rightarrow> u32 \<Rightarrow> u32 \<Rightarrow> hub \<Rightarrow> xmhf_error + hub" where
  "vmx_handle_intercept_cr4access_ug vp gpr tofrom = (\<lambda>(r, s).
    if tofrom = VMX_CRX_ACCESS_TO then
      bindE (vmx_decode_reg gpr (vcpus s vp) r) (\<lambda>cr4_proposed_value.
      Inr (r, hw_do (InvVPID VMX_INVVPID_SINGLECONTEXT 1 0) s))
    else Inr (r, s))"

definition vmx_handle_intercept_xsetbv :: "u32 \<Rightarrow> hub \<Rightarrow> xmhf_error + hub" where
  "vmx_handle_intercept_xsetbv vp = (\<lambda>(r, s).
    let xcr_value = push_bit 32 (ucast (edx r)) + ucast (eax r) in
    if ecx r \<noteq> XCR_XFEATURE_ENABLED_MASK then Inl Halt
    else Inr (r, skip_instruction vp (hw_do (XSetBV XCR_XFEATURE_ENABLED_MASK xcr_value) s)))"

text \<open>
  The NMI handler. The exit reason and interruption information it reads from the processor are
  those of this exit. A core that quiesces waits for the signal of its APIC id. The signal of core
  0 is never set, and the cores 0xc, 0xe and 0x1a go on, once released, to \<^verbatim>\<open>prepare_context\<close>,
  which leaves for user space and does not come back; none of them returns from the handler. A core
  with any other id has no signal to wait for and returns at once.
\<close>

definition waits_for_signal :: "u32 \<Rightarrow> bool" where
  "waits_for_signal i \<longleftrightarrow> i = 0 \<or> i = 0xc \<or> i = 0xe \<or> i = 0x1a"

definition xmhf_smpguest_arch_x86vmx_eventhandler_nmiexception ::
  "u32 \<Rightarrow> hub \<Rightarrow> xmhf_error + hub" where
  "xmhf_smpguest_arch_x86vmx_eventhandler_nmiexception vp = (\<lambda>(r, s).
    if g_vmx_quiesce s \<noteq> 0 then
      if quiesced (vcpus s vp) \<noteq> 0 then Inr (r, s)
      else let s = upd_vcpu vp (\<lambda>v. v\<lparr>quiesced := 1\<rparr>) s in
           if waits_for_signal (vcpu_id (vcpus s vp)) then Inl Hang
           else Inr (r, upd_vcpu vp (\<lambda>v. v\<lparr>quiesced := 0\<rparr>) s)
    else Inr (r, nmi_outside_quiesce vp (info_vmexit_reason (vmcs_of vp s))
                   (info_vmexit_interrupt_information (vmcs_of vp s)) s))"

definition handle_vmcall :: "hypapp \<Rightarrow> hardware \<Rightarrow> u32 \<Rightarrow> hub \<Rightarrow> xmhf_error + hub" where
  "handle_vmcall app hw vp = (\<lambda>(r, s).
    let c = vmcs_of vp s in
    if guest_CS_base c = push_bit 4 VMX_UG_E820HOOK_CS \<and> guest_RIP c = VMX_UG_E820HOOK_IP then
      bindE (HALT_ON_ERRORCOND (guest_CR0 c AND CR0_PE = 0 \<or> v86_mode c)) (\<lambda>_.
      vmx_int15_handleintercept vp (r, s))
    else
      bindE (xmhf_smpguest_arch_x86vmx_quiesce hw vp s) (\<lambda>s.
      bindE (handlehypercall app vp (r, s)) (\<lambda>(status, r, s).
      if status \<noteq> APP_SUCCESS then Inl Halt
      else Inr (r, upd_vmcs vp (\<lambda>c. c\<lparr>guest_RIP := guest_RIP c + 3\<rparr>)
                     (xmhf_smpguest_arch_x86vmx_endquiesce vp s)))))"

definition handle_exception ::
  "u32 \<Rightarrow> hub \<Rightarrow> xmhf_error + hub" where
  "handle_exception vp = (\<lambda>(r, s).
    let vector = info_vmexit_interrupt_information (vmcs_of vp s) AND INTR_INFO_VECTOR_MASK in
    if vector = 0x01 then
      bindE (xmhf_smpguest_arch_x86vmx_eventhandler_dbexception vp s) (\<lambda>s. Inr (r, s))
    else if vector = 0x02 then
      xmhf_smpguest_arch_x86vmx_eventhandler_nmiexception vp (r, s)
    else Inl Halt)"

definition handle_crx_access :: "u32 \<Rightarrow> hub \<Rightarrow> xmhf_error + hub" where
  "handle_crx_access vp = (\<lambda>(r, s).
    let qual = info_exit_qualification (vmcs_of vp s);
        crx = ucast (qual AND 0xF) :: u32;
        gpr = ucast (drop_bit 8 (qual AND 0xF00)) :: u32;
        tofrom = ucast (drop_bit 4 (qual AND 0x30)) :: u32
    in if gpr \<le> 7 then
         bindE (if crx = 0 then vmx_handle_intercept_cr0access_ug vp gpr tofrom (r, s)
                else if crx = 4 then
                  if vmx_guest_unrestricted (vcpus s vp) = 0 then Inl Halt
                  else vmx_handle_intercept_cr4access_ug vp gpr tofrom (r, s)
                else Inl Halt) (\<lambda>(r, s).
         Inr (r, skip_instruction vp s))
       else Inl Halt)"

text \<open>\<^verbatim>\<open>VMX_VMEXIT_TASKSWITCH\<close>: the application is told about a shutdown, and the core halts in any case.\<close>

definition handle_taskswitch :: "hypapp \<Rightarrow> u32 \<Rightarrow> hub \<Rightarrow> xmhf_error + hub" where
  "handle_taskswitch app vp = (\<lambda>(r, s).
    let c = vmcs_of vp s;
        typ = info_IDT_vectoring_information c AND INTR_INFO_INTR_TYPE_MASK;
        reason = ucast (drop_bit 30 (info_exit_qualification c)) :: u32
    in if reason = TASK_SWITCH_GATE \<and> typ = INTR_TYPE_NMI
       then bindE (handleshutdown app vp (r, s)) (\<lambda>_. Inl Halt)
       else Inl Halt)"

definition dispatch_intercept ::
  "hypapp \<Rightarrow> hardware \<Rightarrow> u32 \<Rightarrow> hub \<Rightarrow> xmhf_error + hub" where
  "dispatch_intercept app hw vp h =
    (let reason = info_vmexit_reason (vmcs_of vp (snd h)) in
     if reason = VMX_VMEXIT_VMCALL then handle_vmcall app hw vp h
     else if reason = VMX_VMEXIT_IOIO then vmx_handle_intercept_ioportaccess app hw vp h
     else if reason = VMX_VMEXIT_EPT_VIOLATION then vmx_handle_intercept_eptviolation app hw vp h
     else if reason = VMX_VMEXIT_INIT then bindE (handleshutdown app vp h) (\<lambda>_. Inl Halt)
     else if reason = VMX_VMEXIT_HLT then Inl Halt
     else if reason = VMX_VMEXIT_EXCEPTION then handle_exception vp h
     else if reason = VMX_VMEXIT_CRX_ACCESS then handle_crx_access vp h
     else if reason = VMX_VMEXIT_RDMSR then Inr (vmx_handle_intercept_rdmsr hw vp h)
     else if reason = VMX_VMEXIT_WRMSR then Inr (vmx_handle_intercept_wrmsr vp h)
     else if reason = VMX_VMEXIT_CPUID then Inr (vmx_handle_intercept_cpuid hw vp h)
     else if reason = VMX_VMEXIT_TASKSWITCH then handle_taskswitch app vp h
     else if reason = VMX_VMEXIT_XSETBV then vmx_handle_intercept_xsetbv vp h
     else Inl Halt)"

definition xmhf_parteventhub_arch_x86vmx_intercept_handler ::
  "hypapp \<Rightarrow> hardware \<Rightarrow> u32 \<Rightarrow> hub \<Rightarrow> xmhf_error + hub" where
  "xmhf_parteventhub_arch_x86vmx_intercept_handler app hw vp h =
    (if bit (info_vmexit_reason (vmcs_of vp (snd h))) 31 then Inl Halt
     else bindE (dispatch_intercept app hw vp h) (\<lambda>(r, s).
       let s = (if guest_interruptibility (vmcs_of vp s) \<noteq> 0
                then upd_vmcs vp (\<lambda>c. c\<lparr>guest_interruptibility := 0\<rparr>) s else s)
       in if bit (info_IDT_vectoring_information (vmcs_of vp s)) 31 then Inl Halt
          else Inr (r, s)))"

section \<open>Nested paging stays on\<close>

text \<open>
  What the source asserts in its verification build before every return to the guest: the
  core runs with extended page tables, and with the ones the hypervisor initialised.
\<close>

definition ept_on :: "u32 \<Rightarrow> xmhf_state \<Rightarrow> bool" where
  "ept_on vp s \<longleftrightarrow> bit (control_VMX_seccpu_based (vmcs_of vp s)) 1
    \<and> control_EPT_pointer_high (vmcs_of vp s) = 0
    \<and> control_EPT_pointer_full (vmcs_of vp s)
        = ucast (hva2spa1 (rpb s) (vmx_vaddr_ept_pml4_table (vcpus s vp)) OR 0x1E)"

text \<open>The fields of a core that decide it, and where its page tables are.\<close>

definition ept_fields :: "u32 \<Rightarrow> xmhf_state \<Rightarrow> bool \<times> u32 \<times> u32 \<times> u32 \<times> u32 \<times> RPB" where
  "ept_fields vp s = (bit (control_VMX_seccpu_based (vmcs_of vp s)) 1,
    control_EPT_pointer_high (vmcs_of vp s), control_EPT_pointer_full (vmcs_of vp s),
    vmx_vaddr_ept_pml4_table (vcpus s vp), vmx_vaddr_ept_p_tables (vcpus s vp), rpb s)"

lemma ept_on_fields: "ept_fields vp s = ept_fields vp s' \<Longrightarrow> ept_on vp s = ept_on vp s'"
  by (simp add: ept_fields_def ept_on_def)

named_theorems ept_keep \<open>operations that leave the nested paging fields alone\<close>

lemma ept_fields_primitives [ept_keep]:
  "ept_fields vp (hw_do a s) = ept_fields vp s"
  "ept_fields vp (skip_instruction vp s) = ept_fields vp s"
  "ept_fields vp (xmhf_smpguest_arch_x86vmx_endquiesce vp s) = ept_fields vp s"
  "ept_fields vp (xmhf_memprot_arch_x86vmx_flushmappings vp s) = ept_fields vp s"
  "ept_fields vp (s\<lparr>mem := m\<rparr>) = ept_fields vp s"
  "ept_fields vp (upd_vmcs vp (\<lambda>c. c\<lparr>guest_RIP := f c\<rparr>) s) = ept_fields vp s"
  "ept_fields vp (upd_vmcs vp (\<lambda>c. c\<lparr>guest_interruptibility := n\<rparr>) s) = ept_fields vp s"
  "ept_fields vp (upd_vmcs vp (\<lambda>c. c\<lparr>guest_RIP := i, guest_CS_base := b, guest_CS_selector := d\<rparr>) s) = ept_fields vp s"
  "ept_fields vp (upd_vcpu vp (\<lambda>v. v\<lparr>quiesced := q\<rparr>) s) = ept_fields vp s"
  by (simp_all add: ept_fields_def skip_instruction_def xmhf_smpguest_arch_x86vmx_endquiesce_def
      xmhf_memprot_arch_x86vmx_flushmappings_def)

lemma quiesce_ept [ept_keep]:
  "xmhf_smpguest_arch_x86vmx_quiesce hw vp s = Inr s' \<Longrightarrow> ept_fields vp s' = ept_fields vp s"
  by (auto simp: xmhf_smpguest_arch_x86vmx_quiesce_def vmx_send_quiesce_signal_def Let_def
      ept_fields_def split: if_splits)

lemma msr_ept [ept_keep]:
  "ept_fields vp (snd (vmx_handle_intercept_wrmsr vp h)) = ept_fields vp (snd h)"
  "ept_fields vp (snd (vmx_handle_intercept_rdmsr hw vp h)) = ept_fields vp (snd h)"
  "ept_fields vp (snd (vmx_handle_intercept_cpuid hw vp h)) = ept_fields vp (snd h)"
  by (simp_all add: vmx_handle_intercept_wrmsr_def vmx_handle_intercept_rdmsr_def
      vmx_handle_intercept_cpuid_def Let_def ept_keep split: prod.split)
    (simp_all add: ept_fields_def)

lemma chain_io_ept [ept_keep]:
  "ept_fields vp (snd (chain_io hw p t sz h)) = ept_fields vp (snd h)"
  by (simp add: chain_io_def ept_keep split: prod.split)

lemma hwpgtblviolation_ept_fields [ept_keep]:
  "ept_fields vp (xmhf_smpguest_arch_x86vmx_eventhandler_hwpgtblviolation vp gpa code s) = ept_fields vp s"
  by (simp add: xmhf_smpguest_arch_x86vmx_eventhandler_hwpgtblviolation_def Let_def ept_fields_def)

lemma dbexception_ept_fields [ept_keep]:
  assumes "xmhf_smpguest_arch_x86vmx_eventhandler_dbexception vp s = Inr s'"
  shows "ept_fields vp s' = ept_fields vp s"
  using assms
proof (rule dbexception_split)
  fix s1 d
  assume st: "(if g_vmx_lapic_op s = LAPIC_OP_WRITE then lapic_emulate_write s else Inr (s, False)) = Inr (s1, d)"
    and c: "vmcs_of vp s' = (vmcs_of vp s)\<lparr>control_exception_bitmap :=
        control_exception_bitmap (vmcs_of vp s) AND NOT 2,
        guest_RFLAGS := (guest_RFLAGS (vmcs_of vp s) AND NOT EFLAGS_IF AND NOT EFLAGS_TF)
          OR ucast (g_vmx_lapic_guest_eflags_tfifmask s)\<rparr>"
    and v: "vcpus s' = (vcpus s1)(vp := (vcpus s1 vp)\<lparr>vmcs := vmcs_of vp s'\<rparr>)" and r: "rpb s' = rpb s"
  have "vmx_vaddr_ept_pml4_table (vcpus s' vp) = vmx_vaddr_ept_pml4_table (vcpus s1 vp)"
    "vmx_vaddr_ept_p_tables (vcpus s' vp) = vmx_vaddr_ept_p_tables (vcpus s1 vp)"
    by (subst v, simp)+
  moreover have "vmx_vaddr_ept_pml4_table (vcpus s1 vp) = vmx_vaddr_ept_pml4_table (vcpus s vp)"
    "vmx_vaddr_ept_p_tables (vcpus s1 vp) = vmx_vaddr_ept_p_tables (vcpus s vp)"
    using st by (auto simp: emulate_write_keeps split: if_splits)
  ultimately show ?thesis using c r by (simp add: ept_fields_def)
qed

lemma nmi_outside_quiesce_ept [ept_keep]:
  "ept_fields vp (nmi_outside_quiesce vp reason info s) = ept_fields vp s"
  by (simp add: nmi_outside_quiesce_def ept_fields_def)

lemma int15_ept [ept_keep]:
  "vmx_int15_handleintercept vp (r, s) = Inr (r', s') \<Longrightarrow> ept_fields vp s' = ept_fields vp s"
  unfolding vmx_int15_handleintercept_def Let_def
  by (auto split: if_splits simp: ept_keep)

lemma crx_ept [ept_keep]:
  "handle_crx_access vp (r, s) = Inr (r', s') \<Longrightarrow> ept_fields vp s' = ept_fields vp s"
  unfolding handle_crx_access_def vmx_handle_intercept_cr0access_ug_def
    vmx_handle_intercept_cr4access_ug_def Let_def
  by (auto split: if_splits simp: ept_keep) (simp_all add: ept_fields_def)

lemma xsetbv_ept [ept_keep]:
  "vmx_handle_intercept_xsetbv vp (r, s) = Inr (r', s') \<Longrightarrow> ept_fields vp s' = ept_fields vp s"
  unfolding vmx_handle_intercept_xsetbv_def Let_def by (auto split: if_splits simp: ept_keep)

section \<open>What an exit writes\<close>

text \<open>
  The VCPU structures and the other globals of the runtime are components of the model's state, apart
  from the bytes of memory. In the machine they are bytes of the runtime, and a store through a pointer
  the guest has chosen can hit them. The handlers make such stores in two places: the answer to an E820
  request goes to the guest's buffer and stack, and the application writes memory for its hypercall. An
  exit is confined with respect to a set \<open>A\<close> of addresses when these stores miss \<open>A\<close>: an E820 request
  whose buffer and flags are outside it, and a hypercall for which the application writes nothing, which
  is what \<open>silent\<close> tells from the guest's registers. For the other exits nothing is asked.
\<close>

definition e820_stores :: "u32 \<Rightarrow> hub \<Rightarrow> u32 set" where
  "e820_stores vp = (\<lambda>(r, s).
    let buf = int15_e820_buffer (vmcs_of vp s) r;
        stack = ucast (guest_SS_base (vmcs_of vp s)) + ucast (ucast (guest_RSP (vmcs_of vp s)) :: u16)
    in span buf 20 \<union>
      (case int15_translate vp (s\<lparr>mem := store_e820 (mem s) buf (g_e820map s ! unat (ebx r))\<rparr>) stack of
         Inr gueststackregion \<Rightarrow> span (gueststackregion + 4) 2 | Inl _ \<Rightarrow> {}))"

definition confined :: "(regs \<Rightarrow> bool) \<Rightarrow> u32 set \<Rightarrow> u32 \<Rightarrow> hub \<Rightarrow> bool" where
  "confined silent A vp = (\<lambda>(r, s).
    let c = vmcs_of vp s in
    info_vmexit_reason c = VMX_VMEXIT_VMCALL \<longrightarrow>
      (if guest_CS_base c = push_bit 4 VMX_UG_E820HOOK_CS \<and> guest_RIP c = VMX_UG_E820HOOK_IP
       then (ucast (eax r) :: u16) = 0xE820 \<longrightarrow> e820_stores vp (r, s) \<inter> A = {}
       else silent r))"

definition same_on :: "u32 set \<Rightarrow> memory \<Rightarrow> memory \<Rightarrow> bool" where
  "same_on A m m' \<longleftrightarrow> (\<forall>a\<in>A. m' a = m a)"

lemma same_on_refl [simp]: "same_on A m m"
  by (simp add: same_on_def)

lemma same_on_trans: "same_on A m m' \<Longrightarrow> same_on A m' m'' \<Longrightarrow> same_on A m m''"
  by (simp add: same_on_def)

lemma same_on_store_e820:
  assumes "span a 20 \<inter> A = {}"
  shows "same_on A m (store_e820 m a e)"
proof -
  have sub: "span (a + n) 4 \<subseteq> span a 20" if "unat n \<le> 16" for n
    using span_shift[of n 4 20 _ a] that by auto
  have st: "same_on A m' (st32 m' (a + n) x)" if "unat n \<le> 16" for m' n x
    using sub[OF that] assms unfolding same_on_def st32_def by (auto intro!: stw_outside)
  have "same_on A m (st32 m a (baseaddr_low e))" using st[of 0 m] by simp
  then show ?thesis
    unfolding store_e820_def Let_def by (intro same_on_trans[OF _ st]) simp_all
qed

lemma same_on_st16: "span a 2 \<inter> A = {} \<Longrightarrow> same_on A m (st16 m a x)"
  unfolding same_on_def st16_def by (auto intro!: stw_outside)

lemma same_on_leaf:
  fixes a :: u32
  assumes "span T (8 * 2 ^ 20) \<inter> A = {}"
  shows "same_on A m (st64 m (elem64 T (unat (a div PAGE_SIZE_4K))) x)"
proof -
  have "unat (a div PAGE_SIZE_4K) < 2 ^ 20" using unsigned_less[of a, where 'a=nat] by (simp add: xconst unat_div)
  then show ?thesis using assms unfolding same_on_def by (auto intro!: st64_elem_outside)
qed

named_theorems mem_keep \<open>operations that write no memory\<close>

lemma mem_primitives [mem_keep]:
  "mem (hw_do a s) = mem s" "mem (skip_instruction vp s) = mem s"
  "mem (xmhf_smpguest_arch_x86vmx_endquiesce vp s) = mem s"
  "mem (xmhf_memprot_arch_x86vmx_flushmappings vp s) = mem s"
  "mem (nmi_outside_quiesce vp reason info s) = mem s"
  by (simp_all add: skip_instruction_def xmhf_smpguest_arch_x86vmx_endquiesce_def
      xmhf_memprot_arch_x86vmx_flushmappings_def nmi_outside_quiesce_def)

lemma quiesce_mem [mem_keep]:
  "xmhf_smpguest_arch_x86vmx_quiesce hw vp s = Inr s' \<Longrightarrow> mem s' = mem s"
  by (auto simp: xmhf_smpguest_arch_x86vmx_quiesce_def vmx_send_quiesce_signal_def Let_def split: if_splits)

lemma msr_mem [mem_keep]:
  "mem (snd (vmx_handle_intercept_wrmsr vp h)) = mem (snd h)"
  "mem (snd (vmx_handle_intercept_rdmsr hw vp h)) = mem (snd h)"
  "mem (snd (vmx_handle_intercept_cpuid hw vp h)) = mem (snd h)"
  "mem (snd (chain_io hw p t sz h)) = mem (snd h)"
  by (simp_all add: vmx_handle_intercept_wrmsr_def vmx_handle_intercept_rdmsr_def
      vmx_handle_intercept_cpuid_def chain_io_def Let_def mem_keep split: prod.split)

lemma crx_mem [mem_keep]: "handle_crx_access vp (r, s) = Inr (r', s') \<Longrightarrow> mem s' = mem s"
  unfolding handle_crx_access_def vmx_handle_intercept_cr0access_ug_def
    vmx_handle_intercept_cr4access_ug_def Let_def
  by (auto split: if_splits simp: mem_keep)

lemma xsetbv_mem [mem_keep]: "vmx_handle_intercept_xsetbv vp (r, s) = Inr (r', s') \<Longrightarrow> mem s' = mem s"
  unfolding vmx_handle_intercept_xsetbv_def Let_def by (auto split: if_splits simp: mem_keep)

lemma nmi_mem [mem_keep]:
  "xmhf_smpguest_arch_x86vmx_eventhandler_nmiexception vp (r, s) = Inr (r', s') \<Longrightarrow> mem s' = mem s"
  by (auto simp: xmhf_smpguest_arch_x86vmx_eventhandler_nmiexception_def Let_def mem_keep split: if_splits)

lemma int15_writes:
  assumes "vmx_int15_handleintercept vp (r, s) = Inr (r', s')"
    and "(ucast (eax r) :: u16) = 0xE820 \<longrightarrow> e820_stores vp (r, s) \<inter> A = {}"
  shows "same_on A (mem s) (mem s')"
proof (cases "(ucast (eax r) :: u16) = 0xE820")
  case False
  then have "mem s' = mem s"
    using assms(1) by (auto simp: vmx_int15_handleintercept_def Let_def split: if_splits)
  then show ?thesis by simp
next
  case True
  define buf where "buf = int15_e820_buffer (vmcs_of vp s) r"
  define m where "m = store_e820 (mem s) buf (g_e820map s ! unat (ebx r))"
  define stack where "stack = ucast (guest_SS_base (vmcs_of vp s)) + (ucast (ucast (guest_RSP (vmcs_of vp s)) :: u16) :: u32)"
  obtain g x where g: "int15_translate vp (s\<lparr>mem := m\<rparr>) stack = Inr g" and m': "mem s' = st16 m (g + 4) x"
    using assms(1) True unfolding vmx_int15_handleintercept_def Let_def
    by (auto simp: m_def buf_def stack_def split: if_splits)
  have "span buf 20 \<inter> A = {}" "span (g + 4) 2 \<inter> A = {}"
    using assms(2) True g by (auto simp: e820_stores_def Let_def m_def buf_def stack_def)
  from same_on_trans[OF same_on_store_e820[OF this(1)] same_on_st16[OF this(2)]] show ?thesis
    unfolding m' m_def .
qed

lemma exception_writes:
  assumes "handle_exception vp (r, s) = Inr (r', s')" and "span (vmx_vaddr_ept_p_tables (vcpus s vp)) (8 * 2 ^ 20) \<inter> A = {}"
  shows "same_on A (mem s) (mem s')"
proof -
  consider (db) "xmhf_smpguest_arch_x86vmx_eventhandler_dbexception vp s = Inr s'"
    | (nmi) "xmhf_smpguest_arch_x86vmx_eventhandler_nmiexception vp (r, s) = Inr (r', s')"
    using assms(1) by (auto simp: handle_exception_def Let_def split: if_splits)
  then show ?thesis
  proof cases
    case db
    then show ?thesis by (rule dbexception_split) (simp add: same_on_leaf[OF assms(2)])
  next
    case nmi
    then show ?thesis by (simp add: nmi_mem)
  qed
qed

section \<open>The contract of the application\<close>

text \<open>
  What the hub relies on: no callback changes the fields of the core that decide nested paging, the
  two intercepts write no memory, and neither does a hypercall the application calls silent.
\<close>

locale hypapp_contract =
  fixes app :: hypapp and silent :: "regs \<Rightarrow> bool"
  assumes portaccess_ept: "handleintercept_portaccess app vp port t sz (r, s) = Inr (st, r', s') \<Longrightarrow>
      ept_fields vp s' = ept_fields vp s \<and> mem s' = mem s"
    and hwpgtblviolation_ept: "handleintercept_hwpgtblviolation app vp gpa gva code (r, s) = Inr (st, r', s') \<Longrightarrow>
      ept_fields vp s' = ept_fields vp s \<and> mem s' = mem s"
    and hypercall_ept: "handlehypercall app vp (r, s) = Inr (st, r', s') \<Longrightarrow> ept_fields vp s' = ept_fields vp s"
    and hypercall_mem: "handlehypercall app vp (r, s) = Inr (st, r', s') \<Longrightarrow> silent r \<Longrightarrow> mem s' = mem s"

begin

lemma vmcall_keeps:
  assumes "handle_vmcall app hw vp (r, s) = Inr (r', s')"
  shows "ept_fields vp s' = ept_fields vp s"
    and "info_vmexit_reason (vmcs_of vp s) = VMX_VMEXIT_VMCALL \<Longrightarrow> confined silent A vp (r, s) \<Longrightarrow> same_on A (mem s) (mem s')"
proof -
  let ?hook = "guest_CS_base (vmcs_of vp s) = push_bit 4 VMX_UG_E820HOOK_CS
    \<and> guest_RIP (vmcs_of vp s) = VMX_UG_E820HOOK_IP"
  have hook: "vmx_int15_handleintercept vp (r, s) = Inr (r', s')" if ?hook
    using assms that by (simp add: handle_vmcall_def Let_def)
  have call: "ept_fields vp s' = ept_fields vp s \<and> (silent r \<longrightarrow> mem s' = mem s)" if n: "\<not> ?hook"
  proof -
    obtain s1 st r2 s2 where q: "xmhf_smpguest_arch_x86vmx_quiesce hw vp s = Inr s1"
      and h: "handlehypercall app vp (r, s1) = Inr (st, r2, s2)"
      and s': "s' = upd_vmcs vp (\<lambda>c. c\<lparr>guest_RIP := guest_RIP c + 3\<rparr>) (xmhf_smpguest_arch_x86vmx_endquiesce vp s2)"
      using assms n by (auto simp: handle_vmcall_def Let_def split: if_splits)
    show ?thesis unfolding s' using hypercall_ept[OF h] hypercall_mem[OF h] quiesce_ept[OF q] quiesce_mem[OF q]
      by (simp add: ept_keep mem_keep)
  qed
  show "ept_fields vp s' = ept_fields vp s" using hook call int15_ept by blast
  assume "info_vmexit_reason (vmcs_of vp s) = VMX_VMEXIT_VMCALL" "confined silent A vp (r, s)"
  then show "same_on A (mem s) (mem s')"
    using int15_writes[OF hook] call by (auto simp: confined_def Let_def split: if_splits)
qed

lemma ioport_keeps:
  assumes "vmx_handle_intercept_ioportaccess app hw vp (r, s) = Inr (r', s')"
  shows "ept_fields vp s' = ept_fields vp s \<and> mem s' = mem s"
proof -
  obtain s1 p t z st r2 s2 where q: "xmhf_smpguest_arch_x86vmx_quiesce hw vp s = Inr s1"
    and h: "handleintercept_portaccess app vp p t z (r, s1) = Inr (st, r2, s2)"
    and s': "s' = skip_instruction vp (snd (if st = APP_IOINTERCEPT_CHAIN
      then chain_io hw p t z (r2, xmhf_smpguest_arch_x86vmx_endquiesce vp s2)
      else (r2, xmhf_smpguest_arch_x86vmx_endquiesce vp s2)))"
    using assms by (auto simp: vmx_handle_intercept_ioportaccess_def Let_def split: if_splits)
  show ?thesis unfolding s' using portaccess_ept[OF h] quiesce_ept[OF q] quiesce_mem[OF q] by (simp add: ept_keep mem_keep)
qed

lemma eptviolation_keeps:
  assumes "vmx_handle_intercept_eptviolation app hw vp (r, s) = Inr (r', s')"
  shows "ept_fields vp s' = ept_fields vp s"
    and "span (vmx_vaddr_ept_p_tables (vcpus s vp)) (8 * 2 ^ 20) \<inter> A = {} \<Longrightarrow> same_on A (mem s) (mem s')"
proof -
  have "ept_fields vp s' = ept_fields vp s
    \<and> (span (vmx_vaddr_ept_p_tables (vcpus s vp)) (8 * 2 ^ 20) \<inter> A = {} \<longrightarrow> same_on A (mem s) (mem s'))"
  proof (cases "isbsp (vcpus s vp) \<noteq> 0 \<and> g_vmx_lapic_base s \<le> guest_paddr_full (vmcs_of vp s)
      \<and> guest_paddr_full (vmcs_of vp s) < g_vmx_lapic_base s + PAGE_SIZE_4K")
    case True
    then obtain gpa code where "s' = xmhf_smpguest_arch_x86vmx_eventhandler_hwpgtblviolation vp gpa code s"
      using assms by (auto simp: vmx_handle_intercept_eptviolation_def Let_def)
    then show ?thesis by (simp add: ept_keep hwpgtblviolation_effect(6) same_on_leaf)
  next
    case False
    then obtain s1 gpa gva code st r2 s2 where q: "xmhf_smpguest_arch_x86vmx_quiesce hw vp s = Inr s1"
      and h: "handleintercept_hwpgtblviolation app vp gpa gva code (r, s1) = Inr (st, r2, s2)"
      and s': "s' = xmhf_smpguest_arch_x86vmx_endquiesce vp s2"
      using assms by (auto simp: vmx_handle_intercept_eptviolation_def Let_def split: if_splits)
    show ?thesis unfolding s' using hwpgtblviolation_ept[OF h] quiesce_ept[OF q] quiesce_mem[OF q]
      by (simp add: ept_keep mem_keep)
  qed
  then show "ept_fields vp s' = ept_fields vp s"
    and "span (vmx_vaddr_ept_p_tables (vcpus s vp)) (8 * 2 ^ 20) \<inter> A = {} \<Longrightarrow> same_on A (mem s) (mem s')" by simp_all
qed

lemma exception_keeps:
  assumes "handle_exception vp (r, s) = Inr (r', s')"
  shows "ept_fields vp s' = ept_fields vp s"
proof -
  consider (db) "xmhf_smpguest_arch_x86vmx_eventhandler_dbexception vp s = Inr s'"
    | (nmi) "xmhf_smpguest_arch_x86vmx_eventhandler_nmiexception vp (r, s) = Inr (r', s')"
    using assms by (auto simp: handle_exception_def Let_def split: if_splits)
  then show ?thesis
  proof cases
    case db
    then show ?thesis by (rule dbexception_ept_fields)
  next
    case nmi
    then show ?thesis
      by (auto simp: xmhf_smpguest_arch_x86vmx_eventhandler_nmiexception_def Let_def ept_keep split: if_splits)
  qed
qed

lemma dispatch_keeps:
  assumes "dispatch_intercept app hw vp (r, s) = Inr (r', s')"
  shows "ept_fields vp s' = ept_fields vp s"
proof -
  have m: "h = (r', s') \<Longrightarrow> ept_fields vp (snd h) = ept_fields vp (snd (r, s)) \<Longrightarrow> ?thesis" for h by simp
  show ?thesis
    using assms vmcall_keeps(1) ioport_keeps eptviolation_keeps(1) exception_keeps
      m[OF _ msr_ept(1)] m[OF _ msr_ept(2)] m[OF _ msr_ept(3)] crx_ept xsetbv_ept
    unfolding dispatch_intercept_def Let_def snd_conv handle_taskswitch_def
    by (simp split: if_splits)
qed

lemma dispatch_writes:
  assumes "dispatch_intercept app hw vp (r, s) = Inr (r', s')" and "confined silent A vp (r, s)"
    and "span (vmx_vaddr_ept_p_tables (vcpus s vp)) (8 * 2 ^ 20) \<inter> A = {}"
  shows "same_on A (mem s) (mem s')"
proof -
  have f: ?thesis if "mem s' = mem s" using that by simp
  have m: "h = (r', s') \<Longrightarrow> mem (snd h) = mem (snd (r, s)) \<Longrightarrow> ?thesis" for h by (rule f) simp
  show ?thesis
    using assms vmcall_keeps(2)[of hw vp r s r' s' A] ioport_keeps[of hw vp r s r' s'] eptviolation_keeps(2)[of hw vp r s r' s' A]
      exception_writes[of vp r s r' s' A] m[OF _ msr_mem(1)] m[OF _ msr_mem(2)] m[OF _ msr_mem(3)] f
      crx_mem[of vp r s r' s'] xsetbv_mem[of vp r s r' s']
    unfolding dispatch_intercept_def Let_def snd_conv handle_taskswitch_def
    by (simp split: if_splits)
qed

lemma handler_split:
  assumes "xmhf_parteventhub_arch_x86vmx_intercept_handler app hw vp (r, s) = Inr (r', s')"
  obtains r1 s1 where "dispatch_intercept app hw vp (r, s) = Inr (r1, s1)"
    "ept_fields vp s' = ept_fields vp s1" "mem s' = mem s1"
  using assms that
  by (auto simp: xmhf_parteventhub_arch_x86vmx_intercept_handler_def Let_def ept_keep split: if_splits)

lemma handler_keeps_ept:
  assumes "xmhf_parteventhub_arch_x86vmx_intercept_handler app hw vp (r, s) = Inr (r', s')"
  shows "ept_fields vp s' = ept_fields vp s"
  using assms by (rule handler_split) (simp add: dispatch_keeps)

lemma handler_writes:
  assumes "xmhf_parteventhub_arch_x86vmx_intercept_handler app hw vp (r, s) = Inr (r', s')"
    and "confined silent A vp (r, s)" and "span (vmx_vaddr_ept_p_tables (vcpus s vp)) (8 * 2 ^ 20) \<inter> A = {}"
  shows "same_on A (mem s) (mem s')"
  using assms(1)
proof (rule handler_split)
  fix r1 s1
  assume "dispatch_intercept app hw vp (r, s) = Inr (r1, s1)" and m: "mem s' = mem s1"
  then show ?thesis using dispatch_writes[OF _ assms(2,3)] by simp
qed

end

end
