(* ===== verification/XMHF_SvmGuest.thy ===== *)
theory XMHF_SvmGuest
  imports XMHF_EventHub
begin

text \<open>
  The SMP guest component on AMD (\<^verbatim>\<open>xmhf-smpguest/arch/x86/svm/smpg-x86svm.c\<close>) and the functions that choose between the
  two vendors (\<^verbatim>\<open>smpg-x86.c\<close>). The component is the twin of the Intel one: the guest's state lies in the control block instead
  of the VMCS, interrupts are held back with the global interrupt flag instead of the guest's flags, and every core that was
  quiesced is resumed. \<^verbatim>\<open>have_all_cores_recievedSIPI\<close> and \<^verbatim>\<open>processSIPI\<close> are copies of the Intel ones, word for word.
\<close>

section \<open>Constants\<close>

definition SVM_LAPIC_MAP :: u64 where [xconst]: "SVM_LAPIC_MAP = PAGE_PRESENT OR PAGE_RW OR PAGE_USER"
definition SVM_LAPIC_UNMAP :: u64 where [xconst]: "SVM_LAPIC_UNMAP = 0"
definition EXCEPTION_INTERCEPT_DB :: u32 where [xconst]: "EXCEPTION_INTERCEPT_DB = push_bit 1 1"
definition VMCB_NPT_ERRORCODE_RW :: u32 where [xconst]: "VMCB_NPT_ERRORCODE_RW = push_bit 1 1"
definition SVM_VMEXIT_NMI :: u64 where [xconst]: "SVM_VMEXIT_NMI = 97"
definition EVENTINJ_TYPE_NMI :: u8 where [xconst]: "EVENTINJ_TYPE_NMI = 2"

abbreviation vmcb_of :: "u32 \<Rightarrow> xmhf_state \<Rightarrow> svm_vmcbfields" where
  "vmcb_of vp s \<equiv> vmcbs s (vmcb_vaddr_ptr (vcpus s vp))"

lemma upd_vmcb_simps [simp]:
  "vcpus (upd_vmcb vp f s) = vcpus s"
  "vmcbs (upd_vmcb vp f s) = (vmcbs s)(vmcb_vaddr_ptr (vcpus s vp) := f (vmcb_of vp s))"
  "mem (upd_vmcb vp f s) = mem s" "rpb (upd_vmcb vp f s) = rpb s" "hwlog (upd_vmcb vp f s) = hwlog s"
  "g_midtable (upd_vmcb vp f s) = g_midtable s" "g_e820map (upd_vmcb vp f s) = g_e820map s"
  "g_svm_lapic_base (upd_vmcb vp f s) = g_svm_lapic_base s" "g_svm_lapic_reg (upd_vmcb vp f s) = g_svm_lapic_reg s"
  "g_svm_lapic_op (upd_vmcb vp f s) = g_svm_lapic_op s" "g_svm_quiesce (upd_vmcb vp f s) = g_svm_quiesce s"
  "g_svm_virtual_LAPIC_base (upd_vmcb vp f s) = g_svm_virtual_LAPIC_base s"
  by (simp_all add: upd_vmcb_def Let_def)

section \<open>LAPIC interception\<close>

text \<open>The entry is cleared with a mask of all ones before the new one is put in.\<close>

definition svm_lapic_changemapping :: "u32 \<Rightarrow> u32 \<Rightarrow> u32 \<Rightarrow> u64 \<Rightarrow> xmhf_state \<Rightarrow> xmhf_state" where
  "svm_lapic_changemapping vp lapic_paddr new_lapic_paddr mapflag s =
    (let pts = npt_vaddr_pts (vcpus s vp);
         a = elem64 pts (unat (lapic_paddr div PAGE_SIZE_4K));
         m = st64 (mem s) a (ld64 (mem s) a AND NOT 0xFFFFFFFFFFFFFFFF);
         m = st64 m a (ld64 m a OR pae_make_pte (ucast new_lapic_paddr) mapflag)
     in xmhf_memprot_arch_x86svm_flushmappings vp (s\<lparr>mem := m\<rparr>))"

definition xmhf_smpguest_arch_x86svm_initialize :: "hardware \<Rightarrow> u32 \<Rightarrow> xmhf_state \<Rightarrow> xmhf_error + xmhf_state" where
  "xmhf_smpguest_arch_x86svm_initialize hw vp s =
    (let (eax, edx) = rdmsr hw MSR_APIC_BASE in
     bindE (HALT_ON_ERRORCOND (edx = 0)) (\<lambda>_.
     let base = eax AND 0xFFFFF000; s = s\<lparr>g_svm_lapic_base := base\<rparr>
     in Inr (svm_lapic_changemapping vp base base SVM_LAPIC_UNMAP s)))"

text \<open>The handler returns 0 in every case; the result is left out.\<close>

definition xmhf_smpguest_arch_x86svm_eventhandler_hwpgtblviolation ::
  "u32 \<Rightarrow> u32 \<Rightarrow> u32 \<Rightarrow> xmhf_state \<Rightarrow> xmhf_state" where
  "xmhf_smpguest_arch_x86svm_eventhandler_hwpgtblviolation vp paddr errorcode s =
    (let base = g_svm_lapic_base s;
         reg = paddr - base;
         s = s\<lparr>g_svm_lapic_reg := reg\<rparr>;
         virt = ucast (hva2spa (g_svm_virtual_LAPIC_base s));
         s = (if errorcode AND VMCB_NPT_ERRORCODE_RW \<noteq> 0 then
                if is_icr reg
                then svm_lapic_changemapping vp base virt SVM_LAPIC_MAP (s\<lparr>g_svm_lapic_op := LAPIC_OP_WRITE\<rparr>)
                else svm_lapic_changemapping vp base base SVM_LAPIC_MAP (s\<lparr>g_svm_lapic_op := LAPIC_OP_RSVD\<rparr>)
              else
                if is_icr reg
                then svm_lapic_changemapping vp base virt SVM_LAPIC_MAP (s\<lparr>g_svm_lapic_op := LAPIC_OP_READ\<rparr>)
                else svm_lapic_changemapping vp base base SVM_LAPIC_MAP (s\<lparr>g_svm_lapic_op := LAPIC_OP_RSVD\<rparr>));
         s = upd_vmcb vp (\<lambda>c. c\<lparr>exception_intercepts_bitmask := exception_intercepts_bitmask c OR EXCEPTION_INTERCEPT_DB\<rparr>) s;
         s = upd_vmcb vp (\<lambda>c. c\<lparr>vmcb_rflags := vmcb_rflags c OR EFLAGS_TF\<rparr>) s
     in hw_do Clgi s)"

definition svm_lapic_emulate_write :: "xmhf_state \<Rightarrow> xmhf_error + xmhf_state \<times> bool" where
  "svm_lapic_emulate_write s =
    (let reg = g_svm_lapic_reg s in
     bindE (HALT_ON_ERRORCOND (is_icr reg)) (\<lambda>_.
     let src = g_svm_virtual_LAPIC_base s + reg;
         dst = g_svm_lapic_base s + reg;
         value_tobe_written = ld32 (mem s) src
     in if reg = LAPIC_ICR_LOW then
          if value_tobe_written AND 0x00000F00 = 0x500 then Inr (s, False)
          else if value_tobe_written AND 0x00000F00 = 0x600 then
            let icr_value_high = ld32 (mem s) (g_svm_virtual_LAPIC_base s + LAPIC_ICR_HIGH)
            in processSIPI value_tobe_written icr_value_high s
          else Inr (hw_do (MmioWrite32 dst value_tobe_written) s, False)
        else Inr (hw_do (MmioWrite32 dst value_tobe_written) s, False)))"

definition xmhf_smpguest_arch_x86svm_eventhandler_dbexception :: "u32 \<Rightarrow> xmhf_state \<Rightarrow> xmhf_error + xmhf_state" where
  "xmhf_smpguest_arch_x86svm_eventhandler_dbexception vp s =
    bindE (if g_svm_lapic_op s = LAPIC_OP_WRITE then svm_lapic_emulate_write s
           else if g_svm_lapic_op s = LAPIC_OP_READ then
             bindE (HALT_ON_ERRORCOND (is_icr (g_svm_lapic_reg s))) (\<lambda>_. Inr (s, False))
           else Inr (s, False))
    (\<lambda>(s, delink_lapic_interception).
     let s = upd_vmcb vp (\<lambda>c. c\<lparr>exception_intercepts_bitmask :=
               exception_intercepts_bitmask c AND NOT EXCEPTION_INTERCEPT_DB\<rparr>) s;
         s = upd_vmcb vp (\<lambda>c. c\<lparr>vmcb_rflags := vmcb_rflags c AND NOT EFLAGS_TF\<rparr>) s;
         base = g_svm_lapic_base s;
         s = svm_lapic_changemapping vp base base
               (if delink_lapic_interception then SVM_LAPIC_MAP else SVM_LAPIC_UNMAP) s
     in Inr (hw_do Stgi s))"

section \<open>Quiescing\<close>

text \<open>
  Seen from one core, as on Intel: the wait of the requesting core for the others and of the others for the signal to go on are
  taken as over when the functions return.
\<close>

definition svm_send_quiesce_signal :: "hardware \<Rightarrow> xmhf_state \<Rightarrow> xmhf_error + xmhf_state" where
  "svm_send_quiesce_signal hw s =
    (let prev_icr_high_value = lapic_read hw 0xFEE00310;
         s = hw_do (MmioWrite32 0xFEE00310 0xFF000000) s;
         s = hw_do (MmioWrite32 0xFEE00300 0x000C0400) s
     in if lapic_read hw 0xFEE00310 AND 0x00001000 \<noteq> 0 then Inl Hang
        else Inr (hw_do (MmioWrite32 0xFEE00310 prev_icr_high_value) s))"

definition xmhf_smpguest_arch_x86svm_quiesce :: "hardware \<Rightarrow> u32 \<Rightarrow> xmhf_state \<Rightarrow> xmhf_error + xmhf_state" where
  "xmhf_smpguest_arch_x86svm_quiesce hw vp s =
    svm_send_quiesce_signal hw ((upd_vcpu vp (\<lambda>v. v\<lparr>quiesced := 1\<rparr>) s)\<lparr>g_svm_quiesce := 1\<rparr>)"

definition xmhf_smpguest_arch_x86svm_endquiesce :: "u32 \<Rightarrow> xmhf_state \<Rightarrow> xmhf_state" where
  "xmhf_smpguest_arch_x86svm_endquiesce vp s = (upd_vcpu vp (\<lambda>v. v\<lparr>quiesced := 0\<rparr>) s)\<lparr>g_svm_quiesce := 0\<rparr>"

definition inject_nmi :: "svm_vmcbfields \<Rightarrow> svm_vmcbfields" where
  "inject_nmi c = c\<lparr>eventinj := \<lparr>inj_vector = 0, inj_type = EVENTINJ_TYPE_NMI, inj_ev = False, inj_v = True, inj_errorcode = 0\<rparr>\<rparr>"

definition xmhf_smpguest_arch_x86svm_eventhandler_nmiexception :: "u32 \<Rightarrow> xmhf_state \<Rightarrow> xmhf_state" where
  "xmhf_smpguest_arch_x86svm_eventhandler_nmiexception vp s =
    (let nmiinhvm = exitcode (vmcb_of vp s) \<noteq> SVM_VMEXIT_NMI in
     if g_svm_quiesce s \<noteq> 0 then
       if quiesced (vcpus s vp) \<noteq> 0 then s
       else upd_vcpu vp (\<lambda>v. v\<lparr>quiesced := 0\<rparr>) (upd_vcpu vp (\<lambda>v. v\<lparr>quiesced := 1\<rparr>) s)
     else if nmiinhvm then
       if exception_intercepts_bitmask (vmcb_of vp s) AND CPU_EXCEPTION_NMI \<noteq> 0 then s
       else upd_vmcb vp inject_nmi s
     else s)"

section \<open>Bringing up a core, and the guest's page tables\<close>

definition xmhf_smpguest_arch_x86svm_postCPUwakeup :: "u32 \<Rightarrow> xmhf_state \<Rightarrow> xmhf_state" where
  "xmhf_smpguest_arch_x86svm_postCPUwakeup vp s =
    (let vec = sipivector (vcpus s vp) in
     upd_vmcb vp (\<lambda>c. c\<lparr>vmcb_cs := (vmcb_cs c)\<lparr>desc_selector := ucast (drop_bit 4 (vec * PAGE_SIZE_4K)),
       desc_base := ucast (vec * PAGE_SIZE_4K)\<rparr>, vmcb_rip := 0\<rparr>) s)"

definition xmhf_smpguest_arch_x86svm_walk_pagetables :: "svm_vmcbfields \<Rightarrow> memory \<Rightarrow> u32 \<Rightarrow> u32" where
  "xmhf_smpguest_arch_x86svm_walk_pagetables vmcb m vaddr =
    (let kcr3 = ucast (vmcb_cr3 vmcb) in
     if (ucast (vmcb_cr4 vmcb) :: u32) AND CR4_PAE \<noteq> 0 then
       let kpdpt = pae_get_addr_from_32bit_cr3 kcr3;
           pdpt_entry = ucast (ld64 m (elem64 kpdpt (unat (pae_get_pdpt_index vaddr)))) :: u32;
           kpd = ucast (pae_get_addr_from_pdpe (ucast pdpt_entry)) :: u32;
           pd_entry = ucast (ld64 m (elem64 kpd (unat (pae_get_pdt_index vaddr)))) :: u32;
           paddr = (if pd_entry AND PAGE_PSE = 0 then
               let kpt = ucast (pae_get_addr_from_pde (ucast pd_entry)) :: u32;
                   pt_entry = ucast (ld64 m (elem64 kpt (unat (pae_get_pt_index vaddr)))) :: u32
               in pae_get_addr_from_pte (ucast pt_entry) + ucast (pae_get_offset_4K_page vaddr)
             else pae_get_addr_from_pde_big (ucast pd_entry) + ucast (pae_get_offset_big vaddr))
       in ucast (paddr :: u64)
     else
       let kpd = npae_get_addr_from_32bit_cr3 kcr3;
           pd_entry = ld32 m (kpd + 4 * npae_get_pdt_index vaddr);
           paddr = (if pd_entry AND PAGE_PSE = 0 then
               let kpt = npae_get_addr_from_pde pd_entry;
                   pt_entry = ld32 m (kpt + 4 * npae_get_pt_index vaddr)
               in ucast (npae_get_addr_from_pte pt_entry) + ucast (npae_get_offset_4K_page vaddr)
             else ucast (npae_get_addr_from_pde_big pd_entry) + ucast (npae_get_offset_big vaddr))
       in ucast (paddr :: u64))"

section \<open>Choosing the vendor\<close>

definition xmhf_smpguest_arch_x86_eventhandler_dbexception :: "u32 \<Rightarrow> xmhf_state \<Rightarrow> xmhf_error + xmhf_state" where
  "xmhf_smpguest_arch_x86_eventhandler_dbexception vp s =
    bindE (HALT_ON_ERRORCOND (known_vendor (vcpus s vp))) (\<lambda>_.
    if cpu_vendor (vcpus s vp) = CPU_VENDOR_AMD then xmhf_smpguest_arch_x86svm_eventhandler_dbexception vp s
    else xmhf_smpguest_arch_x86vmx_eventhandler_dbexception vp s)"

definition xmhf_smpguest_arch_x86_eventhandler_hwpgtblviolation ::
  "u32 \<Rightarrow> u32 \<Rightarrow> u32 \<Rightarrow> xmhf_state \<Rightarrow> xmhf_error + xmhf_state" where
  "xmhf_smpguest_arch_x86_eventhandler_hwpgtblviolation vp gpa errorcode s =
    bindE (HALT_ON_ERRORCOND (known_vendor (vcpus s vp))) (\<lambda>_.
    Inr (if cpu_vendor (vcpus s vp) = CPU_VENDOR_AMD
         then xmhf_smpguest_arch_x86svm_eventhandler_hwpgtblviolation vp gpa errorcode s
         else xmhf_smpguest_arch_x86vmx_eventhandler_hwpgtblviolation vp gpa errorcode s))"

definition xmhf_smpguest_arch_x86_eventhandler_nmiexception :: "u32 \<Rightarrow> hub \<Rightarrow> xmhf_error + hub" where
  "xmhf_smpguest_arch_x86_eventhandler_nmiexception vp = (\<lambda>(r, s).
    bindE (HALT_ON_ERRORCOND (known_vendor (vcpus s vp))) (\<lambda>_.
    if cpu_vendor (vcpus s vp) = CPU_VENDOR_AMD
    then Inr (r, xmhf_smpguest_arch_x86svm_eventhandler_nmiexception vp s)
    else xmhf_smpguest_arch_x86vmx_eventhandler_nmiexception vp (r, s)))"

definition xmhf_smpguest_arch_x86_postCPUwakeup :: "u32 \<Rightarrow> xmhf_state \<Rightarrow> xmhf_error + xmhf_state" where
  "xmhf_smpguest_arch_x86_postCPUwakeup vp s =
    bindE (HALT_ON_ERRORCOND (known_vendor (vcpus s vp))) (\<lambda>_.
    Inr (if cpu_vendor (vcpus s vp) = CPU_VENDOR_AMD then xmhf_smpguest_arch_x86svm_postCPUwakeup vp s
         else xmhf_smpguest_arch_x86vmx_postCPUwakeup vp s))"

definition xmhf_smpguest_arch_walk_pagetables :: "u32 \<Rightarrow> u32 \<Rightarrow> xmhf_state \<Rightarrow> xmhf_error + u32" where
  "xmhf_smpguest_arch_walk_pagetables vp vaddr s =
    bindE (HALT_ON_ERRORCOND (known_vendor (vcpus s vp))) (\<lambda>_.
    Inr (if cpu_vendor (vcpus s vp) = CPU_VENDOR_AMD
         then xmhf_smpguest_arch_x86svm_walk_pagetables (vmcb_of vp s) (mem s) vaddr
         else xmhf_smpguest_arch_x86vmx_walk_pagetables (vcpus s vp) (mem s) vaddr))"

definition xmhf_smpguest_arch_quiesce :: "hardware \<Rightarrow> u32 \<Rightarrow> xmhf_state \<Rightarrow> xmhf_error + xmhf_state" where
  "xmhf_smpguest_arch_quiesce hw vp s =
    bindE (HALT_ON_ERRORCOND (known_vendor (vcpus s vp))) (\<lambda>_.
    if cpu_vendor (vcpus s vp) = CPU_VENDOR_AMD then xmhf_smpguest_arch_x86svm_quiesce hw vp s
    else xmhf_smpguest_arch_x86vmx_quiesce hw vp s)"

definition xmhf_smpguest_arch_endquiesce :: "u32 \<Rightarrow> xmhf_state \<Rightarrow> xmhf_error + xmhf_state" where
  "xmhf_smpguest_arch_endquiesce vp s =
    bindE (HALT_ON_ERRORCOND (known_vendor (vcpus s vp))) (\<lambda>_.
    Inr (if cpu_vendor (vcpus s vp) = CPU_VENDOR_AMD then xmhf_smpguest_arch_x86svm_endquiesce vp s
         else xmhf_smpguest_arch_x86vmx_endquiesce vp s))"

section \<open>One emulated access, on both vendors\<close>

text \<open>What reaches the registers of the interrupt controller, and what a write of the guest should send there.\<close>

definition device_writes :: "xmhf_state \<Rightarrow> (u32 \<times> u32) list" where
  "device_writes s = concat (map (\<lambda>x. case x of MmioWrite32 a v \<Rightarrow> [(a, v)] | _ \<Rightarrow> []) (hwlog s))"

definition forwarded :: "u32 \<Rightarrow> u32 \<Rightarrow> u32 \<Rightarrow> (u32 \<times> u32) list" where
  "forwarded base reg v = (if reg = LAPIC_ICR_LOW \<and> v AND 0xF00 \<in> {0x500, 0x600} then [] else [(base + reg, v)])"

text \<open>
  The contract of a backend that intercepts the interrupt controller: the fault handler notes the access and sends nothing;
  the debug handler sends a noted write through the filter, and keeps the page hidden until every core has its start-up
  command.
\<close>

locale lapic_backend =
  fixes fault :: "u32 \<Rightarrow> u32 \<Rightarrow> u32 \<Rightarrow> xmhf_state \<Rightarrow> xmhf_state"
    and debug :: "u32 \<Rightarrow> xmhf_state \<Rightarrow> xmhf_error + xmhf_state"
    and lbase lvirt lreg lop :: "xmhf_state \<Rightarrow> u32"
    and is_write :: "u32 \<Rightarrow> bool"
    and hidden :: "u32 \<Rightarrow> xmhf_state \<Rightarrow> bool"
  assumes fault_base: "lbase (fault vp p c s) = lbase s" and fault_virt: "lvirt (fault vp p c s) = lvirt s"
    and fault_reg: "lreg (fault vp p c s) = p - lbase s"
    and fault_op: "lop (fault vp p c s) = (if is_icr (p - lbase s) then if is_write c then LAPIC_OP_WRITE else LAPIC_OP_READ
      else LAPIC_OP_RSVD)"
    and fault_silent: "device_writes (fault vp p c s) = device_writes s"
    and page_notes: "lbase (s\<lparr>mem := m\<rparr>) = lbase s" "lvirt (s\<lparr>mem := m\<rparr>) = lvirt s" "lreg (s\<lparr>mem := m\<rparr>) = lreg s"
      "lop (s\<lparr>mem := m\<rparr>) = lop s"
    and debug_write: "lop s = LAPIC_OP_WRITE \<Longrightarrow> debug vp s = Inr s' \<Longrightarrow>
      device_writes s' = device_writes s @ forwarded (lbase s) (lreg s) (ld32 (mem s) (lvirt s + lreg s))"
    and debug_other: "lop s \<noteq> LAPIC_OP_WRITE \<Longrightarrow> debug vp s = Inr s' \<Longrightarrow> device_writes s' = device_writes s"
    and debug_hides: "debug vp s = Inr s' \<Longrightarrow> take_bit 12 (lbase s) = 0 \<Longrightarrow> have_all_cores_recievedSIPI s' \<or> hidden vp s'"
begin

lemma emulated_access:
  assumes "debug vp ((fault vp p c s)\<lparr>mem := st32 (mem (fault vp p c s)) (lvirt s + (p - lbase s)) v\<rparr>) = Inr s'"
    and "take_bit 12 (lbase s) = 0"
  shows "device_writes s' = device_writes s
      @ (if is_icr (p - lbase s) \<and> is_write c then forwarded (lbase s) (p - lbase s) v else [])
    \<and> (have_all_cores_recievedSIPI s' \<or> hidden vp s')"
proof -
  define s1 where "s1 = (fault vp p c s)\<lparr>mem := st32 (mem (fault vp p c s)) (lvirt s + (p - lbase s)) v\<rparr>"
  have n: "lbase s1 = lbase s" "lvirt s1 = lvirt s" "lreg s1 = p - lbase s" "device_writes s1 = device_writes s"
    "lop s1 = (if is_icr (p - lbase s) then if is_write c then LAPIC_OP_WRITE else LAPIC_OP_READ else LAPIC_OP_RSVD)"
    "ld32 (mem s1) (lvirt s1 + lreg s1) = v"
    using fault_silent[of vp p c s]
    by (simp_all add: s1_def page_notes fault_base fault_virt fault_reg fault_op device_writes_def)
  have d: "debug vp s1 = Inr s'" using assms(1) by (simp add: s1_def)
  have "device_writes s' = device_writes s
      @ (if is_icr (p - lbase s) \<and> is_write c then forwarded (lbase s) (p - lbase s) v else [])"
  proof (cases "lop s1 = LAPIC_OP_WRITE")
    case True
    then have "is_icr (p - lbase s) \<and> is_write c" unfolding n by (simp add: xconst split: if_splits)
    then show ?thesis using debug_write[OF True d, unfolded n(6)] by (simp add: n(1,3,4))
  next
    case False
    then have "\<not> (is_icr (p - lbase s) \<and> is_write c)" unfolding n by auto
    then show ?thesis using debug_other[OF False d] by (auto simp: n)
  qed
  then show ?thesis using debug_hides[OF d] assms(2) n(1) by simp
qed

end

definition vmx_lapic_hidden :: "u32 \<Rightarrow> xmhf_state \<Rightarrow> bool" where
  "vmx_lapic_hidden vp s \<longleftrightarrow>
    ld64 (mem s) (elem64 (vmx_vaddr_ept_p_tables (vcpus s vp)) (unat (g_vmx_lapic_base s div PAGE_SIZE_4K))) AND 7 = 0"

definition svm_lapic_hidden :: "u32 \<Rightarrow> xmhf_state \<Rightarrow> bool" where
  "svm_lapic_hidden vp s \<longleftrightarrow>
    ld64 (mem s) (elem64 (npt_vaddr_pts (vcpus s vp)) (unat (g_svm_lapic_base s div PAGE_SIZE_4K))) AND 1 = 0"

lemma device_writes_simps [simp]:
  "device_writes (hw_do x s) = device_writes s @ (case x of MmioWrite32 a v \<Rightarrow> [(a, v)] | _ \<Rightarrow> [])"
  "device_writes (upd_vmcs vp f s) = device_writes s" "device_writes (upd_vmcb vp g s) = device_writes s"
  "device_writes (vmx_lapic_changemapping vp a b fl s) = device_writes s"
  by (simp_all add: device_writes_def)

text \<open>The Intel backend.\<close>

lemma vmx_fault_notes:
  fixes s :: xmhf_state
  shows "g_vmx_virtual_LAPIC_base (xmhf_smpguest_arch_x86vmx_eventhandler_hwpgtblviolation vp p c s) = g_vmx_virtual_LAPIC_base s"
    "device_writes (xmhf_smpguest_arch_x86vmx_eventhandler_hwpgtblviolation vp p c s) = device_writes s"
  using hwpgtblviolation_effect(7,10)[of vp p c s] by (simp_all add: device_writes_def)

lemma emulate_write_forwards:
  assumes "lapic_emulate_write s = Inr (s', d)"
  shows "device_writes s' = device_writes s
    @ forwarded (g_vmx_lapic_base s) (g_vmx_lapic_reg s) (ld32 (mem s) (g_vmx_virtual_LAPIC_base s + g_vmx_lapic_reg s))"
  using assms unfolding lapic_emulate_write_def Let_def forwarded_def
  by (auto split: if_splits simp: processSIPI_keeps device_writes_def)

lemma vmx_debug_writes:
  fixes s :: xmhf_state
  assumes "xmhf_smpguest_arch_x86vmx_eventhandler_dbexception vp s = Inr s'"
  shows "g_vmx_lapic_op s = LAPIC_OP_WRITE \<Longrightarrow> device_writes s' = device_writes s
      @ forwarded (g_vmx_lapic_base s) (g_vmx_lapic_reg s) (ld32 (mem s) (g_vmx_virtual_LAPIC_base s + g_vmx_lapic_reg s))"
    "g_vmx_lapic_op s \<noteq> LAPIC_OP_WRITE \<Longrightarrow> device_writes s' = device_writes s"
  using assms
  by - (erule dbexception_split, simp add: device_writes_def emulate_write_forwards[unfolded device_writes_def])+

lemma vmx_debug_keeps:
  assumes "xmhf_smpguest_arch_x86vmx_eventhandler_dbexception vp s = Inr s'"
  shows "g_vmx_lapic_base s' = g_vmx_lapic_base s"
    "vmx_vaddr_ept_p_tables (vcpus s' vp) = vmx_vaddr_ept_p_tables (vcpus s vp)"
  using assms unfolding xmhf_smpguest_arch_x86vmx_eventhandler_dbexception_def Let_def
  by (auto simp: emulate_write_keeps split: if_splits)

lemma vmx_debug_hides:
  assumes "xmhf_smpguest_arch_x86vmx_eventhandler_dbexception vp s = Inr s'" "take_bit 12 (g_vmx_lapic_base s) = 0"
  shows "have_all_cores_recievedSIPI s' \<or> vmx_lapic_hidden vp s'"
  using assms(1)
proof (rule dbexception_split)
  fix s1 d
  assume st: "(if g_vmx_lapic_op s = LAPIC_OP_WRITE then lapic_emulate_write s else Inr (s, False)) = Inr (s1, d)"
    and m: "mem s' = st64 (mem s) (elem64 (vmx_vaddr_ept_p_tables (vcpus s vp)) (unat (g_vmx_lapic_base s div PAGE_SIZE_4K)))
        (ucast (g_vmx_lapic_base s) OR (if d then VMX_LAPIC_MAP else VMX_LAPIC_UNMAP))"
    and v: "vcpus s' = (vcpus s1)(vp := (vcpus s1 vp)\<lparr>vmcs := vmcs_of vp s'\<rparr>)" and mt: "g_midtable s' = g_midtable s1"
  have f: "isbsp (vcpus s' p) = isbsp (vcpus s1 p)" "sipireceived (vcpus s' p) = sipireceived (vcpus s1 p)" for p
    by (subst v, simp)+
  show ?thesis
  proof (cases d)
    case True
    then have "have_all_cores_recievedSIPI s1" using st by (auto simp: emulate_write_delink split: if_splits)
    then show ?thesis unfolding have_all_cores_recievedSIPI_def mt by (simp add: f Let_def)
  next
    case False
    then show ?thesis
      using lapic_entry_walk(1)[OF assms(2)] by (simp add: vmx_lapic_hidden_def vmx_debug_keeps[OF assms(1)] m)
  qed
qed

interpretation vmx: lapic_backend xmhf_smpguest_arch_x86vmx_eventhandler_hwpgtblviolation
  xmhf_smpguest_arch_x86vmx_eventhandler_dbexception g_vmx_lapic_base g_vmx_virtual_LAPIC_base g_vmx_lapic_reg g_vmx_lapic_op
  "\<lambda>c. c AND EPT_ERRORCODE_WRITE \<noteq> 0" vmx_lapic_hidden
  by unfold_locales (simp_all add: hwpgtblviolation_effect lapic_op_of_def vmx_fault_notes vmx_debug_writes vmx_debug_hides)

text \<open>The AMD backend.\<close>

abbreviation lapic_pte :: "u32 \<Rightarrow> u32 \<Rightarrow> xmhf_state \<Rightarrow> u32" where
  "lapic_pte vp a s \<equiv> elem64 (npt_vaddr_pts (vcpus s vp)) (unat (a div PAGE_SIZE_4K))"

lemma clear_all_bits: "(x :: u64) AND - 18446744073709551616 = 0"
proof -
  have z: "(18446744073709551616 :: u64) = 0" by simp
  show ?thesis unfolding z by simp
qed

lemma svm_changemapping_simps [simp]:
  "vcpus (svm_lapic_changemapping vp a b f s) = vcpus s"
  "mem (svm_lapic_changemapping vp a b f s)
    = st64 (mem s) (lapic_pte vp a s) (pae_make_pte (ucast b) f)"
  "vmcbs (svm_lapic_changemapping vp a b f s)
    = (vmcbs s)(vmcb_vaddr_ptr (vcpus s vp) := (vmcb_of vp s)\<lparr>tlb_control := VMCB_TLB_CONTROL_FLUSHALL\<rparr>)"
  "rpb (svm_lapic_changemapping vp a b f s) = rpb s" "hwlog (svm_lapic_changemapping vp a b f s) = hwlog s"
  "g_midtable (svm_lapic_changemapping vp a b f s) = g_midtable s"
  "g_svm_lapic_base (svm_lapic_changemapping vp a b f s) = g_svm_lapic_base s"
  "g_svm_lapic_reg (svm_lapic_changemapping vp a b f s) = g_svm_lapic_reg s"
  "g_svm_lapic_op (svm_lapic_changemapping vp a b f s) = g_svm_lapic_op s"
  "g_svm_virtual_LAPIC_base (svm_lapic_changemapping vp a b f s) = g_svm_virtual_LAPIC_base s"
  "device_writes (svm_lapic_changemapping vp a b f s) = device_writes s"
  by (simp_all add: svm_lapic_changemapping_def xmhf_memprot_arch_x86svm_flushmappings_def Let_def device_writes_def clear_all_bits)

definition svm_lapic_target :: "xmhf_state \<Rightarrow> u32 \<Rightarrow> u32" where
  "svm_lapic_target s paddr = (if is_icr (paddr - g_svm_lapic_base s) then g_svm_virtual_LAPIC_base s else g_svm_lapic_base s)"

lemma svm_fault_effect:
  fixes s :: xmhf_state and vp paddr errorcode :: u32
  defines "s' \<equiv> xmhf_smpguest_arch_x86svm_eventhandler_hwpgtblviolation vp paddr errorcode s"
  shows "g_svm_lapic_reg s' = paddr - g_svm_lapic_base s" "g_svm_lapic_base s' = g_svm_lapic_base s"
    "g_svm_virtual_LAPIC_base s' = g_svm_virtual_LAPIC_base s"
    "g_svm_lapic_op s' = (if is_icr (paddr - g_svm_lapic_base s)
       then if errorcode AND VMCB_NPT_ERRORCODE_RW \<noteq> 0 then LAPIC_OP_WRITE else LAPIC_OP_READ else LAPIC_OP_RSVD)"
    "device_writes s' = device_writes s" "vcpus s' = vcpus s"
    "vmcbs s' (vmcb_vaddr_ptr (vcpus s vp)) = (vmcb_of vp s)\<lparr>tlb_control := VMCB_TLB_CONTROL_FLUSHALL,
       exception_intercepts_bitmask := exception_intercepts_bitmask (vmcb_of vp s) OR EXCEPTION_INTERCEPT_DB,
       vmcb_rflags := vmcb_rflags (vmcb_of vp s) OR EFLAGS_TF\<rparr>"
    "mem s' = st64 (mem s) (lapic_pte vp (g_svm_lapic_base s) s)
       (pae_make_pte (ucast (svm_lapic_target s paddr)) SVM_LAPIC_MAP)"
  unfolding s'_def xmhf_smpguest_arch_x86svm_eventhandler_hwpgtblviolation_def Let_def svm_lapic_target_def
  by (simp_all add: hva2spa_def device_writes_def)

lemma svm_emulate_write_keeps:
  assumes "svm_lapic_emulate_write s = Inr (s', d)"
  shows "mem s' = mem s" "vmcbs s' = vmcbs s" "g_svm_lapic_base s' = g_svm_lapic_base s"
    "vmcb_vaddr_ptr (vcpus s' p) = vmcb_vaddr_ptr (vcpus s p)" "npt_vaddr_pts (vcpus s' p) = npt_vaddr_pts (vcpus s p)"
    "cpu_vendor (vcpus s' p) = cpu_vendor (vcpus s p)" "d \<Longrightarrow> have_all_cores_recievedSIPI s'"
    "device_writes s' = device_writes s @ forwarded (g_svm_lapic_base s) (g_svm_lapic_reg s)
      (ld32 (mem s) (g_svm_virtual_LAPIC_base s + g_svm_lapic_reg s))"
  using assms unfolding svm_lapic_emulate_write_def processSIPI_def Let_def forwarded_def
  by (auto split: if_splits option.splits simp: device_writes_def)

lemma svm_debug_effect:
  assumes "xmhf_smpguest_arch_x86svm_eventhandler_dbexception vp s = Inr s'"
  obtains s1 d where
    "(if g_svm_lapic_op s = LAPIC_OP_WRITE then svm_lapic_emulate_write s else Inr (s, False)) = Inr (s1, d)"
    "vmcb_of vp s' = (vmcb_of vp s)\<lparr>exception_intercepts_bitmask :=
        exception_intercepts_bitmask (vmcb_of vp s) AND NOT EXCEPTION_INTERCEPT_DB,
        vmcb_rflags := vmcb_rflags (vmcb_of vp s) AND NOT EFLAGS_TF, tlb_control := VMCB_TLB_CONTROL_FLUSHALL\<rparr>"
    "mem s' = st64 (mem s) (lapic_pte vp (g_svm_lapic_base s) s)
        (pae_make_pte (ucast (g_svm_lapic_base s)) (if d then SVM_LAPIC_MAP else SVM_LAPIC_UNMAP))"
    "device_writes s' = device_writes s1" "vcpus s' = vcpus s1" "g_midtable s' = g_midtable s1"
    "g_svm_lapic_base s' = g_svm_lapic_base s"
proof -
  define fin where "fin = (\<lambda>(s1, d). hw_do Stgi (svm_lapic_changemapping vp (g_svm_lapic_base s1) (g_svm_lapic_base s1)
      (if d then SVM_LAPIC_MAP else SVM_LAPIC_UNMAP)
      (upd_vmcb vp (\<lambda>c. c\<lparr>vmcb_rflags := vmcb_rflags c AND NOT EFLAGS_TF\<rparr>)
        (upd_vmcb vp (\<lambda>c. c\<lparr>exception_intercepts_bitmask := exception_intercepts_bitmask c AND NOT EXCEPTION_INTERCEPT_DB\<rparr>) s1))))"
  let ?st = "if g_svm_lapic_op s = LAPIC_OP_WRITE then svm_lapic_emulate_write s else Inr (s, False)"
  have "\<exists>r. ?st = Inr r \<and> s' = fin r"
  proof (cases "g_svm_lapic_op s = LAPIC_OP_WRITE")
    case True
    then show ?thesis
      using assms unfolding xmhf_smpguest_arch_x86svm_eventhandler_dbexception_def Let_def fin_def
      by (cases "svm_lapic_emulate_write s") auto
  next
    case False
    then show ?thesis
      using assms unfolding xmhf_smpguest_arch_x86svm_eventhandler_dbexception_def Let_def fin_def by (auto split: if_splits)
  qed
  then obtain s1 d where st: "?st = Inr (s1, d)" and s': "s' = fin (s1, d)" by (metis prod.collapse)
  have k: "mem s1 = mem s" "vmcbs s1 = vmcbs s" "g_svm_lapic_base s1 = g_svm_lapic_base s"
    "vmcb_vaddr_ptr (vcpus s1 vp) = vmcb_vaddr_ptr (vcpus s vp)" "npt_vaddr_pts (vcpus s1 vp) = npt_vaddr_pts (vcpus s vp)"
    using st by (auto simp: svm_emulate_write_keeps split: if_splits)
  show thesis by (rule that[OF st]) (simp_all add: s' fin_def k)
qed

lemma svm_debug_writes:
  assumes "xmhf_smpguest_arch_x86svm_eventhandler_dbexception vp s = Inr s'"
  shows "g_svm_lapic_op s = LAPIC_OP_WRITE \<Longrightarrow> device_writes s' = device_writes s
      @ forwarded (g_svm_lapic_base s) (g_svm_lapic_reg s) (ld32 (mem s) (g_svm_virtual_LAPIC_base s + g_svm_lapic_reg s))"
    "g_svm_lapic_op s \<noteq> LAPIC_OP_WRITE \<Longrightarrow> device_writes s' = device_writes s"
  using assms by - (erule svm_debug_effect, simp add: svm_emulate_write_keeps)+

lemma svm_debug_hides:
  assumes "xmhf_smpguest_arch_x86svm_eventhandler_dbexception vp s = Inr s'"
  shows "have_all_cores_recievedSIPI s' \<or> svm_lapic_hidden vp s'"
  using assms
proof (rule svm_debug_effect)
  fix s1 d
  assume st: "(if g_svm_lapic_op s = LAPIC_OP_WRITE then svm_lapic_emulate_write s else Inr (s, False)) = Inr (s1, d)"
    and m: "mem s' = st64 (mem s) (lapic_pte vp (g_svm_lapic_base s) s)
        (pae_make_pte (ucast (g_svm_lapic_base s)) (if d then SVM_LAPIC_MAP else SVM_LAPIC_UNMAP))"
    and v: "vcpus s' = vcpus s1" "g_midtable s' = g_midtable s1" "g_svm_lapic_base s' = g_svm_lapic_base s"
  have "d \<Longrightarrow> have_all_cores_recievedSIPI s1" using st by (auto simp: svm_emulate_write_keeps split: if_splits)
  moreover have "have_all_cores_recievedSIPI s1 = have_all_cores_recievedSIPI s'"
    unfolding have_all_cores_recievedSIPI_def by (simp add: v)
  moreover have "npt_vaddr_pts (vcpus s' vp) = npt_vaddr_pts (vcpus s vp)"
    using st v(1) by (auto simp: svm_emulate_write_keeps split: if_splits)
  moreover have "pae_make_pte (ucast x) SVM_LAPIC_UNMAP AND 1 = 0" for x :: u32
    by (rule u64_bitsI) (simp add: pae_make_pte_def xconst bit_simps)
  ultimately show ?thesis by (cases d) (simp_all add: svm_lapic_hidden_def m v)
qed

interpretation svm: lapic_backend xmhf_smpguest_arch_x86svm_eventhandler_hwpgtblviolation
  xmhf_smpguest_arch_x86svm_eventhandler_dbexception g_svm_lapic_base g_svm_virtual_LAPIC_base g_svm_lapic_reg g_svm_lapic_op
  "\<lambda>c. c AND VMCB_NPT_ERRORCODE_RW \<noteq> 0" svm_lapic_hidden
  by unfold_locales (simp_all add: svm_fault_effect svm_debug_writes svm_debug_hides)

section \<open>The two vendors alike\<close>

definition on_amd :: "u32 \<Rightarrow> xmhf_state \<Rightarrow> bool" where
  "on_amd vp s \<longleftrightarrow> cpu_vendor (vcpus s vp) = CPU_VENDOR_AMD"

definition guest_cr0 :: "u32 \<Rightarrow> xmhf_state \<Rightarrow> u64" where
  "guest_cr0 vp s = (if on_amd vp s then vmcb_cr0 (vmcb_of vp s) else guest_CR0 (vmcs_of vp s))"

definition guest_cr3 :: "u32 \<Rightarrow> xmhf_state \<Rightarrow> u64" where
  "guest_cr3 vp s = (if on_amd vp s then vmcb_cr3 (vmcb_of vp s) else guest_CR3 (vmcs_of vp s))"

definition guest_cr4 :: "u32 \<Rightarrow> xmhf_state \<Rightarrow> u64" where
  "guest_cr4 vp s = (if on_amd vp s then vmcb_cr4 (vmcb_of vp s) else guest_CR4 (vmcs_of vp s))"

text \<open>
  Where a store of the guest goes: to what the processor's walk of the tables makes of the address, if the walk allows a
  write. In the page of the interrupt controller that is a register of the device, elsewhere a word of memory, which
  the hypervisor sees at the address its own mapping has for it.
\<close>

definition guest_store32 :: "u32 \<Rightarrow> u32 \<Rightarrow> u32 \<Rightarrow> xmhf_state \<Rightarrow> xmhf_state option" where
  "guest_store32 vp gpa v s =
    (case lapic_walk vp s gpa of
       None \<Rightarrow> None
     | Some (spa, rights, _) \<Rightarrow>
         if \<not> bit rights 1 then None
         else if walk_addr spa = ucast (g_vmx_lapic_base s) then Some (hw_do (MmioWrite32 (ucast spa) v) s)
         else Some (s\<lparr>mem := st32 (mem s) (spa2hva1 (rpb s) spa) v\<rparr>))"

lemma page_register:
  fixes a k :: u32
  assumes "take_bit 12 a = 0" and "k < 4096"
  shows "page_of (a + k) = a" "(a + k) AND 0xFFF = k" "a OR k = a + k"
proof -
  have "take_bit 12 k = k" using assms(2) less_mask_eq[of k 12] by (simp add: take_bit_eq_mask)
  then have kb: "\<not> bit k n" if "12 \<le> n" for n
    using that by (metis bit_take_bit_iff not_less)
  have z: "a AND k = 0" by (rule u32_bitsI) (use aligned_low_bits[OF assms(1)] kb in \<open>auto simp: bit_simps not_less\<close>)
  then show o: "a OR k = a + k" by (rule disjunctive_add_eq_or[symmetric])
  show "page_of (a + k) = a" "(a + k) AND 0xFFF = k"
    unfolding o[symmetric] page_of_def
    by (rule u32_bitsI, use aligned_low_bits[OF assms(1)] kb in \<open>auto simp: bit_simps not_less\<close>)+
qed

text \<open>The fault handler has the store land in the buffer.\<close>

lemma fault_store_lands:
  fixes s :: xmhf_state and vp gpa code v :: u32
  assumes "lapic_ready vp s" and "is_icr (gpa - g_vmx_lapic_base s)"
    and "hva2spa1 (rpb s) (g_vmx_virtual_LAPIC_base s) \<noteq> ucast (g_vmx_lapic_base s)"
  defines "s1 \<equiv> xmhf_smpguest_arch_x86vmx_eventhandler_hwpgtblviolation vp gpa code s"
  shows "guest_store32 vp gpa v s1
    = Some (s1\<lparr>mem := st32 (mem s1) (g_vmx_virtual_LAPIC_base s + (gpa - g_vmx_lapic_base s)) v\<rparr>)"
proof -
  define k where "k = gpa - g_vmx_lapic_base s"
  define x where "x = g_vmx_virtual_LAPIC_base s + XtVmmRuntimePhysBase (rpb s) - XtVmmRuntimeVirtBase (rpb s)"
  have x: "hva2spa1 (rpb s) (g_vmx_virtual_LAPIC_base s) = ucast x" by (simp add: hva2spa1_def x_def)
  have k: "k < 4096" and g: "gpa = g_vmx_lapic_base s + k" using assms(2) by (auto simp: k_def is_icr_def xconst)
  have al: "take_bit 12 (g_vmx_lapic_base s) = 0" "take_bit 12 x = 0" using assms(1) by (simp_all add: lapic_ready_def x)
  note P = page_register[OF al(1) k] page_register[OF al(2) k]
  have off: "(ucast gpa AND 0xFFF :: u64) = ucast k"
  proof -
    have "(ucast gpa AND 0xFFF :: u64) = ucast (gpa AND 0xFFF)" by (rule u64_bitsI) (simp add: bit_simps u32_high_bit)
    then show ?thesis using P(2) by (simp add: g)
  qed
  have w: "lapic_walk vp s1 gpa = Some (ucast (x + k), 3, 0)"
  proof -
    have "page_of gpa = page_of (g_vmx_lapic_base s)" using P(1) page_register(1)[OF al(1), of 0] by (simp add: g)
    then have "lapic_walk vp s1 gpa = Some (ucast x OR (ucast gpa AND 0xFFF), 3, 0)"
      using lapic_fault_redirects[OF assms(1), of gpa code gpa] assms(2) unfolding s1_def by (simp add: lapic_target_def x)
    moreover have "(ucast x OR ucast k :: u64) = ucast (x + k)"
      unfolding P(6)[symmetric] by (rule u64_bitsI) (simp add: bit_simps)
    ultimately show ?thesis by (simp add: off)
  qed
  have "walk_addr (ucast (x + k)) = (ucast x :: u64)"
  proof -
    have "walk_addr (ucast y) = (ucast (page_of y) :: u64)" for y :: u32
      by (rule u64_bitsI) (simp add: walk_addr_def bit_simps u32_high_bit page_of_def)
    then show ?thesis by (simp add: P(4))
  qed
  moreover have "spa2hva1 (rpb s) (ucast (x + k)) = g_vmx_virtual_LAPIC_base s + k"
    by (simp add: spa2hva1_def x_def)
  moreover have "g_vmx_lapic_base s1 = g_vmx_lapic_base s" "rpb s1 = rpb s"
    by (simp_all add: s1_def hwpgtblviolation_effect)
  ultimately show ?thesis
    using assms(3) w unfolding guest_store32_def by (simp add: x k_def bit_numeral_rec)
qed

text \<open>
  C24: One write of the guest to the interrupt command register on Intel, from the fault to the end of the single step.
  With the tables of the core built, the fault handler maps the page such that the store of the guest, through the
  processor's walk, is allowed and does not get to the device; when the debug handler then returns, the value has gone to the
  device exactly once and unchanged, unless it is an INIT or start-up command, which never gets there; and the page is
  hidden from the guest again until every core has had its start-up command.
\<close>

theorem lapic_write_emulated:
  fixes s :: xmhf_state
  assumes "lapic_ready vp s" and "is_icr (gpa - g_vmx_lapic_base s)" and "bit code 1"
    and "hva2spa1 (rpb s) (g_vmx_virtual_LAPIC_base s) \<noteq> ucast (g_vmx_lapic_base s)"
  shows "\<exists>s1. guest_store32 vp gpa v (xmhf_smpguest_arch_x86vmx_eventhandler_hwpgtblviolation vp gpa code s) = Some s1
    \<and> (\<forall>s2. xmhf_smpguest_arch_x86vmx_eventhandler_dbexception vp s1 = Inr s2 \<longrightarrow>
        device_writes s2 = device_writes s @ forwarded (g_vmx_lapic_base s) (gpa - g_vmx_lapic_base s) v
        \<and> (have_all_cores_recievedSIPI s2 \<or> vmx_lapic_hidden vp s2))"
proof -
  have "code AND EPT_ERRORCODE_WRITE \<noteq> 0" using assms(3) and_nonzero_iff_bit[of code 1] by (simp add: xconst)
  moreover have "take_bit 12 (g_vmx_lapic_base s) = 0" using assms(1) by (simp add: lapic_ready_def)
  ultimately show ?thesis
    using fault_store_lands[OF assms(1,2,4), where code = code and v = v] vmx.emulated_access[of vp gpa code s v] assms(2) by auto
qed


text \<open>What is lost on AMD: the single step clears the trap flag whether or not the guest had set it.\<close>

lemma svm_trap_flag_lost:
  assumes "xmhf_smpguest_arch_x86svm_eventhandler_dbexception vp
      (xmhf_smpguest_arch_x86svm_eventhandler_hwpgtblviolation vp paddr errorcode s) = Inr s'"
  shows "vmcb_rflags (vmcb_of vp s') = vmcb_rflags (vmcb_of vp s) AND NOT EFLAGS_TF"
proof -
  have "(x OR EFLAGS_TF) AND NOT EFLAGS_TF = x AND NOT EFLAGS_TF" for x :: u64 by (rule u64_bitsI) (auto simp: bit_simps)
  then show ?thesis using assms by (auto elim!: svm_debug_effect simp: svm_fault_effect)
qed

text \<open>
  An interrupt of the guest is told apart the wrong way round: the one that made the guest exit is dropped, one that came while
  the hypervisor ran is injected.
\<close>

lemma svm_guest_nmi_dropped:
  assumes "g_svm_quiesce s = 0"
  shows "exitcode (vmcb_of vp s) = SVM_VMEXIT_NMI \<Longrightarrow> xmhf_smpguest_arch_x86svm_eventhandler_nmiexception vp s = s"
    "exitcode (vmcb_of vp s) \<noteq> SVM_VMEXIT_NMI \<Longrightarrow> \<not> bit (exception_intercepts_bitmask (vmcb_of vp s)) 1 \<Longrightarrow>
      inj_v (eventinj (vmcb_of vp (xmhf_smpguest_arch_x86svm_eventhandler_nmiexception vp s)))"
  using assms and_nonzero_iff_bit[of "exception_intercepts_bitmask (vmcb_of vp s)" 1]
  by (simp_all add: xmhf_smpguest_arch_x86svm_eventhandler_nmiexception_def inject_nmi_def xconst)

section \<open>Examples\<close>

definition amd_vcpu :: VCPU where
  "amd_vcpu = zero_VCPU\<lparr>cpu_vendor := CPU_VENDOR_AMD, isbsp := 1, vmcb_vaddr_ptr := 0x10020000, npt_vaddr_ptr := 0x10002000,
     npt_vaddr_pdts := 0x10004000, npt_vaddr_pts := 0x10800000, npt_asid := 2\<rparr>"

definition amd_state :: xmhf_state where
  "amd_state = sample_state\<lparr>vcpus := (\<lambda>_. amd_vcpu), g_svm_lapic_base := 0xFEE00000, g_svm_virtual_LAPIC_base := 0x10050000\<rparr>"

lemma amd_state_simps [simp]:
  "vcpus amd_state vp = amd_vcpu" "cpu_vendor amd_vcpu = CPU_VENDOR_AMD" "vmcb_vaddr_ptr amd_vcpu = 0x10020000"
  "g_svm_lapic_base amd_state = 0xFEE00000" "g_svm_virtual_LAPIC_base amd_state = 0x10050000" "vmcbs amd_state p = zero_vmcb"
  "hwlog amd_state = []" "npt_vaddr_pts amd_vcpu = 0x10800000" "mem amd_state = (\<lambda>a. 0)" "rpb amd_state = sample_rpb"
  "isbsp amd_vcpu = 1" "g_svm_quiesce amd_state = 0"
  by (simp_all add: amd_state_def amd_vcpu_def sample_state_def)

text \<open>The boot processor of an Intel machine writes an INIT command; nothing gets to the device.\<close>

theorem lapic_write_emulated_witness:
  "\<exists>s s1. lapic_ready 0 s
    \<and> guest_store32 0 0xFEE00300 0x000C4500 (xmhf_smpguest_arch_x86vmx_eventhandler_hwpgtblviolation 0 0xFEE00300 2 s) = Some s1
    \<and> (\<exists>s2. xmhf_smpguest_arch_x86vmx_eventhandler_dbexception 0 s1 = Inr s2 \<and> device_writes s2 = device_writes s)"
proof -
  obtain s0 :: xmhf_state where s0: "rpb s0 = sample_rpb" "ept_layout (rpb s0) (vcpus s0 0)" "ept_upper (rpb s0) (vcpus s0 0) (mem s0)"
    using sample_built ept_built_upper by blast
  define s where "s = s0\<lparr>g_vmx_lapic_base := 0xFEE00000, g_vmx_virtual_LAPIC_base := 0x10050000\<rparr>"
  have b: "g_vmx_lapic_base s = 0xFEE00000" "g_vmx_virtual_LAPIC_base s = 0x10050000" "rpb s = sample_rpb"
    using s0(1) by (simp_all add: s_def)
  have v: "hva2spa1 sample_rpb 0x10050000 = 0x10050000" by (simp add: hva2spa1_def sample_rpb_def)
  have r: "lapic_ready 0 s" using s0(2,3) by (simp add: lapic_ready_def b v) (simp add: s_def s0(1))
  have i: "is_icr (0xFEE00300 - g_vmx_lapic_base s)" by (simp add: b is_icr_def xconst)
  have n: "hva2spa1 (rpb s) (g_vmx_virtual_LAPIC_base s) \<noteq> ucast (g_vmx_lapic_base s)" by (simp add: b v)
  define f where "f = xmhf_smpguest_arch_x86vmx_eventhandler_hwpgtblviolation 0 0xFEE00300 2 s"
  note w = lapic_write_emulated[OF r i _ n, where code = 2 and v = "0x000C4500", folded f_def]
  obtain s1 where s1: "guest_store32 0 0xFEE00300 0x000C4500 f = Some s1"
    and d: "\<forall>s2. xmhf_smpguest_arch_x86vmx_eventhandler_dbexception 0 s1 = Inr s2 \<longrightarrow>
        device_writes s2 = device_writes s @ forwarded 0xFEE00000 0x300 0x000C4500"
    using w by (auto simp: b bit_numeral_rec)
  have e: "s1 = f\<lparr>mem := st32 (mem f) (g_vmx_virtual_LAPIC_base s + (0xFEE00300 - g_vmx_lapic_base s)) 0x000C4500\<rparr>"
    using fault_store_lands[OF r i n, where code = 2 and v = "0x000C4500", folded f_def] s1 by simp
  have "\<exists>s2. xmhf_smpguest_arch_x86vmx_eventhandler_dbexception 0 s1 = Inr s2"
    unfolding e f_def
    by (simp add: xmhf_smpguest_arch_x86vmx_eventhandler_dbexception_def lapic_emulate_write_def Let_def
        hwpgtblviolation_effect lapic_op_of_def b is_icr_def xconst)
  then obtain s2 where s2: "xmhf_smpguest_arch_x86vmx_eventhandler_dbexception 0 s1 = Inr s2" by blast
  have "device_writes s2 = device_writes s" using d s2 by (simp add: forwarded_def xconst)
  then show ?thesis using r s1 s2 unfolding f_def by blast
qed

text \<open>A guest with paging on and CR4.PSE set, whose first directory entry is a 4M page.\<close>

definition pse_state :: xmhf_state where
  "pse_state = upd_vmcb 0 (\<lambda>c. c\<lparr>vmcb_cr0 := 0x80000001, vmcb_cr4 := 0x10\<rparr>) (amd_state\<lparr>mem := st32 (\<lambda>a. 0) 0 0x80000083\<rparr>)"


end
