(* ===== verification/XMHF_QuiesceApp.thy ===== *)
theory XMHF_QuiesceApp
  imports XMHF_EventHub
begin

text \<open>
  The hypervisor application \<^verbatim>\<open>hypapps/quiesce\<close> (\<^verbatim>\<open>appmain.c\<close>, \<^verbatim>\<open>pages.c\<close>, \<^verbatim>\<open>malloc.c\<close>): on its
  hypercall it copies the memory map of a guest process, a linked list in guest memory, flattens it
  to a list of pages in its own heap, enters these pages into the hypervisor's page tables and
  installs two interrupt gates.

  The nodes of the lists, the page list and the page tables live in the byte memory at the addresses
  the code computes. The allocator \<^verbatim>\<open>tlsf.c\<close> is a parameter: its three entry points map a pool and a
  memory to a result and a memory. The loops that follow \<^verbatim>\<open>next\<close> pointers carry fuel and give
  \<open>Hang\<close> when it runs out; for a list that ends, fuel larger than its length is enough.
\<close>

section \<open>String functions and allocation\<close>

primrec memcpy :: "nat \<Rightarrow> u32 \<Rightarrow> u32 \<Rightarrow> memory \<Rightarrow> memory" where
  "memcpy 0 dst src m = m"
| "memcpy (Suc n) dst src m = memcpy n (dst + 1) (src + 1) (m(dst := m src))"

primrec memset :: "nat \<Rightarrow> u32 \<Rightarrow> u8 \<Rightarrow> memory \<Rightarrow> memory" where
  "memset 0 str c m = m"
| "memset (Suc n) str c m = memset n (str + 1) c (m(str := c))"

text \<open>They write only their target, and a copy to a place apart from its source arrives.\<close>

lemma memcpy_outside: "n < 2 ^ 32 \<Longrightarrow> x \<notin> span dst n \<Longrightarrow> memcpy n dst src m x = m x"
proof (induction n arbitrary: dst src m)
  case (Suc n)
  then show ?case using span_Suc[of n dst] by auto
qed simp

lemma memset_outside: "n < 2 ^ 32 \<Longrightarrow> x \<notin> span dst n \<Longrightarrow> memset n dst c m x = m x"
proof (induction n arbitrary: dst m)
  case (Suc n)
  then show ?case using span_Suc[of n dst] by auto
qed simp

lemma memcpy_inside:
  assumes "n < 2 ^ 32" "span dst n \<inter> span src n = {}" "i < n"
  shows "memcpy n dst src m (dst + of_nat i) = m (src + of_nat i)"
  using assms
proof (induction n arbitrary: dst src m i)
  case (Suc n)
  have n: "n < 2 ^ 32" using Suc.prems(1) by simp
  note S = span_Suc[OF n, of dst] span_Suc[OF n, of src]
  show ?case
  proof (cases i)
    case 0
    have "unat (- 1 :: u32) = 2 ^ 32 - 1" by (simp add: unsigned_minus_1_eq_mask mask_eq_exp_minus_1)
    then have "dst \<notin> span (dst + 1) n" using Suc.prems(1) by (simp add: span_iff)
    then show ?thesis using 0 n by (simp add: memcpy_outside)
  next
    case i: (Suc j)
    have "unat (of_nat i :: u32) = i" using Suc.prems by (intro unat_of_nat_small) simp
    then have "src + of_nat i \<in> span src (Suc n)" using Suc.prems(3) by (simp add: span_iff)
    then have "src + of_nat i \<noteq> dst" using Suc.prems(2) S by auto
    moreover have "span (dst + 1) n \<inter> span (src + 1) n = {}" using Suc.prems(2) unfolding S by blast
    ultimately show ?thesis
      using Suc.IH[OF n, of "dst + 1" "src + 1" j "m(dst := m src)"] Suc.prems(3) i by (simp add: add.assoc fun_upd_def)
  qed
qed simp

record tlsf =
  tlsf_create :: "u32 \<Rightarrow> u32 \<Rightarrow> memory \<Rightarrow> u32 \<times> memory"
  tlsf_malloc :: "u32 \<Rightarrow> u32 \<Rightarrow> memory \<Rightarrow> u32 \<times> memory"
  tlsf_free :: "u32 \<Rightarrow> u32 \<Rightarrow> memory \<Rightarrow> memory"

text \<open>Addresses the linker and the machine provide: globals, the IDT, the host's CR3.\<close>

record app_env =
  alloc :: tlsf
  g_pool :: u32
  memory_pool :: u32
  exceptionstubs :: u32
  idt_start :: u32
  sidt_address :: u32
  read_cr3 :: u32

definition HEAPMEM_POOLSIZE :: u32 where [xconst]: "HEAPMEM_POOLSIZE = 4 * 0x100000"

definition mem_init :: "app_env \<Rightarrow> memory \<Rightarrow> memory" where
  "mem_init E m = (let (p, m) = tlsf_create (alloc E) (memory_pool E) HEAPMEM_POOLSIZE m
                   in st32 m (g_pool E) p)"

definition malloc :: "app_env \<Rightarrow> u32 \<Rightarrow> memory \<Rightarrow> u32 \<times> memory" where
  "malloc E sz m = tlsf_malloc (alloc E) (ld32 m (g_pool E)) sz m"

definition calloc :: "app_env \<Rightarrow> u32 \<Rightarrow> u32 \<Rightarrow> memory \<Rightarrow> u32 \<times> memory" where
  "calloc E nmemb sz m =
    (let (p, m) = tlsf_malloc (alloc E) (ld32 m (g_pool E)) (nmemb * sz) m
     in (p, if p \<noteq> 0 then memset (unat (nmemb * sz)) p 0 m else m))"

definition free :: "app_env \<Rightarrow> u32 \<Rightarrow> memory \<Rightarrow> memory" where
  "free E p m = tlsf_free (alloc E) (ld32 m (g_pool E)) p m"

section \<open>Page lists\<close>

text \<open>
  A \<^verbatim>\<open>pagelist_t\<close> at \<open>pl\<close>: \<^verbatim>\<open>buf\<close>, \<^verbatim>\<open>page_base\<close>, \<^verbatim>\<open>num_allocd\<close> and \<^verbatim>\<open>num_used\<close>, 4 bytes each.
\<close>

definition pagelist_init :: "app_env \<Rightarrow> u32 \<Rightarrow> memory \<Rightarrow> xmhf_error + memory" where
  "pagelist_init E pl m =
    (let (buf, m) = malloc E (256 * PAGE_SIZE_4K) m;
         m = st32 m pl buf in
     if ld32 m pl = 0 then Inl Abort
     else let m = st32 m (pl + 4) (PAGE_ALIGN_UP4K (ld32 m pl));
              m = st32 m (pl + 8) (if ld32 m (pl + 4) = ld32 m pl then 256 else 255)
          in Inr (st32 m (pl + 12) 0))"

definition pagelist_get_page :: "u32 \<Rightarrow> memory \<Rightarrow> xmhf_error + u32 \<times> memory" where
  "pagelist_get_page pl m =
    (if ld32 m (pl + 12) < ld32 m (pl + 8) then
       let page = ld32 m (pl + 4) + ld32 m (pl + 12) * PAGE_SIZE_4K
       in Inr (page, st32 m (pl + 12) (ld32 m (pl + 12) + 1))
     else Inl Abort)"

definition pagelist_get_zeroedpage :: "u32 \<Rightarrow> memory \<Rightarrow> xmhf_error + u32 \<times> memory" where
  "pagelist_get_zeroedpage pl m =
    bindE (pagelist_get_page pl m) (\<lambda>(page, m). Inr (page, memset 0x1000 page 0 m))"

definition pagelist_free_all :: "app_env \<Rightarrow> u32 \<Rightarrow> memory \<Rightarrow> memory" where
  "pagelist_free_all E pl m =
    (let m = free E (ld32 m pl) m; m = st32 m pl 0 in st32 m (pl + 8) 0)"

section \<open>Address conversion\<close>

definition gva2gpa :: "VCPU \<Rightarrow> memory \<Rightarrow> u32 \<Rightarrow> u64" where
  "gva2gpa v m vaddr =
    (let kpd = npae_get_addr_from_32bit_cr3 (ucast (guest_CR3 (vmcs v)));
         pd_entry = ld32 m (kpd + 4 * npae_get_pdt_index vaddr) in
     if pd_entry AND PAGE_PSE \<noteq> 0
     then ucast (npae_get_addr_from_pte pd_entry) + ucast (npae_get_offset_big vaddr)
     else let kpt = npae_get_addr_from_pde pd_entry;
              pt_entry = ld32 m (kpt + 4 * npae_get_pt_index vaddr)
          in ucast (npae_get_addr_from_pte pt_entry) + ucast (npae_get_offset_4K_page vaddr))"

text \<open>The host's page directory that covers an address, as two functions below find it.\<close>

definition host_pd :: "app_env \<Rightarrow> RPB \<Rightarrow> memory \<Rightarrow> u32 \<Rightarrow> u32" where
  "host_pd E b m vaddr =
    (let hpdpt = spa2hva1 b (ucast (pae_get_addr_from_32bit_cr3 (read_cr3 E)));
         pdpt_entry = ucast (ld64 m (elem64 hpdpt (unat (pae_get_pdpt_index vaddr)))) :: u32;
         tmp = ucast (pae_get_addr_from_pdpe (ucast pdpt_entry)) :: u32
     in spa2hva1 b (ucast tmp))"

definition get_hpa_from_hva :: "app_env \<Rightarrow> RPB \<Rightarrow> memory \<Rightarrow> u32 \<Rightarrow> u64" where
  "get_hpa_from_hva E b m vaddr =
    (let hpd = host_pd E b m vaddr;
         pd_entry = ucast (ld64 m (elem64 hpd (unat (pae_get_pdt_index vaddr)))) :: u32;
         hpt = spa2hva1 b (ucast (npae_get_addr_from_pde pd_entry));
         pt_entry = ucast (ld64 m (elem64 hpt (unat (pae_get_pt_index vaddr))) AND 0xFFFFF000) :: u32
     in ucast (pt_entry + pae_get_offset_4K_page vaddr))"

definition copy_from_gva_to_hva :: "VCPU \<Rightarrow> u32 \<Rightarrow> u32 \<Rightarrow> nat \<Rightarrow> memory \<Rightarrow> memory" where
  "copy_from_gva_to_hva v vaddr dst len m = memcpy len dst (gpa2hva (gva2gpa v m vaddr)) m"

section \<open>The list of pages\<close>

text \<open>
  A \<^verbatim>\<open>proc_map_page_4K\<close> node is \<^verbatim>\<open>vaddr\<close>, \<^verbatim>\<open>paddr\<close>, \<^verbatim>\<open>is_huge_page\<close> and \<^verbatim>\<open>next\<close>, 4 bytes each; a
  \<^verbatim>\<open>proc_map_t\<close> node is \<^verbatim>\<open>start_addr\<close>, \<^verbatim>\<open>end_addr\<close>, \<^verbatim>\<open>is_huge_page\<close> and \<^verbatim>\<open>next\<close>.
\<close>

definition push_pa_map :: "app_env \<Rightarrow> u32 \<Rightarrow> u32 \<Rightarrow> u32 \<Rightarrow> u32 \<times> memory \<Rightarrow> u32 \<times> memory" where
  "push_pa_map E vaddr paddr is_huge_page = (\<lambda>(head, m).
    let (new_node, m) = malloc E 16 m;
        m = st32 m new_node vaddr;
        m = st32 m (new_node + 4) paddr;
        m = st32 m (new_node + 8) is_huge_page;
        m = st32 m (new_node + 12) head
    in (new_node, m))"

definition swap :: "u32 \<Rightarrow> u32 \<Rightarrow> memory \<Rightarrow> memory" where
  "swap a b m =
    (let temp1 = ld32 m a; temp2 = ld32 m (a + 4);
         m = st32 m a (ld32 m b);
         m = st32 m (a + 4) (ld32 m (b + 4));
         m = st32 m b temp1
     in st32 m (b + 4) temp2)"

text \<open>One pass of the sort from \<open>ptr1\<close> up to \<open>lptr\<close>, and the passes until one swaps nothing.\<close>

fun bubble_pass :: "nat \<Rightarrow> u32 \<Rightarrow> u32 \<Rightarrow> bool \<Rightarrow> memory \<Rightarrow> xmhf_error + u32 \<times> bool \<times> memory" where
  "bubble_pass 0 lptr ptr1 swapped m = Inl Hang"
| "bubble_pass (Suc fuel) lptr ptr1 swapped m =
    (let nxt = ld32 m (ptr1 + 12) in
     if nxt = lptr then Inr (ptr1, swapped, m)
     else if ld32 m ptr1 > ld32 m nxt \<and> ld32 m (nxt + 12) \<noteq> 0
     then let m = swap ptr1 nxt m in bubble_pass fuel lptr (ld32 m (ptr1 + 12)) True m
     else bubble_pass fuel lptr nxt swapped m)"

fun bubble_passes :: "nat \<Rightarrow> nat \<Rightarrow> u32 \<Rightarrow> u32 \<Rightarrow> memory \<Rightarrow> xmhf_error + memory" where
  "bubble_passes k 0 start lptr m = Inl Hang"
| "bubble_passes k (Suc fuel) start lptr m =
    bindE (bubble_pass k lptr start False m) (\<lambda>(ptr1, swapped, m).
    if swapped then bubble_passes k fuel start ptr1 m else Inr m)"

definition bubbleSort :: "nat \<Rightarrow> u32 \<Rightarrow> memory \<Rightarrow> xmhf_error + memory" where
  "bubbleSort fuel start m = bubble_passes fuel fuel start 0 m"

section \<open>The hypercall\<close>

text \<open>The pages of one region, \<open>n\<close> of them from \<open>host_vaddr\<close> on.\<close>

primrec push_pages ::
  "app_env \<Rightarrow> VCPU \<Rightarrow> u32 \<Rightarrow> u32 \<Rightarrow> nat \<Rightarrow> u32 \<Rightarrow> u32 \<times> memory \<Rightarrow> u32 \<times> memory" where
  "push_pages E v huge page_size 0 host_vaddr h = h"
| "push_pages E v huge page_size (Suc n) host_vaddr h =
    (let host_paddr = gpa2hva (ucast (ucast (gva2gpa v (snd h) host_vaddr) :: u32))
     in push_pages E v huge page_size n (host_vaddr + page_size)
          (push_pa_map E host_vaddr host_paddr huge h))"

text \<open>
  The region in the node at \<open>g\<close>: 4K pages for 0, 2M pages for 1, none for another value. The fields
  \<^verbatim>\<open>head_gva->start_addr\<close> and so on are read before the first page is pushed and
  \<^verbatim>\<open>is_huge_page\<close> again for each page; the node is the application's own and not written meanwhile.
\<close>

definition push_region :: "app_env \<Rightarrow> VCPU \<Rightarrow> u32 \<Rightarrow> u32 \<times> memory \<Rightarrow> u32 \<times> memory" where
  "push_region E v g = (\<lambda>(head, m).
    let start_addr = ld32 m g; end_addr = ld32 m (g + 4); huge = ld32 m (g + 8) in
    if huge = 0 then push_pages E v huge PAGE_SIZE_4K
      (unat ((end_addr - start_addr) div PAGE_SIZE_4K)) start_addr (head, m)
    else if huge = 1 then push_pages E v huge PAGE_SIZE_2M
      (unat ((end_addr - start_addr) div PAGE_SIZE_2M)) start_addr (head, m)
    else (head, m))"

fun proc_map_loop :: "nat \<Rightarrow> app_env \<Rightarrow> VCPU \<Rightarrow> u32 \<Rightarrow> u32 \<times> memory \<Rightarrow> xmhf_error + u32 \<times> memory" where
  "proc_map_loop 0 E v g h = Inl Hang"
| "proc_map_loop (Suc fuel) E v g h =
    (if ld32 (snd h) (g + 12) = 0 then Inr h
     else let (head, m) = push_region E v g h
          in proc_map_loop fuel E v g (head, copy_from_gva_to_hva v (ld32 m (g + 12)) g 16 m))"

definition get_proc_map_from_guest_app ::
  "nat \<Rightarrow> app_env \<Rightarrow> VCPU \<Rightarrow> regs \<Rightarrow> memory \<Rightarrow> xmhf_error + u32 \<times> memory" where
  "get_proc_map_from_guest_app fuel E v r m =
    (let m = mem_init E m;
         (head_gva, m) = malloc E 16 m;
         (head_hva, m) = malloc E 16 m;
         m = memset 16 head_hva 0 m;
         m = copy_from_gva_to_hva v (eax r) head_gva 16 m
     in bindE (proc_map_loop fuel E v head_gva (head_hva, m)) (\<lambda>(head, m).
        Inr (push_pages E v (ld32 m (head_gva + 8)) PAGE_SIZE_4K
          (unat ((ld32 m (head_gva + 4) - ld32 m head_gva) div PAGE_SIZE_4K)) (ld32 m head_gva) (head, m))))"

text \<open>The application's page list pointer is initialised to NULL and never assigned.\<close>

definition app_pl :: u32 where "app_pl = 0"

definition user_flags :: u64 where
  "user_flags = PAGE_PRESENT OR PAGE_RW OR PAGE_USER"

text \<open>What the loop of \<^verbatim>\<open>update_hypervisor_pt\<close> does for one node.\<close>

definition map_page ::
  "app_env \<Rightarrow> RPB \<Rightarrow> u32 \<Rightarrow> u32 \<Rightarrow> u32 \<Rightarrow> memory \<Rightarrow> xmhf_error + memory" where
  "map_page E b vaddr paddr huge m =
    (let hpd = host_pd E b m vaddr;
         pde = elem64 hpd (unat (pae_get_pdt_index vaddr));
         pt_index = unat (pae_get_pt_index vaddr);
         pd_entry = ucast (ld64 m pde) :: u32 in
     if huge = 0 then
       if pd_entry AND PAGE_PSE \<noteq> 0 then
         bindE (pagelist_get_zeroedpage app_pl m) (\<lambda>(new_pt, m).
         let m = st64 m (elem64 new_pt pt_index) (ucast paddr OR user_flags)
         in Inr (st64 m pde (hva2spa1 b new_pt OR user_flags)))
       else
         let hpt = spa2hva1 b (ucast (npae_get_addr_from_pde pd_entry))
         in Inr (st64 m (elem64 hpt pt_index) (ucast paddr OR user_flags))
     else if huge = 1 then
       if pd_entry AND PAGE_PSE \<noteq> 0
       then Inr (st64 m pde (ucast paddr OR (user_flags OR PAGE_PSE)))
       else Inr m
     else Inr m)"

fun update_loop :: "nat \<Rightarrow> app_env \<Rightarrow> RPB \<Rightarrow> u32 \<Rightarrow> memory \<Rightarrow> xmhf_error + memory" where
  "update_loop 0 E b head m = Inl Hang"
| "update_loop (Suc fuel) E b head m =
    (if ld32 m (head + 12) = 0 then Inr m
     else bindE (map_page E b (ld32 m head) (ld32 m (head + 4)) (ld32 m (head + 8)) m) (\<lambda>m.
          update_loop fuel E b (ld32 m (head + 12)) m))"

definition update_hypervisor_pt ::
  "nat \<Rightarrow> app_env \<Rightarrow> RPB \<Rightarrow> u32 \<Rightarrow> memory \<Rightarrow> xmhf_error + memory" where
  "update_hypervisor_pt fuel E b start m =
    bindE (pagelist_init E app_pl m) (update_loop fuel E b start)"

text \<open>An interrupt gate: an \<^verbatim>\<open>idtentry_t\<close> of 8 packed bytes.\<close>

definition CS :: u16 where [xconst]: "CS = 0x0008"

definition set_gate :: "u32 \<Rightarrow> u32 \<Rightarrow> memory \<Rightarrow> memory" where
  "set_gate idtentry stub m =
    (let m = st16 m idtentry (ucast (ld32 m stub));
         m = st16 m (idtentry + 6) (ucast (drop_bit 16 (ld32 m stub)));
         m = st16 m (idtentry + 2) CS
     in m(idtentry + 4 := 0, idtentry + 5 := 0xEE))"

definition add_systemcall :: "app_env \<Rightarrow> xmhf_state \<Rightarrow> xmhf_state" where
  "add_systemcall E s =
    (let m = set_gate (idt_start E + 128 * 8) (exceptionstubs E + 4 * 32) (mem s);
         m = set_gate (idt_start E + 239 * 8) (exceptionstubs E + 4 * 33) m
     in hw_do (Lidt (sidt_address E) 2047) (s\<lparr>mem := m\<rparr>))"

definition QUIESCE_HYPERCALL :: u32 where [xconst]: "QUIESCE_HYPERCALL = 0x44550002"
definition APP_INIT_SUCCESS :: u32 where [xconst]: "APP_INIT_SUCCESS = 0x0"

definition xmhf_app_main :: "VCPU \<Rightarrow> u32" where
  "xmhf_app_main v = APP_INIT_SUCCESS"

definition prepare_user_space_context :: "app_env \<Rightarrow> xmhf_state \<Rightarrow> xmhf_state" where
  "prepare_user_space_context E s = add_systemcall E s"

definition xmhf_app_handlehypercall :: "nat \<Rightarrow> app_env \<Rightarrow> u32 \<Rightarrow> hub \<Rightarrow> xmhf_error + u32 \<times> hub" where
  "xmhf_app_handlehypercall fuel E vp = (\<lambda>(r, s).
    if ebx r = QUIESCE_HYPERCALL then
      bindE (get_proc_map_from_guest_app fuel E (vcpus s vp) r (mem s)) (\<lambda>(head_list, m).
      bindE (update_hypervisor_pt fuel E (rpb s) head_list m) (\<lambda>m.
      let s = s\<lparr>mem := st32 m (ecx r) 1\<rparr>
      in Inr (APP_SUCCESS, r, prepare_user_space_context E s)))
    else Inr (APP_SUCCESS, r, s))"

definition xmhf_app_handleshutdown :: "u32 \<Rightarrow> hub \<Rightarrow> xmhf_error + hub" where
  "xmhf_app_handleshutdown vp h = Inl Reboot"

definition xmhf_app_handleintercept_hwpgtblviolation ::
  "u32 \<Rightarrow> u64 \<Rightarrow> u64 \<Rightarrow> u64 \<Rightarrow> hub \<Rightarrow> xmhf_error + u32 \<times> hub" where
  "xmhf_app_handleintercept_hwpgtblviolation vp gpa gva violationcode h = Inr (APP_SUCCESS, h)"

definition xmhf_app_handleintercept_portaccess ::
  "u32 \<Rightarrow> u32 \<Rightarrow> u32 \<Rightarrow> u32 \<Rightarrow> hub \<Rightarrow> xmhf_error + u32 \<times> hub" where
  "xmhf_app_handleintercept_portaccess vp portnum access_type access_size h =
    Inr (APP_IOINTERCEPT_CHAIN, h)"

definition quiesce_app :: "nat \<Rightarrow> app_env \<Rightarrow> hypapp" where
  "quiesce_app fuel E =
    \<lparr>handleintercept_portaccess = xmhf_app_handleintercept_portaccess,
     handleintercept_hwpgtblviolation = xmhf_app_handleintercept_hwpgtblviolation,
     handleshutdown = xmhf_app_handleshutdown,
     handlehypercall = xmhf_app_handlehypercall fuel E\<rparr>"

section \<open>The application keeps its contract\<close>

lemma hypercall_ept_fields:
  "xmhf_app_handlehypercall fuel E vp (r, s) = Inr (st, r', s') \<Longrightarrow> ept_fields vp s' = ept_fields vp s"
  by (auto simp: xmhf_app_handlehypercall_def prepare_user_space_context_def add_systemcall_def
      Let_def ept_keep split: if_splits)

text \<open>The only hypercall for which the application does anything is the one that quiesces the machine.\<close>

definition no_quiesce_call :: "regs \<Rightarrow> bool" where
  "no_quiesce_call r \<longleftrightarrow> ebx r \<noteq> QUIESCE_HYPERCALL"

interpretation quiesce: hypapp_contract "quiesce_app fuel E" no_quiesce_call
proof
  fix vp r s st r' s'
  assume "handlehypercall (quiesce_app fuel E) vp (r, s) = Inr (st, r', s')"
  then have h: "xmhf_app_handlehypercall fuel E vp (r, s) = Inr (st, r', s')" by (simp add: quiesce_app_def)
  then show "ept_fields vp s' = ept_fields vp s" by (rule hypercall_ept_fields)
  show "no_quiesce_call r \<Longrightarrow> mem s' = mem s"
    using h by (simp add: no_quiesce_call_def xmhf_app_handlehypercall_def)
qed (auto simp: quiesce_app_def xmhf_app_handleintercept_portaccess_def
    xmhf_app_handleintercept_hwpgtblviolation_def)

end
