(* ===== verification/XMHF_EventProps.thy ===== *)
theory XMHF_EventProps
  imports XMHF_QuiesceApp
begin

text \<open>
  What the event hub, with the quiesce application, does for the guest on each kind of exit:
  emulated instructions are stepped over, model-specific registers and control registers have the
  values the guest expects, the BIOS memory map is the hypervisor's, and exits nobody handles stop
  the core.
\<close>

section \<open>A machine for the witnesses\<close>

definition sample_tlsf :: tlsf where
  "sample_tlsf = \<lparr>tlsf_create = (\<lambda>p n m. (p, m)), tlsf_malloc = (\<lambda>p n m. (0, m)), tlsf_free = (\<lambda>p q m. m)\<rparr>"

definition sample_env :: app_env where
  "sample_env = \<lparr>alloc = sample_tlsf, g_pool = 0x10100000, memory_pool = 0x10200000,
     exceptionstubs = 0x10101000, idt_start = 0x10102000, sidt_address = 0x10102000,
     read_cr3 = 0x10103000\<rparr>"

definition exit_state :: "u32 \<Rightarrow> xmhf_state" where
  "exit_state reason = upd_vmcs 0 (\<lambda>c. c\<lparr>info_vmexit_reason := reason, info_vmexit_instruction_length := 2,
     guest_RIP := 0x1000, control_VMX_seccpu_based := 2, control_EPT_pointer_full := 0x1000101E\<rparr>) sample_state"

definition sample_regs :: regs where
  "sample_regs = \<lparr>edi = 0, esi = 0, ebp = 0, esp = 0, ebx = 0, edx = 0, ecx = 0, eax = 0\<rparr>"

lemmas sample_machine = exit_state_def sample_state_def sample_vcpu_def zero_VCPU_def zero_vmcs_def
  sample_rpb_def sample_regs_def sample_hw_def

lemma cpuid_exit:
  "\<exists>r' s'. xmhf_parteventhub_arch_x86vmx_intercept_handler (quiesce_app 9 sample_env) sample_hw 0
      (sample_regs, exit_state VMX_VMEXIT_CPUID) = Inr (r', s')
    \<and> eax r' = 0 \<and> edx r' = 0x1000"
  by (simp add: xmhf_parteventhub_arch_x86vmx_intercept_handler_def dispatch_intercept_def
      vmx_handle_intercept_cpuid_def skip_instruction_def Let_def xconst sample_machine)

section \<open>Emulated instructions\<close>

lemma handler_final:
  assumes "xmhf_parteventhub_arch_x86vmx_intercept_handler app hw vp (r, s) = Inr (r', s')"
  obtains s1 where "dispatch_intercept app hw vp (r, s) = Inr (r', s1)"
    and "s' = s1 \<or> s' = upd_vmcs vp (\<lambda>c. c\<lparr>guest_interruptibility := 0\<rparr>) s1"
  using assms
  by (auto simp: xmhf_parteventhub_arch_x86vmx_intercept_handler_def Let_def split: if_splits)

lemma quiesce_vmcs:
  "xmhf_smpguest_arch_x86vmx_quiesce hw vp s = Inr s' \<Longrightarrow> vmcs_of q s' = vmcs_of q s"
  by (auto simp: xmhf_smpguest_arch_x86vmx_quiesce_def vmx_send_quiesce_signal_def Let_def
      split: if_splits)

text \<open>The exits that emulate one instruction, and the address of the next one.\<close>

definition emulated_exit :: "u32 \<Rightarrow> bool" where
  "emulated_exit reason \<longleftrightarrow> reason \<in> {VMX_VMEXIT_IOIO, VMX_VMEXIT_CRX_ACCESS, VMX_VMEXIT_RDMSR,
     VMX_VMEXIT_WRMSR, VMX_VMEXIT_CPUID, VMX_VMEXIT_XSETBV}"

definition next_rip :: "vmcsfields \<Rightarrow> u64" where
  "next_rip c = guest_RIP c + ucast (info_vmexit_instruction_length c)"

lemma skip_rip: "guest_RIP (vmcs_of vp (skip_instruction vp s)) = next_rip (vmcs_of vp s)"
  by (simp add: skip_instruction_def next_rip_def)

lemma msr_rip:
  "guest_RIP (vmcs_of vp (snd (vmx_handle_intercept_wrmsr vp h))) = next_rip (vmcs_of vp (snd h))"
  "guest_RIP (vmcs_of vp (snd (vmx_handle_intercept_rdmsr hw vp h))) = next_rip (vmcs_of vp (snd h))"
  "guest_RIP (vmcs_of vp (snd (vmx_handle_intercept_cpuid hw vp h))) = next_rip (vmcs_of vp (snd h))"
  by (auto simp: vmx_handle_intercept_wrmsr_def vmx_handle_intercept_rdmsr_def skip_rip
      vmx_handle_intercept_cpuid_def Let_def next_rip_def split: prod.split)

lemma crx_rip:
  "handle_crx_access vp (r, s) = Inr (r', s') \<Longrightarrow> guest_RIP (vmcs_of vp s') = next_rip (vmcs_of vp s)"
  unfolding handle_crx_access_def vmx_handle_intercept_cr0access_ug_def
    vmx_handle_intercept_cr4access_ug_def Let_def
  by (auto split: if_splits simp: skip_rip next_rip_def xmhf_memprot_arch_x86vmx_flushmappings_def)

lemma xsetbv_rip:
  "vmx_handle_intercept_xsetbv vp (r, s) = Inr (r', s') \<Longrightarrow> guest_RIP (vmcs_of vp s') = next_rip (vmcs_of vp s)"
  unfolding vmx_handle_intercept_xsetbv_def Let_def by (auto split: if_splits simp: skip_rip next_rip_def)

lemma chain_io_vmcs: "vmcs_of vp (snd (chain_io hw p t sz h)) = vmcs_of vp (snd h)"
  by (simp add: chain_io_def split: prod.split)

lemma ioio_rip:
  assumes "vmx_handle_intercept_ioportaccess (quiesce_app fuel E) hw vp (r, s) = Inr (r', s')"
  shows "guest_RIP (vmcs_of vp s') = next_rip (vmcs_of vp s)"
proof -
  obtain s1 p t z where q: "xmhf_smpguest_arch_x86vmx_quiesce hw vp s = Inr s1"
    and s': "s' = skip_instruction vp (snd (chain_io hw p t z (r, xmhf_smpguest_arch_x86vmx_endquiesce vp s1)))"
    using assms
    by (auto simp: vmx_handle_intercept_ioportaccess_def Let_def quiesce_app_def
        xmhf_app_handleintercept_portaccess_def split: if_splits)
  have "vmcs_of vp (snd (chain_io hw p t z (r, xmhf_smpguest_arch_x86vmx_endquiesce vp s1))) = vmcs_of vp s"
    using quiesce_vmcs[OF q, of vp]
    by (simp add: chain_io_vmcs xmhf_smpguest_arch_x86vmx_endquiesce_def)
  then show ?thesis unfolding s' skip_rip by simp
qed

text \<open>
  C27: after an exit that emulates an instruction (port access, control register access, RDMSR,
  WRMSR, CPUID, XSETBV) the guest resumes at the next instruction: the saved RIP advanced by exactly
  the length the processor reported, also when the port access was first offered to the application.
\<close>

theorem emulated_exit_advances_rip:
  assumes "xmhf_parteventhub_arch_x86vmx_intercept_handler (quiesce_app fuel E) hw vp (r, s) = Inr (r', s')"
    and "emulated_exit (info_vmexit_reason (vmcs_of vp s))"
  shows "guest_RIP (vmcs_of vp s') = next_rip (vmcs_of vp s)"
proof -
  obtain s1 where d: "dispatch_intercept (quiesce_app fuel E) hw vp (r, s) = Inr (r', s1)"
    and s': "s' = s1 \<or> s' = upd_vmcs vp (\<lambda>c. c\<lparr>guest_interruptibility := 0\<rparr>) s1"
    using assms(1) by (rule handler_final)
  have m: "h = (r', s1) \<Longrightarrow> guest_RIP (vmcs_of vp (snd h)) = next_rip (vmcs_of vp (snd (r, s)))
    \<Longrightarrow> guest_RIP (vmcs_of vp s1) = next_rip (vmcs_of vp s)" for h by simp
  have "guest_RIP (vmcs_of vp s1) = next_rip (vmcs_of vp s)"
    using d assms(2) ioio_rip crx_rip xsetbv_rip m[OF _ msr_rip(1)] m[OF _ msr_rip(2)] m[OF _ msr_rip(3)]
    unfolding emulated_exit_def dispatch_intercept_def Let_def snd_conv
    by (simp add: xconst split: if_splits)
  with s' show ?thesis by auto
qed

theorem emulated_exit_advances_rip_witness:
  "\<exists>r' s'. xmhf_parteventhub_arch_x86vmx_intercept_handler (quiesce_app 9 sample_env) sample_hw 0
      (sample_regs, exit_state VMX_VMEXIT_CPUID) = Inr (r', s') \<and> guest_RIP (vmcs_of 0 s') = 0x1002"
proof -
  obtain r' s' where h: "xmhf_parteventhub_arch_x86vmx_intercept_handler (quiesce_app 9 sample_env) sample_hw 0
      (sample_regs, exit_state VMX_VMEXIT_CPUID) = Inr (r', s')"
    using cpuid_exit by blast
  have "guest_RIP (vmcs_of 0 s') = 0x1002"
    using emulated_exit_advances_rip[OF h]
    by (simp add: emulated_exit_def next_rip_def xconst sample_machine)
  with h show ?thesis by blast
qed

section \<open>Fail stop\<close>

definition handled_exit :: "u32 \<Rightarrow> bool" where
  "handled_exit reason \<longleftrightarrow> emulated_exit reason
     \<or> reason \<in> {VMX_VMEXIT_VMCALL, VMX_VMEXIT_EPT_VIOLATION, VMX_VMEXIT_EXCEPTION}"

text \<open>
  C28: the hub fails safe. A core whose exit is of none of the nine handled reasons, or reports a
  failed entry, never resumes the guest, and neither does one whose exit interrupted the delivery
  of an event (the valid bit of the vectoring information). The shutdown exits reach the
  application's shutdown callback first, which reboots the machine.
\<close>

theorem unhandled_exits_stop:
  "(\<not> handled_exit (info_vmexit_reason (vmcs_of vp s)) \<or> bit (info_vmexit_reason (vmcs_of vp s)) 31 \<longrightarrow>
     xmhf_parteventhub_arch_x86vmx_intercept_handler (quiesce_app fuel E) hw vp (r, s) \<in> {Inl Halt, Inl Reboot})
   \<and> (info_vmexit_reason (vmcs_of vp s) = VMX_VMEXIT_INIT \<longrightarrow>
     xmhf_parteventhub_arch_x86vmx_intercept_handler (quiesce_app fuel E) hw vp (r, s) = Inl Reboot)
   \<and> (\<forall>r' s'. xmhf_parteventhub_arch_x86vmx_intercept_handler (quiesce_app fuel E) hw vp (r, s) = Inr (r', s') \<longrightarrow>
     \<not> bit (info_IDT_vectoring_information (vmcs_of vp s')) 31)"
proof (intro conjI impI allI)
  let ?h = "xmhf_parteventhub_arch_x86vmx_intercept_handler (quiesce_app fuel E) hw vp (r, s)"
  have sd: "handleshutdown (quiesce_app fuel E) vp (r, s) = Inl Reboot"
    by (simp add: quiesce_app_def xmhf_app_handleshutdown_def)
  show "?h \<in> {Inl Halt, Inl Reboot}"
    if "\<not> handled_exit (info_vmexit_reason (vmcs_of vp s)) \<or> bit (info_vmexit_reason (vmcs_of vp s)) 31"
  proof (cases "bit (info_vmexit_reason (vmcs_of vp s)) 31")
    case False
    with that have "dispatch_intercept (quiesce_app fuel E) hw vp (r, s) \<in> {Inl Halt, Inl Reboot}"
      unfolding dispatch_intercept_def Let_def snd_conv handled_exit_def emulated_exit_def
        handle_taskswitch_def prod.case sd
      by (simp add: sd split: if_splits)
    with False show ?thesis
      by (auto simp: xmhf_parteventhub_arch_x86vmx_intercept_handler_def)
  qed (simp add: xmhf_parteventhub_arch_x86vmx_intercept_handler_def)
  show "?h = Inl Reboot" if "info_vmexit_reason (vmcs_of vp s) = VMX_VMEXIT_INIT"
    using that sd
    by (simp add: xmhf_parteventhub_arch_x86vmx_intercept_handler_def dispatch_intercept_def xconst
        bit_numeral_rec)
  fix r' s' assume "?h = Inr (r', s')"
  then show "\<not> bit (info_IDT_vectoring_information (vmcs_of vp s')) 31"
    by (auto simp: xmhf_parteventhub_arch_x86vmx_intercept_handler_def Let_def split: if_splits)
qed

theorem unhandled_exits_stop_witness:
  "xmhf_parteventhub_arch_x86vmx_intercept_handler (quiesce_app 9 sample_env) sample_hw 0
     (sample_regs, exit_state VMX_VMEXIT_INIT) = Inl Reboot
   \<and> xmhf_parteventhub_arch_x86vmx_intercept_handler (quiesce_app 9 sample_env) sample_hw 0
     (sample_regs, exit_state 0x80000021) \<in> {Inl Halt, Inl Reboot}"
  using unhandled_exits_stop[of "exit_state VMX_VMEXIT_INIT" 0 9 sample_env sample_hw sample_regs]
    unhandled_exits_stop[of "exit_state 0x80000021" 0 9 sample_env sample_hw sample_regs]
  by (simp add: exit_state_def bit_numeral_rec)

section \<open>Model-specific and control registers\<close>

definition sysenter_msr :: "u32 \<Rightarrow> bool" where
  "sysenter_msr i \<longleftrightarrow> i = IA32_SYSENTER_CS_MSR \<or> i = IA32_SYSENTER_EIP_MSR \<or> i = IA32_SYSENTER_ESP_MSR"

text \<open>
  The SYSENTER registers of the guest are virtual. What the guest writes to one of the three it
  reads back, a write to one does not change what another reads as, and neither operation touches
  the processor's register. Every other register number is passed on: a write is performed on the
  processor with the guest's operands, and a read returns the processor's value.
\<close>

theorem sysenter_msrs_virtualised:
  assumes w: "vmx_handle_intercept_wrmsr vp (r, s) = (r1, s1)"
    and q: "vmx_handle_intercept_rdmsr hw vp (q, s1) = (r2, s2)"
  shows "(sysenter_msr (ecx r) \<longrightarrow> hwlog s2 = hwlog s)
    \<and> (sysenter_msr (ecx r) \<longrightarrow> ecx q = ecx r \<longrightarrow> eax r2 = eax r \<and> edx r2 = 0)
    \<and> (ecx q \<noteq> ecx r \<longrightarrow> r2 = fst (vmx_handle_intercept_rdmsr hw vp (q, s)))
    \<and> (\<not> sysenter_msr (ecx r) \<longrightarrow> hwlog s2 = hwlog (hw_do (WrMsr (ecx r) (eax r) (edx r)) s))
    \<and> (\<not> sysenter_msr (ecx q) \<longrightarrow> (eax r2, edx r2) = rdmsr hw (ecx q))"
  using w q unfolding sysenter_msr_def
  by (auto simp: vmx_handle_intercept_wrmsr_def vmx_handle_intercept_rdmsr_def skip_instruction_def
      Let_def xconst split: prod.splits)

theorem sysenter_msrs_virtualised_witness:
  "let (r1, s1) = vmx_handle_intercept_wrmsr 0 (sample_regs\<lparr>ecx := 0x176, eax := 0xC0FFEE\<rparr>, exit_state 0x20)
   in eax (fst (vmx_handle_intercept_rdmsr sample_hw 0 (sample_regs\<lparr>ecx := 0x176\<rparr>, s1))) = 0xC0FFEE"
proof -
  obtain r1 s1 where w: "vmx_handle_intercept_wrmsr 0 (sample_regs\<lparr>ecx := 0x176, eax := 0xC0FFEE\<rparr>, exit_state 0x20)
      = (r1, s1)"
    by (meson surj_pair)
  obtain r2 s2 where q: "vmx_handle_intercept_rdmsr sample_hw 0 (sample_regs\<lparr>ecx := 0x176\<rparr>, s1) = (r2, s2)"
    by (meson surj_pair)
  have "sysenter_msr 0x176" by (simp add: sysenter_msr_def xconst)
  with sysenter_msrs_virtualised[OF w q] have "eax r2 = 0xC0FFEE" by simp
  then show ?thesis by (simp add: w q)
qed

text \<open>The exit qualification of a move to CR0 from the general register \<open>gpr\<close>.\<close>

definition mov_to_cr0 :: "u32 \<Rightarrow> u64" where
  "mov_to_cr0 gpr = push_bit 8 (ucast (take_bit 4 gpr))"

text \<open>
  C29: a guest write to CR0 (unrestricted guest, from one of the eight general registers) takes
  effect with caching left on: the guest's CR0 is the value without the CD and NW bits, the
  read shadow shows the guest the value it wrote, the EPT mappings are flushed, and the instruction
  is stepped over. A register number of 8 or more halts the core.
\<close>

theorem cr0_write_effect:
  assumes "info_exit_qualification (vmcs_of vp s) = mov_to_cr0 gpr" and "gpr < 16"
  shows "(gpr < 8 \<longrightarrow> (\<exists>x s'. vmx_decode_reg gpr (vcpus s vp) r = Inr x \<and> handle_crx_access vp (r, s) = Inr (r, s')
      \<and> guest_CR0 (vmcs_of vp s') = ucast (x AND NOT 0x60000000) \<and> control_CR0_shadow (vmcs_of vp s') = ucast x
      \<and> guest_RIP (vmcs_of vp s') = next_rip (vmcs_of vp s)
      \<and> hwlog s' = hwlog (xmhf_memprot_arch_x86vmx_flushmappings vp s)))
    \<and> (8 \<le> gpr \<longrightarrow> handle_crx_access vp (r, s) = Inl Halt)"
proof -
  have g: "take_bit 4 gpr = gpr" using less_mask_eq[of gpr 4] assms(2) by (simp add: take_bit_eq_mask)
  have q: "(ucast (mov_to_cr0 gpr AND 0xF) :: u32) = 0" "(ucast (drop_bit 4 (mov_to_cr0 gpr AND 0x30)) :: u32) = 0"
    by (rule u32_bitsI, simp add: mov_to_cr0_def bit_simps)+
  have "(ucast (drop_bit 8 (mov_to_cr0 gpr AND 0xF00)) :: u32) = take_bit 4 gpr"
    by (rule u32_bitsI) (simp add: mov_to_cr0_def bit_simps)
  then have r: "(ucast (drop_bit 8 (mov_to_cr0 gpr AND 0xF00)) :: u32) = gpr" using g by simp
  have "\<exists>x. vmx_decode_reg gpr (vcpus s vp) r = Inr x" if "gpr < 8"
  proof -
    have "unat gpr < 8" using that by (simp add: word_less_nat_alt)
    then have "unat gpr \<in> {0, 1, 2, 3, 4, 5, 6, 7}" by auto
    then have "gpr \<in> {0, 1, 2, 3, 4, 5, 6, 7}" by (simp add: word_unat_eq_iff)
    then show ?thesis by (auto simp: vmx_decode_reg_def)
  qed
  moreover have "gpr \<le> 7 \<longleftrightarrow> gpr < 8" by (auto simp: word_less_nat_alt word_le_nat_alt)
  ultimately show ?thesis
    unfolding handle_crx_access_def prod.case Let_def assms(1) q r
    by (auto simp: vmx_handle_intercept_cr0access_ug_def xconst Let_def next_rip_def
        xmhf_memprot_arch_x86vmx_flushmappings_def skip_instruction_def not_less)
qed

theorem cr0_write_effect_witness:
  "\<exists>s'. handle_crx_access 0 (sample_regs\<lparr>ecx := 0xE0000011\<rparr>, upd_vmcs 0
        (\<lambda>c. c\<lparr>info_exit_qualification := mov_to_cr0 1\<rparr>) (exit_state VMX_VMEXIT_CRX_ACCESS))
      = Inr (sample_regs\<lparr>ecx := 0xE0000011\<rparr>, s')
    \<and> guest_CR0 (vmcs_of 0 s') = 0x80000011 \<and> control_CR0_shadow (vmcs_of 0 s') = 0xE0000011"
  using cr0_write_effect[of "upd_vmcs 0 (\<lambda>c. c\<lparr>info_exit_qualification := mov_to_cr0 1\<rparr>)
      (exit_state VMX_VMEXIT_CRX_ACCESS)" 0 1 "sample_regs\<lparr>ecx := 0xE0000011\<rparr>"]
  by (auto simp: vmx_decode_reg_def)

section \<open>The BIOS memory map\<close>

definition load_e820 :: "memory \<Rightarrow> u32 \<Rightarrow> GRUBE820" where
  "load_e820 m a = \<lparr>baseaddr_low = ld32 m a, baseaddr_high = ld32 m (a + 4), length_low = ld32 m (a + 8),
     length_high = ld32 m (a + 12), e820_type = ld32 m (a + 16)\<rparr>"

lemma ld32_st32_off: "x \<noteq> y \<Longrightarrow> x \<in> {0, 4, 8, 12, 16} \<Longrightarrow> y \<in> {0, 4, 8, 12, 16} \<Longrightarrow>
  ld32 (st32 m (a + y) v) (a + x) = ld32 m (a + x)"
proof -
  assume "x \<noteq> y" "x \<in> {0, 4, 8, 12, 16}" "y \<in> {0, 4, 8, 12, 16}"
  then have "4 \<le> unat (y - x)" "4 \<le> unat (x - y)" by auto
  then have "span (a + x) 4 \<inter> span (a + y) 4 = {}" by (intro span_disjointI) simp_all
  then show ?thesis unfolding ld32_def st32_def by (intro ldw_stw_disjoint) auto
qed

lemmas ld32_st32_offs = ld32_st32_off[where x = 0, simplified] ld32_st32_off[where y = 0, simplified]
  ld32_st32_off

lemma load_store_e820: "load_e820 (store_e820 m a e) a = e"
  by (simp add: load_e820_def store_e820_def Let_def ld32_st32_offs)

lemma store_e820_outside: "b \<notin> span a 20 \<Longrightarrow> store_e820 m a e b = m b"
proof -
  assume b: "b \<notin> span a 20"
  have "b \<notin> span (a + k) 4" if k: "unat k \<le> 16" for k
    using b span_offset[of "b - k" a 4 k 20 k] k by (auto simp: span_iff algebra_simps)
  from this[of 0] this[of 4] this[of 8] this[of 12] this[of 16] show ?thesis
    by (simp add: store_e820_def Let_def st32_def stw_outside)
qed

lemma load_e820_cong:
  assumes "\<And>b. b \<in> span a 20 \<Longrightarrow> m b = m' b"
  shows "load_e820 m a = load_e820 m' a"
proof -
  have "ld32 m (a + k) = ld32 m' (a + k)" if k: "unat k \<le> 16" for k
    unfolding ld32_def
  proof (rule ldw_cong)
    fix b assume "b \<in> span (a + k) 4"
    then have "unat ((b - k) - a) < 4" by (simp add: span_iff algebra_simps)
    then have "b - k + k \<in> span a 20" using k by (intro span_offset[of "b - k" a 4 k 20 k]) (simp_all add: span_iff)
    then show "m b = m' b" using assms by simp
  qed simp
  from this[of 0] this[of 4] this[of 8] this[of 12] this[of 16] show ?thesis by (simp add: load_e820_def)
qed

text \<open>
  A guest in real mode that asks for an entry of the map: its registers, the buffer in ES:DI and the
  flags on its stack, where buffer and flags do not overlap.
\<close>

definition e820_stack :: "vmcsfields \<Rightarrow> u32" where
  "e820_stack c = ucast (guest_SS_base c) + ucast (ucast (guest_RSP c) :: u16) + 4"

definition e820_request :: "u32 \<Rightarrow> hub \<Rightarrow> bool" where
  "e820_request vp = (\<lambda>(r, s). \<not> v86_mode (vmcs_of vp s) \<and> (ucast (eax r) :: u16) = 0xE820 \<and> edx r = 0x534D4150
    \<and> ebx r < XtVmmE820NumEntries (rpb s) \<and> unat (XtVmmE820NumEntries (rpb s)) \<le> length (g_e820map s)
    \<and> int15_e820_buffer (vmcs_of vp s) r < XtVmmRuntimePhysBase (rpb s)
    \<and> span (int15_e820_buffer (vmcs_of vp s) r) 20 \<inter> span (e820_stack (vmcs_of vp s)) 2 = {})"

definition e820_last :: "hub \<Rightarrow> bool" where
  "e820_last = (\<lambda>(r, s). ebx r = XtVmmE820NumEntries (rpb s) - 1)"

lemma e820_continuation:
  assumes "(i :: u32) < n"
  shows "i + 1 > n - 1 \<longleftrightarrow> i = n - 1"
proof -
  have "n \<noteq> 0" using assms by auto
  then have n: "unat (n - 1) = unat n - 1" by (rule unat_minus_one)
  have "unat n < 2 ^ 32" using unsigned_less[of n] by simp
  then have "unat i + unat (1 :: u32) < 2 ^ LENGTH(32)"
    using assms by (simp add: word_less_nat_alt)
  then have "unat (i + 1) = unat i + 1" by (simp add: unat_add_lem[THEN iffD1])
  with n show ?thesis using assms by (auto simp: word_less_nat_alt word_unat_eq_iff)
qed

text \<open>The memory after a request: the entry in the buffer, then the flags on the stack.\<close>

definition e820_mem :: "u32 \<Rightarrow> hub \<Rightarrow> memory" where
  "e820_mem vp = (\<lambda>(r, s). let m = store_e820 (mem s) (int15_e820_buffer (vmcs_of vp s) r) (g_e820map s ! unat (ebx r));
       st = e820_stack (vmcs_of vp s); fl = ld16 m st
     in st16 m st (if e820_last (r, s) then fl OR EFLAGS_CF else fl AND NOT EFLAGS_CF))"

lemma e820_run:
  assumes "e820_request vp (r, s)"
  shows "vmx_int15_handleintercept vp (r, s) = Inr (r\<lparr>eax := 0x534D4150, ecx := 20,
      ebx := if e820_last (r, s) then 0 else ebx r + 1\<rparr>,
      upd_vmcs vp (\<lambda>c. c\<lparr>guest_RIP := guest_RIP c + 3\<rparr>) (s\<lparr>mem := e820_mem vp (r, s)\<rparr>))"
proof -
  have n: "ebx r < XtVmmE820NumEntries (rpb s)" "unat (ebx r) < length (g_e820map s)"
    using assms by (auto simp: e820_request_def word_less_nat_alt)
  show ?thesis
    using assms n(2) e820_continuation[OF n(1)]
    by (simp add: vmx_int15_handleintercept_def int15_translate_def e820_request_def Let_def e820_mem_def
        e820_last_def e820_stack_def split del: if_split) (simp add: e820_stack_def split: if_split)
qed

lemma e820_mem_outside:
  "a \<notin> span (e820_stack (vmcs_of vp s)) 2 \<Longrightarrow>
    e820_mem vp (r, s) a = store_e820 (mem s) (int15_e820_buffer (vmcs_of vp s) r) (g_e820map s ! unat (ebx r)) a"
  by (simp add: e820_mem_def Let_def st16_def stw_outside)

lemma e820_stored:
  assumes "e820_request vp (r, s)"
  shows "load_e820 (e820_mem vp (r, s)) (int15_e820_buffer (vmcs_of vp s) r) = g_e820map s ! unat (ebx r)"
proof -
  have "load_e820 (e820_mem vp (r, s)) (int15_e820_buffer (vmcs_of vp s) r)
    = load_e820 (store_e820 (mem s) (int15_e820_buffer (vmcs_of vp s) r) (g_e820map s ! unat (ebx r)))
        (int15_e820_buffer (vmcs_of vp s) r)"
    using assms by (intro load_e820_cong e820_mem_outside) (auto simp: e820_request_def)
  then show ?thesis by (simp add: load_store_e820)
qed

text \<open>
  C30: an E820 request of the guest in real mode is answered from the hypervisor's memory map: the
  buffer then holds the entry the continuation value selects, EAX is the signature, ECX the size and
  EBX the next continuation value, 0 after the last entry; for an entry that is not the last the carry
  flag on the guest's stack is clear; the guest steps over the hook; and no byte outside the buffer and
  the flags changes. The buffer and the stack of the guest lie below the runtime.
\<close>

theorem e820_request_answered:
  assumes "e820_request vp (r, s)"
    and "unat (int15_e820_buffer (vmcs_of vp s) r) + 20 \<le> unat (XtVmmRuntimePhysBase (rpb s))"
    and "unat (e820_stack (vmcs_of vp s)) + 2 \<le> unat (XtVmmRuntimePhysBase (rpb s))"
  shows "\<exists>r' s'. vmx_int15_handleintercept vp (r, s) = Inr (r', s')
    \<and> load_e820 (mem s') (int15_e820_buffer (vmcs_of vp s) r) = g_e820map s ! unat (ebx r)
    \<and> r' = r\<lparr>eax := 0x534D4150, ecx := 20, ebx := if e820_last (r, s) then 0 else ebx r + 1\<rparr>
    \<and> (\<not> e820_last (r, s) \<longrightarrow> \<not> bit (ld16 (mem s') (e820_stack (vmcs_of vp s))) 0)
    \<and> s' = upd_vmcs vp (\<lambda>c. c\<lparr>guest_RIP := guest_RIP c + 3\<rparr>) (s\<lparr>mem := mem s'\<rparr>)
    \<and> (\<forall>a. a \<notin> span (int15_e820_buffer (vmcs_of vp s) r) 20 \<union> span (e820_stack (vmcs_of vp s)) 2
         \<longrightarrow> mem s' a = mem s a)"
proof -
  have "bit (ld16 (e820_mem vp (r, s)) (e820_stack (vmcs_of vp s))) 0 = e820_last (r, s)"
    by (simp add: e820_mem_def Let_def bit_simps xconst)
  with e820_run[OF assms(1)] e820_stored[OF assms(1)] show ?thesis
    using e820_mem_outside[of _ s vp r] store_e820_outside by (simp add: upd_vmcs_def upd_vcpu_def)
qed

text \<open>A real-mode guest asks for the first of two entries, with its buffer at \<open>buf\<close>.\<close>

definition e820_entry :: GRUBE820 where
  "e820_entry = \<lparr>baseaddr_low = 0, baseaddr_high = 0x11111111, length_low = 0x9F000, length_high = 0, e820_type = 1\<rparr>"

definition e820_state :: "u32 \<Rightarrow> xmhf_state" where
  "e820_state buf = (upd_vmcs 0 (\<lambda>c. c\<lparr>guest_ES_base := ucast buf, guest_RSP := 0x7000\<rparr>) sample_state)
     \<lparr>g_e820map := [e820_entry, e820_entry], rpb := sample_rpb\<lparr>XtVmmE820NumEntries := 2\<rparr>\<rparr>"

definition e820_regs :: regs where
  "e820_regs = sample_regs\<lparr>eax := 0xE820, edx := 0x534D4150\<rparr>"

lemma e820_sample: "int15_e820_buffer (vmcs_of 0 (e820_state buf)) e820_regs = buf"
  "e820_stack (vmcs_of 0 (e820_state buf)) = 0x7004"
  by (simp_all add: int15_e820_buffer_def e820_state_def e820_regs_def e820_stack_def sample_machine)

lemma e820_sample_request:
  assumes "20 \<le> unat (0x7004 - buf)" "2 \<le> unat (buf - 0x7004)" "buf < 0x10000000"
  shows "e820_request 0 (e820_regs, e820_state buf)"
  using assms span_disjointI[of 20 "0x7004" buf 2]
  by (simp add: e820_request_def e820_sample)
    (simp add: e820_regs_def e820_state_def v86_mode_def sample_machine xconst)

theorem e820_request_answered_witness:
  "\<exists>r' s'. vmx_int15_handleintercept 0 (e820_regs, e820_state 0x8000) = Inr (r', s')
    \<and> load_e820 (mem s') 0x8000 = e820_entry \<and> ebx r' = 1"
proof -
  have q: "e820_request 0 (e820_regs, e820_state 0x8000)" by (rule e820_sample_request) simp_all
  have b: "XtVmmRuntimePhysBase (rpb (e820_state 0x8000)) = 0x10000000" by (simp add: e820_state_def sample_rpb_def)
  obtain r' s' where "vmx_int15_handleintercept 0 (e820_regs, e820_state 0x8000) = Inr (r', s')"
    "load_e820 (mem s') 0x8000 = g_e820map (e820_state 0x8000) ! unat (ebx e820_regs)"
    "ebx r' = (if e820_last (e820_regs, e820_state 0x8000) then 0 else ebx e820_regs + 1)"
    using e820_request_answered[OF q] b unfolding e820_sample by force
  moreover have "\<not> e820_last (e820_regs, e820_state 0x8000)"
    by (simp add: e820_last_def e820_regs_def e820_state_def sample_regs_def)
  ultimately show ?thesis by (simp add: e820_regs_def e820_state_def sample_regs_def)
qed

text \<open>
  The handler can be made to overwrite the hypervisor. It compares only the start of the
  guest's buffer with the base of the runtime, so a real-mode guest with a suitable segment base gets
  part of an entry written to the first bytes of the runtime, memory that nested paging hides from it.
\<close>

lemma e820_can_overwrite_hypervisor:
  "\<exists>r s r' s' a. vmx_int15_handleintercept 0 (r, s) = Inr (r', s') \<and> in_xmhf_region (rpb s) a
    \<and> XtVmmRuntimePhysBase (rpb s) \<le> a \<and> mem s' a \<noteq> mem s a"
proof -
  let ?s = "e820_state 0x0FFFFFFC"
  have req: "e820_request 0 (e820_regs, ?s)" by (rule e820_sample_request) simp_all
  let ?m = "e820_mem 0 (e820_regs, ?s)"
  have "load_e820 ?m 0x0FFFFFFC = e820_entry"
    using e820_stored[OF req] by (simp add: e820_sample) (simp add: e820_regs_def e820_state_def sample_regs_def)
  then have "ld32 ?m 0x10000000 = 0x11111111" by (simp add: load_e820_def e820_entry_def)
  moreover have "ld32 (mem ?s) 0x10000000 = 0" by (simp add: e820_state_def sample_state_def ld32_zero)
  ultimately have "\<exists>a \<in> span 0x10000000 4. ?m a \<noteq> mem ?s a"
    using ldw_cong[of 4 "0x10000000" ?m "mem ?s", where 'a = 32] unfolding ld32_def by fastforce
  then obtain a where a: "unat (a - 0x10000000) < 4" "?m a \<noteq> mem ?s a" by (auto simp: span_iff)
  then have "unat (a - 0x10000000) \<in> {0, 1, 2, 3}" by auto
  then have "a - 0x10000000 \<in> {0, 1, 2, 3}" by (simp add: word_unat_eq_iff)
  then have "a \<in> {0x10000000, 0x10000001, 0x10000002, 0x10000003}" by (auto simp: diff_eq_eq)
  then have "in_xmhf_region (rpb ?s) a" "XtVmmRuntimePhysBase (rpb ?s) \<le> a"
    by (auto simp: in_xmhf_region_def e820_state_def sample_rpb_def xconst)
  with e820_run[OF req] a(2) show ?thesis by fastforce
qed

end
