(* ===== verification/XMHF_VMCS.thy ===== *)
theory XMHF_VMCS
  imports XMHF_EventProps
begin

text \<open>
  The processor's VMCS and the copy of it in the \<^verbatim>\<open>VCPU\<close> structure
  (\<^verbatim>\<open>bplt-x86vmx-vmcs.c\<close> with the tables of \<^verbatim>\<open>bplt-x86vmx-data.c\<close>): every exit begins with
  \<^verbatim>\<open>getVMCS\<close> and ends with \<^verbatim>\<open>putVMCS\<close>. The processor's VMCS is a function from field encodings to
  32-bit values, which is what \<^verbatim>\<open>vmread\<close> and \<^verbatim>\<open>vmwrite\<close> transfer on the 32-bit target; the field
  of the structure an entry of a table names is given by its selector and its update. Of a field of
  64 bits the lower half is transferred, and a field of 16 bits keeps the lower half of what is written.
\<close>

section \<open>The tables of encodings\<close>

type_synonym vmcs_hw = "u32 \<Rightarrow> u32"

record vmcs_field =
  encoding :: u32
  field_get :: "vmcsfields \<Rightarrow> u32"
  field_set :: "u32 \<Rightarrow> vmcsfields \<Rightarrow> vmcsfields"

definition w32 :: "u32 \<Rightarrow> (vmcsfields \<Rightarrow> u32) \<Rightarrow> ((u32 \<Rightarrow> u32) \<Rightarrow> vmcsfields \<Rightarrow> vmcsfields) \<Rightarrow> vmcs_field" where
  "w32 enc get upd = \<lparr>encoding = enc, field_get = get, field_set = (\<lambda>x. upd (\<lambda>_. x))\<rparr>"

definition set_low :: "u64 \<Rightarrow> u32 \<Rightarrow> u64" where
  "set_low w x = (w AND NOT 0xFFFFFFFF) OR ucast x"

definition w64 :: "u32 \<Rightarrow> (vmcsfields \<Rightarrow> u64) \<Rightarrow> ((u64 \<Rightarrow> u64) \<Rightarrow> vmcsfields \<Rightarrow> vmcsfields) \<Rightarrow> vmcs_field" where
  "w64 enc get upd = \<lparr>encoding = enc, field_get = (\<lambda>c. ucast (get c)),
    field_set = (\<lambda>x. upd (\<lambda>w. set_low w x))\<rparr>"

definition g_vmx_vmcsrofields_encodings :: "vmcs_field list" where
  "g_vmx_vmcsrofields_encodings = [
    w32 0x4400 info_vminstr_error info_vminstr_error_update,
    w32 0x4402 info_vmexit_reason info_vmexit_reason_update,
    w32 0x4404 info_vmexit_interrupt_information info_vmexit_interrupt_information_update,
    w32 0x4406 info_vmexit_interrupt_error_code info_vmexit_interrupt_error_code_update,
    w32 0x4408 info_IDT_vectoring_information info_IDT_vectoring_information_update,
    w32 0x440A info_IDT_vectoring_error_code info_IDT_vectoring_error_code_update,
    w32 0x440C info_vmexit_instruction_length info_vmexit_instruction_length_update,
    w32 0x440E info_vmx_instruction_information info_vmx_instruction_information_update,
    w64 0x6400 info_exit_qualification info_exit_qualification_update,
    w64 0x6402 info_IO_RCX info_IO_RCX_update,
    w64 0x6404 info_IO_RSI info_IO_RSI_update,
    w64 0x6406 info_IO_RDI info_IO_RDI_update,
    w64 0x6408 info_IO_RIP info_IO_RIP_update,
    w32 0x2400 guest_paddr_full guest_paddr_full_update,
    w32 0x2401 guest_paddr_high guest_paddr_high_update,
    w64 0x640A info_guest_linear_address info_guest_linear_address_update]"

definition g_vmx_vmcsrwfields_encodings :: "vmcs_field list" where
  "g_vmx_vmcsrwfields_encodings = [
    w32 0x0000 control_vpid control_vpid_update,
    w32 0x4000 control_VMX_pin_based control_VMX_pin_based_update,
    w32 0x4002 control_VMX_cpu_based control_VMX_cpu_based_update,
    w32 0x401E control_VMX_seccpu_based control_VMX_seccpu_based_update,
    w32 0x4004 control_exception_bitmap control_exception_bitmap_update,
    w32 0x4006 control_pagefault_errorcode_mask control_pagefault_errorcode_mask_update,
    w32 0x4008 control_pagefault_errorcode_match control_pagefault_errorcode_match_update,
    w32 0x400A control_CR3_target_count control_CR3_target_count_update,
    w32 0x400C control_VM_exit_controls control_VM_exit_controls_update,
    w32 0x400E control_VM_exit_MSR_store_count control_VM_exit_MSR_store_count_update,
    w32 0x4010 control_VM_exit_MSR_load_count control_VM_exit_MSR_load_count_update,
    w32 0x4012 control_VM_entry_controls control_VM_entry_controls_update,
    w32 0x4014 control_VM_entry_MSR_load_count control_VM_entry_MSR_load_count_update,
    w32 0x4016 control_VM_entry_interruption_information control_VM_entry_interruption_information_update,
    w32 0x4018 control_VM_entry_exception_errorcode control_VM_entry_exception_errorcode_update,
    w32 0x401A control_VM_entry_instruction_length control_VM_entry_instruction_length_update,
    w32 0x401C control_Task_PRivilege_Threshold control_Task_PRivilege_Threshold_update,
    w64 0x6000 control_CR0_mask control_CR0_mask_update,
    w64 0x6002 control_CR4_mask control_CR4_mask_update,
    w64 0x6004 control_CR0_shadow control_CR0_shadow_update,
    w64 0x6006 control_CR4_shadow control_CR4_shadow_update,
    w64 0x6008 control_CR3_target0 control_CR3_target0_update,
    w64 0x600A control_CR3_target1 control_CR3_target1_update,
    w64 0x600C control_CR3_target2 control_CR3_target2_update,
    w64 0x600E control_CR3_target3 control_CR3_target3_update,
    w32 0x2000 control_IO_BitmapA_address_full control_IO_BitmapA_address_full_update,
    w32 0x2001 control_IO_BitmapA_address_high control_IO_BitmapA_address_high_update,
    w32 0x2002 control_IO_BitmapB_address_full control_IO_BitmapB_address_full_update,
    w32 0x2003 control_IO_BitmapB_address_high control_IO_BitmapB_address_high_update,
    w32 0x2004 control_MSR_Bitmaps_address_full control_MSR_Bitmaps_address_full_update,
    w32 0x2005 control_MSR_Bitmaps_address_high control_MSR_Bitmaps_address_high_update,
    w32 0x2006 control_VM_exit_MSR_store_address_full control_VM_exit_MSR_store_address_full_update,
    w32 0x2007 control_VM_exit_MSR_store_address_high control_VM_exit_MSR_store_address_high_update,
    w32 0x2008 control_VM_exit_MSR_load_address_full control_VM_exit_MSR_load_address_full_update,
    w32 0x2009 control_VM_exit_MSR_load_address_high control_VM_exit_MSR_load_address_high_update,
    w32 0x200A control_VM_entry_MSR_load_address_full control_VM_entry_MSR_load_address_full_update,
    w32 0x200B control_VM_entry_MSR_load_address_high control_VM_entry_MSR_load_address_high_update,
    w32 0x200C control_Executive_VMCS_pointer_full control_Executive_VMCS_pointer_full_update,
    w32 0x200D control_Executive_VMCS_pointer_high control_Executive_VMCS_pointer_high_update,
    w32 0x2010 control_TSC_offset_full control_TSC_offset_full_update,
    w32 0x2011 control_TSC_offset_high control_TSC_offset_high_update,
    w32 0x201A control_EPT_pointer_full control_EPT_pointer_full_update,
    w32 0x201B control_EPT_pointer_high control_EPT_pointer_high_update,
    w64 0x6C00 host_CR0 host_CR0_update,
    w64 0x6C02 host_CR3 host_CR3_update,
    w64 0x6C04 host_CR4 host_CR4_update,
    w64 0x6C06 host_FS_base host_FS_base_update,
    w64 0x6C08 host_GS_base host_GS_base_update,
    w64 0x6C0A host_TR_base host_TR_base_update,
    w64 0x6C0C host_GDTR_base host_GDTR_base_update,
    w64 0x6C0E host_IDTR_base host_IDTR_base_update,
    w64 0x6C10 host_SYSENTER_ESP host_SYSENTER_ESP_update,
    w64 0x6C12 host_SYSENTER_EIP host_SYSENTER_EIP_update,
    w64 0x6C14 host_RSP host_RSP_update,
    w64 0x6C16 host_RIP host_RIP_update,
    w32 0x4C00 host_SYSENTER_CS host_SYSENTER_CS_update,
    w32 0x0C00 host_ES_selector host_ES_selector_update,
    w32 0x0C02 host_CS_selector host_CS_selector_update,
    w32 0x0C04 host_SS_selector host_SS_selector_update,
    w32 0x0C06 host_DS_selector host_DS_selector_update,
    w32 0x0C08 host_FS_selector host_FS_selector_update,
    w32 0x0C0A host_GS_selector host_GS_selector_update,
    w32 0x0C0C host_TR_selector host_TR_selector_update,
    w64 0x6800 guest_CR0 guest_CR0_update,
    w64 0x6802 guest_CR3 guest_CR3_update,
    w64 0x6804 guest_CR4 guest_CR4_update,
    w64 0x6806 guest_ES_base guest_ES_base_update,
    w64 0x6808 guest_CS_base guest_CS_base_update,
    w64 0x680A guest_SS_base guest_SS_base_update,
    w64 0x680C guest_DS_base guest_DS_base_update,
    w64 0x680E guest_FS_base guest_FS_base_update,
    w64 0x6810 guest_GS_base guest_GS_base_update,
    w64 0x6812 guest_LDTR_base guest_LDTR_base_update,
    w64 0x6814 guest_TR_base guest_TR_base_update,
    w64 0x6816 guest_GDTR_base guest_GDTR_base_update,
    w64 0x6818 guest_IDTR_base guest_IDTR_base_update,
    w64 0x681A guest_DR7 guest_DR7_update,
    w64 0x681C guest_RSP guest_RSP_update,
    w64 0x681E guest_RIP guest_RIP_update,
    w64 0x6820 guest_RFLAGS guest_RFLAGS_update,
    w64 0x6822 guest_pending_debug_x guest_pending_debug_x_update,
    w64 0x6824 guest_SYSENTER_ESP guest_SYSENTER_ESP_update,
    w64 0x6826 guest_SYSENTER_EIP guest_SYSENTER_EIP_update,
    w32 0x280A guest_PDPTE0_full guest_PDPTE0_full_update,
    w32 0x280B guest_PDPTE0_high guest_PDPTE0_high_update,
    w32 0x280C guest_PDPTE1_full guest_PDPTE1_full_update,
    w32 0x280D guest_PDPTE1_high guest_PDPTE1_high_update,
    w32 0x280E guest_PDPTE2_full guest_PDPTE2_full_update,
    w32 0x280F guest_PDPTE2_high guest_PDPTE2_high_update,
    w32 0x2810 guest_PDPTE3_full guest_PDPTE3_full_update,
    w32 0x2811 guest_PDPTE3_high guest_PDPTE3_high_update,
    w32 0x4800 guest_ES_limit guest_ES_limit_update,
    w32 0x4802 guest_CS_limit guest_CS_limit_update,
    w32 0x4804 guest_SS_limit guest_SS_limit_update,
    w32 0x4806 guest_DS_limit guest_DS_limit_update,
    w32 0x4808 guest_FS_limit guest_FS_limit_update,
    w32 0x480A guest_GS_limit guest_GS_limit_update,
    w32 0x480C guest_LDTR_limit guest_LDTR_limit_update,
    w32 0x480E guest_TR_limit guest_TR_limit_update,
    w32 0x4810 guest_GDTR_limit guest_GDTR_limit_update,
    w32 0x4812 guest_IDTR_limit guest_IDTR_limit_update,
    w32 0x4814 guest_ES_access_rights guest_ES_access_rights_update,
    w32 0x4816 guest_CS_access_rights guest_CS_access_rights_update,
    w32 0x4818 guest_SS_access_rights guest_SS_access_rights_update,
    w32 0x481A guest_DS_access_rights guest_DS_access_rights_update,
    w32 0x481C guest_FS_access_rights guest_FS_access_rights_update,
    w32 0x481E guest_GS_access_rights guest_GS_access_rights_update,
    w32 0x4820 guest_LDTR_access_rights guest_LDTR_access_rights_update,
    w32 0x4822 guest_TR_access_rights guest_TR_access_rights_update,
    w32 0x4824 guest_interruptibility guest_interruptibility_update,
    w32 0x4826 guest_activity_state guest_activity_state_update,
    w32 0x4828 guest_SMBASE guest_SMBASE_update,
    w32 0x482A guest_SYSENTER_CS guest_SYSENTER_CS_update,
    w32 0x0800 guest_ES_selector guest_ES_selector_update,
    w32 0x0802 guest_CS_selector guest_CS_selector_update,
    w32 0x0804 guest_SS_selector guest_SS_selector_update,
    w32 0x0806 guest_DS_selector guest_DS_selector_update,
    w32 0x0808 guest_FS_selector guest_FS_selector_update,
    w32 0x080A guest_GS_selector guest_GS_selector_update,
    w32 0x080C guest_LDTR_selector guest_LDTR_selector_update,
    w32 0x080E guest_TR_selector guest_TR_selector_update,
    w32 0x2800 guest_VMCS_link_pointer_full guest_VMCS_link_pointer_full_update,
    w32 0x2801 guest_VMCS_link_pointer_high guest_VMCS_link_pointer_high_update,
    w32 0x2802 guest_IA32_DEBUGCTL_full guest_IA32_DEBUGCTL_full_update,
    w32 0x2803 guest_IA32_DEBUGCTL_high guest_IA32_DEBUGCTL_high_update]"

section \<open>Reading and writing the processor's VMCS\<close>

text \<open>
  Bits 14 and 13 of an encoding are the width of the field, 0 for 16 bits (Intel SDM, 24.11.2), of which
  \<^verbatim>\<open>vmwrite\<close> ignores the upper bits of its operand. \<open>ok\<close> says which \<^verbatim>\<open>vmwrite\<close> instructions succeed.
\<close>

definition field_value :: "u32 \<Rightarrow> u32 \<Rightarrow> u32" where
  "field_value e x = (if drop_bit 13 e AND 3 = 0 then x AND 0xFFFF else x)"

primrec put_fields :: "(u32 \<Rightarrow> u32 \<Rightarrow> bool) \<Rightarrow> vmcsfields \<Rightarrow> vmcs_field list \<Rightarrow> vmcs_hw \<Rightarrow> xmhf_error + vmcs_hw" where
  "put_fields ok c [] V = Inr V"
| "put_fields ok c (f # fs) V =
    (let fieldvalue = field_get f c in
     if ok (encoding f) fieldvalue then put_fields ok c fs (V(encoding f := field_value (encoding f) fieldvalue)) else Inl Halt)"

definition xmhf_baseplatform_arch_x86vmx_putVMCS ::
  "(u32 \<Rightarrow> u32 \<Rightarrow> bool) \<Rightarrow> vmcsfields \<Rightarrow> vmcs_hw \<Rightarrow> xmhf_error + vmcs_hw" where
  "xmhf_baseplatform_arch_x86vmx_putVMCS ok c V = put_fields ok c g_vmx_vmcsrwfields_encodings V"

primrec get_fields :: "vmcs_hw \<Rightarrow> vmcs_field list \<Rightarrow> vmcsfields \<Rightarrow> vmcsfields" where
  "get_fields V [] c = c"
| "get_fields V (f # fs) c = get_fields V fs (field_set f (V (encoding f)) c)"

definition xmhf_baseplatform_arch_x86vmx_getVMCS :: "vmcs_hw \<Rightarrow> vmcsfields \<Rightarrow> vmcsfields" where
  "xmhf_baseplatform_arch_x86vmx_getVMCS V c =
    get_fields V g_vmx_vmcsrofields_encodings (get_fields V g_vmx_vmcsrwfields_encodings c)"

section \<open>What is written is read back\<close>

lemma put_fields_other: "put_fields ok c fs V = Inr V' \<Longrightarrow> e \<notin> encoding ` set fs \<Longrightarrow> V' e = V e"
  by (induction fs arbitrary: V) (auto simp: Let_def split: if_splits)

lemma put_fields_written:
  "put_fields ok c fs V = Inr V' \<Longrightarrow> distinct (map encoding fs) \<Longrightarrow> f \<in> set fs \<Longrightarrow>
    V' (encoding f) = field_value (encoding f) (field_get f c)"
proof (induction fs arbitrary: V)
  case (Cons g fs)
  then show ?case by (auto simp: Let_def put_fields_other split: if_splits)
qed simp

lemma put_fields_total: "(\<And>f. f \<in> set fs \<Longrightarrow> ok (encoding f) (field_get f c)) \<Longrightarrow> \<exists>V'. put_fields ok c fs V = Inr V'"
  by (induction fs arbitrary: V) auto

lemma rw_distinct: "distinct (map encoding g_vmx_vmcsrwfields_encodings)"
  unfolding g_vmx_vmcsrwfields_encodings_def w32_def w64_def by simp

lemma ucast_set_low [simp]: "ucast (set_low w x) = x"
  unfolding set_low_def by (rule u32_bitsI) (simp add: bit_simps)

lemma rw_read: "\<forall>f\<in>set g_vmx_vmcsrwfields_encodings. field_get f (xmhf_baseplatform_arch_x86vmx_getVMCS V c) = V (encoding f)"
  unfolding xmhf_baseplatform_arch_x86vmx_getVMCS_def
  by (simp add: g_vmx_vmcsrofields_encodings_def g_vmx_vmcsrwfields_encodings_def w32_def w64_def)

lemma ro_read: "\<forall>f\<in>set g_vmx_vmcsrofields_encodings. field_get f (xmhf_baseplatform_arch_x86vmx_getVMCS V c) = V (encoding f)"
  unfolding xmhf_baseplatform_arch_x86vmx_getVMCS_def
  by (simp add: g_vmx_vmcsrofields_encodings_def g_vmx_vmcsrwfields_encodings_def w32_def w64_def)

text \<open>
  After \<^verbatim>\<open>putVMCS\<close> has succeeded, \<^verbatim>\<open>getVMCS\<close> gives back in every read-write field of whatever structure
  it is called on the value that was written, cut to 16 bits in a field of that width, and encodings
  outside the table are untouched.
\<close>

lemma vmcs_roundtrip:
  assumes "xmhf_baseplatform_arch_x86vmx_putVMCS ok c V = Inr V'"
  shows "(\<forall>f\<in>set g_vmx_vmcsrwfields_encodings.
       field_get f (xmhf_baseplatform_arch_x86vmx_getVMCS V' c') = field_value (encoding f) (field_get f c))
    \<and> (\<forall>e. e \<notin> encoding ` set g_vmx_vmcsrwfields_encodings \<longrightarrow> V' e = V e)"
  using assms rw_read put_fields_written[OF _ rw_distinct] put_fields_other
  unfolding xmhf_baseplatform_arch_x86vmx_putVMCS_def by (metis (no_types, lifting))

section \<open>Exits of a running guest\<close>

text \<open>One exit as the entry stub runs it: the VMCS is read, the exit handled, the VMCS written back.\<close>

definition vmx_exit ::
  "hypapp \<Rightarrow> hardware \<Rightarrow> (u32 \<Rightarrow> u32 \<Rightarrow> bool) \<Rightarrow> u32 \<Rightarrow> vmcs_hw \<times> hub \<Rightarrow> xmhf_error + vmcs_hw \<times> hub" where
  "vmx_exit app hw ok vp = (\<lambda>(V, r, s).
    bindE (xmhf_parteventhub_arch_x86vmx_intercept_handler app hw vp
        (r, upd_vmcs vp (xmhf_baseplatform_arch_x86vmx_getVMCS V) s)) (\<lambda>(r, s).
    bindE (xmhf_baseplatform_arch_x86vmx_putVMCS ok (vmcs_of vp s) V) (\<lambda>V. Inr (V, r, s))))"

text \<open>
  While the guest runs, the processor leaves the control and the host fields of the VMCS alone,
  except for the event to be injected, which it clears. Bits 10 and 11 of an encoding give the type
  of the field: 0 control, 1 exit information, 2 guest state, 3 host state.
\<close>

definition guest_saves :: "vmcs_hw \<Rightarrow> vmcs_hw \<Rightarrow> bool" where
  "guest_saves V V' \<longleftrightarrow> (\<forall>e. drop_bit 10 e AND 3 \<in> {0, 3} \<longrightarrow> e \<noteq> 0x4016 \<longrightarrow> V' e = V e)"

text \<open>
  A run of the guest on a core. While it runs the guest may change its registers, its part of the VMCS
  and memory in any way, other cores and devices included, except for the addresses in \<open>A\<close>, and its
  exits are confined with respect to \<open>A\<close>. What \<open>A\<close> stands for are the addresses at which the runtime
  keeps the structures that the model has outside its memory: nested paging keeps the guest from them,
  and the confined exits are those that do not write them on its behalf.
\<close>

inductive guest_run ::
  "hypapp \<Rightarrow> (regs \<Rightarrow> bool) \<Rightarrow> hardware \<Rightarrow> (u32 \<Rightarrow> u32 \<Rightarrow> bool) \<Rightarrow> u32 set \<Rightarrow> u32 \<Rightarrow> vmcs_hw \<times> hub \<Rightarrow> vmcs_hw \<times> hub \<Rightarrow> bool"
  for app silent hw ok A vp x where
  launch: "guest_run app silent hw ok A vp x x"
| guest: "guest_run app silent hw ok A vp x (V, r, s) \<Longrightarrow> guest_saves V V' \<Longrightarrow> same_on A (mem s) m \<Longrightarrow>
    guest_run app silent hw ok A vp x (V', r', s\<lparr>mem := m\<rparr>)"
| exit: "guest_run app silent hw ok A vp x (V, r, s) \<Longrightarrow>
    confined silent A vp (r, upd_vmcs vp (xmhf_baseplatform_arch_x86vmx_getVMCS V) s) \<Longrightarrow>
    vmx_exit app hw ok vp (V, r, s) = Inr z \<Longrightarrow> guest_run app silent hw ok A vp x z"

definition ept_hw :: "RPB \<Rightarrow> VCPU \<Rightarrow> vmcs_hw \<Rightarrow> bool" where
  "ept_hw b v V \<longleftrightarrow> bit (V 0x401E) 1 \<and> V 0x201B = 0
    \<and> V 0x201A = ucast (hva2spa1 b (vmx_vaddr_ept_pml4_table v) OR 0x1E)"

lemma ept_entries:
  "w32 0x401E control_VMX_seccpu_based control_VMX_seccpu_based_update \<in> set g_vmx_vmcsrwfields_encodings"
  "w32 0x201A control_EPT_pointer_full control_EPT_pointer_full_update \<in> set g_vmx_vmcsrwfields_encodings"
  "w32 0x201B control_EPT_pointer_high control_EPT_pointer_high_update \<in> set g_vmx_vmcsrwfields_encodings"
  by (simp_all add: g_vmx_vmcsrwfields_encodings_def)

lemma ept_on_get:
  "ept_on vp (upd_vmcs vp (xmhf_baseplatform_arch_x86vmx_getVMCS V) s) \<longleftrightarrow> ept_hw (rpb s) (vcpus s vp) V"
proof -
  note r = ept_entries[THEN bspec[OF rw_read]]
  show ?thesis using r[of V "vmcs_of vp s"] by (simp add: ept_on_def ept_hw_def w32_def)
qed

lemma ept_hw_put:
  assumes "xmhf_baseplatform_arch_x86vmx_putVMCS ok (vmcs_of vp s) V = Inr V'"
  shows "ept_hw (rpb s) (vcpus s vp) V' \<longleftrightarrow> ept_on vp s"
proof -
  note w = ept_entries[THEN put_fields_written[OF assms[unfolded xmhf_baseplatform_arch_x86vmx_putVMCS_def] rw_distinct]]
  show ?thesis using w by (simp add: ept_on_def ept_hw_def w32_def field_value_def)
qed

text \<open>The addresses of a core's tables, which no step changes.\<close>

definition core_tables :: "u32 \<Rightarrow> xmhf_state \<Rightarrow> u32 \<times> u32 \<times> RPB" where
  "core_tables vp s = (vmx_vaddr_ept_pml4_table (vcpus s vp), vmx_vaddr_ept_p_tables (vcpus s vp), rpb s)"

lemma ept_hw_tables: "core_tables vp s' = core_tables vp s \<Longrightarrow> ept_hw (rpb s') (vcpus s' vp) V = ept_hw (rpb s) (vcpus s vp) V"
  by (simp add: core_tables_def ept_hw_def)

lemma vmx_exit_keeps_ept:
  assumes x: "vmx_exit (quiesce_app fuel E) hw ok vp (V, r, s) = Inr (V', r', s')"
  shows "core_tables vp s' = core_tables vp s"
    and "ept_hw (rpb s) (vcpus s vp) V \<Longrightarrow> ept_hw (rpb s') (vcpus s' vp) V'"
    and "confined no_quiesce_call A vp (r, upd_vmcs vp (xmhf_baseplatform_arch_x86vmx_getVMCS V) s) \<Longrightarrow>
      span (vmx_vaddr_ept_p_tables (vcpus s vp)) (8 * 2 ^ 20) \<inter> A = {} \<Longrightarrow> same_on A (mem s) (mem s')"
proof -
  have h: "xmhf_parteventhub_arch_x86vmx_intercept_handler (quiesce_app fuel E) hw vp
      (r, upd_vmcs vp (xmhf_baseplatform_arch_x86vmx_getVMCS V) s) = Inr (r', s')"
    and p: "xmhf_baseplatform_arch_x86vmx_putVMCS ok (vmcs_of vp s') V = Inr V'"
    using x by (auto simp: vmx_exit_def)
  note f = quiesce.handler_keeps_ept[OF h]
  then show "core_tables vp s' = core_tables vp s" by (simp add: ept_fields_def core_tables_def)
  show "ept_hw (rpb s) (vcpus s vp) V \<Longrightarrow> ept_hw (rpb s') (vcpus s' vp) V'"
    using ept_on_fields[OF f] ept_hw_put[OF p] by (simp add: ept_on_get)
  show "confined no_quiesce_call A vp (r, upd_vmcs vp (xmhf_baseplatform_arch_x86vmx_getVMCS V) s) \<Longrightarrow>
      span (vmx_vaddr_ept_p_tables (vcpus s vp)) (8 * 2 ^ 20) \<inter> A = {} \<Longrightarrow> same_on A (mem s) (mem s')"
    using quiesce.handler_writes[OF h] by simp
qed

lemma guest_saves_ept:
  assumes "guest_saves V V'"
  shows "ept_hw b v V' = ept_hw b v V"
proof -
  have "V' 0x401E = V 0x401E" "V' 0x201A = V 0x201A" "V' 0x201B = V 0x201B"
    using assms by (simp_all add: guest_saves_def)
  then show ?thesis by (simp add: ept_hw_def)
qed

lemma guest_run_keeps_ept:
  assumes "guest_run (quiesce_app fuel E) no_quiesce_call hw ok A vp (V0, r0, s0) y"
    and "ept_hw (rpb s0) (vcpus s0 vp) V0" and "span (vmx_vaddr_ept_p_tables (vcpus s0 vp)) (8 * 2 ^ 20) \<inter> A = {}"
  shows "case y of (V, r, s) \<Rightarrow> ept_hw (rpb s) (vcpus s vp) V \<and> core_tables vp s = core_tables vp s0 \<and> same_on A (mem s0) (mem s)"
  using assms(1)
proof (induction rule: guest_run.induct)
  case launch
  then show ?case using assms(2) by simp
next
  case (guest V r s V' m r')
  then show ?case by (auto simp: guest_saves_ept core_tables_def intro: same_on_trans)
next
  case (exit V r s z)
  obtain V' r' s' where z: "z = (V', r', s')" by (cases z)
  note x = vmx_exit_keeps_ept[OF exit.hyps(3)[unfolded z]]
  have "span (vmx_vaddr_ept_p_tables (vcpus s vp)) (8 * 2 ^ 20) \<inter> A = {}"
    using exit.IH assms(3) by (simp add: core_tables_def)
  then show ?case using exit.IH x(1,2) x(3)[OF exit.hyps(2)] unfolding z by (auto intro: same_on_trans)
qed

text \<open>
  The addresses of the runtime of a core: its image, under the address it runs at and under the physical
  address, which the runtime's mapping leaves as it is, without the leaf tables of the core, which the
  LAPIC handlers write, and without the page that stands for the interrupt controller, which the guest
  writes. Here lie the VCPUs with their copies of the VMCS, the processor's VMCS, the stacks and the code.
\<close>

definition runtime_addresses :: "u32 \<Rightarrow> xmhf_state \<Rightarrow> u32 set" where
  "runtime_addresses vp s = (let b = rpb s; n = unat (XtVmmRuntimeSize b);
     t = vmx_vaddr_ept_p_tables (vcpus s vp); l = g_vmx_virtual_LAPIC_base s in
     (span (XtVmmRuntimeVirtBase b) n \<union> span (XtVmmRuntimePhysBase b) n)
     - (span t (8 * 2 ^ 20) \<union> span (ucast (hva2spa1 b t)) (8 * 2 ^ 20) \<union> span l 4096 \<union> span (ucast (hva2spa1 b l)) 4096))"

lemma runtime_addresses_tables: "span (vmx_vaddr_ept_p_tables (vcpus s vp)) (8 * 2 ^ 20) \<inter> runtime_addresses vp s = {}"
  by (auto simp: runtime_addresses_def Let_def)

text \<open>
  C17: nested paging stays on while the exits are confined. Let a guest of the quiesce application run
  and exit on a core in any way that leaves the addresses of the runtime alone: it does not write there
  itself, it does not make the quiesce hypercall, and its E820 requests give a buffer and a stack that
  miss these addresses in full. Then the processor's VMCS has extended page tables enabled with the root
  the hypervisor had set at the start, and no exit has stored anything at the addresses of the runtime on
  behalf of the guest, so that the structures the model keeps outside its memory are not overwritten
  through it. Without the confinement this fails: the hypercall stores 1 through an unchecked register of
  the guest, and the E820 handler checks only where its buffer begins, so that either can hit the copy
  of the VMCS in the VCPU.
\<close>

theorem nested_paging_stays_on:
  assumes "guest_run (quiesce_app fuel E) no_quiesce_call hw ok (runtime_addresses vp s0) vp (V0, r0, s0) (V, r, s)"
    and "ept_hw (rpb s0) (vcpus s0 vp) V0"
  shows "ept_hw (rpb s0) (vcpus s0 vp) V \<and> same_on (runtime_addresses vp s0) (mem s0) (mem s)"
  using guest_run_keeps_ept[OF assms runtime_addresses_tables] ept_hw_tables[of vp s s0 V] by auto

definition cpuid_exit_vmcs :: vmcs_hw where
  "cpuid_exit_vmcs = (\<lambda>_. 0)(0x401E := 2, 0x201A := 0x1000101E, 0x4402 := 10, 0x440C := 2)"

lemma cpuid_exit_read:
  "info_vmexit_reason (xmhf_baseplatform_arch_x86vmx_getVMCS cpuid_exit_vmcs c) = 10"
  "info_IDT_vectoring_information (xmhf_baseplatform_arch_x86vmx_getVMCS cpuid_exit_vmcs c) = 0"
  "guest_interruptibility (xmhf_baseplatform_arch_x86vmx_getVMCS cpuid_exit_vmcs c) = 0"
proof -
  have m: "w32 0x4402 info_vmexit_reason info_vmexit_reason_update \<in> set g_vmx_vmcsrofields_encodings"
    "w32 0x4408 info_IDT_vectoring_information info_IDT_vectoring_information_update \<in> set g_vmx_vmcsrofields_encodings"
    "w32 0x4824 guest_interruptibility guest_interruptibility_update \<in> set g_vmx_vmcsrwfields_encodings"
    by (simp_all add: g_vmx_vmcsrofields_encodings_def g_vmx_vmcsrwfields_encodings_def)
  show "info_vmexit_reason (xmhf_baseplatform_arch_x86vmx_getVMCS cpuid_exit_vmcs c) = 10"
    "info_IDT_vectoring_information (xmhf_baseplatform_arch_x86vmx_getVMCS cpuid_exit_vmcs c) = 0"
    "guest_interruptibility (xmhf_baseplatform_arch_x86vmx_getVMCS cpuid_exit_vmcs c) = 0"
    using bspec[OF ro_read m(1)] bspec[OF ro_read m(2)] bspec[OF rw_read m(3)] by (simp_all add: w32_def cpuid_exit_vmcs_def)
qed

lemma cpuid_exit_runs:
  "\<exists>V r s. vmx_exit (quiesce_app 9 sample_env) sample_hw (\<lambda>e x. True) 0 (cpuid_exit_vmcs, sample_regs, sample_state)
    = Inr (V, r, s) \<and> edx r = 0x1000"
proof -
  have "\<exists>r s. xmhf_parteventhub_arch_x86vmx_intercept_handler (quiesce_app 9 sample_env) sample_hw 0
      (sample_regs, upd_vmcs 0 (xmhf_baseplatform_arch_x86vmx_getVMCS cpuid_exit_vmcs) sample_state) = Inr (r, s) \<and> edx r = 0x1000"
    by (simp add: xmhf_parteventhub_arch_x86vmx_intercept_handler_def dispatch_intercept_def cpuid_exit_read
      vmx_handle_intercept_cpuid_def skip_instruction_def Let_def xconst sample_regs_def sample_hw_def)
  moreover have "\<exists>V'. xmhf_baseplatform_arch_x86vmx_putVMCS (\<lambda>e x. True) c V = Inr V'" for c V
    unfolding xmhf_baseplatform_arch_x86vmx_putVMCS_def by (rule put_fields_total) simp
  ultimately show ?thesis unfolding vmx_exit_def by fastforce
qed

text \<open>The guest exits for the \<^verbatim>\<open>CPUID\<close> instruction.\<close>

theorem nested_paging_stays_on_witness:
  "\<exists>V r s. guest_run (quiesce_app 9 sample_env) no_quiesce_call sample_hw (\<lambda>e x. True) (runtime_addresses 0 sample_state) 0
      (cpuid_exit_vmcs, sample_regs, sample_state) (V, r, s)
    \<and> edx r = 0x1000 \<and> 0x10300000 \<in> runtime_addresses 0 sample_state
    \<and> ept_hw (rpb sample_state) (vcpus sample_state 0) V
    \<and> same_on (runtime_addresses 0 sample_state) (mem sample_state) (mem s)"
proof -
  obtain V r s where x: "vmx_exit (quiesce_app 9 sample_env) sample_hw (\<lambda>e x. True) 0
      (cpuid_exit_vmcs, sample_regs, sample_state) = Inr (V, r, s)" "edx r = 0x1000"
    using cpuid_exit_runs by blast
  have c: "confined no_quiesce_call (runtime_addresses 0 sample_state) 0
      (sample_regs, upd_vmcs 0 (xmhf_baseplatform_arch_x86vmx_getVMCS cpuid_exit_vmcs) sample_state)"
    by (simp add: confined_def Let_def cpuid_exit_read xconst)
  note run = guest_run.exit[OF guest_run.launch c x(1)]
  have "ept_hw (rpb sample_state) (vcpus sample_state 0) cpuid_exit_vmcs"
    by (simp add: ept_hw_def cpuid_exit_vmcs_def hva2spa1_def sample_machine bit_numeral_rec)
  moreover have "0x10300000 \<in> runtime_addresses 0 sample_state"
    by (simp add: runtime_addresses_def Let_def span_def hva2spa1_def sample_machine)
  ultimately show ?thesis using nested_paging_stays_on[OF run] run x(2) by blast
qed

end
