(* ===== verification/XMHF_Partition.thy ===== *)
theory XMHF_Partition
  imports XMHF_VMCS
begin

text \<open>
  Setting up and starting the partition on Intel (\<^verbatim>\<open>xmhf-partition/arch/x86/vmx/part-x86vmx.c\<close>): VMX
  is enabled on the core, the INT 15 hook is planted for the boot processor, the VMCS structure gets
  its host state, controls and the real mode guest state, and the guest is launched.

  What the processor answers (control registers, segment selectors, which VMX instructions succeed)
  and the addresses the linker chose are the record \<open>platform\<close>. Writes to control registers go to the
  log of the state and are what later reads return.
\<close>

section \<open>Constants and the platform\<close>

definition MSR_EFER :: u32 where [xconst]: "MSR_EFER = 0xc0000080"
definition MSR_K6_STAR :: u32 where [xconst]: "MSR_K6_STAR = 0xc0000081"
definition MSR_IA32_PAT :: u32 where [xconst]: "MSR_IA32_PAT = 0x277"
definition IA32_VMX_BASIC_MSR :: u32 where [xconst]: "IA32_VMX_BASIC_MSR = 0x480"
definition IA32_MSR_FS_BASE :: u32 where [xconst]: "IA32_MSR_FS_BASE = 0xC0000100"
definition IA32_MSR_GS_BASE :: u32 where [xconst]: "IA32_MSR_GS_BASE = 0xC0000101"
definition MSR_EFCR :: u32 where [xconst]: "MSR_EFCR = 0x0000003A"
definition IA32_VMX_MSRCOUNT :: nat where [xconst]: "IA32_VMX_MSRCOUNT = 12"
definition INDEX_IA32_VMX_BASIC_MSR :: nat where [xconst]: "INDEX_IA32_VMX_BASIC_MSR = 0"
definition INDEX_IA32_VMX_PINBASED_CTLS_MSR :: nat where [xconst]: "INDEX_IA32_VMX_PINBASED_CTLS_MSR = 1"
definition INDEX_IA32_VMX_PROCBASED_CTLS_MSR :: nat where [xconst]: "INDEX_IA32_VMX_PROCBASED_CTLS_MSR = 2"
definition INDEX_IA32_VMX_EXIT_CTLS_MSR :: nat where [xconst]: "INDEX_IA32_VMX_EXIT_CTLS_MSR = 3"
definition INDEX_IA32_VMX_ENTRY_CTLS_MSR :: nat where [xconst]: "INDEX_IA32_VMX_ENTRY_CTLS_MSR = 4"
definition INDEX_IA32_VMX_CR0_FIXED0_MSR :: nat where [xconst]: "INDEX_IA32_VMX_CR0_FIXED0_MSR = 6"
definition INDEX_IA32_VMX_CR4_FIXED0_MSR :: nat where [xconst]: "INDEX_IA32_VMX_CR4_FIXED0_MSR = 8"
definition INDEX_IA32_VMX_PROCBASED_CTLS2_MSR :: nat where [xconst]: "INDEX_IA32_VMX_PROCBASED_CTLS2_MSR = 0xB"
definition TRSEL :: u16 where [xconst]: "TRSEL = 0x0018"
definition CR4_VMXE :: "'a::len word" where [xconst]: "CR4_VMXE = 0x2000"
definition CR4_OSXSAVE :: u32 where [xconst]: "CR4_OSXSAVE = push_bit 18 1"
definition GUESTOSBOOTMODULE_BASE :: u32 where [xconst]: "GUESTOSBOOTMODULE_BASE = 0x7c00"
definition PART_LEGACYIO_NOACCESS :: u32 where [xconst]: "PART_LEGACYIO_NOACCESS = 1"
definition PART_LEGACYIO_READWRITE :: u32 where [xconst]: "PART_LEGACYIO_READWRITE = 2"
definition AMD_STRING :: "u32 \<times> u32 \<times> u32" where [xconst]: "AMD_STRING = (0x68747541, 0x69746E65, 0x444D4163)"
definition INTEL_STRING :: "u32 \<times> u32 \<times> u32" where [xconst]: "INTEL_STRING = (0x756E6547, 0x49656E69, 0x6C65746E)"

record platform =
  boot_cr0 :: u32
  boot_cr3 :: u32
  boot_cr4 :: u32
  seg_cs :: u16
  seg_ds :: u16
  seg_es :: u16
  seg_fs :: u16
  seg_gs :: u16
  seg_ss :: u16
  tr_sel :: u16
  x_gdt_start :: u32
  x_idt_start :: u32
  g_runtime_TSS :: u32
  vmx_entry :: u32
  vmxon_ok :: "u64 \<Rightarrow> bool"
  vmclear_ok :: "u64 \<Rightarrow> bool"
  vmptrld_ok :: "u64 \<Rightarrow> bool"
  vmwrite_ok :: "u32 \<Rightarrow> u32 \<Rightarrow> bool"
  vmlaunch_error :: "vmcs_hw \<Rightarrow> u32 option"

definition read_cr4 :: "platform \<Rightarrow> xmhf_state \<Rightarrow> u32" where
  "read_cr4 P s = foldl (\<lambda>v a. case a of WrCr4 x \<Rightarrow> x | _ \<Rightarrow> v) (boot_cr4 P) (hwlog s)"

definition read_cr0 :: "platform \<Rightarrow> xmhf_state \<Rightarrow> u32" where
  "read_cr0 P s = foldl (\<lambda>v a. case a of WrCr0 x \<Rightarrow> x | _ \<Rightarrow> v) (boot_cr0 P) (hwlog s)"

definition rdmsr64 :: "hardware \<Rightarrow> u32 \<Rightarrow> u64" where
  "rdmsr64 hw msr = (let (eax, edx) = rdmsr hw msr in push_bit 32 (ucast edx) OR ucast eax)"

definition cpu_string :: "hardware \<Rightarrow> u32 \<times> u32 \<times> u32" where
  "cpu_string hw = (let (eax, ebx, ecx, edx) = cpuid hw 0 0 in (ebx, edx, ecx))"

section \<open>Enabling VMX\<close>

definition vmx_initVT :: "platform \<Rightarrow> hardware \<Rightarrow> u32 \<Rightarrow> xmhf_state \<Rightarrow> xmhf_error + xmhf_state" where
  "vmx_initVT P hw vp s =
    (let tss = x_gdt_start P + ucast TRSEL + 4;
         m = st32 (mem s) tss (ld32 (mem s) tss AND 0xFFFF00FF);
         m = st32 m tss (ld32 m tss OR 0x00008900);
         s = hw_do (Ltr TRSEL) (s\<lparr>mem := m\<rparr>)
     in if cpu_string hw \<noteq> INTEL_STRING then Inl Halt
     else let (eax, ebx, ecx, edx) = cpuid hw 1 0 in
     if ecx AND push_bit 5 1 = 0 then Inl Halt
     else
     let s = upd_vcpu vp (\<lambda>v. v\<lparr>
           vmx_msrs := map (\<lambda>i. rdmsr64 hw (IA32_VMX_BASIC_MSR + of_nat i)) [0..<IA32_VMX_MSRCOUNT],
           vmx_msr_efer := rdmsr64 hw MSR_EFER,
           vmx_msr_efcr := rdmsr64 hw MSR_EFCR\<rparr>) s;
         s = upd_vcpu vp (\<lambda>v. v\<lparr>vmx_guest_unrestricted :=
               (if (ucast (drop_bit 32 (vmx_msrs v ! (IA32_VMX_MSRCOUNT - 1))) :: u32) AND 0x80 \<noteq> 0
                then 1 else 0)\<rparr>) s;
         s = hw_do (WrCr4 (read_cr4 P s OR push_bit 13 1)) s;
         v = vcpus s vp;
         vmxonregion_paddr = hva2spa1 (rpb s) (vmx_vmxonregion_vaddr v);
         s = s\<lparr>mem := st32 (mem s) (vmx_vmxonregion_vaddr v) (ucast (vmx_msrs v ! INDEX_IA32_VMX_BASIC_MSR))\<rparr>
     in if \<not> vmxon_ok P vmxonregion_paddr then Inl Halt
        else Inr (hw_do (VmxOn vmxonregion_paddr) s))"

text \<open>The hook: VMCALL and IRET at 0040:00AC, the original handler behind them, the vector to the hook.\<close>

definition vmx_int15_initializehook :: "u32 \<Rightarrow> xmhf_state \<Rightarrow> xmhf_error + xmhf_state" where
  "vmx_int15_initializehook vp s =
    bindE (HALT_ON_ERRORCOND (isbsp (vcpus s vp) \<noteq> 0)) (\<lambda>_.
    let m = memset 8 0x4AC 0 (mem s);
        m = m(0x4AC := 0x0f, 0x4AD := 0x01, 0x4AE := 0xc1, 0x4AF := 0xcf);
        m = st16 m 0x4B0 (ld16 m 0x54);
        m = st16 m 0x4B2 (ld16 m 0x56);
        m = st16 m 0x54 0x00AC;
        m = st16 m 0x56 0x0040
    in Inr (s\<lparr>mem := m\<rparr>))"

section \<open>The VMCS of an unrestricted guest\<close>

definition vmx_msr_area_msrs :: "u32 list" where
  "vmx_msr_area_msrs = [MSR_EFER, MSR_IA32_PAT, MSR_K6_STAR]"

definition init_host_state :: "platform \<Rightarrow> hardware \<Rightarrow> xmhf_state \<Rightarrow> vmcsfields \<Rightarrow> vmcsfields" where
  "init_host_state P hw s c = c\<lparr>
     host_CR0 := ucast (read_cr0 P s), host_CR4 := ucast (read_cr4 P s), host_CR3 := ucast (boot_cr3 P),
     host_CS_selector := ucast (seg_cs P), host_DS_selector := ucast (seg_ds P),
     host_ES_selector := ucast (seg_es P), host_FS_selector := ucast (seg_fs P),
     host_GS_selector := ucast (seg_gs P), host_SS_selector := ucast (seg_ss P),
     host_TR_selector := ucast (tr_sel P),
     host_GDTR_base := ucast (x_gdt_start P), host_IDTR_base := ucast (x_idt_start P),
     host_TR_base := ucast (g_runtime_TSS P), host_RIP := ucast (vmx_entry P)\<rparr>"

definition init_host_msrs :: "hardware \<Rightarrow> vmcsfields \<Rightarrow> vmcsfields" where
  "init_host_msrs hw c = c\<lparr>
     host_SYSENTER_CS := fst (rdmsr hw IA32_SYSENTER_CS_MSR),
     host_SYSENTER_ESP := rdmsr64 hw IA32_SYSENTER_ESP_MSR,
     host_SYSENTER_EIP := rdmsr64 hw IA32_SYSENTER_EIP_MSR,
     host_FS_base := rdmsr64 hw IA32_MSR_FS_BASE, host_GS_base := rdmsr64 hw IA32_MSR_GS_BASE\<rparr>"

definition init_controls :: "RPB \<Rightarrow> VCPU \<Rightarrow> vmcsfields \<Rightarrow> vmcsfields" where
  "init_controls b v c = c\<lparr>
     control_VMX_pin_based := ucast (vmx_msrs v ! INDEX_IA32_VMX_PINBASED_CTLS_MSR),
     control_VMX_cpu_based := ucast (vmx_msrs v ! INDEX_IA32_VMX_PROCBASED_CTLS_MSR) OR push_bit 25 1,
     control_VM_exit_controls := ucast (vmx_msrs v ! INDEX_IA32_VMX_EXIT_CTLS_MSR),
     control_VM_entry_controls := ucast (vmx_msrs v ! INDEX_IA32_VMX_ENTRY_CTLS_MSR),
     control_IO_BitmapA_address_full := ucast (hva2spa1 b (vmx_vaddr_iobitmap v)),
     control_IO_BitmapA_address_high := 0,
     control_IO_BitmapB_address_full := ucast (hva2spa1 b (vmx_vaddr_iobitmap v + PAGE_SIZE_4K)),
     control_IO_BitmapB_address_high := 0\<rparr>"

definition store_msr_entry :: "hardware \<Rightarrow> u32 \<Rightarrow> u32 \<Rightarrow> nat \<Rightarrow> memory \<Rightarrow> memory" where
  "store_msr_entry hw hmsr gmsr i m =
    (let msr = vmx_msr_area_msrs ! i; k = 16 * of_nat i;
         m = st32 m (gmsr + k) msr; m = st32 m (hmsr + k) msr;
         m = st64 m (gmsr + k + 8) (rdmsr64 hw msr)
     in st64 m (hmsr + k + 8) (rdmsr64 hw msr))"

definition init_msr_areas :: "RPB \<Rightarrow> VCPU \<Rightarrow> vmcsfields \<Rightarrow> vmcsfields" where
  "init_msr_areas b v c = (let n = of_nat (length vmx_msr_area_msrs) in c\<lparr>
     control_VM_exit_MSR_load_address_full := ucast (hva2spa1 b (vmx_vaddr_msr_area_host v)),
     control_VM_exit_MSR_load_address_high := 0, control_VM_exit_MSR_load_count := n,
     control_VM_entry_MSR_load_address_full := ucast (hva2spa1 b (vmx_vaddr_msr_area_guest v)),
     control_VM_entry_MSR_load_address_high := 0, control_VM_entry_MSR_load_count := n,
     control_VM_exit_MSR_store_address_full := ucast (hva2spa1 b (vmx_vaddr_msr_area_guest v)),
     control_VM_exit_MSR_store_address_high := 0, control_VM_exit_MSR_store_count := n,
     control_pagefault_errorcode_mask := 0, control_pagefault_errorcode_match := 0,
     control_exception_bitmap := 0, control_CR3_target_count := 0\<rparr>)"

text \<open>
  \<^verbatim>\<open>~(CR0_PE)\<close> is an \<^verbatim>\<open>int\<close> and sign extended, \<^verbatim>\<open>~(CR0_PG)\<close> an \<^verbatim>\<open>unsigned int\<close> and zero extended: the second
  one clears the upper half as well.
\<close>

definition real_mode_cr0 :: "u64 \<Rightarrow> u64" where
  "real_mode_cr0 fixed = (fixed AND NOT CR0_PE) AND 0x7FFFFFFF"

definition init_guest_state :: "VCPU \<Rightarrow> vmcsfields \<Rightarrow> vmcsfields" where
  "init_guest_state v c = c\<lparr>
     guest_CR0 := real_mode_cr0 (vmx_msrs v ! INDEX_IA32_VMX_CR0_FIXED0_MSR),
     guest_CR4 := vmx_msrs v ! INDEX_IA32_VMX_CR4_FIXED0_MSR, guest_CR3 := 0,
     guest_IDTR_base := 0, guest_IDTR_limit := 0x3ff, guest_GDTR_base := 0, guest_GDTR_limit := 0,
     guest_LDTR_base := 0, guest_LDTR_limit := 0, guest_LDTR_selector := 0,
     guest_LDTR_access_rights := 0x10000,
     guest_TR_base := 0, guest_TR_limit := 0, guest_TR_selector := 0, guest_TR_access_rights := 0x83,
     guest_RSP := 0\<rparr>"

definition init_guest_entry :: "VCPU \<Rightarrow> vmcsfields \<Rightarrow> vmcsfields" where
  "init_guest_entry v c =
    (if isbsp v \<noteq> 0 then c\<lparr>guest_CS_selector := 0, guest_CS_base := 0, guest_RIP := 0x7c00\<rparr>
     else c\<lparr>guest_CS_selector := drop_bit 4 (sipivector v * PAGE_SIZE_4K),
            guest_CS_base := ucast (sipivector v * PAGE_SIZE_4K), guest_RIP := 0\<rparr>)"

definition init_guest_segments :: "vmcsfields \<Rightarrow> vmcsfields" where
  "init_guest_segments c = c\<lparr>
     guest_CS_limit := 0xFFFF, guest_CS_access_rights := 0x93,
     guest_RFLAGS := push_bit 1 1 OR push_bit 9 1,
     guest_DS_selector := 0, guest_DS_base := 0, guest_DS_limit := 0xFFFF, guest_DS_access_rights := 0x93,
     guest_ES_selector := 0, guest_ES_base := 0, guest_ES_limit := 0xFFFF, guest_ES_access_rights := 0x93,
     guest_FS_selector := 0, guest_FS_base := 0, guest_FS_limit := 0xFFFF, guest_FS_access_rights := 0x93,
     guest_GS_selector := 0, guest_GS_base := 0, guest_GS_limit := 0xFFFF, guest_GS_access_rights := 0x93,
     guest_SS_selector := 0, guest_SS_base := 0, guest_SS_limit := 0xFFFF, guest_SS_access_rights := 0x93\<rparr>"

definition init_execution_controls :: "VCPU \<Rightarrow> vmcsfields \<Rightarrow> vmcsfields" where
  "init_execution_controls v c = c\<lparr>
     control_VMX_seccpu_based := ucast (vmx_msrs v ! INDEX_IA32_VMX_PROCBASED_CTLS2_MSR) OR push_bit 7 1,
     control_VMX_cpu_based := control_VMX_cpu_based c OR push_bit 31 1,
     guest_VMCS_link_pointer_full := 0xFFFFFFFF, guest_VMCS_link_pointer_high := 0xFFFFFFFF,
     control_VMX_pin_based := control_VMX_pin_based c OR push_bit 3 1,
     control_CR0_mask := real_mode_cr0 (vmx_msrs v ! INDEX_IA32_VMX_CR0_FIXED0_MSR) OR CR0_CD OR CR0_NW,
     control_CR0_shadow := guest_CR0 c,
     control_CR4_mask := vmx_msrs v ! INDEX_IA32_VMX_CR4_FIXED0_MSR, control_CR4_shadow := CR4_VMXE\<rparr>"

text \<open>The parts of \<^verbatim>\<open>vmx_initunrestrictedguestVMCS\<close>, in the order of the source: host state with the structure's address at the top of the stack, controls and MSR areas, guest state.\<close>

definition vmcs_host_part :: "platform \<Rightarrow> hardware \<Rightarrow> u32 \<Rightarrow> xmhf_state \<Rightarrow> xmhf_state" where
  "vmcs_host_part P hw vp s =
    (let esp = vcpu_esp (vcpus s vp) - 4
     in upd_vmcs vp (\<lambda>c. init_host_msrs hw ((init_host_state P hw s c)\<lparr>host_RSP := ucast esp\<rparr>))
          (upd_vcpu vp (\<lambda>v. v\<lparr>vcpu_esp := esp\<rparr>) (s\<lparr>mem := st32 (mem s) esp vp\<rparr>)))"

definition vmcs_control_part :: "hardware \<Rightarrow> u32 \<Rightarrow> xmhf_state \<Rightarrow> xmhf_state" where
  "vmcs_control_part hw vp s =
    (let v = vcpus s vp
     in upd_vmcs vp (\<lambda>c. init_msr_areas (rpb s) v (init_controls (rpb s) v c))
          (s\<lparr>mem := fold (store_msr_entry hw (vmx_vaddr_msr_area_host v) (vmx_vaddr_msr_area_guest v))
             [0..<length vmx_msr_area_msrs] (mem s)\<rparr>))"

definition vmcs_guest_part :: "u32 \<Rightarrow> xmhf_state \<Rightarrow> xmhf_state" where
  "vmcs_guest_part vp s =
    (let v = vcpus s vp
     in upd_vmcs vp (\<lambda>c. init_execution_controls v (init_guest_segments (init_guest_entry v (init_guest_state v c))))
          (if isbsp v \<noteq> 0
           then s\<lparr>mem := memcpy (unat (XtGuestOSBootModuleSize (rpb s))) GUESTOSBOOTMODULE_BASE
                  (XtGuestOSBootModuleBase (rpb s)) (mem s)\<rparr> else s))"

definition vmx_initunrestrictedguestVMCS :: "platform \<Rightarrow> hardware \<Rightarrow> u32 \<Rightarrow> xmhf_state \<Rightarrow> xmhf_state" where
  "vmx_initunrestrictedguestVMCS P hw vp s =
    xmhf_memprot_arch_x86vmx_flushmappings vp
      (vmcs_guest_part vp (vmcs_control_part hw vp (vmcs_host_part P hw vp s)))"

section \<open>The three steps and the start\<close>

definition xmhf_partition_arch_x86vmx_initializemonitor ::
  "platform \<Rightarrow> hardware \<Rightarrow> u32 \<Rightarrow> xmhf_state \<Rightarrow> xmhf_error + xmhf_state" where
  "xmhf_partition_arch_x86vmx_initializemonitor P hw vp s =
    bindE (vmx_initVT P hw vp s) (\<lambda>s.
    let s = upd_vmcs vp (\<lambda>_. zero_vmcs) s
    in if isbsp (vcpus s vp) \<noteq> 0 then vmx_int15_initializehook vp s else Inr s)"

definition xmhf_partition_arch_x86vmx_setupguestOSstate ::
  "platform \<Rightarrow> hardware \<Rightarrow> u32 \<Rightarrow> xmhf_state \<Rightarrow> xmhf_state" where
  "xmhf_partition_arch_x86vmx_setupguestOSstate P hw vp s = vmx_initunrestrictedguestVMCS P hw vp s"

text \<open>
  The launch. When it succeeds the guest runs with the processor's VMCS returned here; when the
  instruction fails, the core stops. \<open>V\<close> is what VMCLEAR leaves in the VMCS.
\<close>

definition vmx_start_hvm :: "platform \<Rightarrow> u32 \<Rightarrow> u64 \<Rightarrow> vmcs_hw \<Rightarrow> xmhf_state \<Rightarrow> xmhf_error + vmcs_hw \<times> xmhf_state" where
  "vmx_start_hvm P vp vmcs_phys_addr V s =
    (if \<not> vmclear_ok P vmcs_phys_addr then Inl Halt
     else let s = hw_do (VmClear vmcs_phys_addr) s;
              v = vcpus s vp;
              s = s\<lparr>mem := st32 (mem s) (vmx_vmcs_vaddr v) (ucast (vmx_msrs v ! INDEX_IA32_VMX_BASIC_MSR))\<rparr>
     in if \<not> vmptrld_ok P vmcs_phys_addr then Inl Halt
     else let s = hw_do (VmPtrLd vmcs_phys_addr) s in
       bindE (xmhf_baseplatform_arch_x86vmx_putVMCS (vmwrite_ok P) (vmcs_of vp s) V) (\<lambda>V.
       bindE (HALT_ON_ERRORCOND (guest_VMCS_link_pointer_full (vmcs_of vp s) = 0xFFFFFFFF)) (\<lambda>_.
       case vmlaunch_error P V of
         None \<Rightarrow> Inr (V, hw_do VmLaunch s)
       | Some errorcode \<Rightarrow> bindE (HALT_ON_ERRORCOND (errorcode \<noteq> 2)) (\<lambda>_. Inl Halt))))"

definition xmhf_partition_arch_x86vmx_start ::
  "platform \<Rightarrow> u32 \<Rightarrow> vmcs_hw \<Rightarrow> xmhf_state \<Rightarrow> xmhf_error + vmcs_hw \<times> xmhf_state" where
  "xmhf_partition_arch_x86vmx_start P vp V s =
    vmx_start_hvm P vp (ucast (ucast (hva2spa1 (rpb s) (vmx_vmcs_vaddr (vcpus s vp))) :: u32)) V s"

text \<open>The I/O bitmap: one bit per port, set where an access of the guest exits.\<close>

definition legacyIO_bit :: "u32 \<Rightarrow> u32 \<Rightarrow> bool \<Rightarrow> memory \<Rightarrow> memory" where
  "legacyIO_bit bit_vector port deny m =
    (let byte = bit_vector + port div 8; b = push_bit (unat (port mod 8)) 1 in
     m(byte := (if deny then m byte OR b else m byte AND NOT b)))"

definition xmhf_partition_arch_x86vmx_legacyIO_setprot ::
  "u32 \<Rightarrow> u32 \<Rightarrow> nat \<Rightarrow> u32 \<Rightarrow> xmhf_state \<Rightarrow> xmhf_state" where
  "xmhf_partition_arch_x86vmx_legacyIO_setprot vp port sz prottype s =
    s\<lparr>mem := fold (\<lambda>i. legacyIO_bit (vmx_vaddr_iobitmap (vcpus s vp)) (port + of_nat i)
        (prottype AND PART_LEGACYIO_NOACCESS \<noteq> 0)) [0..<sz] (mem s)\<rparr>"

end
