(* ===== verification/XMHF_SvmPartition.thy ===== *)
theory XMHF_SvmPartition
  imports XMHF_SvmGuest XMHF_Partition
begin

text \<open>
  Setting up and starting the partition on AMD (\<^verbatim>\<open>xmhf-partition/arch/x86/svm/part-x86svm.c\<close>), and the functions of
  \<^verbatim>\<open>part-x86.c\<close> that choose the vendor. The control block is a structure of the state, so \<^verbatim>\<open>memset\<close> on it is the structure of
  zeros; a register that was written earlier on the same core is read back from the log of the state.
\<close>

section \<open>Constants\<close>

definition ECX_SVM :: nat where [xconst]: "ECX_SVM = 2"
definition VM_CR_MSR :: u32 where [xconst]: "VM_CR_MSR = 0xc0010114"
definition VM_HSAVE_PA :: u32 where [xconst]: "VM_HSAVE_PA = 0xc0010117"
definition EFER_NXE :: nat where [xconst]: "EFER_NXE = 11"
definition EFER_SVME :: nat where [xconst]: "EFER_SVME = 12"
definition VM_CR_DPD :: nat where [xconst]: "VM_CR_DPD = 0"
definition VM_CR_SVME_DISABLE :: nat where [xconst]: "VM_CR_SVME_DISABLE = 4"
definition SIZEOF_MSRPM_BITMAP :: nat where [xconst]: "SIZEOF_MSRPM_BITMAP = 8192"
definition SVM_CLASS1_INTERCEPT_NMI :: u32 where [xconst]: "SVM_CLASS1_INTERCEPT_NMI = push_bit 1 1"
definition SVM_CLASS1_INTERCEPT_IOIO_PROT :: u32 where [xconst]: "SVM_CLASS1_INTERCEPT_IOIO_PROT = push_bit 27 1"
definition SVM_CLASS1_INTERCEPT_MSR_PROT :: u32 where [xconst]: "SVM_CLASS1_INTERCEPT_MSR_PROT = push_bit 28 1"

text \<open>VMRUN, VMMCALL, VMLOAD, VMSAVE, STGI, CLGI, SKINIT and ICEBP.\<close>

definition svm_instruction_intercepts :: u32 where [xconst]:
  "svm_instruction_intercepts = push_bit 0 1 OR push_bit 1 1 OR push_bit 2 1 OR push_bit 3 1 OR push_bit 4 1 OR push_bit 5 1
     OR push_bit 6 1 OR push_bit 8 1"

section \<open>Enabling SVM\<close>

definition read_msr :: "hardware \<Rightarrow> xmhf_state \<Rightarrow> u32 \<Rightarrow> u32 \<times> u32" where
  "read_msr hw s i = fold (\<lambda>op v. case op of WrMsr j a d \<Rightarrow> if j = i then (a, d) else v | _ \<Rightarrow> v) (hwlog s) (rdmsr hw i)"

definition svm_supported :: "hardware \<Rightarrow> xmhf_state \<Rightarrow> bool" where
  "svm_supported hw s \<longleftrightarrow>
    (let (_, _, ecx, _) = cpuid hw 0x80000001 0; (_, ebx, _, edx) = cpuid hw 0x8000000A 0
     in bit ecx ECX_SVM \<and> \<not> bit (fst (read_msr hw s VM_CR_MSR)) VM_CR_SVME_DISABLE \<and> bit edx 0 \<and> \<not> ebx - 1 < 2)"

definition svm_initSVM :: "hardware \<Rightarrow> u32 \<Rightarrow> xmhf_state \<Rightarrow> xmhf_error + xmhf_state" where
  "svm_initSVM hw vp s =
    (if \<not> svm_supported hw s then Inl Halt
     else
     let (eax, edx) = read_msr hw s VM_CR_MSR;
         s = hw_do (WrMsr VM_CR_MSR (eax AND NOT (push_bit VM_CR_DPD 1)) edx) s;
         (eax, edx) = read_msr hw s MSR_EFER;
         s = hw_do (WrMsr MSR_EFER (eax OR push_bit EFER_SVME 1) edx) s;
         hsave_pa = hva2spa (hsave_vaddr_ptr (vcpus s vp));
         s = hw_do (WrMsr VM_HSAVE_PA (ucast hsave_pa) (ucast (drop_bit 32 hsave_pa))) s;
         (eax, edx) = read_msr hw s MSR_EFER
     in Inr (hw_do (WrMsr MSR_EFER (eax OR push_bit EFER_NXE 1) edx) s))"

text \<open>The hook: VMMCALL and IRET at 0040:00AC, the original handler behind them, the vector to the hook.\<close>

definition svm_int15_initializehook :: "u32 \<Rightarrow> xmhf_state \<Rightarrow> xmhf_error + xmhf_state" where
  "svm_int15_initializehook vp s =
    bindE (HALT_ON_ERRORCOND (isbsp (vcpus s vp) \<noteq> 0)) (\<lambda>_.
    let m = memset 8 0x4AC 0 (mem s);
        m = m(0x4AC := 0x0f, 0x4AD := 0x01, 0x4AE := 0xd9, 0x4AF := 0xcf);
        m = st16 m 0x4B0 (ld16 m 0x54);
        m = st16 m 0x4B2 (ld16 m 0x56);
        m = st16 m 0x54 0x00AC;
        m = st16 m 0x56 0x0040
    in Inr (s\<lparr>mem := m\<rparr>))"

section \<open>The control block of a real mode guest\<close>

definition real_mode_desc :: "u16 \<Rightarrow> svmdesc" where
  "real_mode_desc attrib = \<lparr>desc_selector = 0, desc_attrib = attrib, desc_limit = 0xFFFF, desc_base = 0\<rparr>"

definition vmcb_real_mode :: "svm_vmcbfields \<Rightarrow> svm_vmcbfields" where
  "vmcb_real_mode c = c\<lparr>
     vmcb_cs := real_mode_desc 0x9B, vmcb_ds := real_mode_desc 0x93, vmcb_es := real_mode_desc 0x93,
     vmcb_fs := real_mode_desc 0x93, vmcb_gs := real_mode_desc 0x93, vmcb_ss := real_mode_desc 0x93,
     vmcb_idtr := (vmcb_idtr c)\<lparr>desc_limit := 0x3FF\<rparr>,
     vmcb_efer := vmcb_efer c OR push_bit EFER_SVME 1, vmcb_g_pat := 0x0007040600070406,
     guest_asid := 1, vmcb_cpl := 0, vmcb_rax := 0, vmcb_rsp := 0\<rparr>"

definition vmcb_entry :: "VCPU \<Rightarrow> svm_vmcbfields \<Rightarrow> svm_vmcbfields" where
  "vmcb_entry v c =
    (if isbsp v \<noteq> 0 then c\<lparr>vmcb_rip := 0x7C00\<rparr>
     else c\<lparr>vmcb_cs := (vmcb_cs c)\<lparr>desc_selector := ucast (drop_bit 4 (sipivector v * PAGE_SIZE_4K)),
              desc_base := ucast (sipivector v * PAGE_SIZE_4K)\<rparr>, vmcb_rip := 0\<rparr>)"

definition vmcb_controls :: "svm_vmcbfields \<Rightarrow> svm_vmcbfields" where
  "vmcb_controls c = c\<lparr>vmcb_rflags := 0, vmcb_cr0 := 0x10, vmcb_cr2 := 0, vmcb_cr3 := 0, vmcb_cr4 := 0,
     vmcb_dr6 := 0xFFFF0FF0, vmcb_dr7 := 0x400,
     class2_intercepts_bitmask := class2_intercepts_bitmask c OR svm_instruction_intercepts\<rparr>"

definition vmcb_bitmaps :: "xmhf_state \<Rightarrow> VCPU \<Rightarrow> svm_vmcbfields \<Rightarrow> svm_vmcbfields" where
  "vmcb_bitmaps s v c = c\<lparr>
     class1_intercepts_bitmask := class1_intercepts_bitmask c OR SVM_CLASS1_INTERCEPT_NMI
       OR SVM_CLASS1_INTERCEPT_IOIO_PROT OR SVM_CLASS1_INTERCEPT_MSR_PROT,
     iopm_base_pa := hva2spa (svm_vaddr_iobitmap v), msrpm_base_pa := hva2spa (g_svm_msrpm s)\<rparr>"

definition svm_initVMCB :: "u32 \<Rightarrow> xmhf_state \<Rightarrow> xmhf_error + xmhf_state" where
  "svm_initVMCB vp s =
    (let v = vcpus s vp;
         s = upd_vmcb vp (\<lambda>_. vmcb_entry v (vmcb_real_mode zero_vmcb)) s;
         s = (if isbsp v \<noteq> 0
              then s\<lparr>mem := memcpy (unat (XtGuestOSBootModuleSize (rpb s))) GUESTOSBOOTMODULE_BASE
                     (XtGuestOSBootModuleBase (rpb s)) (mem s)\<rparr> else s);
         s = upd_vmcb vp vmcb_controls s
     in bindE (if isbsp v \<noteq> 0 then svm_int15_initializehook vp s else Inr s) (\<lambda>s.
        Inr (upd_vmcb vp (vmcb_bitmaps s v) (s\<lparr>mem := memset SIZEOF_MSRPM_BITMAP (g_svm_msrpm s) 0 (mem s)\<rparr>))))"

definition xmhf_partition_arch_x86svm_initializemonitor :: "hardware \<Rightarrow> u32 \<Rightarrow> xmhf_state \<Rightarrow> xmhf_error + xmhf_state" where
  "xmhf_partition_arch_x86svm_initializemonitor = svm_initSVM"

definition xmhf_partition_arch_x86svm_setupguestOSstate :: "u32 \<Rightarrow> xmhf_state \<Rightarrow> xmhf_error + xmhf_state" where
  "xmhf_partition_arch_x86svm_setupguestOSstate = svm_initVMCB"

text \<open>The guest runs from the control block at the address the instruction gets.\<close>

definition xmhf_partition_arch_x86svm_start :: "u32 \<Rightarrow> xmhf_state \<Rightarrow> xmhf_state" where
  "xmhf_partition_arch_x86svm_start vp s = hw_do (VmRun (hva2spa (vmcb_vaddr_ptr (vcpus s vp)))) s"

definition xmhf_partition_arch_x86svm_legacyIO_setprot :: "u32 \<Rightarrow> u32 \<Rightarrow> nat \<Rightarrow> u32 \<Rightarrow> xmhf_state \<Rightarrow> xmhf_state" where
  "xmhf_partition_arch_x86svm_legacyIO_setprot vp port sz prottype s =
    s\<lparr>mem := fold (\<lambda>i. legacyIO_bit (svm_vaddr_iobitmap (vcpus s vp)) (port + of_nat i)
        (prottype AND PART_LEGACYIO_NOACCESS \<noteq> 0)) [0..<sz] (mem s)\<rparr>"

section \<open>Choosing the vendor\<close>

definition xmhf_partition_arch_initializemonitor ::
  "platform \<Rightarrow> hardware \<Rightarrow> u32 \<Rightarrow> xmhf_state \<Rightarrow> xmhf_error + xmhf_state" where
  "xmhf_partition_arch_initializemonitor P hw vp s =
    bindE (HALT_ON_ERRORCOND (known_vendor (vcpus s vp))) (\<lambda>_.
    if cpu_vendor (vcpus s vp) = CPU_VENDOR_AMD then xmhf_partition_arch_x86svm_initializemonitor hw vp s
    else xmhf_partition_arch_x86vmx_initializemonitor P hw vp s)"

definition xmhf_partition_arch_setupguestOSstate ::
  "platform \<Rightarrow> hardware \<Rightarrow> u32 \<Rightarrow> xmhf_state \<Rightarrow> xmhf_error + xmhf_state" where
  "xmhf_partition_arch_setupguestOSstate P hw vp s =
    bindE (HALT_ON_ERRORCOND (known_vendor (vcpus s vp))) (\<lambda>_.
    if cpu_vendor (vcpus s vp) = CPU_VENDOR_AMD then xmhf_partition_arch_x86svm_setupguestOSstate vp s
    else Inr (xmhf_partition_arch_x86vmx_setupguestOSstate P hw vp s))"

text \<open>On AMD there is no processor VMCS; the value passed in is returned.\<close>

definition xmhf_partition_arch_start ::
  "platform \<Rightarrow> u32 \<Rightarrow> vmcs_hw \<Rightarrow> xmhf_state \<Rightarrow> xmhf_error + vmcs_hw \<times> xmhf_state" where
  "xmhf_partition_arch_start P vp V s =
    bindE (HALT_ON_ERRORCOND (known_vendor (vcpus s vp))) (\<lambda>_.
    if cpu_vendor (vcpus s vp) = CPU_VENDOR_AMD then Inr (V, xmhf_partition_arch_x86svm_start vp s)
    else xmhf_partition_arch_x86vmx_start P vp V s)"

definition xmhf_partition_arch_legacyIO_setprot :: "u32 \<Rightarrow> u32 \<Rightarrow> nat \<Rightarrow> u32 \<Rightarrow> xmhf_state \<Rightarrow> xmhf_state" where
  "xmhf_partition_arch_legacyIO_setprot vp port sz prottype s =
    (if cpu_vendor (vcpus s vp) = CPU_VENDOR_AMD then xmhf_partition_arch_x86svm_legacyIO_setprot vp port sz prottype s
     else xmhf_partition_arch_x86vmx_legacyIO_setprot vp port sz prottype s)"

section \<open>The I/O bitmap\<close>

text \<open>Whether an access of the guest to a port exits: the bit of the port in the bitmap.\<close>

definition io_denied :: "memory \<Rightarrow> u32 \<Rightarrow> u32 \<Rightarrow> bool" where
  "io_denied m bitmap port \<longleftrightarrow> bit (m (bitmap + port div 8)) (unat (port mod 8))"

definition iobitmap :: "VCPU \<Rightarrow> u32" where
  "iobitmap v = (if cpu_vendor v = CPU_VENDOR_AMD then svm_vaddr_iobitmap v else vmx_vaddr_iobitmap v)"

lemma legacyIO_setprot_fold:
  "mem (xmhf_partition_arch_legacyIO_setprot vp port sz prottype s)
    = fold (\<lambda>i. legacyIO_bit (iobitmap (vcpus s vp)) (port + of_nat i) (prottype AND PART_LEGACYIO_NOACCESS \<noteq> 0)) [0..<sz] (mem s)"
  by (simp add: xmhf_partition_arch_legacyIO_setprot_def xmhf_partition_arch_x86svm_legacyIO_setprot_def
      xmhf_partition_arch_x86vmx_legacyIO_setprot_def iobitmap_def)

lemma legacyIO_bit_denied: "io_denied (legacyIO_bit bv q deny m) bv p \<longleftrightarrow> (if p = q then deny else io_denied m bv p)"
proof -
  have k: "unat (q mod 8) < 8" "unat (p mod 8) < 8" by (simp_all add: unat_mod)
  have "p = q \<longleftrightarrow> p div 8 = q div 8 \<and> p mod 8 = q mod 8" by (metis word_mod_div_equality)
  moreover have "unat (p mod 8) = unat (q mod 8) \<longleftrightarrow> p mod 8 = q mod 8" by (simp add: word_unat_eq_iff)
  ultimately show ?thesis
    using k by (auto simp: io_denied_def legacyIO_bit_def Let_def bit_simps)
qed

lemma legacyIO_bit_outside:
  assumes "q < 0x10000" "x \<notin> span bv 8192"
  shows "legacyIO_bit bv q deny m x = m x"
proof -
  have "unat (q div 8) < 8192" using assms(1) by (simp add: unat_div word_less_nat_alt)
  then have "x \<noteq> bv + q div 8" using assms(2) by (auto simp: span_iff)
  then show ?thesis by (simp add: legacyIO_bit_def Let_def)
qed

lemma legacyIO_fold:
  assumes "unat port + sz \<le> 65536"
  shows "(\<forall>p. io_denied (fold (\<lambda>i. legacyIO_bit bv (port + of_nat i) deny) [0..<sz] m) bv p
      \<longleftrightarrow> (if unat port \<le> unat p \<and> unat p < unat port + sz then deny else io_denied m bv p))
    \<and> (\<forall>x. x \<notin> span bv 8192 \<longrightarrow> fold (\<lambda>i. legacyIO_bit bv (port + of_nat i) deny) [0..<sz] m x = m x)"
  using assms
proof (induction sz)
  case (Suc n)
  have u: "unat (port + of_nat n) = unat port + n"
    using Suc.prems by (simp add: unat_word_ariths unat_of_nat)
  then have "port + of_nat n < 0x10000" using Suc.prems by (simp add: word_less_nat_alt)
  moreover have "p = port + of_nat n \<longleftrightarrow> unat p = unat port + n" for p using u by (simp add: word_unat_eq_iff)
  ultimately show ?case using Suc by (auto simp: legacyIO_bit_denied legacyIO_bit_outside less_Suc_eq)
qed auto

text \<open>
  C32: The protection of I/O ports. On both vendors, setting the protection of a range of the 65536 ports makes exactly the ports
  of the range exit, or stop exiting, as asked; every other port keeps its protection, and no byte outside the bitmap changes.
\<close>

theorem legacyIO_setprot_exact:
  assumes "unat port + sz \<le> 65536"
  shows "let m = mem (xmhf_partition_arch_legacyIO_setprot vp port sz prottype s); bv = iobitmap (vcpus s vp) in
    (\<forall>p. io_denied m bv p \<longleftrightarrow> (if unat port \<le> unat p \<and> unat p < unat port + sz
        then prottype AND PART_LEGACYIO_NOACCESS \<noteq> 0 else io_denied (mem s) bv p))
    \<and> (\<forall>x. x \<notin> span bv 8192 \<longrightarrow> m x = mem s x)"
  unfolding Let_def legacyIO_setprot_fold by (rule legacyIO_fold[OF assms])

theorem legacyIO_setprot_exact_witness:
  "let m = mem (xmhf_partition_arch_legacyIO_setprot 0 0xCF8 8 PART_LEGACYIO_NOACCESS sample_state); bv = iobitmap sample_vcpu
   in io_denied m bv 0xCFC \<and> \<not> io_denied m bv 0xD00"
proof -
  have "vcpus sample_state 0 = sample_vcpu" "\<not> io_denied (mem sample_state) (iobitmap sample_vcpu) 0xD00"
    by (simp_all add: sample_state_def io_denied_def)
  then show ?thesis
    using legacyIO_setprot_exact[of "0xCF8" 8 0 PART_LEGACYIO_NOACCESS sample_state] by (simp add: Let_def xconst)
qed

end
