(* ===== verification/XMHF_Exception.thy ===== *)
theory XMHF_Exception
  imports XMHF_SvmGuest XMHF_Partition
begin

text \<open>
  The exceptions of the hypervisor itself (\<^verbatim>\<open>xmhf-xcphandler/arch/x86/xcph-x86.c\<close>): the interrupt descriptor table that is
  built at start-up, and the hub the stubs of \<^verbatim>\<open>xcph-stubs.S\<close> call with the number of the vector. A stub saves the registers,
  calls the hub and restores them; the hub finds the structure of the core it runs on by the identification register of the
  local interrupt controller. The dumps it prints have no effect on the state.
\<close>

section \<open>The descriptor table\<close>

definition EMHF_XCPHANDLER_MAXEXCEPTIONS :: nat where [xconst]: "EMHF_XCPHANDLER_MAXEXCEPTIONS = 32"
definition LAPIC_ID :: u32 where [xconst]: "LAPIC_ID = 0x20"

definition exception_gate :: "u32 \<Rightarrow> u32 \<Rightarrow> memory \<Rightarrow> memory" where
  "exception_gate idtentry stub m =
    (let m = st16 m idtentry (ucast (ld32 m stub));
         m = st16 m (idtentry + 6) (ucast (drop_bit 16 (ld32 m stub)));
         m = st16 m (idtentry + 2) CS
     in m(idtentry + 4 := 0, idtentry + 5 := 0x8E))"

primrec idt_loop :: "nat \<Rightarrow> app_env \<Rightarrow> memory \<Rightarrow> memory" where
  "idt_loop 0 E m = m"
| "idt_loop (Suc i) E m = exception_gate (elem64 (idt_start E) i) (exceptionstubs E + 4 * of_nat i) (idt_loop i E m)"

definition xmhf_xcphandler_arch_initialize :: "app_env \<Rightarrow> xmhf_state \<Rightarrow> xmhf_state" where
  "xmhf_xcphandler_arch_initialize E s = s\<lparr>mem := idt_loop EMHF_XCPHANDLER_MAXEXCEPTIONS E (mem s)\<rparr>"

section \<open>The hub\<close>

definition svm_getvcpu :: "hardware \<Rightarrow> xmhf_state \<Rightarrow> xmhf_error + u32" where
  "svm_getvcpu hw s =
    (let (eax, edx) = rdmsr hw MSR_APIC_BASE in
     bindE (HALT_ON_ERRORCOND (edx = 0)) (\<lambda>_.
     let lapic_id = drop_bit 24 (lapic_read hw ((eax AND 0xFFFFF000) + LAPIC_ID))
     in case find (\<lambda>e. cpu_lapic_id e = lapic_id) (g_midtable s) of
          Some e \<Rightarrow> Inr (vcpu_vaddr_ptr e)
        | None \<Rightarrow> Inl Halt))"

definition vmx_getvcpu :: "hardware \<Rightarrow> xmhf_state \<Rightarrow> xmhf_error + u32" where
  "vmx_getvcpu hw s =
    (let (eax, edx) = rdmsr hw MSR_APIC_BASE in
     bindE (HALT_ON_ERRORCOND (edx = 0)) (\<lambda>_.
     let lapic_id = drop_bit 24 (lapic_read hw ((eax AND 0xFFFFF000) + LAPIC_ID))
     in case find (\<lambda>e. cpu_lapic_id e = lapic_id) (g_midtable s) of
          Some e \<Rightarrow> Inr (vcpu_vaddr_ptr e)
        | None \<Rightarrow> Inl Halt))"

definition get_cpu_vendor_or_die :: "hardware \<Rightarrow> xmhf_error + u32" where
  "get_cpu_vendor_or_die hw =
    (if cpu_string hw = AMD_STRING then Inr CPU_VENDOR_AMD
     else if cpu_string hw = INTEL_STRING then Inr CPU_VENDOR_INTEL else Inl Halt)"

text \<open>Vector \<^verbatim>\<open>0xEF\<close> only prints a dump and returns; every other vector but the NMI stops the core after the dump.\<close>

definition xmhf_xcphandler_arch_hub :: "hardware \<Rightarrow> u32 \<Rightarrow> hub \<Rightarrow> xmhf_error + hub" where
  "xmhf_xcphandler_arch_hub hw vector = (\<lambda>(r, s).
    bindE (get_cpu_vendor_or_die hw) (\<lambda>cpu_vendor.
    bindE (if cpu_vendor = CPU_VENDOR_AMD then svm_getvcpu hw s else vmx_getvcpu hw s) (\<lambda>vp.
    if vector = CPU_EXCEPTION_NMI then xmhf_smpguest_arch_x86_eventhandler_nmiexception vp (r, s)
    else if vector = 0xEF then Inr (r, s)
    else Inl Halt)))"

section \<open>The table leads to the stubs\<close>

text \<open>How the processor reads a gate: the offset in two halves, the selector, and the byte of type and privilege.\<close>

definition gate_offset :: "memory \<Rightarrow> u32 \<Rightarrow> u32" where
  "gate_offset m e = ucast (ld16 m e) OR push_bit 16 (ucast (ld16 m (e + 6)))"

definition gate_leads_to :: "memory \<Rightarrow> u32 \<Rightarrow> u8 \<Rightarrow> u32 \<Rightarrow> bool" where
  "gate_leads_to m e access target \<longleftrightarrow> gate_offset m e = target \<and> ld16 m (e + 2) = CS \<and> m (e + 4) = 0 \<and> m (e + 5) = access"

definition gate_bytes :: "u32 \<Rightarrow> u8 \<Rightarrow> u32 \<Rightarrow> memory \<Rightarrow> memory" where
  "gate_bytes e access target m = m(e := ucast target, e + 1 := ucast (drop_bit 8 target), e + 6 := ucast (drop_bit 16 target),
     e + 7 := ucast (drop_bit 24 target), e + 2 := ucast CS, e + 3 := ucast (drop_bit 8 CS), e + 4 := 0, e + 5 := access)"

lemma ucast_drop_bit_halves:
  fixes x :: u32
  shows "(ucast (ucast x :: u16) :: u8) = ucast x" "(ucast (drop_bit 8 (ucast x :: u16)) :: u8) = ucast (drop_bit 8 x)"
    "(ucast (ucast (drop_bit 16 x) :: u16) :: u8) = ucast (drop_bit 16 x)"
    "(ucast (drop_bit 8 (ucast (drop_bit 16 x) :: u16)) :: u8) = ucast (drop_bit 24 x)"
  by (rule bit_word_eqI, simp add: bit_simps)+

lemma two_in_span: "span e 2 \<subseteq> span e 8"
  by (auto simp: span_iff)

lemma gate_stores:
  assumes "span e 8 \<inter> span stub 4 = {}"
  shows "(let m = st16 m e (ucast (ld32 m stub)); m = st16 m (e + 6) (ucast (drop_bit 16 (ld32 m stub)));
             m = st16 m (e + 2) CS in m(e + 4 := 0, e + 5 := access)) = gate_bytes e access (ld32 m stub) m"
proof -
  have "ld32 (st16 m e v) stub = ld32 m stub" for v
    unfolding st16_def by (rule ld32_cong, rule stw_outside) (use assms two_in_span[of e] in auto)
  then have "?thesis \<longleftrightarrow> (st16 (st16 (st16 m e (ucast (ld32 m stub))) (e + 6) (ucast (drop_bit 16 (ld32 m stub)))) (e + 2) CS)
      (e + 4 := 0, e + 5 := access) = gate_bytes e access (ld32 m stub) m"
    by (simp only: Let_def)
  then show ?thesis by (simp add: st16_bytes ucast_drop_bit_halves gate_bytes_def add.assoc)
qed

lemma exception_gate_bytes:
  "span e 8 \<inter> span stub 4 = {} \<Longrightarrow> exception_gate e stub m = gate_bytes e 0x8E (ld32 m stub) m"
  unfolding exception_gate_def by (rule gate_stores)

lemma gate_bytes_lead: "gate_leads_to (gate_bytes e access target m) e access target"
proof -
  have "ucast (ucast target :: u8) OR push_bit 8 (ucast (ucast (drop_bit 8 target) :: u8)) = (ucast target :: u16)"
    "ucast (ucast (drop_bit 16 target) :: u8) OR push_bit 8 (ucast (ucast (drop_bit 24 target) :: u8))
      = (ucast (drop_bit 16 target) :: u16)"
    "ucast (ucast CS :: u8) OR push_bit 8 (ucast (ucast (drop_bit 8 CS) :: u8)) = CS"
    by (rule bit_word_eqI, auto simp: bit_simps)+
  moreover have "ucast (ucast target :: u16) OR push_bit 16 (ucast (ucast (drop_bit 16 target) :: u16)) = target"
    by (rule u32_bitsI) (simp add: bit_simps)
  ultimately show ?thesis
    by (simp add: gate_leads_to_def gate_offset_def gate_bytes_def ld16_bytes add.assoc)
qed

lemma gate_bytes_outside:
  assumes "x \<notin> span e 8"
  shows "gate_bytes e access target m x = m x"
proof -
  have "x \<noteq> e + k" if "unat k < 8" for k using assms that by (auto simp: span_iff)
  from this[of 0] this[of 1] this[of 2] this[of 3] this[of 4] this[of 5] this[of 6] this[of 7]
  show ?thesis by (simp add: gate_bytes_def)
qed

lemma gate_leads_to_cong:
  assumes "\<And>x. x \<in> span e 8 \<Longrightarrow> m' x = m x"
  shows "gate_leads_to m' e access target = gate_leads_to m e access target"
proof -
  have "m' (e + k) = m (e + k)" if "unat k < 8" for k using assms that by (simp add: span_iff)
  from this[of 0] this[of 1] this[of 2] this[of 3] this[of 4] this[of 5] this[of 6] this[of 7]
  show ?thesis by (simp add: gate_leads_to_def gate_offset_def ld16_bytes add.assoc)
qed

lemma stub_in_table: "i < 34 \<Longrightarrow> span (a + 4 * of_nat i) 4 \<subseteq> span a 136"
proof
  fix x assume i: "i < 34" and x: "x \<in> span (a + 4 * of_nat i) 4"
  have "unat (of_nat (4 * i) :: u32) = 4 * i" by (rule unat_of_nat_small) (use i in simp)
  then have "unat (4 * of_nat i :: u32) = 4 * i" by simp
  then show "x \<in> span a 136" using span_shift[of "4 * of_nat i" 4 136 x a] i x by simp
qed

definition idt_apart :: "app_env \<Rightarrow> bool" where
  "idt_apart E \<longleftrightarrow> span (idt_start E) 2048 \<inter> span (exceptionstubs E) 136 = {}"

lemma idt_entry_in: "i < 256 \<Longrightarrow> span (elem64 (idt_start E) i) 8 \<subseteq> span (idt_start E) 2048"
  using elem64_span_sub[of i 256 "idt_start E"] by simp

lemma idt_loop_gates:
  assumes "idt_apart E" "n \<le> 32"
  shows "(\<forall>i<n. gate_leads_to (idt_loop n E m) (elem64 (idt_start E) i) 0x8E (ld32 m (exceptionstubs E + 4 * of_nat i)))
    \<and> (\<forall>x. x \<notin> span (idt_start E) 2048 \<longrightarrow> idt_loop n E m x = m x)"
  using assms(2)
proof (induction n)
  case (Suc n)
  let ?e = "elem64 (idt_start E) n" and ?stub = "exceptionstubs E + 4 * of_nat n"
  have in1: "span ?e 8 \<subseteq> span (idt_start E) 2048" using Suc.prems by (intro idt_entry_in) simp
  have in2: "span ?stub 4 \<subseteq> span (exceptionstubs E) 136" using Suc.prems by (intro stub_in_table) simp
  have apart: "span ?e 8 \<inter> span ?stub 4 = {}" using in1 in2 assms(1) by (auto simp: idt_apart_def)
  have t: "ld32 (idt_loop n E m) ?stub = ld32 m ?stub"
    by (rule ld32_cong) (use Suc in2 assms(1) in \<open>auto simp: idt_apart_def\<close>)
  have step: "idt_loop (Suc n) E m = gate_bytes ?e 0x8E (ld32 m ?stub) (idt_loop n E m)"
    by (simp add: exception_gate_bytes[OF apart] t)
  have keep: "gate_leads_to (idt_loop (Suc n) E m) (elem64 (idt_start E) i) a v
      = gate_leads_to (idt_loop n E m) (elem64 (idt_start E) i) a v" if "i < n" for i a v
    unfolding step using that Suc.prems elem64_span_disjoint[of i n "idt_start E"]
    by (intro gate_leads_to_cong gate_bytes_outside) auto
  show ?case
  proof (intro conjI allI impI)
    show "idt_loop (Suc n) E m x = m x" if "x \<notin> span (idt_start E) 2048" for x
      unfolding step using that in1 Suc by (subst gate_bytes_outside) auto
    show "gate_leads_to (idt_loop (Suc n) E m) (elem64 (idt_start E) i) 0x8E (ld32 m (exceptionstubs E + 4 * of_nat i))"
      if "i < Suc n" for i
    proof (cases "i = n")
      case True
      show ?thesis unfolding True step by (rule gate_bytes_lead)
    next
      case False
      then show ?thesis using that Suc keep by auto
    qed
  qed
qed simp

lemma set_gate_bytes: "span e 8 \<inter> span stub 4 = {} \<Longrightarrow> set_gate e stub m = gate_bytes e 0xEE (ld32 m stub) m"
  unfolding set_gate_def by (rule gate_stores)

text \<open>The two user gates, entries 128 and 239 of the table with the stubs 32 and 33, put in by the application.\<close>

lemma user_gate:
  assumes "idt_apart E" "j < 256" "k < 34"
  shows "set_gate (elem64 (idt_start E) j) (exceptionstubs E + 4 * of_nat k) m
    = gate_bytes (elem64 (idt_start E) j) 0xEE (ld32 m (exceptionstubs E + 4 * of_nat k)) m"
  using assms idt_entry_in[of j E] stub_in_table[of k "exceptionstubs E"]
  by (intro set_gate_bytes) (auto simp: idt_apart_def)

lemma user_gate_keeps:
  assumes "idt_apart E" "j < 256"
  shows "k < 34 \<Longrightarrow> ld32 (gate_bytes (elem64 (idt_start E) j) a t m) (exceptionstubs E + 4 * of_nat k)
      = ld32 m (exceptionstubs E + 4 * of_nat k)"
    "i < 256 \<Longrightarrow> i \<noteq> j \<Longrightarrow> gate_leads_to (gate_bytes (elem64 (idt_start E) j) a t m) (elem64 (idt_start E) i) b u
      = gate_leads_to m (elem64 (idt_start E) i) b u"
    "x \<notin> span (idt_start E) 2048 \<Longrightarrow> gate_bytes (elem64 (idt_start E) j) a t m x = m x"
proof -
  have o: "x \<notin> span (idt_start E) 2048 \<Longrightarrow> gate_bytes (elem64 (idt_start E) j) a t m x = m x" for x
    using idt_entry_in[of j E] assms by (intro gate_bytes_outside) auto
  then show "x \<notin> span (idt_start E) 2048 \<Longrightarrow> gate_bytes (elem64 (idt_start E) j) a t m x = m x" .
  show "ld32 (gate_bytes (elem64 (idt_start E) j) a t m) (exceptionstubs E + 4 * of_nat k)
      = ld32 m (exceptionstubs E + 4 * of_nat k)" if "k < 34"
    using stub_in_table[OF that, of "exceptionstubs E"] assms(1) by (intro ld32_cong o) (auto simp: idt_apart_def)
  show "gate_leads_to (gate_bytes (elem64 (idt_start E) j) a t m) (elem64 (idt_start E) i) b u
      = gate_leads_to m (elem64 (idt_start E) i) b u" if "i < 256" "i \<noteq> j"
    using elem64_span_disjoint[of i j "idt_start E"] that assms by (intro gate_leads_to_cong gate_bytes_outside) auto
qed

lemma add_systemcall_mem:
  assumes "idt_apart E"
  shows "mem (add_systemcall E s) =
    gate_bytes (elem64 (idt_start E) 239) 0xEE (ld32 (mem s) (exceptionstubs E + 4 * of_nat 33))
      (gate_bytes (elem64 (idt_start E) 128) 0xEE (ld32 (mem s) (exceptionstubs E + 4 * of_nat 32)) (mem s))"
  using user_gate[OF assms, of 128 32] user_gate[OF assms, of 239 33] user_gate_keeps(1)[OF assms, of 128 33]
  by (simp add: add_systemcall_def Let_def elem64_def)

text \<open>
  C11: The exception gates of the hypervisor. After the set-up at start-up, and still after the application has put its two user
  gates into the table, each of the 32 exception vectors leads through a present interrupt gate that only the kernel can call
  to its own stub, and nothing outside the table has changed.
\<close>

theorem descriptor_table_complete:
  fixes s :: xmhf_state
  assumes "idt_apart E"
  defines "m1 \<equiv> mem (xmhf_xcphandler_arch_initialize E s)"
    and "m2 \<equiv> mem (add_systemcall E (xmhf_xcphandler_arch_initialize E s))"
  shows "(\<forall>i<32. \<forall>m\<in>{m1, m2}. gate_leads_to m (elem64 (idt_start E) i) 0x8E (ld32 (mem s) (exceptionstubs E + 4 * of_nat i)))
    \<and> (\<forall>x. x \<notin> span (idt_start E) 2048 \<longrightarrow> m1 x = mem s x \<and> m2 x = mem s x)"
proof -
  let ?m = "idt_loop 32 E (mem s)"
  have m: "mem (xmhf_xcphandler_arch_initialize E s) = ?m" by (simp add: xmhf_xcphandler_arch_initialize_def xconst)
  note loop = idt_loop_gates[OF assms(1) order_refl, of "mem s"]
  show ?thesis
    using loop unfolding m1_def m2_def add_systemcall_mem[OF assms(1)] m by (simp add: user_gate_keeps[OF assms(1)])
qed

theorem descriptor_table_complete_witness:
  "\<exists>E m. m = mem (add_systemcall E (xmhf_xcphandler_arch_initialize E (sample_state\<lparr>mem := (\<lambda>a. 0x11)\<rparr>)))
    \<and> gate_leads_to m (elem64 (idt_start E) 14) 0x8E 0x11111111"
proof -
  define E where "E = \<lparr>alloc = \<lparr>tlsf_create = (\<lambda>p n m. (p, m)), tlsf_malloc = (\<lambda>p n m. (0, m)), tlsf_free = (\<lambda>p q m. m)\<rparr>,
     g_pool = 0, memory_pool = 0, exceptionstubs = 0x10101000, idt_start = 0x10102000, sidt_address = 0x10102000, read_cr3 = 0\<rparr>"
  have "idt_apart E" unfolding idt_apart_def E_def app_env.simps by (rule span_disjointI) simp_all
  then have "gate_leads_to (mem (add_systemcall E (xmhf_xcphandler_arch_initialize E (sample_state\<lparr>mem := (\<lambda>a. 0x11)\<rparr>))))
      (elem64 (idt_start E) 14) 0x8E (ld32 (\<lambda>a. 0x11) (exceptionstubs E + 4 * of_nat 14))"
    using descriptor_table_complete[of E "sample_state\<lparr>mem := (\<lambda>a. 0x11)\<rparr>"] by (simp del: of_nat_numeral)
  moreover have "ld32 (\<lambda>a. 0x11) (exceptionstubs E + 4 * of_nat 14) = 0x11111111" by (simp add: ld32_bytes)
  ultimately show ?thesis by metis
qed

section \<open>What the hub does\<close>

definition core_lapic_id :: "hardware \<Rightarrow> u32" where
  "core_lapic_id hw = drop_bit 24 (lapic_read hw ((fst (rdmsr hw MSR_APIC_BASE) AND 0xFFFFF000) + LAPIC_ID))"

lemma getvcpu_finds:
  assumes "snd (rdmsr hw MSR_APIC_BASE) = 0" "e \<in> set (g_midtable s)" "cpu_lapic_id e = core_lapic_id hw"
    and "distinct (map cpu_lapic_id (g_midtable s))"
  shows "svm_getvcpu hw s = Inr (vcpu_vaddr_ptr e)" "vmx_getvcpu hw s = Inr (vcpu_vaddr_ptr e)"
proof -
  have "find (\<lambda>x. cpu_lapic_id x = core_lapic_id hw) xs = Some e" if "e \<in> set xs" "distinct (map cpu_lapic_id xs)" for xs
    using that assms(3) by (induction xs) (auto simp: rev_image_eqI)
  then have "find (\<lambda>x. cpu_lapic_id x = core_lapic_id hw) (g_midtable s) = Some e" using assms by blast
  then show "svm_getvcpu hw s = Inr (vcpu_vaddr_ptr e)" "vmx_getvcpu hw s = Inr (vcpu_vaddr_ptr e)"
    using assms(1) by (simp_all add: svm_getvcpu_def vmx_getvcpu_def core_lapic_id_def Let_def case_prod_beta)
qed

text \<open>
  C12: The exception hub fails safe. For every vector but 239, the core stops when its processor is of an unknown vendor, when
  its interrupt controller is mapped above 4 GB, or when the table of processors has no entry for it, the NMI included; on a core
  of the table an NMI is handled for the structure of that core, and every other vector stops the core, in particular the
  system call vector 128, for which user code has a gate.
\<close>

theorem exception_hub_outcome:
  fixes hw :: hardware and r :: regs and s :: xmhf_state
  assumes "vector \<noteq> 0xEF" and "distinct (map cpu_lapic_id (g_midtable s))"
  defines "out \<equiv> xmhf_xcphandler_arch_hub hw vector (r, s)"
    and "known \<equiv> cpu_string hw \<in> {AMD_STRING, INTEL_STRING}" and "low \<equiv> snd (rdmsr hw MSR_APIC_BASE) = 0"
  shows "(\<not> known \<longrightarrow> out = Inl Halt)
    \<and> (known \<and> \<not> low \<longrightarrow> out = Inl ErrorCond)
    \<and> (known \<and> low \<and> core_lapic_id hw \<notin> cpu_lapic_id ` set (g_midtable s) \<longrightarrow> out = Inl Halt)
    \<and> (known \<and> low \<longrightarrow> (\<forall>e\<in>set (g_midtable s). cpu_lapic_id e = core_lapic_id hw \<longrightarrow>
        out = (if vector = CPU_EXCEPTION_NMI
          then xmhf_smpguest_arch_x86_eventhandler_nmiexception (vcpu_vaddr_ptr e) (r, s) else Inl Halt)))"
proof (intro conjI impI ballI)
  assume "\<not> known"
  then show "out = Inl Halt" by (simp add: out_def known_def xmhf_xcphandler_arch_hub_def get_cpu_vendor_or_die_def)
next
  assume "known \<and> \<not> low"
  then show "out = Inl ErrorCond"
    by (auto simp: out_def known_def low_def xmhf_xcphandler_arch_hub_def get_cpu_vendor_or_die_def svm_getvcpu_def
        vmx_getvcpu_def HALT_ON_ERRORCOND_def case_prod_beta)
next
  assume k: "known \<and> low \<and> core_lapic_id hw \<notin> cpu_lapic_id ` set (g_midtable s)"
  then have "find (\<lambda>e. cpu_lapic_id e = core_lapic_id hw) (g_midtable s) = None"
    by (metis (mono_tags, lifting) find_None_iff image_eqI)
  then show "out = Inl Halt"
    using k by (auto simp: out_def known_def low_def xmhf_xcphandler_arch_hub_def get_cpu_vendor_or_die_def svm_getvcpu_def
        vmx_getvcpu_def case_prod_beta core_lapic_id_def Let_def)
next
  fix e
  assume "known \<and> low" "e \<in> set (g_midtable s)" "cpu_lapic_id e = core_lapic_id hw"
  then show "out = (if vector = CPU_EXCEPTION_NMI
      then xmhf_smpguest_arch_x86_eventhandler_nmiexception (vcpu_vaddr_ptr e) (r, s) else Inl Halt)"
    using getvcpu_finds[of hw e s] assms(1,2)
    by (auto simp: out_def known_def low_def xmhf_xcphandler_arch_hub_def get_cpu_vendor_or_die_def)
qed

definition nmi_hw :: hardware where
  "nmi_hw = sample_hw\<lparr>cpuid := \<lambda>a b. (0, 0x756E6547, 0x6C65746E, 0x49656E69), rdmsr := \<lambda>i. (0xFEE00900, 0),
     lapic_read := \<lambda>a. 0x03000000\<rparr>"

definition nmi_state :: xmhf_state where
  "nmi_state = sample_state\<lparr>g_midtable := [\<lparr>cpu_lapic_id = 0, vcpu_vaddr_ptr = 0\<rparr>, \<lparr>cpu_lapic_id = 3, vcpu_vaddr_ptr = 0x100\<rparr>]\<rparr>"

theorem exception_hub_outcome_witness:
  "(\<forall>r. xmhf_xcphandler_arch_hub nmi_hw 0x80 (r, nmi_state) = Inl Halt
      \<and> xmhf_xcphandler_arch_hub nmi_hw CPU_EXCEPTION_NMI (r, nmi_state)
        = xmhf_smpguest_arch_x86_eventhandler_nmiexception 0x100 (r, nmi_state)
      \<and> xmhf_xcphandler_arch_hub (nmi_hw\<lparr>lapic_read := \<lambda>a. 0x05000000\<rparr>) CPU_EXCEPTION_NMI (r, nmi_state) = Inl Halt)"
proof
  fix r
  let ?hw = "nmi_hw\<lparr>lapic_read := \<lambda>a. 0x05000000\<rparr>"
  have "cpu_string nmi_hw = INTEL_STRING" "snd (rdmsr nmi_hw MSR_APIC_BASE) = 0" "core_lapic_id nmi_hw = 3"
    "cpu_string ?hw = INTEL_STRING" "core_lapic_id ?hw = 5"
    by (simp_all add: nmi_hw_def cpu_string_def INTEL_STRING_def core_lapic_id_def)
  then show "xmhf_xcphandler_arch_hub nmi_hw 0x80 (r, nmi_state) = Inl Halt
      \<and> xmhf_xcphandler_arch_hub nmi_hw CPU_EXCEPTION_NMI (r, nmi_state)
        = xmhf_smpguest_arch_x86_eventhandler_nmiexception 0x100 (r, nmi_state)
      \<and> xmhf_xcphandler_arch_hub ?hw CPU_EXCEPTION_NMI (r, nmi_state) = Inl Halt"
    using exception_hub_outcome[of "0x80" nmi_state nmi_hw r] exception_hub_outcome[of CPU_EXCEPTION_NMI nmi_state nmi_hw r]
      exception_hub_outcome[of CPU_EXCEPTION_NMI nmi_state ?hw r]
    by (simp add: nmi_state_def CPU_EXCEPTION_NMI_def)
qed

end
