(* ===== verification/XMHF_BasePlatform.thy ===== *)
theory XMHF_BasePlatform
  imports XMHF_Partition
begin

text \<open>
  Services of the base platform component on x86 (\<^verbatim>\<open>bplt-x86-pit.c\<close>, \<^verbatim>\<open>bplt-x86-pci.c\<close>, \<^verbatim>\<open>bplt-x86-acpi.c\<close>,
  \<^verbatim>\<open>bplt-x86.c\<close>): delays with the interval timer, the configuration space of PCI devices, the search for the ACPI root
  pointer, and the initialisation that uses the last two. What a port reads as is the record \<open>hardware\<close>; a bit that is polled
  and does not come has the value \<open>Hang\<close>.
\<close>

section \<open>The interval timer\<close>

definition latchregval :: "u32 \<Rightarrow> u32" where
  "latchregval usecs = (1193182 * usecs) div 1000000"

definition xmhf_baseplatform_arch_x86_udelay :: "hardware \<Rightarrow> u32 \<Rightarrow> xmhf_state \<Rightarrow> xmhf_error + xmhf_state" where
  "xmhf_baseplatform_arch_x86_udelay hw usecs s =
    (let s = hw_do (OutB ((inb hw 0x61 AND 0x0D) OR 0x01) 0x61) s;
         s = hw_do (OutB 0xB0 0x43) s;
         s = hw_do (OutB (ucast (latchregval usecs)) 0x42) s;
         s = hw_do (OutB (ucast (drop_bit 8 (latchregval usecs))) 0x42) s
     in if inb hw 0x61 AND 0x20 = 0 then Inl Hang
        else Inr (hw_do (OutB (inb hw 0x61 AND 0x0C) 0x61) s))"

section \<open>PCI configuration space\<close>

definition PCI_CONFIG_ADDR_PORT :: u32 where [xconst]: "PCI_CONFIG_ADDR_PORT = 0xCF8"
definition PCI_CONFIG_DATA_PORT :: u32 where [xconst]: "PCI_CONFIG_DATA_PORT = 0xCFC"

definition PCI_DEVICE_FN :: "u32 \<Rightarrow> u32 \<Rightarrow> u32" where
  "PCI_DEVICE_FN device func = push_bit 3 (device AND 0x1F) OR (func AND 0x07)"

definition PCI_TYPE1_ADDRESS :: "u32 \<Rightarrow> u32 \<Rightarrow> u32 \<Rightarrow> u32 \<Rightarrow> u32" where
  "PCI_TYPE1_ADDRESS bus device func index =
    0x80000000 OR push_bit 16 (index AND 0xF00) OR push_bit 16 bus OR push_bit 8 (PCI_DEVICE_FN device func)
      OR (index AND 0xFC)"

definition pci_args_ok :: "u32 \<Rightarrow> u32 \<Rightarrow> u32 \<Rightarrow> u32 \<Rightarrow> bool" where
  "pci_args_ok bus device func index \<longleftrightarrow> bus \<le> 255 \<and> PCI_DEVICE_FN device func \<le> 255 \<and> index \<le> 4095"

text \<open>For another length than 1, 2 and 4 the value the caller passed stays.\<close>

definition xmhf_baseplatform_arch_x86_pci_type1_read ::
  "hardware \<Rightarrow> u32 \<Rightarrow> u32 \<Rightarrow> u32 \<Rightarrow> u32 \<Rightarrow> u32 \<Rightarrow> u32 \<Rightarrow> xmhf_state \<Rightarrow> xmhf_error + u32 \<times> xmhf_state" where
  "xmhf_baseplatform_arch_x86_pci_type1_read hw bus device func index len value s =
    bindE (HALT_ON_ERRORCOND (pci_args_ok bus device func index)) (\<lambda>_.
    let s = hw_do (OutL (PCI_TYPE1_ADDRESS bus device func index) PCI_CONFIG_ADDR_PORT) s
    in Inr (if len = 1 then ucast (inb hw (PCI_CONFIG_DATA_PORT + (index AND 3)))
            else if len = 2 then ucast (inw hw (PCI_CONFIG_DATA_PORT + (index AND 2)))
            else if len = 4 then inl hw PCI_CONFIG_DATA_PORT else value, s))"

definition xmhf_baseplatform_arch_x86_pci_type1_write ::
  "u32 \<Rightarrow> u32 \<Rightarrow> u32 \<Rightarrow> u32 \<Rightarrow> u32 \<Rightarrow> u32 \<Rightarrow> xmhf_state \<Rightarrow> xmhf_error + xmhf_state" where
  "xmhf_baseplatform_arch_x86_pci_type1_write bus device func index len value s =
    bindE (HALT_ON_ERRORCOND (pci_args_ok bus device func index)) (\<lambda>_.
    let s = hw_do (OutL (PCI_TYPE1_ADDRESS bus device func index) PCI_CONFIG_ADDR_PORT) s
    in Inr (if len = 1 then hw_do (OutB (ucast value) (PCI_CONFIG_DATA_PORT + (index AND 3))) s
            else if len = 2 then hw_do (OutW (ucast value) (PCI_CONFIG_DATA_PORT + (index AND 2))) s
            else if len = 4 then hw_do (OutL value PCI_CONFIG_DATA_PORT) s else s))"

text \<open>The port reads back what was written last; before that it has the value the machine came up with.\<close>

definition pci_type1_works :: "hardware \<Rightarrow> bool" where
  "pci_type1_works hw \<longleftrightarrow> inl hw PCI_CONFIG_ADDR_PORT = 0x80000000"

definition xmhf_baseplatform_arch_x86_pci_initialize :: "hardware \<Rightarrow> u32 \<Rightarrow> xmhf_state \<Rightarrow> xmhf_error + xmhf_state" where
  "xmhf_baseplatform_arch_x86_pci_initialize hw tmp s =
    (let s = hw_do (OutL 0x80000000 PCI_CONFIG_ADDR_PORT) s
     in if \<not> pci_type1_works hw then Inl Halt else Inr (hw_do (OutL tmp PCI_CONFIG_ADDR_PORT) s))"

section \<open>The ACPI root pointer\<close>

definition ACPI_RSDP_SIGNATURE :: u64 where [xconst]: "ACPI_RSDP_SIGNATURE = 0x2052545020445352"

definition paragraphs :: "u32 \<Rightarrow> nat \<Rightarrow> u32 list" where
  "paragraphs base n = map (\<lambda>k. base + 16 * of_nat k) [0..<n]"

text \<open>The sum is a signed \<^verbatim>\<open>char\<close>, sign extended when it is returned; the structure is checked in the copy.\<close>

definition acpi_computetablechecksum :: "memory \<Rightarrow> u32 \<Rightarrow> nat \<Rightarrow> u32" where
  "acpi_computetablechecksum m spaddr sz = scast (foldl (\<lambda>c i. c + m (spaddr + of_nat i)) 0 [0..<sz] :: u8)"

definition rsdp_valid :: "memory \<Rightarrow> u32 \<Rightarrow> bool" where
  "rsdp_valid m a \<longleftrightarrow> ld64 m a = ACPI_RSDP_SIGNATURE \<and> acpi_computetablechecksum m a 20 = 0"

definition xmhf_baseplatform_arch_x86_acpi_getRSDP :: "memory \<Rightarrow> u32" where
  "xmhf_baseplatform_arch_x86_acpi_getRSDP m =
    (case find (rsdp_valid m) (paragraphs (ucast (ld16 m 0x40E) * 16) 64) of Some a \<Rightarrow> a
     | None \<Rightarrow> (case find (rsdp_valid m) (paragraphs 0xE0000 8192) of Some a \<Rightarrow> a | None \<Rightarrow> 0))"

definition xmhf_baseplatform_arch_initialize :: "hardware \<Rightarrow> u32 \<Rightarrow> xmhf_state \<Rightarrow> xmhf_error + xmhf_state" where
  "xmhf_baseplatform_arch_initialize hw tmp s =
    bindE (xmhf_baseplatform_arch_x86_pci_initialize hw tmp s) (\<lambda>s.
    if xmhf_baseplatform_arch_x86_acpi_getRSDP (mem s) = 0 then Inl Halt else Inr s)"

section \<open>Properties\<close>

text \<open>The delay the timer makes, in ticks of 1193182 Hz: the product wraps from 3600 microseconds on.\<close>

lemma udelay_latch:
  "unat usecs < 3600 \<Longrightarrow> unat (latchregval usecs) = 1193182 * unat usecs div 1000000 \<and> latchregval usecs < 0x10000"
proof -
  assume u: "unat usecs < 3600"
  then have "unat (1193182 * usecs :: u32) = 1193182 * unat usecs"
    by (intro unat_mult_lem[THEN iffD1, of "1193182 :: u32", simplified]) simp
  then have e: "unat (latchregval usecs) = 1193182 * unat usecs div 1000000"
    by (simp add: latchregval_def unat_div)
  then show ?thesis using u by (simp add: word_less_nat_alt)
qed

text \<open>
  The delay. When the timer answers, a delay returns after programming channel 2 as a one-shot with a count; up to 3599
  microseconds the count is the exact number of ticks, rounded down. For the 10 milliseconds the start of the other cores
  waits after INIT, the product of 32 bits wraps: the count is 3341 instead of 11931 ticks, a delay of 2.8 milliseconds.
\<close>

theorem udelay_programs_timer:
  assumes "inb hw 0x61 AND 0x20 \<noteq> 0"
  shows "\<exists>s' lo hi. xmhf_baseplatform_arch_x86_udelay hw usecs s = Inr s'
    \<and> hwlog s' = hwlog s @ [OutB ((inb hw 0x61 AND 0x0D) OR 0x01) 0x61, OutB 0xB0 0x43, OutB lo 0x42, OutB hi 0x42,
        OutB (inb hw 0x61 AND 0x0C) 0x61]
    \<and> (unat usecs < 3600 \<longrightarrow> unat lo + 256 * unat hi = 1193182 * unat usecs div 1000000)
    \<and> (usecs = 10000 \<longrightarrow> unat lo + 256 * unat hi = 3341 \<and> 1193182 * unat usecs div 1000000 = 11931)"
proof -
  have "unat (ucast v :: u8) + 256 * unat (ucast (drop_bit 8 v) :: u8) = unat v" if "v < 0x10000" for v :: u32
  proof -
    have "unat v div 256 < 256" using that by (simp add: word_less_nat_alt)
    then show ?thesis
      by (simp add: unsigned_ucast_eq unsigned_take_bit_eq unat_drop_bit_eq take_bit_eq_mod drop_bit_eq_div unat_div)
  qed
  moreover have "latchregval 10000 = 3341" by (simp add: latchregval_def)
  ultimately show ?thesis
    using assms udelay_latch[of usecs] by (auto simp: xmhf_baseplatform_arch_x86_udelay_def Let_def)
qed

theorem udelay_programs_timer_witness:
  "let hw = sample_hw\<lparr>inb := \<lambda>p. 0x20\<rparr> in
    (\<exists>s lo hi. xmhf_baseplatform_arch_x86_udelay hw 200 sample_state = Inr s \<and> OutB lo 0x42 \<in> set (hwlog s)
      \<and> OutB hi 0x42 \<in> set (hwlog s) \<and> unat lo + 256 * unat hi = 238)
    \<and> (\<exists>s lo hi. xmhf_baseplatform_arch_x86_udelay hw 10000 sample_state = Inr s \<and> OutB lo 0x42 \<in> set (hwlog s)
      \<and> OutB hi 0x42 \<in> set (hwlog s) \<and> unat lo + 256 * unat hi = 3341)"
proof -
  let ?hw = "sample_hw\<lparr>inb := \<lambda>p. 0x20\<rparr>"
  have "inb ?hw 0x61 AND 0x20 \<noteq> 0" by simp
  from udelay_programs_timer[OF this, of 200 sample_state] udelay_programs_timer[OF this, of 10000 sample_state]
  show ?thesis by fastforce
qed

text \<open>How a host bridge reads a type-1 address.\<close>

definition pci_decode :: "u32 \<Rightarrow> u32 \<times> u32 \<times> u32 \<times> u32" where
  "pci_decode a = (drop_bit 16 a AND 0xFF, drop_bit 11 a AND 0x1F, drop_bit 8 a AND 7, (a AND 0xFC) OR (drop_bit 16 a AND 0xF00))"

lemma pci_address_decodes:
  assumes "bus \<le> 255" "device < 32" "func < 8" "index \<le> 4095"
  shows "pci_decode (PCI_TYPE1_ADDRESS bus device func index) = (bus, device, func, index AND NOT 3)"
proof -
  have high: "\<not> bit x n" if "unat x < 2 ^ k" "k \<le> n" for x :: u32 and k n
  proof -
    have "take_bit k (unat x) = unat x" using that(1) by (simp add: take_bit_nat_eq_self)
    then have "\<not> bit (unat x) n" using that(2) by (metis bit_take_bit_iff not_le)
    then show ?thesis by (auto simp: bit_simps dest: bit_imp_le_length)
  qed
  have "unat bus < 2 ^ 8" "unat device < 2 ^ 5" "unat func < 2 ^ 3" "unat index < 2 ^ 12"
    using assms by (simp_all add: word_less_nat_alt word_le_nat_alt)
  note bits = this[THEN high]
  show ?thesis
    unfolding pci_decode_def PCI_TYPE1_ADDRESS_def PCI_DEVICE_FN_def prod.inject
    by (intro conjI; rule u32_bitsI; simp add: bit_simps bits)
qed

lemma pci_device_check_vacuous: "PCI_DEVICE_FN device func \<le> 255"
proof -
  have "PCI_DEVICE_FN device func = PCI_DEVICE_FN device func AND 0xFF"
    unfolding PCI_DEVICE_FN_def by (rule u32_bitsI) (simp add: bit_simps)
  then show ?thesis by (metis word_and_le1)
qed

end
