(* ===== verification/XMHF_Startup.thy ===== *)
theory XMHF_Startup
  imports XMHF_SvmPartition XMHF_Exception XMHF_BasePlatform
begin

text \<open>
  From the entry of the runtime to the running guest (\<^verbatim>\<open>runtime.c\<close>, \<^verbatim>\<open>bplt-x86-smp.c\<close>, \<^verbatim>\<open>bplt-x86vmx-smp.c\<close>,
  \<^verbatim>\<open>bplt-x86svm-smp.c\<close>, \<^verbatim>\<open>bplt-x86.c\<close>): the master-id table is filled, every core gets its \<^verbatim>\<open>VCPU\<close> structure and its
  buffers, the other cores are woken, and each core runs \<^verbatim>\<open>xmhf_runtime_main\<close>, which sets up the partition, memory protection,
  the application and SMP support and launches the guest. Waiting for the other cores to pass the
  application's initialisation has no effect on the state of a core and is left out; a core
  that waits for its start-up signal has the value \<open>Hang\<close> until the signal is there.
\<close>

section \<open>Allocation\<close>

definition MAX_MIDTAB_ENTRIES :: nat where [xconst]: "MAX_MIDTAB_ENTRIES = 8"
definition RUNTIME_STACK_SIZE :: u32 where [xconst]: "RUNTIME_STACK_SIZE = 16384"

text \<open>The addresses of the global arrays and the size of the structure.\<close>

record buffers =
  g_vcpubuffers :: u32
  SIZE_STRUCT_VCPU :: u32
  g_cpustacks :: u32
  g_vmx_vmxon_buffers :: u32
  g_vmx_vmcs_buffers :: u32
  g_vmx_iobitmap_buffer :: u32
  g_vmx_msr_area_host_buffers :: u32
  g_vmx_msr_area_guest_buffers :: u32
  g_vmx_msrbitmap_buffers :: u32
  g_vmx_ept_pml4_table_buffers :: u32
  g_vmx_ept_pdp_table_buffers :: u32
  g_vmx_ept_pd_table_buffers :: u32
  g_vmx_ept_p_table_buffers :: u32
  g_svm_hsave_buffers :: u32
  g_svm_vmcb_buffers :: u32
  g_svm_iobitmap_buffer :: u32
  g_svm_npt_pdpt_buffers :: u32
  g_svm_npt_pdts_buffers :: u32
  g_svm_npt_pts_buffers :: u32
  ap_bootstrap_start :: u32
  ap_bootstrap_end :: u32
  ap_cr3_value :: u32
  ap_cr4_value :: u32
  x_boot_OS_module :: u32

definition vcpu_ptr :: "buffers \<Rightarrow> nat \<Rightarrow> u32" where
  "vcpu_ptr L i = g_vcpubuffers L + of_nat i * SIZE_STRUCT_VCPU L"

definition new_vcpu :: "buffers \<Rightarrow> u32 \<Rightarrow> nat \<Rightarrow> u32 \<Rightarrow> VCPU" where
  "new_vcpu L vendor i lapic_id = zero_VCPU\<lparr>
     cpu_vendor := vendor,
     vcpu_esp := g_cpustacks L + of_nat i * RUNTIME_STACK_SIZE + RUNTIME_STACK_SIZE,
     vmx_vmxonregion_vaddr := g_vmx_vmxon_buffers L + of_nat i * PAGE_SIZE_4K,
     vmx_vmcs_vaddr := g_vmx_vmcs_buffers L + of_nat i * PAGE_SIZE_4K,
     vmx_vaddr_iobitmap := g_vmx_iobitmap_buffer L,
     vmx_vaddr_msr_area_host := g_vmx_msr_area_host_buffers L + of_nat i * (2 * PAGE_SIZE_4K),
     vmx_vaddr_msr_area_guest := g_vmx_msr_area_guest_buffers L + of_nat i * (2 * PAGE_SIZE_4K),
     vmx_vaddr_msrbitmaps := g_vmx_msrbitmap_buffers L + of_nat i * PAGE_SIZE_4K,
     vmx_vaddr_ept_pml4_table := g_vmx_ept_pml4_table_buffers L + of_nat i * PAGE_SIZE_4K,
     vmx_vaddr_ept_pdp_table := g_vmx_ept_pdp_table_buffers L + of_nat i * PAGE_SIZE_4K,
     vmx_vaddr_ept_pd_tables := g_vmx_ept_pd_table_buffers L + of_nat i * (PAGE_SIZE_4K * 4),
     vmx_vaddr_ept_p_tables := g_vmx_ept_p_table_buffers L + of_nat i * (PAGE_SIZE_4K * 2048),
     vcpu_id := lapic_id, idx := of_nat i, sipivector := 0, sipireceived := 0\<rparr>"

definition clear_buffers :: "VCPU \<Rightarrow> memory \<Rightarrow> memory" where
  "clear_buffers v m =
    (let m = memset 4096 (vmx_vmxonregion_vaddr v) 0 m;
         m = memset 4096 (vmx_vmcs_vaddr v) 0 m;
         m = memset 8192 (vmx_vaddr_iobitmap v) 0 m;
         m = memset 8192 (vmx_vaddr_msr_area_host v) 0 m;
         m = memset 8192 (vmx_vaddr_msr_area_guest v) 0 m
     in memset 4096 (vmx_vaddr_msrbitmaps v) 0 m)"

definition setup_vcpu :: "buffers \<Rightarrow> u32 \<Rightarrow> nat \<Rightarrow> xmhf_state \<Rightarrow> xmhf_error + xmhf_state" where
  "setup_vcpu L vendor i s =
    (let e = g_midtable s ! i; v = new_vcpu L vendor i (cpu_lapic_id e)
     in Inr (s\<lparr>vcpus := (vcpus s)(vcpu_ptr L i := v), mem := clear_buffers v (mem s),
               g_midtable := (g_midtable s)[i := e\<lparr>vcpu_vaddr_ptr := vcpu_ptr L i\<rparr>]\<rparr>))"

definition xmhf_baseplatform_arch_x86vmx_allocandsetupvcpus ::
  "buffers \<Rightarrow> u32 \<Rightarrow> xmhf_state \<Rightarrow> xmhf_error + xmhf_state" where
  "xmhf_baseplatform_arch_x86vmx_allocandsetupvcpus L vendor s =
    forE (length (g_midtable s)) 0 (setup_vcpu L vendor) s"

text \<open>The same on AMD. The address space ids of the cores count up from \<^verbatim>\<open>ASID_GUEST_KERNEL\<close>.\<close>

definition ASID_GUEST_KERNEL :: u32 where [xconst]: "ASID_GUEST_KERNEL = 2"

definition new_svm_vcpu :: "buffers \<Rightarrow> u32 \<Rightarrow> nat \<Rightarrow> u32 \<Rightarrow> VCPU" where
  "new_svm_vcpu L vendor i lapic_id = zero_VCPU\<lparr>
     cpu_vendor := vendor,
     vcpu_esp := g_cpustacks L + of_nat i * RUNTIME_STACK_SIZE + RUNTIME_STACK_SIZE,
     hsave_vaddr_ptr := g_svm_hsave_buffers L + of_nat i * 8192,
     vmcb_vaddr_ptr := g_svm_vmcb_buffers L + of_nat i * 8192,
     svm_vaddr_iobitmap := g_svm_iobitmap_buffer L,
     npt_vaddr_ptr := g_svm_npt_pdpt_buffers L + of_nat i * 4096,
     npt_vaddr_pdts := g_svm_npt_pdts_buffers L + of_nat i * 16384,
     npt_vaddr_pts := g_svm_npt_pts_buffers L + of_nat i * (2048 * 4096),
     npt_asid := ASID_GUEST_KERNEL + of_nat i,
     vcpu_id := lapic_id, idx := of_nat i, sipivector := 0, sipireceived := 0\<rparr>"

definition setup_svm_vcpu :: "buffers \<Rightarrow> u32 \<Rightarrow> nat \<Rightarrow> xmhf_state \<Rightarrow> xmhf_error + xmhf_state" where
  "setup_svm_vcpu L vendor i s =
    (let e = g_midtable s ! i; v = new_svm_vcpu L vendor i (cpu_lapic_id e)
     in Inr (s\<lparr>vcpus := (vcpus s)(vcpu_ptr L i := v),
               mem := memset (3 * 4096) (svm_vaddr_iobitmap v) 0 (mem s),
               g_midtable := (g_midtable s)[i := e\<lparr>vcpu_vaddr_ptr := vcpu_ptr L i\<rparr>]\<rparr>))"

definition xmhf_baseplatform_arch_x86svm_allocandsetupvcpus ::
  "buffers \<Rightarrow> u32 \<Rightarrow> xmhf_state \<Rightarrow> xmhf_error + xmhf_state" where
  "xmhf_baseplatform_arch_x86svm_allocandsetupvcpus L vendor s =
    forE (length (g_midtable s)) 0 (setup_svm_vcpu L vendor) s"

text \<open>The master-id table, an array of \<^verbatim>\<open>MAX_MIDTAB_ENTRIES\<close>, gets one entry per processor of the boot loader's table.\<close>

definition setup_midtable :: "u32 list \<Rightarrow> xmhf_state \<Rightarrow> xmhf_error + xmhf_state" where
  "setup_midtable cpumap s = forE (length cpumap) 0 (\<lambda>i s.
     if length (g_midtable s) < MAX_MIDTAB_ENTRIES
     then Inr (s\<lparr>g_midtable := g_midtable s @ [\<lparr>cpu_lapic_id = cpumap ! i, vcpu_vaddr_ptr = 0\<rparr>]\<rparr>)
     else Inl OutOfBounds) s"

definition xmhf_baseplatform_arch_getcpuvendor :: "hardware \<Rightarrow> xmhf_error + u32" where
  "xmhf_baseplatform_arch_getcpuvendor hw =
    (if cpu_string hw = AMD_STRING then Inr CPU_VENDOR_AMD
     else if cpu_string hw = INTEL_STRING then Inr CPU_VENDOR_INTEL else Inl Halt)"

text \<open>
  Waking the other cores: their bootstrap code, with this core's control registers in it, is copied below 1 MB, and the
  interrupt controller sends them there. A delivery bit that stays set is polled for ever.
\<close>

definition send_ipi :: "hardware \<Rightarrow> u32 \<Rightarrow> u32 \<Rightarrow> u32 \<Rightarrow> xmhf_state \<Rightarrow> xmhf_error + xmhf_state" where
  "send_ipi hw icr cmd usecs s =
    bindE (xmhf_baseplatform_arch_x86_udelay hw usecs (hw_do (MmioWrite32 icr cmd) s)) (\<lambda>s.
    if lapic_read hw icr AND 0x1000 \<noteq> 0 then Inl Hang else Inr s)"

definition xmhf_baseplatform_arch_x86_wakeupAPs :: "hardware \<Rightarrow> xmhf_state \<Rightarrow> xmhf_error + xmhf_state" where
  "xmhf_baseplatform_arch_x86_wakeupAPs hw s =
    (let (eax, edx) = rdmsr hw MSR_APIC_BASE; icr = (eax AND 0xFFFFF000) + 0x300 in
     bindE (HALT_ON_ERRORCOND (edx = 0)) (\<lambda>_.
     bindE (send_ipi hw icr 0x000c4500 10000 s) (\<lambda>s.
     bindE (send_ipi hw icr 0x000c4610 200 s) (send_ipi hw icr 0x000c4610 200))))"

definition ap_trampoline :: "buffers \<Rightarrow> platform \<Rightarrow> xmhf_state \<Rightarrow> xmhf_state" where
  "ap_trampoline L P s =
    (let m = st32 (mem s) (ap_cr3_value L) (boot_cr3 P);
         m = st32 m (ap_cr4_value L) (read_cr4 P s)
     in s\<lparr>mem := memcpy (unat (ap_bootstrap_end L - ap_bootstrap_start L + 1)) 0x10000 (ap_bootstrap_start L) m\<rparr>)"

definition xmhf_baseplatform_arch_x86vmx_wakeupAPs ::
  "buffers \<Rightarrow> platform \<Rightarrow> hardware \<Rightarrow> xmhf_state \<Rightarrow> xmhf_error + xmhf_state" where
  "xmhf_baseplatform_arch_x86vmx_wakeupAPs L P hw s = xmhf_baseplatform_arch_x86_wakeupAPs hw (ap_trampoline L P s)"

definition xmhf_baseplatform_arch_x86svm_wakeupAPs ::
  "buffers \<Rightarrow> platform \<Rightarrow> hardware \<Rightarrow> xmhf_state \<Rightarrow> xmhf_error + xmhf_state" where
  "xmhf_baseplatform_arch_x86svm_wakeupAPs L P hw s = xmhf_baseplatform_arch_x86_wakeupAPs hw (ap_trampoline L P s)"

text \<open>The function then falls through to the code all cores enter, which is \<open>xmhf_baseplatform_arch_x86_smpinitialize_commonstart\<close> below.\<close>

definition xmhf_baseplatform_arch_smpinitialize ::
  "buffers \<Rightarrow> platform \<Rightarrow> hardware \<Rightarrow> u32 list \<Rightarrow> xmhf_state \<Rightarrow> xmhf_error + xmhf_state" where
  "xmhf_baseplatform_arch_smpinitialize L P hw cpumap s =
    bindE (xmhf_baseplatform_arch_getcpuvendor hw) (\<lambda>vendor.
    bindE (setup_midtable cpumap s) (\<lambda>s.
    bindE (if vendor = CPU_VENDOR_AMD then xmhf_baseplatform_arch_x86svm_allocandsetupvcpus L vendor s
           else xmhf_baseplatform_arch_x86vmx_allocandsetupvcpus L vendor s) (\<lambda>s.
    if 1 < length (g_midtable s) then
      if vendor = CPU_VENDOR_AMD then xmhf_baseplatform_arch_x86svm_wakeupAPs L P hw s
      else xmhf_baseplatform_arch_x86vmx_wakeupAPs L P hw s
    else Inr s)))"

section \<open>The main function of a core\<close>

definition xmhf_baseplatform_arch_x86_isbsp :: "hardware \<Rightarrow> xmhf_error + u32" where
  "xmhf_baseplatform_arch_x86_isbsp hw =
    (let (eax, edx) = rdmsr hw MSR_APIC_BASE in
     bindE (HALT_ON_ERRORCOND (edx = 0)) (\<lambda>_. Inr (if eax AND 0x100 \<noteq> 0 then 1 else 0)))"

definition xmhf_baseplatform_arch_x86_cpuhasxsavefeature :: "hardware \<Rightarrow> bool" where
  "xmhf_baseplatform_arch_x86_cpuhasxsavefeature hw =
    (let (eax, ebx, ecx, edx) = cpuid hw 1 0 in ecx AND push_bit 26 1 \<noteq> 0)"

definition xmhf_baseplatform_arch_cpuinitialize ::
  "platform \<Rightarrow> hardware \<Rightarrow> xmhf_state \<Rightarrow> xmhf_error + xmhf_state" where
  "xmhf_baseplatform_arch_cpuinitialize P hw s =
    bindE (xmhf_baseplatform_arch_getcpuvendor hw) (\<lambda>vendor.
    let s = (if xmhf_baseplatform_arch_x86_cpuhasxsavefeature hw
             then hw_do (WrCr4 (read_cr4 P s OR CR4_OSXSAVE)) s else s)
    in Inr (if vendor = CPU_VENDOR_INTEL then hw_do (WrCr0 (read_cr0 P s OR 0x20)) s else s))"

definition xmhf_smpguest_arch_initialize :: "hardware \<Rightarrow> u32 \<Rightarrow> xmhf_state \<Rightarrow> xmhf_error + xmhf_state" where
  "xmhf_smpguest_arch_initialize hw vp s =
    bindE (HALT_ON_ERRORCOND (known_vendor (vcpus s vp))) (\<lambda>_.
    if isbsp (vcpus s vp) \<noteq> 0 \<and> 1 < length (g_midtable s) then
      if cpu_vendor (vcpus s vp) = CPU_VENDOR_AMD then xmhf_smpguest_arch_x86svm_initialize hw vp s
      else xmhf_smpguest_arch_x86vmx_initialize hw vp s
    else if sipireceived (vcpus s vp) = 0 then Inl Hang
    else xmhf_smpguest_arch_x86_postCPUwakeup vp s)"

definition xmhf_runtime_main ::
  "platform \<Rightarrow> hardware \<Rightarrow> vmcs_hw \<Rightarrow> u32 \<Rightarrow> u32 \<Rightarrow> xmhf_state \<Rightarrow> xmhf_error + vmcs_hw \<times> xmhf_state" where
  "xmhf_runtime_main P hw V vp early s =
    bindE (xmhf_baseplatform_arch_cpuinitialize P hw s) (\<lambda>s.
    bindE (xmhf_partition_arch_initializemonitor P hw vp s) (\<lambda>s.
    bindE (xmhf_partition_arch_setupguestOSstate P hw vp s) (\<lambda>s.
    bindE (xmhf_memprot_initialize hw vp s) (\<lambda>s.
    if xmhf_app_main (vcpus s vp) \<noteq> 0 then Inl Halt
    else if early = 0 then Inl Halt
    else bindE (xmhf_smpguest_arch_initialize hw vp s) (\<lambda>s.
    xmhf_partition_arch_start P vp V s)))))"

text \<open>Where a core enters after the rendezvous of the cores: it learns whether it is the boot processor.\<close>

definition xmhf_baseplatform_arch_x86_smpinitialize_commonstart ::
  "platform \<Rightarrow> hardware \<Rightarrow> vmcs_hw \<Rightarrow> u32 \<Rightarrow> xmhf_state \<Rightarrow> xmhf_error + vmcs_hw \<times> xmhf_state" where
  "xmhf_baseplatform_arch_x86_smpinitialize_commonstart P hw V vp s =
    bindE (xmhf_baseplatform_arch_x86_isbsp hw) (\<lambda>b.
    let s = upd_vcpu vp (\<lambda>v. v\<lparr>isbsp := b\<rparr>) s
    in xmhf_runtime_main P hw V vp (isEarlyInit (rpb s)) s)"

section \<open>The entry of the runtime\<close>

text \<open>
  The boot module moves into the runtime's own memory. \<^verbatim>\<open>xpdt\<close> is declared as \<^verbatim>\<open>pdt_t *\<close>, a pointer to pointers, so its
  element 89 is four bytes at offset 356. \<open>tmp\<close> is what the PCI address port holds at the entry.
\<close>

definition clear_pdt_slot :: "u32 \<Rightarrow> memory \<Rightarrow> memory" where
  "clear_pdt_slot xpdt m = st32 m (xpdt + 4 * 89) 0"

definition xmhf_runtime_entry ::
  "buffers \<Rightarrow> platform \<Rightarrow> app_env \<Rightarrow> hardware \<Rightarrow> u32 \<Rightarrow> u32 list \<Rightarrow> xmhf_state \<Rightarrow> xmhf_error + xmhf_state" where
  "xmhf_runtime_entry L P E hw tmp cpumap s =
    bindE (xmhf_baseplatform_arch_getcpuvendor hw) (\<lambda>_.
    bindE (xmhf_baseplatform_arch_initialize hw tmp s) (\<lambda>s.
    let s = s\<lparr>mem := memcpy (unat (XtGuestOSBootModuleSize (rpb s))) (x_boot_OS_module L)
              (XtGuestOSBootModuleBase (rpb s)) (mem s)\<rparr>;
        s = s\<lparr>rpb := (rpb s)\<lparr>XtGuestOSBootModuleBase := x_boot_OS_module L\<rparr>\<rparr>;
        s = s\<lparr>mem := clear_pdt_slot (XtVmmPdtsBase (rpb s)) (mem s)\<rparr>;
        s = xmhf_xcphandler_arch_initialize E s
    in xmhf_baseplatform_arch_smpinitialize L P hw cpumap s))"

text \<open>The store leaves entry 89 of the page directory as it is; it hits the upper half of entry 44.\<close>

lemma pdt_entry_89_stays: "ld64 (clear_pdt_slot xpdt m) (elem64 xpdt 89) = ld64 m (elem64 xpdt 89)"
proof -
  have "span (xpdt + 356) 4 \<inter> span (xpdt + 712) 8 = {}" by (rule span_disjointI) simp_all
  then have "x \<notin> span (xpdt + 356) 4" if "x \<in> span (xpdt + 712) 8" for x using that by auto
  then show ?thesis unfolding clear_pdt_slot_def elem64_def st32_def by (intro ld64_cong stw_outside) simp_all
qed

section \<open>The bootstrap code of the other cores\<close>

text \<open>The two fields for the control registers lie in the bootstrap code, which is apart from its copy.\<close>

definition trampoline_ok :: "buffers \<Rightarrow> bool" where
  "trampoline_ok L \<longleftrightarrow> (let n = unat (ap_bootstrap_end L - ap_bootstrap_start L + 1) in
     unat (ap_cr3_value L - ap_bootstrap_start L) + 4 \<le> n \<and> unat (ap_cr4_value L - ap_bootstrap_start L) + 4 \<le> n
     \<and> n < 0x90000 \<and> span 0x10000 n \<inter> span (ap_bootstrap_start L) n = {}
     \<and> span (ap_cr3_value L) 4 \<inter> span (ap_cr4_value L) 4 = {})"

lemma copied_word:
  assumes "span dst n \<inter> span src n = {}" "n < 2 ^ 32" "unat (a - src) + 4 \<le> n"
  shows "ld32 (memcpy n dst src m) (dst + (a - src)) = ld32 m a"
proof -
  have "memcpy n dst src m (dst + (a - src) + k) = m (a + k)" if "unat k < 4" for k
  proof -
    have "unat (a - src + k) = unat (a - src) + unat k"
      using that assms(2,3) by (intro unat_add_lem[THEN iffD1]) simp
    then have "unat (a - src + k) < n" using that assms(3) by simp
    from memcpy_inside[OF assms(2,1) this, of m] show ?thesis by (simp add: algebra_simps)
  qed
  from this[of 0] this[of 1] this[of 2] this[of 3] show ?thesis by (simp add: ld32_bytes)
qed

lemma trampoline_registers:
  assumes "trampoline_ok L"
  shows "ld32 (mem (ap_trampoline L P s)) (0x10000 + (ap_cr3_value L - ap_bootstrap_start L)) = boot_cr3 P
    \<and> ld32 (mem (ap_trampoline L P s)) (0x10000 + (ap_cr4_value L - ap_bootstrap_start L)) = read_cr4 P s"
proof -
  define n where "n = unat (ap_bootstrap_end L - ap_bootstrap_start L + 1)"
  have t: "span 0x10000 n \<inter> span (ap_bootstrap_start L) n = {}" "n < 2 ^ 32" "unat (ap_cr3_value L - ap_bootstrap_start L) + 4 \<le> n"
    "unat (ap_cr4_value L - ap_bootstrap_start L) + 4 \<le> n" "span (ap_cr4_value L) 4 \<inter> span (ap_cr3_value L) 4 = {}"
    using assms by (auto simp: trampoline_ok_def Let_def n_def)
  have "ld32 (st32 m (ap_cr4_value L) x) (ap_cr3_value L) = ld32 m (ap_cr3_value L)" for m x
    unfolding ld32_def st32_def by (rule ldw_stw_disjoint) (use t(5) in simp_all)
  then show ?thesis
    using copied_word[OF t(1-3)] copied_word[OF t(1,2,4)]
    by (simp add: ap_trampoline_def n_def[symmetric] Let_def)
qed

end
