(* ===== verification/XMHF_BootMap.thy ===== *)
theory XMHF_BootMap
  imports XMHF_Startup
begin

text \<open>
  The memory map in the boot loader (\<^verbatim>\<open>dealwithE820\<close> of \<^verbatim>\<open>xmhf-bootloader/init.c\<close>): the map of the multiboot
  information is copied, the entry that holds the hypervisor's region is found and split, so that the
  region is reserved in the map the guest will see.

  The specification is the set of addresses of each type. The main result: revising the map takes
  exactly the hypervisor's region out of the usable memory and leaves every other address as it was.
\<close>

section \<open>The map\<close>

definition MBI_MEMMAP :: u32 where [xconst]: "MBI_MEMMAP = 0x06"
definition MAX_E820_ENTRIES :: nat where [xconst]: "MAX_E820_ENTRIES = 64"
definition TARGET_BASE_SL :: u32 where [xconst]: "TARGET_BASE_SL = 0x10000000"

text \<open>The fields of the multiboot information the boot loader reads.\<close>

record multiboot_info_t =
  mbi_flags :: u32
  mods_count :: u32
  mods_addr :: u32
  mmap_length :: u32
  mmap_addr :: u32

text \<open>One entry of the multiboot map: its size without the size field, base, length and type.\<close>

definition read_mmap :: "memory \<Rightarrow> u32 \<Rightarrow> GRUBE820" where
  "read_mmap m a = \<lparr>baseaddr_low = ld32 m (a + 4), baseaddr_high = ld32 m (a + 8), length_low = ld32 m (a + 12),
     length_high = ld32 m (a + 16), e820_type = ld32 m (a + 20)\<rparr>"

text \<open>
  The copying loop. Its step is a field of the map, which may be zero modulo the word size; the loop
  ends all the same, when the array is full.
\<close>

function grab_e820 :: "memory \<Rightarrow> u32 \<Rightarrow> u32 \<Rightarrow> GRUBE820 list \<Rightarrow> xmhf_error + GRUBE820 list" where
  "grab_e820 m mmap mmap_end es =
    (if mmap < mmap_end then
       if length es < MAX_E820_ENTRIES then grab_e820 m (mmap + ld32 m mmap + 4) mmap_end (es @ [read_mmap m mmap])
       else Inl OutOfBounds
     else Inr es)"
  by pat_completeness auto
termination by (relation "measure (\<lambda>(m, a, e, es). MAX_E820_ENTRIES - length es)") auto

text \<open>The first free entry below 4 GB that has room for the region.\<close>

fun find_entry :: "u32 \<Rightarrow> u32 \<Rightarrow> nat \<Rightarrow> GRUBE820 list \<Rightarrow> xmhf_error + nat" where
  "find_entry base runtimesize i [] = Inl Halt"
| "find_entry base runtimesize i (e # es) =
    (if e820_type e = 1 \<and> baseaddr_high e = 0 then
       if length_high e \<noteq> 0 then Inl Halt
       else if baseaddr_low e \<le> base \<and> base + runtimesize < baseaddr_low e + length_low e then Inr i
       else find_entry base runtimesize (Suc i) es
     else find_entry base runtimesize (Suc i) es)"

definition low_entry :: "u32 \<Rightarrow> u32 \<Rightarrow> u32 \<Rightarrow> GRUBE820" where
  "low_entry b l t = \<lparr>baseaddr_low = b, baseaddr_high = 0, length_low = l, length_high = 0, e820_type = t\<rparr>"

definition split_entry :: "u32 \<Rightarrow> u32 \<Rightarrow> GRUBE820 \<Rightarrow> GRUBE820 list" where
  "split_entry base runtimesize e =
    (let b = baseaddr_low e; l = length_low e in
     if base = b \<and> base + runtimesize = b + l then [low_entry b l (e820_type e)]
     else if base = b \<and> runtimesize < l then [low_entry b runtimesize 2, low_entry (b + runtimesize) (l - runtimesize) 1]
     else if base + runtimesize = b + l \<and> b < base then [low_entry b (base - b) 1, low_entry base runtimesize 1]
     else [low_entry b (base - b) 1, low_entry base runtimesize 2,
           low_entry (base + runtimesize) (l - runtimesize - (base - b)) 1])"

definition dealwithE820 :: "memory \<Rightarrow> multiboot_info_t \<Rightarrow> u32 \<Rightarrow> xmhf_error + u32 \<times> GRUBE820 list" where
  "dealwithE820 m mbi runtimesize =
    (if mbi_flags mbi AND MBI_MEMMAP = 0 then Inl Halt
     else bindE (grab_e820 m (mmap_addr mbi) (mmap_addr mbi + mmap_length mbi) []) (\<lambda>es.
       bindE (find_entry TARGET_BASE_SL runtimesize 0 es) (\<lambda>i.
       bindE (HALT_ON_ERRORCOND (length es + 2 < MAX_E820_ENTRIES)) (\<lambda>_.
       Inr (TARGET_BASE_SL, take i es @ split_entry TARGET_BASE_SL runtimesize (es ! i) @ drop (Suc i) es)))))"

declare grab_e820.simps [simp del]

section \<open>The addresses of a type\<close>

definition e820_range :: "GRUBE820 \<Rightarrow> nat set" where
  "e820_range e = (let b = unat (baseaddr_high e) * 2 ^ 32 + unat (baseaddr_low e)
     in {b ..< b + unat (length_high e) * 2 ^ 32 + unat (length_low e)})"

definition memory_of :: "u32 \<Rightarrow> GRUBE820 list \<Rightarrow> nat set" where
  "memory_of t es = (\<Union>e \<in> set es. if e820_type e = t then e820_range e else {})"

definition disjoint_map :: "GRUBE820 list \<Rightarrow> bool" where
  "disjoint_map = sorted_wrt (\<lambda>e f. e820_range e \<inter> e820_range f = {})"

lemma memory_of_simps [simp]:
  "memory_of t [] = {}"
  "memory_of t (e # es) = (if e820_type e = t then e820_range e else {}) \<union> memory_of t es"
  "memory_of t (es @ fs) = memory_of t es \<union> memory_of t fs"
  by (auto simp: memory_of_def)

lemma range_low_entry [simp]: "e820_range (low_entry b l t) = {unat b ..< unat b + unat l}"
  by (simp add: e820_range_def low_entry_def Let_def)

lemma type_low_entry [simp]: "e820_type (low_entry b l t) = t"
  by (simp add: low_entry_def)

lemma find_entry_spec:
  assumes "find_entry base rs k es = Inr i"
  shows "k \<le> i \<and> i - k < length es \<and> e820_type (es ! (i - k)) = 1 \<and> baseaddr_high (es ! (i - k)) = 0
    \<and> length_high (es ! (i - k)) = 0 \<and> baseaddr_low (es ! (i - k)) \<le> base
    \<and> base + rs < baseaddr_low (es ! (i - k)) + length_low (es ! (i - k))"
  using assms
proof (induction es arbitrary: k)
  case (Cons e es)
  show ?case
  proof (cases "i = k")
    case True
    have "find_entry base rs (Suc k) es \<noteq> Inr k" using Cons.IH[of "Suc k"] True by auto
    with Cons.prems True show ?thesis by (auto split: if_splits)
  next
    case False
    then have "find_entry base rs (Suc k) es = Inr i" using Cons.prems by (auto split: if_splits)
    note i = Cons.IH[OF this]
    then have "i - k = Suc (i - Suc k)" by linarith
    with i show ?thesis by simp
  qed
qed simp

text \<open>
  What the search found has room for the region without wrap-around, whatever the sums of the test
  were modulo the word size: the only assumption is that the region itself ends below 4 GB.
\<close>

lemma found_room:
  fixes base rs b l :: u32
  assumes "b \<le> base" "base + rs < b + l" "unat base + unat rs < 2 ^ 32"
  shows "unat b + unat l < 2 ^ 32" "unat base + unat rs < unat b + unat l"
proof -
  have br: "unat (base + rs) = unat base + unat rs" using assms(3) by (simp add: unat_add_lem[THEN iffD1])
  have le: "unat b \<le> unat base" using assms(1) by (simp add: word_le_nat_alt)
  have lt: "unat base + unat rs < unat (b + l)" using assms(2) br by (simp add: word_less_nat_alt)
  show s: "unat b + unat l < 2 ^ 32"
  proof (rule ccontr)
    assume "\<not> unat b + unat l < 2 ^ 32"
    then have "unat (b + l) = unat b + unat l - 2 ^ 32"
      using unsigned_less[of b, where 'a=nat] unsigned_less[of l, where 'a=nat]
      by (simp add: unat_word_ariths mod_if)
    then show False using lt le unsigned_less[of l, where 'a=nat] by simp
  qed
  then have "unat (b + l) = unat b + unat l" by (simp add: unat_add_lem[THEN iffD1])
  with lt show "unat base + unat rs < unat b + unat l" by simp
qed

text \<open>The parts of the split entry.\<close>

lemma split_entry_parts:
  assumes "e820_type e = 1" "baseaddr_high e = 0" "length_high e = 0" "baseaddr_low e \<le> base"
    "base + rs < baseaddr_low e + length_low e" "unat base + unat rs < 2 ^ 32"
  shows "memory_of 1 (split_entry base rs e) = e820_range e - {unat base ..< unat base + unat rs}"
    "memory_of 2 (split_entry base rs e) = {unat base ..< unat base + unat rs}"
    "\<And>f. f \<in> set (split_entry base rs e) \<Longrightarrow> e820_type f \<in> {1, 2} \<and> e820_range f \<subseteq> e820_range e"
    "disjoint_map (split_entry base rs e)" "length (split_entry base rs e) \<le> 3"
    "{unat base ..< unat base + unat rs} \<subseteq> e820_range e"
proof -
  define b l where "b = baseaddr_low e" and "l = length_low e"
  have le: "unat b \<le> unat base" using assms(4) by (simp add: b_def word_le_nat_alt)
  have r: "unat b + unat l < 2 ^ 32" "unat base + unat rs < unat b + unat l"
    using found_room[OF assms(4-6)] by (simp_all add: b_def l_def)
  have e: "e820_range e = {unat b ..< unat b + unat l}" using assms(2,3) by (simp add: e820_range_def b_def l_def Let_def)
  have u: "unat (base - b) = unat base - unat b" "unat (l - rs - (base - b)) = unat l - unat rs - (unat base - unat b)"
    "unat (base + rs) = unat base + unat rs"
  proof -
    show 1: "unat (base - b) = unat base - unat b" using assms(4) by (simp add: unat_sub b_def)
    have 2: "unat (l - rs) = unat l - unat rs" using r le by (intro unat_sub) (simp add: word_le_nat_alt)
    show "unat (l - rs - (base - b)) = unat l - unat rs - (unat base - unat b)"
      using 1 2 r le by (subst unat_sub) (simp_all add: word_le_nat_alt)
    show "unat (base + rs) = unat base + unat rs" using assms(6) by (simp add: unat_add_lem[THEN iffD1])
  qed
  have ne: "base + rs \<noteq> b + l" using assms(5) by (simp add: b_def l_def)
  have sp: "split_entry base rs e = (if base = b then [low_entry b rs 2, low_entry (b + rs) (l - rs) 1]
      else [low_entry b (base - b) 1, low_entry base rs 2, low_entry (base + rs) (l - rs - (base - b)) 1])"
    using ne r le by (auto simp: split_entry_def Let_def b_def[symmetric] l_def[symmetric] word_less_nat_alt)
  show "memory_of 1 (split_entry base rs e) = e820_range e - {unat base ..< unat base + unat rs}"
    "memory_of 2 (split_entry base rs e) = {unat base ..< unat base + unat rs}"
    "\<And>f. f \<in> set (split_entry base rs e) \<Longrightarrow> e820_type f \<in> {1, 2} \<and> e820_range f \<subseteq> e820_range e"
    "disjoint_map (split_entry base rs e)" "length (split_entry base rs e) \<le> 3"
    "{unat base ..< unat base + unat rs} \<subseteq> e820_range e"
    unfolding sp e disjoint_map_def using le r u by (auto split: if_splits)
qed

text \<open>A map in which one entry is replaced by parts of it.\<close>

lemma memory_of_other: "(\<And>f. f \<in> set fs \<Longrightarrow> e820_type f \<noteq> t) \<Longrightarrow> memory_of t fs = {}"
  by (auto simp: memory_of_def)

lemma disjoint_map_replace:
  assumes "disjoint_map (xs @ e # ys)" "disjoint_map fs" "\<And>f. f \<in> set fs \<Longrightarrow> e820_range f \<subseteq> e820_range e"
  shows "disjoint_map (xs @ fs @ ys)"
  using assms unfolding disjoint_map_def sorted_wrt_append by (simp, blast)

lemma disjoint_map_memory:
  assumes "disjoint_map (xs @ e # ys)"
  shows "e820_range e \<inter> memory_of t (xs @ ys) = {}"
  using assms unfolding disjoint_map_def sorted_wrt_append memory_of_def by (auto split: if_splits)

lemma revised_map:
  assumes run: "dealwithE820 m mbi rs = Inr (base, es')"
    and es: "grab_e820 m (mmap_addr mbi) (mmap_addr mbi + mmap_length mbi) [] = Inr es"
    and dis: "disjoint_map es" and lim: "unat base + unat rs < 2 ^ 32"
  shows "{unat base ..< unat base + unat rs} \<subseteq> memory_of 1 es
    \<and> memory_of 1 es' = memory_of 1 es - {unat base ..< unat base + unat rs}
    \<and> memory_of 2 es' = memory_of 2 es \<union> {unat base ..< unat base + unat rs}
    \<and> (\<forall>t. t \<notin> {1, 2} \<longrightarrow> memory_of t es' = memory_of t es)
    \<and> disjoint_map es' \<and> length es' < MAX_E820_ENTRIES"
proof -
  obtain i where f: "find_entry base rs 0 es = Inr i" and len: "length es + 2 < MAX_E820_ENTRIES"
    and es': "es' = take i es @ split_entry base rs (es ! i) @ drop (Suc i) es"
    using run es by (auto simp: dealwithE820_def split: if_splits)
  note F = find_entry_spec[OF f, simplified]
  define xs e ys where "xs = take i es" and "e = es ! i" and "ys = drop (Suc i) es"
  have E: "es = xs @ e # ys" using F by (simp add: xs_def e_def ys_def id_take_nth_drop[symmetric])
  have E': "es' = xs @ split_entry base rs e @ ys" by (simp add: es' xs_def e_def ys_def)
  have p: "e820_type e = 1" "baseaddr_high e = 0" "length_high e = 0" "baseaddr_low e \<le> base"
    "base + rs < baseaddr_low e + length_low e" using F by (simp_all add: e_def)
  note S = split_entry_parts[OF p lim]
  have o: "memory_of t (split_entry base rs e) = {}" if "t \<notin> {1, 2}" for t
    by (rule memory_of_other) (use S(3) that in auto)
  have sub: "{unat base ..< unat base + unat rs} \<inter> memory_of 1 (xs @ ys) = {}"
    using S(6) disjoint_map_memory[OF dis[unfolded E], of 1] by blast
  have "{unat base ..< unat base + unat rs} \<subseteq> memory_of 1 es" using S(6) p(1) by (auto simp: E)
  moreover have "memory_of 1 es' = memory_of 1 es - {unat base ..< unat base + unat rs}"
    using S(1) p(1) sub unfolding E E' by auto
  moreover have "memory_of 2 es' = memory_of 2 es \<union> {unat base ..< unat base + unat rs}"
    using S(2) p(1) unfolding E E' by auto
  moreover have "\<forall>t. t \<notin> {1, 2} \<longrightarrow> memory_of t es' = memory_of t es"
    using o p(1) unfolding E E' by auto
  moreover have "disjoint_map es'" unfolding E' by (rule disjoint_map_replace) (use dis S(3,4) in \<open>auto simp: E\<close>)
  moreover have "length es' < MAX_E820_ENTRIES" using S(5) len F by (simp add: es' e_def)
  ultimately show ?thesis by blast
qed

text \<open>
  C9: the hypervisor's memory is reserved in the map of the guest. Whenever the boot loader revises the map,
  the region of the hypervisor was usable memory before; in the revised map the usable addresses are the former
  ones without the region, the reserved ones the former ones with it, the addresses of every other type are
  unchanged, the entries are still disjoint, and they fit in the array.
\<close>

theorem hypervisor_memory_reserved:
  assumes run: "dealwithE820 m mbi rs = Inr (base, es')"
    and es: "grab_e820 m (mmap_addr mbi) (mmap_addr mbi + mmap_length mbi) [] = Inr es"
    and dis: "disjoint_map es" and lim: "unat base + unat rs < 2 ^ 32"
  shows "{unat base ..< unat base + unat rs} \<subseteq> memory_of 1 es
    \<and> memory_of 1 es' = memory_of 1 es - {unat base ..< unat base + unat rs}
    \<and> memory_of 2 es' = memory_of 2 es \<union> {unat base ..< unat base + unat rs}
    \<and> (\<forall>t. t \<notin> {1, 2} \<longrightarrow> memory_of t es' = memory_of t es)
    \<and> disjoint_map es' \<and> length es' < MAX_E820_ENTRIES"
  using assms by (rule revised_map)

text \<open>A map of two usable ranges; the second one, from 1 MB to 1 GB, is split.\<close>

definition sample_mmap :: memory where
  "sample_mmap = (\<lambda>_. 0)(0x9000 := 20, 0x900D := 0xFC, 0x900E := 9, 0x9014 := 1,
     0x9018 := 20, 0x901E := 0x10, 0x9026 := 0xF0, 0x9027 := 0x3F, 0x902C := 1)"

definition sample_mbi :: multiboot_info_t where
  "sample_mbi = \<lparr>mbi_flags = 0x47, mods_count = 0, mods_addr = 0, mmap_length = 48, mmap_addr = 0x9000\<rparr>"

lemma sample_mmap_loads:
  "ld32 sample_mmap 0x9000 = 20" "ld32 sample_mmap 0x9018 = 20"
  "read_mmap sample_mmap 0x9000 = low_entry 0 0x9FC00 1" "read_mmap sample_mmap 0x9018 = low_entry 0x100000 0x3FF00000 1"
  by (simp_all add: read_mmap_def low_entry_def ld32_bytes sample_mmap_def)

lemma sample_grab:
  "grab_e820 sample_mmap 0x9000 0x9030 [] = Inr [low_entry 0 0x9FC00 1, low_entry 0x100000 0x3FF00000 1]"
  by (subst grab_e820.simps, simp add: sample_mmap_loads xconst)+

theorem hypervisor_memory_reserved_witness:
  "\<exists>es'. dealwithE820 sample_mmap sample_mbi 0x8000000 = Inr (0x10000000, es') \<and> length es' = 4
    \<and> memory_of 1 es' = ({0 ..< 0x9FC00} \<union> {0x100000 ..< 0x40000000}) - {0x10000000 ..< 0x18000000}"
proof -
  let ?es = "[low_entry 0 0x9FC00 1, low_entry 0x100000 0x3FF00000 1]"
  have g: "grab_e820 sample_mmap (mmap_addr sample_mbi) (mmap_addr sample_mbi + mmap_length sample_mbi) [] = Inr ?es"
    using sample_grab by (simp add: sample_mbi_def)
  obtain es' where r: "dealwithE820 sample_mmap sample_mbi 0x8000000 = Inr (0x10000000, es')" "length es' = 4"
    using g by (simp add: dealwithE820_def sample_mbi_def low_entry_def split_entry_def xconst)
  have "disjoint_map ?es" by (auto simp: disjoint_map_def)
  from hypervisor_memory_reserved[OF r(1) g this] r show ?thesis by auto
qed

end
