(* ===== verification/XMHF_BootSmp.thy ===== *)
theory XMHF_BootSmp
  imports XMHF_BootMap
begin

text \<open>
  How the boot loader finds the processors (\<^verbatim>\<open>xmhf-bootloader/smp.c\<close>): the ACPI tables first, then the
  multiprocessor tables of the BIOS. Structures are read at their packed offsets from memory.

  The main result reads the interrupt controller table against a list of records: the enabled processors come
  out in the order of the table with the first one as boot processor, more than the array holds stop the boot
  loader, and a record of length zero makes it spin.
\<close>

definition ACPI_MADT_SIGNATURE :: u32 where [xconst]: "ACPI_MADT_SIGNATURE = 0x43495041"
definition MPFP_SIGNATURE :: u32 where [xconst]: "MPFP_SIGNATURE = 0x5F504D5F"
definition MPCONFTABLE_SIGNATURE :: u32 where [xconst]: "MPCONFTABLE_SIGNATURE = 0x504D4350"
definition MAX_PCPU_ENTRIES :: nat where [xconst]: "MAX_PCPU_ENTRIES = 8"

record PCPU =
  lapic_id :: u32
  lapic_ver :: u32
  lapic_base :: u32
  pcpu_isbsp :: u32

definition zero_PCPU :: PCPU where
  "zero_PCPU = \<lparr>lapic_id = 0, lapic_ver = 0, lapic_base = 0, pcpu_isbsp = 0\<rparr>"

section \<open>Finding the ACPI tables\<close>

text \<open>The sum is a signed \<^verbatim>\<open>char\<close>, sign extended when it is returned.\<close>

definition ACPIGetRSDPComputeChecksum :: "memory \<Rightarrow> u32 \<Rightarrow> nat \<Rightarrow> u32" where
  "ACPIGetRSDPComputeChecksum m spaddr sz = scast (foldl (\<lambda>c i. c + m (spaddr + of_nat i)) 0 [0..<sz] :: u8)"

definition rsdp_at :: "memory \<Rightarrow> u32 \<Rightarrow> bool" where
  "rsdp_at m a \<longleftrightarrow> ld64 m a = ACPI_RSDP_SIGNATURE \<and> ACPIGetRSDPComputeChecksum m a 20 = 0"

definition mp_getebda :: "memory \<Rightarrow> u32" where
  "mp_getebda m = ucast (ld16 m 0x40E) * 16"

text \<open>The first 1016 bytes of the extended BIOS data area, then the BIOS area up to \<^verbatim>\<open>0xFFFF7\<close>, every 16 bytes.\<close>

definition ACPIGetRSDP :: "memory \<Rightarrow> u32" where
  "ACPIGetRSDP m = (case find (rsdp_at m) (paragraphs (mp_getebda m) 64) of Some a \<Rightarrow> a
     | None \<Rightarrow> (case find (rsdp_at m) (paragraphs 0xE0000 8192) of Some a \<Rightarrow> a | None \<Rightarrow> 0))"

primrec find_madt :: "memory \<Rightarrow> u32 \<Rightarrow> nat \<Rightarrow> u32 option" where
  "find_madt m entry 0 = None"
| "find_madt m entry (Suc n) =
    (let madt = ld32 m entry in if ld32 m madt = ACPI_MADT_SIGNATURE then Some madt else find_madt m (entry + 4) n)"

text \<open>
  The records of the table, at offset 44. The step is the length field of the record; the fuel counts records.
\<close>

primrec madt_loop :: "nat \<Rightarrow> memory \<Rightarrow> u32 \<Rightarrow> u32 \<Rightarrow> u32 \<Rightarrow> PCPU list \<Rightarrow> xmhf_error + PCPU list" where
  "madt_loop 0 m madt madtrecordlength offset pcpus = Inl Hang"
| "madt_loop (Suc n) m madt madtrecordlength offset pcpus =
    (let r = madt + 44 + offset in
     bindE (if m r = 0 \<and> ld32 m (r + 4) AND 1 \<noteq> 0 then
              bindE (HALT_ON_ERRORCOND (length pcpus < MAX_PCPU_ENTRIES)) (\<lambda>_.
              Inr (pcpus @ [\<lparr>lapic_id = ucast (m (r + 3)), lapic_ver = 0, lapic_base = ld32 m (madt + 36),
                             pcpu_isbsp = (if pcpus = [] then 1 else 0)\<rparr>]))
            else Inr pcpus) (\<lambda>pcpus.
     let offset = offset + ucast (m (r + 1)) in
     if offset < madtrecordlength then madt_loop n m madt madtrecordlength offset pcpus else Inr pcpus))"

definition acpi_cores :: "nat \<Rightarrow> memory \<Rightarrow> xmhf_error + PCPU list" where
  "acpi_cores fuel m =
    (let rsdp = ACPIGetRSDP m in
     if rsdp = 0 then Inr []
     else let rsdt = ld32 m (rsdp + 16); n_rsdt_entries = (ld32 m (rsdt + 4) - 36) div 4 in
       case find_madt m (rsdt + 36) (unat n_rsdt_entries) of
         None \<Rightarrow> Inr []
       | Some madt \<Rightarrow> madt_loop fuel m madt (ld32 m (madt + 4) - 44) 0 [])"

section \<open>The multiprocessor tables\<close>

definition mp_checksum :: "memory \<Rightarrow> u32 \<Rightarrow> nat \<Rightarrow> nat" where
  "mp_checksum m mp len = foldl (\<lambda>s i. s + unat (m (mp + of_nat i))) 0 [0..<len] mod 256"

text \<open>The callers pass lengths that are multiples of 16.\<close>

definition mp_scan_config :: "memory \<Rightarrow> u32 \<Rightarrow> nat \<Rightarrow> u32 option" where
  "mp_scan_config m base len = find (\<lambda>a. ld32 m a = MPFP_SIGNATURE \<and> m (a + 8) = 1 \<and> mp_checksum m a 16 = 0
     \<and> (m (a + 9) = 1 \<or> m (a + 9) = 4)) (paragraphs base (len div 16))"

definition find_mpfp :: "memory \<Rightarrow> u32 option" where
  "find_mpfp m = (case mp_scan_config m 0 0x400 of Some a \<Rightarrow> Some a | None \<Rightarrow>
     (case mp_scan_config m (639 * 0x400) 0x400 of Some a \<Rightarrow> Some a | None \<Rightarrow>
     (case mp_scan_config m (mp_getebda m) 0x400 of Some a \<Rightarrow> Some a | None \<Rightarrow> mp_scan_config m 0xF0000 0x10000)))"

text \<open>The array is written at the number of the entry, not at the number of processors found so far.\<close>

primrec mp_cpus :: "nat \<Rightarrow> nat \<Rightarrow> memory \<Rightarrow> u32 \<Rightarrow> u32 \<Rightarrow> nat \<times> PCPU list \<Rightarrow> xmhf_error + nat \<times> PCPU list" where
  "mp_cpus 0 i m lapicaddr cpu t = Inr t"
| "mp_cpus (Suc n) i m lapicaddr cpu t =
    (if m cpu \<noteq> 0 then Inr t
     else bindE (if m (cpu + 3) AND 1 \<noteq> 0 then
              bindE (HALT_ON_ERRORCOND (fst t < MAX_PCPU_ENTRIES)) (\<lambda>_.
              if i < MAX_PCPU_ENTRIES then
                Inr (fst t + 1, (snd t)[i := \<lparr>lapic_id = ucast (m (cpu + 1)), lapic_ver = ucast (m (cpu + 2)),
                  lapic_base = lapicaddr, pcpu_isbsp = ucast (m (cpu + 3) AND 2)\<rparr>])
              else Inl OutOfBounds)
            else Inr t) (mp_cpus n (Suc i) m lapicaddr (cpu + 20)))"

definition mp_cores :: "memory \<Rightarrow> xmhf_error + nat \<times> PCPU list" where
  "mp_cores m = (case find_mpfp m of None \<Rightarrow> Inr (0, replicate MAX_PCPU_ENTRIES zero_PCPU)
     | Some mpfp \<Rightarrow>
       let mpctable = ld32 m (mpfp + 4) in
       bindE (HALT_ON_ERRORCOND (mpctable \<noteq> 0)) (\<lambda>_.
       bindE (HALT_ON_ERRORCOND (ld32 m mpctable = MPCONFTABLE_SIGNATURE)) (\<lambda>_.
       mp_cpus (unat (ld16 m (mpctable + 34))) 0 m (ld32 m (mpctable + 36)) (mpctable + 44)
         (0, replicate MAX_PCPU_ENTRIES zero_PCPU))))"

text \<open>The number of processors and the array of eight; the function returns 1 in every case.\<close>

definition smp_getinfo :: "nat \<Rightarrow> memory \<Rightarrow> xmhf_error + nat \<times> PCPU list" where
  "smp_getinfo fuel m =
    bindE (acpi_cores fuel m) (\<lambda>ps.
    if ps \<noteq> [] then Inr (length ps, ps @ replicate (MAX_PCPU_ENTRIES - length ps) zero_PCPU)
    else mp_cores m)"

definition dealwithMP :: "nat \<Rightarrow> memory \<Rightarrow> xmhf_error + nat \<times> PCPU list" where
  "dealwithMP fuel m = smp_getinfo fuel m"

section \<open>A table of records\<close>

record madt_record =
  rec_type :: u8
  rec_length :: u8
  rec_lapicid :: u8
  rec_flags :: u32

fun madt_at :: "memory \<Rightarrow> u32 \<Rightarrow> madt_record list \<Rightarrow> bool" where
  "madt_at m a [] \<longleftrightarrow> True"
| "madt_at m a (r # rs) \<longleftrightarrow> m a = rec_type r \<and> m (a + 1) = rec_length r \<and> m (a + 3) = rec_lapicid r
    \<and> ld32 m (a + 4) = rec_flags r \<and> madt_at m (a + ucast (rec_length r)) rs"

definition enabled_cpu :: "madt_record \<Rightarrow> bool" where
  "enabled_cpu r \<longleftrightarrow> rec_type r = 0 \<and> rec_flags r AND 1 \<noteq> 0"

definition record_bytes :: "madt_record list \<Rightarrow> nat" where
  "record_bytes rs = sum_list (map (\<lambda>r. unat (rec_length r)) rs)"

text \<open>The cores a list of records describes, with \<open>k\<close> cores before.\<close>

fun cores_of :: "u32 \<Rightarrow> nat \<Rightarrow> madt_record list \<Rightarrow> PCPU list" where
  "cores_of base k [] = []"
| "cores_of base k (r # rs) =
    (if enabled_cpu r then \<lparr>lapic_id = ucast (rec_lapicid r), lapic_ver = 0, lapic_base = base,
        pcpu_isbsp = (if k = 0 then 1 else 0)\<rparr> # cores_of base (Suc k) rs
     else cores_of base k rs)"

lemma length_cores_of: "length (cores_of base k rs) = length (filter enabled_cpu rs)"
  by (induction base k rs rule: cores_of.induct) simp_all

lemma madt_loop_records:
  assumes "madt_at m (madt + 44 + off) rs" "rs \<noteq> []" "\<forall>r \<in> set rs. rec_length r \<noteq> 0"
    "unat off + record_bytes rs = unat len" "length rs \<le> fuel" "length ps \<le> MAX_PCPU_ENTRIES"
  shows "madt_loop fuel m madt len off ps =
    (if length ps + length (filter enabled_cpu rs) \<le> MAX_PCPU_ENTRIES
     then Inr (ps @ cores_of (ld32 m (madt + 36)) (length ps) rs) else Inl ErrorCond)"
  using assms
proof (induction rs arbitrary: off ps fuel)
  case (Cons r rs)
  obtain n where n: "fuel = Suc n" "length rs \<le> n" using Cons.prems(5) by (cases fuel) auto
  have r: "m (madt + 44 + off) = rec_type r" "m (madt + 44 + off + 1) = rec_length r"
    "m (madt + 44 + off + 3) = rec_lapicid r" "ld32 m (madt + 44 + off + 4) = rec_flags r"
    "madt_at m (madt + 44 + (off + ucast (rec_length r))) rs"
    using Cons.prems(1) by (simp_all add: add.assoc)
  define off' where "off' = off + ucast (rec_length r)"
  have lim: "unat len < 2 ^ 32" using unsigned_less[of len, where 'a=nat] by simp
  have o: "unat off' = unat off + unat (rec_length r)"
  proof -
    have u: "unat (ucast (rec_length r) :: u32) = unat (rec_length r)" by (simp add: unsigned_ucast_eq take_bit_nat_eq_self_iff order.strict_trans[OF unsigned_less[of "rec_length r", where 'a=nat]])
    have "unat off + unat (rec_length r) < 2 ^ LENGTH(32)" using Cons.prems(4) lim by (simp add: record_bytes_def)
    then have "unat off' = unat off + unat (ucast (rec_length r) :: u32)"
      unfolding off'_def u[symmetric] by (rule unat_add_lem[THEN iffD1])
    then show ?thesis by (simp only: u)
  qed
  have len: "unat off' + record_bytes rs = unat len" using Cons.prems(4) o by (simp add: record_bytes_def)
  show ?case
  proof (cases "rs = []")
    case True
    then have "off' = len" using len by (simp add: record_bytes_def word_unat_eq_iff)
    then show ?thesis using True n r Cons.prems(6) by (simp add: Let_def off'_def[symmetric] enabled_cpu_def)
  next
    case False
    have "0 < record_bytes rs" using False Cons.prems(3) by (cases rs) (auto simp: record_bytes_def unat_gt_0)
    then have lt: "off' < len" using len by (simp add: word_less_nat_alt)
    have IH: "madt_loop n m madt len off' qs = (if length qs + length (filter enabled_cpu rs) \<le> MAX_PCPU_ENTRIES
        then Inr (qs @ cores_of (ld32 m (madt + 36)) (length qs) rs) else Inl ErrorCond)" if "length qs \<le> MAX_PCPU_ENTRIES" for qs
      by (rule Cons.IH) (use r(5) False Cons.prems(3) len n(2) that in \<open>simp_all add: off'_def\<close>)
    have step: "madt_loop fuel m madt len off ps =
        bindE (if enabled_cpu r then
                 bindE (HALT_ON_ERRORCOND (length ps < MAX_PCPU_ENTRIES)) (\<lambda>_.
                 Inr (ps @ cores_of (ld32 m (madt + 36)) (length ps) [r]))
               else Inr ps) (madt_loop n m madt len off')"
      using n(1) r lt by (simp add: Let_def off'_def[symmetric] enabled_cpu_def)
    consider "\<not> enabled_cpu r" | "enabled_cpu r" "length ps < MAX_PCPU_ENTRIES"
      | "enabled_cpu r" "length ps = MAX_PCPU_ENTRIES" using Cons.prems(6) by linarith
    then show ?thesis by cases (use Cons.prems(6) in \<open>simp_all add: step IH\<close>)
  qed
qed simp

lemma acpi_cores_found:
  assumes rsdp: "ACPIGetRSDP m = rsdp" "rsdp \<noteq> 0" and rsdt: "ld32 m (rsdp + 16) = rsdt"
    and madt: "find_madt m (rsdt + 36) (unat ((ld32 m (rsdt + 4) - 36) div 4)) = Some madt"
    and recs: "madt_at m (madt + 44) rs" "\<forall>r \<in> set rs. rec_length r \<noteq> 0" "record_bytes rs = unat (ld32 m (madt + 4) - 44)"
    and some: "filter enabled_cpu rs \<noteq> []" and fuel: "length rs \<le> fuel"
  shows "smp_getinfo fuel m =
    (let cores = cores_of (ld32 m (madt + 36)) 0 rs in
     if length cores \<le> MAX_PCPU_ENTRIES
     then Inr (length cores, cores @ replicate (MAX_PCPU_ENTRIES - length cores) zero_PCPU)
     else Inl ErrorCond)"
proof -
  have "rs \<noteq> []" using some by auto
  then have l: "madt_loop fuel m madt (ld32 m (madt + 4) - 44) 0 [] =
      (if length (filter enabled_cpu rs) \<le> MAX_PCPU_ENTRIES then Inr (cores_of (ld32 m (madt + 36)) 0 rs) else Inl ErrorCond)"
    using madt_loop_records[of m madt 0 rs "ld32 m (madt + 4) - 44" fuel "[]"] recs fuel by simp
  have "cores_of b 0 rs \<noteq> []" for b using some length_cores_of[of b 0 rs] by auto
  with l show ?thesis using assms(1-4) by (simp add: smp_getinfo_def acpi_cores_def length_cores_of Let_def)
qed

text \<open>
  C13: the processors of the ACPI table are found. When the interrupt controller table is made of records of
  nonzero length that fill it, the boot loader reports exactly the enabled processors of the table, in order, the first
  one as boot processor, with the rest of the array cleared; more than eight stop it in the error condition. As many
  rounds as there are records are enough.
\<close>

theorem acpi_processors_found:
  assumes rsdp: "ACPIGetRSDP m = rsdp" "rsdp \<noteq> 0" and rsdt: "ld32 m (rsdp + 16) = rsdt"
    and madt: "find_madt m (rsdt + 36) (unat ((ld32 m (rsdt + 4) - 36) div 4)) = Some madt"
    and recs: "madt_at m (madt + 44) rs" "\<forall>r \<in> set rs. rec_length r \<noteq> 0" "record_bytes rs = unat (ld32 m (madt + 4) - 44)"
    and some: "filter enabled_cpu rs \<noteq> []" and fuel: "length rs \<le> fuel"
  shows "smp_getinfo fuel m =
    (let cores = cores_of (ld32 m (madt + 36)) 0 rs in
     if length cores \<le> MAX_PCPU_ENTRIES
     then Inr (length cores, cores @ replicate (MAX_PCPU_ENTRIES - length cores) zero_PCPU)
     else Inl ErrorCond)"
  using assms by (rule acpi_cores_found)

text \<open>A record of length zero that is no enabled processor keeps the loop where it is.\<close>

lemma madt_zero_record_hangs:
  assumes "m (madt + 44 + off) \<noteq> 0" "m (madt + 44 + off + 1) = 0" "off < len"
  shows "madt_loop fuel m madt len off ps = Inl Hang"
  using assms by (induction fuel) (simp_all add: Let_def)

text \<open>
  With the multiprocessor tables, a disabled processor in front shifts the array: the number of processors is 1,
  but the first entry of the array is not the processor.
\<close>

lemma mp_disabled_cpu_shifts:
  assumes "m cpu = 0" "m (cpu + 3) AND 1 = 0" "m (cpu + 20) = 0" "m (cpu + 23) AND 1 \<noteq> 0"
  shows "\<exists>ps. mp_cpus 2 0 m base cpu (0, replicate MAX_PCPU_ENTRIES zero_PCPU) = Inr (1, ps)
    \<and> ps ! 0 = zero_PCPU \<and> lapic_id (ps ! 1) = ucast (m (cpu + 21))"
  using assms by (simp add: numeral_2_eq_2 xconst add.assoc)

section \<open>An example table\<close>

text \<open>Two processors, of which the second is disabled, an interrupt controller record and a third processor.\<close>

definition sample_acpi :: memory where
  "sample_acpi = (\<lambda>_. 0)(0x40E := 0xC0, 0x40F := 0x9F,
     0x9FC00 := 0x52, 0x9FC01 := 0x53, 0x9FC02 := 0x44, 0x9FC03 := 0x20, 0x9FC04 := 0x50, 0x9FC05 := 0x54,
     0x9FC06 := 0x52, 0x9FC07 := 0x20, 0x9FC08 := 0xD1, 0x9FC11 := 0x10,
     0x1004 := 40, 0x1025 := 0x20,
     0x2000 := 0x41, 0x2001 := 0x50, 0x2002 := 0x49, 0x2003 := 0x43, 0x2004 := 80, 0x2026 := 0xE0, 0x2027 := 0xFE,
     0x202D := 8, 0x2030 := 1, 0x2035 := 8, 0x2037 := 1,
     0x203C := 1, 0x203D := 12, 0x2049 := 8, 0x204B := 2, 0x204C := 1)"

definition sample_records :: "madt_record list" where
  "sample_records = [\<lparr>rec_type = 0, rec_length = 8, rec_lapicid = 0, rec_flags = 1\<rparr>,
     \<lparr>rec_type = 0, rec_length = 8, rec_lapicid = 1, rec_flags = 0\<rparr>,
     \<lparr>rec_type = 1, rec_length = 12, rec_lapicid = 0, rec_flags = 0\<rparr>,
     \<lparr>rec_type = 0, rec_length = 8, rec_lapicid = 2, rec_flags = 1\<rparr>]"

lemma sample_rsdp: "ACPIGetRSDP sample_acpi = 0x9FC00"
proof -
  have e: "mp_getebda sample_acpi = 0x9FC00" by (simp add: mp_getebda_def ld16_bytes sample_acpi_def)
  have "rsdp_at sample_acpi 0x9FC00"
    by (simp add: rsdp_at_def ld64_bytes ACPIGetRSDPComputeChecksum_def xconst sample_acpi_def upt_rec)
  moreover have "paragraphs a 64 = a # map (\<lambda>k. a + 16 * of_nat k) [1..<64]" for a
    by (simp add: paragraphs_def upt_conv_Cons)
  ultimately show ?thesis by (simp add: ACPIGetRSDP_def e)
qed

lemma sample_tables:
  "ld32 sample_acpi 0x9FC10 = 0x1000" "ld32 sample_acpi 0x1004 = 40" "find_madt sample_acpi 0x1024 1 = Some 0x2000"
  "ld32 sample_acpi 0x2004 = 80" "madt_at sample_acpi 0x202C sample_records" "ld32 sample_acpi 0x2024 = 0xFEE00000"
  by (simp_all add: ld32_bytes sample_acpi_def sample_records_def xconst)

theorem acpi_processors_found_witness:
  "smp_getinfo 4 sample_acpi = Inr (2, [\<lparr>lapic_id = 0, lapic_ver = 0, lapic_base = 0xFEE00000, pcpu_isbsp = 1\<rparr>,
     \<lparr>lapic_id = 2, lapic_ver = 0, lapic_base = 0xFEE00000, pcpu_isbsp = 0\<rparr>] @ replicate 6 zero_PCPU)"
proof -
  note t = sample_tables
  have r: "\<forall>r \<in> set sample_records. rec_length r \<noteq> 0" "record_bytes sample_records = 36"
    "filter enabled_cpu sample_records \<noteq> []" "length sample_records = 4"
    by (simp_all add: sample_records_def record_bytes_def enabled_cpu_def)
  have f: "find_madt sample_acpi (0x1000 + 36) (unat ((ld32 sample_acpi (0x1000 + 4) - 36) div 4)) = Some 0x2000"
    using t(2,3) by simp
  have "madt_at sample_acpi (0x2000 + 44) sample_records" "record_bytes sample_records = unat (ld32 sample_acpi (0x2000 + 4) - 44)"
    using t(4,5) r(2) by simp_all
  from acpi_processors_found[OF sample_rsdp _ _ f this(1) r(1) this(2) r(3), of 4] t r(4)
  show ?thesis by (simp add: sample_records_def enabled_cpu_def xconst Let_def)
qed

end
