(* ===== verification/XMHF_BootLoader.thy ===== *)
theory XMHF_BootLoader
  imports XMHF_BootSmp
begin

text \<open>
  The boot loader up to the secure loader (\<^verbatim>\<open>init.c\<close>, \<^verbatim>\<open>txt_acmod.c\<close>): the modules of the multiboot information
  are checked for the authenticated code module an Intel system needs, the processors and the memory map
  are read, the hypervisor is moved to its place, its parameter block is filled, the processor structures are set up
  and the other cores are woken. Command line and debug output are left out; the parameter block is a record, with
  the magic number read from the moved image.

  The main result here is about the module check: it reads nothing outside the module.
\<close>

section \<open>Authenticated code modules\<close>

definition ACM_TYPE_CHIPSET :: u32 where [xconst]: "ACM_TYPE_CHIPSET = 0x02"
definition ACM_VENDOR_INTEL :: u32 where [xconst]: "ACM_VENDOR_INTEL = 0x8086"
definition ACM_CHIPSET_TYPE_SINIT :: u8 where [xconst]: "ACM_CHIPSET_TYPE_SINIT = 0x01"
definition SL_PARAMETER_BLOCK_MAGIC :: u32 where [xconst]: "SL_PARAMETER_BLOCK_MAGIC = 0xDEADBEEF"

definition ACM_UUID_V3 :: "u8 list" where
  "ACM_UUID_V3 = [0xaa, 0x3a, 0xc0, 0x7f, 0xa7, 0x46, 0xdb, 0x18, 0x2e, 0xac, 0x69, 0x8f, 0x8d, 0x41, 0x7f, 0x5a]"

definition plus_overflow_u32 :: "u32 \<Rightarrow> u32 \<Rightarrow> bool" where
  "plus_overflow_u32 x y \<longleftrightarrow> 0xFFFFFFFF - x < y"

definition multiply_overflow_u32 :: "u32 \<Rightarrow> u32 \<Rightarrow> bool" where
  "multiply_overflow_u32 x y \<longleftrightarrow> (if x > 0 then 0xFFFFFFFF div x < y else False)"

text \<open>The fields of \<^verbatim>\<open>acm_hdr_t\<close> the checks read; the header is 1216 bytes long, the table 40.\<close>

abbreviation acm_header_len :: "memory \<Rightarrow> u32 \<Rightarrow> u32" where "acm_header_len m hdr \<equiv> ld32 m (hdr + 4)"
abbreviation acm_size :: "memory \<Rightarrow> u32 \<Rightarrow> u32" where "acm_size m hdr \<equiv> ld32 m (hdr + 24)"
abbreviation acm_scratch_size :: "memory \<Rightarrow> u32 \<Rightarrow> u32" where "acm_scratch_size m hdr \<equiv> ld32 m (hdr + 124)"

definition get_acmod_info_table :: "memory \<Rightarrow> u32 \<Rightarrow> u32 option" where
  "get_acmod_info_table m hdr =
    (let n = acm_header_len m hdr + acm_scratch_size m hdr; user_area_off = n * 4 in
     if plus_overflow_u32 (acm_header_len m hdr) (acm_scratch_size m hdr) then None
     else if multiply_overflow_u32 n 4 then None
     else if plus_overflow_u32 user_area_off 40 then None
     else if user_area_off + 40 > acm_size m hdr * 4 then None
     else if plus_overflow_u32 hdr user_area_off then None
     else Some (hdr + user_area_off))"

text \<open>The result is the type of the module when all checks pass. A table at address 0 would be taken for none.\<close>

definition is_acmod :: "memory \<Rightarrow> u32 \<Rightarrow> u32 \<Rightarrow> u8 option" where
  "is_acmod m acmod_base acmod_size =
    (if acmod_size < 1216 then None
     else if multiply_overflow_u32 (acm_size m acmod_base) 4 then None
     else if acmod_size \<noteq> acm_size m acmod_base * 4 then None
     else if ld32 m acmod_base \<noteq> ACM_TYPE_CHIPSET \<or> ld32 m (acmod_base + 16) \<noteq> ACM_VENDOR_INTEL then None
     else case get_acmod_info_table m acmod_base of None \<Rightarrow> None
     | Some info_table \<Rightarrow>
         if info_table = 0 then None
         else if map (\<lambda>i. m (info_table + of_nat i)) [0..<16] \<noteq> ACM_UUID_V3 then None
         else if m (info_table + 17) < 3 then None
         else Some (m (info_table + 16)))"

definition is_sinit_acmod :: "memory \<Rightarrow> u32 \<Rightarrow> u32 \<Rightarrow> bool" where
  "is_sinit_acmod m acmod_base acmod_size \<longleftrightarrow> is_acmod m acmod_base acmod_size = Some ACM_CHIPSET_TYPE_SINIT"

section \<open>Modules\<close>

definition mod_start :: "memory \<Rightarrow> u32 \<Rightarrow> nat \<Rightarrow> u32" where
  "mod_start m mod_array i = ld32 m (mod_array + 16 * of_nat i)"

definition mod_end :: "memory \<Rightarrow> u32 \<Rightarrow> nat \<Rightarrow> u32" where
  "mod_end m mod_array i = ld32 m (mod_array + 16 * of_nat i + 4)"

definition module_is_sinit :: "memory \<Rightarrow> u32 \<Rightarrow> nat \<Rightarrow> bool" where
  "module_is_sinit m mods i = is_sinit_acmod m (mod_start m mods i) (mod_end m mods i - mod_start m mods i)"

text \<open>The last module that is one; \<^verbatim>\<open>None\<close> also when there are more than ten modules.\<close>

definition txt_parse_sinit :: "memory \<Rightarrow> u32 \<Rightarrow> u32 \<Rightarrow> nat option" where
  "txt_parse_sinit m mods count =
    (if count > 10 then None else find (module_is_sinit m mods) (rev [0..<unat count]))"

section \<open>The parameter block and the start of the cores\<close>

definition PAGE_ALIGN_UP2M :: "u32 \<Rightarrow> u32" where
  "PAGE_ALIGN_UP2M sz = (sz + PAGE_SIZE_2M - 1) AND NOT (PAGE_SIZE_2M - 1)"

record SL_PARAMETER_BLOCK =
  slpb_magic :: u32
  slpb_errorHandler :: u32
  slpb_isEarlyInit :: u32
  numE820Entries :: u32
  memmapbuffer :: "GRUBE820 list"
  numCPUEntries :: u32
  cpuinfobuffer :: "PCPU list"
  runtime_size :: u32
  runtime_osbootmodule_base :: u32
  runtime_osbootmodule_size :: u32
  slpb_appmodule_base :: u32
  slpb_appmodule_size :: u32

text \<open>The first module behind the boot module that is no authenticated code module.\<close>

definition find_appmodule :: "memory \<Rightarrow> u32 \<Rightarrow> u32 \<Rightarrow> u32 \<times> u32" where
  "find_appmodule m mods count =
    (case find (\<lambda>i. \<not> module_is_sinit m mods i) [2..<unat count] of
       None \<Rightarrow> (0, 0) | Some i \<Rightarrow> (mod_start m mods i, mod_end m mods i - mod_start m mods i))"

definition fill_slpb :: "memory \<Rightarrow> multiboot_info_t \<Rightarrow> u32 \<Rightarrow> GRUBE820 list \<Rightarrow> nat \<times> PCPU list \<Rightarrow> SL_PARAMETER_BLOCK" where
  "fill_slpb m mbi slpb es cores =
    (let mods = mods_addr mbi; app = find_appmodule m mods (mods_count mbi) in
     \<lparr>slpb_magic = ld32 m slpb, slpb_errorHandler = 0, slpb_isEarlyInit = 1,
      numE820Entries = of_nat (length es), memmapbuffer = es,
      numCPUEntries = of_nat (fst cores), cpuinfobuffer = take (fst cores) (snd cores),
      runtime_size = mod_end m mods 0 - mod_start m mods 0 - PAGE_SIZE_2M,
      runtime_osbootmodule_base = mod_start m mods 1,
      runtime_osbootmodule_size = mod_end m mods 1 - mod_start m mods 1,
      slpb_appmodule_base = fst app, slpb_appmodule_size = snd app\<rparr>)"

record boot_state =
  boot_mem :: memory
  boot_base :: u32
  boot_slpb :: SL_PARAMETER_BLOCK
  midtable :: "MIDTAB list"
  boot_vcpus :: "u32 \<Rightarrow> VCPU"
  boot_log :: "hw_op list"

definition boot_midtable :: "nat \<times> PCPU list \<Rightarrow> xmhf_error + MIDTAB list" where
  "boot_midtable cores =
    (if fst cores \<le> MAX_MIDTAB_ENTRIES
     then Inr (map (\<lambda>p. \<lparr>cpu_lapic_id = lapic_id p, vcpu_vaddr_ptr = 0\<rparr>) (take (fst cores) (snd cores)))
     else Inl OutOfBounds)"

text \<open>One structure and one stack per core.\<close>

definition setupvcpus :: "buffers \<Rightarrow> u32 \<Rightarrow> boot_state \<Rightarrow> boot_state" where
  "setupvcpus L vendor b = fold (\<lambda>i b. b\<lparr>
     boot_vcpus := (boot_vcpus b)(vcpu_ptr L i := zero_VCPU\<lparr>cpu_vendor := vendor,
       vcpu_esp := g_cpustacks L + of_nat i * RUNTIME_STACK_SIZE + RUNTIME_STACK_SIZE,
       vcpu_id := cpu_lapic_id (midtable b ! i)\<rparr>),
     midtable := (midtable b)[i := (midtable b ! i)\<lparr>vcpu_vaddr_ptr := vcpu_ptr L i\<rparr>]\<rparr>) [0..<length (midtable b)] b"

text \<open>
  One command to the other cores and the wait for its delivery: a delivery bit that stays set is polled
  for ever. The delays are left out.
\<close>

definition boot_send :: "hardware \<Rightarrow> u32 \<Rightarrow> u32 \<Rightarrow> boot_state \<Rightarrow> xmhf_error + boot_state" where
  "boot_send hw icr cmd b =
    (let b = b\<lparr>boot_log := boot_log b @ [MmioWrite32 icr cmd]\<rparr> in
     if lapic_read hw icr AND 0x1000 \<noteq> 0 then Inl Hang else Inr b)"

text \<open>\<open>ap\<close> are the first and the last address of the bootstrap code.\<close>

definition wakeupAPs :: "hardware \<Rightarrow> u32 \<times> u32 \<Rightarrow> boot_state \<Rightarrow> xmhf_error + boot_state" where
  "wakeupAPs hw ap b =
    (let (eax, edx) = rdmsr hw MSR_APIC_BASE; icr = (eax AND 0xFFFFF000) + 0x300 in
     bindE (HALT_ON_ERRORCOND (edx = 0)) (\<lambda>_.
     bindE (boot_send hw icr 0x000c4500
       (b\<lparr>boot_mem := memcpy (unat (snd ap - fst ap + 1)) 0x10000 (fst ap) (boot_mem b)\<rparr>)) (\<lambda>b.
     bindE (boot_send hw icr 0x000c4610 b) (boot_send hw icr 0x000c4610))))"

definition start_cores :: "buffers \<Rightarrow> u32 \<times> u32 \<Rightarrow> hardware \<Rightarrow> u32 \<Rightarrow> boot_state \<Rightarrow> xmhf_error + boot_state" where
  "start_cores L ap hw vendor b =
    (let b = setupvcpus L vendor b in if 1 < length (midtable b) then wakeupAPs hw ap b else Inr b)"

text \<open>
  The main function, up to the point where all cores enter \<^verbatim>\<open>mp_cstartup\<close>. The boot processor then starts the
  secure loader at the base of the moved image.
\<close>

definition cstartup ::
  "buffers \<Rightarrow> u32 \<times> u32 \<Rightarrow> hardware \<Rightarrow> nat \<Rightarrow> memory \<Rightarrow> multiboot_info_t \<Rightarrow> xmhf_error + boot_state" where
  "cstartup L ap hw fuel m mbi =
    bindE (xmhf_baseplatform_arch_getcpuvendor hw) (\<lambda>vendor.
    if vendor = CPU_VENDOR_INTEL \<and> txt_parse_sinit m (mods_addr mbi) (mods_count mbi) = None then Inl Halt
    else bindE (dealwithMP fuel m) (\<lambda>cores.
    let sl_rt_size = mod_end m (mods_addr mbi) 0 - mod_start m (mods_addr mbi) 0 in
    bindE (dealwithE820 m mbi (PAGE_ALIGN_UP2M sl_rt_size)) (\<lambda>(base, es).
    let m = memcpy (unat sl_rt_size) base (mod_start m (mods_addr mbi) 0) m in
    bindE (HALT_ON_ERRORCOND (sl_rt_size > 0x200000)) (\<lambda>_.
    bindE (HALT_ON_ERRORCOND (ld32 m (base + 0x10000) = SL_PARAMETER_BLOCK_MAGIC)) (\<lambda>_.
    bindE (boot_midtable cores) (\<lambda>mt.
    start_cores L ap hw vendor \<lparr>boot_mem = m, boot_base = base, boot_slpb = fill_slpb m mbi (base + 0x10000) es cores,
      midtable = mt, boot_vcpus = (\<lambda>_. zero_VCPU), boot_log = []\<rparr>))))))"

section \<open>The check reads the module only\<close>

lemma plus_overflow_u32_iff: "plus_overflow_u32 x y \<longleftrightarrow> 2 ^ 32 \<le> unat x + unat y"
proof -
  have x: "unat x < 2 ^ 32" using unsigned_less[of x, where 'a=nat] by simp
  then have "unat (0xFFFFFFFF - x) = 0xFFFFFFFF - unat x" by (subst unat_sub) (simp_all add: word_le_nat_alt)
  then show ?thesis using x by (simp add: plus_overflow_u32_def word_less_nat_alt) arith
qed

lemma multiply_overflow_u32_iff: "multiply_overflow_u32 x 4 \<longleftrightarrow> 2 ^ 32 \<le> unat x * 4"
proof (cases "x > 0")
  case True
  have "unat (0xFFFFFFFF div x) = 0xFFFFFFFF div unat x" by (simp add: unat_div)
  moreover have "0xFFFFFFFF div unat x < 4 \<longleftrightarrow> 2 ^ 32 \<le> unat x * 4"
    using True by (simp add: div_less_iff_less_mult unat_gt_0 word_less_nat_alt mult.commute) arith
  ultimately show ?thesis using True by (simp add: multiply_overflow_u32_def word_less_nat_alt)
next
  case False
  then have "x = 0" by (simp add: word_gt_0_no word_neq_0_conv[symmetric])
  then show ?thesis by (simp add: multiply_overflow_u32_def)
qed

lemma span_add: "unat k < n \<Longrightarrow> a + k \<in> span a n"
  by (simp add: span_iff)

text \<open>Where the table lies when there is one.\<close>

lemma info_table_inside:
  assumes t: "get_acmod_info_table m hdr = Some t" and o: "\<not> multiply_overflow_u32 (acm_size m hdr) 4"
    and k: "unat k < 40"
  shows "t + k \<in> span hdr (unat (acm_size m hdr * 4))"
proof -
  define off where "off = (acm_header_len m hdr + acm_scratch_size m hdr) * 4"
  have off: "t = hdr + off" "unat off + 40 < 2 ^ 32" "\<not> off + 40 > acm_size m hdr * 4"
    using t by (auto simp: get_acmod_info_table_def Let_def off_def plus_overflow_u32_iff split: if_splits)
  have u40: "unat (off + 40) = unat off + 40" using off(2) by (simp add: unat_add_lem[THEN iffD1])
  have uk: "unat (off + k) = unat off + unat k" using off(2) k by (subst unat_add_lem[THEN iffD1]) simp_all
  have "unat (off + k) < unat (acm_size m hdr * 4)" using off(3) u40 uk k by (simp add: word_less_nat_alt not_less)
  then show ?thesis unfolding off(1) add.assoc by (rule span_add)
qed

lemma sinit_check_cong:
  assumes "\<forall>x \<in> span base (unat sz). m' x = m x"
  shows "is_sinit_acmod m' base sz = is_sinit_acmod m base sz"
proof (cases "sz < 1216")
  case True
  then show ?thesis by (simp add: is_sinit_acmod_def is_acmod_def)
next
  case False
  then have big: "1216 \<le> unat sz" by (simp add: word_less_nat_alt not_less)
  have h: "ld32 m' (base + k) = ld32 m (base + k)" if "unat k \<le> 1212" for k
  proof (rule ld32_cong)
    fix b assume "b \<in> span (base + k) 4"
    then have "b \<in> span base (unat sz)" by (rule span_shift[rotated]) (use that big in linarith)
    then show "m' b = m b" using assms by simp
  qed
  have H: "ld32 m' base = ld32 m base" "acm_header_len m' base = acm_header_len m base"
    "ld32 m' (base + 16) = ld32 m (base + 16)" "acm_size m' base = acm_size m base"
    "acm_scratch_size m' base = acm_scratch_size m base"
    using h[of 0] h[of 4] h[of 16] h[of 24] h[of 124] by simp_all
  have g: "get_acmod_info_table m' base = get_acmod_info_table m base"
    using H by (simp add: get_acmod_info_table_def Let_def)
  have e: "m' (t + k) = m (t + k)" if "get_acmod_info_table m base = Some t" "\<not> multiply_overflow_u32 (acm_size m base) 4"
    "sz = acm_size m base * 4" "unat k < 40" for t k
    using info_table_inside[OF that(1,2,4)] that(3) assms by simp
  have "is_acmod m' base sz = is_acmod m base sz"
  proof (cases "multiply_overflow_u32 (acm_size m base) 4 \<or> sz \<noteq> acm_size m base * 4 \<or> get_acmod_info_table m base = None")
    case True
    then show ?thesis using H by (auto simp: is_acmod_def g)
  next
    case False
    then obtain t where t: "get_acmod_info_table m base = Some t" by auto
    have i: "m' (t + of_nat i) = m (t + of_nat i)" if "i < 18" for i
      by (rule e[OF t]) (use False that in \<open>auto simp: unat_of_nat\<close>)
    have "map (\<lambda>i. m' (t + of_nat i)) [0..<16] = map (\<lambda>i. m (t + of_nat i)) [0..<16]" using i by simp
    moreover have "m' (t + 16) = m (t + 16)" "m' (t + 17) = m (t + 17)" using i[of 16] i[of 17] by simp_all
    ultimately show ?thesis using H t by (simp only: is_acmod_def g option.case add_0_right)
  qed
  then show ?thesis by (simp add: is_sinit_acmod_def)
qed

text \<open>
  C14: the module check stays inside the module. Whatever the header of a module claims, whether it is taken for
  an SINIT module depends on nothing but the bytes of the module.
\<close>

theorem sinit_check_reads_module:
  assumes "\<forall>x \<in> span base (unat sz). m' x = m x"
  shows "is_sinit_acmod m' base sz = is_sinit_acmod m base sz"
  using assms by (rule sinit_check_cong)

text \<open>A module of 1256 bytes whose table follows the header, and the same module with other memory around it.\<close>

definition sample_acm :: memory where
  "sample_acm = (\<lambda>_. 0)(0x5000 := 2, 0x5005 := 1, 0x5010 := 0x86, 0x5011 := 0x80, 0x5018 := 0x3A, 0x5019 := 1, 0x507C := 0x30,
     0x54C0 := 0xaa, 0x54C1 := 0x3a, 0x54C2 := 0xc0, 0x54C3 := 0x7f, 0x54C4 := 0xa7, 0x54C5 := 0x46, 0x54C6 := 0xdb,
     0x54C7 := 0x18, 0x54C8 := 0x2e, 0x54C9 := 0xac, 0x54CA := 0x69, 0x54CB := 0x8f, 0x54CC := 0x8d, 0x54CD := 0x41,
     0x54CE := 0x7f, 0x54CF := 0x5a, 0x54D0 := 1, 0x54D1 := 3)"

lemma sample_acm_is_sinit: "is_sinit_acmod sample_acm 0x5000 0x4E8"
proof -
  have l: "ld32 sample_acm 0x5000 = 2" "ld32 sample_acm 0x5004 = 0x100" "ld32 sample_acm 0x5010 = 0x8086"
    "ld32 sample_acm 0x5018 = 0x13A" "ld32 sample_acm 0x507C = 0x30"
    by (simp_all add: ld32_bytes sample_acm_def)
  have t: "get_acmod_info_table sample_acm 0x5000 = Some 0x54C0"
    by (simp add: get_acmod_info_table_def l plus_overflow_u32_def multiply_overflow_u32_def Let_def)
  have "map (\<lambda>i. sample_acm (0x54C0 + of_nat i)) [0..<16] = ACM_UUID_V3"
    by (simp add: ACM_UUID_V3_def sample_acm_def upt_rec)
  moreover have "sample_acm 0x54D1 = 3" "sample_acm 0x54D0 = 1" by (simp_all add: sample_acm_def)
  ultimately show ?thesis
    by (simp add: is_sinit_acmod_def is_acmod_def l t multiply_overflow_u32_def xconst)
qed

theorem sinit_check_reads_module_witness:
  "is_sinit_acmod (\<lambda>a. if unat (a - 0x5000) < 0x4E8 then sample_acm a else 0xFF) 0x5000 0x4E8"
  using sinit_check_reads_module[of "0x5000" "0x4E8" "\<lambda>a. if unat (a - 0x5000) < 0x4E8 then sample_acm a else 0xFF" sample_acm]
    sample_acm_is_sinit by (simp add: span_iff)

end
