(* ===== verification/XMHF_SecureLoader.thy ===== *)
theory XMHF_SecureLoader
  imports XMHF_BootLoader
begin

text \<open>
  The secure loader (\<^verbatim>\<open>xmhf-secureloader/sl.c\<close>, \<^verbatim>\<open>arch/x86/sl-x86.c\<close>): it fills the parameter block of the runtime from
  its own and builds the page tables the runtime runs on. The loader runs with addresses relative to its base;
  the tables are modelled in physical memory. With the options of this tree there is no measurement and no DMA
  protection here; the search for PCI and ACPI in \<^verbatim>\<open>xmhf_baseplatform_initialize\<close> is left out.

  The main results: the address conversion \<^verbatim>\<open>hva2spa1\<close> the runtime uses everywhere is what the processor computes with
  these tables, and the region nested paging protects is the one the boot loader has reserved in the memory map.
\<close>

section \<open>The parameter block of the runtime\<close>

definition RUNTIME_PARAMETER_BLOCK_MAGIC :: u32 where [xconst]: "RUNTIME_PARAMETER_BLOCK_MAGIC = 0xF00DDEAD"

definition xmhf_sl_main ::
  "u32 \<Rightarrow> u32 \<Rightarrow> SL_PARAMETER_BLOCK \<Rightarrow> RPB \<Rightarrow> xmhf_error + RPB \<times> GRUBE820 list \<times> PCPU list" where
  "xmhf_sl_main vendor baseaddr p b =
    bindE (HALT_ON_ERRORCOND (slpb_magic p = SL_PARAMETER_BLOCK_MAGIC)) (\<lambda>_.
    bindE (HALT_ON_ERRORCOND (vendor = CPU_VENDOR_AMD \<or> vendor = CPU_VENDOR_INTEL)) (\<lambda>_.
    bindE (HALT_ON_ERRORCOND (magic b = RUNTIME_PARAMETER_BLOCK_MAGIC)) (\<lambda>_.
    Inr (b\<lparr>isEarlyInit := slpb_isEarlyInit p, XtVmmRuntimePhysBase := baseaddr + PAGE_SIZE_2M,
           XtVmmRuntimeVirtBase := 0xC0200000, XtVmmRuntimeSize := runtime_size p,
           XtVmmE820NumEntries := numE820Entries p, XtVmmMPCpuinfoNumEntries := numCPUEntries p,
           XtGuestOSBootModuleBase := runtime_osbootmodule_base p, XtGuestOSBootModuleSize := runtime_osbootmodule_size p,
           runtime_appmodule_base := slpb_appmodule_base p, runtime_appmodule_size := slpb_appmodule_size p\<rparr>,
         memmapbuffer p, cpuinfobuffer p))))"

section \<open>The page tables of the runtime\<close>

definition hva2sla :: "RPB \<Rightarrow> u32 \<Rightarrow> u32" where
  "hva2sla b hva = hva - XtVmmRuntimeVirtBase b + PAGE_SIZE_2M"

definition sla2spa :: "RPB \<Rightarrow> u32 \<Rightarrow> u64" where
  "sla2spa b sla = ucast (sla + (XtVmmRuntimePhysBase b - PAGE_SIZE_2M))"

definition PAGE_PCD :: u64 where [xconst]: "PAGE_PCD = 0x10"

text \<open>The entries below the runtime's address map to themselves; the loop leaves at the runtime's address.\<close>

primrec unity_loop :: "nat \<Rightarrow> nat \<Rightarrow> u32 \<Rightarrow> u32 \<Rightarrow> memory \<Rightarrow> nat \<times> memory" where
  "unity_loop 0 i runtime_sva xpdt m = (i, m)"
| "unity_loop (Suc n) i runtime_sva xpdt m =
    (let hva = of_nat i * PAGE_SIZE_2M;
         m = st64 m (elem64 xpdt i) (pae_make_pde_big (hva2spa hva) (PAGE_PRESENT OR PAGE_RW OR PAGE_PSE))
     in if hva = runtime_sva then (i, m) else unity_loop n (Suc i) runtime_sva xpdt m)"

definition runtime_pde :: "RPB \<Rightarrow> u32 \<Rightarrow> u32 \<Rightarrow> nat \<Rightarrow> nat \<Rightarrow> memory \<Rightarrow> xmhf_error + memory" where
  "runtime_pde b runtime_sva xpdt i j m =
    (let hva = runtime_sva + of_nat j * PAGE_SIZE_2M; spa = hva2spa1 b hva; flags = PAGE_PRESENT OR PAGE_RW OR PAGE_PSE in
     bindE (if spa = 0xfee00000 \<or> spa = 0xfec00000
            then bindE (HALT_ON_ERRORCOND (ucast hva = spa)) (\<lambda>_. Inr (flags OR PAGE_PCD))
            else Inr flags) (\<lambda>flags.
     if i + j < 2048 then Inr (st64 m (elem64 xpdt (i + j)) (pae_make_pde_big spa flags)) else Inl OutOfBounds))"

definition xmhf_sl_arch_x86_setup_runtime_paging :: "RPB \<Rightarrow> u32 \<Rightarrow> u32 \<Rightarrow> memory \<Rightarrow> xmhf_error + u32 \<times> memory" where
  "xmhf_sl_arch_x86_setup_runtime_paging b runtime_sva totalsize m =
    (let xpdpt = ucast (sla2spa b (hva2sla b (XtVmmPdptBase b))) :: u32;
         xpdt = ucast (sla2spa b (hva2sla b (XtVmmPdtsBase b))) :: u32 in
     bindE (forE 4 0 (\<lambda>i m. Inr (st64 m (elem64 xpdpt i) (pae_make_pdpe (ucast xpdt + push_bit 12 (of_nat i)) PAGE_PRESENT))) m) (\<lambda>m.
     let (i, m) = unity_loop 2048 0 runtime_sva xpdt m in
     bindE (forE (unat (totalsize div PAGE_SIZE_2M)) 0 (runtime_pde b runtime_sva xpdt i) m) (\<lambda>m.
     let flag1 = PAGE_PRESENT OR PAGE_RW OR PAGE_PSE OR PAGE_PCD;
         m = st64 m (elem64 xpdt 0x7f7) (pae_make_pde_big 0xfee00000 flag1);
         m = st64 m (elem64 xpdt 0x7f6) (pae_make_pde_big 0xfec00000 flag1)
     in Inr (xpdpt, m))))"

text \<open>
  The task state segment in the descriptor table, then the page tables. The first component of the result is the page
  table base the runtime's entry point is started with. The loader's data segment begins at its base, which the two
  address conversions account for; the base in the descriptor table's pointer is used as it is.
\<close>

definition setup_runtime_TSS :: "RPB \<Rightarrow> memory \<Rightarrow> memory" where
  "setup_runtime_TSS b m =
    (let tss_base = XtVmmTSSBase b;
         gdt_base = ld32 m (ucast (sla2spa b (hva2sla b (XtVmmGdt b + 2))));
         t = ucast (sla2spa b (gdt_base + ucast TRSEL));
         m = m(t + 5 := 0x89, t + 6 := 0x10);
         m = st16 m (t + 2) (ucast (tss_base AND 0xFFFF));
         m = m(t + 4 := ucast (drop_bit 16 (tss_base AND 0x00FF0000)), t + 7 := ucast (drop_bit 24 (tss_base AND 0xFF000000)))
     in st16 m t 0x67)"

definition xmhf_sl_arch_xfer_control_to_runtime :: "RPB \<Rightarrow> memory \<Rightarrow> xmhf_error + u32 \<times> memory" where
  "xmhf_sl_arch_xfer_control_to_runtime b m =
    xmhf_sl_arch_x86_setup_runtime_paging b 0xC0200000 (PAGE_ALIGN_UP2M (XtVmmRuntimeSize b)) (setup_runtime_TSS b m)"

section \<open>Filling the tables\<close>

text \<open>The directory as a function of the entry number; what lies outside the directory is kept.\<close>

definition pdt_is :: "u32 \<Rightarrow> (nat \<Rightarrow> u64) \<Rightarrow> memory \<Rightarrow> memory \<Rightarrow> bool" where
  "pdt_is D e m0 m \<longleftrightarrow> (\<forall>q<2048. ld64 m (elem64 D q) = e q) \<and> (\<forall>x. x \<notin> span D 16384 \<longrightarrow> m x = m0 x)"

lemma pdt_is_start: "pdt_is D (\<lambda>q. ld64 m (elem64 D q)) m m"
  by (simp add: pdt_is_def)

lemma pdt_is_store:
  assumes "pdt_is D e m0 m" "i < 2048"
  shows "pdt_is D (e(i := x)) m0 (st64 m (elem64 D i) x)"
proof -
  have "span (elem64 D i) 8 \<subseteq> span D 16384" using elem64_span_sub[of i 2048 D] assms(2) by simp
  then have "st64 m (elem64 D i) x a = m0 a" if "a \<notin> span D 16384" for a
    using that assms(1) by (subst st64_outside) (auto simp: pdt_is_def)
  then show ?thesis
    using assms ld64_elem_st64_elem[of i] by (auto simp: pdt_is_def)
qed

definition unity_pde :: "nat \<Rightarrow> u64" where
  "unity_pde q = pae_make_pde_big (ucast (of_nat q * PAGE_SIZE_2M :: u32)) (PAGE_PRESENT OR PAGE_RW OR PAGE_PSE)"

lemma unity_loop_result:
  assumes "pdt_is D e m0 m" "i \<le> k" "k < i + n" "i + n = 2048" "of_nat k * PAGE_SIZE_2M = sva"
    "\<And>q. q < k \<Longrightarrow> of_nat q * PAGE_SIZE_2M \<noteq> (sva :: u32)"
  shows "\<exists>m'. unity_loop n i sva D m = (k, m') \<and> pdt_is D (\<lambda>q. if i \<le> q \<and> q \<le> k then unity_pde q else e q) m0 m'"
  using assms
proof (induction n arbitrary: i e m)
  case (Suc n)
  define m1 where "m1 = st64 m (elem64 D i) (unity_pde i)"
  have m1: "pdt_is D (e(i := unity_pde i)) m0 m1" unfolding m1_def by (rule pdt_is_store) (use Suc.prems in simp_all)
  have st: "unity_loop (Suc n) i sva D m = (if i = k then (i, m1) else unity_loop n (Suc i) sva D m1)"
    using Suc.prems(2,5) Suc.prems(6)[of i] by (auto simp: Let_def m1_def unity_pde_def hva2spa_def)
  show ?case
  proof (cases "i = k")
    case True
    have "(\<lambda>q. if i \<le> q \<and> q \<le> k then unity_pde q else e q) = e(i := unity_pde i)" using True by auto
    with m1 st True show ?thesis by simp
  next
    case False
    then obtain m' where "unity_loop n (Suc i) sva D m1 = (k, m')"
        "pdt_is D (\<lambda>q. if Suc i \<le> q \<and> q \<le> k then unity_pde q else (e(i := unity_pde i)) q) m0 m'"
      using Suc.IH[OF m1, where i = "Suc i"] Suc.prems by auto
    moreover have "(\<lambda>q. if Suc i \<le> q \<and> q \<le> k then unity_pde q else (e(i := unity_pde i)) q)
        = (\<lambda>q. if i \<le> q \<and> q \<le> k then unity_pde q else e q)" using Suc.prems(2) by auto
    ultimately show ?thesis using st False by simp
  qed
qed simp

text \<open>The loop over the pages of the runtime.\<close>

lemma runtime_loop_result:
  assumes "pdt_is D e m0 m" "i + n \<le> 2048"
    and "\<And>j. j < n \<Longrightarrow> hva2spa1 b (sva + of_nat j * PAGE_SIZE_2M) \<notin> {0xfee00000, 0xfec00000}"
  shows "\<exists>m'. forE n 0 (runtime_pde b sva D i) m = Inr m' \<and> pdt_is D (\<lambda>q. if i \<le> q \<and> q < i + n
      then pae_make_pde_big (hva2spa1 b (sva + of_nat (q - i) * PAGE_SIZE_2M)) (PAGE_PRESENT OR PAGE_RW OR PAGE_PSE) else e q) m0 m'"
proof -
  let ?E = "\<lambda>q. pae_make_pde_big (hva2spa1 b (sva + of_nat (q - i) * PAGE_SIZE_2M)) (PAGE_PRESENT OR PAGE_RW OR PAGE_PSE)"
  have "\<exists>m'. forE n 0 (runtime_pde b sva D i) m = Inr m'
      \<and> pdt_is D (\<lambda>q. if i \<le> q \<and> q < i + (0 + n) then ?E q else e q) m0 m'"
  proof (rule forE_total[where Inv = "\<lambda>j. pdt_is D (\<lambda>q. if i \<le> q \<and> q < i + j then ?E q else e q) m0"])
    have "(\<lambda>q. if i \<le> q \<and> q < i + 0 then ?E q else e q) = e" by (rule ext, rule if_not_P) linarith
    then show "pdt_is D (\<lambda>q. if i \<le> q \<and> q < i + 0 then ?E q else e q) m0 m" using assms(1) by simp
  next
    fix j m' assume j: "0 \<le> j" "j < 0 + n" and I: "pdt_is D (\<lambda>q. if i \<le> q \<and> q < i + j then ?E q else e q) m0 m'"
    have "runtime_pde b sva D i j m' = Inr (st64 m' (elem64 D (i + j)) (?E (i + j)))"
      using assms(2) assms(3)[of j] j by (simp add: runtime_pde_def Let_def)
    moreover have "(\<lambda>q. if i \<le> q \<and> q < i + j then ?E q else e q)(i + j := ?E (i + j))
        = (\<lambda>q. if i \<le> q \<and> q < i + Suc j then ?E q else e q)" by auto
    ultimately show "\<exists>m''. runtime_pde b sva D i j m' = Inr m'' \<and> pdt_is D (\<lambda>q. if i \<le> q \<and> q < i + Suc j then ?E q else e q) m0 m''"
      using pdt_is_store[OF I, of "i + j"] assms(2) j by (metis (no_types, lifting) add_less_cancel_left add_0 order_less_le_trans)
  qed
  then show ?thesis by simp
qed

lemma pdpt_loop_result:
  "\<exists>m'. forE 4 0 (\<lambda>i m. Inr (st64 m (elem64 P i) (f i))) m = (Inr m' :: xmhf_error + memory)
    \<and> (\<forall>q<4. ld64 m' (elem64 P q) = f q) \<and> (\<forall>x. x \<notin> span P 32 \<longrightarrow> m' x = m x)"
proof -
  let ?Inv = "\<lambda>k m'. (\<forall>q<k. ld64 m' (elem64 P q) = f q) \<and> (\<forall>x. x \<notin> span P 32 \<longrightarrow> m' x = m x)"
  have "\<exists>m'. forE 4 0 (\<lambda>i m. Inr (st64 m (elem64 P i) (f i))) m = (Inr m' :: xmhf_error + memory) \<and> ?Inv (0 + 4) m'"
  proof (rule forE_total[where Inv = ?Inv])
    fix i m' assume i: "0 \<le> i" "i < 0 + (4::nat)" and I: "?Inv i m'"
    have "span (elem64 P i) 8 \<subseteq> span P 32" using elem64_span_sub[of i 4 P] i by simp
    then have "st64 m' (elem64 P i) (f i) x = m x" if "x \<notin> span P 32" for x
      using that I by (subst st64_outside) auto
    then have "?Inv (Suc i) (st64 m' (elem64 P i) (f i))"
      using I i ld64_elem_st64_elem[of i] by (auto simp: less_Suc_eq)
    then show "\<exists>s'. Inr (st64 m' (elem64 P i) (f i)) = Inr s' \<and> ?Inv (Suc i) s'" by blast
  qed simp
  then show ?thesis by simp
qed

section \<open>What the processor computes\<close>

lemma low_bits_zero: "take_bit k (x :: u32) = 0 \<Longrightarrow> n < k \<Longrightarrow> \<not> bit x n"
  by (metis bit_take_bit_iff bit_0_eq bot_apply bot_bool_def)

lemma big_entry:
  fixes p :: u32
  assumes "take_bit 21 p = 0" "f = 0x83 \<or> f = 0x93"
  shows "bit (pae_make_pde_big (ucast p) f) 0" "bit (pae_make_pde_big (ucast p) f) 7" "below_4G (pae_make_pde_big (ucast p) f)"
    "(pae_make_pde_big (ucast p) f AND 0x000FFFFFFFE00000) + ucast (take_bit 21 va) = ucast (p + take_bit 21 va)"
proof -
  note z = low_bits_zero[OF assms(1)]
  show "bit (pae_make_pde_big (ucast p) f) 0" "bit (pae_make_pde_big (ucast p) f) 7"
    using assms(2) by (auto simp: pae_make_pde_big_def bit_simps)
  show "below_4G (pae_make_pde_big (ucast p) f)"
    unfolding below_4G_def using assms(2)
    by (intro u64_bitsI) (auto simp: pae_make_pde_big_def bit_simps xconst u32_high_bit)
  have m: "pae_make_pde_big (ucast p) f AND 0x000FFFFFFFE00000 = ucast p"
    using assms(2) by (intro u64_bitsI) (auto simp: pae_make_pde_big_def bit_simps xconst u32_high_bit z)
  have a: "p + take_bit 21 va = p OR take_bit 21 va"
    by (rule disjunctive_add_eq_or) (rule u32_bitsI, simp add: bit_simps z)
  have "(ucast p :: u64) + ucast (take_bit 21 va) = ucast p OR ucast (take_bit 21 va)"
    by (rule disjunctive_add_eq_or) (rule u64_bitsI, simp add: bit_simps z u32_high_bit)
  also have "\<dots> = ucast (p OR take_bit 21 va)" by (rule u64_bitsI) (simp add: bit_simps u32_high_bit)
  finally show "(pae_make_pde_big (ucast p) f AND 0x000FFFFFFFE00000) + ucast (take_bit 21 va) = ucast (p + take_bit 21 va)"
    by (simp only: m a)
qed

text \<open>The physical addresses of the two tables.\<close>

definition pdpt_of :: "RPB \<Rightarrow> u32" where
  "pdpt_of b = XtVmmPdptBase b + XtVmmRuntimePhysBase b - XtVmmRuntimeVirtBase b"

definition pdts_of :: "RPB \<Rightarrow> u32" where
  "pdts_of b = XtVmmPdtsBase b + XtVmmRuntimePhysBase b - XtVmmRuntimeVirtBase b"

definition paging_layout :: "RPB \<Rightarrow> bool" where
  "paging_layout b \<longleftrightarrow> take_bit 5 (pdpt_of b) = 0 \<and> take_bit 12 (pdts_of b) = 0 \<and> unat (pdts_of b) + 16384 \<le> 2 ^ 32
    \<and> span (pdpt_of b) 32 \<inter> span (pdts_of b) 16384 = {}"

lemma sla_tables:
  "ucast (sla2spa b (hva2sla b (XtVmmPdptBase b))) = pdpt_of b" "ucast (sla2spa b (hva2sla b (XtVmmPdtsBase b))) = pdts_of b"
  by (simp_all add: sla2spa_def hva2sla_def pdpt_of_def pdts_of_def algebra_simps)

lemma pae_walk_big:
  fixes va p :: u32
  assumes P: "take_bit 5 P = 0" and D: "take_bit 12 D = 0" "unat D + 16384 \<le> 2 ^ 32"
    and pdpt: "\<And>q. q < 4 \<Longrightarrow> ld64 m (elem64 P q) = pae_make_pdpe (ucast D + push_bit 12 (of_nat q)) PAGE_PRESENT"
    and pde: "ld64 m (elem64 D (unat va div 2 ^ 21)) = pae_make_pde_big (ucast p) f"
    and p: "take_bit 21 p = 0" "f = 0x83 \<or> f = 0x93"
  shows "guest_walk_pae m P va = Some (ucast (p + take_bit 21 va))"
proof -
  define i3 i2 where "i3 = unat va div 2 ^ 30" and "i2 = unat va div 2 ^ 21 mod 512"
  have va: "unat va < 2 ^ 32" using unsigned_less[of va, where 'a=nat] by simp
  then have i3: "i3 < 4" by (simp add: i3_def)
  have ix: "unat (take_bit 2 (drop_bit 30 va)) = i3" "unat (take_bit 9 (drop_bit 21 va)) = i2"
    using va by (simp_all add: i3_def i2_def take_bit_eq_mod drop_bit_eq_div unat_div unat_mod)
  have q: "512 * i3 + i2 = unat va div 2 ^ 21"
  proof -
    have "i3 = unat va div 2 ^ 21 div 512" by (simp add: i3_def div_mult2_eq[symmetric])
    then show ?thesis by (simp add: i2_def)
  qed
  let ?t = "D + PAGE_SIZE_4K * of_nat i3"
  have c3: "P AND NOT 0x1F = P" using low_bits_zero[OF P] by (intro u32_bitsI) (auto simp: bit_simps)
  have u: "(ucast D :: u64) + push_bit 12 (of_nat i3) = ucast ?t"
  proof -
    have s: "unat (of_nat (4096 * i3) :: u32) = 4096 * i3" using i3 by (intro unat_of_nat_small) simp
    have "unat ?t = unat D + 4096 * i3"
      using D(2) i3 s by (subst unat_add_lem[THEN iffD1]) (simp_all add: xconst)
    moreover have "unat ((ucast D :: u64) + push_bit 12 (of_nat i3)) = unat D + 4096 * i3"
    proof -
      have "(ucast D :: u64) + push_bit 12 (of_nat i3) = of_nat (unat D + 4096 * i3)"
        by (simp add: push_bit_eq_mult mult.commute)
      then show ?thesis using D(2) i3 by (simp only:) (rule unat_of_nat_small, simp)
    qed
    ultimately show ?thesis by (simp add: word_unat_eq_iff)
  qed
  have al: "take_bit 12 ?t = 0" using aligned_offset[OF D(1), of "of_nat i3"] by (simp add: xconst)
  have e: "ld64 m (elem64 P i3) = ucast ?t OR 1" using pdpt[OF i3] u npt_made_entry(1)[OF al] by simp
  have w: "(ucast (walk_addr (ucast ?t OR 1)) :: u32) = ?t" using npt_walk_addr(2)[OF al] by (simp add: spa2hva_def)
  have b4: "below_4G (ucast ?t OR 1)" "bit (ucast ?t OR 1 :: u64) 0"
    unfolding below_4G_def by (rule u64_bitsI) (simp_all add: bit_simps u32_high_bit)
  have e2: "ld64 m (elem64 ?t i2) = pae_make_pde_big (ucast p) f"
    using pde by (simp only: elem64_subtable q)
  show ?thesis
    unfolding guest_walk_pae_def Let_def c3 ix e w e2 using big_entry[OF p] b4 by simp
qed

text \<open>The tables after the set-up, as functions of the entry number.\<close>

definition runtime_entry :: "RPB \<Rightarrow> nat \<Rightarrow> nat \<Rightarrow> nat \<Rightarrow> u64 \<Rightarrow> u64" where
  "runtime_entry b k n q old =
    (if q = 0x7f6 then pae_make_pde_big (ucast (0xfec00000 :: u32)) 0x93
     else if q = 0x7f7 then pae_make_pde_big (ucast (0xfee00000 :: u32)) 0x93
     else if k \<le> q \<and> q < k + n then pae_make_pde_big (hva2spa1 b (of_nat q * PAGE_SIZE_2M)) 0x83
     else if q \<le> k then unity_pde q else old)"

lemma big_page_nat: "unat (of_nat q * PAGE_SIZE_2M :: u32) = q * 2 ^ 21" if "q < 2048"
proof -
  have "unat (of_nat (q * 2 ^ 21) :: u32) = q * 2 ^ 21" using that by (intro unat_of_nat_small) simp
  then show ?thesis by (simp add: xconst)
qed

lemma setup_runtime_paging_result:
  assumes lay: "paging_layout b" and sva: "sva = of_nat k * PAGE_SIZE_2M" "XtVmmRuntimeVirtBase b = sva"
    and n: "n = unat (totalsize div PAGE_SIZE_2M)" "k + n \<le> 0x7f6" "0 < n"
    and phys: "unat (XtVmmRuntimePhysBase b) + n * 2 ^ 21 \<le> 0xFEC00000"
  shows "\<exists>m'. xmhf_sl_arch_x86_setup_runtime_paging b sva totalsize m = Inr (pdpt_of b, m')
    \<and> (\<forall>q<4. ld64 m' (elem64 (pdpt_of b) q) = pae_make_pdpe (ucast (pdts_of b) + push_bit 12 (of_nat q)) PAGE_PRESENT)
    \<and> (\<forall>q<2048. ld64 m' (elem64 (pdts_of b) q) = runtime_entry b k n q (ld64 m (elem64 (pdts_of b) q)))"
proof -
  let ?P = "pdpt_of b" and ?D = "pdts_of b" and ?f = "PAGE_PRESENT OR PAGE_RW OR PAGE_PSE :: u64"
  obtain m1 where m1: "forE 4 0 (\<lambda>i m. Inr (st64 m (elem64 ?P i) (pae_make_pdpe (ucast ?D + push_bit 12 (of_nat i)) PAGE_PRESENT))) m
        = (Inr m1 :: xmhf_error + memory)"
      "\<forall>q<4. ld64 m1 (elem64 ?P q) = pae_make_pdpe (ucast ?D + push_bit 12 (of_nat q)) PAGE_PRESENT"
      "\<forall>x. x \<notin> span ?P 32 \<longrightarrow> m1 x = m x"
    using pdpt_loop_result[where P = ?P and m = m
        and f = "\<lambda>i. pae_make_pdpe (ucast ?D + push_bit 12 (of_nat i)) PAGE_PRESENT"] by blast
  have dis: "span ?P 32 \<inter> span ?D 16384 = {}" using lay by (simp add: paging_layout_def)
  have old: "ld64 m1 (elem64 ?D q) = ld64 m (elem64 ?D q)" if "q < 2048" for q
    by (rule ld64_cong) (use elem64_span_sub[of q 2048 ?D] that dis m1(3) in auto)
  define e0 where "e0 = (\<lambda>q. ld64 m1 (elem64 ?D q))"
  have d1: "pdt_is ?D e0 m1 m1" unfolding e0_def by (rule pdt_is_start)
  have ne: "of_nat q * PAGE_SIZE_2M \<noteq> sva" if "q < k" for q
    using that n(2) big_page_nat[of q] big_page_nat[of k] sva(1) by auto
  obtain m2 where m2: "unity_loop 2048 0 sva ?D m1 = (k, m2)" "pdt_is ?D (\<lambda>q. if 0 \<le> q \<and> q \<le> k then unity_pde q else e0 q) m1 m2"
    using unity_loop_result[OF d1, of 0 k 2048 sva] sva(1) n(2) ne by auto
  have spa: "hva2spa1 b (sva + of_nat j * PAGE_SIZE_2M) = ucast (XtVmmRuntimePhysBase b + of_nat j * PAGE_SIZE_2M)" for j
    by (simp add: hva2spa1_def sva(2) add.commute)
  have u: "unat (XtVmmRuntimePhysBase b + of_nat j * PAGE_SIZE_2M) = unat (XtVmmRuntimePhysBase b) + j * 2 ^ 21"
    if "j < n" for j
  proof -
    have "j * 2 ^ 21 + 2 ^ 21 \<le> n * 2 ^ 21" using that by simp
    then show ?thesis using that n(2) phys big_page_nat[of j] by (subst unat_add_lem[THEN iffD1]) simp_all
  qed
  have "hva2spa1 b (sva + of_nat j * PAGE_SIZE_2M) \<notin> {0xfee00000, 0xfec00000}" if "j < n" for j
  proof -
    have "j * 2 ^ 21 + 2 ^ 21 \<le> n * 2 ^ 21" using that by simp
    then have "unat (hva2spa1 b (sva + of_nat j * PAGE_SIZE_2M)) < 0xFEC00000" using u[OF that] phys unfolding spa by simp
    then show ?thesis by auto
  qed
  then obtain m3 where m3: "forE n 0 (runtime_pde b sva ?D k) m2 = Inr m3"
      "pdt_is ?D (\<lambda>q. if k \<le> q \<and> q < k + n then pae_make_pde_big (hva2spa1 b (sva + of_nat (q - k) * PAGE_SIZE_2M)) ?f
         else if 0 \<le> q \<and> q \<le> k then unity_pde q else e0 q) m1 m3"
    using runtime_loop_result[OF m2(2), of k n b sva] n(2) by auto
  define m4 where "m4 = st64 (st64 m3 (elem64 ?D 0x7f7) (pae_make_pde_big 0xfee00000 0x93)) (elem64 ?D 0x7f6) (pae_make_pde_big 0xfec00000 0x93)"
  note m4 = pdt_is_store[OF pdt_is_store[OF m3(2), of "0x7f7" "pae_make_pde_big 0xfee00000 0x93"], of "0x7f6" "pae_make_pde_big 0xfec00000 0x93",
      folded m4_def, simplified]
  have run: "xmhf_sl_arch_x86_setup_runtime_paging b sva totalsize m = Inr (?P, m4)"
    using m1(1) m2(1) m3(1) n(1) unfolding xmhf_sl_arch_x86_setup_runtime_paging_def sla_tables Let_def
    by (simp add: m4_def xconst)
  have f: "?f = 0x83" by (simp add: xconst)
  have sub: "sva + of_nat (q - k) * PAGE_SIZE_2M = of_nat q * PAGE_SIZE_2M" if "k \<le> q" for q
    using that by (simp add: sva(1) of_nat_diff algebra_simps)
  have "ld64 m4 (elem64 ?D q) = runtime_entry b k n q (ld64 m (elem64 ?D q))" if q: "q < 2048" for q
    using m4 q old[OF q] n(2) sub[of q] by (auto simp: pdt_is_def runtime_entry_def e0_def f)
  moreover have "ld64 m4 (elem64 ?P q) = pae_make_pdpe (ucast ?D + push_bit 12 (of_nat q)) PAGE_PRESENT" if "q < 4" for q
  proof -
    have "ld64 m4 (elem64 ?P q) = ld64 m1 (elem64 ?P q)"
      by (rule ld64_cong) (use elem64_span_sub[of q 4 ?P] that dis m4 in \<open>auto simp: pdt_is_def\<close>)
    then show ?thesis using m1(2) that by simp
  qed
  ultimately show ?thesis using run by blast
qed

section \<open>The runtime's addresses\<close>

lemma take_bit_unat: "take_bit 21 (x :: u32) = of_nat (unat x mod 2 ^ 21)"
  by (simp add: word_unat_eq_iff take_bit_eq_mod unat_mod unat_of_nat)

lemma page_split: "(x :: u32) = of_nat (unat x div 2 ^ 21) * PAGE_SIZE_2M + take_bit 21 x"
proof -
  have "x = of_nat (unat x div 2 ^ 21 * 2 ^ 21 + unat x mod 2 ^ 21)" by (subst div_mult_mod_eq) simp
  also have "\<dots> = of_nat (unat x div 2 ^ 21) * of_nat (2 ^ 21) + take_bit 21 x"
    unfolding take_bit_unat by (simp only: of_nat_add of_nat_mult)
  also have "of_nat (2 ^ 21) = (PAGE_SIZE_2M :: u32)" by (simp add: xconst)
  finally show ?thesis .
qed

lemma page_aligned: "take_bit 21 (of_nat q * PAGE_SIZE_2M :: u32) = 0"
proof -
  have "of_nat q * PAGE_SIZE_2M = push_bit 21 (of_nat q :: u32)" by (simp add: push_bit_eq_mult xconst)
  then show ?thesis by (simp add: take_bit_push_bit)
qed

lemma aligned_page: "take_bit 21 (x :: u32) = 0 \<Longrightarrow> unat x = unat x div 2 ^ 21 * 2 ^ 21"
  by (drule arg_cong[where f = unat]) (simp add: take_bit_eq_mod unat_mod mod_0_imp_dvd)

text \<open>
  The runtime is linked at \<^verbatim>\<open>XtVmmRuntimeVirtBase\<close> and loaded at \<^verbatim>\<open>XtVmmRuntimePhysBase\<close>, both on a boundary of 2 MB,
  and ends below the interrupt controllers' page.
\<close>

definition runtime_placed :: "RPB \<Rightarrow> u32 \<Rightarrow> bool" where
  "runtime_placed b totalsize \<longleftrightarrow> take_bit 21 (XtVmmRuntimeVirtBase b) = 0 \<and> take_bit 21 (XtVmmRuntimePhysBase b) = 0
    \<and> take_bit 21 totalsize = 0 \<and> totalsize \<noteq> 0
    \<and> unat (XtVmmRuntimeVirtBase b) + unat totalsize \<le> 0xFEC00000
    \<and> unat (XtVmmRuntimePhysBase b) + unat totalsize \<le> 0xFEC00000"

definition runtime_address :: "RPB \<Rightarrow> u32 \<Rightarrow> u32 \<Rightarrow> u64 option" where
  "runtime_address b totalsize va =
    (if va < XtVmmRuntimeVirtBase b \<or> 0xFEC00000 \<le> va \<and> va < 0xFF000000 then Some (ucast va)
     else if va - XtVmmRuntimeVirtBase b < totalsize then Some (hva2spa1 b va) else None)"

lemma runtime_walks:
  assumes lay: "paging_layout b" and pl: "runtime_placed b totalsize"
    and k: "k = unat (XtVmmRuntimeVirtBase b) div 2 ^ 21" and n: "n = unat totalsize div 2 ^ 21"
    and P: "\<forall>q<4. ld64 m (elem64 (pdpt_of b) q) = pae_make_pdpe (ucast (pdts_of b) + push_bit 12 (of_nat q)) PAGE_PRESENT"
    and D: "\<forall>q<2048. ld64 m (elem64 (pdts_of b) q) = runtime_entry b k n q (old q)"
    and pa: "runtime_address b totalsize va = Some pa"
  shows "guest_walk_pae m (pdpt_of b) va = Some pa"
proof -
  let ?q = "unat va div 2 ^ 21" and ?V = "XtVmmRuntimeVirtBase b" and ?F = "XtVmmRuntimePhysBase b"
  have q: "?q < 2048" using unsigned_less[of va, where 'a=nat] by simp
  have V: "unat ?V = k * 2 ^ 21" and N: "unat totalsize = n * 2 ^ 21"
    unfolding k n by (rule aligned_page; use pl in \<open>simp add: runtime_placed_def\<close>)+
  have kn: "k + n \<le> 0x7f6" "0 < n" using pl V N by (simp_all add: runtime_placed_def word_unat_eq_iff)
  have walk: "guest_walk_pae m (pdpt_of b) va = Some (ucast (p + take_bit 21 va))"
    if "runtime_entry b k n ?q (old ?q) = pae_make_pde_big (ucast p) f" "take_bit 21 p = 0" "f = 0x83 \<or> f = 0x93" for p f
    using pae_walk_big[of "pdpt_of b" "pdts_of b" m va p f] lay P D q that by (simp add: paging_layout_def)
  have id: "guest_walk_pae m (pdpt_of b) va = Some (ucast va)"
    if "runtime_entry b k n ?q (old ?q) = pae_make_pde_big (ucast (of_nat ?q * PAGE_SIZE_2M :: u32)) f" "f = 0x83 \<or> f = 0x93" for f
    using walk[OF that(1) page_aligned that(2)] page_split[of va] by simp
  consider (low) "va < ?V" | (ioapic) "?q = 0x7f6" | (lapic) "?q = 0x7f7" | (rt) "\<not> va < ?V" "va - ?V < totalsize" "pa = hva2spa1 b va"
  proof -
    have "?q = 0x7f6 \<or> ?q = 0x7f7" if "0xFEC00000 \<le> va" "va < 0xFF000000"
      using that by (auto simp: word_le_nat_alt word_less_nat_alt)
    then show thesis using pa that by (auto simp: runtime_address_def split: if_splits)
  qed
  then show ?thesis
  proof cases
    case low
    then have "?q < k" using V by (simp add: word_less_nat_alt less_mult_imp_div_less)
    moreover have "pa = ucast va" using low pa by (simp add: runtime_address_def)
    ultimately show ?thesis using kn id[of "0x83"] by (simp add: runtime_entry_def unity_pde_def xconst)
  next
    case ioapic
    then have "pa = ucast va" using pa kn V N by (auto simp: runtime_address_def word_less_nat_alt word_le_nat_alt split: if_splits)
    then show ?thesis using ioapic id[of "0x93"] by (simp add: runtime_entry_def xconst)
  next
    case lapic
    then have "pa = ucast va" using pa kn V N by (auto simp: runtime_address_def word_less_nat_alt word_le_nat_alt split: if_splits)
    then show ?thesis using lapic id[of "0x93"] by (simp add: runtime_entry_def xconst)
  next
    case rt
    have d: "unat (va - ?V) = unat va - k * 2 ^ 21" "k * 2 ^ 21 \<le> unat va" using rt(1) V by (simp_all add: unat_sub word_le_nat_alt not_less)
    then have "unat va < (k + n) * 2 ^ 21" using rt(2) N by (simp add: word_less_nat_alt)
    then have q2: "k \<le> ?q" "?q < k + n" using d(2) by (simp_all add: less_mult_imp_div_less less_eq_div_iff_mult_less_eq)
    define p where "p = of_nat ?q * PAGE_SIZE_2M + ?F - ?V"
    have "?V = of_nat k * PAGE_SIZE_2M" "?F = of_nat (unat ?F div 2 ^ 21) * PAGE_SIZE_2M"
      using page_split[of ?V] page_split[of ?F] pl by (simp_all add: runtime_placed_def k)
    then have "p = of_nat (?q - k + unat ?F div 2 ^ 21) * PAGE_SIZE_2M"
      using q2(1) by (simp add: p_def of_nat_diff algebra_simps)
    then have "take_bit 21 p = 0" using page_aligned by metis
    moreover have "runtime_entry b k n ?q (old ?q) = pae_make_pde_big (ucast p) 0x83"
      using q2 kn by (simp add: runtime_entry_def hva2spa1_def p_def)
    moreover have "p + take_bit 21 va = va + ?F - ?V" using page_split[of va] by (simp add: p_def algebra_simps)
    ultimately show ?thesis using walk[of p "0x83"] rt(3) by (simp add: hva2spa1_def)
  qed
qed

lemma setup_runtime_paging_walks:
  assumes "paging_layout b" "runtime_placed b totalsize"
  shows "\<exists>m'. xmhf_sl_arch_x86_setup_runtime_paging b (XtVmmRuntimeVirtBase b) totalsize m = Inr (pdpt_of b, m')
    \<and> (\<forall>va pa. runtime_address b totalsize va = Some pa \<longrightarrow> guest_walk_pae m' (pdpt_of b) va = Some pa)"
proof -
  let ?V = "XtVmmRuntimeVirtBase b"
  define k n where "k = unat ?V div 2 ^ 21" and "n = unat totalsize div 2 ^ 21"
  have V: "unat ?V = k * 2 ^ 21" and N: "unat totalsize = n * 2 ^ 21"
    unfolding k_def n_def by (rule aligned_page; use assms(2) in \<open>simp add: runtime_placed_def\<close>)+
  have "?V = of_nat k * PAGE_SIZE_2M" using page_split[of ?V] assms(2) by (simp add: runtime_placed_def k_def)
  moreover have "n = unat (totalsize div PAGE_SIZE_2M)" by (simp add: n_def xconst unat_div)
  moreover have "k + n \<le> 0x7f6" "0 < n" "unat (XtVmmRuntimePhysBase b) + n * 2 ^ 21 \<le> 0xFEC00000"
    using assms(2) V N by (simp_all add: runtime_placed_def word_unat_eq_iff)
  ultimately obtain m' where m': "xmhf_sl_arch_x86_setup_runtime_paging b ?V totalsize m = Inr (pdpt_of b, m')"
      "\<forall>q<4. ld64 m' (elem64 (pdpt_of b) q) = pae_make_pdpe (ucast (pdts_of b) + push_bit 12 (of_nat q)) PAGE_PRESENT"
      "\<forall>q<2048. ld64 m' (elem64 (pdts_of b) q) = runtime_entry b k n q (ld64 m (elem64 (pdts_of b) q))"
    using setup_runtime_paging_result[OF assms(1), of ?V k n totalsize m] by blast
  show ?thesis
    using m'(1) runtime_walks[OF assms k_def n_def m'(2) m'(3)] by blast
qed

text \<open>Rounding up to a boundary of 2 MB.\<close>

lemma align_up_2M:
  assumes "unat sz < 2 ^ 32 - 2 ^ 21"
  shows "take_bit 21 (PAGE_ALIGN_UP2M sz) = 0" "unat sz \<le> unat (PAGE_ALIGN_UP2M sz)"
    "unat (PAGE_ALIGN_UP2M sz) < unat sz + 2 ^ 21"
proof -
  define y where "y = sz + PAGE_SIZE_2M - 1"
  have A: "PAGE_ALIGN_UP2M sz = y AND NOT (mask 21)" by (simp add: PAGE_ALIGN_UP2M_def y_def xconst mask_eq_exp_minus_1)
  show "take_bit 21 (PAGE_ALIGN_UP2M sz) = 0" unfolding A by (rule u32_bitsI) (auto simp: bit_simps)
  have y: "unat y = unat sz + 0x1FFFFF"
  proof -
    have "y = sz + 0x1FFFFF" by (simp add: y_def xconst)
    then show ?thesis using assms by (simp add: unat_add_lem[THEN iffD1])
  qed
  have "(y AND NOT (mask 21)) + take_bit 21 y = (y AND NOT (mask 21)) OR take_bit 21 y"
    by (rule disjunctive_add_eq_or) (rule u32_bitsI, auto simp: bit_simps)
  also have "\<dots> = y" by (rule u32_bitsI) (auto simp: bit_simps)
  finally have "y AND NOT (mask 21) = y - take_bit 21 y" by (simp add: eq_diff_eq)
  moreover have "unat (take_bit 21 y) = unat y mod 2 ^ 21" by (simp add: take_bit_eq_mod unat_mod)
  moreover have "take_bit 21 y \<le> y" by (simp add: word_le_nat_alt calculation(2))
  ultimately have "unat (PAGE_ALIGN_UP2M sz) = unat y - unat y mod 2 ^ 21" unfolding A by (simp add: unat_sub)
  moreover have "unat y mod 2 ^ 21 < 2 ^ 21" by simp
  ultimately show "unat sz \<le> unat (PAGE_ALIGN_UP2M sz)" "unat (PAGE_ALIGN_UP2M sz) < unat sz + 2 ^ 21"
    using y by simp_all
qed

text \<open>
  C10: the secure loader starts the runtime on page tables that agree with the runtime's own address arithmetic. Whatever
  the memory held before, the tables are built without an error, and with them the processor translates
  every address of the runtime's image to the physical address its function hva2spa1 computes, and every
  address below the image and in the pages of the interrupt controllers to itself.
\<close>

theorem runtime_paging_translates:
  assumes "xmhf_sl_main vendor baseaddr p b0 = Inr (b, es, cpus)" "paging_layout b"
    and "take_bit 21 baseaddr = 0" "0 < runtime_size p" "runtime_size p \<le> 0x3EA00000"
    and "unat baseaddr + 0x200000 + unat (PAGE_ALIGN_UP2M (runtime_size p)) \<le> 0xFEC00000"
  shows "\<exists>m'. xmhf_sl_arch_xfer_control_to_runtime b m = Inr (pdpt_of b, m')
    \<and> (\<forall>va. va < 0xC0200000 \<or> 0xFEC00000 \<le> va \<and> va < 0xFF000000 \<longrightarrow> guest_walk_pae m' (pdpt_of b) va = Some (ucast va))
    \<and> (\<forall>va. 0xC0200000 \<le> va \<longrightarrow> va - 0xC0200000 < runtime_size p \<longrightarrow> guest_walk_pae m' (pdpt_of b) va = Some (hva2spa1 b va))"
proof -
  let ?t = "PAGE_ALIGN_UP2M (runtime_size p)"
  have b: "XtVmmRuntimeVirtBase b = 0xC0200000" "XtVmmRuntimePhysBase b = baseaddr + PAGE_SIZE_2M" "XtVmmRuntimeSize b = runtime_size p"
    using assms(1) by (auto simp: xmhf_sl_main_def)
  have u: "unat (runtime_size p) < 2 ^ 32 - 2 ^ 21" "0 < unat (runtime_size p)"
    using assms(4,5) by (simp_all add: word_le_nat_alt word_less_nat_alt)
  note t = align_up_2M[OF u(1)]
  have "baseaddr + PAGE_SIZE_2M = of_nat (unat baseaddr div 2 ^ 21 + 1) * PAGE_SIZE_2M"
    using page_split[of baseaddr] assms(3) by (simp add: algebra_simps)
  then have "take_bit 21 (baseaddr + PAGE_SIZE_2M) = 0" using page_aligned by metis
  moreover have "unat (baseaddr + PAGE_SIZE_2M) = unat baseaddr + 0x200000"
    using assms(6) by (subst unat_add_lem[THEN iffD1]) (simp_all add: xconst)
  moreover have "unat ?t \<le> 0x3EA00000"
  proof -
    define q where "q = unat ?t div 2 ^ 21"
    have "unat ?t = q * 2097152" using aligned_page[OF t(1)] by (simp add: q_def)
    then show ?thesis using t(3) assms(5) unfolding word_le_nat_alt by simp
  qed
  ultimately have pl: "runtime_placed b ?t"
    using t u assms(6) by (auto simp: runtime_placed_def b)
  obtain m' where m': "xmhf_sl_arch_xfer_control_to_runtime b m = Inr (pdpt_of b, m')"
      "\<And>va pa. runtime_address b ?t va = Some pa \<Longrightarrow> guest_walk_pae m' (pdpt_of b) va = Some pa"
    using setup_runtime_paging_walks[OF assms(2) pl, of "setup_runtime_TSS b m"]
    by (auto simp: xmhf_sl_arch_xfer_control_to_runtime_def b)
  have "runtime_address b ?t va = Some (ucast va)" if "va < 0xC0200000 \<or> 0xFEC00000 \<le> va \<and> va < 0xFF000000" for va
    using that by (simp add: runtime_address_def b)
  moreover have "runtime_address b ?t va = Some (hva2spa1 b va)" if "0xC0200000 \<le> va" "va - 0xC0200000 < runtime_size p" for va
  proof -
    have "unat (va - 0xC0200000) < 0x3EA00000" using that(2) assms(5) by (simp add: word_le_nat_alt word_less_nat_alt)
    then have "va < 0xFEC00000" using that(1) by (simp add: word_le_nat_alt word_less_nat_alt unat_sub)
    then show ?thesis using that t(2) by (simp add: runtime_address_def b word_le_nat_alt word_less_nat_alt)
  qed
  ultimately show ?thesis using m' by blast
qed

text \<open>A runtime of 128 MB loaded at 256 MB.\<close>

definition sample_slpb :: SL_PARAMETER_BLOCK where
  "sample_slpb = \<lparr>slpb_magic = SL_PARAMETER_BLOCK_MAGIC, slpb_errorHandler = 0, slpb_isEarlyInit = 1, numE820Entries = 0,
     memmapbuffer = [], numCPUEntries = 0, cpuinfobuffer = [], runtime_size = 0x8000000, runtime_osbootmodule_base = 0x20000000,
     runtime_osbootmodule_size = 512, slpb_appmodule_base = 0, slpb_appmodule_size = 0\<rparr>"

definition linked_rpb :: RPB where
  "linked_rpb = sample_rpb\<lparr>magic := RUNTIME_PARAMETER_BLOCK_MAGIC, XtVmmPdptBase := 0xC0300000, XtVmmPdtsBase := 0xC0304000,
     XtVmmGdt := 0xC0310000, XtVmmTSSBase := 0xC0320000\<rparr>"

theorem runtime_paging_translates_witness:
  "\<exists>b m'. xmhf_sl_main CPU_VENDOR_INTEL 0x10000000 sample_slpb linked_rpb = Inr (b, [], [])
    \<and> xmhf_sl_arch_xfer_control_to_runtime b (\<lambda>_. 0xAA) = Inr (0x10300000, m')
    \<and> guest_walk_pae m' 0x10300000 0xC0200123 = Some 0x10200123
    \<and> guest_walk_pae m' 0x10300000 0xFEE00020 = Some 0xFEE00020 \<and> guest_walk_pae m' 0x10300000 0x7C00 = Some 0x7C00"
proof -
  obtain b where r: "xmhf_sl_main CPU_VENDOR_INTEL 0x10000000 sample_slpb linked_rpb = Inr (b, [], [])"
      "pdpt_of b = 0x10300000" "pdts_of b = 0x10304000" "hva2spa1 b 0xC0200123 = 0x10200123"
    by (simp add: xmhf_sl_main_def sample_slpb_def linked_rpb_def xconst pdpt_of_def pdts_of_def hva2spa1_def)
  have a: "PAGE_ALIGN_UP2M 0x8000000 = 0x8000000" by (simp add: PAGE_ALIGN_UP2M_def xconst)
  have "paging_layout b" by (simp add: paging_layout_def r span_disjointI)
  from runtime_paging_translates[OF r(1) this, of "\<lambda>_. 0xAA"] r show ?thesis
    by (auto simp: sample_slpb_def a)
qed

end
