(* ===== verification/XMHF_LaunchProps.thy ===== *)
theory XMHF_LaunchProps
  imports XMHF_Startup
begin

text \<open>
  What holds of a core when its guest is launched: the buffers the allocation hands out satisfy the
  layout memory protection needs, the processor's VMCS enables extended paging with the tables of
  this core, the walk of these tables leaves out the hypervisor and the interrupt controller, and the
  guest starts in real mode at the boot sector.
\<close>

section \<open>The allocated buffers\<close>

text \<open>The arrays as the linker places them: page aligned in physical memory and pairwise disjoint.\<close>

fun apart :: "(u32 \<times> nat) list \<Rightarrow> bool" where
  "apart [] \<longleftrightarrow> True"
| "apart ((a, n) # xs) \<longleftrightarrow> (\<forall>(b, m) \<in> set xs. span a n \<inter> span b m = {}) \<and> apart xs"

definition buffers_ok :: "RPB \<Rightarrow> buffers \<Rightarrow> bool" where
  "buffers_ok b L \<longleftrightarrow> inj_on (vcpu_ptr L) {..<8}
    \<and> spa_aligned b (g_vmx_ept_pml4_table_buffers L) \<and> spa_aligned b (g_vmx_ept_pdp_table_buffers L)
    \<and> spa_aligned b (g_vmx_ept_pd_table_buffers L) \<and> spa_aligned b (g_vmx_ept_p_table_buffers L)
    \<and> apart [(g_vmx_ept_pml4_table_buffers L, 8 * 4096), (g_vmx_ept_pdp_table_buffers L, 8 * 4096),
        (g_vmx_ept_pd_table_buffers L, 8 * 16384), (g_vmx_ept_p_table_buffers L, 8 * 8388608),
        (g_vmx_vmcs_buffers L, 8 * 4096)]"

text \<open>The part of an array that belongs to core \<open>i\<close>.\<close>

lemma slice:
  assumes "i < 8" "n \<le> k" "k \<le> 8388608"
  shows "span (a + of_nat i * of_nat k) n \<subseteq> span a (8 * k)"
proof
  fix x assume x: "x \<in> span (a + of_nat i * of_nat k) n"
  have le: "i * k \<le> 7 * k" using assms(1) by (intro mult_right_mono) simp_all
  also have "\<dots> < 2 ^ LENGTH(32)" using assms(3) by simp
  finally have "i * k < 2 ^ LENGTH(32)" .
  then have u: "unat (of_nat (i * k) :: u32) = i * k" by (rule unat_of_nat_small)
  have "i * k + n \<le> 8 * k" using le assms(2) by linarith
  then have "unat (of_nat (i * k) :: u32) + n \<le> 8 * k" by (simp only: u)
  moreover have "x \<in> span (a + of_nat (i * k)) n" using x by (simp only: of_nat_mult)
  ultimately show "x \<in> span a (8 * k)" by (rule span_shift)
qed

lemma slices_disjoint:
  assumes "span a (8 * k) \<inter> span b (8 * l) = {}" "i < 8" "n \<le> k" "k \<le> 8388608" "m \<le> l" "l \<le> 8388608"
  shows "span (a + of_nat i * of_nat k) n \<inter> span (b + of_nat i * of_nat l) m = {}"
  using slice[of i n k a] slice[of i m l b] assms by blast

lemma spa_aligned_slice: "spa_aligned b a \<Longrightarrow> spa_aligned b (a + of_nat i * (4096 * n))"
  using spa_aligned_offset[of b a "of_nat i * n"] by (simp add: mult.left_commute)

lemma new_vcpu_layout:
  assumes ok: "buffers_ok b L" and i: "i < 8"
  shows "ept_layout b (new_vcpu L vendor i lid)"
    and "span (vmx_vmcs_vaddr (new_vcpu L vendor i lid)) 4 \<inter> ept_bytes (new_vcpu L vendor i lid) = {}"
proof -
  let ?P4 = "g_vmx_ept_pml4_table_buffers L" and ?P3 = "g_vmx_ept_pdp_table_buffers L"
    and ?P2 = "g_vmx_ept_pd_table_buffers L" and ?P1 = "g_vmx_ept_p_table_buffers L" and ?C = "g_vmx_vmcs_buffers L"
  have d: "span ?P4 (8 * 4096) \<inter> span ?P3 (8 * 4096) = {}" "span ?P4 (8 * 4096) \<inter> span ?P2 (8 * 16384) = {}"
    "span ?P4 (8 * 4096) \<inter> span ?P1 (8 * 8388608) = {}" "span ?P3 (8 * 4096) \<inter> span ?P2 (8 * 16384) = {}"
    "span ?P3 (8 * 4096) \<inter> span ?P1 (8 * 8388608) = {}" "span ?P2 (8 * 16384) \<inter> span ?P1 (8 * 8388608) = {}"
    "span ?C (8 * 4096) \<inter> span ?P4 (8 * 4096) = {}" "span ?C (8 * 4096) \<inter> span ?P3 (8 * 4096) = {}"
    "span ?C (8 * 4096) \<inter> span ?P2 (8 * 16384) = {}" "span ?C (8 * 4096) \<inter> span ?P1 (8 * 8388608) = {}"
    using ok unfolding buffers_ok_def apart.simps by (simp_all add: Int_commute)
  note D = d[THEN slices_disjoint, OF i]
  have a: "spa_aligned b (?P4 + of_nat i * 4096)" "spa_aligned b (?P3 + of_nat i * 4096)"
    "spa_aligned b (?P2 + of_nat i * 16384)" "spa_aligned b (?P1 + of_nat i * 8388608)"
    using ok spa_aligned_slice[of b ?P4 i 1] spa_aligned_slice[of b ?P3 i 1] spa_aligned_slice[of b ?P2 i 4]
      spa_aligned_slice[of b ?P1 i 2048] unfolding buffers_ok_def by simp_all
  show "ept_layout b (new_vcpu L vendor i lid)"
    unfolding ept_layout_def tables_disjoint_def new_vcpu_def PAGE_SIZE_4K_def
    using a D(1)[of 8 "8 * 4"] D(2)[of 8 "8 * 2048"] D(3)[of 8 "8 * 2 ^ 20"] D(4)[of "8 * 4" "8 * 2048"]
      D(5)[of "8 * 4" "8 * 2 ^ 20"] D(6)[of "8 * 2048" "8 * 2 ^ 20"] by simp
  show "span (vmx_vmcs_vaddr (new_vcpu L vendor i lid)) 4 \<inter> ept_bytes (new_vcpu L vendor i lid) = {}"
    unfolding ept_bytes_def new_vcpu_def PAGE_SIZE_4K_def
    using D(7)[of 4 8] D(8)[of 4 "8 * 4"] D(9)[of 4 "8 * 2048"] D(10)[of 4 "8 * 2 ^ 20"] by (simp add: Int_Un_distrib)
qed

text \<open>What the allocation leaves behind: \<open>mk\<close> makes the structure of a core from its index and its identification.\<close>

definition allocated :: "(nat \<Rightarrow> u32 \<Rightarrow> VCPU) \<Rightarrow> buffers \<Rightarrow> u32 list \<Rightarrow> xmhf_state \<Rightarrow> bool" where
  "allocated mk L ids s \<longleftrightarrow> length ids \<le> 8
    \<and> g_midtable s = map (\<lambda>i. \<lparr>cpu_lapic_id = ids ! i, vcpu_vaddr_ptr = vcpu_ptr L i\<rparr>) [0..<length ids]
    \<and> (\<forall>i<length ids. vcpus s (vcpu_ptr L i) = mk i (ids ! i))"

lemma setup_midtable_result:
  assumes "g_midtable s = []" "length ids \<le> 8"
  shows "setup_midtable ids s = Inr (s\<lparr>g_midtable := map (\<lambda>i. \<lparr>cpu_lapic_id = ids ! i, vcpu_vaddr_ptr = 0\<rparr>) [0..<length ids]\<rparr>)"
proof -
  let ?t = "\<lambda>k. map (\<lambda>i. \<lparr>cpu_lapic_id = ids ! i, vcpu_vaddr_ptr = 0\<rparr>) [0..<k]"
  have "\<exists>s'. setup_midtable ids s = Inr s' \<and> s' = s\<lparr>g_midtable := ?t (0 + length ids)\<rparr>"
    unfolding setup_midtable_def
    by (rule forE_total[where Inv = "\<lambda>k s'. s' = s\<lparr>g_midtable := ?t k\<rparr>"])
      (use assms in \<open>auto simp: xconst\<close>)
  then show ?thesis by simp
qed

text \<open>The loop over the cores, for any step that makes the structure of one core.\<close>

lemma allocate_loop:
  fixes s :: xmhf_state
  assumes inj: "inj_on (vcpu_ptr L) {..<8}" and n: "length ids \<le> 8"
    and t: "g_midtable s = map (\<lambda>i. \<lparr>cpu_lapic_id = ids ! i, vcpu_vaddr_ptr = 0\<rparr>) [0..<length ids]"
    and f: "\<And>i s. \<exists>m. f i s = Inr (s\<lparr>vcpus := (vcpus s)(vcpu_ptr L i := mk i (cpu_lapic_id (g_midtable s ! i))), mem := m,
      g_midtable := (g_midtable s)[i := (g_midtable s ! i)\<lparr>vcpu_vaddr_ptr := vcpu_ptr L i\<rparr>]\<rparr>)"
  shows "\<exists>s'. forE (length (g_midtable s)) 0 f s = Inr s' \<and> allocated mk L ids s' \<and> rpb s' = rpb s \<and> hwlog s' = hwlog s"
proof -
  let ?n = "length ids"
  let ?Inv = "\<lambda>k (s' :: xmhf_state). rpb s' = rpb s \<and> hwlog s' = hwlog s \<and> length (g_midtable s') = ?n
    \<and> (\<forall>j<?n. g_midtable s' ! j = \<lparr>cpu_lapic_id = ids ! j, vcpu_vaddr_ptr = (if j < k then vcpu_ptr L j else 0)\<rparr>)
    \<and> (\<forall>j<k. vcpus s' (vcpu_ptr L j) = mk j (ids ! j))"
  have ne: "vcpu_ptr L j \<noteq> vcpu_ptr L i" if "j < i" "i < ?n" for i j
    using inj_onD[OF inj, of j i] that n by auto
  have "\<exists>s' :: xmhf_state. forE ?n 0 f s = Inr s' \<and> ?Inv (0 + ?n) s'"
  proof (rule forE_total[where Inv = ?Inv])
    show "?Inv 0 s" using t by simp
  next
    fix i and s' :: xmhf_state assume i: "0 \<le> i" "i < 0 + ?n" and I: "?Inv i s'"
    obtain m where "f i s' = Inr (s'\<lparr>vcpus := (vcpus s')(vcpu_ptr L i := mk i (cpu_lapic_id (g_midtable s' ! i))), mem := m,
      g_midtable := (g_midtable s')[i := (g_midtable s' ! i)\<lparr>vcpu_vaddr_ptr := vcpu_ptr L i\<rparr>]\<rparr>)" using f by blast
    then show "\<exists>s''. f i s' = Inr s'' \<and> ?Inv (Suc i) s''"
      using ne i I by (auto simp: nth_list_update less_Suc_eq)
  qed
  then obtain s' :: xmhf_state where s': "forE ?n 0 f s = Inr s'" "?Inv ?n s'" by auto
  have "g_midtable s' = map (\<lambda>i. \<lparr>cpu_lapic_id = ids ! i, vcpu_vaddr_ptr = vcpu_ptr L i\<rparr>) [0..<?n]"
    using s'(2) by (intro nth_equalityI) simp_all
  then have "allocated mk L ids s'" using s'(2) n by (simp add: allocated_def)
  then show ?thesis using s' t by simp
qed

lemma allocandsetup_result:
  fixes s :: xmhf_state
  assumes "inj_on (vcpu_ptr L) {..<8}" "length ids \<le> 8"
    and "g_midtable s = map (\<lambda>i. \<lparr>cpu_lapic_id = ids ! i, vcpu_vaddr_ptr = 0\<rparr>) [0..<length ids]"
  shows "\<exists>s'. xmhf_baseplatform_arch_x86vmx_allocandsetupvcpus L vendor s = Inr s' \<and> allocated (new_vcpu L vendor) L ids s'
      \<and> rpb s' = rpb s \<and> hwlog s' = hwlog s"
    and "\<exists>s'. xmhf_baseplatform_arch_x86svm_allocandsetupvcpus L vendor s = Inr s' \<and> allocated (new_svm_vcpu L vendor) L ids s'
      \<and> rpb s' = rpb s \<and> hwlog s' = hwlog s"
  unfolding xmhf_baseplatform_arch_x86vmx_allocandsetupvcpus_def xmhf_baseplatform_arch_x86svm_allocandsetupvcpus_def
  by (rule allocate_loop[OF assms], auto simp: setup_vcpu_def setup_svm_vcpu_def Let_def)+

text \<open>A machine whose interrupt controller, timer and PCI bridge answer.\<close>

definition machine_ok :: "hardware \<Rightarrow> bool" where
  "machine_ok hw \<longleftrightarrow> snd (rdmsr hw MSR_APIC_BASE) = 0 \<and> inb hw 0x61 AND 0x20 \<noteq> 0 \<and> pci_type1_works hw
    \<and> lapic_read hw ((fst (rdmsr hw MSR_APIC_BASE) AND 0xFFFFF000) + 0x300) AND 0x1000 = 0"

text \<open>No model-specific register has been written.\<close>

definition no_wrmsr :: "hw_op list \<Rightarrow> bool" where
  "no_wrmsr l \<longleftrightarrow> (\<forall>op \<in> set l. \<forall>j a d. op \<noteq> WrMsr j a d)"

lemma no_wrmsr_append [simp]: "no_wrmsr (k @ l) \<longleftrightarrow> no_wrmsr k \<and> no_wrmsr l"
  by (auto simp: no_wrmsr_def)

lemma wakeup_result:
  assumes "machine_ok hw"
  shows "\<exists>l. xmhf_baseplatform_arch_x86_wakeupAPs hw s = Inr (s\<lparr>hwlog := hwlog s @ l\<rparr>) \<and> no_wrmsr l"
proof -
  obtain a where a: "rdmsr hw MSR_APIC_BASE = (a, 0)" using assms by (metis machine_ok_def prod.collapse)
  have "\<exists>l. send_ipi hw ((a AND 0xFFFFF000) + 0x300) cmd usecs s = Inr (s\<lparr>hwlog := hwlog s @ l\<rparr>) \<and> no_wrmsr l" for cmd usecs s
    using assms a by (auto simp: send_ipi_def machine_ok_def xmhf_baseplatform_arch_x86_udelay_def hw_do_def Let_def no_wrmsr_def)
  then obtain g where g: "send_ipi hw ((a AND 0xFFFFF000) + 0x300) cmd usecs s = Inr (s\<lparr>hwlog := hwlog s @ g cmd usecs s\<rparr>)"
    and q: "no_wrmsr (g cmd usecs s)" for cmd usecs s by metis
  define s1 s2 where "s1 = s\<lparr>hwlog := hwlog s @ g 0x000c4500 10000 s\<rparr>" and "s2 = s1\<lparr>hwlog := hwlog s1 @ g 0x000c4610 200 s1\<rparr>"
  define l where "l = g 0x000c4500 10000 s @ g 0x000c4610 200 s1 @ g 0x000c4610 200 s2"
  have "xmhf_baseplatform_arch_x86_wakeupAPs hw s = Inr (s\<lparr>hwlog := hwlog s @ l\<rparr>)"
    by (simp add: xmhf_baseplatform_arch_x86_wakeupAPs_def a g l_def s1_def s2_def del: bindE_eq_Inr)
  moreover have "no_wrmsr l" using q by (simp add: l_def)
  ultimately show ?thesis by blast
qed

definition vendor_vcpu :: "buffers \<Rightarrow> u32 \<Rightarrow> nat \<Rightarrow> u32 \<Rightarrow> VCPU" where
  "vendor_vcpu L vendor = (if vendor = CPU_VENDOR_AMD then new_svm_vcpu L vendor else new_vcpu L vendor)"

lemma smpinitialize_result:
  assumes "inj_on (vcpu_ptr L) {..<8}" "length ids \<le> 8" "g_midtable s = []" "machine_ok hw"
    and "xmhf_baseplatform_arch_getcpuvendor hw = Inr vendor"
  shows "\<exists>s'. xmhf_baseplatform_arch_smpinitialize L P hw ids s = Inr s' \<and> allocated (vendor_vcpu L vendor) L ids s' \<and> rpb s' = rpb s
    \<and> (no_wrmsr (hwlog s) \<longrightarrow> no_wrmsr (hwlog s'))"
proof -
  let ?s = "s\<lparr>g_midtable := map (\<lambda>i. \<lparr>cpu_lapic_id = ids ! i, vcpu_vaddr_ptr = 0\<rparr>) [0..<length ids]\<rparr>"
  have "\<exists>s'. (if vendor = CPU_VENDOR_AMD then xmhf_baseplatform_arch_x86svm_allocandsetupvcpus L vendor ?s
      else xmhf_baseplatform_arch_x86vmx_allocandsetupvcpus L vendor ?s) = Inr s' \<and> allocated (vendor_vcpu L vendor) L ids s' \<and> rpb s' = rpb s
      \<and> hwlog s' = hwlog s"
    using allocandsetup_result[OF assms(1,2), of ?s vendor] by (cases "vendor = CPU_VENDOR_AMD") (simp_all add: vendor_vcpu_def)
  then obtain s1 where s1: "(if vendor = CPU_VENDOR_AMD then xmhf_baseplatform_arch_x86svm_allocandsetupvcpus L vendor ?s
      else xmhf_baseplatform_arch_x86vmx_allocandsetupvcpus L vendor ?s) = Inr s1"
      "allocated (vendor_vcpu L vendor) L ids s1" "rpb s1 = rpb s" "hwlog s1 = hwlog s" by blast
  have k: "allocated (vendor_vcpu L vendor) L ids (ap_trampoline L P s1\<lparr>hwlog := l\<rparr>)
      \<and> rpb (ap_trampoline L P s1\<lparr>hwlog := l\<rparr>) = rpb s" "hwlog (ap_trampoline L P s1) = hwlog s" for l
    using s1(2-4) by (simp_all add: allocated_def ap_trampoline_def Let_def)
  obtain l0 where l0: "xmhf_baseplatform_arch_x86_wakeupAPs hw (ap_trampoline L P s1) = Inr (ap_trampoline L P s1\<lparr>hwlog := hwlog s @ l0\<rparr>)"
      "no_wrmsr l0" using wakeup_result[OF assms(4), of "ap_trampoline L P s1"] k(2) by metis
  define l where "l = hwlog s @ l0"
  have l: "xmhf_baseplatform_arch_x86_wakeupAPs hw (ap_trampoline L P s1) = Inr (ap_trampoline L P s1\<lparr>hwlog := l\<rparr>)"
      "no_wrmsr (hwlog s) \<longrightarrow> no_wrmsr l" using l0 by (auto simp: no_wrmsr_def l_def)
  show ?thesis
    using s1 k(1)[of l] l
    by (cases "1 < length (g_midtable s1)"; cases "vendor = CPU_VENDOR_AMD")
      (simp_all add: xmhf_baseplatform_arch_smpinitialize_def setup_midtable_result[OF assms(3,2)] assms(5)
        xmhf_baseplatform_arch_x86svm_wakeupAPs_def xmhf_baseplatform_arch_x86vmx_wakeupAPs_def del: bindE_eq_Inr)
qed

section \<open>Up to the launch\<close>

text \<open>A processor on which every step of the start-up succeeds.\<close>

definition launchable :: "platform \<Rightarrow> hardware \<Rightarrow> bool" where
  "launchable P hw \<longleftrightarrow> cpu_string hw = INTEL_STRING \<and> bit (fst (snd (snd (cpuid hw 1 0)))) 5
    \<and> mtrr_support hw \<and> sane_types hw \<and> machine_ok hw
    \<and> (\<forall>a. vmxon_ok P a \<and> vmclear_ok P a \<and> vmptrld_ok P a) 
    \<and> (\<forall>f \<in> set g_vmx_vmcsrwfields_encodings. \<forall>x. vmwrite_ok P (encoding f) x)
    \<and> (\<forall>V. vmlaunch_error P V = None)"

text \<open>What no step of the start-up changes in the structure of a core.\<close>

definition core_key where
  "core_key vp s = (let v = vcpus s vp in (rpb s, g_midtable s, cpu_vendor v, isbsp v, vmx_vmcs_vaddr v,
     vmx_vaddr_ept_pml4_table v, vmx_vaddr_ept_pdp_table v, vmx_vaddr_ept_pd_tables v, vmx_vaddr_ept_p_tables v,
     sipireceived v))"

lemma core_keyD:
  assumes "core_key vp s = core_key vp s'"
  shows "rpb s = rpb s'" "g_midtable s = g_midtable s'" "cpu_vendor (vcpus s vp) = cpu_vendor (vcpus s' vp)"
    "isbsp (vcpus s vp) = isbsp (vcpus s' vp)" "vmx_vmcs_vaddr (vcpus s vp) = vmx_vmcs_vaddr (vcpus s' vp)"
    "vmx_vaddr_ept_p_tables (vcpus s vp) = vmx_vaddr_ept_p_tables (vcpus s' vp)"
    "ept_layout b (vcpus s vp) = ept_layout b (vcpus s' vp)" "ept_bytes (vcpus s vp) = ept_bytes (vcpus s' vp)"
    "ept_upper b (vcpus s vp) m = ept_upper b (vcpus s' vp) m" "ept_root b (vcpus s vp) = ept_root b (vcpus s' vp)"
  using assms by (simp_all add: core_key_def Let_def ept_layout_def ept_bytes_def ept_upper_def)

lemma core_key_primitives [simp]:
  "core_key vp (hw_do op s) = core_key vp s"
  "core_key vp (s\<lparr>mem := m\<rparr>) = core_key vp s"
  "core_key vp (upd_vmcs vp f s) = core_key vp s"
  "core_key vp (upd_vcpu vp (\<lambda>v. v\<lparr>vcpu_esp := e v\<rparr>) s) = core_key vp s"
  "core_key vp (upd_vcpu vp (\<lambda>v. v\<lparr>vmx_msrs := a v, vmx_msr_efer := b v, vmx_msr_efcr := c v\<rparr>) s) = core_key vp s"
  "core_key vp (upd_vcpu vp (\<lambda>v. v\<lparr>vmx_guest_unrestricted := g v\<rparr>) s) = core_key vp s"
  "core_key vp (xmhf_memprot_arch_x86vmx_flushmappings vp s) = core_key vp s"
  by (simp_all add: core_key_def Let_def xmhf_memprot_arch_x86vmx_flushmappings_def)

lemma cpuinitialize_result:
  assumes "launchable P hw"
  shows "\<exists>s'. xmhf_baseplatform_arch_cpuinitialize P hw s = Inr s' \<and> core_key vp s' = core_key vp s"
  using assms
  by (auto simp: xmhf_baseplatform_arch_cpuinitialize_def xmhf_baseplatform_arch_getcpuvendor_def launchable_def
      AMD_STRING_def INTEL_STRING_def Let_def)

lemma initializemonitor_result:
  assumes "launchable P hw"
  shows "\<exists>s'. xmhf_partition_arch_x86vmx_initializemonitor P hw vp s = Inr s' \<and> core_key vp s' = core_key vp s"
proof -
  obtain a b c d where id: "cpuid hw 1 0 = (a, b, c, d)" by (metis prod_cases4)
  have "c AND push_bit 5 1 \<noteq> 0"
    using assms id and_nonzero_iff_bit[of c 5] by (simp add: launchable_def)
  then have "\<exists>s'. vmx_initVT P hw vp s = Inr s' \<and> core_key vp s' = core_key vp s"
    using assms id by (simp add: vmx_initVT_def launchable_def Let_def)
  then obtain s1 where s1: "vmx_initVT P hw vp s = Inr s1" "core_key vp s1 = core_key vp s" by blast
  then show ?thesis
    by (simp add: xmhf_partition_arch_x86vmx_initializemonitor_def vmx_int15_initializehook_def Let_def)
qed

lemma vmcs_parts_core [simp]:
  "core_key vp (vmcs_host_part P hw vp s) = core_key vp s"
  "core_key vp (vmcs_control_part hw vp s) = core_key vp s"
  "core_key vp (vmcs_guest_part vp s) = core_key vp s"
  by (simp_all add: vmcs_host_part_def vmcs_control_part_def vmcs_guest_part_def Let_def)

lemma setupguestOSstate_core [simp]:
  "core_key vp (xmhf_partition_arch_x86vmx_setupguestOSstate P hw vp s) = core_key vp s"
  by (simp add: xmhf_partition_arch_x86vmx_setupguestOSstate_def vmx_initunrestrictedguestVMCS_def)

text \<open>The state in which the VMCS lets the guest begin.\<close>

definition boot_vmcs :: "VCPU \<Rightarrow> vmcsfields \<Rightarrow> bool" where
  "boot_vmcs v c \<longleftrightarrow> guest_VMCS_link_pointer_full c = 0xFFFFFFFF \<and> \<not> bit (guest_CR0 c) 0 \<and> \<not> bit (guest_CR0 c) 31
    \<and> bit (control_VMX_pin_based c) 3 \<and> bit (control_VMX_cpu_based c) 31 \<and> bit (control_VMX_seccpu_based c) 7
    \<and> (isbsp v \<noteq> 0 \<longrightarrow> guest_RIP c = 0x7c00 \<and> guest_CS_base c = 0 \<and> guest_CS_selector c = 0)"

lemma guest_part_boot: "boot_vmcs (vcpus s vp) (vmcs_of vp (vmcs_guest_part vp s))"
proof -
  have b: "\<not> bit (real_mode_cr0 x) 0" "\<not> bit (real_mode_cr0 x) 31" for x
    by (simp_all add: real_mode_cr0_def bit_simps xconst)
  show ?thesis
    by (simp add: vmcs_guest_part_def init_execution_controls_def init_guest_segments_def init_guest_entry_def
      init_guest_state_def boot_vmcs_def Let_def b bit_simps)
qed

lemma setupguestOSstate_boot:
  "boot_vmcs (vcpus s vp) (vmcs_of vp (xmhf_partition_arch_x86vmx_setupguestOSstate P hw vp s))"
proof -
  let ?s = "vmcs_control_part hw vp (vmcs_host_part P hw vp s)"
  have "isbsp (vcpus ?s vp) = isbsp (vcpus s vp)" by (rule core_keyD) simp
  with guest_part_boot[of ?s vp] show ?thesis
    by (simp add: xmhf_partition_arch_x86vmx_setupguestOSstate_def vmx_initunrestrictedguestVMCS_def
      xmhf_memprot_arch_x86vmx_flushmappings_def boot_vmcs_def)
qed

text \<open>Memory protection: the tables are built and the structure keeps the rest.\<close>

lemma memprot_frame:
  assumes "xmhf_memprot_arch_x86vmx_initialize hw vp s = Inr s'" "mtrr_support hw"
  shows "core_key vp s' = core_key vp s" "boot_vmcs v (vmcs_of vp s) \<Longrightarrow> boot_vmcs v (vmcs_of vp s')"
    "ept_on vp s'"
proof -
  obtain mts where g: "vmx_gathermemorytypes hw vp s = Inr (upd_vcpu vp (\<lambda>v. v\<lparr>vmx_ept_memorytypes := mts\<rparr>) s)"
    using vmx_gathermemorytypes_result[OF assms(2)] by blast
  have st: "vmx_setupEPT vp s1 = Inr s2 \<Longrightarrow> \<exists>m. s2 = s1\<lparr>mem := m\<rparr>" for s1 s2
    by (auto simp: vmx_setupEPT_def Let_def)
  from assms(1) g obtain m where "s' = upd_vmcs vp (\<lambda>c. c\<lparr>
      control_VMX_seccpu_based := control_VMX_seccpu_based c OR push_bit 1 1 OR push_bit 5 1, control_vpid := 1,
      control_EPT_pointer_high := 0,
      control_EPT_pointer_full := ucast (hva2spa1 (rpb s) (vmx_vaddr_ept_pml4_table (vcpus s vp)) OR 0x1E),
      control_VMX_cpu_based := control_VMX_cpu_based c AND NOT (push_bit 15 1) AND NOT (push_bit 16 1)\<rparr>)
      ((upd_vcpu vp (\<lambda>v. v\<lparr>vmx_ept_memorytypes := mts\<rparr>) s)\<lparr>mem := m\<rparr>)"
    by (auto simp: xmhf_memprot_arch_x86vmx_initialize_def dest!: st)
  then show "core_key vp s' = core_key vp s" "boot_vmcs v (vmcs_of vp s) \<Longrightarrow> boot_vmcs v (vmcs_of vp s')" "ept_on vp s'"
    by (simp_all add: core_key_def boot_vmcs_def ept_on_def Let_def bit_simps)
qed

section \<open>The tables at the launch\<close>

text \<open>The walk reads nothing but the tables.\<close>

lemma ept_ld_agree:
  assumes "\<And>x. x \<in> ept_bytes v \<Longrightarrow> m' x = m x"
  shows "ld64 m' (elem64 (vmx_vaddr_ept_pml4_table v) 0) = ld64 m (elem64 (vmx_vaddr_ept_pml4_table v) 0)"
    "q < 4 \<Longrightarrow> ld64 m' (elem64 (vmx_vaddr_ept_pdp_table v) q) = ld64 m (elem64 (vmx_vaddr_ept_pdp_table v) q)"
    "q < 2048 \<Longrightarrow> ld64 m' (elem64 (vmx_vaddr_ept_pd_tables v) q) = ld64 m (elem64 (vmx_vaddr_ept_pd_tables v) q)"
    "q < 2 ^ 20 \<Longrightarrow> ld64 m' (elem64 (vmx_vaddr_ept_p_tables v) q) = ld64 m (elem64 (vmx_vaddr_ept_p_tables v) q)"
proof -
  have sub: "span (elem64 a q) 8 \<subseteq> ept_bytes v" if "q < n" "n < 2 ^ 29" "span a (8 * n) \<subseteq> ept_bytes v" for a q n
    using elem64_span_sub[OF that(1,2)] that(3) by blast
  have a: "ld64 m' (elem64 a q) = ld64 m (elem64 a q)" if "q < n" "n < 2 ^ 29" "span a (8 * n) \<subseteq> ept_bytes v" for a q n
    by (rule ld64_cong) (use sub[OF that] assms in blast)
  show "ld64 m' (elem64 (vmx_vaddr_ept_pml4_table v) 0) = ld64 m (elem64 (vmx_vaddr_ept_pml4_table v) 0)"
    "q < 4 \<Longrightarrow> ld64 m' (elem64 (vmx_vaddr_ept_pdp_table v) q) = ld64 m (elem64 (vmx_vaddr_ept_pdp_table v) q)"
    "q < 2048 \<Longrightarrow> ld64 m' (elem64 (vmx_vaddr_ept_pd_tables v) q) = ld64 m (elem64 (vmx_vaddr_ept_pd_tables v) q)"
    "q < 2 ^ 20 \<Longrightarrow> ld64 m' (elem64 (vmx_vaddr_ept_p_tables v) q) = ld64 m (elem64 (vmx_vaddr_ept_p_tables v) q)"
    using a[of 0 1 "vmx_vaddr_ept_pml4_table v"] a[of q 4 "vmx_vaddr_ept_pdp_table v"]
      a[of q 2048 "vmx_vaddr_ept_pd_tables v"] a[of q "2 ^ 20" "vmx_vaddr_ept_p_tables v"]
    by (auto simp: ept_bytes_def)
qed

lemma page_index: "unat (gpa :: u32) div 4096 < 2 ^ 20"
proof -
  have "unat gpa < 2 ^ 32" using unsigned_less[of gpa, where 'a=nat] by simp
  then show ?thesis by simp
qed

lemma ept_walk_agree:
  fixes gpa :: u32
  assumes "ept_layout b v" "ept_upper b v m" and agree: "\<And>x. x \<in> ept_bytes v \<Longrightarrow> m' x = m x"
  shows "ept_walk b m' (ept_root b v) (ucast gpa) = ept_walk b m (ept_root b v) (ucast gpa)"
proof -
  have "ept_upper b v m'" using assms(2) ept_ld_agree(1-3)[where v = v and m' = m' and m = m] agree
    by (simp add: ept_upper_def)
  moreover have "ld64 m' (elem64 (vmx_vaddr_ept_p_tables v) (unat gpa div 4096))
      = ld64 m (elem64 (vmx_vaddr_ept_p_tables v) (unat gpa div 4096))"
    by (rule ept_ld_agree(4)) (use agree page_index in blast)+
  ultimately show ?thesis using ept_walk_leaf[OF assms(1), of m'] ept_walk_leaf[OF assms(1,2)] by simp
qed

text \<open>A leaf without rights takes its page out of the walk and leaves the others.\<close>

lemma ept_walk_unmap:
  fixes gpa :: u32
  assumes "ept_layout b v" "ept_upper b v m" "n < 2 ^ 20" "e AND 7 = 0"
  shows "ept_walk b (st64 m (elem64 (vmx_vaddr_ept_p_tables v) n) e) (ept_root b v) (ucast gpa)
    = (if unat gpa div 4096 = n then None else ept_walk b m (ept_root b v) (ucast gpa))"
proof -
  let ?m = "st64 m (elem64 (vmx_vaddr_ept_p_tables v) n) e"
  have i: "unat gpa div 4096 < 2 ^ 29" "n < 2 ^ 29" using page_index[of gpa] assms(3) by simp_all
  show ?thesis
    unfolding ept_walk_leaf[OF assms(1) ept_upper_leaf_store[OF assms(1-3)]] ept_walk_leaf[OF assms(1,2)] Let_def
      ld64_elem_st64_elem[OF i(2,1)]
    using assms(4) by simp
qed

section \<open>The launch\<close>

definition hw_eptp :: "vmcs_hw \<Rightarrow> u64" where
  "hw_eptp V = push_bit 32 (ucast (V 0x201B)) OR ucast (V 0x201A)"

definition lapic_page :: "hardware \<Rightarrow> u32" where
  "lapic_page hw = fst (rdmsr hw MSR_APIC_BASE) AND 0xFFFFF000"

text \<open>What the guest can reach: every page but the hypervisor's and the interrupt controller's, mapped to itself.\<close>

definition launched_map :: "RPB \<Rightarrow> hardware \<Rightarrow> memory \<Rightarrow> u64 \<Rightarrow> bool" where
  "launched_map b hw m eptp \<longleftrightarrow> (\<forall>gpa. if in_xmhf_region b (page_of gpa) \<or> page_of gpa = lapic_page hw
     then ept_walk b m eptp (ucast gpa) = None
     else \<exists>mt. ept_walk b m eptp (ucast gpa) = Some (ucast gpa, 7, mt))"

lemma ept_hw_eptp: "ept_hw b v V \<Longrightarrow> hw_eptp V = ept_root b v"
proof -
  assume "ept_hw b v V"
  then have "hw_eptp V = ucast (ucast (ept_root b v) :: u32)" by (simp add: ept_hw_def hw_eptp_def)
  also have "\<dots> = ept_root b v" by (rule u64_bitsI) (simp add: hva2spa1_def bit_simps u32_high_bit)
  finally show ?thesis .
qed

lemma start_result:
  assumes "launchable P hw" "boot_vmcs v (vmcs_of vp s)" "ept_on vp s"
  shows "\<exists>V' s'. xmhf_partition_arch_x86vmx_start P vp V s = Inr (V', s') \<and> ept_hw (rpb s') (vcpus s' vp) V'
    \<and> core_key vp s' = core_key vp s \<and> vmcs_of vp s' = vmcs_of vp s
    \<and> put_fields (vmwrite_ok P) (vmcs_of vp s) g_vmx_vmcsrwfields_encodings V = Inr V'
    \<and> (\<forall>x. x \<notin> span (vmx_vmcs_vaddr (vcpus s vp)) 4 \<longrightarrow> mem s' x = mem s x)"
proof -
  have "\<forall>f \<in> set g_vmx_vmcsrwfields_encodings. \<forall>x. vmwrite_ok P (encoding f) x" using assms(1) by (simp add: launchable_def)
  then obtain V' where V': "xmhf_baseplatform_arch_x86vmx_putVMCS (vmwrite_ok P) (vmcs_of vp s) V = Inr V'"
    using put_fields_total[of g_vmx_vmcsrwfields_encodings "vmwrite_ok P" "vmcs_of vp s" V]
    unfolding xmhf_baseplatform_arch_x86vmx_putVMCS_def by blast
  obtain m s' where s': "xmhf_partition_arch_x86vmx_start P vp V s = Inr (V', s')"
    "s' = hw_do VmLaunch (hw_do (VmPtrLd m) (hw_do (VmClear m) s\<lparr>mem := st32 (mem s) (vmx_vmcs_vaddr (vcpus s vp))
       (ucast (vmx_msrs (vcpus s vp) ! INDEX_IA32_VMX_BASIC_MSR))\<rparr>))"
    using assms(1,2) V'
    by (auto simp: xmhf_partition_arch_x86vmx_start_def vmx_start_hvm_def launchable_def boot_vmcs_def Let_def)
  have "ept_hw (rpb s) (vcpus s vp) V'" using ept_hw_put[OF V'] assms(3) by simp
  moreover have "st32 (mem s) a w x = mem s x" if "x \<notin> span a 4" for a w x
    using that unfolding st32_def by (intro stw_outside) simp_all
  ultimately show ?thesis
    using s' V' by (auto simp: xmhf_baseplatform_arch_x86vmx_putVMCS_def core_key_def Let_def)
qed

lemma smpguest_bsp_result:
  assumes "launchable P hw" "cpu_vendor (vcpus s vp) = CPU_VENDOR_INTEL" "isbsp (vcpus s vp) \<noteq> 0" "1 < length (g_midtable s)"
  shows "\<exists>s'. xmhf_smpguest_arch_initialize hw vp s = Inr s' \<and> core_key vp s' = core_key vp s \<and> vmcs_of vp s' = vmcs_of vp s
    \<and> mem s' = st64 (mem s) (elem64 (vmx_vaddr_ept_p_tables (vcpus s vp)) (unat (lapic_page hw) div 4096)) (ucast (lapic_page hw))"
proof -
  obtain a where a: "rdmsr hw MSR_APIC_BASE = (a, 0)" using assms(1) by (metis launchable_def machine_ok_def prod.collapse)
  have "unat ((a AND 0xFFFFF000) div 4096) = unat (a AND 0xFFFFF000) div 4096" by (simp add: unat_div)
  then show ?thesis
    using assms(2-4) a
    by (simp add: xmhf_smpguest_arch_initialize_def CPU_VENDOR_INTEL_def CPU_VENDOR_AMD_def xmhf_smpguest_arch_x86vmx_initialize_def
      vmx_lapic_changemapping_def lapic_page_def core_key_def xmhf_memprot_arch_x86vmx_flushmappings_def Let_def
      PAGE_SIZE_4K_def VMX_LAPIC_UNMAP_def)
qed

text \<open>The fields the guest begins with, as the processor holds them.\<close>

lemma boot_hw:
  assumes p: "put_fields ok c g_vmx_vmcsrwfields_encodings V = Inr V'" and b: "boot_vmcs v c" "isbsp v \<noteq> 0"
  shows "V' 0x681E = 0x7C00 \<and> V' 0x6808 = 0 \<and> \<not> bit (V' 0x6800) 0 \<and> \<not> bit (V' 0x6800) 31"
proof -
  have m: "w64 0x681E guest_RIP guest_RIP_update \<in> set g_vmx_vmcsrwfields_encodings"
    "w64 0x6808 guest_CS_base guest_CS_base_update \<in> set g_vmx_vmcsrwfields_encodings"
    "w64 0x6800 guest_CR0 guest_CR0_update \<in> set g_vmx_vmcsrwfields_encodings"
    by (simp_all add: g_vmx_vmcsrwfields_encodings_def)
  note w = m[THEN put_fields_written[OF p rw_distinct]]
  show ?thesis using w b by (simp add: w64_def field_value_def boot_vmcs_def bit_simps)
qed

lemma page_of_iff: "unat gpa div 4096 = unat (lapic_page hw) div 4096 \<longleftrightarrow> page_of gpa = lapic_page hw"
proof -
  have l: "page_of (lapic_page hw) = lapic_page hw"
    by (simp add: page_of_def lapic_page_def and.assoc)
  have "unat gpa div 4096 = unat (page_of gpa) div 4096" for gpa
  proof -
    have "unat (page_of gpa) = 4096 * (unat gpa div 4096)"
    proof -
      have "4096 * (unat gpa div 4096) \<le> unat gpa" by simp
      also have "\<dots> < 2 ^ LENGTH(32)" by (rule unsigned_less)
      finally have "4096 * (unat gpa div 4096) < 2 ^ LENGTH(32)" .
      then show ?thesis unfolding page_of_nat by (rule unat_of_nat_small)
    qed
    then show ?thesis by simp
  qed
  then show ?thesis using l by (metis page_of_nat)
qed

text \<open>The tables as they were built, less the page of the interrupt controller.\<close>

lemma launched_walk:
  assumes lay: "ept_layout b v" and bu: "ept_built b v m"
    and m': "\<And>x. x \<in> ept_bytes v \<Longrightarrow> m' x = st64 m (elem64 (vmx_vaddr_ept_p_tables v)
      (unat (lapic_page hw) div 4096)) (ucast (lapic_page hw)) x"
  shows "launched_map b hw m' (ept_root b v)"
proof -
  note up = ept_built_upper[OF bu] and i = page_index[of "lapic_page hw"]
  have z: "(ucast (lapic_page hw) :: u64) AND 7 = 0"
    by (rule u64_bitsI) (simp add: lapic_page_def bit_simps bit_numeral_rec)
  have "ept_walk b m' (ept_root b v) (ucast gpa)
      = (if page_of gpa = lapic_page hw then None else ept_walk b m (ept_root b v) (ucast gpa))" for gpa
    using ept_walk_agree[OF lay ept_upper_leaf_store[OF lay up i], of m'] m' ept_walk_unmap[OF lay up i z]
    by (simp add: page_of_iff)
  then show ?thesis by (simp add: launched_map_def ept_walk_built[OF lay bu])
qed

lemma memorytypes_irrelevant [simp]:
  "ept_bytes (v\<lparr>vmx_ept_memorytypes := t\<rparr>) = ept_bytes v" "ept_root b (v\<lparr>vmx_ept_memorytypes := t\<rparr>) = ept_root b v"
  by (simp_all add: ept_bytes_def)

text \<open>The main function of the boot processor, from a core whose buffers are laid out.\<close>

lemma runtime_main_result:
  fixes s :: xmhf_state
  assumes L: "launchable P hw" and v: "cpu_vendor (vcpus s vp) = CPU_VENDOR_INTEL" "isbsp (vcpus s vp) \<noteq> 0"
    and n: "1 < length (g_midtable s)" and e: "early \<noteq> 0" and lay: "ept_layout (rpb s) (vcpus s vp)"
    and d: "span (vmx_vmcs_vaddr (vcpus s vp)) 4 \<inter> ept_bytes (vcpus s vp) = {}"
  shows "\<exists>V' s'. xmhf_runtime_main P hw V vp early s = Inr (V', s') \<and> ept_hw (rpb s') (vcpus s' vp) V' \<and> rpb s' = rpb s
    \<and> V' 0x681E = 0x7C00 \<and> V' 0x6808 = 0 \<and> \<not> bit (V' 0x6800) 0 \<and> \<not> bit (V' 0x6800) 31
    \<and> launched_map (rpb s) hw (mem s') (hw_eptp V')"
proof -
  obtain s1 where s1: "xmhf_baseplatform_arch_cpuinitialize P hw s = Inr s1" "core_key vp s1 = core_key vp s"
    using cpuinitialize_result[OF L] by blast
  obtain s2 where s2: "xmhf_partition_arch_x86vmx_initializemonitor P hw vp s1 = Inr s2" "core_key vp s2 = core_key vp s"
    using initializemonitor_result[OF L, where vp = vp and s = s1] s1(2) by auto
  define s3 where "s3 = xmhf_partition_arch_x86vmx_setupguestOSstate P hw vp s2"
  have k3: "core_key vp s3 = core_key vp s" using s2(2) by (simp add: s3_def)
  note K3 = core_keyD[OF k3]
  have b3: "boot_vmcs (vcpus s2 vp) (vmcs_of vp s3)" unfolding s3_def by (rule setupguestOSstate_boot)
  have "mtrr_support hw" "sane_types hw" using L by (simp_all add: launchable_def)
  then obtain s4 mts where s4: "xmhf_memprot_arch_x86vmx_initialize hw vp s3 = Inr s4"
      "ept_built (rpb s3) ((vcpus s3 vp)\<lparr>vmx_ept_memorytypes := mts\<rparr>) (mem s4)"
      "ept_layout (rpb s3) ((vcpus s3 vp)\<lparr>vmx_ept_memorytypes := mts\<rparr>)"
    using vmx_initialize_result[where s = s3 and vp = vp and hw = hw] v(1) lay K3 by auto
  note f = memprot_frame[OF s4(1) \<open>mtrr_support hw\<close>]
  have k4: "core_key vp s4 = core_key vp s" using f(1) k3 by simp
  note K4 = core_keyD[OF k4]
  obtain s5 where s5: "xmhf_smpguest_arch_initialize hw vp s4 = Inr s5" "core_key vp s5 = core_key vp s4"
      "vmcs_of vp s5 = vmcs_of vp s4"
      "mem s5 = st64 (mem s4) (elem64 (vmx_vaddr_ept_p_tables (vcpus s4 vp)) (unat (lapic_page hw) div 4096)) (ucast (lapic_page hw))"
    using smpguest_bsp_result[OF L, where s = s4 and vp = vp] K4 v n by auto
  have k5: "core_key vp s5 = core_key vp s" using s5(2) k4 by simp
  note K5 = core_keyD[OF k5]
  have on5: "ept_on vp s5" using f(3) s5(3) K5 K4 core_keyD[OF s5(2)] k5 k4 by (simp add: ept_on_def core_key_def Let_def)
  obtain V' s6 where s6: "xmhf_partition_arch_x86vmx_start P vp V s5 = Inr (V', s6)" "ept_hw (rpb s6) (vcpus s6 vp) V'"
      "core_key vp s6 = core_key vp s5" "put_fields (vmwrite_ok P) (vmcs_of vp s5) g_vmx_vmcsrwfields_encodings V = Inr V'"
      "\<And>x. x \<notin> span (vmx_vmcs_vaddr (vcpus s5 vp)) 4 \<Longrightarrow> mem s6 x = mem s5 x"
    using start_result[OF L, where s = s5 and vp = vp and V = V and v = "vcpus s2 vp"] f(2)[OF b3] on5 s5(3) by auto
  have k6: "core_key vp s6 = core_key vp s" using s6(3) k5 by simp
  note K6 = core_keyD[OF k6]
  have run: "xmhf_runtime_main P hw V vp early s = Inr (V', s6)"
    using s1(1) s2(1) s4(1) s5(1) s6(1) e core_keyD(3)[OF s1(2)] core_keyD(3)[OF s2(2)] K3(3) K5(3) v(1)
    by (simp add: xmhf_runtime_main_def s3_def xmhf_memprot_initialize_def xmhf_memprot_arch_initialize_def
      xmhf_partition_arch_initializemonitor_def xmhf_partition_arch_setupguestOSstate_def xmhf_partition_arch_start_def
      xmhf_app_main_def Let_def xconst)
  have boot: "V' 0x681E = 0x7C00 \<and> V' 0x6808 = 0 \<and> \<not> bit (V' 0x6800) 0 \<and> \<not> bit (V' 0x6800) 31"
    using boot_hw[OF s6(4), of "vcpus s2 vp"] f(2)[OF b3] s5(3) core_keyD(4)[OF s2(2)] v(2) by simp
  have "mem s6 x = st64 (mem s4) (elem64 (vmx_vaddr_ept_p_tables (vcpus s vp)) (unat (lapic_page hw) div 4096))
      (ucast (lapic_page hw)) x" if "x \<in> ept_bytes (vcpus s vp)" for x
    using s6(5)[of x] s5(4) K4(6) K5(5) d that by auto
  then have "launched_map (rpb s) hw (mem s6) (ept_root (rpb s) (vcpus s vp))"
    using launched_walk[OF s4(3,2), of "mem s6" hw] K3(1,6,8,10) by simp
  moreover have "hw_eptp V' = ept_root (rpb s) (vcpus s vp)" using ept_hw_eptp[OF s6(2)] K6 by simp
  ultimately show ?thesis using run s6(2) K6(1) boot by auto
qed

section \<open>From the entry of the runtime to the guest\<close>

text \<open>Where the boot module lies decides nothing about the translation.\<close>

lemma boot_module_irrelevant [simp]:
  "in_xmhf_region (b\<lparr>XtGuestOSBootModuleBase := x\<rparr>) = in_xmhf_region b"
  "ept_walk (b\<lparr>XtGuestOSBootModuleBase := x\<rparr>) = ept_walk b"
  "buffers_ok (b\<lparr>XtGuestOSBootModuleBase := x\<rparr>) L = buffers_ok b L"
  "spa_aligned (b\<lparr>XtGuestOSBootModuleBase := x\<rparr>) a = spa_aligned b a"
  "launched_map (b\<lparr>XtGuestOSBootModuleBase := x\<rparr>) hw m e = launched_map b hw m e"
proof -
  show r: "in_xmhf_region (b\<lparr>XtGuestOSBootModuleBase := x\<rparr>) = in_xmhf_region b" by (simp add: fun_eq_iff in_xmhf_region_def)
  show w: "ept_walk (b\<lparr>XtGuestOSBootModuleBase := x\<rparr>) = ept_walk b" by (simp add: fun_eq_iff ept_walk_def walk_entry_def spa2hva1_def)
  show "buffers_ok (b\<lparr>XtGuestOSBootModuleBase := x\<rparr>) L = buffers_ok b L" by (simp add: buffers_ok_def spa_aligned_def)
  show "spa_aligned (b\<lparr>XtGuestOSBootModuleBase := x\<rparr>) a = spa_aligned b a" by (simp add: spa_aligned_def)
  show "launched_map (b\<lparr>XtGuestOSBootModuleBase := x\<rparr>) hw m e = launched_map b hw m e" by (simp add: launched_map_def r w)
qed

lemma runtime_entry_result:
  assumes "machine_ok hw" "xmhf_baseplatform_arch_getcpuvendor hw = Inr vendor" "xmhf_baseplatform_arch_x86_acpi_getRSDP (mem s) \<noteq> 0"
  shows "\<exists>s0. xmhf_runtime_entry L P E hw tmp ids s = xmhf_baseplatform_arch_smpinitialize L P hw ids s0
    \<and> rpb s0 = (rpb s)\<lparr>XtGuestOSBootModuleBase := x_boot_OS_module L\<rparr> \<and> g_midtable s0 = g_midtable s
    \<and> (no_wrmsr (hwlog s) \<longrightarrow> no_wrmsr (hwlog s0))"
  using assms
  by (simp add: xmhf_runtime_entry_def xmhf_baseplatform_arch_initialize_def xmhf_baseplatform_arch_x86_pci_initialize_def
      machine_ok_def xmhf_xcphandler_arch_initialize_def Let_def del: bindE_eq_Inr)
    (rule exI, rule conjI, rule refl, auto simp: no_wrmsr_def)

lemma entry_allocates:
  fixes s :: xmhf_state
  assumes "inj_on (vcpu_ptr L) {..<8}" "length ids \<le> 8" "g_midtable s = []" "machine_ok hw"
    and "xmhf_baseplatform_arch_getcpuvendor hw = Inr vendor" "xmhf_baseplatform_arch_x86_acpi_getRSDP (mem s) \<noteq> 0"
  shows "\<exists>s1. xmhf_runtime_entry L P E hw tmp ids s = Inr s1 \<and> allocated (vendor_vcpu L vendor) L ids s1
    \<and> rpb s1 = (rpb s)\<lparr>XtGuestOSBootModuleBase := x_boot_OS_module L\<rparr> \<and> (no_wrmsr (hwlog s) \<longrightarrow> no_wrmsr (hwlog s1))"
proof -
  obtain s0 where s0: "xmhf_runtime_entry L P E hw tmp ids s = xmhf_baseplatform_arch_smpinitialize L P hw ids s0"
      "rpb s0 = (rpb s)\<lparr>XtGuestOSBootModuleBase := x_boot_OS_module L\<rparr>" "g_midtable s0 = []"
      "no_wrmsr (hwlog s) \<longrightarrow> no_wrmsr (hwlog s0)"
    using runtime_entry_result[OF assms(4-6)] assms(3) by metis
  then show ?thesis using smpinitialize_result[OF assms(1,2) s0(3) assms(4,5), of P] by auto
qed

lemma isbsp_result:
  assumes "machine_ok hw" "bit (fst (rdmsr hw MSR_APIC_BASE)) 8"
  shows "xmhf_baseplatform_arch_x86_isbsp hw = Inr 1"
proof -
  have "fst (rdmsr hw MSR_APIC_BASE) AND 0x100 \<noteq> 0"
    using assms(2) and_nonzero_iff_bit[of "fst (rdmsr hw MSR_APIC_BASE)" 8] by simp
  then show ?thesis
    using assms(1) by (simp add: machine_ok_def xmhf_baseplatform_arch_x86_isbsp_def Let_def case_prod_beta)
qed

lemma launch_result:
  fixes s :: xmhf_state
  assumes "launchable P hw" "buffers_ok (rpb s) L" "1 < length ids" "length ids \<le> 8" "i < length ids"
    "g_midtable s = []" "isEarlyInit (rpb s) \<noteq> 0" "bit (fst (rdmsr hw MSR_APIC_BASE)) 8"
    "xmhf_baseplatform_arch_x86_acpi_getRSDP (mem s) \<noteq> 0"
  shows "\<exists>s1 V' s'. xmhf_runtime_entry L P E hw tmp ids s = Inr s1
    \<and> xmhf_baseplatform_arch_x86_smpinitialize_commonstart P hw V (vcpu_ptr L i) s1 = Inr (V', s')
    \<and> V' 0x681E = 0x7C00 \<and> V' 0x6808 = 0 \<and> \<not> bit (V' 0x6800) 0 \<and> \<not> bit (V' 0x6800) 31
    \<and> launched_map (rpb s) hw (mem s') (hw_eptp V')
    \<and> (\<forall>fuel E ok r V2 r2 s2. guest_run (quiesce_app fuel E) no_quiesce_call hw ok (runtime_addresses (vcpu_ptr L i) s')
           (vcpu_ptr L i) (V', r, s') (V2, r2, s2)
         \<longrightarrow> hw_eptp V2 = hw_eptp V' \<and> bit (V2 0x401E) 1)"
proof -
  let ?vp = "vcpu_ptr L i"
  have h: "inj_on (vcpu_ptr L) {..<8}" "machine_ok hw"
    "xmhf_baseplatform_arch_getcpuvendor hw = Inr CPU_VENDOR_INTEL"
    using assms(1,2)
    by (simp_all add: buffers_ok_def launchable_def xmhf_baseplatform_arch_getcpuvendor_def AMD_STRING_def INTEL_STRING_def)
  obtain s1 where s1: "xmhf_runtime_entry L P E hw tmp ids s = Inr s1"
      "allocated (vendor_vcpu L CPU_VENDOR_INTEL) L ids s1" "rpb s1 = (rpb s)\<lparr>XtGuestOSBootModuleBase := x_boot_OS_module L\<rparr>"
    using entry_allocates[OF h(1) assms(4,6) h(2,3) assms(9)] by blast
  have v: "vcpus s1 ?vp = new_vcpu L CPU_VENDOR_INTEL i (ids ! i)" "length (g_midtable s1) = length ids"
    using s1(2) assms(5) by (simp_all add: allocated_def vendor_vcpu_def xconst)
  have "i < 8" using assms(4,5) by simp
  note lay = new_vcpu_layout[OF assms(2) this, of CPU_VENDOR_INTEL "ids ! i"]
  note b = isbsp_result[OF h(2) assms(8)]
  define s2 :: xmhf_state where "s2 = upd_vcpu ?vp (\<lambda>v. v\<lparr>isbsp := 1\<rparr>) s1"
  have "ept_layout (rpb s2) (vcpus s2 ?vp)" "span (vmx_vmcs_vaddr (vcpus s2 ?vp)) 4 \<inter> ept_bytes (vcpus s2 ?vp) = {}"
    "cpu_vendor (vcpus s2 ?vp) = CPU_VENDOR_INTEL" "isbsp (vcpus s2 ?vp) \<noteq> 0" "1 < length (g_midtable s2)"
    "rpb s2 = (rpb s)\<lparr>XtGuestOSBootModuleBase := x_boot_OS_module L\<rparr>"
    using lay v s1(3) assms(3) by (simp_all add: s2_def ept_layout_def tables_disjoint_def ept_bytes_def) (simp add: new_vcpu_def)
  then obtain V' s' where r: "xmhf_runtime_main P hw V ?vp (isEarlyInit (rpb s2)) s2 = Inr (V', s')"
    "ept_hw (rpb s') (vcpus s' ?vp) V'" "V' 0x681E = 0x7C00 \<and> V' 0x6808 = 0 \<and> \<not> bit (V' 0x6800) 0 \<and> \<not> bit (V' 0x6800) 31"
    "launched_map (rpb s) hw (mem s') (hw_eptp V')"
    using runtime_main_result[OF assms(1), where s = s2 and vp = ?vp and early = "isEarlyInit (rpb s2)" and V = V] assms(7)
    by auto
  have c: "xmhf_baseplatform_arch_x86_smpinitialize_commonstart P hw V ?vp s1 = Inr (V', s')"
    using b r(1) by (simp add: xmhf_baseplatform_arch_x86_smpinitialize_commonstart_def s2_def Let_def)
  have g: "hw_eptp V2 = hw_eptp V' \<and> bit (V2 0x401E) 1"
    if "guest_run (quiesce_app fuel E) no_quiesce_call hw ok (runtime_addresses ?vp s') ?vp (V', r, s') (V2, r2, s2)"
    for fuel E ok r V2 r2 s2
  proof -
    have "ept_hw (rpb s2) (vcpus s2 ?vp) V2 \<and> core_tables ?vp s2 = core_tables ?vp s'"
      using guest_run_keeps_ept[OF that r(2) runtime_addresses_tables] by simp
    then have "ept_hw (rpb s') (vcpus s' ?vp) V2" using ept_hw_tables[of ?vp s2 s' V2] by simp
    then show ?thesis using r(2) by (simp add: ept_hw_eptp) (simp add: ept_hw_def)
  qed
  show ?thesis using s1(1) c r(3,4) g by blast
qed

text \<open>
  C1: the hypervisor launches its guest isolated. On an Intel processor that supports what the hypervisor
  needs, with buffers as the linker lays them out, the runtime runs from its entry to the launch on the boot processor.
  At that moment the processor's VMCS has the guest begin in real mode at the boot sector, with
  nested paging on, and the walk from the EPT pointer the processor holds reaches no byte of the
  hypervisor's memory and not the page of the local interrupt controller, while every other page
  of the 4 GB is mapped to itself. And after any run of the guest whose exits are confined (no quiesce
  hypercall, whose store through a register of the guest is unchecked, and no E820 request that reaches
  into the runtime) the processor still has nested paging on, with the pointer of the launch.
\<close>

theorem guest_launched_isolated:
  fixes s :: xmhf_state
  assumes "launchable P hw" "buffers_ok (rpb s) L" "1 < length ids" "length ids \<le> 8" "i < length ids"
    "g_midtable s = []" "isEarlyInit (rpb s) \<noteq> 0" "bit (fst (rdmsr hw MSR_APIC_BASE)) 8"
    "xmhf_baseplatform_arch_x86_acpi_getRSDP (mem s) \<noteq> 0"
  shows "\<exists>s1 V' s'. xmhf_runtime_entry L P E hw tmp ids s = Inr s1
    \<and> xmhf_baseplatform_arch_x86_smpinitialize_commonstart P hw V (vcpu_ptr L i) s1 = Inr (V', s')
    \<and> V' 0x681E = 0x7C00 \<and> V' 0x6808 = 0 \<and> \<not> bit (V' 0x6800) 0 \<and> \<not> bit (V' 0x6800) 31
    \<and> launched_map (rpb s) hw (mem s') (hw_eptp V')
    \<and> (\<forall>fuel E ok r V2 r2 s2. guest_run (quiesce_app fuel E) no_quiesce_call hw ok (runtime_addresses (vcpu_ptr L i) s')
           (vcpu_ptr L i) (V', r, s') (V2, r2, s2)
         \<longrightarrow> hw_eptp V2 = hw_eptp V' \<and> bit (V2 0x401E) 1)"
  using assms by (rule launch_result)

text \<open>Two cores of a processor with VMX, the hypervisor's 128 MB at 256 MB.\<close>

definition launch_hw :: hardware where
  "launch_hw = sample_hw\<lparr>
     cpuid := (\<lambda>eax ecx. if eax = 0 then (0, 0x756E6547, 0x6C65746E, 0x49656E69) else (0, 0, 0x20, 0x1000)),
     rdmsr := (rdmsr sample_hw)(MSR_APIC_BASE := (0xFEE00900, 0)), inb := (\<lambda>p. 0x20), inl := (\<lambda>p. 0x80000000)\<rparr>"

definition launch_platform :: platform where
  "launch_platform = \<lparr>boot_cr0 = 0x11, boot_cr3 = 0, boot_cr4 = 0x20, seg_cs = 8, seg_ds = 0x10, seg_es = 0x10,
     seg_fs = 0x10, seg_gs = 0x10, seg_ss = 0x10, tr_sel = 0x18, x_gdt_start = 0x10300000, x_idt_start = 0x10301000,
     g_runtime_TSS = 0x10302000, vmx_entry = 0x10303000, vmxon_ok = (\<lambda>a. True), vmclear_ok = (\<lambda>a. True),
     vmptrld_ok = (\<lambda>a. True), vmwrite_ok = (\<lambda>e x. True), vmlaunch_error = (\<lambda>V. None)\<rparr>"

definition launch_buffers :: buffers where
  "launch_buffers = \<lparr>g_vcpubuffers = 0x10100000, SIZE_STRUCT_VCPU = 0x2000, g_cpustacks = 0x10120000,
     g_vmx_vmxon_buffers = 0x10140000, g_vmx_vmcs_buffers = 0x10080000, g_vmx_iobitmap_buffer = 0x10150000,
     g_vmx_msr_area_host_buffers = 0x10160000, g_vmx_msr_area_guest_buffers = 0x10170000,
     g_vmx_msrbitmap_buffers = 0x10180000, g_vmx_ept_pml4_table_buffers = 0x10010000,
     g_vmx_ept_pdp_table_buffers = 0x10020000, g_vmx_ept_pd_table_buffers = 0x10040000,
     g_vmx_ept_p_table_buffers = 0x11000000, g_svm_hsave_buffers = 0x10200000, g_svm_vmcb_buffers = 0x10220000,
     g_svm_iobitmap_buffer = 0x10240000, g_svm_npt_pdpt_buffers = 0x10250000, g_svm_npt_pdts_buffers = 0x10260000,
     g_svm_npt_pts_buffers = 0x16000000, ap_bootstrap_start = 0x10320000, ap_bootstrap_end = 0x10320400,
     ap_cr3_value = 0x10320010, ap_cr4_value = 0x10320014, x_boot_OS_module = 0x10310000\<rparr>"

text \<open>The extended BIOS data area at \<^verbatim>\<open>0x80000\<close> begins with the ACPI root pointer.\<close>

definition launch_memory :: memory where
  "launch_memory = (\<lambda>_. 0)(0x40F := 0x80, 0x80000 := 0x52, 0x80001 := 0x53, 0x80002 := 0x44, 0x80003 := 0x20, 0x80004 := 0x50,
     0x80005 := 0x54, 0x80006 := 0x52, 0x80007 := 0x20, 0x80008 := 0xE1)"

lemma launch_rsdp: "xmhf_baseplatform_arch_x86_acpi_getRSDP launch_memory \<noteq> 0"
proof -
  have "ld16 launch_memory 0x40E = 0x8000" "ld64 launch_memory 0x80000 = 0x2052545020445352"
    by (simp_all add: ld16_bytes ld64_bytes launch_memory_def)
  moreover have "acpi_computetablechecksum launch_memory 0x80000 20 = 0"
    by (simp add: acpi_computetablechecksum_def launch_memory_def upt_rec)
  ultimately have "rsdp_valid launch_memory 0x80000" by (simp add: rsdp_valid_def xconst)
  then show ?thesis
    using \<open>ld16 launch_memory 0x40E = 0x8000\<close>
    by (simp add: xmhf_baseplatform_arch_x86_acpi_getRSDP_def paragraphs_def upt_conv_Cons)
qed

definition launch_state :: xmhf_state where
  "launch_state = sample_state\<lparr>mem := launch_memory, rpb := sample_rpb\<lparr>XtVmmRuntimeSize := 0x8000000, isEarlyInit := 1\<rparr>\<rparr>"

lemma launch_launchable: "launchable launch_platform launch_hw"
proof -
  have n: "num_vmtrrs launch_hw = 2" using sample_hw_support(2) by (simp add: num_vmtrrs_def launch_hw_def xconst)
  have "sane_types launch_hw" unfolding sane_types_def n
  proof (intro allI impI)
    fix i :: nat assume "i < 2"
    then have "i = 0 \<or> i = 1" by linarith
    then show "(ucast (read_msr64 launch_hw (0x200 + 2 * of_nat i)) AND 0xFF :: u32) \<in> {MTRR_TYPE_UC, MTRR_TYPE_WT, MTRR_TYPE_WB}"
      by (elim disjE) (simp_all add: read_msr64_def launch_hw_def sample_hw_def xconst)
  qed
  then show ?thesis
    by (simp add: launchable_def machine_ok_def launch_platform_def launch_hw_def cpu_string_def INTEL_STRING_def mtrr_support_def
      num_vmtrrs_def sample_hw_def pci_type1_works_def xconst bit_numeral_rec)
qed

lemma launch_buffers_ok: "buffers_ok (rpb launch_state) launch_buffers"
proof -
  have "inj_on (vcpu_ptr launch_buffers) {..<8}"
    by (simp add: inj_on_def vcpu_ptr_def launch_buffers_def lessThan_nat_numeral lessThan_Suc)
  moreover have "apart [(0x10010000, 8 * 4096), (0x10020000, 8 * 4096), (0x10040000, 8 * 16384),
      (0x11000000, 8 * 8388608), (0x10080000, 8 * 4096)]"
    by (simp add: span_disjointI)
  ultimately show ?thesis
    by (simp add: buffers_ok_def launch_buffers_def launch_state_def sample_rpb_def spa_aligned_def)
qed

theorem guest_launched_isolated_witness:
  "\<exists>s1 V s. xmhf_runtime_entry launch_buffers launch_platform sample_env launch_hw 0 [0, 2] launch_state = Inr s1
    \<and> xmhf_baseplatform_arch_x86_smpinitialize_commonstart launch_platform launch_hw (\<lambda>_. 0) 0x10100000 s1 = Inr (V, s)
    \<and> V 0x681E = 0x7C00 \<and> ept_walk (rpb launch_state) (mem s) (hw_eptp V) 0x10200000 = None
    \<and> ept_walk (rpb launch_state) (mem s) (hw_eptp V) 0xFEE00020 = None
    \<and> (\<exists>mt. ept_walk (rpb launch_state) (mem s) (hw_eptp V) 0x7C00 = Some (0x7C00, 7, mt))"
proof -
  have h: "isEarlyInit (rpb launch_state) \<noteq> 0" "g_midtable launch_state = []" "bit (fst (rdmsr launch_hw MSR_APIC_BASE)) 8"
    "vcpu_ptr launch_buffers 0 = 0x10100000" "lapic_page launch_hw = 0xFEE00000"
    by (simp_all add: launch_state_def sample_rpb_def sample_state_def launch_hw_def xconst bit_numeral_rec vcpu_ptr_def
      launch_buffers_def lapic_page_def)
  have "xmhf_baseplatform_arch_x86_acpi_getRSDP (mem launch_state) \<noteq> 0" using launch_rsdp by (simp add: launch_state_def)
  with guest_launched_isolated[OF launch_launchable launch_buffers_ok, of "[0, 2]" 0 sample_env 0 "\<lambda>_. 0", unfolded h(4)] h(1-3)
  obtain s1 V s where r: "xmhf_runtime_entry launch_buffers launch_platform sample_env launch_hw 0 [0, 2] launch_state = Inr s1"
    "xmhf_baseplatform_arch_x86_smpinitialize_commonstart launch_platform launch_hw (\<lambda>_. 0) 0x10100000 s1 = Inr (V, s)"
    "V 0x681E = 0x7C00" "launched_map (rpb launch_state) launch_hw (mem s) (hw_eptp V)" by auto
  have p: "page_of 0x10200000 = 0x10200000" "page_of 0xFEE00020 = 0xFEE00000" "page_of 0x7C00 = 0x7000"
    "in_xmhf_region (rpb launch_state) 0x10200000" "\<not> in_xmhf_region (rpb launch_state) 0x7000"
    by (simp_all add: page_of_def in_xmhf_region_def launch_state_def sample_rpb_def xconst)
  have w: "if in_xmhf_region (rpb launch_state) (page_of gpa) \<or> page_of gpa = lapic_page launch_hw
     then ept_walk (rpb launch_state) (mem s) (hw_eptp V) (ucast gpa) = None
     else \<exists>mt. ept_walk (rpb launch_state) (mem s) (hw_eptp V) (ucast gpa) = Some (ucast gpa, 7, mt)" for gpa
    using r(4) unfolding launched_map_def by blast
  show ?thesis
    using r w[of "0x10200000"] w[of "0xFEE00020"] w[of "0x7C00"] p h(5) by simp
qed

end
