(* ===== verification/XMHF_BootProps.thy ===== *)
theory XMHF_BootProps
  imports XMHF_SecureLoader XMHF_LaunchProps
begin

text \<open>
  From the boot loader to the guest: what the boot loader reserves in the memory map, what the secure loader hands to
  the runtime and what nested paging protects when the guest is launched are the same region.
\<close>

section \<open>What the boot loader hands over\<close>

lemma setupvcpus_keeps:
  "boot_slpb (setupvcpus L vendor b) = boot_slpb b \<and> boot_base (setupvcpus L vendor b) = boot_base b"
proof -
  have "boot_slpb (fold (\<lambda>i b. b\<lparr>boot_vcpus := f i b, midtable := g i b\<rparr>) is b) = boot_slpb b
      \<and> boot_base (fold (\<lambda>i b. b\<lparr>boot_vcpus := f i b, midtable := g i b\<rparr>) is b) = boot_base b"
    for f and g :: "nat \<Rightarrow> boot_state \<Rightarrow> MIDTAB list" and "is" by (induction "is" arbitrary: b) simp_all
  then show ?thesis unfolding setupvcpus_def .
qed

lemma boot_send_keeps: "boot_send hw icr cmd b = Inr b' \<Longrightarrow> boot_slpb b' = boot_slpb b \<and> boot_base b' = boot_base b"
  by (auto simp: boot_send_def Let_def split: if_splits)

lemma wakeupAPs_keeps: "wakeupAPs hw ap b = Inr b' \<Longrightarrow> boot_slpb b' = boot_slpb b \<and> boot_base b' = boot_base b"
  by (auto simp: wakeupAPs_def case_prod_beta Let_def dest!: boot_send_keeps)

lemma start_cores_keeps: "start_cores L ap hw vendor b = Inr b' \<Longrightarrow> boot_slpb b' = boot_slpb b \<and> boot_base b' = boot_base b"
  by (auto simp: start_cores_def Let_def setupvcpus_keeps split: if_splits dest!: wakeupAPs_keeps)

text \<open>The size of the image of the secure loader and the runtime: the first module.\<close>

definition sl_rt_size :: "memory \<Rightarrow> multiboot_info_t \<Rightarrow> u32" where
  "sl_rt_size m mbi = mod_end m (mods_addr mbi) 0 - mod_start m (mods_addr mbi) 0"

lemma cstartup_result:
  assumes "cstartup L ap hw fuel m mbi = Inr bt"
    and far: "span (mods_addr mbi) 8 \<inter> span TARGET_BASE_SL (unat (sl_rt_size m mbi)) = {}"
  shows "\<exists>es. dealwithE820 m mbi (PAGE_ALIGN_UP2M (sl_rt_size m mbi)) = Inr (TARGET_BASE_SL, es) \<and> boot_base bt = TARGET_BASE_SL
    \<and> memmapbuffer (boot_slpb bt) = es \<and> slpb_isEarlyInit (boot_slpb bt) = 1 \<and> 0x200000 < sl_rt_size m mbi
    \<and> runtime_size (boot_slpb bt) = sl_rt_size m mbi - PAGE_SIZE_2M \<and> length (cpuinfobuffer (boot_slpb bt)) \<le> MAX_MIDTAB_ENTRIES"
proof -
  obtain vendor cores base es mt where r: "dealwithMP fuel m = Inr cores"
      "dealwithE820 m mbi (PAGE_ALIGN_UP2M (sl_rt_size m mbi)) = Inr (base, es)" "sl_rt_size m mbi > 0x200000"
      "boot_midtable cores = Inr mt"
    and e: "start_cores L ap hw vendor \<lparr>boot_mem = memcpy (unat (sl_rt_size m mbi)) base (mod_start m (mods_addr mbi) 0) m,
        boot_base = base, boot_slpb = fill_slpb (memcpy (unat (sl_rt_size m mbi)) base (mod_start m (mods_addr mbi) 0) m) mbi (base + 0x10000) es cores,
        midtable = mt, boot_vcpus = (\<lambda>_. zero_VCPU), boot_log = []\<rparr> = Inr bt"
    using assms(1) unfolding cstartup_def sl_rt_size_def[symmetric] Let_def by (auto split: if_splits)
  have base: "base = TARGET_BASE_SL" using r(2) by (auto simp: dealwithE820_def split: if_splits)
  define m' where "m' = memcpy (unat (sl_rt_size m mbi)) base (mod_start m (mods_addr mbi) 0) m"
  have s: "boot_slpb bt = fill_slpb m' mbi (base + 0x10000) es cores" "boot_base bt = base"
    using start_cores_keeps[OF e] by (simp_all add: m'_def)
  have o: "m' x = m x" if "x \<in> span (mods_addr mbi) 8" for x
    unfolding m'_def by (rule memcpy_outside) (use far that base unsigned_less[of "sl_rt_size m mbi", where 'a=nat] in auto)
  have l: "ld32 m' (mods_addr mbi + k) = ld32 m (mods_addr mbi + k)" if "unat k \<le> 4" for k
  proof (rule ld32_cong)
    fix b assume "b \<in> span (mods_addr mbi + k) 4"
    then have "b \<in> span (mods_addr mbi) 8" by (rule span_shift[rotated]) (use that in simp)
    then show "m' b = m b" by (rule o)
  qed
  have "mod_start m' (mods_addr mbi) 0 = mod_start m (mods_addr mbi) 0" "mod_end m' (mods_addr mbi) 0 = mod_end m (mods_addr mbi) 0"
    using l[of 0] l[of 4] by (simp_all add: mod_start_def mod_end_def)
  moreover have "length (take (fst cores) (snd cores)) \<le> MAX_MIDTAB_ENTRIES"
    using r(4) by (auto simp: boot_midtable_def split: if_splits)
  ultimately show ?thesis using r s base by (simp add: fill_slpb_def Let_def sl_rt_size_def)
qed

section \<open>The protected region is the reserved one\<close>

lemma region_is_image:
  assumes "XtVmmRuntimePhysBase b = TARGET_BASE_SL + PAGE_SIZE_2M" "XtVmmRuntimeSize b = sz - PAGE_SIZE_2M" "sz \<le> 0xE0000000"
  shows "in_xmhf_region b pa \<longleftrightarrow> unat pa \<in> {0x10000000 ..< 0x10000000 + unat sz}"
proof -
  have "unat sz \<le> 0xE0000000" using assms(3) by (simp add: word_le_nat_alt)
  then have "unat (0x10000000 + sz) = 0x10000000 + unat sz" by (subst unat_add_lem[THEN iffD1]) simp_all
  then show ?thesis by (auto simp: in_xmhf_region_def assms(1,2) xconst word_le_nat_alt word_less_nat_alt)
qed

lemma page_of_le: "unat (page_of pa) = 4096 * (unat pa div 4096)"
proof -
  have "4096 * (unat pa div 4096) < 2 ^ LENGTH(32)" using unsigned_less[of pa, where 'a=nat] by simp
  then show ?thesis unfolding page_of_nat by (rule unat_of_nat_small)
qed

lemma page_in_region:
  assumes "lo \<le> unat pa" "unat pa < hi" "4096 dvd lo"
  shows "lo \<le> unat (page_of pa)" "unat (page_of pa) < hi"
  using assms unfolding page_of_le by (auto elim!: dvdE)

lemma page_outside_region:
  assumes "unat pa \<notin> {lo ..< hi}" "4096 dvd lo" "4096 dvd hi"
  shows "unat (page_of pa) \<notin> {lo ..< hi}"
  using assms unfolding page_of_le by (auto elim!: dvdE)

text \<open>
  C2: from the boot loader to the guest, one region. When the boot loader runs to the start of the secure loader, the
  secure loader sets up the runtime and the runtime's boot processor launches the guest, then the region nested paging
  takes from the guest is exactly the moved image of secure loader and runtime; it is reserved in the memory map handed to
  the guest, and no access of the guest reaches it. Conversely every address below 4 GB the map shows as usable is
  mapped to itself with all rights, but for the page of the local interrupt controller.
\<close>

theorem boot_map_matches_protection:
  fixes s :: xmhf_state
  assumes boot: "cstartup Lb ap hw fuel m mbi = Inr bt"
    and sl: "xmhf_sl_main vendor (boot_base bt) (boot_slpb bt) b0 = Inr (b, es', cpus)"
    and grab: "grab_e820 m (mmap_addr mbi) (mmap_addr mbi + mmap_length mbi) [] = Inr es" "disjoint_map es"
    and image: "sl_rt_size m mbi \<le> 0xE0000000" "span (mods_addr mbi) 8 \<inter> span TARGET_BASE_SL (unat (sl_rt_size m mbi)) = {}"
    and run: "rpb s = b" "launchable P hw" "buffers_ok b L" "g_midtable s = []" "bit (fst (rdmsr hw MSR_APIC_BASE)) 8"
      "xmhf_baseplatform_arch_x86_acpi_getRSDP (mem s) \<noteq> 0"
    and cores: "1 < length cpus" "i < length cpus"
  shows "\<exists>s1 V' s'. xmhf_runtime_entry L P E hw tmp (map lapic_id cpus) s = Inr s1
    \<and> xmhf_baseplatform_arch_x86_smpinitialize_commonstart P hw V (vcpu_ptr L i) s1 = Inr (V', s')
    \<and> (\<forall>pa. in_xmhf_region b pa \<longleftrightarrow> unat pa \<in> {0x10000000 ..< 0x10000000 + unat (sl_rt_size m mbi)})
    \<and> (\<forall>pa. in_xmhf_region b pa \<longrightarrow> unat pa \<in> memory_of 2 es' \<and> unat pa \<notin> memory_of 1 es'
         \<and> ept_walk b (mem s') (hw_eptp V') (ucast pa) = None)
    \<and> (\<forall>pa. unat pa \<in> memory_of 1 es' \<longrightarrow> page_of pa \<noteq> lapic_page hw
         \<longrightarrow> (\<exists>mt. ept_walk b (mem s') (hw_eptp V') (ucast pa) = Some (ucast pa, 7, mt)))"
proof -
  let ?sz = "sl_rt_size m mbi" and ?rs = "PAGE_ALIGN_UP2M (sl_rt_size m mbi)"
  obtain c: "dealwithE820 m mbi ?rs = Inr (TARGET_BASE_SL, es')" and b: "XtVmmRuntimePhysBase b = TARGET_BASE_SL + PAGE_SIZE_2M"
      "XtVmmRuntimeSize b = ?sz - PAGE_SIZE_2M" "isEarlyInit b = 1" "length cpus \<le> 8"
    using cstartup_result[OF boot image(2)] sl by (auto simp: xmhf_sl_main_def xconst)
  have sz: "unat ?sz \<le> 0xE0000000" using image(1) by (simp add: word_le_nat_alt)
  note up = align_up_2M[of ?sz]
  have rs: "unat ?sz \<le> unat ?rs" "4096 dvd 0x10000000 + unat ?rs" "unat ?rs < 0xE0200000"
  proof -
    show "unat ?sz \<le> unat ?rs" "unat ?rs < 0xE0200000" using up sz by simp_all
    have "unat ?rs = 4096 * (unat ?rs div 2 ^ 21 * 512)" using aligned_page[OF up(1)] sz by simp
    then have "4096 dvd unat ?rs" by (rule dvdI)
    then show "4096 dvd 0x10000000 + unat ?rs" by (rule dvd_add[rotated]) simp
  qed
  have M: "memory_of 1 es' = memory_of 1 es - {0x10000000 ..< 0x10000000 + unat ?rs}"
    "memory_of 2 es' = memory_of 2 es \<union> {0x10000000 ..< 0x10000000 + unat ?rs}"
    using revised_map[OF c grab] rs(3) by (simp_all add: xconst)
  note R = region_is_image[OF b(1,2) image(1)]
  obtain s1 V' s' where l: "xmhf_runtime_entry L P E hw tmp (map lapic_id cpus) s = Inr s1"
      "xmhf_baseplatform_arch_x86_smpinitialize_commonstart P hw V (vcpu_ptr L i) s1 = Inr (V', s')"
      "launched_map b hw (mem s') (hw_eptp V')"
    using launch_result[OF run(2), where s = s and L = L and ids = "map lapic_id cpus" and i = i and V = V and E = E and tmp = tmp] run b(3,4) cores by auto
  have w: "if in_xmhf_region b (page_of pa) \<or> page_of pa = lapic_page hw then ept_walk b (mem s') (hw_eptp V') (ucast pa) = None
     else \<exists>mt. ept_walk b (mem s') (hw_eptp V') (ucast pa) = Some (ucast pa, 7, mt)" for pa
    using l(3) unfolding launched_map_def by blast
  have inr: "unat pa \<in> memory_of 2 es' \<and> unat pa \<notin> memory_of 1 es' \<and> ept_walk b (mem s') (hw_eptp V') (ucast pa) = None"
    if "in_xmhf_region b pa" for pa
    using that M rs(1) w[of pa] page_in_region[of "0x10000000" pa "0x10000000 + unat ?sz"] by (simp add: R)
  have out: "\<exists>mt. ept_walk b (mem s') (hw_eptp V') (ucast pa) = Some (ucast pa, 7, mt)"
    if "unat pa \<in> memory_of 1 es'" "page_of pa \<noteq> lapic_page hw" for pa
  proof -
    have "unat (page_of pa) \<notin> {0x10000000 ..< 0x10000000 + unat ?rs}"
      by (rule page_outside_region) (use that(1) M rs(2) in auto)
    then have "\<not> in_xmhf_region b (page_of pa)" using rs(1) by (auto simp: R)
    then show ?thesis using w[of pa] that(2) by simp
  qed
  show ?thesis using l(1,2) R inr out by blast
qed

section \<open>An example machine\<close>

text \<open>
  The processor tables of the earlier example, a memory map of two ranges at 0x9000, three modules listed at 0x7000: the
  image of 128 MB at 4 MB, the boot sector at 3 MB, and the SINIT module of the earlier example at 0x5000.
\<close>

definition boot_tables :: memory where
  "boot_tables = sample_acpi(0x9000 := 20, 0x900D := 0xFC, 0x900E := 9, 0x9014 := 1,
     0x9018 := 20, 0x901E := 0x10, 0x9026 := 0xF0, 0x9027 := 0x3F, 0x902C := 1,
     0x7002 := 0x40, 0x7006 := 0x40, 0x7007 := 8, 0x7012 := 0x30, 0x7015 := 2, 0x7016 := 0x30, 0x7021 := 0x50,
     0x7024 := 0xE8, 0x7025 := 0x54, 0x410000 := 0xEF, 0x410001 := 0xBE, 0x410002 := 0xAD, 0x410003 := 0xDE)"

definition boot_memory :: memory where
  "boot_memory = (\<lambda>a. if unat (a - 0x5000) < 0x4E8 then sample_acm a else boot_tables a)"

definition boot_mbi :: multiboot_info_t where
  "boot_mbi = sample_mbi\<lparr>mods_count := 3, mods_addr := 0x7000\<rparr>"

lemmas boot_bytes = boot_memory_def boot_tables_def sample_acpi_def

lemma boot_loads:
  "read_mmap boot_memory 0x9000 = low_entry 0 0x9FC00 1" "read_mmap boot_memory 0x9018 = low_entry 0x100000 0x3FF00000 1"
  "ld32 boot_memory 0x9000 = 20" "ld32 boot_memory 0x9018 = 20"
  "mod_start boot_memory 0x7000 0 = 0x400000" "mod_end boot_memory 0x7000 0 = 0x8400000"
  "mod_start boot_memory 0x7000 2 = 0x5000" "mod_end boot_memory 0x7000 2 = 0x54E8"
  "ld32 boot_memory 0x410000 = SL_PARAMETER_BLOCK_MAGIC"
  by (simp_all add: read_mmap_def low_entry_def mod_start_def mod_end_def ld32_bytes boot_bytes xconst)

lemma boot_grab:
  "grab_e820 boot_memory 0x9000 0x9030 [] = Inr [low_entry 0 0x9FC00 1, low_entry 0x100000 0x3FF00000 1]"
  by (subst grab_e820.simps, simp add: boot_loads xconst)+

lemma boot_sinit: "txt_parse_sinit boot_memory 0x7000 3 = Some 2"
proof -
  have "is_sinit_acmod boot_memory 0x5000 0x4E8"
    using sinit_check_cong[of "0x5000" "0x4E8" boot_memory sample_acm] sample_acm_is_sinit
    by (simp add: span_iff boot_memory_def)
  then have "module_is_sinit boot_memory 0x7000 2" by (simp add: module_is_sinit_def boot_loads)
  moreover have "rev [0..<3] = [2, 1, 0 :: nat]" by (simp add: upt_rec)
  ultimately show ?thesis by (simp add: txt_parse_sinit_def)
qed

lemma boot_cores: "dealwithMP 4 boot_memory = Inr (2, [\<lparr>lapic_id = 0, lapic_ver = 0, lapic_base = 0xFEE00000, pcpu_isbsp = 1\<rparr>,
     \<lparr>lapic_id = 2, lapic_ver = 0, lapic_base = 0xFEE00000, pcpu_isbsp = 0\<rparr>] @ replicate 6 zero_PCPU)"
proof -
  have e: "mp_getebda boot_memory = 0x9FC00" by (simp add: mp_getebda_def ld16_bytes boot_bytes)
  have "rsdp_at boot_memory 0x9FC00"
    by (simp add: rsdp_at_def ld64_bytes ACPIGetRSDPComputeChecksum_def xconst boot_bytes upt_rec)
  moreover have "paragraphs a 64 = a # map (\<lambda>k. a + 16 * of_nat k) [1..<64]" for a
    by (simp add: paragraphs_def upt_conv_Cons)
  ultimately have rsdp: "ACPIGetRSDP boot_memory = 0x9FC00" by (simp add: ACPIGetRSDP_def e)
  have t: "ld32 boot_memory 0x9FC10 = 0x1000" "ld32 boot_memory 0x1004 = 40" "find_madt boot_memory 0x1024 1 = Some 0x2000"
    "ld32 boot_memory 0x2004 = 80" "madt_at boot_memory 0x202C sample_records" "ld32 boot_memory 0x2024 = 0xFEE00000"
    by (simp_all add: ld32_bytes boot_bytes sample_records_def xconst)
  have r: "\<forall>r \<in> set sample_records. rec_length r \<noteq> 0" "record_bytes sample_records = 36"
    "filter enabled_cpu sample_records \<noteq> []" "length sample_records = 4"
    by (simp_all add: sample_records_def record_bytes_def enabled_cpu_def)
  have "find_madt boot_memory (0x1000 + 36) (unat ((ld32 boot_memory (0x1000 + 4) - 36) div 4)) = Some 0x2000"
    "madt_at boot_memory (0x2000 + 44) sample_records" "record_bytes sample_records = unat (ld32 boot_memory (0x2000 + 4) - 44)"
    using t r(2) by simp_all
  from acpi_cores_found[OF rsdp _ _ this(1,2) r(1) this(3) r(3), of 4] t r(4)
  show ?thesis by (simp add: dealwithMP_def sample_records_def enabled_cpu_def xconst Let_def)
qed

lemma wakeupAPs_returns:
  assumes "snd (rdmsr hw MSR_APIC_BASE) = 0" "\<And>a. lapic_read hw a = 0"
  shows "\<exists>b'. wakeupAPs hw ap b = Inr b'"
  by (cases "rdmsr hw MSR_APIC_BASE") (use assms in \<open>simp add: wakeupAPs_def boot_send_def Let_def\<close>)

lemma start_cores_returns:
  assumes "snd (rdmsr hw MSR_APIC_BASE) = 0" "\<And>a. lapic_read hw a = 0"
  shows "\<exists>b'. start_cores L ap hw vendor b = Inr b'"
  using wakeupAPs_returns[OF assms] by (simp add: start_cores_def Let_def)

lemma boot_starts:
  "\<exists>bt. cstartup launch_buffers (0x20000, 0x200FF) launch_hw 4 boot_memory boot_mbi = Inr bt \<and> boot_base bt = 0x10000000
    \<and> slpb_magic (boot_slpb bt) = SL_PARAMETER_BLOCK_MAGIC
    \<and> memmapbuffer (boot_slpb bt) = [low_entry 0 0x9FC00 1, low_entry 0x100000 0xFF00000 1, low_entry 0x10000000 0x8000000 2,
        low_entry 0x18000000 0x28000000 1]
    \<and> map lapic_id (cpuinfobuffer (boot_slpb bt)) = [0, 2]"
proof -
  let ?es = "[low_entry 0 0x9FC00 1, low_entry 0x100000 0xFF00000 1, low_entry 0x10000000 0x8000000 2, low_entry 0x18000000 0x28000000 1]"
  have i: "mods_addr boot_mbi = 0x7000" "mods_count boot_mbi = 3" by (simp_all add: boot_mbi_def)
  have v: "xmhf_baseplatform_arch_getcpuvendor launch_hw = Inr CPU_VENDOR_INTEL"
    using launch_launchable by (simp add: xmhf_baseplatform_arch_getcpuvendor_def launchable_def AMD_STRING_def INTEL_STRING_def)
  have e: "dealwithE820 boot_memory boot_mbi (PAGE_ALIGN_UP2M 0x8000000) = Inr (0x10000000, ?es)"
    using boot_grab by (simp add: dealwithE820_def boot_mbi_def sample_mbi_def low_entry_def split_entry_def xconst PAGE_ALIGN_UP2M_def)
  define m' where "m' = memcpy 0x8000000 0x10000000 0x400000 boot_memory"
  have "span 0x10000000 0x8000000 \<inter> span 0x400000 0x8000000 = {}" by (rule span_disjointI) simp_all
  then have c: "m' (0x10000000 + of_nat k) = boot_memory (0x400000 + of_nat k)" if "k < 0x8000000" for k
    using memcpy_inside[of "0x8000000" "0x10000000" "0x400000" k boot_memory] that by (simp add: m'_def)
  have g: "ld32 m' 0x10010000 = SL_PARAMETER_BLOCK_MAGIC"
    using c[of "0x10000"] c[of "0x10001"] c[of "0x10002"] c[of "0x10003"] boot_loads(9) by (simp add: ld32_bytes)
  let ?b = "\<lparr>boot_mem = m', boot_base = 0x10000000, boot_slpb = fill_slpb m' boot_mbi 0x10010000 ?es
      (2, [\<lparr>lapic_id = 0, lapic_ver = 0, lapic_base = 0xFEE00000, pcpu_isbsp = 1\<rparr>,
     \<lparr>lapic_id = 2, lapic_ver = 0, lapic_base = 0xFEE00000, pcpu_isbsp = 0\<rparr>] @ replicate 6 zero_PCPU),
      midtable = [\<lparr>cpu_lapic_id = 0, vcpu_vaddr_ptr = 0\<rparr>, \<lparr>cpu_lapic_id = 2, vcpu_vaddr_ptr = 0\<rparr>],
      boot_vcpus = (\<lambda>_. zero_VCPU), boot_log = []\<rparr>"
  obtain bt where bt: "start_cores launch_buffers (0x20000, 0x200FF) launch_hw CPU_VENDOR_INTEL ?b = Inr bt"
    using start_cores_returns[of launch_hw launch_buffers "(0x20000, 0x200FF)" CPU_VENDOR_INTEL ?b]
    by (auto simp: launch_hw_def sample_hw_def)
  have "cstartup launch_buffers (0x20000, 0x200FF) launch_hw 4 boot_memory boot_mbi = Inr bt"
    using bt g by (simp add: cstartup_def v i boot_sinit boot_cores boot_loads Let_def e m'_def[symmetric] boot_midtable_def
      MAX_MIDTAB_ENTRIES_def del: bindE_eq_Inr)
  then show ?thesis using start_cores_keeps[OF bt] g by (simp add: fill_slpb_def Let_def)
qed

definition boot_buffers :: buffers where
  "boot_buffers = \<lparr>g_vcpubuffers = 0xC0500000, SIZE_STRUCT_VCPU = 0x2000, g_cpustacks = 0xC0520000,
     g_vmx_vmxon_buffers = 0xC0540000, g_vmx_vmcs_buffers = 0xC0480000, g_vmx_iobitmap_buffer = 0xC0550000,
     g_vmx_msr_area_host_buffers = 0xC0560000, g_vmx_msr_area_guest_buffers = 0xC0570000,
     g_vmx_msrbitmap_buffers = 0xC0580000, g_vmx_ept_pml4_table_buffers = 0xC0410000,
     g_vmx_ept_pdp_table_buffers = 0xC0420000, g_vmx_ept_pd_table_buffers = 0xC0440000,
     g_vmx_ept_p_table_buffers = 0xC1000000, g_svm_hsave_buffers = 0xC0600000, g_svm_vmcb_buffers = 0xC0620000,
     g_svm_iobitmap_buffer = 0xC0640000, g_svm_npt_pdpt_buffers = 0xC0650000, g_svm_npt_pdts_buffers = 0xC0660000,
     g_svm_npt_pts_buffers = 0xC6000000, ap_bootstrap_start = 0xC0720000, ap_bootstrap_end = 0xC0720400,
     ap_cr3_value = 0xC0720010, ap_cr4_value = 0xC0720014, x_boot_OS_module = 0xC0730000\<rparr>"

lemma boot_buffers_ok:
  assumes "XtVmmRuntimeVirtBase b = 0xC0200000" "XtVmmRuntimePhysBase b = 0x10200000"
  shows "buffers_ok b boot_buffers"
proof -
  have "inj_on (vcpu_ptr boot_buffers) {..<8}"
    by (simp add: inj_on_def vcpu_ptr_def boot_buffers_def lessThan_nat_numeral lessThan_Suc)
  moreover have "apart [(0xC0410000, 8 * 4096), (0xC0420000, 8 * 4096), (0xC0440000, 8 * 16384),
      (0xC1000000, 8 * 8388608), (0xC0480000, 8 * 4096)]"
    by (simp add: span_disjointI)
  ultimately show ?thesis
    using assms by (simp add: buffers_ok_def boot_buffers_def spa_aligned_def)
qed

theorem boot_map_matches_protection_witness:
  "\<exists>bt b es' cpus s1 V s'. cstartup launch_buffers (0x20000, 0x200FF) launch_hw 4 boot_memory boot_mbi = Inr bt
    \<and> xmhf_sl_main CPU_VENDOR_INTEL (boot_base bt) (boot_slpb bt) linked_rpb = Inr (b, es', cpus)
    \<and> xmhf_runtime_entry boot_buffers launch_platform sample_env launch_hw 0 (map lapic_id cpus) (launch_state\<lparr>rpb := b\<rparr>) = Inr s1
    \<and> xmhf_baseplatform_arch_x86_smpinitialize_commonstart launch_platform launch_hw (\<lambda>_. 0) 0xC0500000 s1 = Inr (V, s')
    \<and> 0x10200000 \<in> memory_of 2 es' \<and> ept_walk b (mem s') (hw_eptp V) 0x10200000 = None
    \<and> 0x7C00 \<in> memory_of 1 es' \<and> (\<exists>mt. ept_walk b (mem s') (hw_eptp V) 0x7C00 = Some (0x7C00, 7, mt))"
proof -
  obtain bt where bt: "cstartup launch_buffers (0x20000, 0x200FF) launch_hw 4 boot_memory boot_mbi = Inr bt"
      "boot_base bt = 0x10000000" "slpb_magic (boot_slpb bt) = SL_PARAMETER_BLOCK_MAGIC"
      "memmapbuffer (boot_slpb bt) = [low_entry 0 0x9FC00 1, low_entry 0x100000 0xFF00000 1, low_entry 0x10000000 0x8000000 2,
        low_entry 0x18000000 0x28000000 1]" "map lapic_id (cpuinfobuffer (boot_slpb bt)) = [0, 2]"
    using boot_starts by (elim exE conjE) (rule that)
  obtain b es' cpus where sl: "xmhf_sl_main CPU_VENDOR_INTEL (boot_base bt) (boot_slpb bt) linked_rpb = Inr (b, es', cpus)"
      "es' = memmapbuffer (boot_slpb bt)" "cpus = cpuinfobuffer (boot_slpb bt)"
      "XtVmmRuntimeVirtBase b = 0xC0200000" "XtVmmRuntimePhysBase b = 0x10200000"
    using bt(2,3) by (simp add: xmhf_sl_main_def linked_rpb_def xconst)
  have n: "length cpus = 2" using arg_cong[OF bt(5), of length] sl(3) by simp
  have sz: "sl_rt_size boot_memory boot_mbi = 0x8000000" by (simp add: sl_rt_size_def boot_loads boot_mbi_def)
  have far: "span (mods_addr boot_mbi) 8 \<inter> span TARGET_BASE_SL (unat (sl_rt_size boot_memory boot_mbi)) = {}"
    unfolding sz by (rule span_disjointI) (simp_all add: boot_mbi_def xconst)
  have g: "grab_e820 boot_memory (mmap_addr boot_mbi) (mmap_addr boot_mbi + mmap_length boot_mbi) []
      = Inr [low_entry 0 0x9FC00 1, low_entry 0x100000 0x3FF00000 1]"
    using boot_grab by (simp add: boot_mbi_def sample_mbi_def)
  have d: "disjoint_map [low_entry 0 0x9FC00 1, low_entry 0x100000 0x3FF00000 1]" by (auto simp: disjoint_map_def)
  have h: "g_midtable (launch_state\<lparr>rpb := b\<rparr>) = []" "bit (fst (rdmsr launch_hw MSR_APIC_BASE)) 8" "lapic_page launch_hw = 0xFEE00000"
    "vcpu_ptr boot_buffers 0 = 0xC0500000"
    by (simp_all add: launch_state_def sample_state_def launch_hw_def xconst bit_numeral_rec lapic_page_def vcpu_ptr_def boot_buffers_def)
  have rsdp: "xmhf_baseplatform_arch_x86_acpi_getRSDP (mem (launch_state\<lparr>rpb := b\<rparr>)) \<noteq> 0"
    using launch_rsdp by (simp add: launch_state_def)
  have lim: "sl_rt_size boot_memory boot_mbi \<le> 0xE0000000" "1 < length cpus" "0 < length cpus" "rpb (launch_state\<lparr>rpb := b\<rparr>) = b"
    by (simp_all add: sz n)
  obtain s1 V s' where r: "xmhf_runtime_entry boot_buffers launch_platform sample_env launch_hw 0 (map lapic_id cpus) (launch_state\<lparr>rpb := b\<rparr>) = Inr s1"
      "xmhf_baseplatform_arch_x86_smpinitialize_commonstart launch_platform launch_hw (\<lambda>_. 0) 0xC0500000 s1 = Inr (V, s')"
      "\<And>pa. in_xmhf_region b pa \<longleftrightarrow> unat pa \<in> {0x10000000 ..< 0x10000000 + unat (sl_rt_size boot_memory boot_mbi)}"
      "\<And>pa. in_xmhf_region b pa \<Longrightarrow> unat pa \<in> memory_of 2 es' \<and> ept_walk b (mem s') (hw_eptp V) (ucast pa) = None"
      "\<And>pa. unat pa \<in> memory_of 1 es' \<Longrightarrow> page_of pa \<noteq> lapic_page launch_hw
        \<Longrightarrow> \<exists>mt. ept_walk b (mem s') (hw_eptp V) (ucast pa) = Some (ucast pa, 7, mt)"
    using boot_map_matches_protection[OF bt(1) sl(1) g d lim(1) far lim(4) launch_launchable boot_buffers_ok[OF sl(4,5)] h(1,2) rsdp
        lim(2,3), of sample_env 0 "\<lambda>_. 0", unfolded h(4)] by blast
  have "in_xmhf_region b 0x10200000" unfolding r(3) sz by simp
  note i = r(4)[OF this]
  have u: "0x7C00 \<in> memory_of 1 es'" using sl(2) bt(4) by simp
  then have "\<exists>mt. ept_walk b (mem s') (hw_eptp V) 0x7C00 = Some (0x7C00, 7, mt)"
    using r(5)[of "0x7C00"] by (simp add: page_of_def h(3))
  then show ?thesis using bt(1) sl(1) r(1,2) i u by auto
qed

end
