(* ===== verification/XMHF_SvmHub.thy ===== *)
theory XMHF_SvmHub
  imports XMHF_Exception
begin

text \<open>
  The partition event hub on AMD (\<^verbatim>\<open>xmhf-eventhub/arch/x86/svm/peh-x86svm-main.c\<close>): what the hypervisor does for each exit code.
  The guest's accumulator, stack and instruction pointers are in the control block; the other general registers are those
  saved on entry. The theory shows that no handler changes the fields the verification build of the source asserts before every return to
  the guest, those that turn nested paging on and name its tables.
\<close>

section \<open>Constants\<close>

definition VMCB_TLB_CONTROL_NOTHING :: u8 where [xconst]: "VMCB_TLB_CONTROL_NOTHING = 0"
definition SVM_VMEXIT_EXCEPTION_DB :: u64 where [xconst]: "SVM_VMEXIT_EXCEPTION_DB = 65"
definition SVM_VMEXIT_INIT :: u64 where [xconst]: "SVM_VMEXIT_INIT = 99"
definition SVM_VMEXIT_IOIO :: u64 where [xconst]: "SVM_VMEXIT_IOIO = 123"
definition SVM_VMEXIT_MSR :: u64 where [xconst]: "SVM_VMEXIT_MSR = 124"
definition SVM_VMEXIT_VMMCALL :: u64 where [xconst]: "SVM_VMEXIT_VMMCALL = 129"
definition SVM_VMEXIT_NPF :: u64 where [xconst]: "SVM_VMEXIT_NPF = 1024"

section \<open>Port accesses\<close>

text \<open>The structure of the exit information: bit 0 is set for a read, bits 2 and 3 for string and repeated accesses, bits 4 to 6
  give the size, bits 16 to 31 the port.\<close>

definition ioio_port :: "u64 \<Rightarrow> u32" where
  "ioio_port info = ucast (take_bit 16 (drop_bit 16 info))"

definition ioio_size :: "u64 \<Rightarrow> u32" where
  "ioio_size info = (if bit info 4 then IO_SIZE_BYTE else if bit info 5 then IO_SIZE_WORD else IO_SIZE_DWORD)"

definition svm_chain_io :: "hardware \<Rightarrow> u32 \<Rightarrow> u64 \<Rightarrow> xmhf_state \<Rightarrow> xmhf_error + xmhf_state" where
  "svm_chain_io hw vp info s =
    (let port = ioio_port info; rax = vmcb_rax (vmcb_of vp s) in
     if bit info 0 then
       if bit info 4 then Inr (upd_vmcb vp (\<lambda>c. c\<lparr>vmcb_rax := (rax AND NOT 0xFF) OR ucast (inb hw port)\<rparr>) s)
       else if bit info 5 then Inr (upd_vmcb vp (\<lambda>c. c\<lparr>vmcb_rax := (rax AND NOT 0xFFFF) OR ucast (inw hw port)\<rparr>) s)
       else if bit info 6 then Inr (upd_vmcb vp (\<lambda>c. c\<lparr>vmcb_rax := (rax AND NOT 0xFFFFFFFF) OR ucast (inl hw port)\<rparr>) s)
       else Inl Halt
     else
       let s = (if bit info 4 then hw_do (OutB (ucast rax) port) s else s);
           s = (if bit info 5 then hw_do (OutW (ucast rax) port) s else s)
       in Inr (if bit info 6 then hw_do (OutL (ucast rax) port) s else s))"

definition svm_handle_ioio :: "hypapp \<Rightarrow> hardware \<Rightarrow> u32 \<Rightarrow> hub \<Rightarrow> xmhf_error + hub" where
  "svm_handle_ioio app hw vp = (\<lambda>(r, s).
    let info = exitinfo1 (vmcb_of vp s) in
    if bit info 3 \<or> bit info 2 then Inl Halt
    else bindE (xmhf_smpguest_arch_x86svm_quiesce hw vp s) (\<lambda>s.
      bindE (handleintercept_portaccess app vp (ioio_port info) (if bit info 0 then IO_TYPE_IN else IO_TYPE_OUT)
        (ioio_size info) (r, s)) (\<lambda>(app_ret_status, r, s).
      let s = xmhf_smpguest_arch_x86svm_endquiesce vp s in
      bindE (if app_ret_status = APP_IOINTERCEPT_CHAIN then svm_chain_io hw vp info s else Inr s) (\<lambda>s.
      Inr (r, upd_vmcb vp (\<lambda>c. c\<lparr>vmcb_rip := exitinfo2 c\<rparr>) s)))))"

section \<open>The other handlers\<close>

definition svm_handle_msr :: "hardware \<Rightarrow> u32 \<Rightarrow> hub \<Rightarrow> xmhf_error + hub" where
  "svm_handle_msr hw vp = (\<lambda>(r, s).
    bindE (HALT_ON_ERRORCOND (exitinfo1 (vmcb_of vp s) = 0 \<or> exitinfo1 (vmcb_of vp s) = 1)) (\<lambda>_.
    let (r, s) = (if exitinfo1 (vmcb_of vp s) = 0
          then (r\<lparr>eax := fst (rdmsr hw (ecx r)), edx := snd (rdmsr hw (ecx r))\<rparr>, s)
          else (r, hw_do (WrMsr (ecx r) (eax r) (edx r)) s))
    in Inr (r, upd_vmcb vp (\<lambda>c. c\<lparr>vmcb_rip := vmcb_rip c + 2\<rparr>) s)))"

definition svm_handle_npf :: "hypapp \<Rightarrow> hardware \<Rightarrow> u32 \<Rightarrow> hub \<Rightarrow> xmhf_error + hub" where
  "svm_handle_npf app hw vp = (\<lambda>(r, s).
    let gpa = ucast (exitinfo2 (vmcb_of vp s)) :: u32;
        errorcode = ucast (exitinfo1 (vmcb_of vp s)) :: u32
    in if g_svm_lapic_base s \<le> gpa \<and> gpa < g_svm_lapic_base s + PAGE_SIZE_4K then
         bindE (HALT_ON_ERRORCOND (isbsp (vcpus s vp) = 1)) (\<lambda>_.
         bindE (xmhf_smpguest_arch_x86_eventhandler_hwpgtblviolation vp gpa errorcode s) (\<lambda>s. Inr (r, s)))
       else
         bindE (xmhf_smpguest_arch_x86svm_quiesce hw vp s) (\<lambda>s.
         bindE (handleintercept_hwpgtblviolation app vp (ucast gpa) 0 (ucast errorcode) (r, s)) (\<lambda>(_, r, s).
         Inr (r, xmhf_smpguest_arch_x86svm_endquiesce vp s))))"

text \<open>
  The interrupt is pending while the global interrupt flag is clear; setting the flag again has the processor take it, which
  leads through its gate to the exception hub. What the stub saves there are registers of the hypervisor, which it restores.
\<close>

definition svm_handle_nmi :: "hardware \<Rightarrow> hub \<Rightarrow> xmhf_error + hub" where
  "svm_handle_nmi hw = (\<lambda>(r, s).
    bindE (xmhf_xcphandler_arch_hub hw CPU_EXCEPTION_NMI (r, hw_do Stgi (hw_do Clgi s))) (\<lambda>(_, s). Inr (r, s)))"

definition svm_v86_mode :: "svm_vmcbfields \<Rightarrow> bool" where
  "svm_v86_mode c \<longleftrightarrow> vmcb_cr0 c AND CR0_PE \<noteq> 0 \<and> vmcb_cr0 c AND CR0_PG \<noteq> 0 \<and> vmcb_rflags c AND EFLAGS_VM \<noteq> 0"

definition svm_int15_translate :: "u32 \<Rightarrow> xmhf_state \<Rightarrow> u32 \<Rightarrow> xmhf_error + u32" where
  "svm_int15_translate vp s a =
    (if svm_v86_mode (vmcb_of vp s) then
       let p = xmhf_smpguest_arch_x86svm_walk_pagetables (vmcb_of vp s) (mem s) a
       in if p < XtVmmRuntimePhysBase (rpb s) then Inr p else Inl Halt
     else Inr a)"

definition svm_int15_handleintercept :: "u32 \<Rightarrow> hub \<Rightarrow> xmhf_error + hub" where
  "svm_int15_handleintercept vp = (\<lambda>(r, s).
    bindE (svm_int15_translate vp s 0x4AC) (\<lambda>bdamemory.
    if (ucast (vmcb_rax (vmcb_of vp s)) :: u16) = 0xE820 then
      if edx r = 0x534D4150 \<and> ebx r < XtVmmE820NumEntries (rpb s) then
        let buf = ucast (desc_base (vmcb_es (vmcb_of vp s)) + ucast (ucast (edi r) :: u16)) :: u32 in
        if buf < XtVmmRuntimePhysBase (rpb s) then
          if unat (ebx r) < length (g_e820map s) then
            let s = s\<lparr>mem := store_e820 (mem s) buf (g_e820map s ! unat (ebx r))\<rparr>;
                r = r\<lparr>ecx := 20\<rparr>;
                s = upd_vmcb vp (\<lambda>c. c\<lparr>vmcb_rax := ucast (edx r)\<rparr>) s;
                stack = ucast (desc_base (vmcb_ss (vmcb_of vp s))) + ucast (ucast (vmcb_rsp (vmcb_of vp s)) :: u16)
            in bindE (svm_int15_translate vp s stack) (\<lambda>gueststackregion.
               let guest_flags = ld16 (mem s) (gueststackregion + 4);
                   ebx' = ebx r + 1;
                   (ebx', guest_flags) =
                     (if ebx' > XtVmmE820NumEntries (rpb s) - 1
                      then (0, guest_flags OR EFLAGS_CF)
                      else (ebx', guest_flags AND NOT EFLAGS_CF));
                   s = s\<lparr>mem := st16 (mem s) (gueststackregion + 4) guest_flags\<rparr>
               in Inr (r\<lparr>ebx := ebx'\<rparr>, upd_vmcb vp (\<lambda>c. c\<lparr>vmcb_rip := vmcb_rip c + 3\<rparr>) s))
          else Inl OutOfBounds
        else Inl Halt
      else Inl Halt
    else
      let ip = ld16 (mem s) (bdamemory + 4);
          cs = ld16 (mem s) (bdamemory + 6)
      in Inr (r, upd_vmcb vp (\<lambda>c. c\<lparr>vmcb_rip := ucast ip, vmcb_cs := (vmcb_cs c)\<lparr>desc_base := ucast cs * 16, desc_selector := cs\<rparr>\<rparr>) s)))"

definition svm_handle_vmmcall :: "hypapp \<Rightarrow> hardware \<Rightarrow> u32 \<Rightarrow> hub \<Rightarrow> xmhf_error + hub" where
  "svm_handle_vmmcall app hw vp = (\<lambda>(r, s).
    let c = vmcb_of vp s in
    if desc_base (vmcb_cs c) = push_bit 4 VMX_UG_E820HOOK_CS \<and> vmcb_rip c = VMX_UG_E820HOOK_IP then
      if vmcb_cr0 c AND CR0_PE = 0 \<or> svm_v86_mode c then svm_int15_handleintercept vp (r, s) else Inl Halt
    else
      bindE (xmhf_smpguest_arch_x86svm_quiesce hw vp s) (\<lambda>s.
      bindE (handlehypercall app vp (r, s)) (\<lambda>(status, r, s).
      if status \<noteq> APP_SUCCESS then Inl Halt
      else Inr (r, upd_vmcb vp (\<lambda>c. c\<lparr>vmcb_rip := vmcb_rip c + 3\<rparr>) (xmhf_smpguest_arch_x86svm_endquiesce vp s)))))"

definition svm_dispatch :: "hypapp \<Rightarrow> hardware \<Rightarrow> u32 \<Rightarrow> hub \<Rightarrow> xmhf_error + hub" where
  "svm_dispatch app hw vp = (\<lambda>(r, s).
    let code = exitcode (vmcb_of vp s) in
    if code = SVM_VMEXIT_VMMCALL then svm_handle_vmmcall app hw vp (r, s)
    else if code = SVM_VMEXIT_IOIO then svm_handle_ioio app hw vp (r, s)
    else if code = SVM_VMEXIT_NPF then svm_handle_npf app hw vp (r, s)
    else if code = SVM_VMEXIT_INIT then bindE (handleshutdown app vp (r, s)) (\<lambda>_. Inl Halt)
    else if code = SVM_VMEXIT_MSR then svm_handle_msr hw vp (r, s)
    else if code = SVM_VMEXIT_EXCEPTION_DB then
      if isbsp (vcpus s vp) = 1
      then bindE (xmhf_smpguest_arch_x86_eventhandler_dbexception vp s) (\<lambda>s. Inr (r, s)) else Inl Halt
    else if code = SVM_VMEXIT_NMI then svm_handle_nmi hw (r, s)
    else Inl Halt)"

definition xmhf_parteventhub_arch_x86svm_intercept_handler :: "hypapp \<Rightarrow> hardware \<Rightarrow> u32 \<Rightarrow> hub \<Rightarrow> xmhf_error + hub" where
  "xmhf_parteventhub_arch_x86svm_intercept_handler app hw vp = (\<lambda>(r, s).
    svm_dispatch app hw vp (r, upd_vmcb vp (\<lambda>c. c\<lparr>tlb_control := VMCB_TLB_CONTROL_NOTHING\<rparr>) s))"

section \<open>Nested paging\<close>

text \<open>What decides the translation of a guest that runs from the control block of a core.\<close>

definition npt_view :: "u32 \<Rightarrow> xmhf_state \<Rightarrow> u32 \<times> u64 \<times> u64 \<times> u32" where
  "npt_view p s = (vmcb_vaddr_ptr (vcpus s p), np_enable (vmcb_of p s), n_cr3 (vmcb_of p s), npt_vaddr_ptr (vcpus s p))"

definition npt_on :: "u32 \<Rightarrow> xmhf_state \<Rightarrow> bool" where
  "npt_on p s \<longleftrightarrow> np_enable (vmcb_of p s) = 1 \<and> n_cr3 (vmcb_of p s) = ucast (npt_vaddr_ptr (vcpus s p))"

lemma npt_on_iff: "npt_on p s \<longleftrightarrow> (case npt_view p s of (_, e, c, n) \<Rightarrow> e = 1 \<and> c = ucast n)"
  by (simp add: npt_view_def npt_on_def)

lemma npt_on_view: "npt_view p s' = npt_view p s \<Longrightarrow> npt_on p s' = npt_on p s"
  by (simp add: npt_on_iff)

named_theorems npt_keep

lemma npt_view_upd [npt_keep]:
  "(\<And>c. np_enable (f c) = np_enable c) \<Longrightarrow> (\<And>c. n_cr3 (f c) = n_cr3 c) \<Longrightarrow> npt_view p (upd_vmcb vp f s) = npt_view p s"
  "(\<And>v. vmcb_vaddr_ptr (g v) = vmcb_vaddr_ptr v) \<Longrightarrow> (\<And>v. npt_vaddr_ptr (g v) = npt_vaddr_ptr v) \<Longrightarrow>
    npt_view p (upd_vcpu vp g s) = npt_view p s"
  "npt_view p (upd_vmcs vp h s) = npt_view p s"
  by (simp_all add: npt_view_def)

lemma npt_view_simps [npt_keep]:
  "npt_view p (hw_do x s) = npt_view p s" "npt_view p (s\<lparr>mem := m\<rparr>) = npt_view p s"
  "npt_view p (s\<lparr>g_svm_quiesce := q\<rparr>) = npt_view p s" "npt_view p (s\<lparr>g_svm_lapic_reg := q\<rparr>) = npt_view p s"
  "npt_view p (s\<lparr>g_svm_lapic_op := q\<rparr>) = npt_view p s" "npt_view p (s\<lparr>g_vmx_lapic_reg := q\<rparr>) = npt_view p s"
  "npt_view p (s\<lparr>g_vmx_lapic_op := q\<rparr>) = npt_view p s"
  "npt_view p (s\<lparr>g_vmx_lapic_guest_eflags_tfifmask := q\<rparr>) = npt_view p s"
  by (simp_all add: npt_view_def)

lemma lapic_map_npt [npt_keep]:
  "npt_view p (svm_lapic_changemapping vp a b f s) = npt_view p s"
  "npt_view p (vmx_lapic_changemapping vp a b g s) = npt_view p s"
  by (simp_all add: svm_lapic_changemapping_def vmx_lapic_changemapping_def xmhf_memprot_arch_x86svm_flushmappings_def
      xmhf_memprot_arch_x86vmx_flushmappings_def Let_def npt_keep)

lemma processSIPI_npt: "processSIPI lo hi s = Inr (s', d) \<Longrightarrow> npt_view p s' = npt_view p s"
  unfolding processSIPI_def Let_def by (auto simp: npt_keep split: option.splits if_splits)

lemma emulate_write_npt:
  "svm_lapic_emulate_write s = Inr (s', d) \<Longrightarrow> npt_view p s' = npt_view p s"
  "lapic_emulate_write s = Inr (s', d) \<Longrightarrow> npt_view p s' = npt_view p s"
  unfolding svm_lapic_emulate_write_def lapic_emulate_write_def Let_def
  by (auto simp: npt_keep dest: processSIPI_npt split: if_splits)

lemma lapic_fault_npt:
  "xmhf_smpguest_arch_x86_eventhandler_hwpgtblviolation vp a c s = Inr s' \<Longrightarrow> npt_view p s' = npt_view p s"
  by (auto simp: xmhf_smpguest_arch_x86_eventhandler_hwpgtblviolation_def
      xmhf_smpguest_arch_x86svm_eventhandler_hwpgtblviolation_def xmhf_smpguest_arch_x86vmx_eventhandler_hwpgtblviolation_def
      Let_def npt_keep split: if_splits)

lemma lapic_debug_npt:
  "xmhf_smpguest_arch_x86_eventhandler_dbexception vp s = Inr s' \<Longrightarrow> npt_view p s' = npt_view p s"
  by (auto simp: xmhf_smpguest_arch_x86_eventhandler_dbexception_def Let_def
      xmhf_smpguest_arch_x86svm_eventhandler_dbexception_def xmhf_smpguest_arch_x86vmx_eventhandler_dbexception_def
      npt_keep dest: emulate_write_npt split: if_splits)

lemma svm_quiesce_npt:
  "xmhf_smpguest_arch_x86svm_quiesce hw vp s = Inr s' \<Longrightarrow> npt_view p s' = npt_view p s"
  by (auto simp: xmhf_smpguest_arch_x86svm_quiesce_def svm_send_quiesce_signal_def Let_def npt_keep split: if_splits)

lemma svm_endquiesce_npt [npt_keep]: "npt_view p (xmhf_smpguest_arch_x86svm_endquiesce vp s) = npt_view p s"
  by (simp add: xmhf_smpguest_arch_x86svm_endquiesce_def npt_keep)

lemma nmi_npt:
  "xmhf_smpguest_arch_x86_eventhandler_nmiexception vp (r, s) = Inr (r', s') \<Longrightarrow> npt_view p s' = npt_view p s"
  by (auto simp: xmhf_smpguest_arch_x86_eventhandler_nmiexception_def xmhf_smpguest_arch_x86svm_eventhandler_nmiexception_def
      xmhf_smpguest_arch_x86vmx_eventhandler_nmiexception_def nmi_outside_quiesce_def Let_def inject_nmi_def npt_keep split: if_splits)

lemma svm_nmi_npt: "svm_handle_nmi hw (r, s) = Inr (r', s') \<Longrightarrow> npt_view p s' = npt_view p s"
  by (auto simp: svm_handle_nmi_def xmhf_xcphandler_arch_hub_def npt_keep dest!: nmi_npt)

lemma svm_chain_io_npt: "svm_chain_io hw vp info s = Inr s' \<Longrightarrow> npt_view p s' = npt_view p s"
  by (auto simp: svm_chain_io_def Let_def npt_keep split: if_splits)

lemma svm_msr_npt: "svm_handle_msr hw vp (r, s) = Inr (r', s') \<Longrightarrow> npt_view p s' = npt_view p s"
  by (auto simp: svm_handle_msr_def Let_def npt_keep split: if_splits)

lemma svm_int15_npt: "svm_int15_handleintercept vp (r, s) = Inr (r', s') \<Longrightarrow> npt_view p s' = npt_view p s"
  by (auto simp: svm_int15_handleintercept_def Let_def npt_keep split: if_splits)

text \<open>What the hub relies on: no callback of the application changes how a core's guest is translated.\<close>

locale svm_hypapp =
  fixes app :: hypapp
  assumes portaccess_npt: "handleintercept_portaccess app vp port t sz (r, s) = Inr (st, r', s') \<Longrightarrow>
      npt_view p s' = npt_view p s"
    and hwpgtblviolation_npt: "handleintercept_hwpgtblviolation app vp gpa gva code (r, s) = Inr (st, r', s') \<Longrightarrow>
      npt_view p s' = npt_view p s"
    and hypercall_npt: "handlehypercall app vp (r, s) = Inr (st, r', s') \<Longrightarrow> npt_view p s' = npt_view p s"
begin

lemma ioio_npt: "svm_handle_ioio app hw vp (r, s) = Inr (r', s') \<Longrightarrow> npt_view p s' = npt_view p s"
  by (auto simp: svm_handle_ioio_def Let_def npt_keep svm_quiesce_npt svm_chain_io_npt
      dest!: portaccess_npt[where p = p] split: if_splits)

lemma npf_npt: "svm_handle_npf app hw vp (r, s) = Inr (r', s') \<Longrightarrow> npt_view p s' = npt_view p s"
  by (auto simp: svm_handle_npf_def Let_def npt_keep svm_quiesce_npt lapic_fault_npt
      dest!: hwpgtblviolation_npt[where p = p] split: if_splits)

lemma vmmcall_npt: "svm_handle_vmmcall app hw vp (r, s) = Inr (r', s') \<Longrightarrow> npt_view p s' = npt_view p s"
  by (auto simp: svm_handle_vmmcall_def Let_def npt_keep svm_quiesce_npt svm_int15_npt
      dest!: hypercall_npt[where p = p] split: if_splits)

lemma dispatch_npt: "svm_dispatch app hw vp (r, s) = Inr (r', s') \<Longrightarrow> npt_view p s' = npt_view p s"
  unfolding svm_dispatch_def Let_def
  by (auto simp: vmmcall_npt ioio_npt npf_npt svm_msr_npt lapic_debug_npt svm_nmi_npt split: if_splits)

lemma handler_keeps_npt:
  "xmhf_parteventhub_arch_x86svm_intercept_handler app hw vp (r, s) = Inr (r', s') \<Longrightarrow> npt_view p s' = npt_view p s"
  by (auto simp: xmhf_parteventhub_arch_x86svm_intercept_handler_def npt_keep dest!: dispatch_npt[where p = p])

end

interpretation quiesce_svm: svm_hypapp "quiesce_app fuel E"
  by unfold_locales (auto simp: quiesce_app_def xmhf_app_handleintercept_portaccess_def Let_def
      xmhf_app_handleintercept_hwpgtblviolation_def xmhf_app_handlehypercall_def prepare_user_space_context_def
      add_systemcall_def npt_keep split: if_splits)

text \<open>
  The handling of an exit leaves the two fields of every control block alone that turn nested paging on and name its tables, and
  the addresses of the block and the tables, which is what the source asserts before it resumes a guest. The control blocks are
  a component of the state apart from memory: what a handler stores through a pointer of the guest (the answer to an E820
  request, the signal of the quiesce hypercall) is a store to memory here, while in the machine it can hit a control block.
\<close>

lemma svm_exit_keeps_npt:
  assumes "xmhf_parteventhub_arch_x86svm_intercept_handler (quiesce_app fuel E) hw vp (r, s) = Inr (r', s')" and "npt_on p s"
  shows "npt_on p s' \<and> npt_vaddr_ptr (vcpus s' p) = npt_vaddr_ptr (vcpus s p) \<and> vmcb_vaddr_ptr (vcpus s' p) = vmcb_vaddr_ptr (vcpus s p)"
proof -
  note v = quiesce_svm.handler_keeps_npt[OF assms(1), of p]
  from npt_on_view[OF v] assms(2) have "npt_on p s'" by simp
  with v show ?thesis by (simp add: npt_view_def)
qed

section \<open>Exits on AMD\<close>

text \<open>The BIOS memory map as on Intel, and the exits that stop a core.\<close>

definition svm_handled_exit :: "u64 \<Rightarrow> bool" where
  "svm_handled_exit code \<longleftrightarrow> code \<in> {SVM_VMEXIT_VMMCALL, SVM_VMEXIT_IOIO, SVM_VMEXIT_NPF, SVM_VMEXIT_MSR,
     SVM_VMEXIT_EXCEPTION_DB, SVM_VMEXIT_NMI}"

lemma svm_unhandled_exits_stop:
  assumes "\<not> svm_handled_exit (exitcode (vmcb_of vp s))"
  shows "xmhf_parteventhub_arch_x86svm_intercept_handler (quiesce_app fuel E) hw vp (r, s) \<in> {Inl Halt, Inl Reboot}"
  using assms
  by (auto simp: xmhf_parteventhub_arch_x86svm_intercept_handler_def svm_dispatch_def svm_handled_exit_def Let_def
      quiesce_app_def xmhf_app_handleshutdown_def)

lemma svm_ioio_rip:
  assumes "svm_handle_ioio (quiesce_app fuel E) hw vp (r, s) = Inr (r', s')"
  shows "r' = r \<and> vmcb_rip (vmcb_of vp s') = exitinfo2 (vmcb_of vp s)"
proof -
  have q: "vmcb_of vp s1 = vmcb_of vp s" if "xmhf_smpguest_arch_x86svm_quiesce hw vp s = Inr s1" for s1
    using that by (auto simp: xmhf_smpguest_arch_x86svm_quiesce_def svm_send_quiesce_signal_def Let_def split: if_splits)
  have e: "vmcb_of vp (xmhf_smpguest_arch_x86svm_endquiesce vp s1) = vmcb_of vp s1" for s1
    by (simp add: xmhf_smpguest_arch_x86svm_endquiesce_def)
  have c: "exitinfo2 (vmcb_of vp s2) = exitinfo2 (vmcb_of vp s1)" if "svm_chain_io hw vp info s1 = Inr s2" for info s1 s2
    using that by (auto simp: svm_chain_io_def Let_def split: if_splits)
  show ?thesis
    using assms
    by (auto simp: svm_handle_ioio_def Let_def quiesce_app_def xmhf_app_handleintercept_portaccess_def e q
        dest!: c split: if_splits)
qed

text \<open>
  A read of a model-specific register puts the low half into the saved \<open>eax\<close>, while the guest's accumulator is the field of
  the control block, which keeps its old value.
\<close>

lemma svm_rdmsr_loses_low_half:
  assumes "exitinfo1 (vmcb_of vp s) = 0"
  shows "\<exists>r' s'. svm_handle_msr hw vp (r, s) = Inr (r', s') \<and> eax r' = fst (rdmsr hw (ecx r))
    \<and> vmcb_rax (vmcb_of vp s') = vmcb_rax (vmcb_of vp s)"
  using assms by (simp add: svm_handle_msr_def Let_def)

end
