(* ===== verification/XMHF_SvmLaunch.thy ===== *)
theory XMHF_SvmLaunch
  imports XMHF_LaunchProps XMHF_SvmHub
begin

text \<open>
  What holds of an AMD core when its guest is to run for the first time, from the entry of the runtime: the contents of the
  control block and of the tables of nested paging at the addresses of the hypervisor. The source stores these addresses
  unchanged where the processor expects physical ones (\<^verbatim>\<open>hva2spa\<close> in \<^verbatim>\<open>memp-x86svm.c\<close> and \<^verbatim>\<open>part-x86svm.c\<close> is the
  identity, while the runtime runs at 0xC0200000 and lies at 0x10200000), so nothing is claimed here about what the processor
  would walk.
\<close>

section \<open>The tables\<close>

lemma npt_upper_leaf_store:
  assumes "npt_layout v" "npt_upper v m" and n: "n < 2 ^ 20"
  shows "npt_upper v (st64 m (elem64 (npt_vaddr_pts v) n) e)"
proof -
  let ?T = "npt_vaddr_pts v"
  have keep: "ld64 (st64 m (elem64 ?T n) e) (elem64 B j) = ld64 m (elem64 B j)"
    if "j < M" "M < 2 ^ 29" "span B (8 * M) \<inter> span ?T (8 * 2 ^ 20) = {}" for B j M
    using that by (intro ld64_elem_other_table[OF n]) (auto simp: Int_commute)
  have "ld64 (st64 m (elem64 ?T n) e) (elem64 (npt_vaddr_ptr v) j) = ld64 m (elem64 (npt_vaddr_ptr v) j)" if "j < 4" for j
    by (rule keep[of j 4]) (use that assms(1) in \<open>simp_all add: npt_layout_def tables_disjoint_def\<close>)
  moreover have "ld64 (st64 m (elem64 ?T n) e) (elem64 (npt_vaddr_pdts v) j) = ld64 m (elem64 (npt_vaddr_pdts v) j)"
    if "j < 2048" for j
    by (rule keep[of j 2048]) (use that assms(1) in \<open>simp_all add: npt_layout_def tables_disjoint_def\<close>)
  ultimately show ?thesis using assms(2) unfolding npt_upper_def by simp
qed

lemma npt_walk_unmap:
  fixes gpa :: u32
  assumes "npt_layout v" "npt_upper v m" "n < 2 ^ 20" "\<not> bit e 0"
  shows "npt_walk (st64 m (elem64 (npt_vaddr_pts v) n) e) (hva2spa (npt_vaddr_ptr v)) (ucast gpa)
    = (if unat gpa div 4096 = n then None else npt_walk m (hva2spa (npt_vaddr_ptr v)) (ucast gpa))"
proof -
  have i: "unat gpa div 4096 < 2 ^ 29" "n < 2 ^ 29" using page_index[of gpa] assms(3) by simp_all
  show ?thesis
    unfolding npt_walk_leaf[OF assms(1) npt_upper_leaf_store[OF assms(1-3)]] npt_walk_leaf[OF assms(1,2)] Let_def
      ld64_elem_st64_elem[OF i(2,1)]
    using assms(4) by simp
qed

text \<open>
  What the tables say when they are followed at the addresses stored in them: every page but the hypervisor's and the interrupt
  controller's is mapped to itself.
\<close>

definition svm_launched_map :: "RPB \<Rightarrow> hardware \<Rightarrow> memory \<Rightarrow> u64 \<Rightarrow> bool" where
  "svm_launched_map b hw m cr3 \<longleftrightarrow> (\<forall>gpa. npt_walk m cr3 (ucast gpa) =
     (if in_xmhf_region b (page_of gpa) \<or> page_of gpa = lapic_page hw then None else Some (ucast gpa, True, True, True)))"

lemma stw_stw: "n < 2 ^ 32 \<Longrightarrow> stw n (stw n m a x) a y = stw n m a y"
proof
  fix b assume n: "n < 2 ^ 32"
  show "stw n (stw n m a x) a y b = stw n m a y b"
  proof (cases "b \<in> span a n")
    case True
    then have "unat (b - a) < n" "b = a + of_nat (unat (b - a))" by (simp_all add: span_iff)
    then show ?thesis using stw_inside[OF n] by metis
  next
    case False
    then show ?thesis using n by (simp add: stw_outside)
  qed
qed

text \<open>The entry the LAPIC interception stores: the two stores of the source make one.\<close>

lemma svm_unmap_mem:
  assumes "take_bit 12 base = 0"
  shows "mem (svm_lapic_changemapping vp base base SVM_LAPIC_UNMAP s)
    = st64 (mem s) (elem64 (npt_vaddr_pts (vcpus s vp)) (unat base div 4096)) (ucast base)"
proof -
  have "st64 (st64 m a x) a y = st64 m a y" for m a x y
    unfolding st64_def by (rule stw_stw) simp
  moreover have "unat (base div 4096) = unat base div 4096" by (simp add: unat_div)
  ultimately show ?thesis
    using npt_made_entry(3)[OF assms, of 0]
    by (simp add: svm_lapic_changemapping_def xmhf_memprot_arch_x86svm_flushmappings_def Let_def xconst clear_all_bits)
qed

section \<open>Up to the first run\<close>

text \<open>A processor on which every step of the start-up succeeds.\<close>

definition svm_launchable :: "hardware \<Rightarrow> bool" where
  "svm_launchable hw \<longleftrightarrow> cpu_string hw = AMD_STRING \<and> machine_ok hw
    \<and> (let (_, _, ecx, _) = cpuid hw 0x80000001 0; (_, ebx, _, edx) = cpuid hw 0x8000000A 0
       in bit ecx ECX_SVM \<and> \<not> bit (fst (rdmsr hw VM_CR_MSR)) VM_CR_SVME_DISABLE \<and> bit edx 0 \<and> \<not> ebx - 1 < 2)"

lemma read_msr_fresh:
  assumes "no_wrmsr (hwlog s)"
  shows "read_msr hw s i = rdmsr hw i"
proof -
  have "fold (\<lambda>op v. case op of WrMsr j a d \<Rightarrow> if j = i then (a, d) else v | _ \<Rightarrow> v) l v = v" if "no_wrmsr l" for l v
    using that by (induction l arbitrary: v) (auto simp: no_wrmsr_def split: hw_op.splits)
  then show ?thesis using assms by (simp add: read_msr_def)
qed

text \<open>The parts of the state the start-up of a core leaves alone.\<close>

definition same_cores :: "xmhf_state \<Rightarrow> xmhf_state \<Rightarrow> bool" where
  "same_cores s s' \<longleftrightarrow> vcpus s' = vcpus s \<and> rpb s' = rpb s \<and> g_midtable s' = g_midtable s"

lemma svm_cpuinitialize_result:
  assumes "svm_launchable hw" "no_wrmsr (hwlog s)"
  shows "\<exists>s'. xmhf_baseplatform_arch_cpuinitialize P hw s = Inr s' \<and> same_cores s s' \<and> no_wrmsr (hwlog s')"
proof -
  have "xmhf_baseplatform_arch_getcpuvendor hw = Inr CPU_VENDOR_AMD"
    using assms(1) by (simp add: svm_launchable_def xmhf_baseplatform_arch_getcpuvendor_def)
  then show ?thesis
    using assms(2) by (simp add: xmhf_baseplatform_arch_cpuinitialize_def Let_def same_cores_def xconst no_wrmsr_def)
qed

lemma svm_initializemonitor_result:
  assumes "svm_launchable hw" "no_wrmsr (hwlog s)"
  shows "\<exists>s'. xmhf_partition_arch_x86svm_initializemonitor hw vp s = Inr s' \<and> same_cores s s'"
proof -
  have "svm_supported hw s"
    using assms by (simp add: svm_supported_def svm_launchable_def read_msr_fresh)
  then show ?thesis
    by (simp add: xmhf_partition_arch_x86svm_initializemonitor_def svm_initSVM_def same_cores_def Let_def case_prod_beta)
qed

definition boot_vmcb :: "svm_vmcbfields \<Rightarrow> bool" where
  "boot_vmcb c \<longleftrightarrow> vmcb_rip c = 0x7C00 \<and> desc_base (vmcb_cs c) = 0 \<and> vmcb_cr0 c = 0x10 \<and> bit (vmcb_efer c) 12
    \<and> class2_intercepts_bitmask c AND svm_instruction_intercepts = svm_instruction_intercepts
    \<and> bit (class1_intercepts_bitmask c) 1 \<and> bit (class1_intercepts_bitmask c) 27 \<and> bit (class1_intercepts_bitmask c) 28"

lemma svm_setupguestOSstate_result:
  assumes "isbsp (vcpus s vp) \<noteq> 0"
  shows "\<exists>s'. xmhf_partition_arch_x86svm_setupguestOSstate vp s = Inr s' \<and> same_cores s s'
    \<and> boot_vmcb (vmcb_of vp s') \<and> np_enable (vmcb_of vp s') = 0"
  using assms
  by (simp add: xmhf_partition_arch_x86svm_setupguestOSstate_def svm_initVMCB_def svm_int15_initializehook_def Let_def
      same_cores_def boot_vmcb_def vmcb_bitmaps_def vmcb_controls_def vmcb_entry_def vmcb_real_mode_def real_mode_desc_def
      zero_vmcb_def xconst bit_simps)

lemma svm_memprot_result:
  assumes "cpu_vendor (vcpus s vp) = CPU_VENDOR_AMD" "npt_layout (vcpus s vp)" "np_enable (vmcb_of vp s) = 0"
    and "boot_vmcb (vmcb_of vp s)"
  shows "\<exists>s'. xmhf_memprot_initialize hw vp s = Inr s' \<and> same_cores s s' \<and> npt_built (rpb s) (vcpus s vp) (mem s')
    \<and> boot_vmcb (vmcb_of vp s') \<and> npt_on vp s' \<and> guest_asid (vmcb_of vp s') = npt_asid (vcpus s vp)"
proof -
  obtain m where m: "svm_nptinitialize (rpb s) (npt_vaddr_ptr (vcpus s vp)) (npt_vaddr_pdts (vcpus s vp))
      (npt_vaddr_pts (vcpus s vp)) (mem s) = Inr m" "npt_built (rpb s) (vcpus s vp) m"
    using svm_nptinitialize_built[OF assms(2)] by blast
  then show ?thesis
    using assms
    by (simp add: xmhf_memprot_initialize_def xmhf_memprot_arch_initialize_def xmhf_memprot_arch_x86svm_initialize_def
        Let_def same_cores_def boot_vmcb_def npt_on_def hva2spa_def)
qed

lemma svm_smpguest_result:
  assumes "machine_ok hw" "cpu_vendor (vcpus s vp) = CPU_VENDOR_AMD" "isbsp (vcpus s vp) \<noteq> 0" "1 < length (g_midtable s)"
    and "boot_vmcb (vmcb_of vp s)" "npt_on vp s"
  shows "\<exists>s'. xmhf_smpguest_arch_initialize hw vp s = Inr s' \<and> same_cores s s' \<and> boot_vmcb (vmcb_of vp s') \<and> npt_on vp s'
    \<and> guest_asid (vmcb_of vp s') = guest_asid (vmcb_of vp s)
    \<and> mem s' = st64 (mem s) (elem64 (npt_vaddr_pts (vcpus s vp)) (unat (lapic_page hw) div 4096)) (ucast (lapic_page hw))"
proof -
  obtain a where a: "rdmsr hw MSR_APIC_BASE = (a, 0)" using assms(1) by (metis machine_ok_def prod.collapse)
  have al: "take_bit 12 (lapic_page hw) = 0"
    by (rule u32_bitsI) (simp add: lapic_page_def bit_simps)
  have l: "lapic_page hw = a AND 0xFFFFF000" by (simp add: lapic_page_def a)
  let ?s = "svm_lapic_changemapping vp (lapic_page hw) (lapic_page hw) SVM_LAPIC_UNMAP (s\<lparr>g_svm_lapic_base := lapic_page hw\<rparr>)"
  have "xmhf_smpguest_arch_initialize hw vp s = Inr ?s"
    using assms(2-4) by (simp add: xmhf_smpguest_arch_initialize_def xmhf_smpguest_arch_x86svm_initialize_def a l Let_def)
  moreover have "vcpus ?s = vcpus s" "rpb ?s = rpb s" "g_midtable ?s = g_midtable s"
    "vmcb_of vp ?s = (vmcb_of vp s)\<lparr>tlb_control := VMCB_TLB_CONTROL_FLUSHALL\<rparr>"
    by (simp_all add: svm_lapic_changemapping_def xmhf_memprot_arch_x86svm_flushmappings_def Let_def)
  ultimately show ?thesis
    using assms(5,6) svm_unmap_mem[OF al, of vp "s\<lparr>g_svm_lapic_base := lapic_page hw\<rparr>"]
    by (simp add: same_cores_def boot_vmcb_def npt_on_def)
qed

lemma svm_launched_walk:
  assumes "npt_layout v" "npt_built b v m"
  shows "svm_launched_map b hw (st64 m (elem64 (npt_vaddr_pts v) (unat (lapic_page hw) div 4096)) (ucast (lapic_page hw)))
    (hva2spa (npt_vaddr_ptr v))"
proof -
  have u: "npt_upper v m" using assms(2) by (simp add: npt_built_def)
  have z: "\<not> bit (ucast (lapic_page hw) :: u64) 0" by (simp add: lapic_page_def bit_simps)
  show ?thesis
    unfolding svm_launched_map_def npt_walk_unmap[OF assms(1) u page_index z] npt_walk_built[OF assms] page_of_iff by simp
qed

lemma svm_runtime_main_result:
  fixes s :: xmhf_state
  assumes L: "svm_launchable hw" and v: "cpu_vendor (vcpus s vp) = CPU_VENDOR_AMD" "isbsp (vcpus s vp) \<noteq> 0"
    and n: "1 < length (g_midtable s)" and e: "early \<noteq> 0" and lay: "npt_layout (vcpus s vp)" and q: "no_wrmsr (hwlog s)"
  shows "\<exists>s'. xmhf_runtime_main P hw V vp early s = Inr (V, s') \<and> same_cores s s' \<and> boot_vmcb (vmcb_of vp s') \<and> npt_on vp s'
    \<and> guest_asid (vmcb_of vp s') = npt_asid (vcpus s vp)
    \<and> last (hwlog s') = VmRun (hva2spa (vmcb_vaddr_ptr (vcpus s vp)))
    \<and> svm_launched_map (rpb s) hw (mem s') (n_cr3 (vmcb_of vp s'))"
proof -
  note K = same_cores_def
  obtain s1 where s1: "xmhf_baseplatform_arch_cpuinitialize P hw s = Inr s1" "same_cores s s1" "no_wrmsr (hwlog s1)"
    using svm_cpuinitialize_result[OF L q] by blast
  obtain s2 where s2: "xmhf_partition_arch_x86svm_initializemonitor hw vp s1 = Inr s2" "same_cores s s2"
    using svm_initializemonitor_result[OF L s1(3)] s1(2) by (auto simp: K)
  obtain s3 where s3: "xmhf_partition_arch_x86svm_setupguestOSstate vp s2 = Inr s3" "same_cores s s3"
      "boot_vmcb (vmcb_of vp s3)" "np_enable (vmcb_of vp s3) = 0"
    using svm_setupguestOSstate_result[of s2 vp] s2(2) v(2) by (auto simp: K)
  obtain s4 where s4: "xmhf_memprot_initialize hw vp s3 = Inr s4" "same_cores s s4" "npt_built (rpb s) (vcpus s vp) (mem s4)"
      "boot_vmcb (vmcb_of vp s4)" "npt_on vp s4" "guest_asid (vmcb_of vp s4) = npt_asid (vcpus s vp)"
    using svm_memprot_result[OF _ _ s3(4,3), of hw] s3(2) v(1) lay by (auto simp: K)
  have "machine_ok hw" using L by (simp add: svm_launchable_def)
  then obtain s5 where s5: "xmhf_smpguest_arch_initialize hw vp s4 = Inr s5" "same_cores s s5" "boot_vmcb (vmcb_of vp s5)" "npt_on vp s5"
      "guest_asid (vmcb_of vp s5) = npt_asid (vcpus s vp)"
      "mem s5 = st64 (mem s4) (elem64 (npt_vaddr_pts (vcpus s vp)) (unat (lapic_page hw) div 4096)) (ucast (lapic_page hw))"
    using svm_smpguest_result[OF _ _ _ _ s4(4,5), of hw] s4(2,6) v n by (auto simp: K)
  define s6 where "s6 = xmhf_partition_arch_x86svm_start vp s5"
  have "xmhf_runtime_main P hw V vp early s = Inr (V, s6)"
    using s1(1,2) s2 s3(1) s4(1) s5(1,2) e v(1)
    by (simp add: xmhf_runtime_main_def K xmhf_partition_arch_initializemonitor_def xmhf_partition_arch_setupguestOSstate_def
        xmhf_partition_arch_start_def xmhf_app_main_def APP_INIT_SUCCESS_def s6_def del: bindE_eq_Inr)
  moreover have "n_cr3 (vmcb_of vp s5) = hva2spa (npt_vaddr_ptr (vcpus s vp))"
    using s5(2,4) by (simp add: npt_on_def K hva2spa_def)
  ultimately show ?thesis
    using s5 svm_launched_walk[OF lay s4(3), of hw]
    by (simp add: s6_def xmhf_partition_arch_x86svm_start_def K npt_on_def)
qed

section \<open>From the entry of the runtime to the guest\<close>

definition svm_buffers_ok :: "buffers \<Rightarrow> bool" where
  "svm_buffers_ok L \<longleftrightarrow> inj_on (vcpu_ptr L) {..<8} \<and> take_bit 12 (g_svm_npt_pdpt_buffers L) = 0
    \<and> take_bit 12 (g_svm_npt_pdts_buffers L) = 0 \<and> take_bit 12 (g_svm_npt_pts_buffers L) = 0
    \<and> apart [(g_svm_npt_pdpt_buffers L, 8 * 4096), (g_svm_npt_pdts_buffers L, 8 * 16384), (g_svm_npt_pts_buffers L, 8 * 8388608)]"

lemma new_svm_vcpu_layout:
  assumes ok: "svm_buffers_ok L" and i: "i < 8"
  shows "npt_layout (new_svm_vcpu L vendor i lid)"
proof -
  let ?P3 = "g_svm_npt_pdpt_buffers L" and ?P2 = "g_svm_npt_pdts_buffers L" and ?P1 = "g_svm_npt_pts_buffers L"
  have d: "span ?P3 (8 * 4096) \<inter> span ?P2 (8 * 16384) = {}" "span ?P3 (8 * 4096) \<inter> span ?P1 (8 * 8388608) = {}"
    "span ?P2 (8 * 16384) \<inter> span ?P1 (8 * 8388608) = {}"
    using ok unfolding svm_buffers_ok_def apart.simps by simp_all
  note D = d[THEN slices_disjoint, OF i]
  have a: "take_bit 12 (?P3 + of_nat i * 4096) = 0" "take_bit 12 (?P2 + of_nat i * 16384) = 0"
    "take_bit 12 (?P1 + of_nat i * 8388608) = 0"
    using ok aligned_offset[of ?P3 "of_nat i"] aligned_offset[of ?P2 "of_nat i * 4"] aligned_offset[of ?P1 "of_nat i * 2048"]
    by (simp_all add: svm_buffers_ok_def mult.commute mult.left_commute)
  show ?thesis
    unfolding npt_layout_def tables_disjoint_def new_svm_vcpu_def
    using a D(1)[of "8 * 4" "8 * 2048"] D(2)[of "8 * 4" "8 * 2 ^ 20"] D(3)[of "8 * 2048" "8 * 2 ^ 20"] by simp
qed

lemma svm_boot_module_irrelevant [simp]:
  "svm_launched_map (b\<lparr>XtGuestOSBootModuleBase := x\<rparr>) hw m e = svm_launched_map b hw m e"
  by (simp add: svm_launched_map_def)

text \<open>
  The start-up on AMD. On a processor that supports what the hypervisor needs, with buffers as the linker lays them
  out, the runtime runs from its entry to the first run of the guest on the boot processor. At that moment the control
  block has the guest begin in real mode at the boot sector, with every instruction of the virtualisation extension,
  NMIs and the ports and registers of the bitmaps intercepted; the address space id is not the host's; and the tables, at the
  hypervisor's own addresses, have every page but those of the hypervisor and of the local interrupt controller. Both the
  operand of the instruction that runs the guest and the root in the control block are virtual addresses.
\<close>

lemma amd_guest_prepared:
  fixes s :: xmhf_state
  assumes "svm_launchable hw" "svm_buffers_ok L" "1 < length ids" "length ids \<le> 8" "i < length ids"
    "g_midtable s = []" "isEarlyInit (rpb s) \<noteq> 0" "bit (fst (rdmsr hw MSR_APIC_BASE)) 8"
    "xmhf_baseplatform_arch_x86_acpi_getRSDP (mem s) \<noteq> 0" "no_wrmsr (hwlog s)"
  shows "\<exists>s1 s'. xmhf_runtime_entry L P E hw tmp ids s = Inr s1
    \<and> xmhf_baseplatform_arch_x86_smpinitialize_commonstart P hw V (vcpu_ptr L i) s1 = Inr (V, s')
    \<and> last (hwlog s') = VmRun (ucast (g_svm_vmcb_buffers L + of_nat i * 8192))
    \<and> boot_vmcb (vmcb_of (vcpu_ptr L i) s') \<and> guest_asid (vmcb_of (vcpu_ptr L i) s') = 2 + of_nat i
    \<and> npt_on (vcpu_ptr L i) s' \<and> n_cr3 (vmcb_of (vcpu_ptr L i) s') = ucast (g_svm_npt_pdpt_buffers L + of_nat i * 4096)
    \<and> svm_launched_map (rpb s) hw (mem s') (n_cr3 (vmcb_of (vcpu_ptr L i) s'))"
proof -
  let ?vp = "vcpu_ptr L i"
  have h: "inj_on (vcpu_ptr L) {..<8}" "machine_ok hw" "xmhf_baseplatform_arch_getcpuvendor hw = Inr CPU_VENDOR_AMD"
    using assms(1,2) by (simp_all add: svm_buffers_ok_def svm_launchable_def xmhf_baseplatform_arch_getcpuvendor_def)
  obtain s1 where s1: "xmhf_runtime_entry L P E hw tmp ids s = Inr s1"
      "allocated (vendor_vcpu L CPU_VENDOR_AMD) L ids s1" "rpb s1 = (rpb s)\<lparr>XtGuestOSBootModuleBase := x_boot_OS_module L\<rparr>"
      "no_wrmsr (hwlog s1)"
    using entry_allocates[OF h(1) assms(4,6) h(2,3) assms(9)] assms(10) by blast
  have v: "vcpus s1 ?vp = new_svm_vcpu L CPU_VENDOR_AMD i (ids ! i)" "length (g_midtable s1) = length ids"
    using s1(2) assms(5) by (simp_all add: allocated_def vendor_vcpu_def)
  have "i < 8" using assms(4,5) by simp
  note lay = new_svm_vcpu_layout[OF assms(2) this, of CPU_VENDOR_AMD "ids ! i"]
  define s2 :: xmhf_state where "s2 = upd_vcpu ?vp (\<lambda>v. v\<lparr>isbsp := 1\<rparr>) s1"
  have f: "cpu_vendor (vcpus s2 ?vp) = CPU_VENDOR_AMD" "isbsp (vcpus s2 ?vp) \<noteq> 0" "1 < length (g_midtable s2)"
    "isEarlyInit (rpb s2) \<noteq> 0" "npt_layout (vcpus s2 ?vp)" "no_wrmsr (hwlog s2)"
    "rpb s2 = (rpb s)\<lparr>XtGuestOSBootModuleBase := x_boot_OS_module L\<rparr>" "npt_asid (vcpus s2 ?vp) = 2 + of_nat i"
    "vmcb_vaddr_ptr (vcpus s2 ?vp) = g_svm_vmcb_buffers L + of_nat i * 8192"
    using v s1(3,4) assms(3,7) lay
    by (simp_all add: s2_def npt_layout_def new_svm_vcpu_def ASID_GUEST_KERNEL_def)
  obtain s' where r: "xmhf_runtime_main P hw V ?vp (isEarlyInit (rpb s2)) s2 = Inr (V, s')" "same_cores s2 s'"
      "boot_vmcb (vmcb_of ?vp s')" "npt_on ?vp s'" "guest_asid (vmcb_of ?vp s') = npt_asid (vcpus s2 ?vp)"
      "last (hwlog s') = VmRun (hva2spa (vmcb_vaddr_ptr (vcpus s2 ?vp)))"
      "svm_launched_map (rpb s2) hw (mem s') (n_cr3 (vmcb_of ?vp s'))"
    using svm_runtime_main_result[OF assms(1) f(1-6), of P V] by blast
  have "xmhf_baseplatform_arch_x86_smpinitialize_commonstart P hw V ?vp s1 = Inr (V, s')"
    using isbsp_result[OF h(2) assms(8)] r(1)
    by (simp add: xmhf_baseplatform_arch_x86_smpinitialize_commonstart_def s2_def Let_def)
  moreover have "n_cr3 (vmcb_of ?vp s') = ucast (g_svm_npt_pdpt_buffers L + of_nat i * 4096)"
    using r(2,4) v(1) by (simp add: npt_on_def same_cores_def s2_def new_svm_vcpu_def)
  ultimately show ?thesis using s1(1) r f(7-9) by (auto simp: hva2spa_def)
qed

text \<open>Two cores of a processor with SVM.\<close>

definition amd_hw :: hardware where
  "amd_hw = launch_hw\<lparr>cpuid := \<lambda>eax ecx. if eax = 0 then (0, 0x68747541, 0x444D4163, 0x69746E65)
     else if eax = 0x80000001 then (0, 0, 4, 0) else (0, 16, 0, 1), rdmsr := (\<lambda>i. (0, 0))(MSR_APIC_BASE := (0xFEE00900, 0))\<rparr>"

lemma amd_launchable: "svm_launchable amd_hw"
  by (simp add: svm_launchable_def machine_ok_def amd_hw_def launch_hw_def sample_hw_def cpu_string_def AMD_STRING_def
      pci_type1_works_def xconst bit_numeral_rec)

lemma amd_buffers_ok: "svm_buffers_ok launch_buffers"
proof -
  have "inj_on (vcpu_ptr launch_buffers) {..<8}" using launch_buffers_ok by (simp add: buffers_ok_def)
  moreover have "apart [(0x10250000, 8 * 4096), (0x10260000, 8 * 16384), (0x16000000, 8 * 8388608)]" by (simp add: span_disjointI)
  ultimately show ?thesis by (simp add: svm_buffers_ok_def launch_buffers_def)
qed

lemma amd_example:
  "\<exists>s1 s. xmhf_runtime_entry launch_buffers launch_platform sample_env amd_hw 0 [0, 2] launch_state = Inr s1
    \<and> xmhf_baseplatform_arch_x86_smpinitialize_commonstart launch_platform amd_hw (\<lambda>_. 0) 0x10100000 s1 = Inr (\<lambda>_. 0, s)
    \<and> last (hwlog s) = VmRun 0x10220000 \<and> vmcb_rip (vmcb_of 0x10100000 s) = 0x7C00"
proof -
  have h: "g_midtable launch_state = []" "isEarlyInit (rpb launch_state) \<noteq> 0" "bit (fst (rdmsr amd_hw MSR_APIC_BASE)) 8"
    "xmhf_baseplatform_arch_x86_acpi_getRSDP (mem launch_state) \<noteq> 0" "no_wrmsr (hwlog launch_state)"
    and v: "vcpu_ptr launch_buffers 0 = 0x10100000"
    using launch_rsdp
    by (simp_all add: launch_state_def sample_rpb_def sample_state_def amd_hw_def xconst bit_numeral_rec vcpu_ptr_def
      launch_buffers_def no_wrmsr_def)
  obtain s1 s where "xmhf_runtime_entry launch_buffers launch_platform sample_env amd_hw 0 [0, 2] launch_state = Inr s1"
    "xmhf_baseplatform_arch_x86_smpinitialize_commonstart launch_platform amd_hw (\<lambda>_. 0) 0x10100000 s1 = Inr (\<lambda>_. 0, s)"
    "last (hwlog s) = VmRun (ucast (g_svm_vmcb_buffers launch_buffers + of_nat 0 * 8192))" "boot_vmcb (vmcb_of 0x10100000 s)"
    using amd_guest_prepared[OF amd_launchable amd_buffers_ok, of "[0, 2]" 0 launch_state launch_platform sample_env 0
        "\<lambda>_. 0", unfolded v] h by auto
  then show ?thesis by (auto simp: boot_vmcb_def launch_buffers_def)
qed

end
