(* ===== verification/HPT_Bitfield.thy ===== *)
theory HPT_Bitfield
  imports XMHF_Platform
begin

text \<open>
  The bit range helpers of \<^verbatim>\<open>libxmhfutil/include/bitfield.h\<close>, on which the page table library is
  built. Bit positions are natural numbers; the offset of a copy may be negative in the source, and
  a copy to a negative position, a shift by a negative count in C, gives \<open>Undefined\<close>.
\<close>

definition ZERO_HI64 :: "u64 \<Rightarrow> nat \<Rightarrow> u64" where "ZERO_HI64 x bits = drop_bit bits (push_bit bits x)"
definition ZERO_LO64 :: "u64 \<Rightarrow> nat \<Rightarrow> u64" where "ZERO_LO64 x bits = push_bit bits (drop_bit bits x)"
definition ZERO_HI32 :: "u32 \<Rightarrow> nat \<Rightarrow> u32" where "ZERO_HI32 x bits = drop_bit bits (push_bit bits x)"
definition ZERO_LO32 :: "u32 \<Rightarrow> nat \<Rightarrow> u32" where "ZERO_LO32 x bits = push_bit bits (drop_bit bits x)"

definition MASKRANGE64 :: "nat \<Rightarrow> nat \<Rightarrow> u64" where
  "MASKRANGE64 hi lo = ZERO_LO64 (ZERO_HI64 0xffffffffffffffff (64 - hi - 1)) lo"
definition MASKRANGE32 :: "nat \<Rightarrow> nat \<Rightarrow> u32" where
  "MASKRANGE32 hi lo = ZERO_LO32 (ZERO_HI32 0xffffffff (32 - hi - 1)) lo"
definition MASKBIT64 :: "nat \<Rightarrow> u64" where "MASKBIT64 b = push_bit b 1"
definition MASKBIT32 :: "nat \<Rightarrow> u32" where "MASKBIT32 b = push_bit b 1"

definition BR64_GET_HL :: "u64 \<Rightarrow> nat \<Rightarrow> nat \<Rightarrow> u64" where
  "BR64_GET_HL x64 hi lo = drop_bit lo (ZERO_HI64 x64 (63 - hi))"
definition BR32_GET_HL :: "u32 \<Rightarrow> nat \<Rightarrow> nat \<Rightarrow> u64" where
  "BR32_GET_HL x32 hi lo = drop_bit lo (ZERO_HI64 (ucast x32) (31 - hi))"

definition BR64_SET_HL :: "u64 \<Rightarrow> nat \<Rightarrow> nat \<Rightarrow> u64 \<Rightarrow> xmhf_error + u64" where
  "BR64_SET_HL x64 hi lo val =
    bindE (assertE (ZERO_HI64 val (63 - (hi - lo)) = val)) (\<lambda>_.
    Inr ((x64 AND NOT (MASKRANGE64 hi lo)) OR push_bit lo val))"
definition BR32_SET_HL :: "u32 \<Rightarrow> nat \<Rightarrow> nat \<Rightarrow> u32 \<Rightarrow> xmhf_error + u32" where
  "BR32_SET_HL x32 hi lo val =
    bindE (assertE (ZERO_HI64 (ucast val) (31 - (hi - lo)) = ucast val)) (\<lambda>_.
    Inr ((x32 AND NOT (MASKRANGE32 hi lo)) OR push_bit lo val))"

definition BR64_GET_BIT :: "u64 \<Rightarrow> nat \<Rightarrow> u32" where
  "BR64_GET_BIT x64 pos = ucast (drop_bit pos (x64 AND MASKRANGE64 pos pos))"
definition BR64_SET_BIT :: "u64 \<Rightarrow> nat \<Rightarrow> bool \<Rightarrow> u64" where
  "BR64_SET_BIT x64 pos val = (x64 AND NOT (push_bit pos 1)) OR push_bit pos (if val then 1 else 0)"
definition BR32_GET_BIT :: "u32 \<Rightarrow> nat \<Rightarrow> u32" where
  "BR32_GET_BIT x32 pos = drop_bit pos (x32 AND MASKRANGE32 pos pos)"
definition BR32_SET_BIT :: "u32 \<Rightarrow> nat \<Rightarrow> bool \<Rightarrow> u32" where
  "BR32_SET_BIT x32 pos val = (x32 AND NOT (push_bit pos 1)) OR push_bit pos (if val then 1 else 0)"

definition BR64_COPY_BITS_HL :: "u64 \<Rightarrow> u64 \<Rightarrow> nat \<Rightarrow> nat \<Rightarrow> int \<Rightarrow> xmhf_error + u64" where
  "BR64_COPY_BITS_HL dst src src_hi src_lo offset =
    (if int src_lo + offset < 0 then Inl Undefined
     else BR64_SET_HL dst (nat (int src_hi + offset)) (nat (int src_lo + offset)) (BR64_GET_HL src src_hi src_lo))"
definition BR32_COPY_BITS_HL :: "u32 \<Rightarrow> u32 \<Rightarrow> nat \<Rightarrow> nat \<Rightarrow> int \<Rightarrow> xmhf_error + u32" where
  "BR32_COPY_BITS_HL dst src src_hi src_lo offset =
    (if int src_lo + offset < 0 then Inl Undefined
     else BR32_SET_HL dst (nat (int src_hi + offset)) (nat (int src_lo + offset))
            (ucast (BR32_GET_HL src src_hi src_lo)))"

section \<open>Bit characterisations\<close>

lemma bit_ZERO_HI64: "bit (ZERO_HI64 x n) k \<longleftrightarrow> k + n < 64 \<and> bit x k"
  by (auto simp: ZERO_HI64_def bit_simps dest: bit_imp_le_length)

lemma bit_ZERO_LO64: "bit (ZERO_LO64 x n) k \<longleftrightarrow> n \<le> k \<and> bit x k"
  by (auto simp: ZERO_LO64_def bit_simps dest: bit_imp_le_length)

lemma bit_ZERO_LO32: "bit (ZERO_LO32 x n) k \<longleftrightarrow> n \<le> k \<and> bit x k"
  by (auto simp: ZERO_LO32_def bit_simps dest: bit_imp_le_length)

lemma all_ones64: "(0xffffffffffffffff :: u64) = - 1"
  by simp

lemma bit_MASKRANGE64: "hi < 64 \<Longrightarrow> bit (MASKRANGE64 hi lo) k \<longleftrightarrow> lo \<le> k \<and> k \<le> hi"
  unfolding MASKRANGE64_def all_ones64 bit_ZERO_LO64 bit_ZERO_HI64 by auto

lemma bit_BR64_GET_HL: "hi < 64 \<Longrightarrow> bit (BR64_GET_HL x hi lo) k \<longleftrightarrow> k + lo \<le> hi \<and> bit x (k + lo)"
  by (auto simp: BR64_GET_HL_def bit_drop_bit_eq bit_ZERO_HI64 ac_simps)

lemma bit_BR64_SET_BIT:
  "pos < 64 \<Longrightarrow> bit (BR64_SET_BIT x pos v) k \<longleftrightarrow> (if k = pos then v else bit x k)"
  by (auto simp: BR64_SET_BIT_def bit_simps dest: bit_imp_le_length)

lemma BR64_GET_BIT_nonzero: "pos < 64 \<Longrightarrow> BR64_GET_BIT x pos \<noteq> 0 \<longleftrightarrow> bit x pos"
proof -
  assume p: "pos < 64"
  have "bit (BR64_GET_BIT x pos) k \<longleftrightarrow> k = 0 \<and> bit x pos" for k
    using p by (auto simp: BR64_GET_BIT_def bit_simps bit_MASKRANGE64)
  then show ?thesis by (metis bit_eq_iff bit_0_eq bot_apply bot_bool_def)
qed

lemma MASKBIT64_test: "e AND MASKBIT64 b \<noteq> 0 \<longleftrightarrow> bit e b"
  unfolding MASKBIT64_def by (metis and_exp_eq_0_iff_not_bit push_bit_of_1)

text \<open>
  A copy between positions that exist never fails its assertion, and moves exactly the range.
\<close>

lemma BR64_COPY_BITS_HL_ok:
  assumes "lo \<le> hi" "hi < 64" "0 \<le> int lo + off" "int hi + off < 64"
  shows "\<exists>r. BR64_COPY_BITS_HL dst src hi lo off = Inr r
    \<and> (\<forall>k. bit r k \<longleftrightarrow> (if int lo + off \<le> int k \<and> int k \<le> int hi + off
          then bit src (nat (int k - off)) else bit dst k))"
proof -
  let ?h = "nat (int hi + off)" and ?l = "nat (int lo + off)" and ?v = "BR64_GET_HL src hi lo"
  have h: "?h < 64" "?h - ?l = hi - lo" using assms by auto
  have "ZERO_HI64 ?v (63 - (?h - ?l)) = ?v"
    by (rule bit_eqI) (use assms h in \<open>auto simp: bit_ZERO_HI64 bit_BR64_GET_HL\<close>)
  then have r: "BR64_COPY_BITS_HL dst src hi lo off = Inr ((dst AND NOT (MASKRANGE64 ?h ?l)) OR push_bit ?l ?v)"
    using assms by (simp add: BR64_COPY_BITS_HL_def BR64_SET_HL_def)
  have "bit ((dst AND NOT (MASKRANGE64 ?h ?l)) OR push_bit ?l ?v) k
      \<longleftrightarrow> (if int lo + off \<le> int k \<and> int k \<le> int hi + off then bit src (nat (int k - off)) else bit dst k)" for k
  proof (cases "?l \<le> k \<and> k \<le> ?h")
    case True
    then have "k - ?l + lo = nat (int k - off)" "k - ?l + lo \<le> hi" "k < 64" using assms h by auto
    moreover have "int lo + off \<le> int k \<and> int k \<le> int hi + off" using True assms by auto
    ultimately show ?thesis
      using True h(1) assms(2) by (simp add: bit_simps bit_MASKRANGE64 bit_BR64_GET_HL)
  next
    case False
    then have "\<not> (int lo + off \<le> int k \<and> int k \<le> int hi + off)" using assms by auto
    moreover have "\<not> bit (push_bit ?l ?v) k"
      using False assms by (auto simp: bit_simps bit_BR64_GET_HL)
    ultimately show ?thesis
      using False h(1) by (auto simp: bit_simps bit_MASKRANGE64 dest: bit_imp_le_length)
  qed
  with r show ?thesis by blast
qed

text \<open>The copy in place, the form the page table library uses, as a total function.\<close>

definition field_copy :: "u64 \<Rightarrow> u64 \<Rightarrow> nat \<Rightarrow> nat \<Rightarrow> u64" where
  "field_copy dst src hi lo = (dst AND NOT (MASKRANGE64 hi lo)) OR (src AND MASKRANGE64 hi lo)"

lemma bit_field_copy:
  "hi < 64 \<Longrightarrow> bit (field_copy dst src hi lo) k \<longleftrightarrow> (if lo \<le> k \<and> k \<le> hi then bit src k else bit dst k)"
  by (auto simp: field_copy_def bit_simps bit_MASKRANGE64 dest: bit_imp_le_length)

lemma BR64_COPY_in_place:
  assumes "lo \<le> hi" "hi < 64"
  shows "BR64_COPY_BITS_HL dst src hi lo 0 = Inr (field_copy dst src hi lo)"
proof -
  obtain r where r: "BR64_COPY_BITS_HL dst src hi lo 0 = Inr r"
    "\<forall>k. bit r k \<longleftrightarrow> (if int lo \<le> int k \<and> int k \<le> int hi then bit src k else bit dst k)"
    using BR64_COPY_BITS_HL_ok[of lo hi 0 dst src] assms by auto
  have "r = field_copy dst src hi lo"
    by (rule bit_eqI) (use r(2) assms in \<open>auto simp: bit_field_copy\<close>)
  with r(1) show ?thesis by simp
qed

text \<open>
  Copying a bit range between 64-bit values at positions that exist succeeds, replaces exactly
  the destination range by the source range and leaves every other bit, and reading the range back
  gives what was read from the source.
\<close>

theorem br64_copy_roundtrip:
  assumes "lo \<le> hi" "hi < 64" "0 \<le> int lo + off" "int hi + off < 64"
  shows "\<exists>r. BR64_COPY_BITS_HL dst src hi lo off = Inr r
    \<and> BR64_GET_HL r (nat (int hi + off)) (nat (int lo + off)) = BR64_GET_HL src hi lo
    \<and> (\<forall>k. int k < int lo + off \<or> int hi + off < int k \<longrightarrow> bit r k = bit dst k)"
proof -
  obtain r where r: "BR64_COPY_BITS_HL dst src hi lo off = Inr r"
    "\<forall>k. bit r k \<longleftrightarrow> (if int lo + off \<le> int k \<and> int k \<le> int hi + off
        then bit src (nat (int k - off)) else bit dst k)"
    using BR64_COPY_BITS_HL_ok[OF assms] by blast
  have "BR64_GET_HL r (nat (int hi + off)) (nat (int lo + off)) = BR64_GET_HL src hi lo"
  proof (rule bit_eqI)
    fix k
    have h: "nat (int hi + off) < 64" using assms by auto
    have i: "int (k + nat (int lo + off)) = int k + (int lo + off)" using assms by simp
    have "k + nat (int lo + off) \<le> nat (int hi + off) \<longleftrightarrow> k + lo \<le> hi" using assms by auto
    moreover have "bit r (k + nat (int lo + off)) \<longleftrightarrow> bit src (k + lo)" if "k + lo \<le> hi"
      using that r(2)[rule_format, of "k + nat (int lo + off)"] unfolding i by (simp add: nat_add_distrib)
    ultimately show "bit (BR64_GET_HL r (nat (int hi + off)) (nat (int lo + off))) k = bit (BR64_GET_HL src hi lo) k"
      unfolding bit_BR64_GET_HL[OF h] bit_BR64_GET_HL[OF assms(2)] by blast
  qed
  with r show ?thesis by auto
qed

theorem br64_copy_roundtrip_witness:
  "\<exists>r. BR64_COPY_BITS_HL 0 0xABC000 23 12 9 = Inr r \<and> BR64_GET_HL r 32 21 = 0xABC"
  using br64_copy_roundtrip[of 12 23 9 0 "0xABC000"] by (auto simp: BR64_GET_HL_def ZERO_HI64_def)

text \<open>
  The 32-bit range read does not cut off the bits above the range: it clears the high bits as if
  the value had 64 bits, so the high bound has no effect at all, and the result is the value shifted
  down.
\<close>

theorem br32_get_ignores_hi:
  "BR32_GET_HL x hi lo = drop_bit lo (ucast x) \<and> BR32_GET_HL 0xFF 3 0 = 0xFF"
proof -
  have "ZERO_HI64 (ucast x) (31 - hi) = ucast x" for x :: u32 and hi
    by (rule bit_eqI) (auto simp: bit_ZERO_HI64 bit_simps dest: bit_imp_le_length)
  from this[of x hi] show ?thesis by (simp add: BR32_GET_HL_def ZERO_HI64_def)
qed

end
