(* ===== verification/HPT_Entries.thy ===== *)
theory HPT_Entries
  imports HPT_Bitfield
begin

text \<open>
  Page map entries of the hypervisor page table library (\<^verbatim>\<open>libxmhfutil/hpt.c\<close>, \<^verbatim>\<open>hpto.c\<close>): one
  interface to the entries of four table types, legacy 32-bit, PAE, long mode and EPT. A failed
  \<^verbatim>\<open>assert\<close> is \<open>Abort\<close>, an index outside a table \<open>OutOfBounds\<close>. Levels are natural numbers, 1 the
  page tables proper.
\<close>

section \<open>Types and tables\<close>

datatype hpt_type = HPT_TYPE_NORM | HPT_TYPE_PAE | HPT_TYPE_LONG | HPT_TYPE_EPT | HPT_TYPE_INVALID

definition HPT_MAX_LEVEL :: nat where [xconst]: "HPT_MAX_LEVEL = 4"
definition HPT_LVL_PDPT3 :: nat where [xconst]: "HPT_LVL_PDPT3 = 3"
definition HPT_PM_SIZE :: nat where [xconst]: "HPT_PM_SIZE = 4096"

definition HPT_PROT_READ_MASK :: u64 where [xconst]: "HPT_PROT_READ_MASK = 1"
definition HPT_PROT_WRITE_MASK :: u64 where [xconst]: "HPT_PROT_WRITE_MASK = 2"
definition HPT_PROT_EXEC_MASK :: u64 where [xconst]: "HPT_PROT_EXEC_MASK = 4"
definition HPT_PROTS_RWX :: u64 where [xconst]:
  "HPT_PROTS_RWX = HPT_PROT_READ_MASK OR HPT_PROT_WRITE_MASK OR HPT_PROT_EXEC_MASK"
definition HPT_PROTS_RW :: u64 where [xconst]: "HPT_PROTS_RW = HPT_PROT_READ_MASK OR HPT_PROT_WRITE_MASK"
definition HPT_PROTS_RX :: u64 where [xconst]: "HPT_PROTS_RX = HPT_PROT_READ_MASK OR HPT_PROT_EXEC_MASK"
definition HPT_PROTS_R :: u64 where [xconst]: "HPT_PROTS_R = HPT_PROT_READ_MASK"
definition HPT_PROTS_W :: u64 where [xconst]: "HPT_PROTS_W = HPT_PROT_WRITE_MASK"
definition HPT_PROTS_NONE :: u64 where [xconst]: "HPT_PROTS_NONE = 0"

definition HPT_PMT_UC :: u32 where [xconst]: "HPT_PMT_UC = 0"
definition HPT_PMT_WC :: u32 where [xconst]: "HPT_PMT_WC = 1"
definition HPT_PMT_WT :: u32 where [xconst]: "HPT_PMT_WT = 4"
definition HPT_PMT_WP :: u32 where [xconst]: "HPT_PMT_WP = 5"
definition HPT_PMT_WB :: u32 where [xconst]: "HPT_PMT_WB = 6"

definition HPT_NORM_ADDR_L2_M_HI :: nat where [xconst]: "HPT_NORM_ADDR_L2_M_HI = 31"
definition HPT_NORM_ADDR_L2_M_LO :: nat where [xconst]: "HPT_NORM_ADDR_L2_M_LO = 12"
definition HPT_NORM_ADDR3122_L2_P_HI :: nat where [xconst]: "HPT_NORM_ADDR3122_L2_P_HI = 31"
definition HPT_NORM_ADDR3122_L2_P_LO :: nat where [xconst]: "HPT_NORM_ADDR3122_L2_P_LO = 22"
definition HPT_NORM_ADDR3932_L2_P_HI :: nat where [xconst]: "HPT_NORM_ADDR3932_L2_P_HI = 20"
definition HPT_NORM_ADDR3932_L2_P_LO :: nat where [xconst]: "HPT_NORM_ADDR3932_L2_P_LO = 13"
definition HPT_NORM_PAT_L2_P_BIT :: nat where [xconst]: "HPT_NORM_PAT_L2_P_BIT = 12"
definition HPT_NORM_ADDR_L1_P_HI :: nat where [xconst]: "HPT_NORM_ADDR_L1_P_HI = 31"
definition HPT_NORM_ADDR_L1_P_LO :: nat where [xconst]: "HPT_NORM_ADDR_L1_P_LO = 12"
definition HPT_NORM_PS_L2_MP_BIT :: nat where [xconst]: "HPT_NORM_PS_L2_MP_BIT = 7"
definition HPT_NORM_PAT_L1_P_BIT :: nat where [xconst]: "HPT_NORM_PAT_L1_P_BIT = 7"
definition HPT_NORM_PCD_L21_MP_BIT :: nat where [xconst]: "HPT_NORM_PCD_L21_MP_BIT = 4"
definition HPT_NORM_PWT_L21_MP_BIT :: nat where [xconst]: "HPT_NORM_PWT_L21_MP_BIT = 3"
definition HPT_NORM_US_L21_MP_BIT :: nat where [xconst]: "HPT_NORM_US_L21_MP_BIT = 2"
definition HPT_NORM_RW_L21_MP_BIT :: nat where [xconst]: "HPT_NORM_RW_L21_MP_BIT = 1"
definition HPT_NORM_P_L21_MP_BIT :: nat where [xconst]: "HPT_NORM_P_L21_MP_BIT = 0"
definition HPT_PAE_NX_L21_MP_BIT :: nat where [xconst]: "HPT_PAE_NX_L21_MP_BIT = 63"
definition HPT_PAE_ADDR_L321_M_HI :: nat where [xconst]: "HPT_PAE_ADDR_L321_M_HI = 51"
definition HPT_PAE_ADDR_L321_M_LO :: nat where [xconst]: "HPT_PAE_ADDR_L321_M_LO = 12"
definition HPT_PAE_ADDR_L2_P_HI :: nat where [xconst]: "HPT_PAE_ADDR_L2_P_HI = 51"
definition HPT_PAE_ADDR_L2_P_LO :: nat where [xconst]: "HPT_PAE_ADDR_L2_P_LO = 13"
definition HPT_PAE_PAT_L2_P_BIT :: nat where [xconst]: "HPT_PAE_PAT_L2_P_BIT = 12"
definition HPT_PAE_ADDR_L1_P_HI :: nat where [xconst]: "HPT_PAE_ADDR_L1_P_HI = 51"
definition HPT_PAE_ADDR_L1_P_LO :: nat where [xconst]: "HPT_PAE_ADDR_L1_P_LO = 12"
definition HPT_PAE_PS_L2_MP_BIT :: nat where [xconst]: "HPT_PAE_PS_L2_MP_BIT = 7"
definition HPT_PAE_PAT_L1_P_BIT :: nat where [xconst]: "HPT_PAE_PAT_L1_P_BIT = 7"
definition HPT_PAE_PCD_L321_MP_BIT :: nat where [xconst]: "HPT_PAE_PCD_L321_MP_BIT = 4"
definition HPT_PAE_PWT_L321_MP_BIT :: nat where [xconst]: "HPT_PAE_PWT_L321_MP_BIT = 3"
definition HPT_PAE_US_L21_MP_BIT :: nat where [xconst]: "HPT_PAE_US_L21_MP_BIT = 2"
definition HPT_PAE_RW_L21_MP_BIT :: nat where [xconst]: "HPT_PAE_RW_L21_MP_BIT = 1"
definition HPT_PAE_P_L321_MP_BIT :: nat where [xconst]: "HPT_PAE_P_L321_MP_BIT = 0"
definition HPT_LONG_NX_L4321_MP_BIT :: nat where [xconst]: "HPT_LONG_NX_L4321_MP_BIT = 63"
definition HPT_LONG_ADDR_L4321_M_HI :: nat where [xconst]: "HPT_LONG_ADDR_L4321_M_HI = 51"
definition HPT_LONG_ADDR_L4321_M_LO :: nat where [xconst]: "HPT_LONG_ADDR_L4321_M_LO = 12"
definition HPT_LONG_ADDR_L32_P_HI :: nat where [xconst]: "HPT_LONG_ADDR_L32_P_HI = 51"
definition HPT_LONG_ADDR_L32_P_LO :: nat where [xconst]: "HPT_LONG_ADDR_L32_P_LO = 13"
definition HPT_LONG_ADDR_L1_P_HI :: nat where [xconst]: "HPT_LONG_ADDR_L1_P_HI = 51"
definition HPT_LONG_ADDR_L1_P_LO :: nat where [xconst]: "HPT_LONG_ADDR_L1_P_LO = 12"
definition HPT_LONG_PAT_L32_P_BIT :: nat where [xconst]: "HPT_LONG_PAT_L32_P_BIT = 12"
definition HPT_LONG_PS_L32_MP_BIT :: nat where [xconst]: "HPT_LONG_PS_L32_MP_BIT = 7"
definition HPT_LONG_PAT_L1_P_BIT :: nat where [xconst]: "HPT_LONG_PAT_L1_P_BIT = 7"
definition HPT_LONG_PCD_L4321_MP_BIT :: nat where [xconst]: "HPT_LONG_PCD_L4321_MP_BIT = 4"
definition HPT_LONG_PWT_L4321_MP_BIT :: nat where [xconst]: "HPT_LONG_PWT_L4321_MP_BIT = 3"
definition HPT_LONG_US_L4321_MP_BIT :: nat where [xconst]: "HPT_LONG_US_L4321_MP_BIT = 2"
definition HPT_LONG_RW_L4321_MP_BIT :: nat where [xconst]: "HPT_LONG_RW_L4321_MP_BIT = 1"
definition HPT_LONG_P_L4321_MP_BIT :: nat where [xconst]: "HPT_LONG_P_L4321_MP_BIT = 0"
definition HPT_EPT_MAXPHYADDR :: nat where [xconst]: "HPT_EPT_MAXPHYADDR = 52"
definition HPT_EPT_ADDR_L4321_MP_HI :: nat where [xconst]: "HPT_EPT_ADDR_L4321_MP_HI = HPT_EPT_MAXPHYADDR - 1"
definition HPT_EPT_ADDR_L4321_MP_LO :: nat where [xconst]: "HPT_EPT_ADDR_L4321_MP_LO = 12"
definition HPT_EPT_PS_L32_MP_BIT :: nat where [xconst]: "HPT_EPT_PS_L32_MP_BIT = 7"
definition HPT_EPT_MT_L321_P_HI :: nat where [xconst]: "HPT_EPT_MT_L321_P_HI = 5"
definition HPT_EPT_MT_L321_P_LO :: nat where [xconst]: "HPT_EPT_MT_L321_P_LO = 3"
definition HPT_EPT_X_L4321_MP_BIT :: nat where [xconst]: "HPT_EPT_X_L4321_MP_BIT = 2"
definition HPT_EPT_W_L4321_MP_BIT :: nat where [xconst]: "HPT_EPT_W_L4321_MP_BIT = 1"
definition HPT_EPT_R_L4321_MP_BIT :: nat where [xconst]: "HPT_EPT_R_L4321_MP_BIT = 0"
definition HPT_EPT_PROT_L4321_MP_HI :: nat where [xconst]: "HPT_EPT_PROT_L4321_MP_HI = 2"
definition HPT_EPT_PROT_L4321_MP_LO :: nat where [xconst]: "HPT_EPT_PROT_L4321_MP_LO = 0"
definition HPT_CR3_PML4_LONG_HI :: nat where [xconst]: "HPT_CR3_PML4_LONG_HI = 51"
definition HPT_CR3_PML4_LONG_LO :: nat where [xconst]: "HPT_CR3_PML4_LONG_LO = 12"
definition HPT_CR3_PML3_PAE_HI :: nat where [xconst]: "HPT_CR3_PML3_PAE_HI = 31"
definition HPT_CR3_PML3_PAE_LO :: nat where [xconst]: "HPT_CR3_PML3_PAE_LO = 5"
definition HPT_CR3_PML2_NORM_HI :: nat where [xconst]: "HPT_CR3_PML2_NORM_HI = 31"
definition HPT_CR3_PML2_NORM_LO :: nat where [xconst]: "HPT_CR3_PML2_NORM_LO = 12"
definition HPT_CR3_MBZ11_NORM_HI :: nat where [xconst]: "HPT_CR3_MBZ11_NORM_HI = 11"
definition HPT_CR3_MBZ11_NORM_LO :: nat where [xconst]: "HPT_CR3_MBZ11_NORM_LO = 5"
definition HPT_CR3_MBZ2_HI :: nat where [xconst]: "HPT_CR3_MBZ2_HI = 2"
definition HPT_CR3_MBZ2_LO :: nat where [xconst]: "HPT_CR3_MBZ2_LO = 0"
definition HPT_EPTP_PML4_HI :: nat where [xconst]: "HPT_EPTP_PML4_HI = HPT_EPT_MAXPHYADDR - 1"
definition HPT_EPTP_PML4_LO :: nat where [xconst]: "HPT_EPTP_PML4_LO = 12"

definition table_at :: "nat list \<Rightarrow> nat \<Rightarrow> xmhf_error + nat" where
  "table_at xs i = (if i < length xs then Inr (xs ! i) else Inl OutOfBounds)"

fun hpt_pm_sizes :: "hpt_type \<Rightarrow> nat list" where
  "hpt_pm_sizes HPT_TYPE_NORM = [0, HPT_PM_SIZE, HPT_PM_SIZE, 0, 0]"
| "hpt_pm_sizes HPT_TYPE_PAE = [0, HPT_PM_SIZE, HPT_PM_SIZE, 4 * 8, 0]"
| "hpt_pm_sizes HPT_TYPE_LONG = [0, HPT_PM_SIZE, HPT_PM_SIZE, HPT_PM_SIZE, HPT_PM_SIZE]"
| "hpt_pm_sizes HPT_TYPE_EPT = [0, HPT_PM_SIZE, HPT_PM_SIZE, HPT_PM_SIZE, HPT_PM_SIZE]"
| "hpt_pm_sizes HPT_TYPE_INVALID = []"

fun hpt_va_idx_hi :: "hpt_type \<Rightarrow> nat list" where
  "hpt_va_idx_hi HPT_TYPE_NORM = [11, 21, 31, 0, 0]"
| "hpt_va_idx_hi HPT_TYPE_PAE = [11, 20, 29, 31, 0]"
| "hpt_va_idx_hi HPT_TYPE_LONG = [11, 20, 29, 38, 47]"
| "hpt_va_idx_hi HPT_TYPE_EPT = [11, 20, 29, 38, 47]"
| "hpt_va_idx_hi HPT_TYPE_INVALID = []"

fun hpt_type_max_lvl :: "hpt_type \<Rightarrow> xmhf_error + nat" where
  "hpt_type_max_lvl HPT_TYPE_NORM = Inr 2"
| "hpt_type_max_lvl HPT_TYPE_PAE = Inr 3"
| "hpt_type_max_lvl HPT_TYPE_LONG = Inr 4"
| "hpt_type_max_lvl HPT_TYPE_EPT = Inr 4"
| "hpt_type_max_lvl HPT_TYPE_INVALID = Inl OutOfBounds"

definition hpt_pm_size :: "hpt_type \<Rightarrow> nat \<Rightarrow> xmhf_error + nat" where
  "hpt_pm_size t lvl =
    bindE (assertE (lvl \<le> HPT_MAX_LEVEL)) (\<lambda>_.
    bindE (table_at (hpt_pm_sizes t) lvl) (\<lambda>rv.
    bindE (assertE (rv \<noteq> 0)) (\<lambda>_. Inr rv)))"

section \<open>Root registers\<close>

definition hpt_cr3_set_address :: "hpt_type \<Rightarrow> u64 \<Rightarrow> u64 \<Rightarrow> xmhf_error + u64" where
  "hpt_cr3_set_address t cr3 a =
    (if t = HPT_TYPE_NORM then
       bindE (BR64_COPY_BITS_HL cr3 a HPT_CR3_PML2_NORM_HI HPT_CR3_PML2_NORM_LO 0) (\<lambda>cr3.
       bindE (BR64_COPY_BITS_HL cr3 0 HPT_CR3_MBZ11_NORM_HI HPT_CR3_MBZ11_NORM_LO 0) (\<lambda>cr3.
       BR64_COPY_BITS_HL cr3 0 HPT_CR3_MBZ2_HI HPT_CR3_MBZ2_LO 0))
     else if t = HPT_TYPE_PAE then
       bindE (BR64_COPY_BITS_HL cr3 a HPT_CR3_PML3_PAE_HI HPT_CR3_PML3_PAE_LO 0) (\<lambda>cr3.
       BR64_COPY_BITS_HL cr3 0 HPT_CR3_MBZ2_HI HPT_CR3_MBZ2_LO 0)
     else if t = HPT_TYPE_LONG then
       bindE (BR64_COPY_BITS_HL cr3 a HPT_CR3_PML4_LONG_HI HPT_CR3_PML4_LONG_LO 0) (\<lambda>cr3.
       BR64_COPY_BITS_HL cr3 0 HPT_CR3_MBZ2_HI HPT_CR3_MBZ2_LO 0)
     else Inl Abort)"

definition hpt_cr3_get_address :: "hpt_type \<Rightarrow> u64 \<Rightarrow> xmhf_error + u64" where
  "hpt_cr3_get_address t cr3 =
    (if t = HPT_TYPE_NORM then BR64_COPY_BITS_HL 0 cr3 HPT_CR3_PML2_NORM_HI HPT_CR3_PML2_NORM_LO 0
     else if t = HPT_TYPE_PAE then BR64_COPY_BITS_HL 0 cr3 HPT_CR3_PML3_PAE_HI HPT_CR3_PML3_PAE_LO 0
     else if t = HPT_TYPE_LONG then BR64_COPY_BITS_HL 0 cr3 HPT_CR3_PML4_LONG_HI HPT_CR3_PML4_LONG_LO 0
     else Inl Abort)"

definition hpt_eptp_set_address :: "hpt_type \<Rightarrow> u64 \<Rightarrow> u64 \<Rightarrow> xmhf_error + u64" where
  "hpt_eptp_set_address t eptp a =
    bindE (assertE (t = HPT_TYPE_EPT)) (\<lambda>_. BR64_COPY_BITS_HL eptp a HPT_EPTP_PML4_HI HPT_EPTP_PML4_LO 0)"

definition hpt_eptp_get_address :: "hpt_type \<Rightarrow> u64 \<Rightarrow> xmhf_error + u64" where
  "hpt_eptp_get_address t eptp =
    bindE (assertE (t = HPT_TYPE_EPT)) (\<lambda>_. BR64_COPY_BITS_HL 0 eptp HPT_EPTP_PML4_HI HPT_EPTP_PML4_LO 0)"

section \<open>Protection\<close>

definition hpt_prot_is_valid :: "hpt_type \<Rightarrow> nat \<Rightarrow> u64 \<Rightarrow> bool" where
  "hpt_prot_is_valid t lvl perms =
    (if t = HPT_TYPE_NORM then
       perms = HPT_PROTS_NONE \<or> perms = HPT_PROTS_RX \<or> perms = HPT_PROTS_RWX
     else if t = HPT_TYPE_PAE then
       perms = HPT_PROTS_NONE \<or> perms = HPT_PROTS_RWX
       \<or> ((lvl \<noteq> HPT_LVL_PDPT3 \<and> perms = HPT_PROTS_R) \<or> perms = HPT_PROTS_RX \<or> perms = HPT_PROTS_RW)
     else if t = HPT_TYPE_LONG then
       perms = HPT_PROTS_NONE \<or> perms = HPT_PROTS_R \<or> perms = HPT_PROTS_RX \<or> perms = HPT_PROTS_RW
       \<or> perms = HPT_PROTS_RWX
     else t = HPT_TYPE_EPT)"

definition hpt_lvl_is_valid :: "hpt_type \<Rightarrow> nat \<Rightarrow> xmhf_error + bool" where
  "hpt_lvl_is_valid t lvl = bindE (hpt_type_max_lvl t) (\<lambda>n. Inr (lvl \<le> n))"

definition hpt_type_is_valid :: "hpt_type \<Rightarrow> bool" where
  "hpt_type_is_valid t \<longleftrightarrow> t \<noteq> HPT_TYPE_INVALID"

definition hpt_root_lvl :: "hpt_type \<Rightarrow> xmhf_error + nat" where
  "hpt_root_lvl t = bindE (assertE (hpt_type_is_valid t)) (\<lambda>_. hpt_type_max_lvl t)"

definition hpt_pme_setuser :: "hpt_type \<Rightarrow> nat \<Rightarrow> u64 \<Rightarrow> bool \<Rightarrow> xmhf_error + u64" where
  "hpt_pme_setuser t lvl entry user_accessible =
    (if t = HPT_TYPE_NORM then Inr (BR64_SET_BIT entry HPT_NORM_US_L21_MP_BIT user_accessible)
     else if t = HPT_TYPE_PAE then
       if lvl = 3 then bindE (assertE user_accessible) (\<lambda>_. Inr entry)
       else Inr (BR64_SET_BIT entry HPT_PAE_US_L21_MP_BIT user_accessible)
     else if t = HPT_TYPE_LONG then Inr (BR64_SET_BIT entry HPT_LONG_US_L4321_MP_BIT user_accessible)
     else if t = HPT_TYPE_EPT then bindE (assertE user_accessible) (\<lambda>_. Inr entry)
     else Inl Abort)"

definition hpt_pme_getuser :: "hpt_type \<Rightarrow> nat \<Rightarrow> u64 \<Rightarrow> xmhf_error + bool" where
  "hpt_pme_getuser t lvl entry =
    (if t = HPT_TYPE_NORM then Inr (BR64_GET_BIT entry HPT_NORM_US_L21_MP_BIT \<noteq> 0)
     else if t = HPT_TYPE_PAE then
       if lvl = 3 then Inr True else Inr (BR64_GET_BIT entry HPT_PAE_US_L21_MP_BIT \<noteq> 0)
     else if t = HPT_TYPE_LONG then Inr (BR64_GET_BIT entry HPT_LONG_US_L4321_MP_BIT \<noteq> 0)
     else if t = HPT_TYPE_EPT then Inr True
     else Inl Abort)"

definition hpt_pme_setprot :: "hpt_type \<Rightarrow> nat \<Rightarrow> u64 \<Rightarrow> u64 \<Rightarrow> xmhf_error + u64" where
  "hpt_pme_setprot t lvl entry perms =
    bindE (hpt_lvl_is_valid t lvl) (\<lambda>v.
    bindE (assertE v) (\<lambda>_.
    bindE (assertE (hpt_prot_is_valid t lvl perms)) (\<lambda>_.
    let r = perms AND HPT_PROT_READ_MASK \<noteq> 0; w = perms AND HPT_PROT_WRITE_MASK \<noteq> 0;
        x = perms AND HPT_PROT_EXEC_MASK \<noteq> 0 in
    if t = HPT_TYPE_NORM then
      Inr (BR64_SET_BIT (BR64_SET_BIT entry HPT_NORM_P_L21_MP_BIT r) HPT_NORM_RW_L21_MP_BIT w)
    else if t = HPT_TYPE_PAE then
      let rv = BR64_SET_BIT entry HPT_PAE_P_L321_MP_BIT r in
      Inr (if lvl = 2 \<or> lvl = 1
           then BR64_SET_BIT (BR64_SET_BIT rv HPT_PAE_RW_L21_MP_BIT w) HPT_PAE_NX_L21_MP_BIT (\<not> x)
           else rv)
    else if t = HPT_TYPE_LONG then
      Inr (BR64_SET_BIT (BR64_SET_BIT (BR64_SET_BIT entry HPT_LONG_P_L4321_MP_BIT r)
             HPT_LONG_RW_L4321_MP_BIT w) HPT_LONG_NX_L4321_MP_BIT (\<not> x))
    else if t = HPT_TYPE_EPT then
      BR64_SET_HL entry HPT_EPT_PROT_L4321_MP_HI HPT_EPT_PROT_L4321_MP_LO perms
    else Inl Abort)))"

definition hpt_pme_getprot :: "hpt_type \<Rightarrow> nat \<Rightarrow> u64 \<Rightarrow> xmhf_error + u64" where
  "hpt_pme_getprot t lvl entry =
    bindE (hpt_lvl_is_valid t lvl) (\<lambda>v.
    bindE (assertE v) (\<lambda>_.
    bindE (if t = HPT_TYPE_NORM then
             let r = entry AND MASKBIT64 HPT_NORM_P_L21_MP_BIT \<noteq> 0
             in Inr (r, entry AND MASKBIT64 HPT_NORM_RW_L21_MP_BIT \<noteq> 0, r)
           else if t = HPT_TYPE_PAE then
             let r = entry AND MASKBIT64 HPT_PAE_P_L321_MP_BIT \<noteq> 0 in
             if lvl = 2 \<or> lvl = 1
             then Inr (r, entry AND MASKBIT64 HPT_PAE_RW_L21_MP_BIT \<noteq> 0,
                       \<not> (entry AND MASKBIT64 HPT_PAE_NX_L21_MP_BIT \<noteq> 0))
             else Inr (r, r, r)
           else if t = HPT_TYPE_LONG then
             Inr (entry AND MASKBIT64 HPT_LONG_P_L4321_MP_BIT \<noteq> 0,
                  entry AND MASKBIT64 HPT_LONG_RW_L4321_MP_BIT \<noteq> 0,
                  \<not> (entry AND MASKBIT64 HPT_LONG_NX_L4321_MP_BIT \<noteq> 0))
           else if t = HPT_TYPE_EPT then
             Inr (entry AND MASKBIT64 HPT_EPT_R_L4321_MP_BIT \<noteq> 0,
                  entry AND MASKBIT64 HPT_EPT_W_L4321_MP_BIT \<noteq> 0,
                  entry AND MASKBIT64 HPT_EPT_X_L4321_MP_BIT \<noteq> 0)
           else Inl Abort) (\<lambda>(r, w, x).
    Inr (HPT_PROTS_NONE OR (if r then HPT_PROT_READ_MASK else 0)
           OR (if w then HPT_PROT_WRITE_MASK else 0) OR (if x then HPT_PROT_EXEC_MASK else 0)))))"

definition hpt_pme_setunused :: "hpt_type \<Rightarrow> nat \<Rightarrow> u64 \<Rightarrow> nat \<Rightarrow> nat \<Rightarrow> u64 \<Rightarrow> xmhf_error + u64" where
  "hpt_pme_setunused t lvl entry hi lo val =
    bindE (assertE (hi > lo)) (\<lambda>_.
    if t \<noteq> HPT_TYPE_INVALID then
      bindE (assertE (hi \<le> 2)) (\<lambda>_. BR64_COPY_BITS_HL entry val (min 2 hi) (max 0 lo) 9)
    else Inl Abort)"

definition hpt_pme_getunused :: "hpt_type \<Rightarrow> nat \<Rightarrow> u64 \<Rightarrow> nat \<Rightarrow> nat \<Rightarrow> xmhf_error + u64" where
  "hpt_pme_getunused t lvl entry hi lo =
    bindE (assertE (hi > lo)) (\<lambda>_.
    if t \<noteq> HPT_TYPE_INVALID then
      bindE (assertE (hi \<le> 2)) (\<lambda>_.
      bindE (BR64_COPY_BITS_HL 0 entry (min 2 hi) (max 0 lo) 9) (\<lambda>_.
      Inr (BR64_GET_HL entry (min 2 hi + 9) (max 0 lo + 9))))
    else Inl Abort)"

definition hpt_pme_is_present :: "hpt_type \<Rightarrow> nat \<Rightarrow> u64 \<Rightarrow> xmhf_error + bool" where
  "hpt_pme_is_present t lvl entry =
    bindE (hpt_pme_getprot t lvl entry) (\<lambda>p. Inr (p AND HPT_PROT_READ_MASK \<noteq> 0))"

definition hpt_pme_is_page :: "hpt_type \<Rightarrow> nat \<Rightarrow> u64 \<Rightarrow> xmhf_error + bool" where
  "hpt_pme_is_page t lvl entry =
    (if t = HPT_TYPE_NORM then
       bindE (assertE (lvl \<le> 2)) (\<lambda>_.
       Inr (lvl = 1 \<or> (lvl = 2 \<and> BR64_GET_BIT entry HPT_NORM_PS_L2_MP_BIT \<noteq> 0)))
     else if t = HPT_TYPE_PAE then
       bindE (assertE (lvl \<le> 3)) (\<lambda>_.
       Inr (lvl = 1 \<or> (lvl = 2 \<and> BR64_GET_BIT entry HPT_PAE_PS_L2_MP_BIT \<noteq> 0)))
     else if t = HPT_TYPE_LONG then
       bindE (assertE (lvl \<le> 3)) (\<lambda>_.
       Inr (lvl = 1 \<or> ((lvl = 2 \<or> lvl = 3) \<and> BR64_GET_BIT entry HPT_LONG_PS_L32_MP_BIT \<noteq> 0)))
     else if t = HPT_TYPE_EPT then
       bindE (assertE (lvl \<le> 4)) (\<lambda>_.
       Inr (lvl = 1 \<or> ((lvl = 2 \<or> lvl = 3) \<and> BR64_GET_BIT entry HPT_EPT_PS_L32_MP_BIT \<noteq> 0)))
     else Inl Abort)"

section \<open>Addresses\<close>

text \<open>
  For the 4M page of a 32-bit table both branches copy bits 39 to 32 at a distance: the read takes
  them from positions 39 to 32 of the entry, the write asks for a copy to negative positions.
\<close>

definition hpt_pme_get_address :: "hpt_type \<Rightarrow> nat \<Rightarrow> u64 \<Rightarrow> xmhf_error + u64" where
  "hpt_pme_get_address t lvl entry =
    (if t = HPT_TYPE_NORM then
       bindE (assertE (lvl \<le> 2)) (\<lambda>_.
       if lvl = 2 then
         bindE (hpt_pme_is_page t lvl entry) (\<lambda>page.
         if page then
           bindE (BR64_COPY_BITS_HL 0 entry 39 32 (32 - int HPT_NORM_ADDR3932_L2_P_LO)) (\<lambda>rv.
           BR64_COPY_BITS_HL rv entry 31 22 (22 - int HPT_NORM_ADDR3122_L2_P_LO))
         else BR64_COPY_BITS_HL 0 entry HPT_NORM_ADDR_L2_M_HI HPT_NORM_ADDR_L2_M_LO 0)
       else BR64_COPY_BITS_HL 0 entry HPT_NORM_ADDR_L1_P_HI HPT_NORM_ADDR_L1_P_LO 0)
     else if t = HPT_TYPE_PAE then
       bindE (assertE (lvl \<le> 3)) (\<lambda>_.
       bindE (hpt_pme_is_page t lvl entry) (\<lambda>page.
       if page then
         if lvl = 1 then BR64_COPY_BITS_HL 0 entry HPT_PAE_ADDR_L1_P_HI HPT_PAE_ADDR_L1_P_LO 0
         else bindE (assertE (lvl = 2)) (\<lambda>_.
              BR64_COPY_BITS_HL 0 entry HPT_PAE_ADDR_L2_P_HI HPT_PAE_ADDR_L2_P_LO 0)
       else BR64_COPY_BITS_HL 0 entry HPT_PAE_ADDR_L321_M_HI HPT_PAE_ADDR_L321_M_LO 0))
     else if t = HPT_TYPE_LONG then
       bindE (assertE (lvl \<le> 4)) (\<lambda>_.
       bindE (hpt_pme_is_page t lvl entry) (\<lambda>page.
       if page then
         if lvl = 1 then BR64_COPY_BITS_HL 0 entry HPT_LONG_ADDR_L1_P_HI HPT_LONG_ADDR_L1_P_LO 0
         else BR64_COPY_BITS_HL 0 entry HPT_LONG_ADDR_L32_P_HI HPT_LONG_ADDR_L32_P_LO 0
       else BR64_COPY_BITS_HL 0 entry HPT_LONG_ADDR_L4321_M_HI HPT_LONG_ADDR_L4321_M_LO 0))
     else if t = HPT_TYPE_EPT then
       bindE (assertE (lvl \<le> 4)) (\<lambda>_.
       BR64_COPY_BITS_HL 0 entry HPT_EPT_ADDR_L4321_MP_HI HPT_EPT_ADDR_L4321_MP_LO 0)
     else Inl Abort)"

definition hpt_pme_set_address :: "hpt_type \<Rightarrow> nat \<Rightarrow> u64 \<Rightarrow> u64 \<Rightarrow> xmhf_error + u64" where
  "hpt_pme_set_address t lvl entry addr =
    (if t = HPT_TYPE_NORM then
       bindE (assertE (lvl \<le> 2)) (\<lambda>_.
       if lvl = 2 then
         bindE (hpt_pme_is_page t lvl entry) (\<lambda>page.
         if page then
           bindE (BR64_COPY_BITS_HL entry addr HPT_NORM_ADDR3932_L2_P_HI HPT_NORM_ADDR3932_L2_P_LO
                    (int HPT_NORM_ADDR3932_L2_P_LO - 32)) (\<lambda>_.
           BR64_COPY_BITS_HL entry addr HPT_NORM_ADDR3122_L2_P_HI HPT_NORM_ADDR3122_L2_P_LO
             (int HPT_NORM_ADDR3122_L2_P_LO - 22))
         else BR64_COPY_BITS_HL entry addr HPT_NORM_ADDR_L2_M_HI HPT_NORM_ADDR_L2_M_LO 0)
       else BR64_COPY_BITS_HL entry addr HPT_NORM_ADDR_L1_P_HI HPT_NORM_ADDR_L1_P_LO 0)
     else if t = HPT_TYPE_PAE then
       bindE (assertE (lvl \<le> 3)) (\<lambda>_.
       bindE (hpt_pme_is_page t lvl entry) (\<lambda>page.
       if page then
         if lvl = 1 then BR64_COPY_BITS_HL entry addr HPT_PAE_ADDR_L1_P_HI HPT_PAE_ADDR_L1_P_LO 0
         else bindE (assertE (lvl = 2)) (\<lambda>_.
              BR64_COPY_BITS_HL entry addr HPT_PAE_ADDR_L2_P_HI HPT_PAE_ADDR_L2_P_LO 0)
       else BR64_COPY_BITS_HL entry addr HPT_PAE_ADDR_L321_M_HI HPT_PAE_ADDR_L321_M_LO 0))
     else if t = HPT_TYPE_LONG then
       bindE (assertE (lvl \<le> 4)) (\<lambda>_.
       bindE (hpt_pme_is_page t lvl entry) (\<lambda>page.
       if page then
         if lvl = 1 then BR64_COPY_BITS_HL entry addr HPT_LONG_ADDR_L1_P_HI HPT_LONG_ADDR_L1_P_LO 0
         else BR64_COPY_BITS_HL entry addr HPT_LONG_ADDR_L32_P_HI HPT_LONG_ADDR_L32_P_LO 0
       else BR64_COPY_BITS_HL entry addr HPT_LONG_ADDR_L4321_M_HI HPT_LONG_ADDR_L4321_M_LO 0))
     else if t = HPT_TYPE_EPT then
       bindE (assertE (lvl \<le> 4)) (\<lambda>_.
       BR64_COPY_BITS_HL entry addr HPT_EPT_ADDR_L4321_MP_HI HPT_EPT_ADDR_L4321_MP_LO 0)
     else Inl Abort)"

section \<open>Memory types\<close>

definition hpt_pme_set_pat :: "hpt_type \<Rightarrow> nat \<Rightarrow> u64 \<Rightarrow> bool \<Rightarrow> xmhf_error + u64" where
  "hpt_pme_set_pat t lvl pme pat =
    (if t = HPT_TYPE_NORM then
       bindE (hpt_pme_is_page t lvl pme) (\<lambda>page.
       if page \<and> lvl = 1 then Inr (BR64_SET_BIT pme HPT_NORM_PAT_L1_P_BIT pat)
       else if page \<and> lvl = 2 then Inr (BR64_SET_BIT pme HPT_NORM_PAT_L2_P_BIT pat)
       else bindE (assertE (\<not> pat)) (\<lambda>_. Inr pme))
     else if t = HPT_TYPE_PAE then
       bindE (hpt_pme_is_page t lvl pme) (\<lambda>page.
       if page \<and> lvl = 1 then Inr (BR64_SET_BIT pme HPT_PAE_PAT_L1_P_BIT pat)
       else if page \<and> lvl = 2 then Inr (BR64_SET_BIT pme HPT_PAE_PAT_L2_P_BIT pat)
       else bindE (assertE (\<not> pat)) (\<lambda>_. Inr pme))
     else if t = HPT_TYPE_LONG then
       bindE (hpt_pme_is_page t lvl pme) (\<lambda>page.
       if page \<and> lvl = 1 then Inr (BR64_SET_BIT pme HPT_LONG_PAT_L1_P_BIT pat)
       else if page \<and> (lvl = 2 \<or> lvl = 3) then Inr (BR64_SET_BIT pme HPT_LONG_PAT_L32_P_BIT pat)
       else bindE (assertE (\<not> pat)) (\<lambda>_. Inr pme))
     else Inl Abort)"

definition hpt_pme_get_pat :: "hpt_type \<Rightarrow> nat \<Rightarrow> u64 \<Rightarrow> xmhf_error + bool" where
  "hpt_pme_get_pat t lvl pme =
    (if t = HPT_TYPE_NORM then
       bindE (hpt_pme_is_page t lvl pme) (\<lambda>page.
       if page \<and> lvl = 1 then Inr (BR64_GET_BIT pme HPT_NORM_PAT_L1_P_BIT \<noteq> 0)
       else if page \<and> lvl = 2 then Inr (BR64_GET_BIT pme HPT_NORM_PAT_L2_P_BIT \<noteq> 0)
       else Inr False)
     else if t = HPT_TYPE_PAE then
       bindE (hpt_pme_is_page t lvl pme) (\<lambda>page.
       if page \<and> lvl = 1 then Inr (BR64_GET_BIT pme HPT_PAE_PAT_L1_P_BIT \<noteq> 0)
       else if page \<and> lvl = 2 then Inr (BR64_GET_BIT pme HPT_PAE_PAT_L2_P_BIT \<noteq> 0)
       else Inr False)
     else if t = HPT_TYPE_LONG then
       bindE (hpt_pme_is_page t lvl pme) (\<lambda>page.
       if page \<and> lvl = 1 then Inr (BR64_GET_BIT pme HPT_LONG_PAT_L1_P_BIT \<noteq> 0)
       else if page \<and> (lvl = 2 \<or> lvl = 3) then Inr (BR64_GET_BIT pme HPT_LONG_PAT_L32_P_BIT \<noteq> 0)
       else Inr False)
     else Inl Abort)"

definition hpt_pme_get_pcd :: "hpt_type \<Rightarrow> nat \<Rightarrow> u64 \<Rightarrow> xmhf_error + bool" where
  "hpt_pme_get_pcd t lvl pme =
    (if t = HPT_TYPE_NORM then Inr (BR64_GET_BIT pme HPT_NORM_PCD_L21_MP_BIT \<noteq> 0)
     else if t = HPT_TYPE_PAE then Inr (BR64_GET_BIT pme HPT_PAE_PCD_L321_MP_BIT \<noteq> 0)
     else if t = HPT_TYPE_LONG then Inr (BR64_GET_BIT pme HPT_LONG_PCD_L4321_MP_BIT \<noteq> 0)
     else Inl Abort)"

definition hpt_pme_set_pcd :: "hpt_type \<Rightarrow> nat \<Rightarrow> u64 \<Rightarrow> bool \<Rightarrow> xmhf_error + u64" where
  "hpt_pme_set_pcd t lvl pme pcd =
    (if t = HPT_TYPE_NORM then Inr (BR64_SET_BIT pme HPT_NORM_PCD_L21_MP_BIT pcd)
     else if t = HPT_TYPE_PAE then Inr (BR64_SET_BIT pme HPT_PAE_PCD_L321_MP_BIT pcd)
     else if t = HPT_TYPE_LONG then Inr (BR64_SET_BIT pme HPT_LONG_PCD_L4321_MP_BIT pcd)
     else Inl Abort)"

definition hpt_pme_get_pwt :: "hpt_type \<Rightarrow> nat \<Rightarrow> u64 \<Rightarrow> xmhf_error + bool" where
  "hpt_pme_get_pwt t lvl pme =
    (if t = HPT_TYPE_NORM then Inr (BR64_GET_BIT pme HPT_NORM_PWT_L21_MP_BIT \<noteq> 0)
     else if t = HPT_TYPE_PAE then Inr (BR64_GET_BIT pme HPT_PAE_PWT_L321_MP_BIT \<noteq> 0)
     else if t = HPT_TYPE_LONG then Inr (BR64_GET_BIT pme HPT_LONG_PWT_L4321_MP_BIT \<noteq> 0)
     else Inl Abort)"

definition hpt_pme_set_pwt :: "hpt_type \<Rightarrow> nat \<Rightarrow> u64 \<Rightarrow> bool \<Rightarrow> xmhf_error + u64" where
  "hpt_pme_set_pwt t lvl pme pwt =
    (if t = HPT_TYPE_NORM then Inr (BR64_SET_BIT pme HPT_NORM_PWT_L21_MP_BIT pwt)
     else if t = HPT_TYPE_PAE then Inr (BR64_SET_BIT pme HPT_PAE_PWT_L321_MP_BIT pwt)
     else if t = HPT_TYPE_LONG then Inr (BR64_SET_BIT pme HPT_LONG_PWT_L4321_MP_BIT pwt)
     else Inl Abort)"

definition hpt_pme_get_pmt :: "hpt_type \<Rightarrow> nat \<Rightarrow> u64 \<Rightarrow> xmhf_error + u32" where
  "hpt_pme_get_pmt t lvl pme =
    (if t = HPT_TYPE_EPT then
       bindE (assertE (lvl \<le> 3)) (\<lambda>_.
       bindE (hpt_pme_is_page t lvl pme) (\<lambda>page.
       bindE (assertE page) (\<lambda>_.
       Inr (ucast (BR64_GET_HL pme HPT_EPT_MT_L321_P_HI HPT_EPT_MT_L321_P_LO)))))
     else if t \<noteq> HPT_TYPE_INVALID then
       bindE (hpt_pme_get_pcd t lvl pme) (\<lambda>pcd.
       bindE (hpt_pme_get_pwt t lvl pme) (\<lambda>pwt.
       Inr (if \<not> pcd \<and> \<not> pwt then HPT_PMT_WB else if \<not> pcd \<and> pwt then HPT_PMT_WT
            else if pcd \<and> \<not> pwt then HPT_PMT_WC else HPT_PMT_UC)))
     else Inl Abort)"

text \<open>
  The setter is declared to return the 32-bit enumeration of memory types and not an entry, so what
  the caller gets is the new entry cut to 32 bits.
\<close>

definition pmt_flags :: "u32 \<Rightarrow> xmhf_error + bool \<times> bool" where
  "pmt_flags pmt =
    (if pmt = HPT_PMT_UC then Inr (True, True) else if pmt = HPT_PMT_WC then Inr (True, False)
     else if pmt = HPT_PMT_WT then Inr (False, True) else if pmt = HPT_PMT_WP then Inl Abort
     else if pmt = HPT_PMT_WB then Inr (False, False) else Inl Abort)"

definition hpt_pme_set_pmt :: "hpt_type \<Rightarrow> nat \<Rightarrow> u64 \<Rightarrow> u32 \<Rightarrow> xmhf_error + u32" where
  "hpt_pme_set_pmt t lvl pme pmt =
    bindE (if t = HPT_TYPE_EPT then
             bindE (assertE (lvl \<le> 3)) (\<lambda>_.
             bindE (hpt_pme_is_page t lvl pme) (\<lambda>page.
             bindE (assertE page) (\<lambda>_.
             BR64_SET_HL pme HPT_EPT_MT_L321_P_HI HPT_EPT_MT_L321_P_LO (ucast pmt))))
           else if t \<noteq> HPT_TYPE_INVALID then
             bindE (pmt_flags pmt) (\<lambda>(pcd, pwt).
             bindE (hpt_pme_set_pat t lvl pme False) (\<lambda>rv.
             bindE (hpt_pme_set_pcd t lvl rv pcd) (\<lambda>rv.
             hpt_pme_set_pwt t lvl rv pwt)))
           else Inl Abort) (\<lambda>rv. Inr (ucast rv))"

section \<open>Page maps\<close>

definition hpt_get_pm_idx :: "hpt_type \<Rightarrow> nat \<Rightarrow> u64 \<Rightarrow> xmhf_error + u32" where
  "hpt_get_pm_idx t lvl va =
    bindE (assertE (hpt_type_is_valid t)) (\<lambda>_.
    bindE (hpt_lvl_is_valid t lvl) (\<lambda>v.
    bindE (assertE v) (\<lambda>_.
    if lvl = 0 then Inl OutOfBounds
    else bindE (table_at (hpt_va_idx_hi t) lvl) (\<lambda>hi.
         bindE (table_at (hpt_va_idx_hi t) (lvl - 1)) (\<lambda>lo.
         Inr (ucast (BR64_GET_HL va hi (lo + 1))))))))"

definition hpt_pm_get_pme_by_idx :: "hpt_type \<Rightarrow> nat \<Rightarrow> u32 \<Rightarrow> u32 \<Rightarrow> memory \<Rightarrow> xmhf_error + u64" where
  "hpt_pm_get_pme_by_idx t lvl pm i m =
    (if t = HPT_TYPE_EPT \<or> t = HPT_TYPE_PAE \<or> t = HPT_TYPE_LONG then Inr (ld64 m (elem64 pm (unat i)))
     else if t = HPT_TYPE_NORM then Inr (ucast (ld32 m (pm + 4 * i)))
     else Inl Abort)"

definition hpt_pm_set_pme_by_idx :: "hpt_type \<Rightarrow> nat \<Rightarrow> u32 \<Rightarrow> u32 \<Rightarrow> u64 \<Rightarrow> memory \<Rightarrow> xmhf_error + memory" where
  "hpt_pm_set_pme_by_idx t lvl pm i pme m =
    (if t = HPT_TYPE_EPT \<or> t = HPT_TYPE_PAE \<or> t = HPT_TYPE_LONG then Inr (st64 m (elem64 pm (unat i)) pme)
     else if t = HPT_TYPE_NORM then Inr (st32 m (pm + 4 * i) (ucast pme))
     else Inl Abort)"

definition hpt_pm_get_pme_by_va :: "hpt_type \<Rightarrow> nat \<Rightarrow> u32 \<Rightarrow> u64 \<Rightarrow> memory \<Rightarrow> xmhf_error + u64" where
  "hpt_pm_get_pme_by_va t lvl pm va m =
    bindE (hpt_get_pm_idx t lvl va) (\<lambda>i. hpt_pm_get_pme_by_idx t lvl pm i m)"

definition hpt_pm_set_pme_by_va :: "hpt_type \<Rightarrow> nat \<Rightarrow> u32 \<Rightarrow> u64 \<Rightarrow> u64 \<Rightarrow> memory \<Rightarrow> xmhf_error + memory" where
  "hpt_pm_set_pme_by_va t lvl pm va pme m =
    bindE (hpt_get_pm_idx t lvl va) (\<lambda>i. hpt_pm_set_pme_by_idx t lvl pm i pme m)"

section \<open>Entry and page map objects\<close>

record hpt_pmo =
  pmo_pm :: u32
  pmo_t :: hpt_type
  pmo_lvl :: nat

record hpt_pmeo =
  pmeo_pme :: u64
  pmeo_t :: hpt_type
  pmeo_lvl :: nat

definition hpt_pmeo_get_address :: "hpt_pmeo \<Rightarrow> xmhf_error + u64" where
  "hpt_pmeo_get_address e = hpt_pme_get_address (pmeo_t e) (pmeo_lvl e) (pmeo_pme e)"
definition hpt_pmeo_set_address :: "hpt_pmeo \<Rightarrow> u64 \<Rightarrow> xmhf_error + hpt_pmeo" where
  "hpt_pmeo_set_address e addr =
    bindE (hpt_pme_set_address (pmeo_t e) (pmeo_lvl e) (pmeo_pme e) addr) (\<lambda>p. Inr (e\<lparr>pmeo_pme := p\<rparr>))"
definition hpt_pmeo_is_present :: "hpt_pmeo \<Rightarrow> xmhf_error + bool" where
  "hpt_pmeo_is_present e = hpt_pme_is_present (pmeo_t e) (pmeo_lvl e) (pmeo_pme e)"
definition hpt_pmeo_is_page :: "hpt_pmeo \<Rightarrow> xmhf_error + bool" where
  "hpt_pmeo_is_page e = hpt_pme_is_page (pmeo_t e) (pmeo_lvl e) (pmeo_pme e)"
definition hpt_pmeo_setprot :: "hpt_pmeo \<Rightarrow> u64 \<Rightarrow> xmhf_error + hpt_pmeo" where
  "hpt_pmeo_setprot e perms =
    bindE (hpt_pme_setprot (pmeo_t e) (pmeo_lvl e) (pmeo_pme e) perms) (\<lambda>p. Inr (e\<lparr>pmeo_pme := p\<rparr>))"
definition hpt_pmeo_getprot :: "hpt_pmeo \<Rightarrow> xmhf_error + u64" where
  "hpt_pmeo_getprot e = hpt_pme_getprot (pmeo_t e) (pmeo_lvl e) (pmeo_pme e)"
definition hpt_pmeo_getuser :: "hpt_pmeo \<Rightarrow> xmhf_error + bool" where
  "hpt_pmeo_getuser e = hpt_pme_getuser (pmeo_t e) (pmeo_lvl e) (pmeo_pme e)"
definition hpt_pmeo_setuser :: "hpt_pmeo \<Rightarrow> bool \<Rightarrow> xmhf_error + hpt_pmeo" where
  "hpt_pmeo_setuser e user =
    bindE (hpt_pme_setuser (pmeo_t e) (pmeo_lvl e) (pmeo_pme e) user) (\<lambda>p. Inr (e\<lparr>pmeo_pme := p\<rparr>))"

definition hpt_pm_get_pmeo_by_va :: "hpt_pmo \<Rightarrow> u64 \<Rightarrow> memory \<Rightarrow> xmhf_error + hpt_pmeo" where
  "hpt_pm_get_pmeo_by_va pmo va m =
    bindE (hpt_pm_get_pme_by_va (pmo_t pmo) (pmo_lvl pmo) (pmo_pm pmo) va m) (\<lambda>p.
    Inr \<lparr>pmeo_pme = p, pmeo_t = pmo_t pmo, pmeo_lvl = pmo_lvl pmo\<rparr>)"
definition hpt_pmo_set_pme_by_va :: "hpt_pmo \<Rightarrow> hpt_pmeo \<Rightarrow> u64 \<Rightarrow> memory \<Rightarrow> xmhf_error + memory" where
  "hpt_pmo_set_pme_by_va pmo pmeo va m =
    hpt_pm_set_pme_by_va (pmo_t pmo) (pmo_lvl pmo) (pmo_pm pmo) va (pmeo_pme pmeo) m"

definition hpt_pmeo_page_size_log_2 :: "hpt_pmeo \<Rightarrow> xmhf_error + nat" where
  "hpt_pmeo_page_size_log_2 e =
    (if pmeo_lvl e = 0 then Inl OutOfBounds
     else bindE (table_at (hpt_va_idx_hi (pmeo_t e)) (pmeo_lvl e - 1)) (\<lambda>offset_hi. Inr (offset_hi + 1)))"

definition hpt_pmeo_va_to_pa :: "hpt_pmeo \<Rightarrow> u64 \<Rightarrow> xmhf_error + u64" where
  "hpt_pmeo_va_to_pa e va =
    bindE (hpt_pme_is_page (pmeo_t e) (pmeo_lvl e) (pmeo_pme e)) (\<lambda>page.
    bindE (assertE page) (\<lambda>_.
    bindE (hpt_pmeo_get_address e) (\<lambda>base.
    if pmeo_lvl e = 0 then Inl OutOfBounds
    else bindE (table_at (hpt_va_idx_hi (pmeo_t e)) (pmeo_lvl e - 1)) (\<lambda>offset_hi.
         Inr (base + (va AND MASKRANGE64 offset_hi 0))))))"

definition hpt_pmeo_page_size :: "hpt_pmeo \<Rightarrow> xmhf_error + u32" where
  "hpt_pmeo_page_size e = bindE (hpt_pmeo_page_size_log_2 e) (\<lambda>n. Inr (push_bit n 1))"

definition hpt_remaining_on_page :: "hpt_pmeo \<Rightarrow> u64 \<Rightarrow> xmhf_error + u32" where
  "hpt_remaining_on_page e va =
    bindE (hpt_pmeo_page_size_log_2 e) (\<lambda>page_size_log_2.
    let page_size = push_bit page_size_log_2 1 :: u32;
        offset_on_page = ucast (va AND MASKRANGE64 (page_size_log_2 - 1) 0) :: u32
    in Inr (page_size - offset_on_page))"

section \<open>Which bits an accessor reads\<close>

lemma mask_bits:
  "p AND HPT_PROT_READ_MASK \<noteq> 0 \<longleftrightarrow> bit p 0" "p AND HPT_PROT_WRITE_MASK \<noteq> 0 \<longleftrightarrow> bit p 1"
  "p AND HPT_PROT_EXEC_MASK \<noteq> 0 \<longleftrightarrow> bit p 2"
  using and_exp_eq_0_iff_not_bit[of p 0] and_exp_eq_0_iff_not_bit[of p 1] and_exp_eq_0_iff_not_bit[of p 2]
  by (simp_all add: xconst)

lemma field_copy_cong: "(\<And>k. lo \<le> k \<Longrightarrow> k \<le> hi \<Longrightarrow> bit e k = bit e' k) \<Longrightarrow> hi < 64 \<Longrightarrow>
    field_copy d e hi lo = field_copy d e' hi lo"
  by (rule bit_eqI) (simp add: bit_field_copy)

lemma BR64_GET_HL_cong: "(\<And>k. lo \<le> k \<Longrightarrow> k \<le> hi \<Longrightarrow> bit e k = bit e' k) \<Longrightarrow> hi < 64 \<Longrightarrow>
    BR64_GET_HL e hi lo = BR64_GET_HL e' hi lo"
  by (rule bit_eqI) (auto simp: bit_BR64_GET_HL)

lemma is_page_cong: "bit e 7 = bit e' 7 \<Longrightarrow> hpt_pme_is_page t lvl e = hpt_pme_is_page t lvl e'"
  by (simp add: hpt_pme_is_page_def xconst BR64_GET_BIT_nonzero)

lemma getuser_cong: "bit e 2 = bit e' 2 \<Longrightarrow> hpt_pme_getuser t lvl e = hpt_pme_getuser t lvl e'"
  by (simp add: hpt_pme_getuser_def xconst BR64_GET_BIT_nonzero)

lemma getprot_cong:
  "(\<And>k. k \<in> {0, 1, 2, 63} \<Longrightarrow> bit e k = bit e' k) \<Longrightarrow> hpt_pme_getprot t lvl e = hpt_pme_getprot t lvl e'"
  by (simp add: hpt_pme_getprot_def xconst MASKBIT64_test Let_def cong: if_cong)

lemma get_address_cong:
  assumes "bit e 7 = bit e' 7" and "\<And>k. 12 \<le> k \<Longrightarrow> k < 52 \<Longrightarrow> bit e k = bit e' k"
  shows "hpt_pme_get_address t lvl e = hpt_pme_get_address t lvl e'"
proof -
  have f: "field_copy d e hi lo = field_copy d e' hi lo" if "12 \<le> lo" "hi < 52" for d hi lo
    using that assms(2) by (intro field_copy_cong) auto
  have "BR64_GET_HL e 39 32 = BR64_GET_HL e' 39 32" using assms(2) by (intro BR64_GET_HL_cong) auto
  then have "BR64_COPY_BITS_HL d e 39 32 19 = BR64_COPY_BITS_HL d e' 39 32 19" for d
    by (simp add: BR64_COPY_BITS_HL_def)
  then show ?thesis
    by (simp add: hpt_pme_get_address_def xconst BR64_COPY_in_place is_page_cong[OF assms(1)] f cong: if_cong)
qed

section \<open>Protection round trip\<close>

text \<open>The rights an entry of the type and level can represent.\<close>

definition hpt_prot_exact :: "hpt_type \<Rightarrow> nat \<Rightarrow> u64 \<Rightarrow> bool" where
  "hpt_prot_exact t lvl p \<longleftrightarrow> hpt_prot_is_valid t lvl p \<and> p < 8
     \<and> (t = HPT_TYPE_PAE \<and> lvl = 3 \<longrightarrow> p = HPT_PROTS_NONE \<or> p = HPT_PROTS_RWX)"

lemma small_prot_bits: "p < 8 \<Longrightarrow> bit (p :: u64) k \<Longrightarrow> k < 3"
proof -
  assume "p < 8" and b: "bit p k"
  then have "take_bit 3 p = p" using less_mask_eq[of p 3] by (simp add: take_bit_eq_mask)
  with b show "k < 3" by (metis bit_take_bit_iff)
qed

lemma prot_eq_bits:
  assumes "p < 8"
  shows "(if bit p 0 then HPT_PROT_READ_MASK else 0) OR (if bit p 1 then HPT_PROT_WRITE_MASK else 0)
      OR (if bit p 2 then HPT_PROT_EXEC_MASK else 0) = p"
proof (rule bit_word_eqI)
  fix k
  show "bit ((if bit p 0 then HPT_PROT_READ_MASK else 0) OR (if bit p 1 then HPT_PROT_WRITE_MASK else 0)
      OR (if bit p 2 then HPT_PROT_EXEC_MASK else 0)) k = bit p k"
  proof (cases "k < 3")
    case True
    then have "k = 0 \<or> k = 1 \<or> k = 2" by auto
    then show ?thesis by (auto simp: bit_simps xconst bit_1_iff)
  next
    case False
    then have "\<not> bit p k" using small_prot_bits[OF assms] by blast
    moreover have "\<not> bit (1 :: u64) k" "\<not> bit (2 :: u64) k" "\<not> bit (4 :: u64) k"
      using False small_prot_bits[of 1 k] small_prot_bits[of 2 k] small_prot_bits[of 4 k] by auto
    ultimately show ?thesis by (auto simp: bit_simps xconst)
  qed
qed

lemmas prot_consts = HPT_NORM_P_L21_MP_BIT_def HPT_NORM_RW_L21_MP_BIT_def HPT_PAE_P_L321_MP_BIT_def
  HPT_PAE_RW_L21_MP_BIT_def HPT_PAE_NX_L21_MP_BIT_def HPT_LONG_P_L4321_MP_BIT_def HPT_LONG_RW_L4321_MP_BIT_def
  HPT_LONG_NX_L4321_MP_BIT_def HPT_PROTS_NONE_def

lemma setprot_ok:
  assumes "hpt_lvl_is_valid t lvl = Inr True" "lvl \<noteq> 0" "hpt_prot_exact t lvl p"
  obtains e' where "hpt_pme_setprot t lvl e p = Inr e'" "hpt_pme_getprot t lvl e' = Inr p"
    and "\<And>k. k \<notin> {0, 1, 2, 63} \<Longrightarrow> bit e' k = bit e k" and "t \<noteq> HPT_TYPE_EPT \<Longrightarrow> bit e' 2 = bit e 2"
proof -
  have p: "hpt_prot_is_valid t lvl p" "p < 8" using assms(3) by (auto simp: hpt_prot_exact_def)
  show ?thesis
  proof (cases "t = HPT_TYPE_EPT")
    case True
    have z: "ZERO_HI64 p 61 = p"
      by (rule bit_eqI) (auto simp: bit_ZERO_HI64 dest: small_prot_bits[OF p(2)])
    let ?e = "(e AND NOT (MASKRANGE64 2 0)) OR p"
    have b: "bit ?e k \<longleftrightarrow> (if k \<le> 2 then bit p k else bit e k)" for k
      using small_prot_bits[OF p(2), of k] by (auto simp: bit_simps bit_MASKRANGE64 dest: bit_imp_le_length)
    show ?thesis
    proof (rule that[of ?e])
      show "hpt_pme_setprot t lvl e p = Inr ?e"
        using True assms(1) p(1) z by (simp add: hpt_pme_setprot_def BR64_SET_HL_def xconst)
      show "hpt_pme_getprot t lvl ?e = Inr p"
        using True assms(1) prot_eq_bits[OF p(2)]
        by (simp add: hpt_pme_getprot_def MASKBIT64_test b HPT_EPT_R_L4321_MP_BIT_def
            HPT_EPT_W_L4321_MP_BIT_def HPT_EPT_X_L4321_MP_BIT_def HPT_PROTS_NONE_def)
    qed (use b True in auto)
  next
    case False
    let ?n = "BR64_SET_BIT (BR64_SET_BIT e 0 (bit p 0)) 1 (bit p 1)"
    let ?x = "BR64_SET_BIT ?n 63 (\<not> bit p 2)" and ?s = "BR64_SET_BIT e 0 (bit p 0)"
    note b = bit_BR64_SET_BIT
    have v: "t \<noteq> HPT_TYPE_INVALID" using assms(1) by (auto simp: hpt_lvl_is_valid_def)
    consider (n) "t = HPT_TYPE_NORM" | (l) "t = HPT_TYPE_LONG" | (x) "t = HPT_TYPE_PAE" "lvl = 2 \<or> lvl = 1"
      | (s) "t = HPT_TYPE_PAE" "lvl = 3"
      using False v assms(1,2) by (cases t) (auto simp: hpt_lvl_is_valid_def le_Suc_eq numeral_eq_Suc)
    then show ?thesis
    proof cases
      case n
      then have "bit p 2 = bit p 0" using p(1) by (auto simp: hpt_prot_is_valid_def xconst)
      with n prot_eq_bits[OF p(2)] assms(1) p(1) show ?thesis
        by (intro that[of ?n])
          (simp_all add: hpt_pme_setprot_def hpt_pme_getprot_def MASKBIT64_test mask_bits b Let_def prot_consts)
    next
      case l
      with prot_eq_bits[OF p(2)] assms(1) p(1) show ?thesis
        by (intro that[of ?x])
          (simp_all add: hpt_pme_setprot_def hpt_pme_getprot_def MASKBIT64_test mask_bits b Let_def prot_consts)
    next
      case x
      show ?thesis
      proof (rule that[of ?x])
        show "hpt_pme_setprot t lvl e p = Inr ?x" using assms(1) p(1)
          unfolding hpt_pme_setprot_def x(1) mask_bits Let_def prot_consts if_P[OF x(2)] by simp
        show "hpt_pme_getprot t lvl ?x = Inr p" using assms(1) prot_eq_bits[OF p(2)]
          unfolding hpt_pme_getprot_def x(1) MASKBIT64_test Let_def prot_consts if_P[OF x(2)] by (simp add: b)
      qed (simp_all add: b)
    next
      case s
      then have "bit p 1 = bit p 0" "bit p 2 = bit p 0" using assms(3) by (auto simp: hpt_prot_exact_def xconst)
      with s prot_eq_bits[OF p(2)] assms(1) p(1) show ?thesis
        by (intro that[of ?s])
          (simp_all add: hpt_pme_setprot_def hpt_pme_getprot_def MASKBIT64_test mask_bits b Let_def prot_consts)
    qed
  qed
qed

text \<open>
  C37: Setting the protection of an entry and reading it back gives the rights that were set, for
  every table type and level and every combination of rights the entry can represent; the mapped
  address, the user bit and whether the entry maps a page stay as they were.
\<close>

theorem hpt_prot_roundtrip:
  assumes "hpt_lvl_is_valid t lvl = Inr True" "lvl \<noteq> 0" "hpt_prot_exact t lvl p"
  shows "\<exists>e'. hpt_pme_setprot t lvl e p = Inr e' \<and> hpt_pme_getprot t lvl e' = Inr p
    \<and> hpt_pme_get_address t lvl e' = hpt_pme_get_address t lvl e
    \<and> hpt_pme_getuser t lvl e' = hpt_pme_getuser t lvl e
    \<and> hpt_pme_is_page t lvl e' = hpt_pme_is_page t lvl e"
proof (rule setprot_ok[OF assms, of e])
  fix e' assume e: "hpt_pme_setprot t lvl e p = Inr e'" "hpt_pme_getprot t lvl e' = Inr p"
    and b: "\<And>k. k \<notin> {0, 1, 2, 63} \<Longrightarrow> bit e' k = bit e k" "t \<noteq> HPT_TYPE_EPT \<Longrightarrow> bit e' 2 = bit e 2"
  have "hpt_pme_getuser t lvl e' = hpt_pme_getuser t lvl e"
    by (cases "t = HPT_TYPE_EPT") (simp add: hpt_pme_getuser_def, rule getuser_cong[OF b(2)])
  moreover have "hpt_pme_get_address t lvl e' = hpt_pme_get_address t lvl e"
    by (intro get_address_cong b(1)) auto
  moreover have "hpt_pme_is_page t lvl e' = hpt_pme_is_page t lvl e" by (intro is_page_cong b(1)) auto
  ultimately show ?thesis using e by blast
qed

theorem hpt_prot_roundtrip_witness:
  "\<exists>e'. hpt_pme_setprot HPT_TYPE_PAE 1 0x12345067 HPT_PROTS_R = Inr e'
    \<and> hpt_pme_getprot HPT_TYPE_PAE 1 e' = Inr HPT_PROTS_R"
proof -
  have "hpt_lvl_is_valid HPT_TYPE_PAE 1 = Inr True" "hpt_prot_exact HPT_TYPE_PAE 1 HPT_PROTS_R"
    by (simp_all add: hpt_lvl_is_valid_def hpt_prot_exact_def hpt_prot_is_valid_def xconst)
  from hpt_prot_roundtrip[OF this(1) _ this(2)] show ?thesis by auto
qed

text \<open>
  The validity test of protections lets through rights a PAE directory pointer entry cannot hold:
  read-execute passes at level 3, and the entry then grants all rights, write included.
\<close>

theorem hpt_pdpt_rights_widened:
  "hpt_prot_is_valid HPT_TYPE_PAE 3 HPT_PROTS_RX
   \<and> bindE (hpt_pme_setprot HPT_TYPE_PAE 3 e HPT_PROTS_RX) (hpt_pme_getprot HPT_TYPE_PAE 3) = Inr HPT_PROTS_RWX"
  by (simp add: hpt_prot_is_valid_def hpt_pme_setprot_def hpt_pme_getprot_def hpt_lvl_is_valid_def
      MASKBIT64_test bit_BR64_SET_BIT Let_def xconst)

section \<open>Address round trip\<close>

text \<open>The bits of an entry that hold the address it maps.\<close>

definition addr_hi :: "hpt_type \<Rightarrow> nat" where
  "addr_hi t = (if t = HPT_TYPE_NORM then 31 else 51)"

definition addr_lo :: "hpt_type \<Rightarrow> nat \<Rightarrow> bool \<Rightarrow> nat" where
  "addr_lo t lvl page = (if (t = HPT_TYPE_PAE \<or> t = HPT_TYPE_LONG) \<and> page \<and> lvl \<noteq> 1 then 13 else 12)"

text \<open>An address the entry can hold.\<close>

definition addr_fits :: "hpt_type \<Rightarrow> nat \<Rightarrow> bool \<Rightarrow> u64 \<Rightarrow> bool" where
  "addr_fits t lvl page a \<longleftrightarrow> take_bit (addr_lo t lvl page) a = 0 \<and> drop_bit (addr_hi t + 1) a = 0"

lemmas addr_consts = HPT_NORM_ADDR_L2_M_HI_def HPT_NORM_ADDR_L2_M_LO_def HPT_NORM_ADDR_L1_P_HI_def
  HPT_NORM_ADDR_L1_P_LO_def HPT_PAE_ADDR_L1_P_HI_def HPT_PAE_ADDR_L1_P_LO_def HPT_PAE_ADDR_L2_P_HI_def
  HPT_PAE_ADDR_L2_P_LO_def HPT_PAE_ADDR_L321_M_HI_def HPT_PAE_ADDR_L321_M_LO_def HPT_LONG_ADDR_L1_P_HI_def
  HPT_LONG_ADDR_L1_P_LO_def HPT_LONG_ADDR_L32_P_HI_def HPT_LONG_ADDR_L32_P_LO_def
  HPT_LONG_ADDR_L4321_M_HI_def HPT_LONG_ADDR_L4321_M_LO_def HPT_EPT_ADDR_L4321_MP_HI_def
  HPT_EPT_ADDR_L4321_MP_LO_def HPT_EPT_MAXPHYADDR_def

lemma is_page_total:
  assumes "hpt_lvl_is_valid t lvl = Inr True" "\<not> (t = HPT_TYPE_LONG \<and> lvl = 4)"
  shows "\<exists>page. hpt_pme_is_page t lvl e = Inr page \<and> (page \<longrightarrow> lvl = 1 \<or> lvl = 2 \<or> lvl = 3 \<and> t \<noteq> HPT_TYPE_PAE)"
  using assms by (cases t) (auto simp: hpt_lvl_is_valid_def hpt_pme_is_page_def)

lemma address_ops:
  assumes "hpt_lvl_is_valid t lvl = Inr True" and p: "hpt_pme_is_page t lvl e = Inr page"
    and "\<not> (t = HPT_TYPE_NORM \<and> lvl = 2 \<and> page)"
  shows "hpt_pme_get_address t lvl e = Inr (field_copy 0 e (addr_hi t) (addr_lo t lvl page))"
    and "hpt_pme_set_address t lvl e a = Inr (field_copy e a (addr_hi t) (addr_lo t lvl page))"
proof -
  have l: "t = HPT_TYPE_NORM \<Longrightarrow> lvl \<le> 2" "t = HPT_TYPE_PAE \<Longrightarrow> lvl \<le> 3" "t = HPT_TYPE_LONG \<Longrightarrow> lvl \<le> 4"
    "t = HPT_TYPE_EPT \<Longrightarrow> lvl \<le> 4" "t \<noteq> HPT_TYPE_INVALID"
    using assms(1) by (auto simp: hpt_lvl_is_valid_def)
  have q: "t = HPT_TYPE_PAE \<Longrightarrow> page \<Longrightarrow> lvl \<noteq> 1 \<Longrightarrow> lvl = 2"
    using p by (auto simp: hpt_pme_is_page_def)
  show "hpt_pme_get_address t lvl e = Inr (field_copy 0 e (addr_hi t) (addr_lo t lvl page))"
  proof (cases t)
    case HPT_TYPE_NORM
    with l(1) p assms(3) show ?thesis
      unfolding hpt_pme_get_address_def addr_consts addr_hi_def addr_lo_def
      by (cases "lvl = 2") (simp_all add: BR64_COPY_in_place)
  next
    case HPT_TYPE_PAE
    with l(2) p q show ?thesis
      unfolding hpt_pme_get_address_def addr_consts addr_hi_def addr_lo_def
      by (cases "lvl = 1") (simp_all add: BR64_COPY_in_place)
  next
    case HPT_TYPE_LONG
    with l(3) p show ?thesis
      unfolding hpt_pme_get_address_def addr_consts addr_hi_def addr_lo_def
      by (cases "lvl = 1") (simp_all add: BR64_COPY_in_place)
  next
    case HPT_TYPE_EPT
    with l(4) show ?thesis
      by (simp add: hpt_pme_get_address_def addr_consts addr_hi_def addr_lo_def BR64_COPY_in_place)
  qed (use l(5) in simp)
  show "hpt_pme_set_address t lvl e a = Inr (field_copy e a (addr_hi t) (addr_lo t lvl page))"
  proof (cases t)
    case HPT_TYPE_NORM
    with l(1) p assms(3) show ?thesis
      unfolding hpt_pme_set_address_def addr_consts addr_hi_def addr_lo_def
      by (cases "lvl = 2") (simp_all add: BR64_COPY_in_place)
  next
    case HPT_TYPE_PAE
    with l(2) p q show ?thesis
      unfolding hpt_pme_set_address_def addr_consts addr_hi_def addr_lo_def
      by (cases "lvl = 1") (simp_all add: BR64_COPY_in_place)
  next
    case HPT_TYPE_LONG
    with l(3) p show ?thesis
      unfolding hpt_pme_set_address_def addr_consts addr_hi_def addr_lo_def
      by (cases "lvl = 1") (simp_all add: BR64_COPY_in_place)
  next
    case HPT_TYPE_EPT
    with l(4) show ?thesis
      by (simp add: hpt_pme_set_address_def addr_consts addr_hi_def addr_lo_def BR64_COPY_in_place)
  qed (use l(5) in simp)
qed

lemma addr_fits_copy:
  assumes "addr_fits t lvl page a"
  shows "field_copy 0 (field_copy e a (addr_hi t) (addr_lo t lvl page)) (addr_hi t) (addr_lo t lvl page) = a"
proof (rule bit_eqI)
  fix k
  have h: "addr_hi t < 64" by (simp add: addr_hi_def)
  have "\<not> bit a k" if "k < addr_lo t lvl page"
    using assms that by (metis addr_fits_def bit_take_bit_iff bit_0_eq bot_apply bot_bool_def)
  moreover have "\<not> bit a k" if "addr_hi t < k"
  proof -
    have "\<not> bit (drop_bit (addr_hi t + 1) a) (k - (addr_hi t + 1))"
      using assms by (simp add: addr_fits_def)
    then show ?thesis using that by (simp add: bit_drop_bit_eq)
  qed
  ultimately show "bit (field_copy 0 (field_copy e a (addr_hi t) (addr_lo t lvl page)) (addr_hi t) (addr_lo t lvl page)) k = bit a k"
    using h by (auto simp: bit_field_copy not_le)
qed

text \<open>
  Writing an address into an entry and reading it back gives the address, for every table type
  and level, provided the address is aligned and in range for the entry; the protection, the user bit
  and whether the entry maps a page stay as they were. Left out are the two cases below in which the
  library cannot do it.
\<close>

theorem hpt_address_roundtrip:
  assumes "hpt_lvl_is_valid t lvl = Inr True" and "\<not> (t = HPT_TYPE_LONG \<and> lvl = 4)"
    and "hpt_pme_is_page t lvl e = Inr page" and "\<not> (t = HPT_TYPE_NORM \<and> lvl = 2 \<and> page)"
    and "addr_fits t lvl page a"
  shows "\<exists>e'. hpt_pme_set_address t lvl e a = Inr e' \<and> hpt_pme_get_address t lvl e' = Inr a
    \<and> hpt_pme_getprot t lvl e' = hpt_pme_getprot t lvl e
    \<and> hpt_pme_getuser t lvl e' = hpt_pme_getuser t lvl e \<and> hpt_pme_is_page t lvl e' = Inr page"
proof -
  let ?e = "field_copy e a (addr_hi t) (addr_lo t lvl page)"
  have b: "bit ?e k = bit e k" if "k < 12 \<or> 51 < k" for k
    using that by (subst bit_field_copy) (auto simp: addr_hi_def addr_lo_def)
  have p: "hpt_pme_is_page t lvl ?e = Inr page"
    using is_page_cong[of ?e e t lvl] b[of 7] assms(3) by simp
  have "hpt_pme_getprot t lvl ?e = hpt_pme_getprot t lvl e" by (intro getprot_cong b) auto
  moreover have "hpt_pme_getuser t lvl ?e = hpt_pme_getuser t lvl e" by (intro getuser_cong b) auto
  ultimately show ?thesis
    using address_ops(2)[OF assms(1,3,4), of a] address_ops(1)[OF assms(1) p assms(4)] addr_fits_copy[OF assms(5)] p
    by simp
qed

theorem hpt_address_roundtrip_witness:
  "\<exists>e'. hpt_pme_set_address HPT_TYPE_EPT 1 0x37 0xFEE00000 = Inr e'
    \<and> hpt_pme_get_address HPT_TYPE_EPT 1 e' = Inr 0xFEE00000"
proof -
  have "hpt_pme_is_page HPT_TYPE_EPT 1 0x37 = Inr True" by (simp add: hpt_pme_is_page_def)
  moreover have "addr_fits HPT_TYPE_EPT 1 True 0xFEE00000"
    by (simp add: addr_fits_def addr_hi_def addr_lo_def)
  ultimately show ?thesis
    using hpt_address_roundtrip[of HPT_TYPE_EPT 1 "0x37" True "0xFEE00000"]
    by (auto simp: hpt_lvl_is_valid_def)
qed

text \<open>
  Two kinds of table cannot be handled. In long mode the page test asserts that the level is at
  most 3, so reading or writing the address of a top-level entry aborts, and no long-mode table can be
  walked from its root. In a 32-bit table, writing the address of a 4M page shifts by a negative count.
\<close>

theorem hpt_unsupported_entries:
  "hpt_pme_is_page HPT_TYPE_LONG 4 e = Inl Abort \<and> hpt_pme_get_address HPT_TYPE_LONG 4 e = Inl Abort
   \<and> hpt_pme_set_address HPT_TYPE_LONG 4 e a = Inl Abort
   \<and> (bit e 7 \<longrightarrow> hpt_pme_set_address HPT_TYPE_NORM 2 e a = Inl Undefined)"
  by (simp add: hpt_pme_is_page_def hpt_pme_get_address_def hpt_pme_set_address_def BR64_GET_BIT_nonzero
      BR64_COPY_BITS_HL_def xconst)

theorem hpt_unsupported_entries_witness:
  "hpt_pme_set_address HPT_TYPE_NORM 2 0x83 0x400000 = Inl Undefined"
  using hpt_unsupported_entries[of "0x83" "0x400000"] by (simp add: bit_numeral_rec)

section \<open>Indices\<close>

lemma table_at_simps [simp]:
  "i < length xs \<Longrightarrow> table_at xs i = Inr (xs ! i)" "length xs \<le> i \<Longrightarrow> table_at xs i = Inl OutOfBounds"
  by (simp_all add: table_at_def)

text \<open>
  The index computation of the library agrees with the macros of the hypervisor's paging header,
  for the three levels of a PAE table and the two of a 32-bit table; a level the type does not have
  is refused.
\<close>

theorem hpt_index_agrees_with_macros:
  "hpt_get_pm_idx HPT_TYPE_PAE 3 (ucast va) = Inr (pae_get_pdpt_index va)
   \<and> hpt_get_pm_idx HPT_TYPE_PAE 2 (ucast va) = Inr (pae_get_pdt_index va)
   \<and> hpt_get_pm_idx HPT_TYPE_PAE 1 (ucast va) = Inr (pae_get_pt_index va)
   \<and> hpt_get_pm_idx HPT_TYPE_NORM 2 (ucast va) = Inr (npae_get_pdt_index va)
   \<and> hpt_get_pm_idx HPT_TYPE_NORM 1 (ucast va) = Inr (npae_get_pt_index va)
   \<and> hpt_get_pm_idx HPT_TYPE_PAE 4 (ucast va) = Inl Abort \<and> hpt_get_pm_idx HPT_TYPE_NORM 3 (ucast va) = Inl Abort"
proof -
  have f: "(ucast (BR64_GET_HL (ucast va) 31 30) :: u32) = pae_get_pdpt_index va"
    "(ucast (BR64_GET_HL (ucast va) 29 21) :: u32) = pae_get_pdt_index va"
    "(ucast (BR64_GET_HL (ucast va) 20 12) :: u32) = pae_get_pt_index va"
    "(ucast (BR64_GET_HL (ucast va) 31 22) :: u32) = npae_get_pdt_index va"
    "(ucast (BR64_GET_HL (ucast va) 21 12) :: u32) = npae_get_pt_index va"
    by (rule u32_bitsI, simp add: pae_fields npae_fields bit_BR64_GET_HL bit_simps)+
  show ?thesis
    by (simp add: hpt_get_pm_idx_def hpt_type_is_valid_def hpt_lvl_is_valid_def f[simplified])
qed

section \<open>Memory types round trip\<close>

lemma set_pat_bits:
  assumes "hpt_lvl_is_valid t lvl = Inr True" "\<not> (t = HPT_TYPE_LONG \<and> lvl = 4)" "t \<noteq> HPT_TYPE_EPT"
  shows "\<exists>e'. hpt_pme_set_pat t lvl e False = Inr e' \<and> (\<forall>k. k \<noteq> 7 \<and> k \<noteq> 12 \<longrightarrow> bit e' k = bit e k)"
proof -
  obtain page where p: "hpt_pme_is_page t lvl e = Inr page" using is_page_total[OF assms(1,2)] by blast
  have v: "t \<noteq> HPT_TYPE_INVALID" using assms(1) by (auto simp: hpt_lvl_is_valid_def)
  show ?thesis using p v assms(3) by (cases t) (simp_all add: hpt_pme_set_pat_def bit_BR64_SET_BIT xconst)
qed

definition pmt_of_flags :: "bool \<Rightarrow> bool \<Rightarrow> u32" where
  "pmt_of_flags pcd pwt =
    (if pcd then if pwt then HPT_PMT_UC else HPT_PMT_WC else if pwt then HPT_PMT_WT else HPT_PMT_WB)"

text \<open>
  The memory type of an entry reads back as it was set, for the four types an entry without PAT
  can name, and write-protect is refused. But the setter returns 32 bits: on a PAE entry that forbids
  execution the result allows it, since the execute-disable bit is cut off with the upper half.
\<close>

theorem hpt_memory_type_roundtrip:
  assumes "hpt_lvl_is_valid t lvl = Inr True" "\<not> (t = HPT_TYPE_LONG \<and> lvl = 4)" "t \<noteq> HPT_TYPE_EPT"
  shows "(pmt \<in> {HPT_PMT_UC, HPT_PMT_WC, HPT_PMT_WT, HPT_PMT_WB} \<longrightarrow>
      (\<exists>w. hpt_pme_set_pmt t lvl e pmt = Inr w \<and> hpt_pme_get_pmt t lvl (ucast w) = Inr pmt))
    \<and> hpt_pme_set_pmt t lvl e HPT_PMT_WP = Inl Abort
    \<and> (\<exists>w. hpt_pme_getprot HPT_TYPE_PAE 1 0x8000000000005003 = Inr HPT_PROTS_RW
        \<and> hpt_pme_set_pmt HPT_TYPE_PAE 1 0x8000000000005003 HPT_PMT_WB = Inr w
        \<and> hpt_pme_getprot HPT_TYPE_PAE 1 (ucast w) = Inr HPT_PROTS_RWX)"
proof -
  have v: "t = HPT_TYPE_NORM \<or> t = HPT_TYPE_PAE \<or> t = HPT_TYPE_LONG"
    using assms(1,3) by (cases t) (auto simp: hpt_lvl_is_valid_def)
  obtain e' where e: "hpt_pme_set_pat t lvl e False = Inr e'" using set_pat_bits[OF assms] by blast
  have "\<exists>w. hpt_pme_set_pmt t lvl e pmt = Inr w \<and> hpt_pme_get_pmt t lvl (ucast w) = Inr pmt"
    if p: "pmt \<in> {HPT_PMT_UC, HPT_PMT_WC, HPT_PMT_WT, HPT_PMT_WB}"
  proof -
    define pcd pwt where d: "pcd \<longleftrightarrow> pmt = HPT_PMT_UC \<or> pmt = HPT_PMT_WC" "pwt \<longleftrightarrow> pmt = HPT_PMT_UC \<or> pmt = HPT_PMT_WT"
    have f: "pmt_flags pmt = Inr (pcd, pwt)" "pmt = pmt_of_flags pcd pwt"
      using p by (auto simp: pmt_flags_def pmt_of_flags_def d xconst)
    let ?w = "BR64_SET_BIT (BR64_SET_BIT e' 4 pcd) 3 pwt"
    have "hpt_pme_set_pmt t lvl e pmt = Inr (ucast ?w)"
      using v f e by (elim disjE) (simp_all add: hpt_pme_set_pmt_def hpt_pme_set_pcd_def hpt_pme_set_pwt_def xconst)
    moreover have "hpt_pme_get_pmt t lvl (ucast (ucast ?w :: u32)) = Inr (pmt_of_flags pcd pwt)"
      using v by (elim disjE) (simp_all add: hpt_pme_get_pmt_def hpt_pme_get_pcd_def hpt_pme_get_pwt_def
          BR64_GET_BIT_nonzero bit_BR64_SET_BIT bit_simps pmt_of_flags_def xconst)
    ultimately show ?thesis using f(2) by blast
  qed
  moreover have "hpt_pme_set_pmt t lvl e HPT_PMT_WP = Inl Abort"
    using v by (auto simp: hpt_pme_set_pmt_def pmt_flags_def xconst)
  moreover have "\<exists>w. hpt_pme_getprot HPT_TYPE_PAE 1 0x8000000000005003 = Inr HPT_PROTS_RW
        \<and> hpt_pme_set_pmt HPT_TYPE_PAE 1 0x8000000000005003 HPT_PMT_WB = Inr w
        \<and> hpt_pme_getprot HPT_TYPE_PAE 1 (ucast w) = Inr HPT_PROTS_RWX"
    by (simp add: hpt_pme_getprot_def hpt_lvl_is_valid_def hpt_pme_set_pmt_def pmt_flags_def
        hpt_pme_set_pat_def hpt_pme_is_page_def hpt_pme_set_pcd_def hpt_pme_set_pwt_def MASKBIT64_test
        bit_BR64_SET_BIT bit_simps xconst Let_def bit_numeral_rec)
  ultimately show ?thesis by blast
qed

theorem hpt_memory_type_roundtrip_witness:
  "\<exists>w. hpt_pme_set_pmt HPT_TYPE_NORM 1 0x5067 HPT_PMT_WT = Inr w
    \<and> hpt_pme_get_pmt HPT_TYPE_NORM 1 (ucast w) = Inr HPT_PMT_WT"
  using hpt_memory_type_roundtrip[of HPT_TYPE_NORM 1 HPT_PMT_WT "0x5067"]
  by (simp add: hpt_lvl_is_valid_def)

end
