(* ===== verification/HPT_Walker.thy ===== *)
theory HPT_Walker
  imports HPT_Entries XMHF_QuiesceApp
begin

text \<open>
  The page table walker of the library (\<^verbatim>\<open>libxmhfutil/hptw.c\<close>) and the contexts in which the
  hypervisor uses it (\<^verbatim>\<open>hypapps/quiesce/app/hptw_emhf.c\<close>). A context supplies three callbacks:
  the pointer through which a physical address can be read, its inverse, and a source of zeroed
  pages. Null is 0. The walk descends one level per turn, so the number of the level bounds the turns
  of each of its loops; the copy loops carry fuel, and one more than the length to copy is enough
  when every access yields at least a byte.

  Functions that return an error code next to their result give \<open>None\<close> or the code.
\<close>

section \<open>Contexts\<close>

record hptw_ctx =
  gzp :: "nat \<Rightarrow> nat \<Rightarrow> memory \<Rightarrow> xmhf_error + u32 \<times> memory"
  pa2ptr :: "memory \<Rightarrow> u64 \<Rightarrow> u32 \<Rightarrow> u64 \<Rightarrow> nat \<Rightarrow> xmhf_error + u32 \<times> u32"
  ptr2pa :: "u32 \<Rightarrow> u64"
  root_pa :: u64
  ctx_t :: hpt_type

definition HPTW_CPL0 :: nat where [xconst]: "HPTW_CPL0 = 0"
definition HPTW_CPL3 :: nat where [xconst]: "HPTW_CPL3 = 3"

section \<open>Walking\<close>

definition hptw_get_root :: "hptw_ctx \<Rightarrow> memory \<Rightarrow> xmhf_error + hpt_pmo option" where
  "hptw_get_root ctx m =
    bindE (hpt_type_max_lvl (ctx_t ctx)) (\<lambda>lvl.
    bindE (hpt_pm_size (ctx_t ctx) lvl) (\<lambda>pm_sz.
    bindE (pa2ptr ctx m (root_pa ctx) (of_nat pm_sz) HPT_PROTS_RW HPTW_CPL0) (\<lambda>(pm, avail).
    Inr (if pm \<noteq> 0 \<and> avail = of_nat pm_sz
         then Some \<lparr>pmo_pm = pm, pmo_t = ctx_t ctx, pmo_lvl = lvl\<rparr> else None))))"

definition hptw_next_lvl :: "hptw_ctx \<Rightarrow> memory \<Rightarrow> hpt_pmo \<Rightarrow> u64 \<Rightarrow> xmhf_error + bool \<times> hpt_pmo" where
  "hptw_next_lvl ctx m pmo va =
    bindE (hpt_pm_get_pmeo_by_va pmo va m) (\<lambda>pmeo.
    bindE (assertE (pmo_pm pmo \<noteq> 0)) (\<lambda>_.
    bindE (hpt_pmeo_is_present pmeo) (\<lambda>present.
    if \<not> present then Inr (False, pmo)
    else bindE (hpt_pmeo_is_page pmeo) (\<lambda>page.
    if page then Inr (False, pmo)
    else bindE (hpt_pm_size (pmo_t pmo) (pmo_lvl pmo - 1)) (\<lambda>pm_sz.
         bindE (hpt_pmeo_get_address pmeo) (\<lambda>a.
         bindE (pa2ptr ctx m a (of_nat pm_sz) HPT_PROTS_R HPTW_CPL0) (\<lambda>(pm, avail).
         if pm = 0 then Inr (False, \<lparr>pmo_pm = 0, pmo_t = HPT_TYPE_INVALID, pmo_lvl = 0\<rparr>)
         else bindE (assertE (avail = of_nat pm_sz)) (\<lambda>_.
              Inr (True, pmo\<lparr>pmo_pm := pm, pmo_lvl := pmo_lvl pmo - 1\<rparr>)))))))))"

text \<open>\<^verbatim>\<open>while (pmo->lvl > end_lvl && hptw_next_lvl(ctx, pmo, va));\<close>\<close>

primrec get_pmo_loop :: "nat \<Rightarrow> hptw_ctx \<Rightarrow> memory \<Rightarrow> nat \<Rightarrow> u64 \<Rightarrow> hpt_pmo \<Rightarrow> xmhf_error + hpt_pmo" where
  "get_pmo_loop 0 ctx m end_lvl va pmo = Inr pmo"
| "get_pmo_loop (Suc n) ctx m end_lvl va pmo =
    (if pmo_lvl pmo > end_lvl then
       bindE (hptw_next_lvl ctx m pmo va) (\<lambda>(walked, pmo).
       if walked then get_pmo_loop n ctx m end_lvl va pmo else Inr pmo)
     else Inr pmo)"

definition hptw_get_pmo :: "hptw_ctx \<Rightarrow> memory \<Rightarrow> nat \<Rightarrow> u64 \<Rightarrow> xmhf_error + hpt_pmo" where
  "hptw_get_pmo ctx m end_lvl va =
    bindE (hptw_get_root ctx m) (\<lambda>root.
    case root of None \<Rightarrow> Inl Abort | Some pmo \<Rightarrow> get_pmo_loop (pmo_lvl pmo) ctx m end_lvl va pmo)"

definition hptw_get_pmeo :: "hptw_ctx \<Rightarrow> memory \<Rightarrow> nat \<Rightarrow> u64 \<Rightarrow> xmhf_error + hpt_pmeo" where
  "hptw_get_pmeo ctx m end_lvl va =
    bindE (hptw_get_pmo ctx m end_lvl va) (\<lambda>pmo. hpt_pm_get_pmeo_by_va pmo va m)"

definition hptw_insert_pmeo :: "hptw_ctx \<Rightarrow> hpt_pmeo \<Rightarrow> u64 \<Rightarrow> memory \<Rightarrow> xmhf_error + nat \<times> memory" where
  "hptw_insert_pmeo ctx pmeo va m =
    bindE (hptw_get_pmo ctx m (pmeo_lvl pmeo) va) (\<lambda>pmo.
    if pmo_pm pmo = 0 \<or> pmo_lvl pmo \<noteq> pmeo_lvl pmeo then Inr (1, m)
    else bindE (hpt_pmo_set_pme_by_va pmo pmeo va m) (\<lambda>m. Inr (0, m)))"

text \<open>One turn of the loop of \<^verbatim>\<open>hptw_get_pmo_alloc\<close>, for an entry that maps nothing yet.\<close>

definition alloc_pm :: "hptw_ctx \<Rightarrow> hpt_pmo \<Rightarrow> hpt_pmeo \<Rightarrow> u64 \<Rightarrow> memory \<Rightarrow> xmhf_error + bool \<times> memory" where
  "alloc_pm ctx pmo pmeo va m =
    bindE (hpt_pm_size (pmo_t pmo) (pmo_lvl pmo - 1)) (\<lambda>sz.
    bindE (gzp ctx HPT_PM_SIZE sz m) (\<lambda>(pm, m).
    if pm = 0 then Inr (False, m)
    else bindE (hpt_pmeo_set_address pmeo (ptr2pa ctx pm)) (\<lambda>pmeo.
         bindE (hpt_pmeo_setprot pmeo HPT_PROTS_RWX) (\<lambda>pmeo.
         bindE (hpt_pmeo_setuser pmeo True) (\<lambda>pmeo.
         bindE (hpt_pmo_set_pme_by_va pmo pmeo va m) (\<lambda>m. Inr (True, m)))))))"

primrec get_pmo_alloc_loop ::
  "nat \<Rightarrow> hptw_ctx \<Rightarrow> nat \<Rightarrow> u64 \<Rightarrow> hpt_pmo \<Rightarrow> memory \<Rightarrow> xmhf_error + (nat \<times> hpt_pmo) \<times> memory" where
  "get_pmo_alloc_loop 0 ctx end_lvl va pmo m = Inr ((0, pmo), m)"
| "get_pmo_alloc_loop (Suc n) ctx end_lvl va pmo m =
    (if pmo_lvl pmo > end_lvl then
       bindE (hpt_pm_get_pmeo_by_va pmo va m) (\<lambda>pmeo.
       bindE (hpt_pmeo_is_page pmeo) (\<lambda>page.
       if page then Inr ((1, pmo), m)
       else bindE (hpt_pmeo_is_present pmeo) (\<lambda>present.
            bindE (if present then Inr (True, m) else alloc_pm ctx pmo pmeo va m) (\<lambda>(ok, m).
            if \<not> ok then Inr ((1, pmo), m)
            else bindE (hptw_next_lvl ctx m pmo va) (\<lambda>(walked, pmo).
                 bindE (assertE walked) (\<lambda>_. get_pmo_alloc_loop n ctx end_lvl va pmo m))))))
     else Inr ((0, pmo), m))"

definition hptw_get_pmo_alloc ::
  "hptw_ctx \<Rightarrow> nat \<Rightarrow> u64 \<Rightarrow> memory \<Rightarrow> xmhf_error + (nat \<times> hpt_pmo option) \<times> memory" where
  "hptw_get_pmo_alloc ctx end_lvl va m =
    bindE (hptw_get_root ctx m) (\<lambda>root.
    case root of None \<Rightarrow> Inr ((1, None), m)
    | Some pmo \<Rightarrow> bindE (get_pmo_alloc_loop (pmo_lvl pmo) ctx end_lvl va pmo m) (\<lambda>((err, pmo), m).
        Inr ((err, Some pmo), m)))"

definition hptw_insert_pmeo_alloc :: "hptw_ctx \<Rightarrow> hpt_pmeo \<Rightarrow> u64 \<Rightarrow> memory \<Rightarrow> xmhf_error + nat \<times> memory" where
  "hptw_insert_pmeo_alloc ctx pmeo va m =
    bindE (hptw_get_pmo_alloc ctx (pmeo_lvl pmeo) va m) (\<lambda>((err, root), m).
    case root of None \<Rightarrow> Inr (1, m)
    | Some pmo \<Rightarrow>
        if err \<noteq> 0 \<or> pmo_pm pmo = 0 \<or> pmo_lvl pmo \<noteq> pmeo_lvl pmeo then Inr (1, m)
        else bindE (hpt_pmo_set_pme_by_va pmo pmeo va m) (\<lambda>m. Inr (0, m)))"

text \<open>The do-while loop over the levels, collecting rights and user access.\<close>

primrec effective_loop :: "nat \<Rightarrow> hptw_ctx \<Rightarrow> memory \<Rightarrow> u64 \<Rightarrow> hpt_pmo \<Rightarrow> u64 \<times> bool \<Rightarrow>
    xmhf_error + hpt_pmo \<times> u64 \<times> bool" where
  "effective_loop 0 ctx m va pmo acc = Inl Hang"
| "effective_loop (Suc n) ctx m va pmo acc =
    bindE (hpt_pm_get_pmeo_by_va pmo va m) (\<lambda>pmeo.
    bindE (hpt_pmeo_getprot pmeo) (\<lambda>p.
    bindE (if snd acc then hpt_pmeo_getuser pmeo else Inr False) (\<lambda>u.
    bindE (hptw_next_lvl ctx m pmo va) (\<lambda>(walked, pmo).
    if walked then effective_loop n ctx m va pmo (fst acc AND p, u)
    else Inr (pmo, fst acc AND p, u)))))"

definition hptw_get_effective_prots :: "hptw_ctx \<Rightarrow> memory \<Rightarrow> u64 \<Rightarrow> xmhf_error + u64 \<times> bool option" where
  "hptw_get_effective_prots ctx m va =
    bindE (hptw_get_root ctx m) (\<lambda>root.
    case root of None \<Rightarrow> Inr (HPT_PROTS_NONE, None)
    | Some pmo \<Rightarrow>
        bindE (effective_loop (pmo_lvl pmo) ctx m va pmo (HPT_PROTS_RWX, True)) (\<lambda>(pmo, p, u).
        if pmo_t pmo = HPT_TYPE_INVALID then Inr (HPT_PROTS_NONE, None) else Inr (p, Some u)))"

definition hptw_set_prot :: "hptw_ctx \<Rightarrow> u64 \<Rightarrow> u64 \<Rightarrow> memory \<Rightarrow> xmhf_error + memory" where
  "hptw_set_prot ctx va prot m =
    bindE (hptw_get_pmo ctx m 1 va) (\<lambda>pmo.
    bindE (assertE (pmo_pm pmo \<noteq> 0)) (\<lambda>_.
    bindE (assertE (pmo_lvl pmo = 1)) (\<lambda>_.
    bindE (hpt_pm_get_pmeo_by_va pmo va m) (\<lambda>pmeo.
    bindE (hpt_pmeo_setprot pmeo prot) (\<lambda>pmeo.
    hpt_pmo_set_pme_by_va pmo pmeo va m)))))"

definition hptw_va_to_pa :: "hptw_ctx \<Rightarrow> memory \<Rightarrow> u64 \<Rightarrow> xmhf_error + u64" where
  "hptw_va_to_pa ctx m va = bindE (hptw_get_pmeo ctx m 1 va) (\<lambda>pmeo. hpt_pmeo_va_to_pa pmeo va)"

definition hptw_access_va :: "hptw_ctx \<Rightarrow> memory \<Rightarrow> u64 \<Rightarrow> u32 \<Rightarrow> xmhf_error + u32 \<times> u32" where
  "hptw_access_va ctx m va requested_sz =
    bindE (hptw_get_pmeo ctx m 1 va) (\<lambda>pmeo.
    bindE (hpt_pmeo_va_to_pa pmeo va) (\<lambda>pa.
    bindE (hpt_remaining_on_page pmeo pa) (\<lambda>rem.
    pa2ptr ctx m pa (min requested_sz rem) HPT_PROTS_R HPTW_CPL0)))"

section \<open>Checked access\<close>

text \<open>
  The do-while loop of \<^verbatim>\<open>hptw_checked_access_va\<close>: every entry on the way has to grant the access.
  \<open>None\<close> is the exit to the label \<^verbatim>\<open>out\<close>.
\<close>

primrec checked_loop :: "nat \<Rightarrow> hptw_ctx \<Rightarrow> memory \<Rightarrow> u64 \<Rightarrow> nat \<Rightarrow> u64 \<Rightarrow> hpt_pmo \<Rightarrow>
    xmhf_error + (hpt_pmo \<times> hpt_pmeo) option" where
  "checked_loop 0 ctx m access_type cpl va pmo = Inl Hang"
| "checked_loop (Suc n) ctx m access_type cpl va pmo =
    bindE (hpt_pm_get_pmeo_by_va pmo va m) (\<lambda>pmeo.
    bindE (hpt_pmeo_getprot pmeo) (\<lambda>p.
    if access_type AND p \<noteq> access_type then Inr None
    else bindE (if cpl = HPTW_CPL0 then Inr True else hpt_pmeo_getuser pmeo) (\<lambda>u.
         if \<not> u then Inr None
         else bindE (hptw_next_lvl ctx m pmo va) (\<lambda>(walked, pmo).
              if walked then checked_loop n ctx m access_type cpl va pmo else Inr (Some (pmo, pmeo))))))"

definition hptw_checked_access_va ::
  "hptw_ctx \<Rightarrow> memory \<Rightarrow> u64 \<Rightarrow> nat \<Rightarrow> u64 \<Rightarrow> u32 \<Rightarrow> xmhf_error + u32 \<times> u32" where
  "hptw_checked_access_va ctx m access_type cpl va requested_sz =
    bindE (hptw_get_root ctx m) (\<lambda>root.
    case root of None \<Rightarrow> Inr (0, 0)
    | Some pmo \<Rightarrow>
        bindE (checked_loop (pmo_lvl pmo) ctx m access_type cpl va pmo) (\<lambda>r.
        case r of None \<Rightarrow> Inr (0, 0)
        | Some (pmo, pmeo) \<Rightarrow>
            if pmo_t pmo = HPT_TYPE_INVALID then Inr (0, 0)
            else bindE (hpt_pmeo_is_present pmeo) (\<lambda>present.
                 if \<not> present then Inr (0, 0)
                 else bindE (hpt_pmeo_is_page pmeo) (\<lambda>page.
                      bindE (assertE page) (\<lambda>_.
                      bindE (hpt_pmeo_va_to_pa pmeo va) (\<lambda>pa.
                      bindE (hpt_remaining_on_page pmeo pa) (\<lambda>rem.
                      pa2ptr ctx m pa (min requested_sz rem) access_type cpl)))))))"

fun copy_from_loop ::
  "nat \<Rightarrow> hptw_ctx \<Rightarrow> nat \<Rightarrow> u32 \<Rightarrow> u64 \<Rightarrow> u32 \<Rightarrow> u32 \<Rightarrow> memory \<Rightarrow> xmhf_error + nat \<times> memory" where
  "copy_from_loop 0 ctx cpl dst src_va_base len copied m = Inl Hang"
| "copy_from_loop (Suc fuel) ctx cpl dst src_va_base len copied m =
    (if copied < len then
       bindE (hptw_checked_access_va ctx m HPT_PROTS_R cpl (src_va_base + ucast copied) (len - copied))
         (\<lambda>(src, to_copy).
       if src = 0 then Inr (1, m)
       else copy_from_loop fuel ctx cpl dst src_va_base len (copied + to_copy)
              (memcpy (unat to_copy) (dst + copied) src m))
     else Inr (0, m))"

definition hptw_checked_copy_from_va ::
  "nat \<Rightarrow> hptw_ctx \<Rightarrow> nat \<Rightarrow> u32 \<Rightarrow> u64 \<Rightarrow> u32 \<Rightarrow> memory \<Rightarrow> xmhf_error + nat \<times> memory" where
  "hptw_checked_copy_from_va fuel ctx cpl dst src_va_base len m =
    copy_from_loop fuel ctx cpl dst src_va_base len 0 m"

fun copy_to_loop ::
  "nat \<Rightarrow> hptw_ctx \<Rightarrow> nat \<Rightarrow> u64 \<Rightarrow> u32 \<Rightarrow> u32 \<Rightarrow> u32 \<Rightarrow> memory \<Rightarrow> xmhf_error + nat \<times> memory" where
  "copy_to_loop 0 ctx cpl dst_va_base src len copied m = Inl Hang"
| "copy_to_loop (Suc fuel) ctx cpl dst_va_base src len copied m =
    (if copied < len then
       bindE (hptw_checked_access_va ctx m HPT_PROTS_W cpl (dst_va_base + ucast copied) (len - copied))
         (\<lambda>(dst, to_copy).
       if dst = 0 then Inr (1, m)
       else copy_to_loop fuel ctx cpl dst_va_base src len (copied + to_copy)
              (memcpy (unat to_copy) dst (src + copied) m))
     else Inr (0, m))"

definition hptw_checked_copy_to_va ::
  "nat \<Rightarrow> hptw_ctx \<Rightarrow> nat \<Rightarrow> u64 \<Rightarrow> u32 \<Rightarrow> u32 \<Rightarrow> memory \<Rightarrow> xmhf_error + nat \<times> memory" where
  "hptw_checked_copy_to_va fuel ctx cpl dst_va_base src len m =
    copy_to_loop fuel ctx cpl dst_va_base src len 0 m"

fun copy_va_to_va_loop ::
  "nat \<Rightarrow> hptw_ctx \<Rightarrow> nat \<Rightarrow> u64 \<Rightarrow> hptw_ctx \<Rightarrow> nat \<Rightarrow> u64 \<Rightarrow> u32 \<Rightarrow> u32 \<Rightarrow> memory \<Rightarrow> xmhf_error + nat \<times> memory" where
  "copy_va_to_va_loop 0 dst_ctx dst_cpl dst_va_base src_ctx src_cpl src_va_base len copied m = Inl Hang"
| "copy_va_to_va_loop (Suc fuel) dst_ctx dst_cpl dst_va_base src_ctx src_cpl src_va_base len copied m =
    (if copied < len then
       bindE (hptw_checked_access_va dst_ctx m HPT_PROTS_W dst_cpl (dst_va_base + ucast copied) (len - copied))
         (\<lambda>(dst, to_copy).
       if dst = 0 then Inr (1, m)
       else bindE (hptw_checked_access_va src_ctx m HPT_PROTS_R src_cpl (src_va_base + ucast copied) to_copy)
         (\<lambda>(src, to_copy).
       if src = 0 then Inr (1, m)
       else copy_va_to_va_loop fuel dst_ctx dst_cpl dst_va_base src_ctx src_cpl src_va_base len
              (copied + to_copy) (memcpy (unat to_copy) dst src m)))
     else Inr (0, m))"

definition hptw_checked_copy_va_to_va ::
  "nat \<Rightarrow> hptw_ctx \<Rightarrow> nat \<Rightarrow> u64 \<Rightarrow> hptw_ctx \<Rightarrow> nat \<Rightarrow> u64 \<Rightarrow> u32 \<Rightarrow> memory \<Rightarrow> xmhf_error + nat \<times> memory" where
  "hptw_checked_copy_va_to_va fuel dst_ctx dst_cpl dst_va_base src_ctx src_cpl src_va_base len m =
    copy_va_to_va_loop fuel dst_ctx dst_cpl dst_va_base src_ctx src_cpl src_va_base len 0 m"

fun memset_va_loop ::
  "nat \<Rightarrow> hptw_ctx \<Rightarrow> nat \<Rightarrow> u64 \<Rightarrow> u8 \<Rightarrow> u32 \<Rightarrow> u32 \<Rightarrow> memory \<Rightarrow> xmhf_error + nat \<times> memory" where
  "memset_va_loop 0 ctx cpl dst_va_base c len done m = Inl Hang"
| "memset_va_loop (Suc fuel) ctx cpl dst_va_base c len done m =
    (if done < len then
       bindE (hptw_checked_access_va ctx m HPT_PROTS_W cpl (dst_va_base + ucast done) (len - done))
         (\<lambda>(dst, to_set).
       if dst = 0 then Inr (1, m)
       else memset_va_loop fuel ctx cpl dst_va_base c len (done + to_set) (memset (unat to_set) dst c m))
     else Inr (0, m))"

definition hptw_checked_memset_va ::
  "nat \<Rightarrow> hptw_ctx \<Rightarrow> nat \<Rightarrow> u64 \<Rightarrow> u32 \<Rightarrow> u32 \<Rightarrow> memory \<Rightarrow> xmhf_error + nat \<times> memory" where
  "hptw_checked_memset_va fuel ctx cpl dst_va_base c len m =
    memset_va_loop fuel ctx cpl dst_va_base (ucast c) len 0 m"

section \<open>Contexts of the hypervisor\<close>

record hptw_emhf_host_ctx =
  super :: hptw_ctx
  host_pl :: u32

record hptw_emhf_checked_guest_ctx =
  guest_super :: hptw_ctx
  guest_cpl :: nat
  hptw_host_ctx :: hptw_emhf_host_ctx
  guest_pl :: u32

definition hptw_emhf_host_ctx_ptr2pa :: "RPB \<Rightarrow> u32 \<Rightarrow> u64" where
  "hptw_emhf_host_ctx_ptr2pa b ptr = hva2spa1 b ptr"

definition hptw_emhf_host_ctx_pa2ptr ::
  "RPB \<Rightarrow> memory \<Rightarrow> u64 \<Rightarrow> u32 \<Rightarrow> u64 \<Rightarrow> nat \<Rightarrow> xmhf_error + u32 \<times> u32" where
  "hptw_emhf_host_ctx_pa2ptr b m spa sz access_type cpl = Inr (spa2hva1 b spa, sz)"

definition hptw_emhf_host_ctx_gzp :: "u32 \<Rightarrow> nat \<Rightarrow> nat \<Rightarrow> memory \<Rightarrow> xmhf_error + u32 \<times> memory" where
  "hptw_emhf_host_ctx_gzp pl alignment sz m =
    bindE (HALT_ON_ERRORCOND ((PAGE_SIZE_4K :: u32) mod of_nat alignment = 0)) (\<lambda>_.
    bindE (HALT_ON_ERRORCOND (of_nat sz \<le> (PAGE_SIZE_4K :: u32))) (\<lambda>_.
    pagelist_get_zeroedpage pl m))"

definition hptw_emhf_host_ctx_init :: "RPB \<Rightarrow> u64 \<Rightarrow> hpt_type \<Rightarrow> u32 \<Rightarrow> hptw_emhf_host_ctx" where
  "hptw_emhf_host_ctx_init b root t pl =
    \<lparr>super = \<lparr>gzp = hptw_emhf_host_ctx_gzp pl, pa2ptr = hptw_emhf_host_ctx_pa2ptr b,
               ptr2pa = hptw_emhf_host_ctx_ptr2pa b, root_pa = root, ctx_t = t\<rparr>,
     host_pl = pl\<rparr>"

definition hptw_emhf_checked_guest_ctx_ptr2pa :: "u32 \<Rightarrow> u64" where
  "hptw_emhf_checked_guest_ctx_ptr2pa ptr = hva2gpa ptr"

definition hptw_emhf_checked_guest_ctx_pa2ptr ::
  "hptw_emhf_host_ctx \<Rightarrow> memory \<Rightarrow> u64 \<Rightarrow> u32 \<Rightarrow> u64 \<Rightarrow> nat \<Rightarrow> xmhf_error + u32 \<times> u32" where
  "hptw_emhf_checked_guest_ctx_pa2ptr host_ctx m gpa sz access_type cpl =
    hptw_checked_access_va (super host_ctx) m access_type cpl gpa sz"

definition hptw_emhf_checked_guest_ctx_gzp :: "u32 \<Rightarrow> nat \<Rightarrow> nat \<Rightarrow> memory \<Rightarrow> xmhf_error + u32 \<times> memory" where
  "hptw_emhf_checked_guest_ctx_gzp pl alignment sz m =
    bindE (HALT_ON_ERRORCOND ((PAGE_SIZE_4K :: u32) mod of_nat alignment = 0)) (\<lambda>_.
    bindE (HALT_ON_ERRORCOND (of_nat sz \<le> (PAGE_SIZE_4K :: u32))) (\<lambda>_.
    pagelist_get_zeroedpage pl m))"

definition hptw_emhf_checked_guest_ctx_init ::
  "u64 \<Rightarrow> hpt_type \<Rightarrow> nat \<Rightarrow> hptw_emhf_host_ctx \<Rightarrow> u32 \<Rightarrow> hptw_emhf_checked_guest_ctx" where
  "hptw_emhf_checked_guest_ctx_init root t cpl host_ctx pl =
    \<lparr>guest_super = \<lparr>gzp = hptw_emhf_checked_guest_ctx_gzp pl, pa2ptr = hptw_emhf_checked_guest_ctx_pa2ptr host_ctx,
                     ptr2pa = hptw_emhf_checked_guest_ctx_ptr2pa, root_pa = root, ctx_t = t\<rparr>,
     guest_cpl = cpl, hptw_host_ctx = host_ctx, guest_pl = pl\<rparr>"

text \<open>The accessors of the guest's control registers and of the root tables, by vendor.\<close>

definition VCPU_gcr3 :: "u32 \<Rightarrow> xmhf_state \<Rightarrow> xmhf_error + u64" where
  "VCPU_gcr3 vp s =
    (if cpu_vendor (vcpus s vp) = CPU_VENDOR_INTEL then Inr (guest_CR3 (vmcs (vcpus s vp)))
     else if cpu_vendor (vcpus s vp) = CPU_VENDOR_AMD then Inr (vmcb_cr3 (vmcbs s (vmcb_vaddr_ptr (vcpus s vp))))
     else Inl ErrorCond)"

definition VCPU_gcr3_set :: "u32 \<Rightarrow> u64 \<Rightarrow> xmhf_state \<Rightarrow> xmhf_error + xmhf_state" where
  "VCPU_gcr3_set vp cr3 s =
    (if cpu_vendor (vcpus s vp) = CPU_VENDOR_INTEL then Inr (upd_vmcs vp (guest_CR3_update (\<lambda>_. cr3)) s)
     else if cpu_vendor (vcpus s vp) = CPU_VENDOR_AMD then Inr (upd_vmcb vp (vmcb_cr3_update (\<lambda>_. cr3)) s)
     else Inl ErrorCond)"

definition VCPU_gcr4 :: "u32 \<Rightarrow> xmhf_state \<Rightarrow> xmhf_error + u64" where
  "VCPU_gcr4 vp s =
    (if cpu_vendor (vcpus s vp) = CPU_VENDOR_INTEL then Inr (guest_CR4 (vmcs (vcpus s vp)))
     else if cpu_vendor (vcpus s vp) = CPU_VENDOR_AMD then Inr (vmcb_cr4 (vmcbs s (vmcb_vaddr_ptr (vcpus s vp))))
     else Inl ErrorCond)"

definition hpt_emhf_get_hpt_type :: "u32 \<Rightarrow> xmhf_state \<Rightarrow> xmhf_error + hpt_type" where
  "hpt_emhf_get_hpt_type vp s =
    (if cpu_vendor (vcpus s vp) = CPU_VENDOR_INTEL then Inr HPT_TYPE_EPT
     else if cpu_vendor (vcpus s vp) = CPU_VENDOR_AMD then Inr HPT_TYPE_PAE else Inl ErrorCond)"

definition hpt_emhf_get_root_pm_pa :: "u32 \<Rightarrow> xmhf_state \<Rightarrow> xmhf_error + u64" where
  "hpt_emhf_get_root_pm_pa vp s =
    bindE (hpt_emhf_get_hpt_type vp s) (\<lambda>t.
    if cpu_vendor (vcpus s vp) = CPU_VENDOR_INTEL then
      bindE (xmhf_memprot_arch_x86vmx_get_EPTP vp s) (hpt_eptp_get_address t)
    else if cpu_vendor (vcpus s vp) = CPU_VENDOR_AMD then
      bindE (xmhf_memprot_arch_x86svm_get_h_cr3 vp s) (hpt_cr3_get_address t)
    else Inl ErrorCond)"

definition hpt_emhf_set_root_pm_pa :: "u32 \<Rightarrow> u64 \<Rightarrow> xmhf_state \<Rightarrow> xmhf_error + xmhf_state" where
  "hpt_emhf_set_root_pm_pa vp root s =
    bindE (hpt_emhf_get_hpt_type vp s) (\<lambda>t.
    if cpu_vendor (vcpus s vp) = CPU_VENDOR_INTEL then
      bindE (xmhf_memprot_arch_x86vmx_get_EPTP vp s) (\<lambda>eptp.
      bindE (hpt_eptp_set_address t eptp root) (\<lambda>eptp. xmhf_memprot_arch_x86vmx_set_EPTP vp eptp s))
    else if cpu_vendor (vcpus s vp) = CPU_VENDOR_AMD then
      bindE (xmhf_memprot_arch_x86svm_get_h_cr3 vp s) (\<lambda>hcr3.
      bindE (hpt_cr3_set_address t hcr3 root) (\<lambda>hcr3. xmhf_memprot_arch_x86svm_set_h_cr3 vp hcr3 s))
    else Inl ErrorCond)"

definition hpt_emhf_get_root_pm :: "u32 \<Rightarrow> xmhf_state \<Rightarrow> xmhf_error + u32" where
  "hpt_emhf_get_root_pm vp s = bindE (hpt_emhf_get_root_pm_pa vp s) (\<lambda>a. Inr (spa2hva a))"

definition hpt_emhf_set_root_pm :: "u32 \<Rightarrow> u32 \<Rightarrow> xmhf_state \<Rightarrow> xmhf_error + xmhf_state" where
  "hpt_emhf_set_root_pm vp root s = hpt_emhf_set_root_pm_pa vp (hva2spa root) s"

definition hpt_emhf_get_guest_hpt_type :: "u32 \<Rightarrow> xmhf_state \<Rightarrow> xmhf_error + hpt_type" where
  "hpt_emhf_get_guest_hpt_type vp s =
    bindE (VCPU_gcr4 vp s) (\<lambda>cr4. Inr (if cr4 AND CR4_PAE \<noteq> 0 then HPT_TYPE_PAE else HPT_TYPE_NORM))"

definition hpt_emhf_get_guest_root_pm_pa :: "u32 \<Rightarrow> xmhf_state \<Rightarrow> xmhf_error + u64" where
  "hpt_emhf_get_guest_root_pm_pa vp s =
    bindE (hpt_emhf_get_guest_hpt_type vp s) (\<lambda>t.
    bindE (VCPU_gcr3 vp s) (\<lambda>cr3. hpt_cr3_get_address t cr3))"

definition hpt_emhf_set_guest_root_pm_pa :: "u32 \<Rightarrow> u64 \<Rightarrow> xmhf_state \<Rightarrow> xmhf_error + xmhf_state" where
  "hpt_emhf_set_guest_root_pm_pa vp root s =
    bindE (hpt_emhf_get_guest_hpt_type vp s) (\<lambda>t.
    bindE (VCPU_gcr3 vp s) (\<lambda>cr3.
    bindE (hpt_cr3_set_address t cr3 root) (\<lambda>cr3. VCPU_gcr3_set vp cr3 s)))"

definition hpt_emhf_get_guest_root_pm :: "u32 \<Rightarrow> xmhf_state \<Rightarrow> xmhf_error + u32" where
  "hpt_emhf_get_guest_root_pm vp s = bindE (hpt_emhf_get_guest_root_pm_pa vp s) (\<lambda>a. Inr (gpa2hva a))"

definition hpt_emhf_set_guest_root_pm :: "u32 \<Rightarrow> u32 \<Rightarrow> xmhf_state \<Rightarrow> xmhf_error + xmhf_state" where
  "hpt_emhf_set_guest_root_pm vp root s = hpt_emhf_set_guest_root_pm_pa vp (hva2gpa root) s"

definition hpt_emhf_get_root_pmo :: "u32 \<Rightarrow> xmhf_state \<Rightarrow> xmhf_error + hpt_pmo" where
  "hpt_emhf_get_root_pmo vp s =
    bindE (hpt_emhf_get_hpt_type vp s) (\<lambda>t.
    bindE (hpt_emhf_get_root_pm vp s) (\<lambda>pm.
    bindE (hpt_root_lvl t) (\<lambda>lvl. Inr \<lparr>pmo_pm = pm, pmo_t = t, pmo_lvl = lvl\<rparr>)))"

definition hpt_emhf_get_guest_root_pmo :: "u32 \<Rightarrow> xmhf_state \<Rightarrow> xmhf_error + hpt_pmo" where
  "hpt_emhf_get_guest_root_pmo vp s =
    bindE (hpt_emhf_get_guest_hpt_type vp s) (\<lambda>t.
    bindE (hpt_emhf_get_guest_root_pm vp s) (\<lambda>pm.
    bindE (hpt_root_lvl t) (\<lambda>lvl. Inr \<lparr>pmo_pm = pm, pmo_t = t, pmo_lvl = lvl\<rparr>)))"

definition hptw_emhf_host_ctx_init_of_vcpu :: "u32 \<Rightarrow> xmhf_state \<Rightarrow> xmhf_error + hptw_emhf_host_ctx" where
  "hptw_emhf_host_ctx_init_of_vcpu vp s =
    bindE (hpt_emhf_get_hpt_type vp s) (\<lambda>t.
    bindE (hpt_emhf_get_root_pm vp s) (\<lambda>root.
    Inr (hptw_emhf_host_ctx_init (rpb s) (hva2spa1 (rpb s) root) t 0)))"

definition hptw_emhf_checked_guest_ctx_init_of_vcpu ::
  "u32 \<Rightarrow> xmhf_state \<Rightarrow> xmhf_error + hptw_emhf_checked_guest_ctx" where
  "hptw_emhf_checked_guest_ctx_init_of_vcpu vp s =
    bindE (hpt_emhf_get_guest_root_pm_pa vp s) (\<lambda>root.
    bindE (hpt_emhf_get_guest_hpt_type vp s) (\<lambda>t.
    bindE (hptw_emhf_host_ctx_init_of_vcpu vp s) (\<lambda>host_ctx.
    Inr (hptw_emhf_checked_guest_ctx_init root t HPTW_CPL3 host_ctx 0))))"

end
