(* ===== verification/HPT_WalkProps.thy ===== *)
theory HPT_WalkProps
  imports HPT_Walker
begin

text \<open>
  What the walker finds and what it refuses. The walk of the extended page tables by the library is
  compared with the walk of the processor (\<^const>\<open>ept_walk\<close>), on arbitrary regular tables and on those the
  set-up builds.
\<close>

section \<open>Entries of the extended page tables\<close>

lemma getprot_ept: "lvl \<le> 4 \<Longrightarrow> hpt_pme_getprot HPT_TYPE_EPT lvl e = Inr (e AND 7)"
proof -
  have "HPT_PROTS_NONE OR (if bit e 0 then HPT_PROT_READ_MASK else 0)
      OR (if bit e 1 then HPT_PROT_WRITE_MASK else 0) OR (if bit e 2 then HPT_PROT_EXEC_MASK else 0) = e AND 7"
    by (rule u64_bitsI) (auto simp: bit_simps xconst)
  then show "lvl \<le> 4 \<Longrightarrow> ?thesis"
    by (simp add: hpt_pme_getprot_def hpt_lvl_is_valid_def MASKBIT64_test xconst)
qed

lemma is_present_ept: "lvl \<le> 4 \<Longrightarrow> hpt_pme_is_present HPT_TYPE_EPT lvl e = Inr (bit e 0)"
  by (simp add: hpt_pme_is_present_def getprot_ept mask_bits bit_simps)

lemma is_page_ept:
  "lvl \<le> 4 \<Longrightarrow> hpt_pme_is_page HPT_TYPE_EPT lvl e = Inr (lvl = 1 \<or> (lvl = 2 \<or> lvl = 3) \<and> bit e 7)"
  by (simp add: hpt_pme_is_page_def xconst BR64_GET_BIT_nonzero)

lemma get_address_ept: "lvl \<le> 4 \<Longrightarrow> hpt_pme_get_address HPT_TYPE_EPT lvl e = Inr (walk_addr e)"
proof -
  have "field_copy 0 e 51 12 = walk_addr e"
    by (rule u64_bitsI) (auto simp: bit_field_copy walk_addr_def bit_simps)
  then show "lvl \<le> 4 \<Longrightarrow> ?thesis"
    by (simp add: hpt_pme_get_address_def xconst BR64_COPY_in_place)
qed

lemma walk_index_bits: "walk_index l gpa = unat (take_bit 9 (drop_bit (12 + 9 * l) gpa))"
proof -
  have "unat (drop_bit k gpa) = unat gpa div 2 ^ k" for k
    using unsigned_less[of gpa, where 'a=nat]
    by (simp add: unsigned_drop_bit_eq take_bit_nat_eq_self) (simp add: drop_bit_eq_div)
  then show ?thesis by (simp add: walk_index_def unsigned_take_bit_eq) (simp add: take_bit_eq_mod)
qed

lemma pm_idx_ept:
  assumes "lvl \<in> {1, 2, 3, 4}"
  shows "\<exists>i. hpt_get_pm_idx HPT_TYPE_EPT lvl va = Inr i \<and> unat i = walk_index (lvl - 1) va"
proof -
  have "unat (ucast (BR64_GET_HL va (12 + 9 * l + 8) (12 + 9 * l)) :: u32) = walk_index l va" if "l \<le> 3" for l
  proof -
    have "BR64_GET_HL va (12 + 9 * l + 8) (12 + 9 * l) = take_bit 9 (drop_bit (12 + 9 * l) va)"
      by (rule bit_eqI) (use that in \<open>auto simp: bit_BR64_GET_HL bit_simps ac_simps\<close>)
    moreover have "unat (ucast (take_bit 9 x :: u64) :: u32) = unat (take_bit 9 x)" for x :: u64
      by (simp add: unsigned_ucast_eq unsigned_take_bit_eq)
    ultimately show ?thesis by (simp add: walk_index_bits)
  qed
  from this[of 0] this[of 1] this[of 2] this[of 3] assms show ?thesis
    by (auto simp: hpt_get_pm_idx_def hpt_type_is_valid_def hpt_lvl_is_valid_def)
qed

section \<open>The checked walk on the extended page tables\<close>

abbreviation ept_ctx :: "RPB \<Rightarrow> u64 \<Rightarrow> u32 \<Rightarrow> hptw_ctx" where
  "ept_ctx b root pl \<equiv> super (hptw_emhf_host_ctx_init b root HPT_TYPE_EPT pl)"

lemma ept_ctx_simps [simp]:
  "pa2ptr (ept_ctx b root pl) m pa sz a c = Inr (spa2hva1 b pa, sz)"
  "root_pa (ept_ctx b root pl) = root" "ctx_t (ept_ctx b root pl) = HPT_TYPE_EPT"
  "ptr2pa (ept_ctx b root pl) = hva2spa1 b"
  by (simp_all add: hptw_emhf_host_ctx_init_def hptw_emhf_host_ctx_pa2ptr_def hptw_emhf_host_ctx_ptr2pa_def fun_eq_iff)

lemma get_pmeo_ept:
  assumes "pmo_t pmo = HPT_TYPE_EPT" "pmo_lvl pmo \<in> {1, 2, 3, 4}"
  shows "hpt_pm_get_pmeo_by_va pmo va m
    = Inr \<lparr>pmeo_pme = ld64 m (elem64 (pmo_pm pmo) (walk_index (pmo_lvl pmo - 1) va)),
           pmeo_t = HPT_TYPE_EPT, pmeo_lvl = pmo_lvl pmo\<rparr>"
  using pm_idx_ept[OF assms(2), of va] assms(1)
  by (auto simp: hpt_pm_get_pmeo_by_va_def hpt_pm_get_pme_by_va_def hpt_pm_get_pme_by_idx_def)

text \<open>One level down, for an entry that is present and names a table.\<close>

lemma next_lvl_ept:
  fixes m :: memory and va :: u64
  assumes "pmo_t pmo = HPT_TYPE_EPT" "pmo_lvl pmo = lvl" "lvl \<in> {1, 2, 3, 4}" "pmo_pm pmo \<noteq> 0"
  defines "e \<equiv> ld64 m (elem64 (pmo_pm pmo) (walk_index (lvl - 1) va))"
  shows "hptw_next_lvl (ept_ctx b root pl) m pmo va
    = Inr (if bit e 0 \<and> lvl \<noteq> 1 \<and> \<not> (lvl \<noteq> 4 \<and> bit e 7)
           then if spa2hva1 b (walk_addr e) = 0
                then (False, \<lparr>pmo_pm = 0, pmo_t = HPT_TYPE_INVALID, pmo_lvl = 0\<rparr>)
                else (True, pmo\<lparr>pmo_pm := spa2hva1 b (walk_addr e), pmo_lvl := lvl - 1\<rparr>)
           else (False, pmo))"
proof -
  have sz: "hpt_pm_size HPT_TYPE_EPT (lvl - 1) = Inr 4096" if "lvl \<noteq> 1"
    using assms(3) that by (auto simp: hpt_pm_size_def xconst)
  have l: "lvl \<le> 4" and ps: "hpt_pme_is_page HPT_TYPE_EPT lvl e = Inr (lvl = 1 \<or> lvl \<noteq> 4 \<and> bit e 7)"
    using assms(3) by (auto simp: is_page_ept)
  have g: "hpt_pm_get_pmeo_by_va pmo va m = Inr \<lparr>pmeo_pme = e, pmeo_t = HPT_TYPE_EPT, pmeo_lvl = lvl\<rparr>"
    using get_pmeo_ept[of pmo va m] assms(1-3) by (simp add: e_def)
  show ?thesis
    by (simp add: hptw_next_lvl_def g assms(1,2,4) hpt_pmeo_is_present_def is_present_ept l hpt_pmeo_is_page_def ps
        hpt_pmeo_get_address_def get_address_ept sz[simplified] cong: if_cong)
qed

lemma checked_step_ept:
  fixes m :: memory and va :: u64
  assumes "pmo_t pmo = HPT_TYPE_EPT" "pmo_lvl pmo = lvl" "lvl \<in> {1, 2, 3, 4}" "pmo_pm pmo \<noteq> 0"
  defines "e \<equiv> ld64 m (elem64 (pmo_pm pmo) (walk_index (lvl - 1) va))"
  defines "pmeo \<equiv> \<lparr>pmeo_pme = e, pmeo_t = HPT_TYPE_EPT, pmeo_lvl = lvl\<rparr>"
  shows "checked_loop (Suc n) (ept_ctx b root pl) m acc cpl va pmo
    = (if acc AND (e AND 7) \<noteq> acc then Inr None
       else if bit e 0 \<and> lvl \<noteq> 1 \<and> \<not> (lvl \<noteq> 4 \<and> bit e 7)
       then if spa2hva1 b (walk_addr e) = 0
            then Inr (Some (\<lparr>pmo_pm = 0, pmo_t = HPT_TYPE_INVALID, pmo_lvl = 0\<rparr>, pmeo))
            else checked_loop n (ept_ctx b root pl) m acc cpl va
                   (pmo\<lparr>pmo_pm := spa2hva1 b (walk_addr e), pmo_lvl := lvl - 1\<rparr>)
       else Inr (Some (pmo, pmeo)))"
proof -
  have l: "lvl \<le> 4" using assms(3) by auto
  have u: "hpt_pme_getuser HPT_TYPE_EPT lvl e = Inr True" by (simp add: hpt_pme_getuser_def)
  note nl = next_lvl_ept[OF assms(1-4), where m = m and va = va and b = b and root = root and pl = pl, folded e_def]
  have g: "hpt_pm_get_pmeo_by_va pmo va m = Inr pmeo"
    using get_pmeo_ept[of pmo va m] assms(1-3) by (simp add: e_def pmeo_def)
  have p: "hpt_pmeo_getprot pmeo = Inr (e AND 7)" "hpt_pmeo_getuser pmeo = Inr True"
    by (simp_all add: pmeo_def hpt_pmeo_getprot_def getprot_ept l hpt_pmeo_getuser_def u)
  show ?thesis by (simp only: checked_loop.simps g p nl bindE_simps) (auto split: if_splits)
qed

text \<open>What \<^const>\<open>hptw_checked_access_va\<close> does after its loop.\<close>

definition checked_finish ::
  "hptw_ctx \<Rightarrow> memory \<Rightarrow> u64 \<Rightarrow> nat \<Rightarrow> u64 \<Rightarrow> u32 \<Rightarrow> (hpt_pmo \<times> hpt_pmeo) option \<Rightarrow> xmhf_error + u32 \<times> u32" where
  "checked_finish ctx m acc cpl va sz = (\<lambda>r.
     case r of None \<Rightarrow> Inr (0, 0)
     | Some (pmo, pmeo) \<Rightarrow>
         if pmo_t pmo = HPT_TYPE_INVALID then Inr (0, 0)
         else bindE (hpt_pmeo_is_present pmeo) (\<lambda>present.
              if \<not> present then Inr (0, 0)
              else bindE (hpt_pmeo_is_page pmeo) (\<lambda>page.
                   bindE (assertE page) (\<lambda>_.
                   bindE (hpt_pmeo_va_to_pa pmeo va) (\<lambda>pa.
                   bindE (hpt_remaining_on_page pmeo pa) (\<lambda>rem.
                   pa2ptr ctx m pa (min sz rem) acc cpl))))))"

lemma checked_access_split:
  "hptw_checked_access_va ctx m acc cpl va sz =
    bindE (hptw_get_root ctx m) (\<lambda>root.
    case root of None \<Rightarrow> Inr (0, 0)
    | Some pmo \<Rightarrow> bindE (checked_loop (pmo_lvl pmo) ctx m acc cpl va pmo) (checked_finish ctx m acc cpl va sz))"
  unfolding hptw_checked_access_va_def checked_finish_def ..

text \<open>The entry grants the access to the library: all the rights asked for, and reading.\<close>

definition grants :: "u64 \<Rightarrow> u64 \<Rightarrow> bool" where
  "grants acc e \<longleftrightarrow> acc AND (e AND 7) = acc \<and> bit e 0"

lemma checked_table_ept:
  fixes m :: memory and va :: u64
  assumes "pmo_t pmo = HPT_TYPE_EPT" "pmo_lvl pmo = lvl" "lvl \<in> {2, 3, 4}" "pmo_pm pmo \<noteq> 0"
  defines "e \<equiv> ld64 m (elem64 (pmo_pm pmo) (walk_index (lvl - 1) va))"
  assumes "lvl \<noteq> 4 \<longrightarrow> grants acc e \<longrightarrow> \<not> bit e 7"
  shows "bindE (checked_loop (Suc n) (ept_ctx b root pl) m acc cpl va pmo) (checked_finish (ept_ctx b root pl) m acc cpl va sz)
    = (if grants acc e \<and> spa2hva1 b (walk_addr e) \<noteq> 0
       then bindE (checked_loop n (ept_ctx b root pl) m acc cpl va
              (pmo\<lparr>pmo_pm := spa2hva1 b (walk_addr e), pmo_lvl := lvl - 1\<rparr>)) (checked_finish (ept_ctx b root pl) m acc cpl va sz)
       else Inr (0, 0))"
proof -
  have l: "lvl \<in> {1, 2, 3, 4}" "lvl \<noteq> 1" "lvl \<le> 4" using assms(3) by auto
  have f: "checked_finish (ept_ctx b root pl) m acc cpl va sz (Some (pmo, \<lparr>pmeo_pme = e, pmeo_t = HPT_TYPE_EPT, pmeo_lvl = lvl\<rparr>))
      = Inr (0, 0)" if "\<not> bit e 0"
    using that l(3) by (simp add: checked_finish_def hpt_pmeo_is_present_def is_present_ept assms(1))
  have i: "checked_finish ctx m acc cpl va sz (Some (\<lparr>pmo_pm = 0, pmo_t = HPT_TYPE_INVALID, pmo_lvl = 0\<rparr>, pmeo)) = Inr (0, 0)"
    "checked_finish ctx m acc cpl va sz None = Inr (0, 0)" for ctx pmeo
    by (simp_all add: checked_finish_def)
  note st = checked_step_ept[OF assms(1,2) l(1) assms(4), where m = m and va = va, folded e_def]
  show ?thesis
  proof (cases "grants acc e")
    case True
    then have c: "acc AND (e AND 7) = acc" "bit e 0 \<and> lvl \<noteq> 1 \<and> \<not> (lvl \<noteq> 4 \<and> bit e 7)"
      using assms(6) l(2) by (auto simp: grants_def)
    show ?thesis unfolding st using True c i by (simp del: checked_loop.simps bindE_eq_Inr)
  next
    case False
    then show ?thesis unfolding st grants_def using f i by (auto simp del: checked_loop.simps)
  qed
qed

lemma leaf_address:
  "walk_addr e + (va AND MASKRANGE64 11 0) = walk_addr e OR (va AND 0xFFF)"
  "(walk_addr e OR (va AND 0xFFF)) AND MASKRANGE64 11 0 = va AND 0xFFF"
proof -
  have m: "MASKRANGE64 11 0 = 0xFFF" by (rule u64_bitsI) (auto simp: bit_MASKRANGE64 bit_simps)
  have "walk_addr e AND (va AND 0xFFF) = 0" by (rule u64_bitsI) (auto simp: walk_addr_def bit_simps)
  then show "walk_addr e + (va AND MASKRANGE64 11 0) = walk_addr e OR (va AND 0xFFF)"
    by (simp add: m disjunctive_add_eq_or)
  show "(walk_addr e OR (va AND 0xFFF)) AND MASKRANGE64 11 0 = va AND 0xFFF"
    by (rule u64_bitsI) (auto simp: m walk_addr_def bit_simps)
qed

lemma checked_leaf_ept:
  fixes m :: memory and va :: u64
  assumes "pmo_t pmo = HPT_TYPE_EPT" "pmo_lvl pmo = 1" "pmo_pm pmo \<noteq> 0"
  defines "e \<equiv> ld64 m (elem64 (pmo_pm pmo) (walk_index 0 va))"
  shows "bindE (checked_loop (Suc n) (ept_ctx b root pl) m acc cpl va pmo) (checked_finish (ept_ctx b root pl) m acc cpl va sz)
    = Inr (if grants acc e then (spa2hva1 b (walk_addr e OR (va AND 0xFFF)), min sz (0x1000 - ucast (va AND 0xFFF))) else (0, 0))"
proof -
  let ?pmeo = "\<lparr>pmeo_pme = e, pmeo_t = HPT_TYPE_EPT, pmeo_lvl = 1\<rparr>"
  have a: "hpt_pmeo_va_to_pa ?pmeo va = Inr (walk_addr e OR (va AND 0xFFF))"
    by (simp add: hpt_pmeo_va_to_pa_def is_page_ept hpt_pmeo_get_address_def get_address_ept leaf_address)
  have r: "hpt_remaining_on_page ?pmeo (walk_addr e OR (va AND 0xFFF)) = Inr (0x1000 - ucast (va AND 0xFFF))"
    by (simp add: hpt_remaining_on_page_def hpt_pmeo_page_size_log_2_def Let_def leaf_address)
  have st: "checked_loop (Suc n) (ept_ctx b root pl) m acc cpl va pmo
      = (if acc AND (e AND 7) \<noteq> acc then Inr None else Inr (Some (pmo, ?pmeo)))"
    using checked_step_ept[OF assms(1,2) _ assms(3), where m = m and va = va and n = n and b = b and root = root and pl = pl and acc = acc and cpl = cpl]
    by (simp add: e_def del: checked_loop.simps)
  show ?thesis
    unfolding st using assms(1) by (simp add: checked_finish_def hpt_pmeo_is_present_def is_present_ept hpt_pmeo_is_page_def
        is_page_ept a[simplified] r[simplified] grants_def del: checked_loop.simps)
qed

lemma get_root_ept:
  "hptw_get_root (ept_ctx b root pl) m
    = Inr (if spa2hva1 b root \<noteq> 0 then Some \<lparr>pmo_pm = spa2hva1 b root, pmo_t = HPT_TYPE_EPT, pmo_lvl = 4\<rparr> else None)"
  by (simp add: hptw_get_root_def hpt_pm_size_def xconst)

text \<open>The four entries on the way, as the processor reads them, and the tables they name.\<close>

abbreviation ept_e4 :: "RPB \<Rightarrow> memory \<Rightarrow> u64 \<Rightarrow> u64 \<Rightarrow> u64" where
  "ept_e4 b m eptp gpa \<equiv> walk_entry b m eptp (walk_index 3 gpa)"

abbreviation ept_e3 :: "RPB \<Rightarrow> memory \<Rightarrow> u64 \<Rightarrow> u64 \<Rightarrow> u64" where
  "ept_e3 b m eptp gpa \<equiv> walk_entry b m (ept_e4 b m eptp gpa) (walk_index 2 gpa)"

abbreviation ept_e2 :: "RPB \<Rightarrow> memory \<Rightarrow> u64 \<Rightarrow> u64 \<Rightarrow> u64" where
  "ept_e2 b m eptp gpa \<equiv> walk_entry b m (ept_e3 b m eptp gpa) (walk_index 1 gpa)"

abbreviation ept_e1 :: "RPB \<Rightarrow> memory \<Rightarrow> u64 \<Rightarrow> u64 \<Rightarrow> u64" where
  "ept_e1 b m eptp gpa \<equiv> walk_entry b m (ept_e2 b m eptp gpa) (walk_index 0 gpa)"

abbreviation ept_table :: "RPB \<Rightarrow> u64 \<Rightarrow> u32" where
  "ept_table b e \<equiv> spa2hva1 b (walk_addr e)"

lemma checked_access_ept:
  assumes "grants acc (ept_e4 b m eptp gpa) \<Longrightarrow> grants acc (ept_e3 b m eptp gpa) \<Longrightarrow>
    \<not> bit (ept_e3 b m eptp gpa) 7 \<and> \<not> bit (ept_e2 b m eptp gpa) 7"
  shows "hptw_checked_access_va (ept_ctx b (walk_addr eptp) pl) m acc cpl gpa sz
    = Inr (if ept_table b eptp \<noteq> 0
             \<and> grants acc (ept_e4 b m eptp gpa) \<and> ept_table b (ept_e4 b m eptp gpa) \<noteq> 0
             \<and> grants acc (ept_e3 b m eptp gpa) \<and> ept_table b (ept_e3 b m eptp gpa) \<noteq> 0
             \<and> grants acc (ept_e2 b m eptp gpa) \<and> ept_table b (ept_e2 b m eptp gpa) \<noteq> 0
             \<and> grants acc (ept_e1 b m eptp gpa)
           then (spa2hva1 b (walk_addr (ept_e1 b m eptp gpa) OR (gpa AND 0xFFF)), min sz (0x1000 - ucast (gpa AND 0xFFF)))
           else (0, 0))"
proof -
  let ?C = "ept_ctx b (walk_addr eptp) pl"
  let ?L = "\<lambda>n t. bindE (checked_loop n ?C m acc cpl gpa \<lparr>pmo_pm = t, pmo_t = HPT_TYPE_EPT, pmo_lvl = n\<rparr>)
    (checked_finish ?C m acc cpl gpa sz)"
  have t: "?L (Suc n) t = (if grants acc e \<and> ept_table b e \<noteq> 0 then ?L n (ept_table b e) else Inr (0, 0))"
    if "Suc n \<in> {2, 3, 4}" "t \<noteq> 0" "e = ld64 m (elem64 t (walk_index n gpa))" "Suc n \<noteq> 4 \<longrightarrow> grants acc e \<longrightarrow> \<not> bit e 7" for n t e
    using checked_table_ept[where pmo = "\<lparr>pmo_pm = t, pmo_t = HPT_TYPE_EPT, pmo_lvl = Suc n\<rparr>" and lvl = "Suc n" and m = m and va = gpa]
      that by (simp del: checked_loop.simps)
  have l: "?L 1 t = Inr (if grants acc e then (spa2hva1 b (walk_addr e OR (gpa AND 0xFFF)), min sz (0x1000 - ucast (gpa AND 0xFFF))) else (0, 0))"
    if "t \<noteq> 0" "e = ld64 m (elem64 t (walk_index 0 gpa))" for t e
    using checked_leaf_ept[where pmo = "\<lparr>pmo_pm = t, pmo_t = HPT_TYPE_EPT, pmo_lvl = 1\<rparr>" and m = m and va = gpa and n = 0]
      that by (simp del: checked_loop.simps bindE_eq_Inr)
  have n: "Suc 3 = 4" "Suc 2 = 3" "Suc 1 = 2" by simp_all
  have w: "ld64 m (elem64 (ept_table b e) i) = walk_entry b m e i" for e i by (simp add: walk_entry_def)
  show ?thesis
    unfolding checked_access_split get_root_ept
    using assms t[of 3 "ept_table b eptp" "ept_e4 b m eptp gpa", unfolded n w]
      t[of 2 "ept_table b (ept_e4 b m eptp gpa)" "ept_e3 b m eptp gpa", unfolded n w]
      t[of 1 "ept_table b (ept_e3 b m eptp gpa)" "ept_e2 b m eptp gpa", unfolded n w]
      l[of "ept_table b (ept_e2 b m eptp gpa)" "ept_e1 b m eptp gpa", unfolded w]
    by (cases "grants acc (ept_e4 b m eptp gpa)"; cases "grants acc (ept_e3 b m eptp gpa)")
      (simp_all del: checked_loop.simps bindE_eq_Inr)
qed

lemma and_absorb_iff: "acc AND (x AND y) = acc \<longleftrightarrow> acc AND x = acc \<and> acc AND y = (acc :: u64)"
  by (auto simp: bit_eq_iff bit_simps)

lemma grants_nonzero: "grants acc e \<Longrightarrow> e AND 7 \<noteq> 0"
proof
  assume "grants acc e" "e AND 7 = 0"
  then have "bit e 0" "\<not> bit (e AND 7) 0" by (simp_all only: grants_def bit_0_eq bot_apply bot_bool_def not_False_eq_True)
  then show False by (simp only: bit_and_iff) simp
qed

text \<open>Tables as the hypervisor builds them: mapped, no large pages, and no right without the right to read.\<close>

definition ept_regular :: "RPB \<Rightarrow> memory \<Rightarrow> u64 \<Rightarrow> u64 \<Rightarrow> bool" where
  "ept_regular b m eptp gpa \<longleftrightarrow>
    (let e4 = ept_e4 b m eptp gpa; e3 = ept_e3 b m eptp gpa; e2 = ept_e2 b m eptp gpa; e1 = ept_e1 b m eptp gpa
     in ept_table b eptp \<noteq> 0 \<and> ept_table b e4 \<noteq> 0 \<and> ept_table b e3 \<noteq> 0 \<and> ept_table b e2 \<noteq> 0
        \<and> \<not> bit e3 7 \<and> \<not> bit e2 7 \<and> (\<forall>e \<in> {e4, e3, e2, e1}. e AND 7 = 0 \<or> bit e 0))"

text \<open>
  C19: checked access through the library agrees with the processor. On regular extended page tables,
  the access to a guest-physical address succeeds exactly when the processor's walk of the tables
  finds a page with all the rights asked for; the pointer then is the one of the physical address the
  processor reaches, and the length is cut at the end of the page. Otherwise the result is null.
\<close>

theorem checked_access_refines_ept_walk:
  assumes "ept_regular b m eptp gpa"
  shows "hptw_checked_access_va (super (hptw_emhf_host_ctx_init b (walk_addr eptp) HPT_TYPE_EPT pl)) m acc cpl gpa sz
    = Inr (case ept_walk b m eptp gpa of None \<Rightarrow> (0, 0)
           | Some (spa, rights, _) \<Rightarrow>
               if acc AND rights = acc then (spa2hva1 b spa, min sz (0x1000 - ucast (gpa AND 0xFFF))) else (0, 0))"
proof -
  note r = assms[unfolded ept_regular_def Let_def]
  have g: "grants acc e \<longleftrightarrow> e AND 7 \<noteq> 0 \<and> acc AND (e AND 7) = acc"
    if "e AND 7 = 0 \<or> bit e 0" for e
    using that grants_nonzero[of acc e] by (auto simp: grants_def)
  have s: "acc AND (e4 AND e3 AND e2 AND e1 AND 7) = acc \<longleftrightarrow> acc AND (e4 AND 7) = acc \<and> acc AND (e3 AND 7) = acc
      \<and> acc AND (e2 AND 7) = acc \<and> acc AND (e1 AND 7) = acc" for e4 e3 e2 e1
    unfolding and_absorb_iff by blast
  show ?thesis
    unfolding ept_walk_def Let_def
    using r by (subst checked_access_ept) (auto simp: g s)
qed

text \<open>Entries the set-up does not write name nothing: the other 511 regions of 512G and the last 508 of 1G.\<close>

definition ept_closed :: "VCPU \<Rightarrow> memory \<Rightarrow> bool" where
  "ept_closed v m \<longleftrightarrow>
    (\<forall>i. 0 < i \<and> i < 512 \<longrightarrow> ld64 m (elem64 (vmx_vaddr_ept_pml4_table v) i) AND 7 = 0)
    \<and> (\<forall>i. 4 \<le> i \<and> i < 512 \<longrightarrow> ld64 m (elem64 (vmx_vaddr_ept_pdp_table v) i) AND 7 = 0)"

lemma walk_index_512: "walk_index l gpa < 512"
  by (simp add: walk_index_def)

lemma table_entry_ps: "spa_aligned b t \<Longrightarrow> \<not> bit (hva2spa1 b t OR 7) 7"
  using aligned_low_bits[of "t + XtVmmRuntimePhysBase b - XtVmmRuntimeVirtBase b" 7]
  by (simp add: hva2spa1_def spa_aligned_def bit_simps)

text \<open>On the tables of the hypervisor every granted walk stays below 4G and meets no large page.\<close>

lemma ept_path:
  assumes lay: "ept_layout b v" and up: "ept_upper b v m" and cl: "ept_closed v m"
    and g4: "grants acc (ept_e4 b m (ept_root b v) gpa)"
    and g3: "grants acc (ept_e3 b m (ept_root b v) gpa)"
  shows "walk_index 3 gpa = 0" "walk_index 2 gpa < 4"
    "\<not> bit (ept_e3 b m (ept_root b v) gpa) 7" "\<not> bit (ept_e2 b m (ept_root b v) gpa) 7"
proof -
  let ?A = "vmx_vaddr_ept_pdp_table v" and ?D = "vmx_vaddr_ept_pd_tables v" and ?T = "vmx_vaddr_ept_p_tables v"
  have al: "spa_aligned b (vmx_vaddr_ept_pml4_table v)" "spa_aligned b ?A"
    "spa_aligned b (?D + 4096 * of_nat i)" "spa_aligned b (?T + 4096 * of_nat i)" for i
    using lay by (simp_all only: ept_layout_def spa_aligned_offset)
  have w4: "walk_entry b m (ept_root b v) i = ld64 m (elem64 (vmx_vaddr_ept_pml4_table v) i)" for i
    by (simp add: walk_entry_def walk_addr_table(2)[OF al(1)])
  show i3: "walk_index 3 gpa = 0"
  proof (rule ccontr)
    assume "walk_index 3 gpa \<noteq> 0"
    then have "ld64 m (elem64 (vmx_vaddr_ept_pml4_table v) (walk_index 3 gpa)) AND 7 = 0"
      using cl walk_index_512[of 3 gpa] unfolding ept_closed_def by simp
    with grants_nonzero[OF g4, unfolded w4] show False by blast
  qed
  then have e4: "ept_e4 b m (ept_root b v) gpa = hva2spa1 b ?A OR 7"
    using up by (simp add: w4 ept_upper_def)
  have e3: "ept_e3 b m (ept_root b v) gpa = ld64 m (elem64 ?A (walk_index 2 gpa))"
    by (simp add: e4) (simp add: walk_entry_def walk_addr_table(1)[OF al(2)])
  show i2: "walk_index 2 gpa < 4"
  proof (rule ccontr)
    assume "\<not> walk_index 2 gpa < 4"
    then have "ld64 m (elem64 ?A (walk_index 2 gpa)) AND 7 = 0"
      using cl walk_index_512[of 2 gpa] unfolding ept_closed_def by simp
    with grants_nonzero[OF g3, unfolded e3] show False by blast
  qed
  have e3': "ept_e3 b m (ept_root b v) gpa = hva2spa1 b (?D + 4096 * of_nat (walk_index 2 gpa)) OR 7"
    using up i2 unfolding e3 ept_upper_def by blast
  show "\<not> bit (ept_e3 b m (ept_root b v) gpa) 7"
    unfolding e3' by (rule table_entry_ps[OF al(3)])
  have "512 * walk_index 2 gpa + walk_index 1 gpa < 2048" using i2 walk_index_512[of 1 gpa] by linarith
  then have "ept_e2 b m (ept_root b v) gpa = hva2spa1 b (?T + 4096 * of_nat (512 * walk_index 2 gpa + walk_index 1 gpa)) OR 7"
    unfolding e3' using up elem64_subtable[of ?D "walk_index 2 gpa" "walk_index 1 gpa", unfolded PAGE_SIZE_4K_def]
    by (simp add: walk_entry_def walk_addr_table(1)[OF al(3)] ept_upper_def del: of_nat_add of_nat_mult)
  then show "\<not> bit (ept_e2 b m (ept_root b v) gpa) 7"
    by (simp only: table_entry_ps[OF al(4)] not_False_eq_True)
qed

lemma walk_index_low:
  assumes "walk_index 3 gpa = 0" "walk_index 2 gpa < 4" "l \<le> 3"
  shows "walk_index l (ucast (ucast gpa :: u32)) = walk_index l gpa"
proof -
  have b: "bit (take_bit 9 (drop_bit j gpa)) k \<longleftrightarrow> k < 9 \<and> bit gpa (j + k)" for j k
    by (simp add: bit_take_bit_iff bit_drop_bit_eq)
  have "take_bit 9 (drop_bit 39 gpa) = 0"
    using assms(1) walk_index_bits[of 3 gpa] by (simp add: unat_eq_zero)
  then have h: "\<not> (k < 9 \<and> bit gpa (39 + k))" for k
    unfolding b[symmetric] by simp
  have "take_bit 9 (drop_bit 30 gpa) < 2 ^ 2"
    using assms(2) walk_index_bits[of 2 gpa] by (simp add: word_less_nat_alt)
  then have "take_bit 9 (drop_bit 30 gpa) AND mask 2 = take_bit 9 (drop_bit 30 gpa)" by (rule less_mask_eq)
  then have "bit (take_bit 9 (drop_bit 30 gpa)) k \<longrightarrow> k < 2" for k
    by (metis bit_and_iff bit_mask_iff)
  then have l: "k < 9 \<and> bit gpa (30 + k) \<longrightarrow> k < 2" for k
    unfolding b .
  have z: "\<not> bit gpa n" if "32 \<le> n" "n < 48" for n
    using that h[of "n - 39"] l[of "n - 30"] by (cases "n < 39") auto
  have "take_bit 9 (drop_bit (12 + 9 * l) (ucast (ucast gpa :: u32) :: u64)) = take_bit 9 (drop_bit (12 + 9 * l) gpa)"
  proof (rule bit_eqI)
    fix n
    show "bit (take_bit 9 (drop_bit (12 + 9 * l) (ucast (ucast gpa :: u32) :: u64))) n = bit (take_bit 9 (drop_bit (12 + 9 * l) gpa)) n"
      using z[of "12 + 9 * l + n"] assms(3) by (cases "20 \<le> 9 * l + n") (auto simp: bit_simps)
  qed
  then show ?thesis by (simp only: walk_index_bits)
qed

text \<open>A checked access in the host context gives only what the processor would give the guest.\<close>

lemma host_access_within_ept:
  assumes lay: "ept_layout b v" and up: "ept_upper b v m" and cl: "ept_closed v m"
    and acc: "hptw_checked_access_va (ept_ctx b (walk_addr (ept_root b v)) pl) m acc cpl gpa sz = Inr (p, avail)" "p \<noteq> 0"
  shows "\<exists>spa rights mt. ept_walk b m (ept_root b v) (ucast (ucast gpa :: u32)) = Some (spa, rights, mt)
    \<and> acc AND rights = acc \<and> p = spa2hva1 b spa \<and> avail = min sz (0x1000 - ucast (gpa AND 0xFFF))"
proof -
  let ?e = "ept_root b v"
  let ?e4 = "ept_e4 b m ?e gpa" and ?e3 = "ept_e3 b m ?e gpa" and ?e2 = "ept_e2 b m ?e gpa" and ?e1 = "ept_e1 b m ?e gpa"
  note path = ept_path[OF lay up cl]
  have "(if ept_table b ?e \<noteq> 0 \<and> grants acc ?e4 \<and> ept_table b ?e4 \<noteq> 0 \<and> grants acc ?e3 \<and> ept_table b ?e3 \<noteq> 0
             \<and> grants acc ?e2 \<and> ept_table b ?e2 \<noteq> 0 \<and> grants acc ?e1
           then (spa2hva1 b (walk_addr ?e1 OR (gpa AND 0xFFF)), min sz (0x1000 - ucast (gpa AND 0xFFF)))
           else (0, 0)) = (p, avail)"
    using acc(1) path by (subst (asm) checked_access_ept) simp_all
  with acc(2) have g: "grants acc ?e4" "grants acc ?e3" "grants acc ?e2" "grants acc ?e1"
    and r: "p = spa2hva1 b (walk_addr ?e1 OR (gpa AND 0xFFF))" "avail = min sz (0x1000 - ucast (gpa AND 0xFFF))"
    by (auto split: if_splits)
  have low: "walk_index l (ucast (ucast gpa :: u32)) = walk_index l gpa" if "l \<le> 3" for l
    by (rule walk_index_low[OF path(1,2)[OF g(1,2)] that])
  have off: "ucast (ucast gpa :: u32) AND 0xFFF = gpa AND 0xFFF"
    by (rule u64_bitsI) (simp add: bit_simps)
  have w: "ept_walk b m ?e (ucast (ucast gpa :: u32))
      = Some (walk_addr ?e1 OR (gpa AND 0xFFF), ?e4 AND ?e3 AND ?e2 AND ?e1 AND 7, drop_bit 3 ?e1 AND 7)"
    using g[THEN grants_nonzero] by (simp add: ept_walk_def Let_def low off)
  have "acc AND (?e4 AND ?e3 AND ?e2 AND ?e1 AND 7) = acc"
    using g by (simp only: grants_def and_absorb_iff)
  with w r show ?thesis by blast
qed

text \<open>In any context, a pointer is the context's pointer for some physical address and a part of the length.\<close>

lemma checked_access_pointer:
  assumes "hptw_checked_access_va ctx m acc cpl va sz = Inr (p, avail)" "p \<noteq> 0"
  shows "\<exists>pa n. n \<le> sz \<and> pa2ptr ctx m pa n acc cpl = Inr (p, avail)"
proof -
  obtain r where "checked_finish ctx m acc cpl va sz r = Inr (p, avail)"
    using assms by (auto simp: checked_access_split split: option.splits)
  then obtain pa rem where "pa2ptr ctx m pa (min sz rem) acc cpl = Inr (p, avail)"
    using assms(2) by (auto simp: checked_finish_def split: option.splits prod.splits if_splits)
  then show ?thesis by (intro exI[of _ pa] exI[of _ "min sz rem"]) simp
qed

lemma page_remainder: "unat (ucast gpa :: u32) mod 4096 + unat (0x1000 - ucast (gpa AND 0xFFF) :: u32) = 4096"
  for gpa :: u64
proof -
  have e: "(ucast (gpa AND 0xFFF) :: u32) = take_bit 12 (ucast gpa)"
    by (rule u32_bitsI) (auto simp: bit_simps)
  have u: "unat (take_bit 12 (ucast gpa :: u32)) = unat (ucast gpa :: u32) mod 4096"
    by (simp only: unsigned_take_bit_eq) (simp add: take_bit_eq_mod)
  have "take_bit 12 (ucast gpa :: u32) \<le> 0x1000" by (simp add: word_le_nat_alt u)
  then have "unat (0x1000 - take_bit 12 (ucast gpa) :: u32) = 4096 - unat (ucast gpa :: u32) mod 4096"
    by (simp add: unat_sub u)
  moreover have "unat (ucast gpa :: u32) mod 4096 < 4096" by simp
  ultimately show ?thesis unfolding e by linarith
qed

text \<open>The guest context of a core over the tables with the given root.\<close>

abbreviation guest_ctx :: "RPB \<Rightarrow> u64 \<Rightarrow> u64 \<Rightarrow> hpt_type \<Rightarrow> hptw_ctx" where
  "guest_ctx b eptp root t \<equiv> guest_super (hptw_emhf_checked_guest_ctx_init root t HPTW_CPL3
     (hptw_emhf_host_ctx_init b (walk_addr eptp) HPT_TYPE_EPT 0) 0)"

text \<open>
  On the tables the set-up builds, a pointer for the guest is the host context's pointer for a page that the guest has. The host
  context makes it with \<^verbatim>\<open>spa2hva1\<close>, which is right for addresses of the runtime's image only: what the runtime's own page
  tables have at this pointer is another matter, and for a page outside the image it is not the guest's page unless the runtime
  runs at its physical address.
\<close>

lemma guest_access_outside:
  assumes lay: "ept_layout b v" and bu: "ept_built b v m" and cl: "ept_closed v m"
    and acc: "hptw_checked_access_va (guest_ctx b (ept_root b v) root t) m acc cpl va sz = Inr (p, avail)" "p \<noteq> 0"
  shows "\<exists>spa :: u32. p = spa2hva1 b (ucast spa) \<and> \<not> in_xmhf_region b (page_of spa)
    \<and> avail \<le> sz \<and> unat spa mod 4096 + unat avail \<le> 4096"
proof -
  obtain gpa n where n: "n \<le> sz"
    "hptw_checked_access_va (ept_ctx b (walk_addr (ept_root b v)) 0) m acc cpl gpa n = Inr (p, avail)"
    using checked_access_pointer[OF acc]
    by (auto simp: hptw_emhf_checked_guest_ctx_init_def hptw_emhf_checked_guest_ctx_pa2ptr_def)
  obtain spa rights mt where w: "ept_walk b m (ept_root b v) (ucast (ucast gpa :: u32)) = Some (spa, rights, mt)"
    "p = spa2hva1 b spa" "avail = min n (0x1000 - ucast (gpa AND 0xFFF))"
    using host_access_within_ept[OF lay ept_built_upper[OF bu] cl n(2) acc(2)] by blast
  have "\<not> in_xmhf_region b (page_of (ucast gpa))" "spa = ucast (ucast gpa :: u32)"
    using w(1) unfolding ept_walk_built[OF lay bu] by (auto split: if_splits)
  moreover have "unat avail \<le> unat (0x1000 - ucast (gpa AND 0xFFF) :: u32)" "avail \<le> sz"
    using w(3) n(1) by (auto simp: min_def word_le_nat_alt)
  ultimately show ?thesis using w(2) page_remainder[of gpa] by (intro exI[of _ "ucast gpa"]) simp
qed

section \<open>Examples\<close>

text \<open>Four tables that map the guest page at \<open>0x5000\<close> to \<open>0x9000\<close> with the right to read.\<close>

definition walk_mem :: memory where
  "walk_mem = (\<lambda>a. 0)(0x1000 := 7, 0x1001 := 0x20, 0x2000 := 7, 0x2001 := 0x30, 0x3000 := 7, 0x3001 := 0x40,
     0x4028 := 1, 0x4029 := 0x90)"

lemma sample_spa2hva1: "spa2hva1 sample_rpb a = ucast a"
  by (simp add: spa2hva1_def sample_rpb_def)

lemma walk_mem_entries:
  "walk_entry sample_rpb walk_mem 0x1000 0 = 0x2007" "walk_entry sample_rpb walk_mem 0x2007 0 = 0x3007"
  "walk_entry sample_rpb walk_mem 0x3007 0 = 0x4007" "walk_entry sample_rpb walk_mem 0x4007 5 = 0x9001"
  by (simp_all add: walk_entry_def walk_addr_def sample_spa2hva1 elem64_def ld64_bytes walk_mem_def)

theorem checked_access_refines_ept_walk_witness:
  "hptw_checked_access_va (super (hptw_emhf_host_ctx_init sample_rpb 0x1000 HPT_TYPE_EPT 0)) walk_mem HPT_PROTS_R HPTW_CPL3
     0x5123 0x2000 = Inr (0x9123, 0xEDD)"
proof -
  have ix: "walk_index 3 0x5123 = 0" "walk_index 2 0x5123 = 0" "walk_index (Suc 0) 0x5123 = 0" "walk_index 0 0x5123 = 5"
    by (simp_all add: walk_index_def)
  note e = walk_mem_entries
  have r: "ept_regular sample_rpb walk_mem 0x1000 0x5123"
    by (simp add: ept_regular_def Let_def ix e walk_addr_def sample_spa2hva1 bit_numeral_rec)
  have w: "ept_walk sample_rpb walk_mem 0x1000 0x5123 = Some (0x9123, 1, 0)"
    by (simp add: ept_walk_def Let_def ix e walk_addr_def)
  show ?thesis
    using checked_access_refines_ept_walk[OF r, of 0 HPT_PROTS_R HPTW_CPL3 "0x2000"]
    by (simp add: w walk_addr_def sample_spa2hva1 xconst)
qed

end
