(* ===== verification/HPT_CopyProps.thy ===== *)
theory HPT_CopyProps
  imports HPT_WalkProps
begin

text \<open>
  The copy and fill operations of the walker. That they return rests on a contract of a context, stated
  as a locale (\<open>paging_context\<close>): an access makes progress. It is interpreted on the contexts the
  hypervisor builds.
\<close>

lemma unat_u32_less: "unat (x :: u32) < 2 ^ 32"
  using unsigned_less[of x, where 'a=nat] by simp

section \<open>Returning\<close>

text \<open>A computation that returns or fails, but does not run out of fuel.\<close>

definition ends :: "xmhf_error + 'a \<Rightarrow> bool" where
  "ends r \<longleftrightarrow> r \<noteq> Inl Hang"

named_theorems ends_intros

lemma ends_basic [ends_intros]:
  "ends (Inr x)" "e \<noteq> Hang \<Longrightarrow> ends (Inl e)" "ends (assertE q)" "ends (HALT_ON_ERRORCOND q)"
  by (auto simp: ends_def assertE_def HALT_ON_ERRORCOND_def)

lemma ends_bind [ends_intros]: "ends r \<Longrightarrow> (\<And>x. r = Inr x \<Longrightarrow> ends (f x)) \<Longrightarrow> ends (bindE r f)"
  by (cases r) (auto simp: ends_def)

lemma ends_if [ends_intros]: "(q \<Longrightarrow> ends r) \<Longrightarrow> (\<not> q \<Longrightarrow> ends r') \<Longrightarrow> ends (if q then r else r')"
  by simp

lemma ends_cases [ends_intros]:
  "(\<And>x y. z = (x, y) \<Longrightarrow> ends (f x y)) \<Longrightarrow> ends (case z of (x, y) \<Rightarrow> f x y)"
  "(o' = None \<Longrightarrow> ends r) \<Longrightarrow> (\<And>x. o' = Some x \<Longrightarrow> ends (g x)) \<Longrightarrow> ends (case o' of None \<Rightarrow> r | Some x \<Rightarrow> g x)"
  by (auto split: prod.split option.split)

lemma ends_entries [ends_intros]:
  "ends (hpt_type_max_lvl t)" "ends (table_at xs i)" "ends (hpt_lvl_is_valid t lvl)" "ends (hpt_pm_size t lvl)"
  "ends (BR64_COPY_BITS_HL d e hi lo off)" "ends (hpt_pme_getprot t lvl e)" "ends (hpt_pme_getuser t lvl e)"
  "ends (hpt_pme_is_page t lvl e)" "ends (hpt_get_pm_idx t lvl va)"
  "ends (hpt_pm_get_pme_by_idx t lvl pm ix m)"
proof -
  show mx: "ends (hpt_type_max_lvl t)" by (cases t) (simp_all add: ends_def)
  show ta: "ends (table_at xs i)" for xs i by (simp add: ends_def table_at_def)
  show lv: "ends (hpt_lvl_is_valid t lvl)" unfolding hpt_lvl_is_valid_def by (intro ends_intros mx)
  show "ends (hpt_pm_size t lvl)" unfolding hpt_pm_size_def by (intro ends_intros ta)
  show "ends (BR64_COPY_BITS_HL d e hi lo off)"
    unfolding BR64_COPY_BITS_HL_def BR64_SET_HL_def by (intro ends_intros) simp
  show "ends (hpt_pme_getprot t lvl e)"
    unfolding hpt_pme_getprot_def Let_def by (intro ends_intros lv) simp
  show "ends (hpt_pme_getuser t lvl e)" unfolding hpt_pme_getuser_def by (intro ends_intros) simp
  show "ends (hpt_pme_is_page t lvl e)" unfolding hpt_pme_is_page_def by (intro ends_intros) simp
  show "ends (hpt_get_pm_idx t lvl va)" unfolding hpt_get_pm_idx_def by (intro ends_intros lv ta) simp
  show "ends (hpt_pm_get_pme_by_idx t lvl pm ix m)" unfolding hpt_pm_get_pme_by_idx_def by (intro ends_intros) simp
qed

lemma ends_objects [ends_intros]:
  "ends (hpt_pme_is_present t lvl e)" "ends (hpt_pme_get_address t lvl e)" "ends (hpt_pm_get_pmeo_by_va pmo va m)"
  "ends (hpt_pmeo_getprot o')" "ends (hpt_pmeo_getuser o')" "ends (hpt_pmeo_is_present o')" "ends (hpt_pmeo_is_page o')"
  "ends (hpt_pmeo_get_address o')" "ends (hpt_pmeo_va_to_pa o' va)" "ends (hpt_remaining_on_page o' va)"
proof -
  show p: "ends (hpt_pme_is_present t lvl e)" for t lvl e unfolding hpt_pme_is_present_def by (intro ends_intros)
  show a: "ends (hpt_pme_get_address t lvl e)" for t lvl e unfolding hpt_pme_get_address_def by (intro ends_intros) simp
  show "ends (hpt_pm_get_pmeo_by_va pmo va m)"
    unfolding hpt_pm_get_pmeo_by_va_def hpt_pm_get_pme_by_va_def by (intro ends_intros)
  show "ends (hpt_pmeo_getprot o')" "ends (hpt_pmeo_getuser o')" "ends (hpt_pmeo_is_present o')"
    "ends (hpt_pmeo_is_page o')" and ga: "ends (hpt_pmeo_get_address o')"
    unfolding hpt_pmeo_getprot_def hpt_pmeo_getuser_def hpt_pmeo_is_present_def hpt_pmeo_is_page_def hpt_pmeo_get_address_def
    by (intro ends_intros p a)+
  show "ends (hpt_pmeo_va_to_pa o' va)" unfolding hpt_pmeo_va_to_pa_def by (intro ends_intros ga) simp
  show "ends (hpt_remaining_on_page o' va)"
    unfolding hpt_remaining_on_page_def hpt_pmeo_page_size_log_2_def Let_def by (intro ends_intros) simp
qed

lemma ends_loop: "ends (Inl e) \<Longrightarrow> e \<noteq> Hang"
  by (simp add: ends_def)

lemma page_bits:
  assumes "hpt_pmeo_is_page o' = Inr True" "hpt_pmeo_page_size_log_2 o' = Inr n"
  shows "0 < n \<and> n \<le> 30"
  using assms
  by (cases "pmeo_t o'") (auto simp: hpt_pmeo_is_page_def hpt_pme_is_page_def hpt_pmeo_page_size_log_2_def
      table_at_def numeral_2_eq_2 numeral_3_eq_3 split: if_splits)

lemma remaining_positive:
  assumes "hpt_pmeo_is_page o' = Inr True" "hpt_remaining_on_page o' pa = Inr r"
  shows "0 < r"
proof -
  obtain n where n: "hpt_pmeo_page_size_log_2 o' = Inr n"
    and r: "r = push_bit n 1 - ucast (pa AND MASKRANGE64 (n - 1) 0)"
    using assms(2) by (auto simp: hpt_remaining_on_page_def Let_def)
  note b = page_bits[OF assms(1) n]
  have "(ucast (pa AND MASKRANGE64 (n - 1) 0) :: u32) = take_bit n (ucast pa)"
    by (rule bit_eqI) (use b in \<open>auto simp: bit_simps bit_MASKRANGE64\<close>)
  moreover have "unat (take_bit n (ucast pa :: u32)) < 2 ^ n"
    by (simp only: unsigned_take_bit_eq) simp
  moreover have "unat (push_bit n 1 :: u32) = 2 ^ n"
  proof -
    have "(2 :: nat) ^ n \<le> 2 ^ 30" using b by (intro power_increasing) simp_all
    then have "unat (of_nat (2 ^ n) :: u32) = 2 ^ n" by (intro unat_of_nat_small) simp
    then show ?thesis by (simp add: push_bit_of_1)
  qed
  ultimately have "ucast (pa AND MASKRANGE64 (n - 1) 0) < (push_bit n 1 :: u32)"
    by (simp add: word_less_nat_alt)
  then show ?thesis unfolding r by (metis right_minus_eq less_irrefl word_coorder.not_eq_extremum)
qed

lemma word_fits: "copied < len \<Longrightarrow> n \<le> len - copied \<Longrightarrow> unat copied + unat n \<le> unat len" for n :: u32
  by (simp add: word_le_nat_alt word_less_nat_alt unat_sub)

lemma word_progress:
  fixes n :: u32
  assumes "copied < len" "n \<le> len - copied" "0 < n"
  shows "copied + n \<le> len \<and> unat (len - (copied + n)) < unat (len - copied)"
proof -
  note f = word_fits[OF assms(1,2)]
  have "unat (copied + n) = unat copied + unat n"
    using f unat_u32_less[of len] by (subst unat_add_lem[THEN iffD1]) simp_all
  moreover have "0 < unat n" using assms(3) by (simp add: word_less_nat_alt)
  ultimately show ?thesis using f assms(1) by (simp add: word_le_nat_alt word_less_nat_alt unat_sub)
qed

locale paging_context =
  fixes ctx :: hptw_ctx
  assumes ptr_ends: "ends (pa2ptr ctx m pa sz acc cpl)"
    and ptr_len: "pa2ptr ctx m pa sz acc cpl = Inr (p, avail) \<Longrightarrow> p \<noteq> 0 \<Longrightarrow> avail \<le> sz \<and> (0 < sz \<longrightarrow> 0 < avail)"
begin

lemma next_ends: "ends (hptw_next_lvl ctx m pmo va)"
  unfolding hptw_next_lvl_def by (intro ends_intros ptr_ends)

lemma get_root_ends: "ends (hptw_get_root ctx m)"
  unfolding hptw_get_root_def by (intro ends_intros ptr_ends)

lemma next_lvl_down:
  assumes "hptw_next_lvl ctx m pmo va = Inr (True, pmo')"
  shows "2 \<le> pmo_lvl pmo \<and> pmo_lvl pmo' = pmo_lvl pmo - 1"
proof -
  obtain o' where o: "hpt_pm_get_pmeo_by_va pmo va m = Inr o'" "hpt_pmeo_is_page o' = Inr False"
    and l: "pmo_lvl pmo' = pmo_lvl pmo - 1"
    using assms by (auto simp: hptw_next_lvl_def split: if_splits)
  have "pmeo_lvl o' = pmo_lvl pmo" "pmo_lvl pmo \<noteq> 0"
    using o(1) by (auto simp: hpt_pm_get_pmeo_by_va_def hpt_pm_get_pme_by_va_def hpt_get_pm_idx_def split: if_splits)
  moreover have "pmeo_lvl o' \<noteq> 1"
    using o(2) by (auto simp: hpt_pmeo_is_page_def hpt_pme_is_page_def split: if_splits)
  ultimately show ?thesis using l by linarith
qed

lemma checked_loop_ends: "pmo_lvl pmo \<le> n \<Longrightarrow> 0 < n \<Longrightarrow> ends (checked_loop n ctx m acc cpl va pmo)"
proof (induction n arbitrary: pmo)
  case (Suc n)
  show ?case
    unfolding checked_loop.simps
  proof (intro ends_intros next_ends)
    fix w walked pmo'
    assume "hptw_next_lvl ctx m pmo va = Inr w" "w = (walked, pmo')" walked
    then have "2 \<le> pmo_lvl pmo" "pmo_lvl pmo' = pmo_lvl pmo - 1" using next_lvl_down[of m pmo va pmo'] by simp_all
    then show "ends (checked_loop n ctx m acc cpl va pmo')" using Suc.prems by (intro Suc.IH) linarith+
  qed
qed simp

lemma access_ends: "ends (hptw_checked_access_va ctx m acc cpl va sz)"
  unfolding checked_access_split
proof (intro ends_intros get_root_ends)
  fix r pmo
  assume "hptw_get_root ctx m = Inr r" "r = Some pmo"
  then have "hpt_type_max_lvl (ctx_t ctx) = Inr (pmo_lvl pmo)"
    by (auto simp: hptw_get_root_def split: if_splits)
  then have "0 < pmo_lvl pmo" by (cases "ctx_t ctx") auto
  then show "ends (checked_loop (pmo_lvl pmo) ctx m acc cpl va pmo)" by (intro checked_loop_ends) simp_all
next
  fix f
  show "ends (checked_finish ctx m acc cpl va sz f)"
    unfolding checked_finish_def by (intro ends_intros ptr_ends)
qed

lemma access_len:
  assumes "hptw_checked_access_va ctx m acc cpl va sz = Inr (p, avail)" "p \<noteq> 0"
  shows "avail \<le> sz \<and> (0 < sz \<longrightarrow> 0 < avail)"
proof -
  obtain r where "checked_finish ctx m acc cpl va sz r = Inr (p, avail)"
    using assms by (auto simp: checked_access_split split: option.splits)
  then obtain o' pa rem where p: "hpt_pmeo_is_page o' = Inr True" "hpt_remaining_on_page o' pa = Inr rem"
    "pa2ptr ctx m pa (min sz rem) acc cpl = Inr (p, avail)"
    using assms(2) by (auto simp: checked_finish_def split: option.splits prod.splits if_splits)
  with ptr_len[OF p(3) assms(2)] remaining_positive[OF p(1,2)] show ?thesis by auto
qed

text \<open>Each turn of a copy loop leaves less to do.\<close>

lemma access_progress:
  assumes "copied < len" "hptw_checked_access_va ctx m acc cpl va (len - copied) = Inr (p, n)" "p \<noteq> 0"
  shows "copied + n \<le> len \<and> unat (len - (copied + n)) < unat (len - copied)"
proof -
  have "0 < len - copied" using assms(1) by (metis right_minus_eq less_irrefl word_coorder.not_eq_extremum)
  then have "n \<le> len - copied" "0 < n" using access_len[OF assms(2,3)] by simp_all
  with assms(1) show ?thesis by (rule word_progress)
qed

lemma copy_from_ends:
  "copied \<le> len \<Longrightarrow> unat (len - copied) < fuel \<Longrightarrow> ends (copy_from_loop fuel ctx cpl dst src len copied m)"
proof (induction fuel arbitrary: copied m)
  case (Suc fuel)
  show ?case
    unfolding copy_from_loop.simps
  proof (intro ends_intros access_ends)
    fix r p n
    assume a: "copied < len" "hptw_checked_access_va ctx m HPT_PROTS_R cpl (src + ucast copied) (len - copied) = Inr r"
      "r = (p, n)" "p \<noteq> 0"
    show "ends (copy_from_loop fuel ctx cpl dst src len (copied + n) (memcpy (unat n) (dst + copied) p m))"
      by (rule Suc.IH) (use access_progress[OF a(1) a(2)[unfolded a(3)] a(4)] Suc.prems in linarith)+
  qed
qed simp

lemma copy_to_ends:
  "copied \<le> len \<Longrightarrow> unat (len - copied) < fuel \<Longrightarrow> ends (copy_to_loop fuel ctx cpl dst src len copied m)"
proof (induction fuel arbitrary: copied m)
  case (Suc fuel)
  show ?case
    unfolding copy_to_loop.simps
  proof (intro ends_intros access_ends)
    fix r p n
    assume a: "copied < len" "hptw_checked_access_va ctx m HPT_PROTS_W cpl (dst + ucast copied) (len - copied) = Inr r"
      "r = (p, n)" "p \<noteq> 0"
    show "ends (copy_to_loop fuel ctx cpl dst src len (copied + n) (memcpy (unat n) p (src + copied) m))"
      by (rule Suc.IH) (use access_progress[OF a(1) a(2)[unfolded a(3)] a(4)] Suc.prems in linarith)+
  qed
qed simp

lemma memset_va_ends:
  "start \<le> len \<Longrightarrow> unat (len - start) < fuel \<Longrightarrow> ends (memset_va_loop fuel ctx cpl dst c len start m)"
proof (induction fuel arbitrary: start m)
  case (Suc fuel)
  show ?case
    unfolding memset_va_loop.simps
  proof (intro ends_intros access_ends)
    fix r p n
    assume a: "start < len" "hptw_checked_access_va ctx m HPT_PROTS_W cpl (dst + ucast start) (len - start) = Inr r"
      "r = (p, n)" "p \<noteq> 0"
    show "ends (memset_va_loop fuel ctx cpl dst c len (start + n) (memset (unat n) p c m))"
      by (rule Suc.IH) (use access_progress[OF a(1) a(2)[unfolded a(3)] a(4)] Suc.prems in linarith)+
  qed
qed simp

text \<open>A copy into the hypervisor writes the buffer and nothing else.\<close>

lemma copy_from_frame:
  "copied \<le> len \<Longrightarrow> copy_from_loop fuel ctx cpl dst src len copied m = Inr (err, m') \<Longrightarrow>
   x \<notin> span dst (unat len) \<Longrightarrow> m' x = m x"
proof (induction fuel arbitrary: copied m)
  case (Suc fuel)
  show ?case
  proof (cases "copied < len")
    case True
    then obtain p n where a: "hptw_checked_access_va ctx m HPT_PROTS_R cpl (src + ucast copied) (len - copied) = Inr (p, n)"
      and r: "(if p = 0 then Inr (1, m) else copy_from_loop fuel ctx cpl dst src len (copied + n)
        (memcpy (unat n) (dst + copied) p m)) = Inr (err, m')"
      using Suc.prems(2) by auto
    show ?thesis
    proof (cases "p = 0")
      case False
      have le: "unat copied + unat n \<le> unat len" "copied + n \<le> len"
        using access_len[OF a False] access_progress[OF True a False] word_fits[OF True, of n] by simp_all
      have "m' x = memcpy (unat n) (dst + copied) p m x"
        using r False by (intro Suc.IH[OF le(2) _ Suc.prems(3)]) simp
      also have "\<dots> = m x"
        by (rule memcpy_outside[OF unat_u32_less]) (use Suc.prems(3) le(1) span_shift in blast)
      finally show ?thesis .
    qed (use r in simp)
  qed (use Suc.prems in simp)
qed simp

end

text \<open>Two contexts, for the copy between them.\<close>

locale paging_pair = dst: paging_context dst_ctx + src: paging_context src_ctx for dst_ctx src_ctx
begin

lemma copy_va_to_va_ends:
  "copied \<le> len \<Longrightarrow> unat (len - copied) < fuel \<Longrightarrow>
   ends (copy_va_to_va_loop fuel dst_ctx dcpl dva src_ctx scpl sva len copied m)"
proof (induction fuel arbitrary: copied m)
  case (Suc fuel)
  show ?case
    unfolding copy_va_to_va_loop.simps
  proof (intro ends_intros dst.access_ends src.access_ends)
    fix r p n r' q k
    assume a: "copied < len" "hptw_checked_access_va dst_ctx m HPT_PROTS_W dcpl (dva + ucast copied) (len - copied) = Inr r"
      "r = (p, n)" "p \<noteq> 0"
      and b: "hptw_checked_access_va src_ctx m HPT_PROTS_R scpl (sva + ucast copied) n = Inr r'" "r' = (q, k)" "q \<noteq> 0"
    have "0 < len - copied" using a(1) by (metis right_minus_eq less_irrefl word_coorder.not_eq_extremum)
    then have "n \<le> len - copied" "0 < n" using dst.access_len[OF a(2)[unfolded a(3)] a(4)] by simp_all
    moreover from this(2) have "k \<le> n" "0 < k" using src.access_len[OF b(1)[unfolded b(2)] b(3)] by simp_all
    ultimately have "copied + k \<le> len \<and> unat (len - (copied + k)) < unat (len - copied)"
      by (intro word_progress[OF a(1)]) auto
    then show "ends (copy_va_to_va_loop fuel dst_ctx dcpl dva src_ctx scpl sva len (copied + k) (memcpy (unat k) p q m))"
      using Suc.prems by (intro Suc.IH) linarith+
  qed
qed simp

end

interpretation host: paging_context "super (hptw_emhf_host_ctx_init b root t pl)" for b root t pl
  by unfold_locales (auto simp: hptw_emhf_host_ctx_init_def hptw_emhf_host_ctx_pa2ptr_def ends_def)

interpretation guest_paging: paging_context
  "guest_super (hptw_emhf_checked_guest_ctx_init root t cpl (hptw_emhf_host_ctx_init b hroot ht hpl) pl)"
  for root t cpl b hroot ht hpl pl
proof unfold_locales
  let ?G = "guest_super (hptw_emhf_checked_guest_ctx_init root t cpl (hptw_emhf_host_ctx_init b hroot ht hpl) pl)"
  have g: "pa2ptr ?G m pa sz acc c
      = hptw_checked_access_va (super (hptw_emhf_host_ctx_init b hroot ht hpl)) m acc c pa sz" for m pa sz acc c
    by (simp add: hptw_emhf_checked_guest_ctx_init_def hptw_emhf_checked_guest_ctx_pa2ptr_def)
  show "ends (pa2ptr ?G m pa sz acc c)" for m pa sz acc c unfolding g by (rule host.access_ends)
  show "avail \<le> sz \<and> (0 < sz \<longrightarrow> 0 < avail)" if "pa2ptr ?G m pa sz acc c = Inr (p, avail)" "p \<noteq> 0" for m pa sz acc c p avail
    using that unfolding g by (rule host.access_len)
qed

interpretation guest_to_host: paging_pair "super (hptw_emhf_host_ctx_init b' hroot' ht' hpl')"
  "guest_super (hptw_emhf_checked_guest_ctx_init root t cpl (hptw_emhf_host_ctx_init b hroot ht hpl) pl)"
  for b' hroot' ht' hpl' root t cpl b hroot ht hpl pl
  by unfold_locales

interpretation guest_to_guest: paging_pair
  "guest_super (hptw_emhf_checked_guest_ctx_init root' t' cpl' (hptw_emhf_host_ctx_init b' hroot' ht' hpl') pl')"
  "guest_super (hptw_emhf_checked_guest_ctx_init root t cpl (hptw_emhf_host_ctx_init b hroot ht hpl) pl)"
  for root' t' cpl' b' hroot' ht' hpl' pl' root t cpl b hroot ht hpl pl
  by unfold_locales

section \<open>Copies for the guest\<close>

text \<open>
  C22: the checked copies return. With one unit of fuel more than the length, no copy from, to or
  between guests and no fill runs on, whatever the guest's page tables hold; and a copy from the guest
  writes nothing outside the buffer it is given.
\<close>

theorem checked_copies_return:
  assumes "unat len < fuel"
  shows "hptw_checked_copy_from_va fuel (guest_ctx b eptp root t) cpl dst va len m \<noteq> Inl Hang
    \<and> hptw_checked_copy_to_va fuel (guest_ctx b eptp root t) cpl va src len m \<noteq> Inl Hang
    \<and> hptw_checked_memset_va fuel (guest_ctx b eptp root t) cpl va c len m \<noteq> Inl Hang
    \<and> hptw_checked_copy_va_to_va fuel (guest_ctx b eptp root t) cpl va (guest_ctx b eptp root' t') cpl' va' len m \<noteq> Inl Hang
    \<and> (\<forall>err m' x. hptw_checked_copy_from_va fuel (guest_ctx b eptp root t) cpl dst va len m = Inr (err, m') \<longrightarrow>
         x \<notin> span dst (unat len) \<longrightarrow> m' x = m x)"
proof -
  have l: "unat (len - 0) < fuel" using assms by simp
  have z: "0 \<le> len" by simp
  show ?thesis
    unfolding hptw_checked_copy_from_va_def hptw_checked_copy_to_va_def hptw_checked_memset_va_def
      hptw_checked_copy_va_to_va_def ends_def[symmetric]
    by (intro conjI allI impI guest_paging.copy_from_ends[OF z l] guest_paging.copy_to_ends[OF z l]
        guest_paging.memset_va_ends[OF z l] guest_to_guest.copy_va_to_va_ends[OF z l])
      (rule guest_paging.copy_from_frame[OF z])
qed

theorem checked_copies_return_witness:
  "hptw_checked_copy_from_va 17 (guest_ctx sample_rpb 0x1000 0x5000 HPT_TYPE_NORM) HPTW_CPL3 0x8000 0x400000 16 walk_mem \<noteq> Inl Hang"
  using checked_copies_return[where len = 16 and fuel = 17]
  by simp

end
