(* ===== verification/XMHF_Quiesce.thy ===== *)
theory XMHF_Quiesce
  imports XMHF_Prelude
begin

text \<open>
  The rendezvous of the cores (\<^verbatim>\<open>smpg-x86vmx.c\<close>): a core that is about to call the application stops the
  others with a non-maskable interrupt, waits until they are parked, calls the application, and
  releases the others one after the other; they leave for user space and do not come back.

  The four cores run concurrently on shared variables. A core has a position in the code of
  \<^verbatim>\<open>quiesce\<close>/\<^verbatim>\<open>endquiesce\<close> and, while an interrupt is handled, one in the handler, which then runs
  alone. A step is one access to a shared variable; an increment without lock is a load and a store.
  A core that spins has no step. Interrupts from elsewhere may arrive at any time.
\<close>

section \<open>Cores and shared variables\<close>

datatype lcore = C0 | C1 | C2 | C3

fun apic_id :: "lcore \<Rightarrow> u32" where
  "apic_id C0 = 0x0"
| "apic_id C1 = 0xc"
| "apic_id C2 = 0xe"
| "apic_id C3 = 0x1a"

datatype main_pc = Running | QSpin | QMark | QReset | QFlag | QSend | QWait | App
  | EStart | ESet nat | EWait nat | EDone | EClear | EFlag | EUnlock | User

datatype nmi_pc = Idle | NEntry | NCheck | NCount | NSignal | NLoad nat | NStore nat nat | NGdt | NRally
  | NResume | NLeave

record qst =
  q_lock_free :: bool
  q_quiesce :: bool
  q_counter :: nat
  q_resume :: nat
  q_signal :: "lcore \<Rightarrow> bool"
  q_gdt :: "lcore \<Rightarrow> bool"
  q_quiesced :: "lcore \<Rightarrow> bool"
  q_pending :: "lcore \<Rightarrow> bool"
  q_main :: "lcore \<Rightarrow> main_pc"
  q_nmi :: "lcore \<Rightarrow> nmi_pc"

definition q_init :: qst where
  "q_init = \<lparr>q_lock_free = True, q_quiesce = False, q_counter = 0, q_resume = 0, q_signal = (\<lambda>c. False),
    q_gdt = (\<lambda>c. False), q_quiesced = (\<lambda>c. False), q_pending = (\<lambda>c. False), q_main = (\<lambda>c. Running),
    q_nmi = (\<lambda>c. Idle)\<rparr>"

definition set_main :: "lcore \<Rightarrow> main_pc \<Rightarrow> qst \<Rightarrow> qst" where
  "set_main c p s = s\<lparr>q_main := (q_main s)(c := p)\<rparr>"

definition set_nmi :: "lcore \<Rightarrow> nmi_pc \<Rightarrow> qst \<Rightarrow> qst" where
  "set_nmi c p s = s\<lparr>q_nmi := (q_nmi s)(c := p)\<rparr>"

section \<open>The requesting core\<close>

text \<open>The six writes of \<^verbatim>\<open>endquiesce\<close>: first the resume signals, then the signals of the descriptor tables.\<close>

definition release :: "nat \<Rightarrow> qst \<Rightarrow> qst" where
  "release k s =
    (if k = 1 then s\<lparr>q_signal := (q_signal s)(C1 := True)\<rparr>
     else if k = 2 then s\<lparr>q_signal := (q_signal s)(C2 := True)\<rparr>
     else if k = 3 then s\<lparr>q_signal := (q_signal s)(C3 := True)\<rparr>
     else if k = 4 then s\<lparr>q_gdt := (q_gdt s)(C1 := True)\<rparr>
     else if k = 5 then s\<lparr>q_gdt := (q_gdt s)(C2 := True)\<rparr>
     else s\<lparr>q_gdt := (q_gdt s)(C3 := True)\<rparr>)"

text \<open>
  The rendezvous is that of four cores, whose identifications are those the source names: 0, 0xc, 0xe and 0x1a. The number
  the waiting core compares with (\<^verbatim>\<open>g_midtable_numentries\<close>) is therefore four. The machine's other uses of the application
  are not rounds: \<^verbatim>\<open>xmhf_app_handleshutdown\<close> is called by \<^verbatim>\<open>peh-x86vmx-main.c\<close> without quiescing, and reboots the
  machine.
\<close>

definition num_cores :: nat where "num_cores = 4"

fun main_step :: "lcore \<Rightarrow> main_pc \<Rightarrow> qst \<Rightarrow> qst option" where
  "main_step c QSpin s = (if q_lock_free s then Some (set_main c QMark (s\<lparr>q_lock_free := False\<rparr>)) else None)"
| "main_step c QMark s = Some (set_main c QReset (s\<lparr>q_quiesced := (q_quiesced s)(c := True)\<rparr>))"
| "main_step c QReset s = Some (set_main c QFlag (s\<lparr>q_counter := 0\<rparr>))"
| "main_step c QFlag s = Some (set_main c QSend (s\<lparr>q_quiesce := True\<rparr>))"
| "main_step c QSend s = Some (set_main c QWait (s\<lparr>q_pending := (\<lambda>d. d \<noteq> c \<or> q_pending s d)\<rparr>))"
| "main_step c QWait s = (if q_counter s < num_cores - 1 then None else Some (set_main c App s))"
| "main_step c App s = Some (set_main c EStart s)"
| "main_step c EStart s = Some (set_main c (ESet 1) (s\<lparr>q_resume := 0\<rparr>))"
| "main_step c (ESet k) s = Some (set_main c (EWait k) (release k s))"
| "main_step c (EWait k) s =
    (if q_resume s < k then None else Some (set_main c (if k < 6 then ESet (k + 1) else EDone) s))"
| "main_step c EDone s = Some (set_main c EClear (s\<lparr>q_resume := 8\<rparr>))"
| "main_step c EClear s = Some (set_main c EFlag (s\<lparr>q_quiesced := (q_quiesced s)(c := False)\<rparr>))"
| "main_step c EFlag s = Some (set_main c EUnlock (s\<lparr>q_quiesce := False\<rparr>))"
| "main_step c EUnlock s = Some (set_main c Running (s\<lparr>q_lock_free := True\<rparr>))"
| "main_step c Running s = None"
| "main_step c User s = None"

section \<open>The interrupt handler\<close>

text \<open>
  \<^verbatim>\<open>eventhandler_nmiexception\<close> and, for the three cores that leave, \<^verbatim>\<open>prepare_context\<close> with its two
  increments of the resume counter (the first and the second phase) and the jump to user space. The
  switch over the identification has no other case and no default: a core with another identification,
  which the model does not have, would count itself as quiesced and go on without waiting.
\<close>

fun nmi_step :: "lcore \<Rightarrow> nmi_pc \<Rightarrow> qst \<Rightarrow> qst option" where
  "nmi_step c NEntry s = Some (set_nmi c (if q_quiesce s then NCheck else Idle) s)"
| "nmi_step c NCheck s =
    Some (if q_quiesced s c then set_nmi c Idle s
          else set_nmi c NCount (s\<lparr>q_quiesced := (q_quiesced s)(c := True)\<rparr>))"
| "nmi_step c NCount s = Some (set_nmi c NSignal (s\<lparr>q_counter := q_counter s + 1\<rparr>))"
| "nmi_step c NSignal s = (if q_signal s c then Some (set_nmi c (if c = C0 then NResume else NLoad 1) s) else None)"
| "nmi_step c (NLoad ph) s = Some (set_nmi c (NStore ph (q_resume s)) s)"
| "nmi_step c (NStore ph r) s = Some (set_nmi c (if ph = 1 then NGdt else NRally) (s\<lparr>q_resume := r + 1\<rparr>))"
| "nmi_step c NGdt s = (if q_gdt s c then Some (set_nmi c (NLoad 2) s) else None)"
| "nmi_step c NRally s = (if q_resume s < 8 then None else Some (set_nmi c Idle (set_main c User s)))"
| "nmi_step c NResume s = Some (set_nmi c NLeave (s\<lparr>q_resume := q_resume s + 1\<rparr>))"
| "nmi_step c NLeave s = Some (set_nmi c Idle (s\<lparr>q_quiesced := (q_quiesced s)(c := False)\<rparr>))"
| "nmi_step c Idle s = None"

section \<open>The system\<close>

definition core_step :: "lcore \<Rightarrow> qst \<Rightarrow> qst option" where
  "core_step c s = (if q_nmi s c = Idle then main_step c (q_main s c) s else nmi_step c (q_nmi s c) s)"

definition deliver :: "lcore \<Rightarrow> qst \<Rightarrow> qst" where
  "deliver c s = set_nmi c NEntry (s\<lparr>q_pending := (q_pending s)(c := False)\<rparr>)"

inductive qstep :: "qst \<Rightarrow> qst \<Rightarrow> bool" where
  core: "core_step c s = Some s' \<Longrightarrow> qstep s s'"
| nmi: "q_pending s c \<Longrightarrow> q_nmi s c = Idle \<Longrightarrow> qstep s (deliver c s)"

text \<open>What comes from outside: an exit of the guest that needs the application, and stray interrupts.\<close>

inductive qenv :: "qst \<Rightarrow> qst \<Rightarrow> bool" where
  request: "q_main s c = Running \<Longrightarrow> q_nmi s c = Idle \<Longrightarrow> qenv s (set_main c QSpin s)"
| stray: "qenv s (s\<lparr>q_pending := (q_pending s)(c := True)\<rparr>)"

inductive qreach :: "qst \<Rightarrow> qst \<Rightarrow> bool" for s0 where
  start: "qreach s0 s0"
| step: "qreach s0 s \<Longrightarrow> qstep s s' \<Longrightarrow> qreach s0 s'"
| env: "qreach s0 s \<Longrightarrow> qenv s s' \<Longrightarrow> qreach s0 s'"

text \<open>A schedule: which core makes a step, and which takes a pending interrupt.\<close>

datatype move = Do lcore | Take lcore

fun run :: "move list \<Rightarrow> qst \<Rightarrow> qst option" where
  "run [] s = Some s"
| "run (Do c # ms) s = (case core_step c s of None \<Rightarrow> None | Some s' \<Rightarrow> run ms s')"
| "run (Take c # ms) s = (if q_pending s c \<and> q_nmi s c = Idle then run ms (deliver c s) else None)"

definition park :: "lcore \<Rightarrow> move list" where
  "park c = [Take c, Do c, Do c, Do c]"

definition app_schedule :: "move list" where
  "app_schedule = replicate 5 (Do C0) @ park C1 @ park C2 @ park C3 @ [Do C0]"

lemma run_reach: "run ms s = Some s' \<Longrightarrow> qreach s0 s \<Longrightarrow> qreach s0 s'"
  by (induction ms s rule: run.induct) (auto split: option.splits if_splits intro: qreach.step qstep.intros)

lemmas run_eval = core_step_def set_main_def set_nmi_def deliver_def q_init_def num_cores_def release_def

lemma requested: "qreach q_init (set_main C0 QSpin q_init)"
  by (rule qreach.env[OF qreach.start qenv.request]) (simp_all add: q_init_def)

lemma app_reachable:
  "\<exists>s. run app_schedule (set_main C0 QSpin q_init) = Some s \<and> q_main s C0 = App \<and> qreach q_init s"
proof -
  have "\<exists>s. run app_schedule (set_main C0 QSpin q_init) = Some s \<and> q_main s C0 = App"
    by (simp add: app_schedule_def park_def numeral_eq_Suc run_eval)
  then show ?thesis using run_reach[OF _ requested] by blast
qed

lemma release_reachable:
  "\<exists>s. run (app_schedule @ [Do C0, Do C0, Do C0]) (set_main C0 QSpin q_init) = Some s \<and> q_signal s C1 \<and> qreach q_init s"
proof -
  have "\<exists>s. run (app_schedule @ [Do C0, Do C0, Do C0]) (set_main C0 QSpin q_init) = Some s \<and> q_signal s C1"
    by (simp add: app_schedule_def park_def numeral_eq_Suc run_eval)
  then show ?thesis using run_reach[OF _ requested] by blast
qed

section \<open>Exclusion\<close>

lemma lcore_UNIV: "UNIV = {C0, C1, C2, C3}"
  by (auto intro: lcore.exhaust)

lemma finite_lcores [simp]: "finite (A :: lcore set)"
proof (rule finite_subset)
  show "A \<subseteq> {C0, C1, C2, C3}" using lcore_UNIV by blast
qed simp

lemma card_others: "card (UNIV - {h :: lcore}) = 3"
  by (cases h) (simp_all add: lcore_UNIV)

lemma set_simps [simp]:
  "q_main (set_main c p s) = (q_main s)(c := p)" "q_nmi (set_main c p s) = q_nmi s"
  "q_main (set_nmi c n s) = q_main s" "q_nmi (set_nmi c n s) = (q_nmi s)(c := n)"
  "q_lock_free (set_main c p s) = q_lock_free s" "q_lock_free (set_nmi c n s) = q_lock_free s"
  "q_quiesce (set_main c p s) = q_quiesce s" "q_quiesce (set_nmi c n s) = q_quiesce s"
  "q_counter (set_main c p s) = q_counter s" "q_counter (set_nmi c n s) = q_counter s"
  "q_resume (set_main c p s) = q_resume s" "q_resume (set_nmi c n s) = q_resume s"
  "q_signal (set_main c p s) = q_signal s" "q_signal (set_nmi c n s) = q_signal s"
  "q_gdt (set_main c p s) = q_gdt s" "q_gdt (set_nmi c n s) = q_gdt s"
  "q_quiesced (set_main c p s) = q_quiesced s" "q_quiesced (set_nmi c n s) = q_quiesced s"
  "q_pending (set_main c p s) = q_pending s" "q_pending (set_nmi c n s) = q_pending s"
  by (simp_all add: set_main_def set_nmi_def)

lemma release_simps [simp]:
  "q_main (release k s) = q_main s" "q_nmi (release k s) = q_nmi s" "q_lock_free (release k s) = q_lock_free s"
  "q_quiesce (release k s) = q_quiesce s" "q_counter (release k s) = q_counter s"
  "q_resume (release k s) = q_resume s" "q_quiesced (release k s) = q_quiesced s"
  "q_pending (release k s) = q_pending s" "q_signal (release k s) C0 = q_signal s C0"
  by (simp_all add: release_def)

text \<open>How far the requesting core has come on its way to the first release.\<close>

fun stage :: "main_pc \<Rightarrow> nat" where
  "stage QMark = 1" | "stage QReset = 2" | "stage QFlag = 3" | "stage QSend = 4" | "stage QWait = 5"
| "stage App = 6" | "stage EStart = 7" | "stage (ESet k) = (if k = 1 then 8 else 9)" | "stage Running = 0" | "stage QSpin = 0"
| "stage p = 9"

fun nlevel :: "nmi_pc \<Rightarrow> nat" where
  "nlevel Idle = 0" | "nlevel NEntry = 1" | "nlevel NCheck = 2" | "nlevel NCount = 3" | "nlevel NSignal = 4"
| "nlevel NResume = 6" | "nlevel NLeave = 6" | "nlevel p = 5"

definition parked :: "qst \<Rightarrow> lcore set" where
  "parked s = {c. q_nmi s c = NSignal}"

text \<open>Nobody holds the lock, and no round has taken place.\<close>

definition quiet_core :: "qst \<Rightarrow> lcore \<Rightarrow> bool" where
  "quiet_core s c \<longleftrightarrow> \<not> q_signal s c \<and> stage (q_main s c) = 0 \<and> nlevel (q_nmi s c) \<le> 1"

definition quiet :: "qst \<Rightarrow> bool" where
  "quiet s \<longleftrightarrow> q_lock_free s \<and> \<not> q_quiesce s \<and> (\<forall>c. quiet_core s c)"

text \<open>Core \<open>h\<close> gathers the others: what holds of each core, and the counter that says how many are parked.\<close>

definition gathering_core :: "lcore \<Rightarrow> qst \<Rightarrow> lcore \<Rightarrow> bool" where
  "gathering_core h s c \<longleftrightarrow> \<not> q_signal s c \<and> (c \<noteq> h \<longrightarrow> stage (q_main s c) = 0) \<and> nlevel (q_nmi s c) \<le> 4
    \<and> (c = h \<longrightarrow> nlevel (q_nmi s c) \<le> 2) \<and> (\<not> q_quiesce s \<longrightarrow> nlevel (q_nmi s c) \<le> 1)
    \<and> (3 \<le> nlevel (q_nmi s c) \<longrightarrow> q_quiesced s c)"

definition gathering :: "lcore \<Rightarrow> qst \<Rightarrow> bool" where
  "gathering h s \<longleftrightarrow> \<not> q_lock_free s \<and> 1 \<le> stage (q_main s h) \<and> stage (q_main s h) \<le> 8
    \<and> (q_quiesce s \<longleftrightarrow> 4 \<le> stage (q_main s h)) \<and> (2 \<le> stage (q_main s h) \<longrightarrow> q_quiesced s h)
    \<and> (3 \<le> stage (q_main s h) \<longrightarrow> q_counter s = card (parked s))
    \<and> (6 \<le> stage (q_main s h) \<longrightarrow> 3 \<le> q_counter s) \<and> (\<forall>c. gathering_core h s c)"

lemma quiet_init: "quiet q_init"
  by (simp add: quiet_def quiet_core_def q_init_def)

lemma stage_main_step:
  assumes "stage p = 0" "main_step c p s = Some s'"
  shows "p = QSpin \<and> q_lock_free s \<and> s' = set_main c QMark (s\<lparr>q_lock_free := False\<rparr>)"
  using assms by (cases p) (auto split: if_splits)

lemma quiet_main:
  assumes q: "quiet s" and st: "main_step c (q_main s c) s = Some s'"
  shows "gathering c s'"
proof -
  have "stage (q_main s c) = 0" using q by (simp add: quiet_def quiet_core_def)
  note s' = stage_main_step[OF this st]
  have "gathering_core c s' d" for d
  proof -
    have "quiet_core s d" "\<not> q_quiesce s" using q by (simp_all add: quiet_def)
    then show ?thesis using s' by (auto simp: quiet_core_def gathering_core_def)
  qed
  then show ?thesis using s' q by (auto simp: gathering_def quiet_def)
qed

lemma gathering_main_self:
  assumes g: "gathering h s" and st: "main_step h (q_main s h) s = Some s'" and ne: "q_main s h \<noteq> ESet 1"
  shows "gathering h s'"
proof -
  have n: "q_nmi s' = q_nmi s" "q_signal s' = q_signal s" and m: "c \<noteq> h \<Longrightarrow> q_main s' c = q_main s c" for c
    using st g ne by (cases "q_main s h"; auto simp: gathering_def split: if_splits)+
  have gc: "gathering_core h s' c" for c
  proof -
    have "gathering_core h s c" using g by (simp add: gathering_def)
    moreover have "q_quiesce s \<longrightarrow> q_quiesce s'" "q_quiesced s c \<longrightarrow> q_quiesced s' c"
      using st g ne by (cases "q_main s h"; auto simp: gathering_def split: if_splits)+
    ultimately show ?thesis using n m by (auto simp: gathering_core_def)
  qed
  have p: "parked s' = parked s" using n by (simp add: parked_def)
  have np: "parked s = {}" if "\<not> q_quiesce s"
  proof -
    have "q_nmi s c \<noteq> NSignal" for c
    proof -
      have "gathering_core h s c" using g by (simp add: gathering_def)
      then show ?thesis using that by (auto simp: gathering_core_def)
    qed
    then show ?thesis by (simp add: parked_def)
  qed
  show ?thesis
    using st g ne gc p np by (cases "q_main s h") (auto simp: gathering_def num_cores_def split: if_splits)
qed

lemma gathering_main_other:
  assumes g: "gathering h s" and "c \<noteq> h" "main_step c (q_main s c) s = Some s'"
  shows False
proof -
  have "gathering_core h s c" using g by (simp add: gathering_def)
  then have "stage (q_main s c) = 0" using assms(2) by (simp add: gathering_core_def)
  from stage_main_step[OF this assms(3)] g show False by (simp add: gathering_def)
qed

lemma quiet_nmi:
  assumes q: "quiet s" and "q_nmi s c \<noteq> Idle" "nmi_step c (q_nmi s c) s = Some s'"
  shows "quiet s'"
proof -
  have "quiet_core s c" using q by (simp add: quiet_def)
  then have "q_nmi s c = NEntry" using assms(2) by (cases "q_nmi s c") (auto simp: quiet_core_def)
  then have s': "s' = set_nmi c Idle s" using assms(3) q by (auto simp: quiet_def)
  have "quiet_core s' d" for d
  proof -
    have "quiet_core s d" using q by (simp add: quiet_def)
    then show ?thesis by (simp add: s' quiet_core_def)
  qed
  then show ?thesis using q by (simp add: quiet_def s')
qed

lemma gathering_nmi:
  assumes g: "gathering h s" and st: "nmi_step c (q_nmi s c) s = Some s'"
  shows "gathering h s'"
proof -
  have gc: "gathering_core h s d" for d using g by (simp add: gathering_def)
  have lev: "nlevel (q_nmi s c) \<le> 4" "\<not> q_signal s c" "c = h \<longrightarrow> nlevel (q_nmi s c) \<le> 2 \<and> (2 \<le> stage (q_main s h) \<longrightarrow> q_quiesced s h)"
    using gc[of c] g by (auto simp: gathering_core_def gathering_def)
  have gd: "gathering_core h s' d" for d
    using gc[of d] gc[of c] g st by (cases "q_nmi s c") (auto simp: gathering_core_def gathering_def split: if_splits)
  show ?thesis
  proof (cases "q_nmi s c")
    case NCount
    have "parked s' = insert c (parked s)" "c \<notin> parked s" using NCount st by (auto simp: parked_def)
    then have "card (parked s') = Suc (card (parked s))" by simp
    moreover have "q_lock_free s' = q_lock_free s" "q_main s' = q_main s" "q_quiesce s' = q_quiesce s"
      "q_counter s' = Suc (q_counter s)" "q_quiesced s' = q_quiesced s"
      using NCount st by auto
    ultimately show ?thesis using g gd by (auto simp: gathering_def)
  next
    case NEntry
    then have "parked s' = parked s" using st by (auto simp: parked_def split: if_splits)
    moreover have "q_lock_free s' = q_lock_free s" "q_main s' = q_main s" "q_quiesce s' = q_quiesce s"
      "q_counter s' = q_counter s" "q_quiesced s' = q_quiesced s"
      using NEntry st by auto
    ultimately show ?thesis using g gd by (auto simp: gathering_def)
  next
    case NCheck
    then have "parked s' = parked s" using st by (auto simp: parked_def split: if_splits)
    moreover have "q_lock_free s' = q_lock_free s" "q_main s' = q_main s" "q_quiesce s' = q_quiesce s"
      "q_counter s' = q_counter s" "q_quiesced s h \<longrightarrow> q_quiesced s' h"
      using NCheck st by (auto split: if_splits)
    ultimately show ?thesis using g gd by (auto simp: gathering_def)
  qed (use st lev in \<open>auto split: if_splits\<close>)
qed

text \<open>
  After the first release by core \<open>h\<close>, nobody calls the application again: the other cores are on
  their way to user space or there, and remain marked as quiesced.
\<close>

definition leaving :: "qst \<Rightarrow> lcore \<Rightarrow> bool" where
  "leaving s d \<longleftrightarrow> q_quiesced s d \<and>
    (if q_main s d = User then nlevel (q_nmi s d) \<le> 2
     else stage (q_main s d) = 0 \<and> 4 \<le> nlevel (q_nmi s d) \<and> nlevel (q_nmi s d) \<le> 5)"

definition released :: "lcore \<Rightarrow> qst \<Rightarrow> bool" where
  "released h s \<longleftrightarrow> \<not> q_signal s C0 \<and> q_main s h \<noteq> App \<and> q_main s h \<noteq> EStart
    \<and> (q_quiesce s \<longrightarrow> 4 \<le> stage (q_main s h) \<and> q_main s h \<noteq> EUnlock)
    \<and> (3 \<le> stage (q_main s h) \<and> stage (q_main s h) \<le> 5 \<longrightarrow> q_counter s = 0)
    \<and> (2 \<le> stage (q_main s h) \<and> stage (q_main s h) \<le> 5 \<longrightarrow> q_quiesced s h \<and> nlevel (q_nmi s h) \<le> 2)
    \<and> (2 \<le> nlevel (q_nmi s h) \<longrightarrow> q_quiesce s) \<and> nlevel (q_nmi s h) \<le> 5
    \<and> (\<forall>d. d \<noteq> h \<longrightarrow> leaving s d)"

lemma leaving_main: "leaving s d \<Longrightarrow> q_nmi s d = Idle \<Longrightarrow> main_step d (q_main s d) s = Some s' \<Longrightarrow> False"
  by (cases "q_main s d") (auto simp: leaving_def)

lemma leaving_nmi:
  assumes "leaving s d" "\<not> q_signal s C0" "nmi_step d (q_nmi s d) s = Some s'"
  shows "leaving s' d" and "q_counter s' = q_counter s" "q_quiesce s' = q_quiesce s" "q_signal s' = q_signal s"
    and "\<And>c. c \<noteq> d \<Longrightarrow> q_main s' c = q_main s c \<and> q_nmi s' c = q_nmi s c \<and> q_quiesced s' c = q_quiesced s c"
  using assms by (cases "q_nmi s d"; auto simp: leaving_def split: if_splits)+

lemma released_main:
  assumes r: "released h s" and st: "q_nmi s h = Idle" "main_step h (q_main s h) s = Some s'"
  shows "released h s'"
proof -
  have "q_nmi s' = q_nmi s" "\<And>d. d \<noteq> h \<Longrightarrow> q_main s' d = q_main s d \<and> q_quiesced s' d = q_quiesced s d"
    using st(2) by (cases "q_main s h"; auto split: if_splits)+
  then have l: "leaving s' d" if "d \<noteq> h" for d
    using r that by (auto simp: released_def leaving_def)
  show ?thesis
    using st r l by (cases "q_main s h") (auto simp: released_def num_cores_def split: if_splits)
qed

lemma released_nmi_self:
  assumes r: "released h s" and st: "nmi_step h (q_nmi s h) s = Some s'"
  shows "released h s'"
proof -
  have "\<And>d. d \<noteq> h \<Longrightarrow> q_main s' d = q_main s d \<and> q_nmi s' d = q_nmi s d \<and> q_quiesced s' d = q_quiesced s d"
    using st by (cases "q_nmi s h"; auto split: if_splits)+
  then have l: "leaving s' d" if "d \<noteq> h" for d
    using r that by (auto simp: released_def leaving_def)
  show ?thesis
    using st r l by (cases "q_nmi s h") (auto simp: released_def split: if_splits)
qed

lemma released_nmi_other:
  assumes r: "released h s" and "d \<noteq> h" and st: "nmi_step d (q_nmi s d) s = Some s'"
  shows "released h s'"
proof -
  have "leaving s d" "\<not> q_signal s C0" using r assms(2) by (simp_all add: released_def)
  note n = leaving_nmi[OF this st]
  have "leaving s' e" if "e \<noteq> h" for e
  proof (cases "e = d")
    case False
    then show ?thesis using n(5)[of e] r that by (auto simp: released_def leaving_def)
  qed (use n in simp)
  then show ?thesis using r n n(5)[of h] assms(2) by (auto simp: released_def)
qed

text \<open>The first release turns one into the other: at that point all other cores are parked.\<close>

lemma gathering_all_parked:
  assumes g: "gathering h s" and "6 \<le> stage (q_main s h)" "d \<noteq> h"
  shows "q_nmi s d = NSignal \<and> stage (q_main s d) = 0 \<and> q_quiesced s d"
proof -
  have gc: "gathering_core h s c" for c using g by (simp add: gathering_def)
  have "3 \<le> card (parked s)" using g assms(2) by (auto simp: gathering_def)
  moreover have sub: "parked s \<subseteq> UNIV - {h}" using gc[of h] by (auto simp: parked_def gathering_core_def)
  ultimately have "parked s = UNIV - {h}" using card_others[of h] by (intro card_seteq) simp_all
  then have "q_nmi s d = NSignal" using assms(3) by (auto simp: parked_def)
  with gc[of d] assms(3) show ?thesis by (simp add: gathering_core_def)
qed

lemma gathering_release:
  assumes g: "gathering h s" and "q_main s h = ESet 1" "main_step h (q_main s h) s = Some s'"
  shows "released h s'"
proof -
  have gc: "gathering_core h s c" for c using g by (simp add: gathering_def)
  have "leaving s' d" if "d \<noteq> h" for d
    using gathering_all_parked[OF g _ that] assms(2,3) that by (auto simp: leaving_def)
  then show ?thesis
    using assms(2,3) g gc[of h] gc[of C0] by (auto simp: released_def gathering_def gathering_core_def)
qed

lemma released_core:
  assumes r: "released h s" and st: "core_step c s = Some s'"
  shows "released h s'"
proof (cases "c = h")
  case True
  then show ?thesis
    using released_main[OF r] released_nmi_self[OF r] st by (auto simp: core_step_def split: if_splits)
next
  case False
  then have "leaving s c" using r by (simp add: released_def)
  then have "q_nmi s c \<noteq> Idle" using leaving_main[of s c s'] st by (auto simp: core_step_def)
  then show ?thesis using released_nmi_other[OF r False] st by (simp add: core_step_def)
qed

lemma deliver_simps [simp]:
  "q_main (deliver c s) = q_main s" "q_nmi (deliver c s) = (q_nmi s)(c := NEntry)" "q_lock_free (deliver c s) = q_lock_free s"
  "q_quiesce (deliver c s) = q_quiesce s" "q_counter (deliver c s) = q_counter s" "q_signal (deliver c s) = q_signal s"
  "q_quiesced (deliver c s) = q_quiesced s"
  by (simp_all add: deliver_def)

lemma leaving_outside:
  "leaving s d \<Longrightarrow> q_nmi s c = Idle \<Longrightarrow> leaving (deliver c s) d"
  "leaving s d \<Longrightarrow> q_main s c = Running \<Longrightarrow> leaving (set_main c QSpin s) d"
  "leaving (s\<lparr>q_pending := p\<rparr>) d \<longleftrightarrow> leaving s d"
  by (auto simp: leaving_def split: if_splits)

lemma released_outside:
  "released h s \<Longrightarrow> q_nmi s c = Idle \<Longrightarrow> released h (deliver c s)"
  "released h s \<Longrightarrow> q_main s c = Running \<Longrightarrow> released h (set_main c QSpin s)"
  "released h (s\<lparr>q_pending := p\<rparr>) \<longleftrightarrow> released h s"
proof -
  assume r: "released h s"
  show "released h (deliver c s)" if "q_nmi s c = Idle"
    using r that leaving_outside(1)[of s _ c] by (cases "c = h") (simp_all add: released_def)
  show "released h (set_main c QSpin s)" if "q_main s c = Running"
    using r that leaving_outside(2)[of s _ c] by (cases "c = h") (auto simp: released_def)
next
  show "released h (s\<lparr>q_pending := p\<rparr>) \<longleftrightarrow> released h s" by (simp add: released_def leaving_outside)
qed

lemma released_reach: "qreach s s' \<Longrightarrow> released h s \<Longrightarrow> released h s'"
proof (induction rule: qreach.induct)
  case (step s1 s2)
  from step.hyps(2) step.IH[OF step.prems] show ?case
    by cases (simp_all add: released_core released_outside)
next
  case (env s1 s2)
  from env.hyps(2) env.IH[OF env.prems] show ?case
    by cases (simp_all add: released_outside)
qed

definition q_inv :: "qst \<Rightarrow> bool" where
  "q_inv s \<longleftrightarrow> quiet s \<or> (\<exists>h. gathering h s) \<or> (\<exists>h. released h s)"

lemma q_inv_core:
  assumes "q_inv s" and st: "core_step c s = Some s'"
  shows "q_inv s'"
proof -
  have m: "main_step c (q_main s c) s = Some s'" if "q_nmi s c = Idle" using st that by (simp add: core_step_def)
  have n: "nmi_step c (q_nmi s c) s = Some s'" if "q_nmi s c \<noteq> Idle" using st that by (simp add: core_step_def)
  consider "quiet s" | h where "gathering h s" | h where "released h s" using assms(1) by (auto simp: q_inv_def)
  then show ?thesis
  proof cases
    case 1
    show ?thesis
      using quiet_main[OF 1 m] quiet_nmi[OF 1 _ n] by (cases "q_nmi s c = Idle") (auto simp: q_inv_def)
  next
    case (2 h)
    show ?thesis
    proof (cases "q_nmi s c = Idle")
      case True
      with gathering_main_other[OF 2 _ m[OF True]] have "c = h" by blast
      note m' = m[OF True, unfolded this]
      show ?thesis
        using gathering_main_self[OF 2 m'] gathering_release[OF 2 _ m'] unfolding q_inv_def by blast
    next
      case False
      then show ?thesis using gathering_nmi[OF 2 n[OF False]] by (auto simp: q_inv_def)
    qed
  next
    case (3 h)
    then show ?thesis using released_core[OF _ st] by (auto simp: q_inv_def)
  qed
qed

lemma q_inv_deliver:
  assumes "q_inv s" "q_nmi s c = Idle"
  shows "q_inv (deliver c s)"
proof -
  have "quiet s \<Longrightarrow> quiet (deliver c s)" by (auto simp: quiet_def quiet_core_def)
  moreover have "gathering h (deliver c s)" if g: "gathering h s" for h
  proof -
    have "parked (deliver c s) = parked s" using assms(2) by (auto simp: parked_def)
    then show ?thesis using g assms(2) by (auto simp: gathering_def gathering_core_def)
  qed
  ultimately show ?thesis using assms released_outside(1)[OF _ assms(2)] unfolding q_inv_def by blast
qed

lemma q_inv_request:
  assumes "q_inv s" "q_main s c = Running"
  shows "q_inv (set_main c QSpin s)"
proof -
  have "quiet s \<Longrightarrow> quiet (set_main c QSpin s)" by (auto simp: quiet_def quiet_core_def)
  moreover have "gathering h (set_main c QSpin s)" if g: "gathering h s" for h
  proof -
    have "c \<noteq> h" using g assms(2) by (auto simp: gathering_def)
    then show ?thesis using g by (auto simp: gathering_def gathering_core_def parked_def)
  qed
  ultimately show ?thesis using assms released_outside(2)[OF _ assms(2)] unfolding q_inv_def by blast
qed

lemma q_inv_pending: "q_inv (s\<lparr>q_pending := p\<rparr>) \<longleftrightarrow> q_inv s"
  by (simp add: q_inv_def quiet_def quiet_core_def gathering_def gathering_core_def parked_def released_def leaving_def)

lemma q_inv_reach: "qreach s0 s \<Longrightarrow> q_inv s0 \<Longrightarrow> q_inv s"
proof (induction rule: qreach.induct)
  case (step s s')
  from step.hyps(2) step.IH[OF step.prems] show ?case
    by cases (simp_all add: q_inv_core q_inv_deliver)
next
  case (env s s')
  from env.hyps(2) env.IH[OF env.prems] show ?case
    by cases (simp_all add: q_inv_request q_inv_pending)
qed

text \<open>
  C18: the application runs alone. In every state the four cores can reach, with stray interrupts and
  requests at any time, a core that is inside the application has all other cores parked in the
  interrupt handler, marked as quiesced and waiting for a signal that has not been given.
\<close>

theorem app_runs_alone:
  assumes "qreach q_init s" "q_main s c = App" "d \<noteq> c"
  shows "q_nmi s d = NSignal \<and> q_quiesced s d \<and> \<not> q_signal s d \<and> core_step d s = None"
proof -
  have "q_inv s" using q_inv_reach[OF assms(1)] quiet_init by (simp add: q_inv_def)
  moreover have "\<not> quiet s"
  proof
    assume "quiet s"
    then have "quiet_core s c" by (simp add: quiet_def)
    then show False using assms(2) by (simp add: quiet_core_def)
  qed
  moreover have False if r: "released h s" for h
    using r assms(2) by (cases "c = h") (auto simp: released_def leaving_def)
  ultimately obtain h where g: "gathering h s" by (auto simp: q_inv_def)
  have gc: "gathering_core h s x" for x using g by (simp add: gathering_def)
  have "c = h" using gc[of c] assms(2) by (auto simp: gathering_core_def)
  then show ?thesis
    using gathering_all_parked[OF g, of d] assms(2,3) gc[of d] by (auto simp: gathering_core_def core_step_def)
qed

theorem app_runs_alone_witness:
  "\<exists>s. run app_schedule (set_main C0 QSpin q_init) = Some s \<and> q_main s C0 = App \<and> q_nmi s C2 = NSignal \<and> core_step C2 s = None"
proof -
  obtain s where s: "run app_schedule (set_main C0 QSpin q_init) = Some s" "q_main s C0 = App" "qreach q_init s"
    using app_reachable by blast
  from app_runs_alone[OF s(3,2), of C2] s show ?thesis by auto
qed

text \<open>
  C21: there is one round only. Once a core has been released, the application is never called again:
  the released cores stay marked as quiesced and ignore later interrupts, so the counter of the next
  round never reaches the number of cores it waits for, and the core that asks spins.
\<close>

theorem no_second_round:
  assumes "qreach q_init s" "q_signal s C1" "qreach s s'"
  shows "q_main s' c \<noteq> App"
proof -
  have "q_inv s" using q_inv_reach[OF assms(1)] quiet_init by (simp add: q_inv_def)
  moreover have "\<not> quiet s"
  proof
    assume "quiet s"
    then have "quiet_core s C1" by (simp add: quiet_def)
    then show False using assms(2) by (simp add: quiet_core_def)
  qed
  moreover have False if g: "gathering h s" for h
  proof -
    have "gathering_core h s C1" using g by (simp add: gathering_def)
    then show False using assms(2) by (simp add: gathering_core_def)
  qed
  ultimately obtain h where "released h s" by (auto simp: q_inv_def)
  then have r: "released h s'" by (rule released_reach[OF assms(3)])
  show ?thesis using r by (cases "c = h") (auto simp: released_def leaving_def)
qed

theorem no_second_round_witness:
  "\<exists>s. run (app_schedule @ [Do C0, Do C0, Do C0]) (set_main C0 QSpin q_init) = Some s \<and> q_main s C0 \<noteq> App"
proof -
  obtain s where s: "run (app_schedule @ [Do C0, Do C0, Do C0]) (set_main C0 QSpin q_init) = Some s" "q_signal s C1" "qreach q_init s"
    using release_reachable by blast
  from no_second_round[OF s(3,2) qreach.start, of C0] s(1) show ?thesis by auto
qed

text \<open>
  The window at the end of \<^verbatim>\<open>endquiesce\<close>: core 0 clears its own mark before the flag of the round. An
  interrupt in between finds the flag set and the mark clear, so core 0 parks and waits for a signal
  that nobody gives, holding the lock.
\<close>

definition finish :: "lcore \<Rightarrow> move list" where
  "finish c = [Do C0, Do c, Do c, Do c, Do C0]"

definition race_schedule :: "move list" where
  "race_schedule = app_schedule @ [Do C0, Do C0] @ finish C1 @ finish C2 @ finish C3 @ finish C1 @ finish C2 @ finish C3 @ [Do C0, Do C0]"

definition race_window :: qst where
  "race_window = \<lparr>q_lock_free = False, q_quiesce = True, q_counter = 3, q_resume = 8, q_signal = (\<lambda>c. c \<noteq> C0),
    q_gdt = (\<lambda>c. c \<noteq> C0), q_quiesced = (\<lambda>c. c \<noteq> C0), q_pending = (\<lambda>c. False),
    q_main = (\<lambda>c. Running)(C0 := EFlag), q_nmi = (\<lambda>c. NRally)(C0 := Idle)\<rparr>"

lemma race_window_reached: "run race_schedule (set_main C0 QSpin q_init) = Some race_window"
proof -
  have f: "(f :: lcore \<Rightarrow> 'a) = g" if "f C0 = g C0" "f C1 = g C1" "f C2 = g C2" "f C3 = g C3" for f g
    by (rule ext) (metis that lcore.exhaust)
  show ?thesis
    by (simp add: race_schedule_def race_window_def app_schedule_def park_def finish_def numeral_eq_Suc run_eval f)
qed

definition stranded :: "qst \<Rightarrow> bool" where
  "stranded s \<longleftrightarrow> released C0 s \<and> q_nmi s C0 = NSignal \<and> \<not> q_lock_free s"

lemma stranded_core:
  assumes "stranded s" and st: "core_step c s = Some s'"
  shows "stranded s'"
proof -
  have r: "released C0 s" "q_nmi s C0 = NSignal" "\<not> q_lock_free s" using assms(1) by (simp_all add: stranded_def)
  have ns: "\<not> q_signal s C0" using r(1) by (simp add: released_def)
  have c: "c \<noteq> C0" using r ns st by (auto simp: core_step_def)
  then have l: "leaving s c" using r by (simp add: released_def)
  then have n: "nmi_step c (q_nmi s c) s = Some s'"
    using st leaving_main[of s c s'] by (auto simp: core_step_def split: if_splits)
  have "q_lock_free s' = q_lock_free s" using n by (cases "q_nmi s c") (auto split: if_splits)
  moreover have "q_nmi s' C0 = q_nmi s C0" using leaving_nmi(5)[OF l ns n, of C0] c by simp
  ultimately show ?thesis using released_core[OF r(1) st] r by (simp add: stranded_def)
qed

lemma stranded_reach: "qreach s s' \<Longrightarrow> stranded s \<Longrightarrow> stranded s'"
proof (induction rule: qreach.induct)
  case (step s1 s2)
  from step.hyps(2) step.IH[OF step.prems] show ?case
  proof cases
    case (nmi c)
    with step.IH[OF step.prems] show ?thesis by (auto simp: stranded_def released_outside)
  qed (rule stranded_core)
next
  case (env s1 s2)
  from env.hyps(2) env.IH[OF env.prems] show ?case
    by cases (auto simp: stranded_def released_outside)
qed

lemma stranded_reachable: "\<exists>s. qreach q_init s \<and> stranded s"
proof -
  have q: "qreach q_init (race_window\<lparr>q_pending := (q_pending race_window)(C0 := True)\<rparr>)" (is "qreach _ ?s")
    by (rule qreach.env[OF run_reach[OF race_window_reached requested] qenv.stray])
  have "\<exists>s. run (park C0) ?s = Some s \<and> stranded s"
    by (simp add: park_def race_window_def run_eval stranded_def released_def leaving_def)
  with run_reach[OF _ q] show ?thesis by blast
qed

text \<open>
  The race at the end of \<^verbatim>\<open>endquiesce\<close>. There is a run, with one stray interrupt, after which core 0
  holds the lock and waits in the interrupt handler, and whatever happens next it stays there.
\<close>

theorem endquiesce_race:
  "\<exists>s. qreach q_init s \<and> (\<forall>s'. qreach s s' \<longrightarrow> q_nmi s' C0 = NSignal \<and> \<not> q_lock_free s' \<and> core_step C0 s' = None)"
proof -
  obtain s where s: "qreach q_init s" "stranded s" using stranded_reachable by blast
  have "q_nmi s' C0 = NSignal \<and> \<not> q_lock_free s' \<and> core_step C0 s' = None" if "qreach s s'" for s'
    using stranded_reach[OF that s(2)] by (simp add: stranded_def released_def core_step_def)
  with s(1) show ?thesis by blast
qed

theorem endquiesce_race_witness: "\<exists>s. qreach q_init s \<and> q_nmi s C0 = NSignal \<and> \<not> q_lock_free s"
  using endquiesce_race qreach.start by blast

end
