(* ===== verification/XMHF_QuiesceRound.thy ===== *)
theory XMHF_QuiesceRound
  imports XMHF_Quiesce
begin

text \<open>
  The one round that takes place: when core 0 asks for it and no interrupt comes from elsewhere, it
  completes under every schedule. A measure decreases with each step, so every schedule comes to an
  end, and the only states without a step are those in which core 0 is back and the three other
  cores have left for user space.
\<close>

section \<open>Every step decreases a measure\<close>

fun main_weight :: "main_pc \<Rightarrow> nat" where
  "main_weight QSpin = 104" | "main_weight QMark = 103" | "main_weight QReset = 102" | "main_weight QFlag = 101"
| "main_weight QSend = 100" | "main_weight QWait = 22" | "main_weight App = 21" | "main_weight EStart = 20"
| "main_weight (ESet k) = 2 * (6 - k) + 6" | "main_weight (EWait k) = 2 * (6 - k) + 5"
| "main_weight EDone = 4" | "main_weight EClear = 3" | "main_weight EFlag = 2" | "main_weight EUnlock = 1"
| "main_weight Running = 0" | "main_weight User = 0"

fun nmi_weight :: "nmi_pc \<Rightarrow> nat" where
  "nmi_weight NEntry = 12" | "nmi_weight NCheck = 11" | "nmi_weight NCount = 10" | "nmi_weight NSignal = 9"
| "nmi_weight (NLoad ph) = (if ph = 1 then 8 else 5)" | "nmi_weight (NStore ph r) = (if ph = 1 then 7 else 4)"
| "nmi_weight NGdt = 6" | "nmi_weight NRally = 3" | "nmi_weight NResume = 2" | "nmi_weight NLeave = 1" | "nmi_weight Idle = 0"

definition weight :: "qst \<Rightarrow> lcore \<Rightarrow> nat" where
  "weight s c = main_weight (q_main s c) + nmi_weight (q_nmi s c) + (if q_pending s c then 13 else 0)"

definition total :: "qst \<Rightarrow> nat" where
  "total s = weight s C0 + weight s C1 + weight s C2 + weight s C3"

lemma all_lcore: "(\<forall>c. P c) \<longleftrightarrow> P C0 \<and> P C1 \<and> P C2 \<and> P C3"
  by (metis lcore.exhaust)

lemma ex_lcore: "(\<exists>c. P c) \<longleftrightarrow> P C0 \<or> P C1 \<or> P C2 \<or> P C3"
  by (metis lcore.exhaust)

lemma total_local:
  assumes "\<And>d. d \<noteq> c \<Longrightarrow> weight s' d = weight s d" "weight s' c < weight s c"
  shows "total s' < total s"
  using assms by (cases c) (simp_all add: total_def)

lemma send_total:
  assumes "main_step c QSend s = Some s'" "q_main s c = QSend"
  shows "total s' < total s"
proof -
  have b: "weight s' d \<le> weight s d + 13" if "d \<noteq> c" for d using assms that by (auto simp: weight_def)
  have "weight s' c + 78 = weight s c" using assms by (auto simp: weight_def)
  then show ?thesis using b[of C0] b[of C1] b[of C2] b[of C3] by (cases c) (simp_all add: total_def)
qed

lemma weight_main:
  assumes "main_step c (q_main s c) s = Some s'" "q_main s c \<noteq> QSend"
  shows "weight s' c < weight s c \<and> (\<forall>d. d \<noteq> c \<longrightarrow> weight s' d = weight s d)"
proof -
  have "q_pending s' = q_pending s" "q_nmi s' = q_nmi s" "\<And>d. d \<noteq> c \<Longrightarrow> q_main s' d = q_main s d"
    using assms by (cases "q_main s c"; auto split: if_splits)+
  moreover have "main_weight (q_main s' c) < main_weight (q_main s c)"
    using assms by (cases "q_main s c") (auto split: if_splits)
  ultimately show ?thesis by (simp add: weight_def)
qed

lemma weight_nmi:
  assumes "nmi_step c (q_nmi s c) s = Some s'"
  shows "weight s' c < weight s c \<and> (\<forall>d. d \<noteq> c \<longrightarrow> weight s' d = weight s d)"
proof -
  have "q_pending s' = q_pending s" "\<And>d. d \<noteq> c \<Longrightarrow> q_main s' d = q_main s d \<and> q_nmi s' d = q_nmi s d"
    "main_weight (q_main s' c) \<le> main_weight (q_main s c)"
    using assms by (cases "q_nmi s c"; auto split: if_splits)+
  moreover have "nmi_weight (q_nmi s' c) < nmi_weight (q_nmi s c)"
    using assms by (cases "q_nmi s c") (auto split: if_splits)
  ultimately show ?thesis by (simp add: weight_def)
qed

lemma step_total: "qstep s s' \<Longrightarrow> total s' < total s"
proof (induction rule: qstep.induct)
  case (core c s s')
  show ?case
  proof (cases "q_nmi s c = Idle")
    case True
    then have m: "main_step c (q_main s c) s = Some s'" using core by (simp add: core_step_def)
    then show ?thesis
      using send_total[of c s s'] weight_main[OF m] total_local[of c s' s] by (cases "q_main s c = QSend") auto
  next
    case False
    then have n: "nmi_step c (q_nmi s c) s = Some s'" using core by (simp add: core_step_def)
    then show ?thesis using weight_nmi[OF n] total_local[of c s' s] by auto
  qed
next
  case (nmi s c)
  show ?case by (rule total_local[of c]) (use nmi in \<open>auto simp: weight_def deliver_def\<close>)
qed

section \<open>The states of the round\<close>

text \<open>Core 0 gathers; every other core runs, is about to take the interrupt, or is on its way to park.\<close>

definition gather_core :: "qst \<Rightarrow> lcore \<Rightarrow> bool" where
  "gather_core s d \<longleftrightarrow> q_main s d = Running \<and> \<not> q_gdt s d \<and>
    (if stage (q_main s C0) < 5 then q_nmi s d = Idle \<and> \<not> q_pending s d \<and> \<not> q_quiesced s d
     else (q_pending s d \<longleftrightarrow> q_nmi s d = Idle) \<and> (q_quiesced s d \<longleftrightarrow> q_nmi s d \<in> {NCount, NSignal})
       \<and> q_nmi s d \<in> {Idle, NEntry, NCheck, NCount, NSignal})"

definition round_gather :: "qst \<Rightarrow> bool" where
  "round_gather s \<longleftrightarrow> gathering C0 s \<and> q_main s C0 \<noteq> ESet 1 \<and> q_nmi s C0 = Idle \<and> \<not> q_pending s C0 \<and> \<not> q_gdt s C0
    \<and> (\<forall>d. d \<noteq> C0 \<longrightarrow> gather_core s d)"

text \<open>
  Core 0 releases the others. Release \<open>k\<close> of six concerns the core of that number in its phase; \<open>a\<close>
  counts the five states between one release and the next.
\<close>

fun num :: "lcore \<Rightarrow> nat" where
  "num C0 = 0" | "num C1 = 1" | "num C2 = 2" | "num C3 = 3"

definition release_nmi :: "nat \<Rightarrow> nat \<Rightarrow> lcore \<Rightarrow> nmi_pc" where
  "release_nmi k a c =
    (let ph = if k \<le> 3 then 1 else 2; i = if k \<le> 3 then k else k - 3;
         before = if ph = 1 then NSignal else NGdt; after = if ph = 1 then NGdt else NRally
     in if c = C0 then Idle else if num c < i then after else if i < num c then before
        else if a \<le> 1 then before else if a = 2 then NLoad ph else if a = 3 then NStore ph (k - 1) else after)"

definition round_release :: "nat \<Rightarrow> nat \<Rightarrow> qst \<Rightarrow> bool" where
  "round_release k a s \<longleftrightarrow>
    (\<forall>c. q_main s c = (if c = C0 then if a = 0 then ESet k else EWait k else Running) \<and> q_nmi s c = release_nmi k a c
      \<and> (q_signal s c \<longleftrightarrow> num c \<noteq> 0 \<and> num c \<le> (if a = 0 then k - 1 else k))
      \<and> (q_gdt s c \<longleftrightarrow> num c \<noteq> 0 \<and> num c + 3 \<le> (if a = 0 then k - 1 else k)) \<and> \<not> q_pending s c)
    \<and> q_resume s = (if a = 4 then k else k - 1)"

text \<open>Core 0 finishes, and the others leave when they see the counter at 8.\<close>

definition round_tail :: "qst \<Rightarrow> bool" where
  "round_tail s \<longleftrightarrow> q_main s C0 \<in> {EDone, EClear, EFlag, EUnlock, Running} \<and> q_nmi s C0 = Idle \<and> \<not> q_pending s C0
    \<and> (q_main s C0 \<noteq> EDone \<longrightarrow> q_resume s = 8)
    \<and> (\<forall>d. d \<noteq> C0 \<longrightarrow> \<not> q_pending s d \<and>
         (q_main s d = Running \<and> q_nmi s d = NRally
          \<or> q_main s d = User \<and> q_nmi s d = Idle \<and> q_main s C0 \<noteq> EDone))
    \<and> (q_main s C0 = EDone \<longrightarrow> q_resume s = 6)"

definition round_over :: "qst \<Rightarrow> bool" where
  "round_over s \<longleftrightarrow> q_main s C0 = Running \<and> q_nmi s C0 = Idle \<and> (\<forall>d. d \<noteq> C0 \<longrightarrow> q_main s d = User \<and> q_nmi s d = Idle)"

lemma stuck_core: "(\<And>s'. \<not> qstep s s') \<Longrightarrow> core_step c s = None"
  by (cases "core_step c s") (auto dest: qstep.core)

lemma tail_step:
  assumes t: "round_tail s" and st: "qstep s s'"
  shows "round_tail s'"
  using st
proof cases
  case (core c)
  have d: "\<not> q_pending s d \<and> (q_main s d = Running \<and> q_nmi s d = NRally
      \<or> q_main s d = User \<and> q_nmi s d = Idle \<and> q_main s C0 \<noteq> EDone)" if "d \<noteq> C0" for d
    using t that by (simp add: round_tail_def)
  have m: "q_main s C0 \<in> {EDone, EClear, EFlag, EUnlock, Running}" "q_nmi s C0 = Idle" "\<not> q_pending s C0"
    "q_main s C0 \<noteq> EDone \<longrightarrow> q_resume s = 8" "q_main s C0 = EDone \<longrightarrow> q_resume s = 6"
    using t by (simp_all add: round_tail_def)
  show ?thesis
  proof (cases "c = C0")
    case True
    have s': "main_step C0 (q_main s C0) s = Some s'" using core True m by (simp add: core_step_def)
    have f: "q_nmi s' = q_nmi s" "q_pending s' = q_pending s" "\<And>d. d \<noteq> C0 \<Longrightarrow> q_main s' d = q_main s d"
      "q_main s' C0 \<in> {EClear, EFlag, EUnlock, Running}" "q_resume s' = 8"
      using s' m(1,4) by (cases "q_main s C0"; auto)+
    have "\<not> q_pending s' e \<and> (q_main s' e = Running \<and> q_nmi s' e = NRally
      \<or> q_main s' e = User \<and> q_nmi s' e = Idle \<and> q_main s' C0 \<noteq> EDone)" if "e \<noteq> C0" for e
      using d[OF that] f(1,2,4) f(3)[OF that] by auto
    then show ?thesis using f m by (auto simp: round_tail_def)
  next
    case False
    have n: "q_nmi s c = NRally" using d[OF False] core by (auto simp: core_step_def)
    then have "\<not> q_resume s < 8" "s' = set_nmi c Idle (set_main c User s)"
      using core by (simp_all add: core_step_def split: if_splits)
    moreover from this m have "q_main s C0 \<noteq> EDone" by auto
    ultimately show ?thesis using t False by (simp add: round_tail_def)
  qed
next
  case (nmi c)
  then show ?thesis using t by (cases "c = C0") (simp_all add: round_tail_def)
qed

lemma tail_stuck:
  assumes t: "round_tail s" and st: "\<And>s'. \<not> qstep s s'"
  shows "round_over s"
proof -
  note n = stuck_core[OF st]
  have r: "q_main s C0 = Running" using n[of C0] t by (auto simp: round_tail_def core_step_def)
  have "q_main s d = User \<and> q_nmi s d = Idle" if "d \<noteq> C0" for d
    using n[of d] t r that by (auto simp: round_tail_def core_step_def)
  with r t show ?thesis by (simp add: round_over_def round_tail_def)
qed

text \<open>While core 0 releases the others, one core at a time has a step.\<close>

definition next_core :: "nat \<Rightarrow> nat \<Rightarrow> lcore" where
  "next_core k a = (if a = 0 \<or> a = 4 then C0 else if k \<in> {1, 4} then C1 else if k \<in> {2, 5} then C2 else C3)"

definition after_release :: "nat \<Rightarrow> nat \<Rightarrow> qst \<Rightarrow> bool" where
  "after_release k a s = (if a < 4 then round_release k (a + 1) s else if k < 6 then round_release (k + 1) 0 s else round_tail s)"

lemma round_releaseD:
  assumes "round_release k a s"
  shows "q_main s c = (if c = C0 then if a = 0 then ESet k else EWait k else Running)" "q_nmi s c = release_nmi k a c"
    "q_signal s c \<longleftrightarrow> num c \<noteq> 0 \<and> num c \<le> (if a = 0 then k - 1 else k)"
    "q_gdt s c \<longleftrightarrow> num c \<noteq> 0 \<and> num c + 3 \<le> (if a = 0 then k - 1 else k)" "\<not> q_pending s c"
    "q_resume s = (if a = 4 then k else k - 1)"
  using assms by (simp_all add: round_release_def)

lemma release_only:
  assumes r: "round_release k a s" and k: "k \<in> {1, 2, 3, 4, 5, 6}" "a \<in> {0, 1, 2, 3, 4}" and c: "c \<noteq> next_core k a"
  shows "core_step c s = None"
proof -
  note f = round_releaseD(1-5)[OF r, of c] round_releaseD(6)[OF r]
  from k c f(3,4,6) show ?thesis
    unfolding core_step_def f(1,2)
    by (cases c) (elim insertE emptyE; simp add: release_nmi_def next_core_def)+
qed

lemma release_next:
  assumes r: "round_release k a s" and k: "k \<in> {1, 2, 3, 4, 5, 6}" "a \<in> {0, 1, 2, 3, 4}"
  shows "\<exists>s'. core_step (next_core k a) s = Some s' \<and> after_release k a s'"
proof -
  note f = round_releaseD[OF r]
  from k f(6) show ?thesis
    unfolding core_step_def f(1,2)
    by (elim insertE emptyE; simp add: release_nmi_def next_core_def round_release_def f
      after_release_def round_tail_def release_def all_lcore)
qed

lemma release_step:
  assumes r: "round_release k a s" and k: "k \<in> {1, 2, 3, 4, 5, 6}" "a \<in> {0, 1, 2, 3, 4}" and st: "qstep s s'"
  shows "after_release k a s'"
  using st
proof cases
  case (core c)
  then have "c = next_core k a" using release_only[OF r k, of c] by auto
  with core release_next[OF r k] show ?thesis by auto
next
  case (nmi c)
  then show ?thesis using round_releaseD(5)[OF r, of c] by simp
qed

text \<open>While core 0 gathers the others, somebody has a step, and the last step starts the release.\<close>

lemma gather_coreD: "round_gather s \<Longrightarrow> d \<noteq> C0 \<Longrightarrow> gather_core s d"
  by (simp add: round_gather_def)

lemma gather_main:
  assumes r: "round_gather s" and st: "main_step C0 (q_main s C0) s = Some s'"
  shows "round_gather s' \<or> round_release 1 0 s'"
proof -
  have g: "gathering C0 s" and ne: "q_main s C0 \<noteq> ESet 1" using r by (simp_all add: round_gather_def)
  have g': "gathering C0 s'" by (rule gathering_main_self[OF g st ne])
  have n: "q_nmi s' = q_nmi s" "q_gdt s' = q_gdt s" "d \<noteq> C0 \<Longrightarrow> q_main s' d = q_main s d" for d
    using st g ne by (cases "q_main s C0"; auto simp: gathering_def split: if_splits)+
  show ?thesis
  proof (cases "q_main s C0 = EStart")
    case True
    then have "s' = set_main C0 (ESet 1) (s\<lparr>q_resume := 0\<rparr>)" using st by simp
    moreover have "gather_core s d \<and> gathering_core C0 s d \<and> q_nmi s d = NSignal" if "d \<noteq> C0" for d
      using gathering_all_parked[OF g, of d] gather_coreD[OF r that] g True that by (simp add: gathering_def)
    moreover have "\<not> q_gdt s C0 \<and> gathering_core C0 s C0" using r g by (simp add: round_gather_def gathering_def)
    ultimately have "round_release 1 0 s'"
      using r True by (auto simp: round_release_def release_nmi_def all_lcore round_gather_def gather_core_def gathering_core_def)
    then show ?thesis ..
  next
    case False
    have "gather_core s' d" if "d \<noteq> C0" for d
      using gather_coreD[OF r that] st ne False n(1,2) n(3)[OF that] g
      by (cases "q_main s C0") (auto simp: gather_core_def gathering_def split: if_splits)
    moreover have "q_main s' C0 \<noteq> ESet 1" "\<not> q_pending s' C0"
      using st ne False r g by (cases "q_main s C0"; auto simp: round_gather_def gathering_def split: if_splits)+
    ultimately have "round_gather s'" using g' n r by (simp add: round_gather_def)
    then show ?thesis ..
  qed
qed

lemma gather_nmi:
  assumes r: "round_gather s" and c: "c \<noteq> C0" and st: "core_step c s = Some s'"
  shows "round_gather s'"
proof -
  have g: "gathering C0 s" using r by (simp add: round_gather_def)
  note gc = gather_coreD[OF r c, unfolded gather_core_def]
  have i: "q_nmi s c \<noteq> Idle" using gc st by (auto simp: core_step_def)
  then have n: "nmi_step c (q_nmi s c) s = Some s'" using st by (simp add: core_step_def)
  note g' = gathering_nmi[OF g n]
  have x: "5 \<le> stage (q_main s C0)" "q_nmi s c \<in> {NEntry, NCheck, NCount}" "q_quiesce s" "\<not> q_pending s c"
    using gc i n g by (auto simp: gathering_def gathering_core_def split: if_splits)
  have "q_main s' = q_main s" "q_gdt s' = q_gdt s" "q_pending s' = q_pending s"
    and o: "\<And>d. d \<noteq> c \<Longrightarrow> q_nmi s' d = q_nmi s d \<and> q_quiesced s' d = q_quiesced s d"
    using n x by (cases "q_nmi s c"; auto split: if_splits)+
  note f = this
  have "gather_core s' d" if "d \<noteq> C0" for d
  proof (cases "d = c")
    case True
    have "q_nmi s' c \<in> {NCheck, NCount, NSignal}" "q_quiesced s' c \<longleftrightarrow> q_nmi s' c \<in> {NCount, NSignal}"
      using n x gc by (cases "q_nmi s c"; auto split: if_splits)+
    with True x gc f(1-3) show ?thesis by (auto simp: gather_core_def)
  next
    case False
    show ?thesis using gather_coreD[OF r that] o[OF False] f(1-3) by (simp add: gather_core_def split: if_splits)
  qed
  then show ?thesis using r g' f(1-3) o[of C0] c by (simp add: round_gather_def)
qed

lemma gather_step:
  assumes r: "round_gather s" and st: "qstep s s'"
  shows "round_gather s' \<or> round_release 1 0 s'"
  using st
proof cases
  case (core c)
  have "q_nmi s C0 = Idle" using r by (simp add: round_gather_def)
  then show ?thesis
    using gather_main[OF r] gather_nmi[OF r] core by (cases "c = C0") (auto simp: core_step_def)
next
  case (nmi c)
  have c: "c \<noteq> C0" using nmi r by (auto simp: round_gather_def)
  have g: "gathering C0 s" using r by (simp add: round_gather_def)
  have "parked s' = parked s" using nmi by (auto simp: parked_def)
  then have "gathering C0 s'" using g nmi c by (auto simp: gathering_def gathering_core_def)
  moreover have "gather_core s' d" if "d \<noteq> C0" for d
    using gather_coreD[OF r that] gather_coreD[OF r c] nmi
    by (cases "d = c") (auto simp: gather_core_def deliver_def split: if_splits)
  ultimately have "round_gather s'" using r nmi c by (simp add: round_gather_def deliver_def)
  then show ?thesis ..
qed

lemma main_moves: "q_nmi s c = Idle \<Longrightarrow> main_step c (q_main s c) s = Some s' \<Longrightarrow> \<exists>s'. qstep s s'"
  by (rule exI, rule qstep.core[of c]) (simp add: core_step_def)

lemma gather_moves:
  assumes r: "round_gather s"
  shows "\<exists>s'. qstep s s'"
proof (cases "\<forall>d. d \<noteq> C0 \<longrightarrow> q_nmi s d = NSignal")
  case True
  have g: "gathering C0 s" using r by (simp add: round_gather_def)
  have "parked s \<supseteq> UNIV - {C0}" using True by (auto simp: parked_def)
  from card_mono[OF _ this] card_others[of C0] have "3 \<le> card (parked s)" by simp
  then have "\<exists>s'. main_step C0 (q_main s C0) s = Some s'"
    using g r by (cases "q_main s C0") (auto simp: gathering_def round_gather_def num_cores_def)
  then show ?thesis using r main_moves[of s C0] by (auto simp: round_gather_def)
next
  case False
  then obtain d where d: "d \<noteq> C0" "q_nmi s d \<noteq> NSignal" by auto
  have g: "gathering C0 s" "q_nmi s C0 = Idle" using r by (simp_all add: round_gather_def)
  note gc = gather_coreD[OF r d(1), unfolded gather_core_def]
  show ?thesis
  proof (cases "stage (q_main s C0) < 5")
    case True
    then have "\<exists>s'. main_step C0 (q_main s C0) s = Some s'"
      using g by (cases "q_main s C0") (auto simp: gathering_def)
    then show ?thesis using g main_moves[of s C0] by auto
  next
    case False
    then consider "q_pending s d" "q_nmi s d = Idle" | "q_nmi s d \<in> {NEntry, NCheck, NCount}" using gc d(2) by auto
    then show ?thesis
    proof cases
      case 1
      then show ?thesis by (blast intro: qstep.nmi)
    next
      case 2
      then have "\<exists>s'. core_step d s = Some s'" by (auto simp: core_step_def)
      then show ?thesis by (blast intro: qstep.core)
    qed
  qed
qed

section \<open>The round completes\<close>

definition in_round :: "qst \<Rightarrow> bool" where
  "in_round s \<longleftrightarrow> s = set_main C0 QSpin q_init \<or> round_gather s
    \<or> (\<exists>k\<in>{1, 2, 3, 4, 5, 6}. \<exists>a\<in>{0, 1, 2, 3, 4}. round_release k a s) \<or> round_tail s"

lemma start_step:
  assumes "qstep (set_main C0 QSpin q_init) s'"
  shows "round_gather s'"
  using assms
proof cases
  case (core c)
  then have "c = C0 \<and> s' = set_main C0 QMark (set_main C0 QSpin q_init\<lparr>q_lock_free := False\<rparr>)"
    by (auto simp: core_step_def q_init_def split: if_splits)
  then show ?thesis
    by (auto simp: round_gather_def gathering_def gathering_core_def gather_core_def q_init_def parked_def)
qed (simp add: q_init_def)

lemma in_round_step:
  assumes "in_round s" and st: "qstep s s'"
  shows "in_round s'"
proof -
  have "in_round s'" if "round_release k a s" "k \<in> {1, 2, 3, 4, 5, 6}" "a \<in> {0, 1, 2, 3, 4}" for k a
  proof -
    have "k \<in> {1, 2, 3, 4, 5, 6} \<and> a + 1 \<in> {0, 1, 2, 3, 4}" if "a < 4" using that \<open>k \<in> _\<close> by auto
    moreover have "k + 1 \<in> {1, 2, 3, 4, 5, 6}" if "k < 6" using that \<open>k \<in> _\<close> by auto
    ultimately show ?thesis
      using release_step[OF that st] unfolding after_release_def in_round_def by (auto split: if_splits simp del: insert_iff)
  qed
  then show ?thesis
    using assms start_step[of s'] gather_step[OF _ st] tail_step[OF _ st] unfolding in_round_def by blast
qed

lemma in_round_stuck:
  assumes i: "in_round s" and st: "\<And>s'. \<not> qstep s s'"
  shows "round_over s"
proof -
  have "s \<noteq> set_main C0 QSpin q_init" using stuck_core[OF st, of C0] by (auto simp: core_step_def q_init_def)
  moreover have "\<not> round_gather s" using gather_moves st by blast
  moreover have False if "round_release k a s" "k \<in> {1, 2, 3, 4, 5, 6}" "a \<in> {0, 1, 2, 3, 4}" for k a
    using release_next[OF that] stuck_core[OF st] by auto
  ultimately have "round_tail s" using i unfolding in_round_def by blast
  then show ?thesis by (rule tail_stuck[OF _ st])
qed

lemma round_starts: "in_round (set_main C0 QSpin q_init)"
  by (simp add: in_round_def)

lemma in_round_reach: "qstep\<^sup>*\<^sup>* s0 s \<Longrightarrow> in_round s0 \<Longrightarrow> in_round s"
  by (induction rule: rtranclp_induct) (auto intro: in_round_step)

lemma no_endless_run: "\<nexists>f. \<forall>i :: nat. qstep (f i) (f (Suc i))"
proof
  assume "\<exists>f. \<forall>i :: nat. qstep (f i) (f (Suc i))"
  then obtain f where f: "\<And>i :: nat. qstep (f i) (f (Suc i))" by blast
  have "total (f i) + i \<le> total (f 0)" for i
  proof (induction i)
    case (Suc i)
    then show ?case using step_total[OF f[of i]] by simp
  qed simp
  from this[of "Suc (total (f 0))"] show False by simp
qed

lemma every_run_ends: "\<exists>s'. qstep\<^sup>*\<^sup>* s s' \<and> (\<nexists>s''. qstep s' s'')"
proof (induction "total s" arbitrary: s rule: less_induct)
  case less
  show ?case
  proof (cases "\<exists>s''. qstep s s''")
    case True
    then obtain s1 where s1: "qstep s s1" by blast
    from less[OF step_total[OF s1]] s1 show ?thesis by (meson converse_rtranclp_into_rtranclp)
  qed blast
qed

text \<open>
  C20: the round that core 0 asks for completes. Under every schedule of the four cores, in which no
  other interrupt or request comes in between, there are finitely many steps, and a schedule ends only
  when core 0 has left \<^verbatim>\<open>endquiesce\<close> and the three other cores have left for user space: nobody is left
  spinning.
\<close>

theorem round_completes:
  "(\<nexists>f. f 0 = set_main C0 QSpin q_init \<and> (\<forall>i :: nat. qstep (f i) (f (Suc i))))
    \<and> (\<forall>s. qstep\<^sup>*\<^sup>* (set_main C0 QSpin q_init) s \<longrightarrow> (\<nexists>s'. qstep s s') \<longrightarrow> round_over s)"
  using no_endless_run in_round_stuck in_round_reach[OF _ round_starts] by blast

theorem round_completes_witness:
  "\<exists>s. qstep\<^sup>*\<^sup>* (set_main C0 QSpin q_init) s \<and> q_main s C0 = Running \<and> q_main s C1 = User"
proof -
  obtain s where "qstep\<^sup>*\<^sup>* (set_main C0 QSpin q_init) s" "\<nexists>s'. qstep s s'" using every_run_ends by blast
  moreover from this have "round_over s" using round_completes by blast
  ultimately show ?thesis by (auto simp: round_over_def)
qed

end
