(* ===== verification/XMHF_AppProps.thy ===== *)
theory XMHF_AppProps
  imports XMHF_QuiesceApp
begin

text \<open>
  What the hypercall of the quiesce application does to the address space of the hypervisor. The page tables of the
  runtime map 4 GB by 2 MB pages; for each page of the list \<^verbatim>\<open>update_hypervisor_pt\<close> either replaces a 2 MB page, or puts a
  page table from its pool in place of it. The specification is a view of the 2048 directory entries, each a big page or
  a table, on which a page of the list is one functional update.
\<close>

section \<open>The walk of the processor through the tables of the runtime\<close>

definition host_pdpt :: "app_env \<Rightarrow> RPB \<Rightarrow> u32" where
  "host_pdpt E b = spa2hva1 b (ucast (pae_get_addr_from_32bit_cr3 (read_cr3 E)))"

definition pde_index :: "u32 \<Rightarrow> nat" where
  "pde_index va = unat (drop_bit 21 va)"

definition pte_index :: "u32 \<Rightarrow> nat" where
  "pte_index va = unat (take_bit 9 (drop_bit 12 va))"

text \<open>The address, and whether user code may read and write it.\<close>

definition leaf :: "bool \<Rightarrow> u64 \<Rightarrow> u64 \<Rightarrow> u64 \<Rightarrow> (u64 \<times> bool) option" where
  "leaf user e a off = (if bit e 0 then Some (a OR off, user \<and> bit e 1 \<and> bit e 2) else None)"

definition host_walk :: "app_env \<Rightarrow> RPB \<Rightarrow> memory \<Rightarrow> u32 \<Rightarrow> (u64 \<times> bool) option" where
  "host_walk E b m va =
    (let e3 = ld64 m (elem64 (host_pdpt E b) (unat (drop_bit 30 va)));
         e2 = ld64 m (elem64 (spa2hva1 b (walk_addr e3)) (unat (take_bit 9 (drop_bit 21 va))))
     in if \<not> bit e3 0 then None
        else if bit e2 7 then leaf True e2 (walk_addr e2 AND NOT 0x1FF000) (ucast (take_bit 21 va))
        else if \<not> bit e2 0 then None
        else let e1 = ld64 m (elem64 (spa2hva1 b (walk_addr e2)) (pte_index va))
             in leaf (bit e2 1 \<and> bit e2 2) e1 (walk_addr e1) (ucast (take_bit 12 va)))"

section \<open>The view of the directory\<close>

datatype slot = Big u64 | Table nat "nat \<Rightarrow> u64"

fun view_step :: "u32 \<times> u32 \<times> u32 \<Rightarrow> (nat \<Rightarrow> slot) \<times> nat \<Rightarrow> (nat \<Rightarrow> slot) \<times> nat" where
  "view_step (va, pa, huge) (V, n) =
    (let i = pde_index va; k = pte_index va; e = ucast pa OR user_flags in
     if huge = 0 then
       case V i of Big _ \<Rightarrow> (V(i := Table n ((\<lambda>_. 0)(k := e))), Suc n) | Table j t \<Rightarrow> (V(i := Table j (t(k := e))), n)
     else if huge = 1 then
       case V i of Big _ \<Rightarrow> (V(i := Big (ucast pa OR (user_flags OR PAGE_PSE))), n) | Table j t \<Rightarrow> (V, n)
     else (V, n))"

definition view_walk :: "(nat \<Rightarrow> slot) \<Rightarrow> u32 \<Rightarrow> (u64 \<times> bool) option" where
  "view_walk V va =
    (case V (pde_index va) of
       Big e \<Rightarrow> leaf True e (walk_addr e AND NOT 0x1FF000) (ucast (take_bit 21 va))
     | Table j t \<Rightarrow> leaf True (t (pte_index va)) (walk_addr (t (pte_index va))) (ucast (take_bit 12 va)))"

section \<open>The memory of the application\<close>

text \<open>
  The pointer table at \<open>p\<close>, the four directories at \<open>d\<close> one after the other, the pool of \<open>n\<close> pages at \<open>base\<close>, the page list
  at address 0 and the nodes of the list of pages are apart.
\<close>

definition app_layout :: "app_env \<Rightarrow> RPB \<Rightarrow> u32 \<Rightarrow> u32 \<Rightarrow> nat \<Rightarrow> u32 set \<Rightarrow> bool" where
  "app_layout E b d base n N \<longleftrightarrow>
    spa_aligned b d \<and> spa_aligned b base \<and> n \<le> 256
    \<and> span 0 16 \<inter> span (host_pdpt E b) 32 = {} \<and> span 0 16 \<inter> span d (8 * 2048) = {} \<and> span 0 16 \<inter> span base (8 * (512 * n)) = {}
    \<and> span (host_pdpt E b) 32 \<inter> span d (8 * 2048) = {} \<and> span (host_pdpt E b) 32 \<inter> span base (8 * (512 * n)) = {}
    \<and> span d (8 * 2048) \<inter> span base (8 * (512 * n)) = {}
    \<and> N \<inter> span 0 16 = {} \<and> N \<inter> span d (8 * 2048) = {} \<and> N \<inter> span base (8 * (512 * n)) = {}"

definition pool_page :: "u32 \<Rightarrow> nat \<Rightarrow> u32" where
  "pool_page base j = base + of_nat j * PAGE_SIZE_4K"

fun slot_at :: "RPB \<Rightarrow> u32 \<Rightarrow> u32 \<Rightarrow> nat \<Rightarrow> memory \<Rightarrow> nat \<Rightarrow> slot \<Rightarrow> bool" where
  "slot_at b d base used m i (Big e) \<longleftrightarrow> ld64 m (elem64 d i) = e \<and> (bit e 7 \<or> \<not> bit e 0)"
| "slot_at b d base used m i (Table j t) \<longleftrightarrow> j < used \<and> ld64 m (elem64 d i) = hva2spa1 b (pool_page base j) OR user_flags
     \<and> (\<forall>k<512. ld64 m (elem64 base (512 * j + k)) = t k)"

definition app_view :: "app_env \<Rightarrow> RPB \<Rightarrow> u32 \<Rightarrow> u32 \<Rightarrow> nat \<Rightarrow> (nat \<Rightarrow> slot) \<times> nat \<Rightarrow> memory \<Rightarrow> bool" where
  "app_view E b d base n = (\<lambda>(V, used) m.
    ld32 m 4 = base \<and> ld32 m 8 = of_nat n \<and> ld32 m 12 = of_nat used \<and> used \<le> n
    \<and> (\<forall>k<4. ld64 m (elem64 (host_pdpt E b) k) = hva2spa1 b (d + PAGE_SIZE_4K * of_nat k) OR PAGE_PRESENT)
    \<and> (\<forall>i<2048. slot_at b d base used m i (V i))
    \<and> (\<forall>i<2048. \<forall>i'<2048. \<forall>j t t'. V i = Table j t \<longrightarrow> V i' = Table j t' \<longrightarrow> i = i'))"

section \<open>Entries and addresses\<close>

lemma pde_index_less: "pde_index va < 2048"
proof -
  have "drop_bit 21 va < 2048" by (simp add: drop_bit_eq_div word_less_nat_alt unat_div) (use unsigned_less[of va, where 'a=nat] in simp)
  then show ?thesis by (simp add: pde_index_def word_less_nat_alt)
qed

lemma pte_index_less: "pte_index va < 512"
  using take_bit_nat_less_exp[of 9 "unat (drop_bit 12 va)"] by (simp add: pte_index_def unsigned_take_bit_eq)

lemma pae_indices:
  "unat (pae_get_pdpt_index va) = unat (drop_bit 30 va)" "unat (drop_bit 30 va) < 4"
  "unat (pae_get_pdt_index va) = unat (take_bit 9 (drop_bit 21 va))" "unat (pae_get_pt_index va) = pte_index va"
  "512 * unat (drop_bit 30 va) + unat (take_bit 9 (drop_bit 21 va)) = pde_index va"
proof -
  show "unat (pae_get_pdpt_index va) = unat (drop_bit 30 va)"
    unfolding pae_get_pdpt_index_def by (rule arg_cong[where f = unat], rule u32_bitsI) (auto simp: bit_simps u32_high_bit)
  show "unat (pae_get_pdt_index va) = unat (take_bit 9 (drop_bit 21 va))"
    unfolding pae_get_pdt_index_def by (rule arg_cong[where f = unat], rule u32_bitsI) (auto simp: bit_simps u32_high_bit)
  show "unat (pae_get_pt_index va) = pte_index va"
    unfolding pae_get_pt_index_def pte_index_def by (rule arg_cong[where f = unat], rule u32_bitsI) (auto simp: bit_simps u32_high_bit)
  show "unat (drop_bit 30 va) < 4"
    using unsigned_less[of va, where 'a=nat] by (simp add: unat_drop_bit_eq drop_bit_eq_div unat_div)
  show "512 * unat (drop_bit 30 va) + unat (take_bit 9 (drop_bit 21 va)) = pde_index va"
    using div_mult2_eq[of "unat va" "2 ^ 21" 512] mult_div_mod_eq[of 512 "unat va div 2 ^ 21"]
    by (simp add: pde_index_def drop_bit_eq_div take_bit_eq_mod unat_div unat_mod)
qed

lemma spa_entry:
  assumes "spa_aligned b t"
  shows "walk_addr (hva2spa1 b t OR user_flags) = hva2spa1 b t" "walk_addr (hva2spa1 b t OR PAGE_PRESENT) = hva2spa1 b t"
    "spa2hva1 b (ucast (npae_get_addr_from_pde (ucast (hva2spa1 b t OR user_flags)))) = t"
    "spa2hva1 b (ucast (ucast (pae_get_addr_from_pdpe (ucast (ucast (hva2spa1 b t OR PAGE_PRESENT) :: u32))) :: u32)) = t"
proof -
  note low = aligned_low_bits[OF assms[unfolded spa_aligned_def]]
  show "walk_addr (hva2spa1 b t OR user_flags) = hva2spa1 b t" "walk_addr (hva2spa1 b t OR PAGE_PRESENT) = hva2spa1 b t"
    by (rule u64_bitsI, use low in \<open>simp add: hva2spa1_def walk_addr_def user_flags_def xconst bit_simps u32_high_bit\<close>)+
  let ?p = "t + XtVmmRuntimePhysBase b - XtVmmRuntimeVirtBase b"
  have "npae_get_addr_from_pde (ucast (hva2spa1 b t OR user_flags)) = ?p"
    by (rule u32_bitsI) (use low in \<open>auto simp: hva2spa1_def npae_get_addr_from_pde_def user_flags_def xconst bit_simps u32_high_bit\<close>)
  then show "spa2hva1 b (ucast (npae_get_addr_from_pde (ucast (hva2spa1 b t OR user_flags)))) = t" by (simp add: spa2hva1_def)
  have "(ucast (pae_get_addr_from_pdpe (ucast (ucast (hva2spa1 b t OR PAGE_PRESENT) :: u32))) :: u32) = ?p"
    by (rule u32_bitsI) (use low in \<open>auto simp: hva2spa1_def pae_get_addr_from_pdpe_def xconst bit_simps u32_high_bit\<close>)
  then show "spa2hva1 b (ucast (ucast (pae_get_addr_from_pdpe (ucast (ucast (hva2spa1 b t OR PAGE_PRESENT) :: u32))) :: u32)) = t"
    by (simp add: spa2hva1_def)
qed

lemma pool_entry: "elem64 (pool_page base j) k = elem64 base (512 * j + k)"
  using elem64_subtable[of base j k] by (simp add: pool_page_def mult.commute)

lemma pool_page_sub:
  assumes "j < n" "n \<le> 256"
  shows "span (pool_page base j) 4096 \<subseteq> span base (8 * (512 * n))"
proof
  fix x assume "x \<in> span (pool_page base j) 4096"
  moreover have "unat (of_nat j * PAGE_SIZE_4K :: u32) = 4096 * j"
    using assms unat_of_nat_small[of "j * 4096", where 'a=32] by (simp add: xconst)
  ultimately show "x \<in> span base (8 * (512 * n))"
    using assms unfolding pool_page_def by (intro span_shift[of "of_nat j * PAGE_SIZE_4K" 4096 "8 * (512 * n)" x base]) simp_all
qed

lemma pool_pages_apart:
  assumes "j < 256" "j' < 256" "j \<noteq> j'"
  shows "span (pool_page base j) 4096 \<inter> span (pool_page base j') 4096 = {}"
proof -
  have le: "4096 \<le> unat (pool_page base c - pool_page base a) \<and> 4096 \<le> unat (pool_page base a - pool_page base c)"
    if "a < c" "c < 256" for a c
  proof -
    have d: "pool_page base c - pool_page base a = of_nat (4096 * (c - a))"
      using that by (simp add: pool_page_def xconst of_nat_diff algebra_simps)
    have u: "unat (of_nat (4096 * (c - a)) :: u32) = 4096 * (c - a)" using that by (intro unat_of_nat_small) simp
    have "unat (pool_page base a - pool_page base c) = 2 ^ 32 - 4096 * (c - a)"
      using u that unat_sub_if_size[of 0 "pool_page base c - pool_page base a"] unfolding d[symmetric] by (simp add: word_size)
    moreover have "1 \<le> c - a" "c - a < 256" using that by auto
    ultimately show ?thesis using u unfolding d by (simp del: of_nat_mult)
  qed
  show ?thesis using le[of j j'] le[of j' j] assms by (cases "j < j'") (auto intro!: span_disjointI)
qed

lemma memset_inside: "n < 2 ^ 32 \<Longrightarrow> x \<in> span str n \<Longrightarrow> memset n str c m x = c"
proof (induction n arbitrary: str m)
  case (Suc n)
  show ?case
  proof (cases "x \<in> span (str + 1) n")
    case False
    then have "x = str" using Suc.prems span_Suc[of n str] by simp
    then show ?thesis using False Suc.prems by (simp add: memset_outside)
  qed (use Suc in simp)
qed simp

section \<open>The view is what the tables hold\<close>

lemma directory_entry: "elem64 (d + PAGE_SIZE_4K * drop_bit 30 va) (unat (take_bit 9 (drop_bit 21 va))) = elem64 d (pde_index va)"
  using elem64_subtable[of d "unat (drop_bit 30 va)" "unat (take_bit 9 (drop_bit 21 va))"] by (simp add: pae_indices(5))

lemma directory_pointer:
  assumes "app_layout E b d base n N" "app_view E b d base n (V, used) m"
  shows "spa_aligned b (d + PAGE_SIZE_4K * drop_bit 30 va)"
    "ld64 m (elem64 (host_pdpt E b) (unat (drop_bit 30 va))) = hva2spa1 b (d + PAGE_SIZE_4K * drop_bit 30 va) OR PAGE_PRESENT"
proof -
  show "spa_aligned b (d + PAGE_SIZE_4K * drop_bit 30 va)"
    using assms(1) spa_aligned_offset[of b d "drop_bit 30 va"] by (simp add: app_layout_def xconst)
  have "ld64 m (elem64 (host_pdpt E b) (unat (drop_bit 30 va)))
      = hva2spa1 b (d + PAGE_SIZE_4K * of_nat (unat (drop_bit 30 va))) OR PAGE_PRESENT"
    using assms(2) pae_indices(2)[of va] unfolding app_view_def by blast
  then show "ld64 m (elem64 (host_pdpt E b) (unat (drop_bit 30 va))) = hva2spa1 b (d + PAGE_SIZE_4K * drop_bit 30 va) OR PAGE_PRESENT"
    by simp
qed

lemma host_pd_entry:
  assumes "app_layout E b d base n N" "app_view E b d base n (V, used) m"
  shows "elem64 (host_pd E b m va) (unat (pae_get_pdt_index va)) = elem64 d (pde_index va)"
proof -
  note p = directory_pointer[OF assms, of va]
  have "host_pd E b m va = d + PAGE_SIZE_4K * drop_bit 30 va"
    by (simp add: host_pd_def pae_indices(1) p(2) spa_entry(4)[OF p(1)] flip: host_pdpt_def)
  then show ?thesis by (simp add: pae_indices(3) directory_entry)
qed

lemma host_walk_view:
  assumes "app_layout E b d base n N" "app_view E b d base n (V, used) m"
  shows "host_walk E b m va = view_walk V va"
proof -
  let ?i = "pde_index va"
  note p = directory_pointer[OF assms, of va]
  have "bit (hva2spa1 b x OR PAGE_PRESENT) 0" for x by (simp add: bit_simps xconst)
  then have w: "host_walk E b m va =
      (let e2 = ld64 m (elem64 d ?i) in
       if bit e2 7 then leaf True e2 (walk_addr e2 AND NOT 0x1FF000) (ucast (take_bit 21 va))
       else if \<not> bit e2 0 then None
       else let e1 = ld64 m (elem64 (spa2hva1 b (walk_addr e2)) (pte_index va))
            in leaf (bit e2 1 \<and> bit e2 2) e1 (walk_addr e1) (ucast (take_bit 12 va)))"
    by (simp add: host_walk_def p(2) spa_entry(2)[OF p(1)] spa2hva1_hva2spa1 directory_entry Let_def)
  have v: "slot_at b d base used m ?i (V ?i)" "used \<le> n" using assms(2) pde_index_less[of va] by (auto simp: app_view_def)
  show ?thesis
  proof (cases "V ?i")
    case (Big e)
    then show ?thesis using v by (auto simp: w view_walk_def Let_def leaf_def)
  next
    case (Table j t)
    have al: "spa_aligned b (pool_page base j)"
      using assms(1) spa_aligned_offset[of b base "of_nat j"] by (simp add: app_layout_def pool_page_def xconst mult.commute)
    have "\<not> bit (hva2spa1 b (pool_page base j)) 7"
      using aligned_low_bits[OF al[unfolded spa_aligned_def], of 7] by (simp add: hva2spa1_def bit_simps)
    then have "\<not> bit (hva2spa1 b (pool_page base j) OR user_flags) 7 \<and> bit (hva2spa1 b (pool_page base j) OR user_flags) 0
        \<and> bit (hva2spa1 b (pool_page base j) OR user_flags) 1 \<and> bit (hva2spa1 b (pool_page base j) OR user_flags) 2"
      by (simp add: bit_simps user_flags_def xconst)
    then show ?thesis
      using v Table pte_index_less[of va]
      by (simp add: w view_walk_def spa_entry[OF al] spa2hva1_hva2spa1 pool_entry Let_def)
  qed
qed

section \<open>A page of the list\<close>

lemma slot_at_keep:
  assumes "slot_at b d base used m i s" "used \<le> used'" "ld64 m' (elem64 d i) = ld64 m (elem64 d i)"
    and "\<And>j k. j < used \<Longrightarrow> k < 512 \<Longrightarrow> (\<And>t. s = Table j t \<Longrightarrow> ld64 m' (elem64 base (512 * j + k)) = ld64 m (elem64 base (512 * j + k)))"
  shows "slot_at b d base used' m' i s"
  using assms by (cases s) auto

text \<open>What a change of memory keeps when it leaves the page list, the pointer table and the nodes alone.\<close>

definition app_kept :: "app_env \<Rightarrow> RPB \<Rightarrow> u32 set \<Rightarrow> memory \<Rightarrow> memory \<Rightarrow> bool" where
  "app_kept E b N m m' \<longleftrightarrow> (\<forall>x \<in> span 0 12 \<union> span (host_pdpt E b) 32 \<union> N. m' x = m x)"

lemma header_spans: "span 4 4 \<subseteq> span 0 12" "span 8 4 \<subseteq> span 0 12" "span 12 4 \<subseteq> span 0 16" "span 0 12 \<subseteq> span 0 16"
  using span_shift[of 4 4 12 _ 0] span_shift[of 8 4 12 _ 0] span_shift[of 12 4 16 _ 0] by (auto simp: span_iff)

lemma app_kept_outside:
  assumes lay: "app_layout E b d base n N"
    and out: "\<And>x. x \<notin> span 12 4 \<Longrightarrow> x \<notin> span d (8 * 2048) \<Longrightarrow> x \<notin> span base (8 * (512 * n)) \<Longrightarrow> m' x = m x"
  shows "app_kept E b N m m'"
proof -
  let ?K = "span 0 12 \<union> span (host_pdpt E b) 32 \<union> N"
  have "span 0 12 \<inter> span 12 4 = {}" by (rule span_disjointI) simp_all
  moreover have "span 0 16 \<inter> span (host_pdpt E b) 32 = {}" "N \<inter> span 0 16 = {}" using lay by (simp_all add: app_layout_def)
  ultimately have 1: "?K \<inter> span 12 4 = {}" using header_spans(3) by blast
  have 2: "(span 0 16 \<union> span (host_pdpt E b) 32 \<union> N) \<inter> (span d (8 * 2048) \<union> span base (8 * (512 * n))) = {}"
    using lay by (simp add: app_layout_def Int_Un_distrib Int_Un_distrib2)
  have "m' x = m x" if x: "x \<in> ?K" for x
  proof (rule out)
    show "x \<notin> span 12 4" using 1 x by blast
    have "x \<in> span 0 16 \<union> span (host_pdpt E b) 32 \<union> N" using x header_spans(4) by blast
    then show "x \<notin> span d (8 * 2048)" "x \<notin> span base (8 * (512 * n))" using 2 by blast+
  qed
  then show ?thesis by (simp add: app_kept_def)
qed

lemma app_view_kept:
  assumes kept: "app_kept E b N m m'" and view: "app_view E b d base n (V, used) m"
    and "ld32 m' 12 = of_nat used'" "used' \<le> n" "\<forall>i<2048. slot_at b d base used' m' i (V' i)"
    and "\<forall>i<2048. \<forall>i'<2048. \<forall>j t t'. V' i = Table j t \<longrightarrow> V' i' = Table j t' \<longrightarrow> i = i'"
  shows "app_view E b d base n (V', used') m'"
proof -
  have "ld32 m' 4 = ld32 m 4" "ld32 m' 8 = ld32 m 8"
    by (rule ld32_cong, use kept header_spans in \<open>auto simp: app_kept_def\<close>)+
  moreover have "ld64 m' (elem64 (host_pdpt E b) k) = ld64 m (elem64 (host_pdpt E b) k)" if "k < 4" for k
    using elem64_span_sub[of k 4 "host_pdpt E b"] that kept by (intro ld64_cong) (auto simp: app_kept_def)
  ultimately show ?thesis using assms by (simp add: app_view_def)
qed

lemma map_page_huge:
  assumes lay: "app_layout E b d base n N" and view: "app_view E b d base n (V, used) m" and i: "V (pde_index va) = Big e"
    and pse7: "bit e 7"
  shows "\<exists>m'. map_page E b va pa 1 m = Inr m' \<and> app_view E b d base n (view_step (va, pa, 1) (V, used)) m' \<and> app_kept E b N m m'"
proof -
  let ?i = "pde_index va" and ?e = "ucast pa OR (user_flags OR PAGE_PSE) :: u64"
  define m' where "m' = st64 m (elem64 d ?i) ?e"
  have le: "?i < 2048" "used \<le> n" "n \<le> 256" using pde_index_less view lay by (auto simp: app_view_def app_layout_def)
  have pse: "bit (ld64 m (elem64 d ?i)) 7" using view le i pse7 by (auto simp: app_view_def dest!: spec[of _ ?i])
  then have "ucast (ld64 m (elem64 d ?i)) AND (PAGE_PSE :: u32) \<noteq> 0"
    using and_nonzero_iff_bit[of "ucast (ld64 m (elem64 d ?i)) :: u32" 7] by (simp add: xconst bit_simps)
  then have run: "map_page E b va pa 1 m = Inr m'" by (simp add: map_page_def host_pd_entry[OF lay view] Let_def m'_def)
  have out: "m' x = m x" if "x \<notin> span d (8 * 2048)" for x using that le by (simp add: m'_def st64_elem_outside)
  have kept: "app_kept E b N m m'" using out by (intro app_kept_outside[OF lay]) auto
  have dir: "ld64 m' (elem64 d k) = (if k = ?i then ?e else ld64 m (elem64 d k))" if "k < 2048" for k
    using that le ld64_elem_st64_elem[of ?i k m d ?e] by (auto simp: m'_def)
  have pool: "ld64 m' (elem64 base l) = ld64 m (elem64 base l)" if "l < 512 * n" for l
    using that le lay ld64_elem_other_table[of ?i 2048 l "512 * n" d base] by (simp add: m'_def app_layout_def)
  have "slot_at b d base used m' k ((V(?i := Big ?e)) k)" if k: "k < 2048" for k
  proof (cases "k = ?i")
    case True
    then show ?thesis using dir[OF k] by (simp add: bit_simps xconst)
  next
    case False
    have "slot_at b d base used m k (V k)" using view k by (simp add: app_view_def)
    from slot_at_keep[OF this order_refl, of m'] show ?thesis using False dir[OF k] le by (simp add: pool)
  qed
  moreover have "ld32 m' 12 = ld32 m 12" using header_spans(3) lay by (intro ld32_cong out) (auto simp: app_layout_def)
  ultimately have "app_view E b d base n (V(?i := Big ?e), used) m'"
    using view le by (intro app_view_kept[OF kept view]) (auto simp: app_view_def split: if_splits)
  then show ?thesis using run kept i by (auto simp: Let_def)
qed

lemma app_views:
  assumes "app_view E b d base n (V, used) m"
  shows "used \<le> n" "ld32 m 12 = of_nat used" "i < 2048 \<Longrightarrow> slot_at b d base used m i (V i)"
    "i < 2048 \<Longrightarrow> i' < 2048 \<Longrightarrow> V i = Table j t \<Longrightarrow> V i' = Table j t' \<Longrightarrow> i = i'"
  using assms by (auto simp: app_view_def)

lemma pool_index: "j < n \<Longrightarrow> k < 512 \<Longrightarrow> 512 * j + k < 512 * (n :: nat)"
  using mult_le_mono2[of "Suc j" n 512] by simp

lemma pool_index_inj: "k < 512 \<Longrightarrow> k' < 512 \<Longrightarrow> 512 * j + k = 512 * j' + k' \<longleftrightarrow> j = j' \<and> k = (k' :: nat)"
proof -
  assume "k < 512" "k' < 512"
  then have "(512 * j + k) div 512 = j" "(512 * j' + k') div 512 = j'" by simp_all
  then have "512 * j + k = 512 * j' + k' \<Longrightarrow> j = j'" by metis
  then show ?thesis by auto
qed

lemma map_page_table:
  assumes lay: "app_layout E b d base n N" and view: "app_view E b d base n (V, used) m" and i: "V (pde_index va) = Table j t"
  shows "\<exists>m'. map_page E b va pa 0 m = Inr m' \<and> app_view E b d base n (view_step (va, pa, 0) (V, used)) m' \<and> app_kept E b N m m'"
proof -
  let ?i = "pde_index va" and ?k = "pte_index va" and ?e = "ucast pa OR user_flags :: u64"
  have le: "?i < 2048" "used \<le> n" "n \<le> 256" "?k < 512" using pde_index_less pte_index_less app_views[OF view] lay by (auto simp: app_layout_def)
  have slot: "slot_at b d base used m ?i (Table j t)" using app_views(3)[OF view le(1)] i by simp
  then have j: "j < used" "512 * j + ?k < 512 * n" and e: "ld64 m (elem64 d ?i) = hva2spa1 b (pool_page base j) OR user_flags"
    using pool_index[of j n ?k] le by simp_all
  define m' where "m' = st64 m (elem64 base (512 * j + ?k)) ?e"
  have al: "spa_aligned b (pool_page base j)"
    using lay spa_aligned_offset[of b base "of_nat j"] by (simp add: app_layout_def pool_page_def xconst mult.commute)
  have "\<not> bit (ucast (hva2spa1 b (pool_page base j) OR user_flags) :: u32) 7"
    using aligned_low_bits[OF al[unfolded spa_aligned_def], of 7] by (simp add: hva2spa1_def user_flags_def xconst bit_simps)
  then have "ucast (ld64 m (elem64 d ?i)) AND (PAGE_PSE :: u32) = 0"
    using and_nonzero_iff_bit[of "ucast (ld64 m (elem64 d ?i)) :: u32" 7] e by (simp add: xconst)
  then have run: "map_page E b va pa 0 m = Inr m'"
    using spa_entry(3)[OF al] by (simp add: map_page_def host_pd_entry[OF lay view] Let_def e pae_indices(4) pool_entry m'_def)
  have out: "m' x = m x" if "x \<notin> span base (8 * (512 * n))" for x
    unfolding m'_def by (rule st64_elem_outside[OF j(2) _ that]) (use le in simp)
  have kept: "app_kept E b N m m'" using out by (intro app_kept_outside[OF lay]) auto
  have dir: "ld64 m' (elem64 d l) = ld64 m (elem64 d l)" if "l < 2048" for l
    using that le j lay ld64_elem_other_table[of "512 * j + ?k" "512 * n" l 2048 base d]
    by (simp add: m'_def app_layout_def Int_commute)
  have pool: "ld64 m' (elem64 base (512 * j' + k)) = (if j' = j \<and> k = ?k then ?e else ld64 m (elem64 base (512 * j' + k)))"
    if "j' < n" "k < 512" for j' k
    using pool_index[OF that] pool_index_inj[OF le(4) that(2), of j j'] le j
      ld64_elem_st64_elem[of "512 * j + ?k" "512 * j' + k" m base ?e] by (auto simp: m'_def)
  have "slot_at b d base used m' l ((V(?i := Table j (t(?k := ?e)))) l)" if l: "l < 2048" for l
  proof (cases "l = ?i")
    case True
    then show ?thesis using slot dir[OF l] j le by (simp add: pool)
  next
    case False
    have "ld64 m' (elem64 base (512 * j' + k)) = ld64 m (elem64 base (512 * j' + k))"
      if "j' < used" "k < 512" "V l = Table j' t'" for j' k t'
      using that False le l pool[of j' k] app_views(4)[OF view l le(1)] i by auto
    with slot_at_keep[OF app_views(3)[OF view l] order_refl dir[OF l]] show ?thesis using False by simp
  qed
  moreover have "ld32 m' 12 = ld32 m 12" using header_spans(3) lay by (intro ld32_cong out) (auto simp: app_layout_def)
  ultimately have "app_view E b d base n (V(?i := Table j (t(?k := ?e))), used) m'"
    using app_views[OF view] le i by (intro app_view_kept[OF kept view]) (auto split: if_splits)
  then show ?thesis using run kept i by (auto simp: Let_def)
qed

lemma app_apart:
  assumes "app_layout E b d base n N"
  shows "span d (8 * 2048) \<inter> span base (8 * (512 * n)) = {}" "span d (8 * 2048) \<inter> span 12 4 = {}"
    "span base (8 * (512 * n)) \<inter> span 12 4 = {}"
proof -
  have "span 0 16 \<inter> span d (8 * 2048) = {}" "span 0 16 \<inter> span base (8 * (512 * n)) = {}" using assms by (simp_all add: app_layout_def)
  then show "span d (8 * 2048) \<inter> span 12 4 = {}" "span base (8 * (512 * n)) \<inter> span 12 4 = {}" using header_spans(3) by blast+
qed (use assms in \<open>simp add: app_layout_def\<close>)

text \<open>The page taken from the pool, filled with zeros.\<close>

lemma pool_page_taken:
  assumes lay: "app_layout E b d base n N" and view: "app_view E b d base n (V, used) m" and room: "used < n"
  obtains m2 where "pagelist_get_zeroedpage app_pl m = Inr (pool_page base used, m2)" "ld32 m2 12 = of_nat (Suc used)"
    "\<And>k. k < 512 \<Longrightarrow> ld64 m2 (elem64 base (512 * used + k)) = 0"
    "\<And>x. x \<notin> span 12 4 \<Longrightarrow> x \<notin> span (pool_page base used) 4096 \<Longrightarrow> m2 x = m x"
proof -
  define m1 where "m1 = st32 m 12 (of_nat used + 1)"
  define m2 where "m2 = memset 0x1000 (pool_page base used) 0 m1"
  have n: "n \<le> 256" using lay by (simp add: app_layout_def)
  have "(of_nat used :: u32) < of_nat n" using room n by (simp add: word_less_nat_alt unat_of_nat_small)
  then have run: "pagelist_get_zeroedpage app_pl m = Inr (pool_page base used, m2)"
    using view by (simp add: pagelist_get_zeroedpage_def pagelist_get_page_def app_pl_def app_view_def pool_page_def m2_def m1_def)
  have out1: "m1 x = m x" if "x \<notin> span 12 4" for x using that by (simp add: m1_def st32_def stw_outside)
  have out2: "m2 x = m1 x" if "x \<notin> span (pool_page base used) 4096" for x using that by (simp add: m2_def memset_outside)
  have apart: "span (pool_page base used) 4096 \<inter> span 12 4 = {}"
    using pool_page_sub[OF room n, of base] app_apart(3)[OF lay] by blast
  have "ld32 m2 12 = ld32 m1 12" by (rule ld32_cong, rule out2) (use apart in blast)
  then have num: "ld32 m2 12 = of_nat (Suc used)" by (simp add: m1_def add.commute)
  have zero: "ld64 m2 (elem64 base (512 * used + k)) = 0" if "k < 512" for k
  proof -
    have "ld64 m2 (elem64 (pool_page base used) k) = ld64 (\<lambda>_. 0) (elem64 (pool_page base used) k)"
      using elem64_span_sub[of k 512 "pool_page base used"] that by (intro ld64_cong) (auto simp: m2_def memset_inside)
    then show ?thesis by (simp add: pool_entry ld64_bytes)
  qed
  show thesis using that[OF run num zero] out1 out2 by simp
qed

lemma map_page_new:
  assumes lay: "app_layout E b d base n N" and view: "app_view E b d base n (V, used) m" and i: "V (pde_index va) = Big e0"
    and room: "used < n" and pse7: "bit e0 7"
  shows "\<exists>m'. map_page E b va pa 0 m = Inr m' \<and> app_view E b d base n (view_step (va, pa, 0) (V, used)) m' \<and> app_kept E b N m m'"
proof -
  let ?i = "pde_index va" and ?k = "pte_index va" and ?e = "ucast pa OR user_flags :: u64"
    and ?p = "hva2spa1 b (pool_page base used) OR user_flags"
  have le: "?i < 2048" "n \<le> 256" "?k < 512" using pde_index_less pte_index_less lay by (auto simp: app_layout_def)
  have j: "512 * used + ?k < 512 * n" by (rule pool_index[OF room le(3)])
  obtain m2 where run2: "pagelist_get_zeroedpage app_pl m = Inr (pool_page base used, m2)" and num: "ld32 m2 12 = of_nat (Suc used)"
    and zero: "\<And>k. k < 512 \<Longrightarrow> ld64 m2 (elem64 base (512 * used + k)) = 0"
    and out2: "\<And>x. x \<notin> span 12 4 \<Longrightarrow> x \<notin> span (pool_page base used) 4096 \<Longrightarrow> m2 x = m x"
    using pool_page_taken[OF lay view room] by blast
  define m3 where "m3 = st64 m2 (elem64 base (512 * used + ?k)) ?e"
  define m' where "m' = st64 m3 (elem64 d ?i) ?p"
  have "bit (ld64 m (elem64 d ?i)) 7" using app_views(3)[OF view le(1)] i pse7 by simp
  then have "ucast (ld64 m (elem64 d ?i)) AND (PAGE_PSE :: u32) \<noteq> 0"
    using and_nonzero_iff_bit[of "ucast (ld64 m (elem64 d ?i)) :: u32" 7] by (simp add: xconst bit_simps)
  then have run: "map_page E b va pa 0 m = Inr m'"
    by (simp add: map_page_def host_pd_entry[OF lay view] Let_def run2 pae_indices(4) pool_entry m'_def m3_def)
  have out3: "m3 x = m2 x" if "x \<notin> span base (8 * (512 * n))" for x
    unfolding m3_def by (rule st64_elem_outside[OF j _ that]) (use le in simp)
  have out': "m' x = m3 x" if "x \<notin> span d (8 * 2048)" for x
    unfolding m'_def by (rule st64_elem_outside[OF le(1) _ that]) simp
  have sub: "span (pool_page base used) 4096 \<subseteq> span base (8 * (512 * n))" by (rule pool_page_sub[OF room le(2)])
  have kept: "app_kept E b N m m'" using out' out3 out2 sub by (intro app_kept_outside[OF lay]) auto
  note dd = app_apart[OF lay]
  have dir: "ld64 m' (elem64 d l) = (if l = ?i then ?p else ld64 m (elem64 d l))" if l: "l < 2048" for l
  proof -
    have "ld64 m3 (elem64 d l) = ld64 m (elem64 d l)"
    proof (rule ld64_cong)
      fix x assume "x \<in> span (elem64 d l) 8"
      then have "x \<in> span d (8 * 2048)" using elem64_span_sub[OF l, of d] by auto
      then have "x \<notin> span base (8 * (512 * n))" "x \<notin> span 12 4" using dd(1,2) by blast+
      moreover from this sub have "x \<notin> span (pool_page base used) 4096" by blast
      ultimately show "m3 x = m x" by (simp only: out3 out2 not_False_eq_True)
    qed
    then show ?thesis using ld64_elem_st64_elem[of ?i l m3 d ?p] l le by (auto simp: m'_def)
  qed
  have same: "ld64 m' (elem64 base l) = ld64 m3 (elem64 base l)" if "l < 512 * n" for l
    using that le dd(1) ld64_elem_other_table[of ?i 2048 l "512 * n" d base] by (simp add: m'_def)
  have new: "ld64 m' (elem64 base (512 * used + k)) = (if k = ?k then ?e else 0)" if "k < 512" for k
    using same[OF pool_index[OF room that]] zero[OF that] pool_index[OF room that] j le
      ld64_elem_st64_elem[of "512 * used + ?k" "512 * used + k" m2 base ?e] by (auto simp: m3_def)
  have old: "ld64 m' (elem64 base (512 * j + k)) = ld64 m (elem64 base (512 * j + k))" if jk: "j < used" "k < 512" for j k
  proof -
    have "ld64 m3 (elem64 base (512 * j + k)) = ld64 m2 (elem64 base (512 * j + k))"
      using pool_index[of j n k] pool_index_inj[OF le(3) jk(2), of used j] jk room le j
        ld64_elem_st64_elem[of "512 * used + ?k" "512 * j + k" m2 base ?e] by (auto simp: m3_def)
    moreover have "ld64 m2 (elem64 (pool_page base j) k) = ld64 m (elem64 (pool_page base j) k)"
    proof (rule ld64_cong, rule out2)
      fix x assume "x \<in> span (elem64 (pool_page base j) k) 8"
      then have x: "x \<in> span (pool_page base j) 4096" using elem64_span_sub[OF jk(2), of "pool_page base j"] by auto
      then show "x \<notin> span (pool_page base used) 4096" using pool_pages_apart[of j used base] jk room le by auto
      have "j < n" using jk room by simp
      from pool_page_sub[OF this le(2), of base] show "x \<notin> span 12 4" using x dd(3) by blast
    qed
    ultimately show ?thesis using same[OF pool_index[of j n k]] jk room by (simp add: pool_entry)
  qed
  let ?V = "V(?i := Table used ((\<lambda>_. 0)(?k := ?e)))"
  have slots: "slot_at b d base (Suc used) m' l (?V l)" if l: "l < 2048" for l
  proof (cases "l = ?i")
    case True
    then show ?thesis using dir[OF l] by (simp add: new)
  next
    case False
    from slot_at_keep[OF app_views(3)[OF view l], of "Suc used" m'] show ?thesis using False dir[OF l] old by simp
  qed
  have fresh: "V l \<noteq> Table used t" if "l < 2048" for l t using app_views(3)[OF view that] by (cases "V l") auto
  have "ld32 m' 12 = ld32 m2 12"
  proof (rule ld32_cong)
    fix x :: u32 assume "x \<in> span 12 4"
    then have "x \<notin> span base (8 * (512 * n))" "x \<notin> span d (8 * 2048)" using dd(2,3) by blast+
    then show "m' x = m2 x" by (simp only: out' out3 not_False_eq_True)
  qed
  then have "app_view E b d base n (?V, Suc used) m'"
    using app_views(4)[OF view] room slots num fresh
    by (intro app_view_kept[OF kept view]) (auto split: if_splits)
  then show ?thesis using run kept i by (auto simp: Let_def)
qed

section \<open>The list of pages\<close>

text \<open>A list at \<open>h\<close>: its last node has a null pointer and is not a page.\<close>

fun page_list :: "memory \<Rightarrow> u32 \<Rightarrow> (u32 \<times> u32 \<times> u32) list \<Rightarrow> bool" where
  "page_list m h [] \<longleftrightarrow> ld32 m (h + 12) = 0"
| "page_list m h ((va, pa, huge) # ps) \<longleftrightarrow> ld32 m (h + 12) \<noteq> 0 \<and> ld32 m h = va \<and> ld32 m (h + 4) = pa \<and> ld32 m (h + 8) = huge
     \<and> page_list m (ld32 m (h + 12)) ps"

fun nodes :: "memory \<Rightarrow> u32 \<Rightarrow> 'a list \<Rightarrow> u32 set" where
  "nodes m h [] = span h 16"
| "nodes m h (p # ps) = span h 16 \<union> nodes m (ld32 m (h + 12)) ps"

lemma node_words:
  assumes "\<forall>x \<in> span h 16. m' x = m x"
  shows "ld32 m' h = ld32 m h" "ld32 m' (h + 4) = ld32 m (h + 4)" "ld32 m' (h + 8) = ld32 m (h + 8)"
    "ld32 m' (h + 12) = ld32 m (h + 12)"
proof -
  have "x \<in> span h 16" if "x \<in> span (h + k) 4" "k \<in> {0, 4, 8, 12}" for k x :: u32
    using that(2) by (intro span_shift[OF _ that(1)]) auto
  then show "ld32 m' (h + 4) = ld32 m (h + 4)" "ld32 m' (h + 8) = ld32 m (h + 8)" "ld32 m' (h + 12) = ld32 m (h + 12)"
    using assms by (auto intro!: ld32_cong)
  show "ld32 m' h = ld32 m h" using assms by (intro ld32_cong) (auto simp: span_iff)
qed

lemma page_list_cong:
  assumes "\<forall>x \<in> nodes m h ps. m' x = m x"
  shows "page_list m' h ps \<longleftrightarrow> page_list m h ps" "nodes m' h ps = nodes m h ps"
proof -
  have "(page_list m' h ps \<longleftrightarrow> page_list m h ps) \<and> nodes m' h ps = nodes m h ps"
    using assms
  proof (induction ps arbitrary: h)
    case (Cons p ps)
    then have "\<forall>x \<in> span h 16. m' x = m x" by simp
    note w = node_words[OF this]
    show ?case using Cons.IH[of "ld32 m (h + 12)"] Cons.prems w by (cases p) auto
  qed (use node_words(4)[of _ m' m] in auto)
  then show "page_list m' h ps \<longleftrightarrow> page_list m h ps" "nodes m' h ps = nodes m h ps" by auto
qed

text \<open>A page that is entered finds a 2 MB page or a table, and there is a page in the pool whenever a table is needed.\<close>

fun pool_suffices :: "nat \<Rightarrow> (nat \<Rightarrow> slot) \<times> nat \<Rightarrow> (u32 \<times> u32 \<times> u32) list \<Rightarrow> bool" where
  "pool_suffices n st [] \<longleftrightarrow> True"
| "pool_suffices n (V, used) ((va, pa, huge) # ps) \<longleftrightarrow>
     (case V (pde_index va) of Big e \<Rightarrow> bit e 7 \<and> (huge = 0 \<longrightarrow> used < n) | _ \<Rightarrow> True)
     \<and> pool_suffices n (view_step (va, pa, huge) (V, used)) ps"

lemma map_page_view:
  assumes lay: "app_layout E b d base n N" and view: "app_view E b d base n st m" and room: "pool_suffices n st ((va, pa, huge) # ps)"
  shows "\<exists>m'. map_page E b va pa huge m = Inr m' \<and> app_view E b d base n (view_step (va, pa, huge) st) m' \<and> app_kept E b N m m'"
proof -
  obtain V used where st: "st = (V, used)" by (cases st)
  note view = view[unfolded st]
  have same: "app_kept E b N m m" by (simp add: app_kept_def)
  have skip: "\<exists>m'. map_page E b va pa huge m = Inr m' \<and> app_view E b d base n (V, used) m' \<and> app_kept E b N m m'"
    if "map_page E b va pa huge m = Inr m" using that view same by blast
  consider e where "huge = 0" "V (pde_index va) = Big e" | j t where "huge = 0" "V (pde_index va) = Table j t"
    | e where "huge = 1" "V (pde_index va) = Big e" | j t where "huge = 1" "V (pde_index va) = Table j t" | "huge \<noteq> 0" "huge \<noteq> 1"
    by (cases "V (pde_index va)") blast+
  then show ?thesis
  proof cases
    case 1
    then show ?thesis using map_page_new[OF lay view] room st by simp
  next
    case 2
    then show ?thesis using map_page_table[OF lay view] st by simp
  next
    case 3
    then show ?thesis using map_page_huge[OF lay view] room st by simp
  next
    case (4 j t)
    have al: "spa_aligned b (pool_page base j)"
      using lay spa_aligned_offset[of b base "of_nat j"] by (simp add: app_layout_def pool_page_def xconst mult.commute)
    have "ld64 m (elem64 d (pde_index va)) = hva2spa1 b (pool_page base j) OR user_flags"
      using app_views(3)[OF view pde_index_less[of va]] 4 by simp
    moreover have "\<not> bit (ucast (hva2spa1 b (pool_page base j) OR user_flags) :: u32) 7"
      using aligned_low_bits[OF al[unfolded spa_aligned_def], of 7] by (simp add: hva2spa1_def user_flags_def xconst bit_simps)
    ultimately have "ucast (ld64 m (elem64 d (pde_index va))) AND (PAGE_PSE :: u32) = 0"
      using and_nonzero_iff_bit[of "ucast (ld64 m (elem64 d (pde_index va))) :: u32" 7] by (simp add: xconst)
    then have "map_page E b va pa huge m = Inr m" using 4 by (simp add: map_page_def host_pd_entry[OF lay view] Let_def)
    from skip[OF this] show ?thesis using 4 st by simp
  next
    case 5
    then have "map_page E b va pa huge m = Inr m" by (simp add: map_page_def Let_def)
    from skip[OF this] show ?thesis using 5 st by simp
  qed
qed

lemma update_loop_view:
  assumes "app_layout E b d base n N" "app_view E b d base n st m" "pool_suffices n st ps" "page_list m h ps" "nodes m h ps \<subseteq> N"
    and "length ps < fuel"
  shows "\<exists>m'. update_loop fuel E b h m = Inr m' \<and> app_view E b d base n (fold view_step ps st) m' \<and> app_kept E b N m m'"
  using assms
proof (induction ps arbitrary: st m h fuel)
  case Nil
  then obtain f where "fuel = Suc f" by (cases fuel) auto
  then show ?case using Nil by (auto simp: app_kept_def)
next
  case (Cons p ps)
  obtain va pa huge where p: "p = (va, pa, huge)" by (cases p)
  obtain f where f: "fuel = Suc f" "length ps < f" using Cons.prems(6) by (cases fuel) auto
  obtain m1 where m1: "map_page E b va pa huge m = Inr m1" "app_view E b d base n (view_step p st) m1" "app_kept E b N m m1"
    using map_page_view[OF Cons.prems(1,2), of va pa huge ps] Cons.prems(3) unfolding p by blast
  have "\<forall>x \<in> nodes m h (p # ps). m1 x = m x" using m1(3) Cons.prems(5) by (auto simp: app_kept_def)
  then have w: "ld32 m1 (h + 12) = ld32 m (h + 12)" and l: "\<forall>x \<in> nodes m (ld32 m (h + 12)) ps. m1 x = m x"
    using node_words(4)[of h m1 m] by auto
  have "pool_suffices n (view_step p st) ps" using Cons.prems(3) unfolding p by (cases st) auto
  moreover have "page_list m1 (ld32 m (h + 12)) ps" "nodes m1 (ld32 m (h + 12)) ps \<subseteq> N"
    using page_list_cong[OF l] Cons.prems(4,5) p by auto
  ultimately obtain m' where m': "update_loop f E b (ld32 m (h + 12)) m1 = Inr m'"
      "app_view E b d base n (fold view_step ps (view_step p st)) m'" "app_kept E b N m1 m'"
    using Cons.IH[OF Cons.prems(1) m1(2), of "ld32 m (h + 12)" f] f(2) by blast
  have "update_loop fuel E b h m = Inr m'" using Cons.prems(4) m1(1) m'(1) w f(1) p by simp
  then show ?case using m' m1(3) by (auto simp: app_kept_def)
qed

section \<open>All pages of the list\<close>

text \<open>
  The list of a process: frames are aligned, no page is listed twice, and no 4 KB page lies in the region of a listed
  2 MB page.
\<close>

definition pages_ok :: "(u32 \<times> u32 \<times> u32) list \<Rightarrow> bool" where
  "pages_ok ps \<longleftrightarrow>
    (\<forall>(va, pa, huge) \<in> set ps. huge = 0 \<and> take_bit 12 pa = 0 \<or> huge = 1 \<and> take_bit 21 pa = 0)
    \<and> distinct (map (\<lambda>(va, pa, huge). (pde_index va, if huge = 0 then Some (pte_index va) else None)) ps)
    \<and> (\<forall>(va, pa, huge) \<in> set ps. \<forall>(va', pa', huge') \<in> set ps. pde_index va = pde_index va' \<longrightarrow> huge = huge')"

definition split_regions :: "(u32 \<times> u32 \<times> u32) list \<Rightarrow> nat set" where
  "split_regions ps = pde_index ` {va. \<exists>pa. (va, pa, 0) \<in> set ps}"

definition view_of :: "(u32 \<times> u32 \<times> u32) list \<Rightarrow> (nat \<Rightarrow> slot) \<Rightarrow> (nat \<Rightarrow> slot) \<times> nat \<Rightarrow> bool" where
  "view_of ps V0 = (\<lambda>(V, used).
    used = card (split_regions ps)
    \<and> (\<forall>i. (\<exists>j t. V i = Table j t) \<longleftrightarrow> i \<in> split_regions ps)
    \<and> (\<forall>i. i \<notin> pde_index ` fst ` set ps \<longrightarrow> V i = V0 i)
    \<and> (\<forall>va pa. (va, pa, 1) \<in> set ps \<longrightarrow> V (pde_index va) = Big (ucast pa OR (user_flags OR PAGE_PSE)))
    \<and> (\<forall>va pa j t. (va, pa, 0) \<in> set ps \<longrightarrow> V (pde_index va) = Table j t \<longrightarrow> t (pte_index va) = ucast pa OR user_flags)
    \<and> (\<forall>i j t k. V i = Table j t \<longrightarrow> (\<forall>va pa. (va, pa, 0) \<in> set ps \<longrightarrow> pde_index va = i \<longrightarrow> pte_index va \<noteq> k) \<longrightarrow> t k = 0))"

lemma view_ofD:
  assumes "view_of ps V0 (V, used)"
  shows "(\<exists>j t. V i = Table j t) \<longleftrightarrow> i \<in> split_regions ps" "i \<notin> pde_index ` fst ` set ps \<Longrightarrow> V i = V0 i"
    "(va, pa, 1) \<in> set ps \<Longrightarrow> V (pde_index va) = Big (ucast pa OR (user_flags OR PAGE_PSE))"
    "(va, pa, 0) \<in> set ps \<Longrightarrow> V (pde_index va) = Table j t \<Longrightarrow> t (pte_index va) = ucast pa OR user_flags"
    "V i = Table j t \<Longrightarrow> (\<And>va pa. (va, pa, 0) \<in> set ps \<Longrightarrow> pde_index va = i \<Longrightarrow> pte_index va \<noteq> k) \<Longrightarrow> t k = 0"
  using assms unfolding view_of_def by blast+

lemma pages_ok_snoc:
  assumes "pages_ok (ps @ [(va, pa, huge)])"
  shows "pages_ok ps" "huge = 0 \<or> huge = 1"
    "(va', pa', huge') \<in> set ps \<Longrightarrow> pde_index va' = pde_index va \<Longrightarrow> huge = 0 \<and> huge' = 0 \<and> pte_index va' \<noteq> pte_index va"
proof -
  show "pages_ok ps" "huge = 0 \<or> huge = 1" using assms by (auto simp: pages_ok_def)
  assume in_ps: "(va', pa', huge') \<in> set ps" and pde: "pde_index va' = pde_index va"
  have "huge' = huge" using assms in_ps pde unfolding pages_ok_def by fastforce
  moreover have "(pde_index va, if huge = 0 then Some (pte_index va) else None)
      \<notin> (\<lambda>(va, pa, huge). (pde_index va, if huge = 0 then Some (pte_index va) else None)) ` set ps"
    using assms by (auto simp: pages_ok_def)
  ultimately show "huge = 0 \<and> huge' = 0 \<and> pte_index va' \<noteq> pte_index va"
    using in_ps pde by (cases "huge = 0") (force simp: image_iff)+
qed

lemma split_regions_snoc:
  "split_regions (ps @ [(va, pa, huge)]) = (if huge = 0 then insert (pde_index va) (split_regions ps) else split_regions ps)"
  by (auto simp: split_regions_def image_iff)

lemma finite_split_regions [simp]: "finite (split_regions ps)"
proof -
  have "split_regions ps \<subseteq> pde_index ` fst ` set ps" by (auto simp: split_regions_def image_iff) force
  then show ?thesis by (rule finite_subset) simp
qed

lemma view_of_pages:
  assumes "pages_ok ps" "\<forall>i. \<exists>e. V0 i = Big e"
  shows "view_of ps V0 (fold view_step ps (V0, 0))"
  using assms(1)
proof (induction ps rule: rev_induct)
  case Nil
  then show ?case using assms(2) by (auto simp: view_of_def split_regions_def) (metis slot.distinct(1))+
next
  case (snoc p ps)
  obtain va pa huge where p: "p = (va, pa, huge)" by (cases p)
  note ok = pages_ok_snoc[OF snoc.prems[unfolded p]]
  obtain V used where st: "fold view_step ps (V0, 0) = (V, used)" by (cases "fold view_step ps (V0, 0)")
  have IH: "view_of ps V0 (V, used)" using snoc.IH[OF ok(1)] st by simp
  show ?case
  proof (cases "huge = 0")
    case True
    show ?thesis
    proof (cases "V (pde_index va)")
      case (Big e)
      then have "\<nexists>j t. V (pde_index va) = Table j t" by simp
      then have n: "pde_index va \<notin> split_regions ps" using IH unfolding view_of_def by blast
      then have "pde_index va' \<noteq> pde_index va" if "(va', pa', h) \<in> set ps" for va' pa' h
        using ok(3)[OF that] that by (auto simp: split_regions_def image_iff) metis
      then show ?thesis
        using IH True Big n st p
        by (auto simp: view_of_def split_regions_snoc Let_def)
    next
      case (Table j t)
      then have "pde_index va \<in> split_regions ps" using IH by (auto simp: view_of_def)
      moreover have "pde_index va' \<noteq> pde_index va" if "(va', pa', 1) \<in> set ps" for va' pa'
        using ok(3)[OF that] by auto
      ultimately show ?thesis
        using IH True Table ok(3) st p
        by (auto simp: view_of_def split_regions_snoc Let_def insert_absorb)
    qed
  next
    case False
    then have h: "huge = 1" using ok(2) by simp
    then have n: "pde_index va \<notin> split_regions ps" using ok(3) by (auto simp: split_regions_def) metis
    then obtain e where "V (pde_index va) = Big e" using IH by (cases "V (pde_index va)") (auto simp: view_of_def)
    then show ?thesis using IH h n ok(3) st p by (auto simp: view_of_def split_regions_snoc Let_def)
  qed
qed

lemma pool_suffices_append:
  "pool_suffices n st (ps @ qs) \<longleftrightarrow> pool_suffices n st ps \<and> pool_suffices n (fold view_step ps st) qs"
proof (induction ps arbitrary: st)
  case (Cons p ps)
  then show ?case by (cases p; cases st) auto
qed simp

lemma pool_suffices_pages:
  assumes "pages_ok ps" "\<forall>i. \<exists>e. V0 i = Big e" "card (split_regions ps) \<le> n"
    and "\<forall>(va, pa, huge) \<in> set ps. \<forall>e. V0 (pde_index va) = Big e \<longrightarrow> bit e 7"
  shows "pool_suffices n (V0, 0) ps"
  using assms(1,3,4)
proof (induction ps rule: rev_induct)
  case (snoc p ps)
  obtain va pa huge where p: "p = (va, pa, huge)" by (cases p)
  have ok: "pages_ok ps" using pages_ok_snoc(1) snoc.prems(1) p by blast
  have sub: "split_regions ps \<subseteq> split_regions (ps @ [p])" by (auto simp: p split_regions_snoc)
  have le: "card (split_regions ps) \<le> n" using card_mono[OF _ sub] snoc.prems(2) by simp
  obtain V used where st: "fold view_step ps (V0, 0) = (V, used)" by (cases "fold view_step ps (V0, 0)")
  have V: "view_of ps V0 (V, used)" using view_of_pages[OF ok assms(2)] by (simp add: st)
  have v: "used = card (split_regions ps)" "(\<exists>j t. V i = Table j t) \<longleftrightarrow> i \<in> split_regions ps" for i
    using V unfolding view_of_def by auto
  have big: "bit e 7" if e: "V (pde_index va) = Big e" for e
  proof -
    have "pde_index va \<notin> pde_index ` fst ` set ps"
    proof
      assume "pde_index va \<in> pde_index ` fst ` set ps"
      then obtain va' pa' h where in_ps: "(va', pa', h) \<in> set ps" "pde_index va' = pde_index va" by auto
      then have "h = 0" using pages_ok_snoc(3) snoc.prems(1) p by blast
      then have "pde_index va \<in> split_regions ps" using in_ps by (auto simp: split_regions_def image_iff)
      then show False using v(2)[of "pde_index va"] e by auto
    qed
    then have "V0 (pde_index va) = Big e" using view_ofD(2)[OF V] e by simp
    then show ?thesis using snoc.prems(3) p by auto
  qed
  have "used < n" if "huge = 0" "V (pde_index va) = Big e" for e
  proof -
    have "pde_index va \<notin> split_regions ps" using v(2)[of "pde_index va"] that(2) by auto
    then show ?thesis using snoc.prems(2) v(1) that(1) by (simp add: p split_regions_snoc)
  qed
  then show ?case
    using snoc.IH[OF ok le] snoc.prems(3) big by (auto simp: pool_suffices_append st p split: slot.split)
qed simp

section \<open>The address space after the hypercall\<close>

text \<open>The address space \<open>W\<close> with the pages of the list entered.\<close>

definition remapped :: "(u32 \<times> u32 \<times> u32) list \<Rightarrow> (u32 \<Rightarrow> (u64 \<times> bool) option) \<Rightarrow> u32 \<Rightarrow> (u64 \<times> bool) option" where
  "remapped ps W va =
    (case find (\<lambda>(v, p, huge). huge = 0 \<and> drop_bit 12 v = drop_bit 12 va) ps of
       Some (v, p, huge) \<Rightarrow> Some (ucast (p OR take_bit 12 va), True)
     | None \<Rightarrow>
       case find (\<lambda>(v, p, huge). huge = 1 \<and> drop_bit 21 v = drop_bit 21 va) ps of
         Some (v, p, huge) \<Rightarrow> Some (ucast (p OR take_bit 21 va), True)
       | None \<Rightarrow> if pde_index va \<in> split_regions ps then None else W va)"

lemma page_number: "drop_bit 12 v = drop_bit 12 va \<longleftrightarrow> pde_index v = pde_index va \<and> pte_index v = pte_index va"
proof
  assume "drop_bit 12 v = drop_bit 12 va"
  then have "drop_bit 9 (drop_bit 12 v) = drop_bit 9 (drop_bit 12 va)" "take_bit 9 (drop_bit 12 v) = take_bit 9 (drop_bit 12 va)"
    by simp_all
  then show "pde_index v = pde_index va \<and> pte_index v = pte_index va" by (simp add: pde_index_def pte_index_def)
next
  assume "pde_index v = pde_index va \<and> pte_index v = pte_index va"
  then have "drop_bit 9 (drop_bit 12 v) = drop_bit 9 (drop_bit 12 va)" "take_bit 9 (drop_bit 12 v) = take_bit 9 (drop_bit 12 va)"
    by (simp_all add: pde_index_def pte_index_def word_unat_eq_iff)
  then show "drop_bit 12 v = drop_bit 12 va" using bits_ident[of 9 "drop_bit 12 v"] bits_ident[of 9 "drop_bit 12 va"] by metis
qed

lemma small_leaf:
  assumes "take_bit 12 (pa :: u32) = 0"
  shows "leaf True (ucast pa OR user_flags) (walk_addr (ucast pa OR user_flags)) (ucast (take_bit 12 va)) = Some (ucast (pa OR take_bit 12 va), True)"
proof -
  have "walk_addr (ucast pa OR user_flags) OR ucast (take_bit 12 va) = ucast (pa OR take_bit 12 va)"
    by (rule u64_bitsI) (use aligned_low_bits[OF assms] in \<open>auto simp: walk_addr_def user_flags_def xconst bit_simps u32_high_bit\<close>)
  then show ?thesis by (simp add: leaf_def user_flags_def xconst bit_simps)
qed

lemma huge_leaf:
  assumes "take_bit 21 (pa :: u32) = 0"
  shows "leaf True (ucast pa OR (user_flags OR PAGE_PSE)) (walk_addr (ucast pa OR (user_flags OR PAGE_PSE)) AND NOT 0x1FF000)
    (ucast (take_bit 21 va)) = Some (ucast (pa OR take_bit 21 va), True)"
proof -
  have "\<not> bit pa n" if "n < 21" for n using that assms by (metis bit_take_bit_iff bit_0_eq bot_apply bot_bool_def)
  then have "(walk_addr (ucast pa OR (user_flags OR PAGE_PSE)) AND NOT 0x1FF000) OR ucast (take_bit 21 va) = ucast (pa OR take_bit 21 va)"
    by (intro u64_bitsI) (auto simp: walk_addr_def user_flags_def xconst bit_simps u32_high_bit)
  then show ?thesis by (simp add: leaf_def user_flags_def xconst bit_simps)
qed

lemma region_number: "drop_bit 21 v = drop_bit 21 va \<longleftrightarrow> pde_index v = pde_index va"
  by (simp add: pde_index_def word_unat_eq_iff)

lemma find_in: "find P xs = Some x \<Longrightarrow> x \<in> set xs \<and> P x"
  by (auto simp: find_Some_iff)

lemma view_walk_remapped:
  assumes ok: "pages_ok ps" and V: "view_of ps V0 (V, used)" and W: "\<And>va. view_walk V0 va = W va"
  shows "view_walk V va = remapped ps W va"
proof -
  have al: "(v, p, 0) \<in> set ps \<Longrightarrow> take_bit 12 p = 0" "(v, p, 1) \<in> set ps \<Longrightarrow> take_bit 21 p = 0" for v p
    using ok by (auto simp: pages_ok_def)
  show ?thesis
  proof (cases "find (\<lambda>(v, p, huge). huge = 0 \<and> drop_bit 12 v = drop_bit 12 va) ps")
    case (Some q)
    then obtain v p where q: "q = (v, p, 0)" and in_ps: "(v, p, 0) \<in> set ps" and idx: "pde_index v = pde_index va" "pte_index v = pte_index va"
      using find_in by (cases q) (fastforce simp: page_number)
    then have "pde_index va \<in> split_regions ps" by (auto simp: split_regions_def image_iff)
    then obtain j t where t: "V (pde_index va) = Table j t" using view_ofD(1)[OF V] by blast
    then have "t (pte_index va) = ucast p OR user_flags" using view_ofD(4)[OF V in_ps, of j t] idx by simp
    then show ?thesis using Some q t small_leaf[OF al(1)[OF in_ps], of va] by (simp add: view_walk_def remapped_def)
  next
    case small: None
    have ns: "(v, p, 0) \<in> set ps \<Longrightarrow> pde_index v = pde_index va \<Longrightarrow> pte_index v \<noteq> pte_index va" for v p
      using small by (auto simp: find_None_iff page_number)
    show ?thesis
    proof (cases "find (\<lambda>(v, p, huge). huge = 1 \<and> drop_bit 21 v = drop_bit 21 va) ps")
      case (Some q)
      then obtain v p where q: "q = (v, p, 1)" and in_ps: "(v, p, 1) \<in> set ps" and idx: "pde_index v = pde_index va"
        using find_in by (cases q) (fastforce simp: region_number)
      then have "V (pde_index va) = Big (ucast p OR (user_flags OR PAGE_PSE))" using view_ofD(3)[OF V, of v p] by simp
      then show ?thesis using Some small q huge_leaf[OF al(2)[OF in_ps], of va] by (simp add: view_walk_def remapped_def)
    next
      case huge: None
      then have nh: "(v, p, 1) \<in> set ps \<Longrightarrow> pde_index v \<noteq> pde_index va" for v p by (auto simp: find_None_iff region_number)
      show ?thesis
      proof (cases "pde_index va \<in> split_regions ps")
        case True
        then obtain j t where t: "V (pde_index va) = Table j t" using view_ofD(1)[OF V] by blast
        then have "t (pte_index va) = 0" by (rule view_ofD(5)[OF V]) (use ns in blast)
        then show ?thesis using small huge True t by (simp add: view_walk_def remapped_def leaf_def)
      next
        case False
        have "pde_index va \<notin> pde_index ` fst ` set ps"
        proof
          assume "pde_index va \<in> pde_index ` fst ` set ps"
          then obtain v p h where in_ps: "(v, p, h) \<in> set ps" "pde_index v = pde_index va" by auto
          then have "h = 0 \<or> h = 1" using ok by (auto simp: pages_ok_def)
          then show False using in_ps nh False by (auto simp: split_regions_def image_iff)
        qed
        then have "V (pde_index va) = V0 (pde_index va)" by (rule view_ofD(2)[OF V])
        then show ?thesis using W[of va] small huge False by (simp add: view_walk_def remapped_def)
      qed
    qed
  qed
qed

lemma page_list_initialized:
  assumes al: "malloc E (256 * PAGE_SIZE_4K) m0 = (buf, m)" "buf \<noteq> 0" and base: "base = PAGE_ALIGN_UP4K buf"
    and n: "n = (if base = buf then 256 else 255)" and lay: "app_layout E b d base n N"
  obtains m1 where "pagelist_init E app_pl m0 = Inr m1" "ld32 m1 4 = base" "ld32 m1 8 = of_nat n" "ld32 m1 12 = 0"
    "\<And>x. x \<notin> span 0 16 \<Longrightarrow> m1 x = m x"
proof -
  let ?ma = "st32 m 0 buf"
  let ?mb = "st32 ?ma 4 base"
  let ?mc = "st32 ?mb 8 (of_nat n)"
  let ?m1 = "st32 ?mc 12 0"
  have far: "ld32 (st32 m' a v) c = ld32 m' c" if "4 \<le> unat (c - a)" "4 \<le> unat (a - c)" for m' a c v
    unfolding ld32_def st32_def by (rule ldw_stw_disjoint) (use span_disjointI[OF that] in simp_all)
  have w: "ld32 ?mb 0 = buf" "ld32 ?mb 4 = base" by (simp_all add: far)
  have "pagelist_init E app_pl m0 = Inr ?m1"
    using assms(1,2) w n by (simp add: pagelist_init_def app_pl_def base[symmetric] Let_def)
  moreover have "ld32 ?m1 4 = base" "ld32 ?m1 8 = of_nat n" "ld32 ?m1 12 = 0" by (simp_all add: far)
  moreover have "?m1 x = m x" if "x \<notin> span 0 16" for x
  proof -
    have "x \<notin> span 0 4" "x \<notin> span 4 4" "x \<notin> span 8 4" "x \<notin> span 12 4"
      using that header_spans by (auto simp: span_iff)
    then show ?thesis by (simp add: st32_def stw_outside)
  qed
  ultimately show thesis by (rule that)
qed

text \<open>
  C3: What the hypercall does to the address space of the hypervisor, which is the one the released cores run user code in.
  Started on tables as the secure loader leaves them, whose directory entries are 2 MB pages or not present, and given a list of
  pages in regions that are mapped, with room in the pool for a table per split region, the update returns, and the walk of the
  processor gives: every listed 4 KB page and every address of a listed
  2 MB page at its frame, open to user code; nothing for the rest of a region that had to be split; and the old
  translation everywhere else.
\<close>

theorem user_pages_mapped:
  assumes al: "malloc E (256 * PAGE_SIZE_4K) m0 = (buf, m)" "buf \<noteq> 0" "base = PAGE_ALIGN_UP4K buf" "n = (if base = buf then 256 else 255)"
    and lay: "app_layout E b d base n (nodes m h ps)"
    and pdpt: "\<forall>k<4. ld64 m (elem64 (host_pdpt E b) k) = hva2spa1 b (d + PAGE_SIZE_4K * of_nat k) OR PAGE_PRESENT"
    and big: "\<forall>(va, pa, huge) \<in> set ps. bit (ld64 m (elem64 d (pde_index va))) 7"
    and rest: "\<forall>i<2048. bit (ld64 m (elem64 d i)) 7 \<or> \<not> bit (ld64 m (elem64 d i)) 0"
    and list: "page_list m h ps" "pages_ok ps" "card (split_regions ps) \<le> n" "length ps < fuel"
  shows "\<exists>m'. update_hypervisor_pt fuel E b h m0 = Inr m' \<and> host_walk E b m' = remapped ps (host_walk E b m)"
proof -
  obtain m1 where m1: "pagelist_init E app_pl m0 = Inr m1" and hdr: "ld32 m1 4 = base" "ld32 m1 8 = of_nat n" "ld32 m1 12 = 0"
    and out: "\<And>x. x \<notin> span 0 16 \<Longrightarrow> m1 x = m x"
    using page_list_initialized[OF al lay] by blast
  define V0 where "V0 i = Big (if i < 2048 then ld64 m (elem64 d i) else 0)" for i
  have V0: "\<forall>i. \<exists>e. V0 i = Big e" by (simp add: V0_def)
  have apart: "span (host_pdpt E b) 32 \<inter> span 0 16 = {}" "span d (8 * 2048) \<inter> span 0 16 = {}" "nodes m h ps \<inter> span 0 16 = {}"
    using lay by (auto simp: app_layout_def)
  have same: "ld64 m1 (elem64 (host_pdpt E b) k) = ld64 m (elem64 (host_pdpt E b) k)" if "k < 4" for k
    by (rule ld64_cong, rule out) (use elem64_span_sub[OF that, of "host_pdpt E b"] apart in auto)
  have samed: "ld64 m1 (elem64 d i) = ld64 m (elem64 d i)" if "i < 2048" for i
    by (rule ld64_cong, rule out) (use elem64_span_sub[OF that, of d] apart in auto)
  have view: "app_view E b d base n (V0, 0) m1"
    using hdr pdpt rest by (simp add: app_view_def same samed V0_def)
  have walk0: "view_walk V0 va = host_walk E b m va" for va
  proof -
    note p = directory_pointer[OF lay view, of va]
    have e3: "ld64 m (elem64 (host_pdpt E b) (unat (drop_bit 30 va))) = hva2spa1 b (d + PAGE_SIZE_4K * drop_bit 30 va) OR PAGE_PRESENT"
      using p(2) same[OF pae_indices(2)] by simp
    have "bit (hva2spa1 b x OR PAGE_PRESENT) 0" for x by (simp add: bit_simps xconst)
    then show ?thesis
      using pde_index_less[of va] rest
      by (auto simp: host_walk_def view_walk_def V0_def e3 spa_entry(2)[OF p(1)] spa2hva1_hva2spa1 directory_entry Let_def leaf_def)
  qed
  have big0: "\<forall>(va, pa, huge) \<in> set ps. \<forall>e. V0 (pde_index va) = Big e \<longrightarrow> bit e 7"
    using big pde_index_less by (auto simp: V0_def)
  have "\<forall>x \<in> nodes m h ps. m1 x = m x" using out apart(3) by blast
  note pl = page_list_cong[OF this]
  obtain m' where m': "update_loop fuel E b h m1 = Inr m'" "app_view E b d base n (fold view_step ps (V0, 0)) m'"
    using update_loop_view[OF lay view pool_suffices_pages[OF list(2) V0 list(3) big0], of h fuel] list(1,4) pl by auto
  obtain V used where st: "fold view_step ps (V0, 0) = (V, used)" by (cases "fold view_step ps (V0, 0)")
  have "host_walk E b m' va = remapped ps (host_walk E b m) va" for va
    using host_walk_view[OF lay m'(2)[unfolded st], of va]
      view_walk_remapped[OF list(2) view_of_pages[OF list(2) V0, unfolded st] walk0] by simp
  then show ?thesis using m1 m'(1) by (auto simp: update_hypervisor_pt_def)
qed

section \<open>Example\<close>

text \<open>Tables at \<open>0x10000000\<close> and \<open>0x10010000\<close>, mapped up to \<open>0xC0200000\<close>, a list of one 4 KB and one 2 MB page at \<open>0x10200000\<close>, the pool at \<open>0x10300000\<close>.\<close>

definition remap_env :: app_env where
  "remap_env = \<lparr>alloc = \<lparr>tlsf_create = (\<lambda>p n m. (p, m)), tlsf_malloc = (\<lambda>p n m. (0x10300000, m)), tlsf_free = (\<lambda>p q m. m)\<rparr>,
     g_pool = 0x10100000, memory_pool = 0x10300000, exceptionstubs = 0x10101000, idt_start = 0x10102000,
     sidt_address = 0x10102000, read_cr3 = 0x10000000\<rparr>"

definition remap_pages :: "(u32 \<times> u32 \<times> u32) list" where
  "remap_pages = [(0x08048000, 0x00345000, 0), (0x40000000, 0x00600000, 1)]"

definition remap_mem :: memory where
  "remap_mem = (\<lambda>x. if x \<in> span 0x10010000 12296 then 0x87
     else if x \<in> span 0x10000000 32 then [1, 16 * of_nat (unat (x - 0x10000000) div 8), 1, 0x10, 0, 0, 0, 0] ! (unat x mod 8)
     else 0)(0x10200001 := 0x80, 0x10200002 := 0x04, 0x10200003 := 0x08, 0x10200005 := 0x50, 0x10200006 := 0x34,
       0x1020000C := 0x10, 0x1020000E := 0x20, 0x1020000F := 0x10,
       0x10200013 := 0x40, 0x10200016 := 0x60, 0x10200018 := 1, 0x1020001C := 0x20, 0x1020001E := 0x20, 0x1020001F := 0x10)"

lemma remap_list: "page_list remap_mem 0x10200000 remap_pages"
  by (simp add: remap_pages_def ld32_bytes remap_mem_def span_iff)

lemma remap_nodes: "nodes remap_mem 0x10200000 remap_pages = span 0x10200000 16 \<union> span 0x10200010 16 \<union> span 0x10200020 16"
  by (simp add: remap_pages_def ld32_bytes remap_mem_def span_iff Un_assoc)

lemma remap_layout:
  "app_layout remap_env sample_rpb 0x10010000 0x10300000 256 (nodes remap_mem 0x10200000 remap_pages)"
proof -
  have p: "host_pdpt remap_env sample_rpb = 0x10000000"
    by (simp add: host_pdpt_def remap_env_def sample_rpb_def xops)
  show ?thesis
    unfolding app_layout_def p remap_nodes Int_Un_distrib Int_Un_distrib2
    by (simp add: span_disjointI spa_aligned_def sample_rpb_def)
qed

lemma remap_tables:
  "\<forall>k<4. ld64 remap_mem (elem64 (host_pdpt remap_env sample_rpb) k)
     = hva2spa1 sample_rpb (0x10010000 + PAGE_SIZE_4K * of_nat k) OR PAGE_PRESENT"
  "\<forall>(va, pa, huge) \<in> set remap_pages. bit (ld64 remap_mem (elem64 0x10010000 (pde_index va))) 7"
  "\<forall>i<2048. bit (ld64 remap_mem (elem64 0x10010000 i)) 7 \<or> \<not> bit (ld64 remap_mem (elem64 0x10010000 i)) 0"
proof -
  have p: "host_pdpt remap_env sample_rpb = 0x10000000"
    by (simp add: host_pdpt_def remap_env_def sample_rpb_def xops)
  have b: "remap_mem x = [1, 16 * of_nat (unat (x - 0x10000000) div 8), 1, 0x10, 0, 0, 0, 0] ! (unat x mod 8)"
    if "x \<in> span 0x10000000 32" for x
    using that span_disjointI[of 32 "0x10010000" "0x10000000" 12296] by (auto simp: remap_mem_def) (auto simp: span_iff)
  show "\<forall>k<4. ld64 remap_mem (elem64 (host_pdpt remap_env sample_rpb) k)
     = hva2spa1 sample_rpb (0x10010000 + PAGE_SIZE_4K * of_nat k) OR PAGE_PRESENT"
  proof (intro allI impI)
    fix k :: nat assume "k < 4"
    then have "k = 0 \<or> k = 1 \<or> k = 2 \<or> k = 3" by auto
    then show "ld64 remap_mem (elem64 (host_pdpt remap_env sample_rpb) k)
        = hva2spa1 sample_rpb (0x10010000 + PAGE_SIZE_4K * of_nat k) OR PAGE_PRESENT"
      unfolding p by (elim disjE) (simp_all add: elem64_def ld64_bytes b span_iff hva2spa1_def sample_rpb_def xconst)
  qed
  have low: "remap_mem x = 0x87" if "x \<in> span 0x10010000 12296" for x
    using that by (auto simp: remap_mem_def span_iff)
  have first: "elem64 0x10010000 i \<in> span (elem64 0x10010000 i) 8" for i by (simp add: span_iff)
  have mapped: "bit (ld64 remap_mem (elem64 0x10010000 i)) 7" if "i < 1537" for i
    using low subsetD[OF elem64_span_sub[OF that, of "0x10010000"] first] by (simp add: ld64_def bit_ldw)
  then show "\<forall>(va, pa, huge) \<in> set remap_pages. bit (ld64 remap_mem (elem64 0x10010000 (pde_index va))) 7"
    by (simp add: remap_pages_def pde_index_def)
  have "\<not> bit (ld64 remap_mem (elem64 0x10010000 i)) 0" if "1537 \<le> i" "i < 2048" for i
  proof -
    have u: "unat (of_nat (8 * i) :: u32) = 8 * i" using that by (intro unat_of_nat_small) simp
    then have "elem64 0x10010000 i - 0x10010000 = of_nat (8 * i)" by (simp add: elem64_def)
    then have o: "unat (elem64 0x10010000 i - 0x10010000) = 8 * i" using u by simp
    have "elem64 0x10010000 i \<notin> span 0x10010000 12296" using o that by (simp add: span_iff)
    moreover have "elem64 0x10010000 i \<in> span 0x10010000 16384" using o that by (simp add: span_iff)
    then have "elem64 0x10010000 i \<notin> span 0x10000000 32" "elem64 0x10010000 i \<notin> span 0x10200000 32"
      using span_disjointI[of 16384 "0x10000000" "0x10010000" 32] span_disjointI[of 16384 "0x10200000" "0x10010000" 32] by auto
    ultimately have "remap_mem (elem64 0x10010000 i) = 0" by (auto simp: remap_mem_def span_iff)
    then show ?thesis by (simp add: ld64_def bit_ldw)
  qed
  then show "\<forall>i<2048. bit (ld64 remap_mem (elem64 0x10010000 i)) 7 \<or> \<not> bit (ld64 remap_mem (elem64 0x10010000 i)) 0"
    using mapped not_less by blast
qed

theorem user_pages_mapped_witness:
  "\<exists>m'. update_hypervisor_pt 3 remap_env sample_rpb 0x10200000 remap_mem = Inr m'
     \<and> host_walk remap_env sample_rpb m' 0x08048123 = Some (0x00345123, True)
     \<and> host_walk remap_env sample_rpb m' 0x08049000 = None
     \<and> host_walk remap_env sample_rpb m' 0x40012345 = Some (0x00612345, True)"
proof -
  have "malloc remap_env (256 * PAGE_SIZE_4K) remap_mem = (0x10300000, remap_mem)" "PAGE_ALIGN_UP4K 0x10300000 = 0x10300000"
    by (simp_all add: malloc_def remap_env_def PAGE_ALIGN_UP4K_def xconst)
  moreover have "pages_ok remap_pages" "card (split_regions remap_pages) \<le> 256"
    by (simp_all add: pages_ok_def remap_pages_def split_regions_def pde_index_def)
  ultimately obtain m' where "update_hypervisor_pt 3 remap_env sample_rpb 0x10200000 remap_mem = Inr m'"
      and w: "host_walk remap_env sample_rpb m' = remapped remap_pages (host_walk remap_env sample_rpb remap_mem)"
    using user_pages_mapped[of remap_env remap_mem "0x10300000" remap_mem "0x10300000" 256 sample_rpb "0x10010000" "0x10200000"
        remap_pages 3] remap_layout remap_tables remap_list by (auto simp: remap_pages_def)
  then show ?thesis
    by (simp add: w remapped_def remap_pages_def split_regions_def pde_index_def)
qed

end
