(* ===== verification/Router_Text.thy ===== *)
theory Router_Text
  imports XMHF_Prelude
begin

text \<open>
  The text the router reads, its command line (\<^verbatim>\<open>test-router/config.c\<close>) and the fields of its rules
  (\<^verbatim>\<open>pipeline_acl.c\<close>). Strings are lists of characters without the final null byte. The functions of the C library are
  the ones the code calls: \<^verbatim>\<open>isspace\<close> and \<^verbatim>\<open>strtoul\<close> in the C locale, with the width of \<^verbatim>\<open>unsigned long\<close> as the parameter
  \<open>w\<close>. What DPDK provides (the macro \<^verbatim>\<open>IPv4\<close>, \<^verbatim>\<open>rte_is_power_of_2\<close>, the set of enabled cores) and the options
  \<^verbatim>\<open>getopt_long\<close> finds are parameters.
\<close>

text \<open>
  How the program fails: it uses a pointer or a variable that was never set, or an index out of range (\<open>Uninit\<close>); it calls
  \<^verbatim>\<open>rte_exit\<close>; it calls \<^verbatim>\<open>rte_panic\<close>.
\<close>

datatype app_error = Uninit | Rte_exit | Rte_panic

section \<open>Numbers in text\<close>

definition isspace :: "char \<Rightarrow> bool" where
  "isspace c \<longleftrightarrow> c = CHR '' '' \<or> (9 \<le> (of_char c :: nat) \<and> (of_char c :: nat) \<le> 13)"

definition digit_value :: "char \<Rightarrow> nat option" where
  "digit_value c = (let n = of_char c :: nat in
     if 48 \<le> n \<and> n \<le> 57 then Some (n - 48)
     else if 65 \<le> n \<and> n \<le> 90 then Some (n - 55)
     else if 97 \<le> n \<and> n \<le> 122 then Some (n - 87)
     else None)"

definition is_digit :: "nat \<Rightarrow> char \<Rightarrow> bool" where
  "is_digit base c \<longleftrightarrow> (case digit_value c of Some d \<Rightarrow> d < base | None \<Rightarrow> False)"

fun scan_digits :: "nat \<Rightarrow> nat \<Rightarrow> string \<Rightarrow> nat \<times> string" where
  "scan_digits base acc [] = (acc, [])"
| "scan_digits base acc (c # cs) =
     (if is_digit base c then scan_digits base (acc * base + the (digit_value c)) cs else (acc, c # cs))"

text \<open>The base and the text after its prefix; \<^verbatim>\<open>0x\<close> counts only before a digit.\<close>

definition strtoul_prefix :: "nat \<Rightarrow> string \<Rightarrow> nat \<times> string" where
  "strtoul_prefix base s =
    (if s \<noteq> [] \<and> hd s = CHR ''0'' then
       if (base = 0 \<or> base = 16) \<and> 3 \<le> length s \<and> (s ! 1 = CHR ''x'' \<or> s ! 1 = CHR ''X'') \<and> is_digit 16 (s ! 2)
       then (16, drop 2 s) else (if base = 0 then 8 else base, s)
     else (if base = 0 then 10 else base, s))"

text \<open>The value, whether \<^verbatim>\<open>errno\<close> is set to \<^verbatim>\<open>ERANGE\<close>, and where the text stops.\<close>

definition strtoul :: "nat \<Rightarrow> nat \<Rightarrow> string \<Rightarrow> nat \<times> bool \<times> string" where
  "strtoul w base s =
    (let s1 = dropWhile isspace s;
         neg = (s1 \<noteq> [] \<and> hd s1 = CHR ''-'');
         s2 = (if s1 \<noteq> [] \<and> (hd s1 = CHR ''-'' \<or> hd s1 = CHR ''+'') then tl s1 else s1);
         (b, s3) = strtoul_prefix base s2
     in if s3 \<noteq> [] \<and> is_digit b (hd s3) then
          let (v, rest) = scan_digits b 0 s3
          in if 2 ^ w \<le> v then (2 ^ w - 1, True, rest) else (if neg \<and> v \<noteq> 0 then 2 ^ w - v else v, False, rest)
        else (0, False, s))"

section \<open>Fields\<close>

text \<open>\<^verbatim>\<open>GET_CB_FIELD\<close>: \<open>None\<close> stands for the return of \<^verbatim>\<open>-EINVAL\<close>; the delimiter \<open>None\<close> is the null byte.\<close>

definition GET_CB_FIELD :: "nat \<Rightarrow> string \<Rightarrow> nat \<Rightarrow> nat \<Rightarrow> char option \<Rightarrow> (nat \<times> string) option" where
  "GET_CB_FIELD w s base lim dlm =
    (let (val, range, e) = strtoul w base s in
     if range \<or> val > lim then None
     else case dlm of
       None \<Rightarrow> if e = [] then Some (val, []) else None
     | Some c \<Rightarrow> (case e of x # cs \<Rightarrow> if x = c then Some (val, cs) else None | [] \<Rightarrow> None))"

definition parse_ipv4_net :: "nat \<Rightarrow> (u8 \<Rightarrow> u8 \<Rightarrow> u8 \<Rightarrow> u8 \<Rightarrow> u32) \<Rightarrow> string \<Rightarrow> (u32 \<times> u32) option" where
  "parse_ipv4_net w IPv4 s =
    Option.bind (GET_CB_FIELD w s 0 255 (Some CHR ''.'')) (\<lambda>(a, s).
    Option.bind (GET_CB_FIELD w s 0 255 (Some CHR ''.'')) (\<lambda>(b, s).
    Option.bind (GET_CB_FIELD w s 0 255 (Some CHR ''.'')) (\<lambda>(c, s).
    Option.bind (GET_CB_FIELD w s 0 255 (Some CHR ''/'')) (\<lambda>(d, s).
    Option.bind (GET_CB_FIELD w s 0 32 None) (\<lambda>(m, s).
    Some (IPv4 (of_nat a) (of_nat b) (of_nat c) (of_nat d), of_nat m))))))"

definition parse_range :: "nat \<Rightarrow> string \<Rightarrow> char \<Rightarrow> (u32 \<times> u32) option" where
  "parse_range w s splitter =
    Option.bind (GET_CB_FIELD w s 0 0xFFFFFFFF (Some splitter)) (\<lambda>(a, s).
    Option.bind (GET_CB_FIELD w s 0 0xFFFFFFFF None) (\<lambda>(b, s).
    Some (of_nat a, of_nat b)))"

section \<open>Printed numbers are read back\<close>

fun decimal :: "nat \<Rightarrow> string" where
  "decimal n = (if n < 10 then [char_of (48 + n)] else decimal (n div 10) @ [char_of (48 + n mod 10)])"

declare decimal.simps [simp del]

lemma digit_char: "d < 10 \<Longrightarrow> digit_value (char_of (48 + d)) = Some d"
  by (simp add: digit_value_def)

lemma scan_digits_append:
  assumes "\<forall>c \<in> set ds. is_digit base c"
  shows "scan_digits base acc (ds @ s) = scan_digits base (fst (scan_digits base acc ds)) s"
  using assms by (induction ds arbitrary: acc) auto

lemma decimal_digits: "c \<in> set (decimal n) \<Longrightarrow> is_digit 10 c"
proof (induction n rule: decimal.induct)
  case (1 n)
  then show ?case by (subst (asm) decimal.simps) (auto simp: is_digit_def digit_char split: if_splits)
qed

lemma scan_decimal: "fst (scan_digits 10 0 (decimal n)) = n"
proof (induction n rule: decimal.induct)
  case (1 n)
  show ?case
  proof (cases "n < 10")
    case False
    then show ?thesis
      using 1 scan_digits_append[of "decimal (n div 10)" 10 0] decimal_digits
      by (subst decimal.simps) (simp add: is_digit_def digit_char)
  qed (subst decimal.simps, simp add: is_digit_def digit_char)
qed

definition stops :: "string \<Rightarrow> bool" where
  "stops s \<longleftrightarrow> s = [] \<or> digit_value (hd s) = None"

lemma scan_stops: "stops s \<Longrightarrow> scan_digits base acc s = (acc, s)"
  by (cases s) (auto simp: stops_def is_digit_def)

lemma decimal_0 [simp]: "decimal 0 = ''0''"
  by (subst decimal.simps) (simp add: char_of_def bit_Suc_0_iff)

lemma decimal_head:
  assumes "0 < n"
  obtains c cs where "decimal n = c # cs" "is_digit 10 c" "c \<noteq> CHR ''0''"
proof -
  have "\<exists>c cs. decimal n = c # cs \<and> c \<noteq> CHR ''0''"
    using assms
  proof (induction n rule: decimal.induct)
    case (1 n)
    show ?case
    proof (cases "n < 10")
      case True
      then have "digit_value (char_of (48 + n)) \<noteq> digit_value CHR ''0''" using 1 by (simp add: digit_char) (simp add: digit_value_def)
      then have "char_of (48 + n) \<noteq> CHR ''0''" by metis
      then show ?thesis using True by (subst decimal.simps) simp
    next
      case False
      then have "0 < n div 10" by (simp add: div_greater_zero_iff)
      then obtain c cs where "decimal (n div 10) = c # cs" "c \<noteq> CHR ''0''" using 1 False by blast
      then show ?thesis using False by (subst decimal.simps) simp
    qed
  qed
  then obtain c cs where d: "decimal n = c # cs" "c \<noteq> CHR ''0''" by blast
  then have "is_digit 10 c" using decimal_digits[of c n] by simp
  with d show thesis by (intro that)
qed

lemma digit_no_space: "is_digit 10 c \<Longrightarrow> \<not> isspace c \<and> c \<noteq> CHR ''-'' \<and> c \<noteq> CHR ''+''"
  by (auto simp: is_digit_def digit_value_def isspace_def Let_def split: if_splits)

lemma strtoul_decimal:
  assumes "stops s" "n < 2 ^ w" "base = 0 \<or> base = 10"
  shows "strtoul w base (decimal n @ s) = (n, False, s)"
proof (cases "n = 0")
  case True
  have "is_digit b CHR ''0''" if "0 < b" for b using that by (simp add: is_digit_def digit_value_def)
  moreover have "\<not> (3 \<le> length (CHR ''0'' # s) \<and> ((CHR ''0'' # s) ! 1 = CHR ''x'' \<or> (CHR ''0'' # s) ! 1 = CHR ''X''))"
    using assms(1) by (cases s) (auto simp: stops_def digit_value_def)
  ultimately show ?thesis
    using True assms scan_stops[OF assms(1)]
    by (auto simp: strtoul_def strtoul_prefix_def isspace_def Let_def) (auto simp: digit_value_def)
next
  case False
  then obtain c cs where d: "decimal n = c # cs" "is_digit 10 c" "c \<noteq> CHR ''0''" using decimal_head by blast
  have "scan_digits 10 0 (decimal n @ s) = (n, s)"
    using scan_digits_append[of "decimal n" 10 0 s] decimal_digits scan_decimal scan_stops[OF assms(1)] by simp
  then show ?thesis
    using d digit_no_space[OF d(2)] assms by (auto simp: strtoul_def strtoul_prefix_def Let_def)
qed

lemma field_decimal:
  assumes "n < 2 ^ w" "n \<le> lim" "base = 0 \<or> base = 10"
  shows "GET_CB_FIELD w (decimal n) base lim None = Some (n, [])"
    "digit_value c = None \<Longrightarrow> GET_CB_FIELD w (decimal n @ c # s) base lim (Some c) = Some (n, s)"
  using assms strtoul_decimal[of "[]" n w base] strtoul_decimal[of "c # s" n w base]
  by (simp_all add: GET_CB_FIELD_def stops_def)

text \<open>The same in hexadecimal, after the prefix \<^verbatim>\<open>0x\<close>.\<close>

definition hex_char :: "nat \<Rightarrow> char" where
  "hex_char d = char_of (if d < 10 then 48 + d else 87 + d)"

fun hex_digits :: "nat \<Rightarrow> string" where
  "hex_digits n = (if n < 16 then [hex_char n] else hex_digits (n div 16) @ [hex_char (n mod 16)])"

declare hex_digits.simps [simp del]

definition hexadecimal :: "nat \<Rightarrow> string" where
  "hexadecimal n = CHR ''0'' # CHR ''x'' # hex_digits n"

lemma hex_char_value: "d < 16 \<Longrightarrow> digit_value (hex_char d) = Some d"
  by (auto simp: digit_value_def hex_char_def)

lemma hex_digits_digits: "c \<in> set (hex_digits n) \<Longrightarrow> is_digit 16 c"
proof (induction n rule: hex_digits.induct)
  case (1 n)
  then show ?case by (subst (asm) hex_digits.simps) (auto simp: is_digit_def hex_char_value split: if_splits)
qed

lemma scan_hex: "fst (scan_digits 16 0 (hex_digits n)) = n"
proof (induction n rule: hex_digits.induct)
  case (1 n)
  show ?case
  proof (cases "n < 16")
    case False
    then show ?thesis
      using 1 scan_digits_append[of "hex_digits (n div 16)" 16 0] hex_digits_digits
      by (subst hex_digits.simps) (simp add: is_digit_def hex_char_value)
  qed (subst hex_digits.simps, simp add: is_digit_def hex_char_value)
qed

lemma strtoul_hex:
  assumes "stops s" "n < 2 ^ w"
  shows "strtoul w 0 (hexadecimal n @ s) = (n, False, s)"
proof -
  have "hex_digits n \<noteq> []" by (subst hex_digits.simps) simp
  then obtain c cs where d: "hex_digits n = c # cs" by (cases "hex_digits n") simp_all
  then have c: "is_digit 16 c" using hex_digits_digits[of c n] by simp
  have "scan_digits 16 0 (hex_digits n @ s) = (n, s)"
    using scan_digits_append[of "hex_digits n" 16 0 s] hex_digits_digits scan_hex scan_stops[OF assms(1)] by simp
  then show ?thesis
    using d c assms(2) by (simp add: strtoul_def strtoul_prefix_def hexadecimal_def isspace_def Let_def)
qed

lemma field_hex: "n < 2 ^ w \<Longrightarrow> n \<le> lim \<Longrightarrow> GET_CB_FIELD w (hexadecimal n) 0 lim None = Some (n, [])"
  using strtoul_hex[of "[]" n w] by (simp add: GET_CB_FIELD_def stops_def)

definition print_ipv4_net :: "nat \<Rightarrow> nat \<Rightarrow> nat \<Rightarrow> nat \<Rightarrow> nat \<Rightarrow> string" where
  "print_ipv4_net a b c d m =
     decimal a @ CHR ''.'' # decimal b @ CHR ''.'' # decimal c @ CHR ''.'' # decimal d @ CHR ''/'' # decimal m"

lemma parse_print_ipv4:
  assumes "a \<le> 255" "b \<le> 255" "c \<le> 255" "d \<le> 255" "m \<le> 32" "8 \<le> w"
  shows "parse_ipv4_net w IPv4 (print_ipv4_net a b c d m) = Some (IPv4 (of_nat a) (of_nat b) (of_nat c) (of_nat d), of_nat m)"
proof -
  have "(2 :: nat) ^ 8 \<le> 2 ^ w" using assms(6) by (intro power_increasing) simp_all
  then have w: "n < 2 ^ w" if "n \<le> 255" for n :: nat using that by simp
  have "digit_value CHR ''.'' = None" "digit_value CHR ''/'' = None" by (simp_all add: digit_value_def)
  then show ?thesis
    using assms w by (simp add: parse_ipv4_net_def print_ipv4_net_def field_decimal)
qed

lemma field_limit: "GET_CB_FIELD w s base lim dlm = Some (v, r) \<Longrightarrow> v \<le> lim"
  by (auto simp: GET_CB_FIELD_def split: prod.splits if_splits option.splits list.splits)

lemma parse_ipv4_mask:
  assumes "parse_ipv4_net w IPv4 s = Some (addr, len)"
  shows "unat len \<le> 32"
proof -
  obtain m r r' where "GET_CB_FIELD w r 0 32 None = Some (m, r')" "len = of_nat m"
    using assms by (auto simp: parse_ipv4_net_def bind_eq_Some_conv)
  then show ?thesis using field_limit[of w r 0 32 None m r'] unat_of_nat_small[of m, where 'a=32] by simp
qed

text \<open>
  The network of a rule. A network in dotted notation with a mask length is read as its address and length, whatever the address;
  and no text at all is read as a mask of more than 32 bits.
\<close>

theorem ipv4_net_read:
  assumes "8 \<le> w"
  shows "(\<forall>a b c d m. a \<le> 255 \<and> b \<le> 255 \<and> c \<le> 255 \<and> d \<le> 255 \<and> m \<le> 32 \<longrightarrow>
      parse_ipv4_net w IPv4 (print_ipv4_net a b c d m) = Some (IPv4 (of_nat a) (of_nat b) (of_nat c) (of_nat d), of_nat m))
    \<and> (\<forall>s addr len. parse_ipv4_net w IPv4 s = Some (addr, len) \<longrightarrow> unat len \<le> 32)"
  using parse_print_ipv4[OF _ _ _ _ _ assms, of _ _ _ _ _ IPv4] parse_ipv4_mask by blast

definition dotted :: "u8 \<Rightarrow> u8 \<Rightarrow> u8 \<Rightarrow> u8 \<Rightarrow> u32" where
  "dotted a b c d = push_bit 24 (ucast a) OR push_bit 16 (ucast b) OR push_bit 8 (ucast c) OR ucast d"

theorem ipv4_net_read_witness:
  "parse_ipv4_net 32 dotted ''192.168.4.0/24'' = Some (0xC0A80400, 24)"
proof -
  have "print_ipv4_net 192 168 4 0 24 = ''192.168.4.0/24''"
    by (simp add: print_ipv4_net_def decimal.simps char_of_def bit_numeral_rec bit_Suc_0_iff)
  moreover have "dotted (of_nat 192) (of_nat 168) (of_nat 4) (of_nat 0) = 0xC0A80400" by (simp add: dotted_def)
  ultimately show ?thesis
    using conjunct1[OF ipv4_net_read[of 32 dotted], rule_format, of 192 168 4 0 24] by simp
qed

text \<open>The numbers have the bases of the C language: a leading zero makes an octet octal.\<close>

lemma leading_zero_is_octal: "parse_ipv4_net 32 dotted ''192.168.010.1/24'' = Some (0xC0A80801, 24)"
  by (simp add: parse_ipv4_net_def GET_CB_FIELD_def strtoul_def strtoul_prefix_def isspace_def is_digit_def digit_value_def dotted_def)

end
