(* ===== verification/Router_Config.thy ===== *)
theory Router_Config
  imports Router_Text
begin

text \<open>
  The configuration of the router: the structure \<^verbatim>\<open>app_params\<close> of \<^verbatim>\<open>main.h\<close> with its initial values in \<^verbatim>\<open>init.c\<close>, and the
  command line of \<^verbatim>\<open>config.c\<close>. The options are the sequence \<^verbatim>\<open>getopt_long\<close> returns. The pointers of the structure (rings, buffers,
  pool) are set later and are not part of the record.
\<close>

section \<open>The parameters\<close>

definition APP_MAX_PORTS :: nat where [xconst]: "APP_MAX_PORTS = 4"
definition e_APP_PIPELINE_NONE :: u32 where [xconst]: "e_APP_PIPELINE_NONE = 0"
definition e_APP_PIPELINE_ACL :: u32 where [xconst]: "e_APP_PIPELINE_ACL = 14"
definition e_APP_PIPELINES :: nat where [xconst]: "e_APP_PIPELINES = 17"

record app_params =
  core_rx :: u32
  core_worker :: u32
  core_tx :: u32
  ports :: "u32 list"
  n_ports :: u32
  port_rx_ring_size :: u32
  port_tx_ring_size :: u32
  ring_rx_size :: u32
  ring_tx_size :: u32
  burst_size_rx_read :: u32
  burst_size_rx_write :: u32
  burst_size_worker_read :: u32
  burst_size_worker_write :: u32
  burst_size_tx_read :: u32
  burst_size_tx_write :: u32
  pipeline_type :: u32

definition app :: app_params where
  "app = \<lparr>core_rx = 0, core_worker = 0, core_tx = 0, ports = replicate APP_MAX_PORTS 0, n_ports = of_nat APP_MAX_PORTS,
     port_rx_ring_size = 128, port_tx_ring_size = 512, ring_rx_size = 128, ring_tx_size = 128,
     burst_size_rx_read = 1, burst_size_rx_write = 1, burst_size_worker_read = 1, burst_size_worker_write = 1,
     burst_size_tx_read = 1, burst_size_tx_write = 1, pipeline_type = 0\<rparr>"

section \<open>The port mask\<close>

fun mask_loop :: "nat \<Rightarrow> nat list \<Rightarrow> app_params \<Rightarrow> int \<times> app_params" where
  "mask_loop port_mask [] a = (0, a)"
| "mask_loop port_mask (i # is) a =
    (if \<not> bit port_mask i then mask_loop port_mask is a
     else if of_nat APP_MAX_PORTS \<le> n_ports a then (-4, a)
     else mask_loop port_mask is (a\<lparr>ports := (ports a)[unat (n_ports a) := of_nat i], n_ports := n_ports a + 1\<rparr>))"

definition app_parse_port_mask :: "nat \<Rightarrow> (u32 \<Rightarrow> bool) \<Rightarrow> string \<Rightarrow> app_params \<Rightarrow> int \<times> app_params" where
  "app_parse_port_mask w rte_is_power_of_2 arg a =
    (if arg = [] then (-1, a)
     else let (port_mask, _, e) = strtoul w 16 arg in
       if e \<noteq> [] then (-2, a)
       else if port_mask = 0 then (-3, a)
       else let (ret, a) = mask_loop port_mask [0..<64] (a\<lparr>n_ports := 0\<rparr>) in
         if ret < 0 then (ret, a)
         else if \<not> rte_is_power_of_2 (n_ports a) then (-5, a)
         else (0, a))"

section \<open>The command line\<close>

definition app_args_table :: "(string \<times> u32) list" where
  "app_args_table = [(''none'', 0), (''stub'', 1), (''hash-8-ext'', 2), (''hash-8-lru'', 3), (''hash-16-ext'', 4),
     (''hash-16-lru'', 5), (''hash-32-ext'', 6), (''hash-32-lru'', 7), (''hash-spec-8-ext'', 8), (''hash-spec-8-lru'', 9),
     (''hash-spec-16-ext'', 10), (''hash-spec-16-lru'', 11), (''hash-spec-32-ext'', 12), (''hash-spec-32-lru'', 13),
     (''acl'', 14), (''lpm'', 15), (''lpm-ipv6'', 16)]"

text \<open>An option as \<^verbatim>\<open>getopt_long\<close> returns it: \<^verbatim>\<open>-p\<close> with its argument, a long option with its name, or anything else.\<close>

datatype cli_option = Port_mask string | Long string | Unknown

fun parse_options :: "nat \<Rightarrow> (u32 \<Rightarrow> bool) \<Rightarrow> cli_option list \<Rightarrow> bool \<Rightarrow> app_params \<Rightarrow> app_params option" where
  "parse_options w is_pow2 [] provided a = Some a"
| "parse_options w is_pow2 (Port_mask optarg # os) provided a =
    (let (ret, a) = app_parse_port_mask w is_pow2 optarg a
     in if ret < 0 then None else parse_options w is_pow2 os provided a)"
| "parse_options w is_pow2 (Long optname # os) provided a =
    (if provided then None
     else case find (\<lambda>(name, v). name = optname) app_args_table of
       Some (name, v) \<Rightarrow> parse_options w is_pow2 os True (a\<lparr>pipeline_type := v\<rparr>)
     | None \<Rightarrow> parse_options w is_pow2 os False a)"
| "parse_options w is_pow2 (Unknown # os) provided a = None"

fun collect_lcores :: "(nat \<Rightarrow> bool) \<Rightarrow> nat list \<Rightarrow> nat list \<Rightarrow> nat list option" where
  "collect_lcores enabled [] lcores = Some lcores"
| "collect_lcores enabled (l # ls) lcores =
    (if \<not> enabled l then collect_lcores enabled ls lcores
     else if 4 \<le> length lcores then None
     else collect_lcores enabled ls (lcores @ [l]))"

definition app_parse_args ::
  "nat \<Rightarrow> (u32 \<Rightarrow> bool) \<Rightarrow> (nat \<Rightarrow> bool) \<Rightarrow> nat \<Rightarrow> cli_option list \<Rightarrow> app_params \<Rightarrow> app_params option" where
  "app_parse_args w is_pow2 enabled RTE_MAX_LCORE os a =
    Option.bind (collect_lcores enabled [0..<RTE_MAX_LCORE] []) (\<lambda>lcores.
    if length lcores \<noteq> 4 then None
    else parse_options w is_pow2 os False
      (a\<lparr>core_rx := of_nat (lcores ! 1), core_worker := of_nat (lcores ! 2), core_tx := of_nat (lcores ! 3),
         pipeline_type := e_APP_PIPELINE_NONE\<rparr>))"

section \<open>A configuration that was accepted\<close>

lemma mask_loop_result:
  assumes "unat (n_ports a) \<le> 4" "length (ports a) = 4"
  shows "mask_loop pm is a =
    (let sel = filter (bit pm) is; n = unat (n_ports a) in
     if n + length sel \<le> 4
     then (0, a\<lparr>ports := take n (ports a) @ map of_nat sel @ drop (n + length sel) (ports a), n_ports := of_nat (n + length sel)\<rparr>)
     else (-4, snd (mask_loop pm is a)))"
  using assms
proof (induction "is" arbitrary: a)
  case (Cons i "is")
  let ?n = "unat (n_ports a)"
  show ?case
  proof (cases "bit pm i")
    case set: True
    show ?thesis
    proof (cases "?n = 4")
      case True
      then show ?thesis using set by (simp add: xconst word_le_nat_alt)
    next
      case False
      then have n: "?n < 4" using Cons.prems by simp
      let ?a = "a\<lparr>ports := (ports a)[?n := of_nat i], n_ports := n_ports a + 1\<rparr>"
      have u: "unat (n_ports a + 1) = Suc ?n" using n by (simp add: unat_word_ariths)
      have le: "\<not> of_nat APP_MAX_PORTS \<le> n_ports a" using n by (simp add: xconst word_le_nat_alt)
      have "take (Suc ?n) ((ports a)[?n := of_nat i]) = take ?n (ports a) @ [of_nat i]"
        using n Cons.prems by (simp add: take_Suc_conv_app_nth)
      then show ?thesis using set le u Cons.IH[of ?a] Cons.prems n by (auto simp: Let_def)
    qed
  qed (use Cons.IH[of a] Cons.prems in \<open>auto simp: Let_def\<close>)
qed (simp add: Let_def)


text \<open>What a configuration is: a power of two of ports, listed in the first entries of the array, and a known pipeline.\<close>

definition config_wf :: "app_params \<Rightarrow> nat list \<Rightarrow> bool" where
  "config_wf a sel \<longleftrightarrow> length (ports a) = APP_MAX_PORTS \<and> n_ports a \<in> {1, 2, 4} \<and> unat (n_ports a) = length sel
     \<and> take (length sel) (ports a) = map of_nat sel \<and> unat (pipeline_type a) < e_APP_PIPELINES"

fun port_selection :: "nat \<Rightarrow> cli_option list \<Rightarrow> nat list \<Rightarrow> nat list" where
  "port_selection w [] sel = sel"
| "port_selection w (Port_mask m # os) sel = port_selection w os (filter (bit (fst (strtoul w 16 m))) [0..<64])"
| "port_selection w (_ # os) sel = port_selection w os sel"

definition power_of_2_test :: "(u32 \<Rightarrow> bool) \<Rightarrow> bool" where
  "power_of_2_test is_pow2 \<longleftrightarrow> (\<forall>n. is_pow2 n \<longleftrightarrow> n \<noteq> 0 \<and> n AND (n - 1) = 0)"

lemma small_powers:
  assumes "power_of_2_test is_pow2" "is_pow2 n" "unat n \<le> 4"
  shows "n \<in> {1, 2, 4}"
proof -
  have "n = of_nat k" if "unat n = k" for k using that by auto
  then have "n = of_nat (unat n)" by blast
  moreover have "unat n = 0 \<or> unat n = 1 \<or> unat n = 2 \<or> unat n = 3 \<or> unat n = 4" using assms(3) by arith
  ultimately have "n \<in> {0, 1, 2, 3, 4}" by (elim disjE) simp_all
  moreover have "n \<noteq> 0" "n AND (n - 1) = 0" using assms(1,2) by (simp_all add: power_of_2_test_def)
  ultimately show ?thesis by auto
qed

lemma port_mask_accepted:
  assumes "app_parse_port_mask w is_pow2 m a = (ret, a')" "\<not> ret < 0" "power_of_2_test is_pow2" "config_wf a sel0"
  shows "config_wf a' (filter (bit (fst (strtoul w 16 m))) [0..<64])"
    "core_rx a' = core_rx a \<and> core_worker a' = core_worker a \<and> core_tx a' = core_tx a"
proof -
  let ?pm = "fst (strtoul w 16 m)" and ?a = "a\<lparr>n_ports := 0\<rparr>"
  let ?sel = "filter (bit ?pm) [0..<64]"
  have len: "length (ports a) = 4" and pt: "unat (pipeline_type a) < e_APP_PIPELINES"
    using assms(4) by (simp_all add: config_wf_def xconst)
  have loop: "mask_loop ?pm [0..<64] ?a =
      (if length ?sel \<le> 4
       then (0, ?a\<lparr>ports := map of_nat ?sel @ drop (length ?sel) (ports a), n_ports := of_nat (length ?sel)\<rparr>)
       else (-4, snd (mask_loop ?pm [0..<64] ?a)))"
    using mask_loop_result[of ?a ?pm "[0..<64]"] len by (cases "length ?sel \<le> 4") (simp_all add: Let_def)
  have le: "length ?sel \<le> 4"
  proof (rule ccontr)
    assume "\<not> length ?sel \<le> 4"
    then have "fst (mask_loop ?pm [0..<64] ?a) = -4" using loop by (metis fst_conv)
    then show False
      using assms(1,2) by (auto simp: app_parse_port_mask_def Let_def split: if_splits prod.splits)
  qed
  then have m: "mask_loop ?pm [0..<64] ?a =
      (0, a\<lparr>ports := map of_nat ?sel @ drop (length ?sel) (ports a), n_ports := of_nat (length ?sel)\<rparr>)"
    using loop by simp
  have a': "a' = a\<lparr>ports := map of_nat ?sel @ drop (length ?sel) (ports a), n_ports := of_nat (length ?sel)\<rparr>"
    and pow: "is_pow2 (of_nat (length ?sel))"
    using assms(1,2) m by (auto simp: app_parse_port_mask_def Let_def split: if_splits prod.splits)
  have u: "unat (of_nat (length ?sel) :: u32) = length ?sel" using le by (simp add: unat_of_nat_small)
  have "(of_nat (length ?sel) :: u32) \<in> {1, 2, 4}"
    using small_powers[OF assms(3) pow] u le by simp
  then show "config_wf a' ?sel" using a' u le len pt by (simp add: config_wf_def xconst)
  show "core_rx a' = core_rx a \<and> core_worker a' = core_worker a \<and> core_tx a' = core_tx a" using a' by simp
qed

lemma table_entry: "find (\<lambda>(name, v). name = optname) app_args_table = Some (n, v) \<Longrightarrow> unat v < e_APP_PIPELINES"
proof -
  assume "find (\<lambda>(name, v). name = optname) app_args_table = Some (n, v)"
  then have "(n, v) \<in> set app_args_table" unfolding find_Some_iff by (metis nth_mem)
  then show ?thesis by (auto simp: app_args_table_def xconst)
qed

lemma options_accepted:
  assumes "parse_options w is_pow2 os provided a = Some a'" "power_of_2_test is_pow2" "config_wf a sel"
  shows "config_wf a' (port_selection w os sel)
    \<and> core_rx a' = core_rx a \<and> core_worker a' = core_worker a \<and> core_tx a' = core_tx a"
  using assms
proof (induction w is_pow2 os provided a arbitrary: sel rule: parse_options.induct)
  case (2 w is_pow2 m os provided a)
  obtain ret b where pm: "app_parse_port_mask w is_pow2 m a = (ret, b)" by fastforce
  then have r: "\<not> ret < 0" "parse_options w is_pow2 os provided b = Some a'" using 2(2) by (auto split: if_splits)
  show ?case
    using 2(1)[OF pm[symmetric] refl r(1) r(2) 2(3) port_mask_accepted(1)[OF pm r(1) 2(3,4)]]
      port_mask_accepted(2)[OF pm r(1) 2(3,4)] by simp
next
  case (3 w is_pow2 optname os provided a)
  then have p: "\<not> provided" by (auto split: if_splits)
  show ?case
  proof (cases "find (\<lambda>(name, v). name = optname) app_args_table")
    case None
    then show ?thesis using 3 p by simp
  next
    case (Some nv)
    obtain n v where nv: "nv = (n, v)" by fastforce
    have "config_wf (a\<lparr>pipeline_type := v\<rparr>) sel"
      using 3(5) table_entry[OF Some[unfolded nv]] by (simp add: config_wf_def)
    then show ?thesis using 3(2)[OF p Some nv[symmetric]] 3(3,4) p Some nv by simp
  qed
qed simp_all

lemma collect_lcores_result: "collect_lcores enabled ls acc = Some l \<Longrightarrow> l = acc @ filter enabled ls"
proof (induction ls arbitrary: acc)
  case (Cons a ls)
  then show ?case using Cons.IH[of "acc @ [a]"] by (auto split: if_splits)
qed simp

lemma list_of_4: "length xs = 4 \<Longrightarrow> [xs ! 1, xs ! 2, xs ! 3] = tl xs"
  by (auto simp: numeral_eq_Suc length_Suc_conv)

lemma config_accepted:
  assumes "app_parse_args w is_pow2 enabled RTE_MAX_LCORE os app = Some a"
    and "power_of_2_test is_pow2"
    and "RTE_MAX_LCORE \<le> 2 ^ 32"
  shows "config_wf a (port_selection w os [0, 0, 0, 0])
    \<and> length (filter enabled [0..<RTE_MAX_LCORE]) = 4
    \<and> [core_rx a, core_worker a, core_tx a] = map of_nat (tl (filter enabled [0..<RTE_MAX_LCORE]))
    \<and> distinct [core_rx a, core_worker a, core_tx a]
    \<and> (\<forall>i. i AND (n_ports a - 1) < n_ports a)"
proof -
  let ?l = "filter enabled [0..<RTE_MAX_LCORE]"
  let ?a = "app\<lparr>core_rx := of_nat (?l ! 1), core_worker := of_nat (?l ! 2), core_tx := of_nat (?l ! 3),
         pipeline_type := e_APP_PIPELINE_NONE\<rparr>"
  have l: "length ?l = 4" and p: "parse_options w is_pow2 os False ?a = Some a"
    using assms(1) collect_lcores_result[of enabled "[0..<RTE_MAX_LCORE]" "[]"]
    by (auto simp: app_parse_args_def bind_eq_Some_conv split: if_splits)
  have "replicate APP_MAX_PORTS 0 = [0 :: u32, 0, 0, 0]" by (simp add: xconst numeral_eq_Suc)
  then have "config_wf ?a [0, 0, 0, 0]" by (simp add: config_wf_def app_def) (simp add: xconst)
  note r = options_accepted[OF p assms(2) this]
  have c: "[core_rx a, core_worker a, core_tx a] = map of_nat (tl ?l)"
    using r arg_cong[OF list_of_4[OF l], of "map of_nat"] by simp
  have "inj_on (of_nat :: nat \<Rightarrow> u32) (set (tl ?l))"
    proof (rule inj_onI)
    fix x y assume xy: "x \<in> set (tl ?l)" "y \<in> set (tl ?l)" "(of_nat x :: u32) = of_nat y"
    have "set (tl ?l) \<subseteq> set ?l" by (cases ?l) auto
    then have "set (tl ?l) \<subseteq> {..<2 ^ 32}" using assms(3) by auto
    then show "x = y" using xy unat_of_nat_small[of x, where 'a = 32] unat_of_nat_small[of y, where 'a = 32] by auto
  qed
  then have d: "distinct (map of_nat (tl ?l) :: u32 list)" by (simp add: distinct_map distinct_tl)
  have "n_ports a \<in> {1, 2, 4}" using r by (simp add: config_wf_def)
  then have "\<forall>i. i AND (n_ports a - 1) < n_ports a" by (elim insertE) (auto intro: order.strict_trans1[OF word_and_le1])
  then show ?thesis using r l c d by simp
qed

text \<open>
  C5: A command line that is accepted yields a well-formed configuration. The three loops get three distinct
  enabled cores, the second, third and fourth in order; the number of ports is 1, 2 or 4, so that the mask by which the loops step
  through the ports covers exactly their indices; the ports are those of the last port mask, in increasing order and within the
  64 bits of the mask; without a mask they are the four zeros of the initial structure; and the pipeline is one of the
  enumeration.
\<close>

theorem router_config_wf:
  assumes "app_parse_args w is_pow2 enabled RTE_MAX_LCORE os app = Some a"
    and "power_of_2_test is_pow2"
    and "RTE_MAX_LCORE \<le> 2 ^ 32"
  shows "config_wf a (port_selection w os [0, 0, 0, 0])
    \<and> length (filter enabled [0..<RTE_MAX_LCORE]) = 4
    \<and> [core_rx a, core_worker a, core_tx a] = map of_nat (tl (filter enabled [0..<RTE_MAX_LCORE]))
    \<and> distinct [core_rx a, core_worker a, core_tx a]
    \<and> (\<forall>i. i AND (n_ports a - 1) < n_ports a)"
  by (rule config_accepted[OF assms])

definition power_of_2 :: "u32 \<Rightarrow> bool" where
  "power_of_2 n \<longleftrightarrow> n \<noteq> 0 \<and> n AND (n - 1) = 0"

lemma two_ports_selected: "filter (bit (fst (strtoul 32 16 ''0x3''))) [0..<64] = [0, 1]"
proof -
  have m: "fst (strtoul 32 16 ''0x3'') = 3"
    by (simp add: strtoul_def strtoul_prefix_def isspace_def is_digit_def digit_value_def)
  have "bit (3 :: nat) i \<longleftrightarrow> i < 2" for i by (auto simp: bit_numeral_rec(2) bit_Suc_0_iff split: nat.split)
  then have "filter (bit (3 :: nat)) [0..<64] = filter (\<lambda>i. i < 2) [0..<64]" by presburger
  moreover have "[0..<64] = [0..<2] @ [2..<64]" using upt_add_eq_append[of 0 2 62] by simp
  moreover have "filter (\<lambda>i. i < 2) ([0..<2] @ [2..<64]) = [0..<2]" by (simp add: filter_empty_conv upt_rec)
  moreover have "[0..<2] = [0, 1 :: nat]" by (simp add: upt_rec)
  ultimately show ?thesis unfolding m by metis
qed

definition two_ports :: app_params where
  "two_ports = app\<lparr>core_rx := 1, core_worker := 2, core_tx := 3, ports := [0, 1, 0, 0], n_ports := 2, pipeline_type := e_APP_PIPELINE_ACL\<rparr>"

lemma two_ports_mask:
  "app_parse_port_mask 32 power_of_2 ''0x3'' a = (0, a\<lparr>ports := [0, 1] @ drop 2 (ports a), n_ports := 2\<rparr>)"
  if "length (ports a) = 4"
proof -
  have "snd (snd (strtoul 32 16 ''0x3'')) = []" "fst (strtoul 32 16 ''0x3'') \<noteq> 0"
    by (simp_all add: strtoul_def strtoul_prefix_def isspace_def is_digit_def digit_value_def)
  moreover have "mask_loop (fst (strtoul 32 16 ''0x3'')) [0..<64] (a\<lparr>n_ports := 0\<rparr>) =
      (0, a\<lparr>ports := [0, 1] @ drop 2 (ports a), n_ports := 2\<rparr>)"
    using that by (subst mask_loop_result) (simp_all add: two_ports_selected numeral_2_eq_2)
  ultimately show ?thesis by (simp add: app_parse_port_mask_def split_beta power_of_2_def)
qed

theorem router_config_wf_witness:
  "app_parse_args 32 power_of_2 (\<lambda>l. l < 4) 8 [Port_mask ''0x3'', Long ''acl''] app = Some two_ports
    \<and> config_wf two_ports [0, 1] \<and> distinct [core_rx two_ports, core_worker two_ports, core_tx two_ports]"
proof -
  have l: "collect_lcores (\<lambda>l. l < 4) [0..<8] [] = Some [0, 1, 2, 3]" by (simp add: upt_rec)
  have "replicate APP_MAX_PORTS 0 = [0 :: u32, 0, 0, 0]" by (simp add: xconst numeral_eq_Suc)
  then have r: "app_parse_args 32 power_of_2 (\<lambda>l. l < 4) 8 [Port_mask ''0x3'', Long ''acl''] app = Some two_ports"
    by (simp add: app_parse_args_def l two_ports_mask app_def two_ports_def app_args_table_def xconst)
  have "power_of_2_test power_of_2" by (simp add: power_of_2_test_def power_of_2_def)
  then have wf: "config_wf two_ports (port_selection 32 [Port_mask ''0x3'', Long ''acl''] [0, 0, 0, 0])
    \<and> distinct [core_rx two_ports, core_worker two_ports, core_tx two_ports]"
    using router_config_wf[OF r, OF _ order.strict_implies_order[of 8 "2 ^ 32"]] by force
  have "config_wf two_ports [0, 1]" using wf by (simp add: two_ports_selected)
  moreover have "distinct [core_rx two_ports, core_worker two_ports, core_tx two_ports]" using wf by blast
  ultimately show ?thesis using r by blast
qed

end
