(* ===== verification/Router_Rules.thy ===== *)
theory Router_Rules
  imports Router_Text
begin

text \<open>
  The rules of the router: the file \<^verbatim>\<open>rules.conf\<close> read by \<^verbatim>\<open>pipeline_acl.c\<close>, from the lines \<^verbatim>\<open>fgets\<close> returns to the entries
  of the table. A buffer holds what was read, and a string function sees it up to its first null byte. A member of a line that was
  not set, a null pointer or a local variable before its first assignment, is \<open>None\<close>, and using it is the error \<open>Uninit\<close>. The
  table is a parameter with the function \<^verbatim>\<open>rte_pipeline_table_entry_add\<close> on it, which returns its code and the new table.
\<close>

section \<open>Lines and members\<close>

definition LINE_MAX :: nat where [xconst]: "LINE_MAX = 2048"
definition ROUTE_ENTRY_LINE_MEMBERS :: nat where [xconst]: "ROUTE_ENTRY_LINE_MEMBERS = 7"
definition ROUTE_ENTRY_PRIORITY :: nat where [xconst]: "ROUTE_ENTRY_PRIORITY = 1"
definition ROUTE_LEAD_CHAR :: char where [xconst]: "ROUTE_LEAD_CHAR = CHR ''R''"
definition ACL_LEAD_CHAR :: char where [xconst]: "ACL_LEAD_CHAR = CHR ''@''"
definition COMMENT_LEAD_CHAR :: char where [xconst]: "COMMENT_LEAD_CHAR = CHR ''#''"

definition c_string :: "string \<Rightarrow> string" where
  "c_string buff = takeWhile (\<lambda>c. c \<noteq> CHR 0x00) buff"

text \<open>\<^verbatim>\<open>fgets\<close>: at most \<open>n - 1\<close> characters, up to a newline and with it; \<open>None\<close> at the end of the file.\<close>

fun read_line :: "nat \<Rightarrow> string \<Rightarrow> string \<times> string" where
  "read_line 0 s = ([], s)"
| "read_line (Suc n) [] = ([], [])"
| "read_line (Suc n) (c # cs) =
    (if c = CHR 0x0A then ([c], cs) else (let (l, r) = read_line n cs in (c # l, r)))"

definition fgets :: "nat \<Rightarrow> string \<Rightarrow> (string \<times> string) option" where
  "fgets n s = (if s = [] then None else Some (read_line (n - 1) s))"

definition is_bypass_line :: "string \<Rightarrow> bool" where
  "is_bypass_line buff \<longleftrightarrow> (buff \<noteq> [] \<and> hd buff = COMMENT_LEAD_CHAR) \<or> list_all isspace buff"

definition dlm :: "char \<Rightarrow> bool" where
  "dlm c \<longleftrightarrow> c \<in> set [CHR '' '', CHR 0x09, CHR 0x0A]"

definition strtok_r :: "string \<Rightarrow> (string \<times> string) option" where
  "strtok_r s = (let s = dropWhile dlm s in
     if s = [] then None else Some (takeWhile (\<lambda>c. \<not> dlm c) s, drop 1 (dropWhile (\<lambda>c. \<not> dlm c) s)))"

text \<open>The members that were set, at most \<open>lim\<close>; the first one missing is the null pointer and the others stay as they were.\<close>

fun parse_rule_members :: "string \<Rightarrow> nat \<Rightarrow> string list" where
  "parse_rule_members s 0 = []"
| "parse_rule_members s (Suc lim) = (case strtok_r s of None \<Rightarrow> [] | Some (t, rest) \<Rightarrow> t # parse_rule_members rest lim)"

definition member_of :: "string list \<Rightarrow> nat \<Rightarrow> app_error + string" where
  "member_of ins i = (if i < length ins then Inr (ins ! i) else Inl Uninit)"

text \<open>\<^verbatim>\<open>atoi\<close>, undefined when the value is no \<^verbatim>\<open>int\<close>.\<close>

definition atoi :: "string \<Rightarrow> app_error + int" where
  "atoi s =
    (let s1 = dropWhile isspace s;
         s2 = (if s1 \<noteq> [] \<and> (hd s1 = CHR ''-'' \<or> hd s1 = CHR ''+'') then tl s1 else s1);
         v = int (fst (scan_digits 10 0 s2));
         v = (if s1 \<noteq> [] \<and> hd s1 = CHR ''-'' then - v else v)
     in if - (2 ^ 31) \<le> v \<and> v < 2 ^ 31 then Inr v else Inl Uninit)"

section \<open>A route rule\<close>

record acl_rule =
  priority :: nat
  proto_value :: u8
  proto_mask :: u8
  src_value :: u32
  src_len :: u32
  dst_value :: u32
  dst_len :: u32
  srcp_lo :: u16
  srcp_hi :: u16
  dstp_lo :: u16
  dstp_hi :: u16

text \<open>The locals \<^verbatim>\<open>addr\<close> and \<^verbatim>\<open>mask\<close>, or \<^verbatim>\<open>lo\<close> and \<^verbatim>\<open>hi\<close>: a parser that fails leaves them as they were.\<close>

definition assign :: "(u32 \<times> u32) option \<Rightarrow> (u32 \<times> u32) option \<Rightarrow> (u32 \<times> u32) option" where
  "assign parsed old = (case parsed of Some v \<Rightarrow> Some v | None \<Rightarrow> old)"

definition read_locals :: "(u32 \<times> u32) option \<Rightarrow> app_error + u32 \<times> u32" where
  "read_locals l = (case l of Some v \<Rightarrow> Inr v | None \<Rightarrow> Inl Uninit)"

definition add_route_rule ::
  "nat \<Rightarrow> (u8 \<Rightarrow> u8 \<Rightarrow> u8 \<Rightarrow> u8 \<Rightarrow> u32) \<Rightarrow> (acl_rule \<Rightarrow> u32 \<Rightarrow> 't \<Rightarrow> int \<times> 't) \<Rightarrow> string \<Rightarrow> 't \<Rightarrow> app_error + 't" where
  "add_route_rule w IPv4 table_entry_add buff p =
    (let ins = parse_rule_members buff ROUTE_ENTRY_LINE_MEMBERS in
     bindE (member_of ins 6) (\<lambda>in6.
     bindE (atoi in6) (\<lambda>port.
     bindE (member_of ins 1) (\<lambda>in1.
     bindE (member_of ins 2) (\<lambda>in2.
     bindE (member_of ins 3) (\<lambda>in3.
     bindE (member_of ins 4) (\<lambda>in4.
     bindE (member_of ins 5) (\<lambda>in5.
     let net = assign (parse_ipv4_net w IPv4 in1) None in
     bindE (read_locals net) (\<lambda>(src, srcl).
     let net = assign (parse_ipv4_net w IPv4 in2) net in
     bindE (read_locals net) (\<lambda>(dst, dstl).
     let range = assign (parse_range w in3 (CHR '':'')) None in
     bindE (read_locals range) (\<lambda>(slo, shi).
     let range = assign (parse_range w in4 (CHR '':'')) range in
     bindE (read_locals range) (\<lambda>(dlo, dhi).
     let range = assign (parse_range w in5 (CHR ''/'')) range in
     bindE (read_locals range) (\<lambda>(plo, phi).
     let rule_params = \<lparr>priority = ROUTE_ENTRY_PRIORITY, proto_value = ucast plo, proto_mask = ucast phi,
           src_value = src, src_len = srcl, dst_value = dst, dst_len = dstl,
           srcp_lo = ucast slo, srcp_hi = ucast shi, dstp_lo = ucast dlo, dstp_hi = ucast dhi\<rparr>;
         (rc, p) = table_entry_add rule_params (of_int port) p
     in if rc < 0 then Inl Rte_panic else Inr p)))))))))))))"

section \<open>The file\<close>

definition add_line ::
  "nat \<Rightarrow> (u8 \<Rightarrow> u8 \<Rightarrow> u8 \<Rightarrow> u8 \<Rightarrow> u32) \<Rightarrow> (acl_rule \<Rightarrow> u32 \<Rightarrow> 't \<Rightarrow> int \<times> 't) \<Rightarrow> string \<Rightarrow> 't \<Rightarrow> app_error + 't" where
  "add_line w IPv4 table_entry_add buff p =
    (if is_bypass_line buff then Inr p
     else if hd buff = ROUTE_LEAD_CHAR then add_route_rule w IPv4 table_entry_add buff p
     else if hd buff = ACL_LEAD_CHAR then Inr p
     else Inl Rte_exit)"

lemma read_line_length: "(l, r) = read_line n s \<Longrightarrow> length l + length r = length s"
  by (induction n s arbitrary: l r rule: read_line.induct) (auto split: prod.splits if_splits)

lemma fgets_progress: "fgets LINE_MAX s = Some (l, r) \<Longrightarrow> length r < length s"
  by (cases s) (auto simp: fgets_def xconst eval_nat_numeral split: if_splits prod.splits dest: read_line_length[OF sym])

function add_lines ::
  "nat \<Rightarrow> (u8 \<Rightarrow> u8 \<Rightarrow> u8 \<Rightarrow> u8 \<Rightarrow> u32) \<Rightarrow> (acl_rule \<Rightarrow> u32 \<Rightarrow> 't \<Rightarrow> int \<times> 't) \<Rightarrow> string \<Rightarrow> 't \<Rightarrow> app_error + 't" where
  "add_lines w IPv4 table_entry_add fh p =
    (case fgets LINE_MAX fh of
       None \<Rightarrow> Inr p
     | Some (buff, fh) \<Rightarrow>
         bindE (add_line w IPv4 table_entry_add (c_string buff) p) (add_lines w IPv4 table_entry_add fh))"
  by pat_completeness auto
termination
  by (relation "measure (\<lambda>(w, f, t, fh, p). length fh)") (auto simp: fgets_progress)

declare add_lines.simps [simp del]

definition add_table_entries ::
  "nat \<Rightarrow> (u8 \<Rightarrow> u8 \<Rightarrow> u8 \<Rightarrow> u8 \<Rightarrow> u32) \<Rightarrow> (acl_rule \<Rightarrow> u32 \<Rightarrow> 't \<Rightarrow> int \<times> 't) \<Rightarrow> string option \<Rightarrow> 't \<Rightarrow> app_error + 't" where
  "add_table_entries w IPv4 table_entry_add fopen p =
    (case fopen of None \<Rightarrow> Inl Rte_exit | Some fh \<Rightarrow> add_lines w IPv4 table_entry_add fh p)"

section \<open>A file of rules as it is written\<close>

type_synonym net_text = "nat \<times> nat \<times> nat \<times> nat \<times> nat"

record route =
  src_net :: net_text
  dst_net :: net_text
  src_ports :: "nat \<times> nat"
  dst_ports :: "nat \<times> nat"
  protocol :: "nat \<times> nat"
  hex_mask :: bool
  out_port :: nat
  gaps :: "string list"
  line_tail :: string

datatype rules_line = Comment string | Blank string | Route route

definition print_net :: "net_text \<Rightarrow> string" where
  "print_net n = (case n of (a, b, c, d, m) \<Rightarrow> print_ipv4_net a b c d m)"

definition print_range :: "char \<Rightarrow> nat \<times> nat \<Rightarrow> string" where
  "print_range c r = decimal (fst r) @ c # decimal (snd r)"

text \<open>The protocol and its mask, the mask in hexadecimal or in decimal notation.\<close>

definition print_protocol :: "bool \<Rightarrow> nat \<times> nat \<Rightarrow> string" where
  "print_protocol hex r = decimal (fst r) @ CHR ''/'' # (if hex then hexadecimal (snd r) else decimal (snd r))"

definition members :: "route \<Rightarrow> string list" where
  "members r = [''R'', print_net (src_net r), print_net (dst_net r), print_range (CHR '':'') (src_ports r),
     print_range (CHR '':'') (dst_ports r), print_protocol (hex_mask r) (protocol r), decimal (out_port r)]"

definition print_line :: "rules_line \<Rightarrow> string" where
  "print_line l = (case l of
     Comment s \<Rightarrow> CHR ''#'' # s @ [CHR 0x0A]
   | Blank s \<Rightarrow> s @ [CHR 0x0A]
   | Route r \<Rightarrow> concat (map (\<lambda>(m, g). m @ g) (zip (members r) (gaps r @ [line_tail r @ [CHR 0x0A]]))))"

definition blanks :: "string \<Rightarrow> bool" where
  "blanks s \<longleftrightarrow> list_all (\<lambda>c. c = CHR '' '' \<or> c = CHR 0x09) s"

definition text_ok :: "string \<Rightarrow> bool" where
  "text_ok s \<longleftrightarrow> CHR 0x0A \<notin> set s \<and> CHR 0x00 \<notin> set s"

definition net_ok :: "net_text \<Rightarrow> bool" where
  "net_ok n \<longleftrightarrow> (case n of (a, b, c, d, m) \<Rightarrow> a \<le> 255 \<and> b \<le> 255 \<and> c \<le> 255 \<and> d \<le> 255 \<and> m \<le> 32)"

text \<open>Ports have 16 bits, the protocol and its mask 8.\<close>

definition range_ok :: "nat \<Rightarrow> nat \<times> nat \<Rightarrow> bool" where
  "range_ok lim r \<longleftrightarrow> fst r \<le> lim \<and> snd r \<le> lim"

definition line_ok :: "rules_line \<Rightarrow> bool" where
  "line_ok l \<longleftrightarrow> length (print_line l) < LINE_MAX \<and> (case l of
     Comment s \<Rightarrow> text_ok s
   | Blank s \<Rightarrow> text_ok s \<and> list_all isspace s
   | Route r \<Rightarrow> net_ok (src_net r) \<and> net_ok (dst_net r) \<and> range_ok 65535 (src_ports r) \<and> range_ok 65535 (dst_ports r)
       \<and> range_ok 255 (protocol r) \<and> out_port r < 2 ^ 31 \<and> length (gaps r) = 6
       \<and> list_all (\<lambda>g. g \<noteq> [] \<and> blanks g) (gaps r) \<and> blanks (line_tail r))"

definition net_value :: "(u8 \<Rightarrow> u8 \<Rightarrow> u8 \<Rightarrow> u8 \<Rightarrow> u32) \<Rightarrow> net_text \<Rightarrow> u32 \<times> u32" where
  "net_value IPv4 n = (case n of (a, b, c, d, m) \<Rightarrow> (IPv4 (of_nat a) (of_nat b) (of_nat c) (of_nat d), of_nat m))"

definition line_rules :: "(u8 \<Rightarrow> u8 \<Rightarrow> u8 \<Rightarrow> u8 \<Rightarrow> u32) \<Rightarrow> rules_line \<Rightarrow> (acl_rule \<times> u32) list" where
  "line_rules IPv4 l = (case l of
     Route r \<Rightarrow> [(\<lparr>priority = 1, proto_value = of_nat (fst (protocol r)), proto_mask = of_nat (snd (protocol r)),
         src_value = fst (net_value IPv4 (src_net r)), src_len = snd (net_value IPv4 (src_net r)),
         dst_value = fst (net_value IPv4 (dst_net r)), dst_len = snd (net_value IPv4 (dst_net r)),
         srcp_lo = of_nat (fst (src_ports r)), srcp_hi = of_nat (snd (src_ports r)),
         dstp_lo = of_nat (fst (dst_ports r)), dstp_hi = of_nat (snd (dst_ports r))\<rparr>, of_nat (out_port r))]
   | _ \<Rightarrow> [])"

subsection \<open>Lines\<close>

lemma read_line_newline:
  assumes "CHR 0x0A \<notin> set s" "length s < n"
  shows "read_line n (s @ CHR 0x0A # rest) = (s @ [CHR 0x0A], rest)"
  using assms
proof (induction s arbitrary: n)
  case Nil
  then show ?case by (cases n) auto
next
  case (Cons c s)
  then obtain n' where n: "n = Suc n'" by (cases n) auto
  have "read_line n' (s @ CHR 0x0A # rest) = (s @ [CHR 0x0A], rest)" using Cons.IH[of n'] Cons.prems n by simp
  then show ?case using Cons.prems n by auto
qed

lemma fgets_newline:
  assumes "text_ok s" "length (s @ [CHR 0x0A]) < LINE_MAX"
  shows "fgets LINE_MAX (s @ CHR 0x0A # rest) = Some (s @ [CHR 0x0A], rest)"
  using read_line_newline[of s "LINE_MAX - 1" rest] assms by (simp add: fgets_def text_ok_def)

lemma c_string_ok: "text_ok s \<Longrightarrow> c_string (s @ [CHR 0x0A]) = s @ [CHR 0x0A]"
  by (auto simp: c_string_def text_ok_def takeWhile_append2)

subsection \<open>Members\<close>

lemma strtok_step:
  assumes "list_all dlm g" "m \<noteq> []" "list_all (\<lambda>c. \<not> dlm c) m" "dlm d"
  shows "strtok_r (g @ m @ d # rest) = Some (m, rest)"
proof -
  have "dropWhile dlm (g @ m @ d # rest) = m @ d # rest"
    using assms(1-3) by (cases m) (auto simp: list_all_iff dropWhile_append2)
  moreover have "takeWhile (\<lambda>c. \<not> dlm c) (m @ d # rest) = m" "dropWhile (\<lambda>c. \<not> dlm c) (m @ d # rest) = d # rest"
    using assms(3,4) by (auto simp: list_all_iff takeWhile_append2 dropWhile_append2)
  ultimately show ?thesis by (simp add: strtok_r_def Let_def)
qed

lemma parse_members:
  assumes "list_all dlm g0" "list_all (\<lambda>(m, g). m \<noteq> [] \<and> list_all (\<lambda>c. \<not> dlm c) m \<and> g \<noteq> [] \<and> list_all dlm g) ms"
  shows "parse_rule_members (g0 @ concat (map (\<lambda>(m, g). m @ g) ms)) (length ms) = map fst ms"
  using assms
proof (induction ms arbitrary: g0)
  case (Cons mg ms)
  obtain m g where mg: "mg = (m, g)" by fastforce
  obtain d g' where g: "g = d # g'" "dlm d" "list_all dlm g'" using Cons.prems mg by (cases g) auto
  have "strtok_r (g0 @ m @ d # g' @ concat (map (\<lambda>(m, g). m @ g) ms)) =
      Some (m, g' @ concat (map (\<lambda>(m, g). m @ g) ms))"
    using Cons.prems mg g by (intro strtok_step) auto
  then show ?case using Cons.IH[OF g(3)] Cons.prems mg g by simp
qed simp

definition clean :: "char \<Rightarrow> bool" where
  "clean c \<longleftrightarrow> \<not> dlm c \<and> c \<noteq> CHR 0x00"

lemma digits_clean: "is_digit 10 c \<Longrightarrow> clean c"
  by (auto simp: clean_def dlm_def is_digit_def digit_value_def)

lemma decimal_clean: "list_all clean (decimal n)"
  by (auto simp: list_all_iff intro: digits_clean decimal_digits)

lemma decimal_nonempty [simp]: "decimal n \<noteq> []"
  by (subst decimal.simps) simp

lemma hex_clean: "list_all clean (hexadecimal n)"
proof -
  have "is_digit 16 c \<Longrightarrow> clean c" for c by (auto simp: clean_def dlm_def is_digit_def digit_value_def)
  then show ?thesis using hex_digits_digits by (auto simp: hexadecimal_def list_all_iff clean_def dlm_def)
qed

lemma punctuation_clean: "clean CHR ''.''" "clean CHR ''/''" "clean CHR '':''" "clean CHR ''R''"
  by (simp_all add: clean_def dlm_def)

lemma members_clean: "m \<in> set (members r) \<Longrightarrow> m \<noteq> [] \<and> list_all clean m"
  by (auto simp: members_def print_net_def print_ipv4_net_def print_range_def print_protocol_def decimal_clean hex_clean
      punctuation_clean split: prod.splits)

subsection \<open>Rules\<close>

lemma parse_net:
  "8 \<le> w \<Longrightarrow> net_ok n \<Longrightarrow> parse_ipv4_net w IPv4 (print_net n) = Some (net_value IPv4 n)"
  by (auto simp: net_ok_def print_net_def net_value_def parse_print_ipv4 split: prod.splits)

lemma parse_range_print:
  assumes "32 \<le> w" "range_ok lim r" "lim \<le> 65535"
  shows "digit_value c = None \<Longrightarrow> parse_range w (print_range c r) c = Some (of_nat (fst r), of_nat (snd r))"
    "parse_range w (print_protocol hex r) (CHR ''/'') = Some (of_nat (fst r), of_nat (snd r))"
proof -
  have "(2 :: nat) ^ 32 \<le> 2 ^ w" using assms(1) by (intro power_increasing) simp_all
  then have le: "fst r < 2 ^ w" "snd r < 2 ^ w" "fst r \<le> 0xFFFFFFFF" "snd r \<le> 0xFFFFFFFF"
    using assms(2,3) by (auto simp: range_ok_def)
  show "parse_range w (print_range c r) c = Some (of_nat (fst r), of_nat (snd r))" if "digit_value c = None"
    using le that by (simp add: parse_range_def print_range_def field_decimal)
  have "digit_value CHR ''/'' = None" by (simp add: digit_value_def)
  then show "parse_range w (print_protocol hex r) (CHR ''/'') = Some (of_nat (fst r), of_nat (snd r))"
    using le by (simp add: parse_range_def print_protocol_def field_decimal field_hex)
qed

lemma scan_decimal_10: "scan_digits 10 0 (decimal n) = (n, [])"
  using scan_digits_append[of "decimal n" 10 0 "[]"] decimal_digits scan_decimal by simp

lemma atoi_decimal:
  assumes "n < 2 ^ 31"
  shows "atoi (decimal n) = Inr (int n)"
proof -
  obtain c cs where d: "decimal n = c # cs" by (metis decimal_nonempty neq_Nil_conv)
  then have "is_digit 10 c" using decimal_digits[of c n] by simp
  then have "\<not> isspace c" "c \<noteq> CHR ''-''" "c \<noteq> CHR ''+''" using digit_no_space by blast+
  then show ?thesis using d scan_decimal_10[of n] assms by (simp add: atoi_def Let_def)
qed

lemma route_members:
  assumes "line_ok (Route r)"
  shows "parse_rule_members (print_line (Route r)) ROUTE_ENTRY_LINE_MEMBERS = members r"
proof -
  let ?ms = "zip (members r) (gaps r @ [line_tail r @ [CHR 0x0A]])"
  have g: "length (gaps r) = 6" "list_all (\<lambda>g. g \<noteq> [] \<and> blanks g) (gaps r)" "blanks (line_tail r)"
    using assms by (simp_all add: line_ok_def)
  have len: "length (members r) = 7" by (simp add: members_def)
  have b: "blanks g \<Longrightarrow> list_all dlm g" for g
    unfolding blanks_def by (erule list.pred_mono_strong) (elim disjE; simp add: dlm_def)
  have nl: "dlm CHR 0x0A" by (simp add: dlm_def)
  have gs: "g \<noteq> [] \<and> list_all dlm g" if "g \<in> set (gaps r @ [line_tail r @ [CHR 0x0A]])" for g
  proof (cases "g \<in> set (gaps r)")
    case True
    then have "g \<noteq> [] \<and> blanks g" using g(2) unfolding list_all_iff by blast
    then show ?thesis using b by blast
  next
    case False
    then have "g = line_tail r @ [CHR 0x0A]" using that by simp
    then show ?thesis using b[OF g(3)] nl by simp
  qed
  have "list_all (\<lambda>(m, g). m \<noteq> [] \<and> list_all (\<lambda>c. \<not> dlm c) m \<and> g \<noteq> [] \<and> list_all dlm g) ?ms"
    unfolding list_all_iff
  proof (clarify)
    fix m g assume "(m, g) \<in> set ?ms"
    then have "m \<in> set (members r)" "g \<in> set (gaps r @ [line_tail r @ [CHR 0x0A]])" by (rule set_zip_leftD, rule set_zip_rightD)
    then show "m \<noteq> [] \<and> (\<forall>c\<in>set m. \<not> dlm c) \<and> g \<noteq> [] \<and> (\<forall>c\<in>set g. dlm c)"
      using members_clean[of m r] gs[of g] by (simp add: list_all_iff clean_def)
  qed
  from parse_members[OF _ this, of "[]"] show ?thesis using len g by (simp add: print_line_def xconst)
qed

lemma list_of_6: "length xs = 6 \<Longrightarrow> \<exists>a b c d e f. xs = [a, b, c, d, e, f]"
  by (simp add: eval_nat_numeral length_Suc_conv) blast

lemma route_text:
  assumes "line_ok (Route r)"
  obtains s where "print_line (Route r) = CHR ''R'' # s @ [CHR 0x0A]" "text_ok s"
proof -
  have g: "length (gaps r) = 6" "list_all (\<lambda>g. g \<noteq> [] \<and> blanks g) (gaps r)" "blanks (line_tail r)"
    using assms by (simp_all add: line_ok_def)
  obtain g1 g2 g3 g4 g5 g6 where gs: "gaps r = [g1, g2, g3, g4, g5, g6]" using list_of_6[OF g(1)] by blast
  have ok: "text_ok s" if "list_all (\<lambda>c. c \<noteq> CHR 0x0A \<and> c \<noteq> CHR 0x00) s" for s
    using that unfolding text_ok_def list_all_iff by blast
  have b: "blanks g \<Longrightarrow> text_ok g" for g
    unfolding blanks_def by (rule ok, erule list.pred_mono_strong) (elim disjE; simp)
  have "clean c \<Longrightarrow> c \<noteq> CHR 0x0A \<and> c \<noteq> CHR 0x00" for c unfolding clean_def dlm_def by force
  then have c: "list_all clean m \<Longrightarrow> text_ok m" for m
    unfolding list_all_iff[of clean] by (intro ok) (simp add: list_all_iff)
  have t: "text_ok (x @ y) \<longleftrightarrow> text_ok x \<and> text_ok y" for x y by (auto simp: text_ok_def)
  let ?s = "g1 @ concat (map (\<lambda>(m, g). m @ g) (zip (tl (members r)) ([g2, g3, g4, g5, g6, line_tail r])))"
  have "print_line (Route r) = CHR ''R'' # ?s @ [CHR 0x0A]" by (simp add: print_line_def gs members_def)
  moreover have "text_ok ?s"
    using g members_clean[of _ r] by (simp add: gs members_def t b c)
  ultimately show thesis by (rule that)
qed

lemma add_route_printed:
  assumes "line_ok (Route r)" "32 \<le> w" "line_rules IPv4 (Route r) = [(rule, port)]" "0 \<le> fst (add rule port p)"
  shows "add_route_rule w IPv4 add (print_line (Route r)) p = Inr (snd (add rule port p))"
proof -
  have "8 \<le> w" using assms(2) by simp
  note parse = parse_net[OF this] parse_range_print(1)[OF assms(2), where lim = 65535] parse_range_print(2)[OF assms(2), where lim = 255] atoi_decimal
  have ok: "net_ok (src_net r)" "net_ok (dst_net r)" "range_ok 65535 (src_ports r)" "range_ok 65535 (dst_ports r)" "range_ok 255 (protocol r)"
    "out_port r < 2 ^ 31"
    using assms(1) by (simp_all add: line_ok_def)
  have d: "digit_value CHR '':'' = None" "digit_value CHR ''/'' = None" by (simp_all add: digit_value_def)
  have u: "(ucast (of_nat n :: u32) :: u8) = of_nat n" "(ucast (of_nat n :: u32) :: u16) = of_nat n" for n
    by (rule bit_word_eqI, simp add: bit_simps)+
  have m: "member_of (members r) (Suc 0) = Inr (print_net (src_net r))" "member_of (members r) 2 = Inr (print_net (dst_net r))"
    "member_of (members r) 3 = Inr (print_range (CHR '':'') (src_ports r))" "member_of (members r) 4 = Inr (print_range (CHR '':'') (dst_ports r))"
    "member_of (members r) 5 = Inr (print_protocol (hex_mask r) (protocol r))" "member_of (members r) 6 = Inr (decimal (out_port r))"
    by (simp_all add: member_of_def members_def)
  show ?thesis
    using ok d m assms(3,4)
    by (simp add: add_route_rule_def route_members[OF assms(1)] parse assign_def read_locals_def line_rules_def Let_def split_beta u
        ROUTE_ENTRY_PRIORITY_def del: bindE_eq_Inr)
qed

subsection \<open>The file\<close>

lemma line_text:
  assumes "line_ok l"
  obtains s where "print_line l = s @ [CHR 0x0A]" "text_ok s" "length (s @ [CHR 0x0A]) < LINE_MAX"
proof (cases l)
  case (Route r)
  with assms obtain s where "print_line l = CHR ''R'' # s @ [CHR 0x0A]" "text_ok s" using route_text[of r] by metis
  then show thesis using assms that[of "CHR ''R'' # s"] by (simp add: text_ok_def line_ok_def)
next
  case (Comment s)
  then show thesis using assms that[of "CHR ''#'' # s"] by (simp add: text_ok_def line_ok_def print_line_def)
qed (use assms that in \<open>simp add: text_ok_def line_ok_def print_line_def\<close>)

definition load_rules :: "(acl_rule \<Rightarrow> u32 \<Rightarrow> 't \<Rightarrow> int \<times> 't) \<Rightarrow> (acl_rule \<times> u32) list \<Rightarrow> 't \<Rightarrow> 't" where
  "load_rules add rs p = fold (\<lambda>(rule, port) p. snd (add rule port p)) rs p"

lemma add_line_printed:
  assumes "line_ok l" "32 \<le> w" "\<forall>rule port p. 0 \<le> fst (add rule port p)"
  shows "add_line w IPv4 add (print_line l) p = Inr (load_rules add (line_rules IPv4 l) p)"
proof (cases l)
  case (Route r)
  obtain rule port where lr: "line_rules IPv4 (Route r) = [(rule, port)]" by (simp add: line_rules_def)
  obtain s where s: "print_line (Route r) = CHR ''R'' # s @ [CHR 0x0A]" using assms(1) Route route_text by metis
  then have "\<not> is_bypass_line (print_line (Route r))" "hd (print_line (Route r)) = ROUTE_LEAD_CHAR"
    by (simp_all add: is_bypass_line_def xconst isspace_def)
  then show ?thesis
    using add_route_printed[of r w IPv4 rule port add p] assms Route lr by (simp add: add_line_def load_rules_def)
qed (use assms in \<open>auto simp: add_line_def is_bypass_line_def print_line_def line_ok_def line_rules_def load_rules_def xconst isspace_def\<close>)

lemma add_lines_printed:
  assumes "list_all line_ok ls" "32 \<le> w" "\<forall>rule port p. 0 \<le> fst (add rule port p)"
  shows "add_lines w IPv4 add (concat (map print_line ls) @ rest) p =
    add_lines w IPv4 add rest (load_rules add (concat (map (line_rules IPv4) ls)) p)"
  using assms(1)
proof (induction ls arbitrary: p)
  case (Cons l ls)
  then obtain s where s: "print_line l = s @ [CHR 0x0A]" "text_ok s" "length (s @ [CHR 0x0A]) < LINE_MAX"
    using line_text[of l] by auto
  have "fgets LINE_MAX (concat (map print_line (l # ls)) @ rest) = Some (print_line l, concat (map print_line ls) @ rest)"
    using fgets_newline[OF s(2,3)] s(1) by simp
  moreover have "c_string (print_line l) = print_line l" using c_string_ok[OF s(2)] s(1) by simp
  ultimately have "add_lines w IPv4 add (concat (map print_line (l # ls)) @ rest) p =
      add_lines w IPv4 add (concat (map print_line ls) @ rest) (load_rules add (line_rules IPv4 l) p)"
    using add_line_printed[of l w add IPv4 p] Cons.prems assms(2,3) by (subst add_lines.simps) simp
  also have "\<dots> = add_lines w IPv4 add rest (load_rules add (concat (map (line_rules IPv4) (l # ls))) p)"
    using Cons by (simp add: load_rules_def)
  finally show ?case .
qed (simp add: load_rules_def)

lemma add_lines_end: "add_lines w IPv4 add [] p = Inr p"
  by (subst add_lines.simps) (simp add: fgets_def)

lemma illegal_line:
  assumes "\<not> isspace c" "c \<notin> {CHR ''R'', CHR ''@'', CHR ''#'', CHR 0x00}"
  shows "add_lines w IPv4 add (c # s) p = Inl Rte_exit"
proof -
  have "c \<noteq> CHR 0x0A" using assms(1) by (auto simp: isspace_def)
  then obtain l r where "fgets LINE_MAX (c # s) = Some (c # l, r)"
    by (cases "read_line 2046 s") (simp add: fgets_def xconst eval_nat_numeral)
  then show ?thesis using assms
    by (subst add_lines.simps) (simp add: c_string_def add_line_def is_bypass_line_def xconst)
qed

text \<open>
  C6: A file of route rules is loaded as it is written. Whatever comments, blank lines and route rules it has, in any order and with
  any blanks between the members, the table gets exactly the rules, in the order of the file, with their networks, their port ranges,
  their protocol and mask, in decimal or hexadecimal notation, and their output port, at the priority of routes; and the first line of
  any other form ends the program, whatever was loaded before it and whatever follows. (Drop rules, the lines with an \<open>@\<close>, are not
  part of such a file: the loader accepts them and does nothing.)
\<close>

theorem rules_loaded:
  assumes "list_all line_ok ls" and "32 \<le> w" and "\<forall>rule port p. 0 \<le> fst (add rule port p)"
  shows "add_table_entries w IPv4 add (Some (concat (map print_line ls))) p =
      Inr (load_rules add (concat (map (line_rules IPv4) ls)) p)
    \<and> (\<forall>c s. \<not> isspace c \<and> c \<notin> {CHR ''R'', CHR ''@'', CHR ''#'', CHR 0x00} \<longrightarrow>
         add_table_entries w IPv4 add (Some (concat (map print_line ls) @ c # s)) p = Inl Rte_exit)"
  using add_lines_printed[OF assms, of IPv4 "[]" p] add_lines_printed[OF assms, of IPv4 _ p]
  by (simp add: add_table_entries_def add_lines_end illegal_line)

text \<open>The file \<^verbatim>\<open>rules.conf\<close> of the router, line by line: routes to the subnets of the two ports.\<close>

definition subnet_route :: "nat \<Rightarrow> nat \<Rightarrow> route" where
  "subnet_route c port = \<lparr>src_net = (0, 0, 0, 0, 0), dst_net = (192, 168, c, 0, 24), src_ports = (0, 65535),
     dst_ports = (0, 65535), protocol = (0, 0), hex_mask = True, out_port = port,
     gaps = [[CHR 0x09], [CHR 0x09, CHR 0x09], [CHR 0x09], [CHR 0x09, CHR 0x09], [CHR 0x09, CHR 0x09], [CHR 0x09, CHR 0x09]],
     line_tail = []\<rparr>"

definition rules_conf :: "rules_line list" where
  "rules_conf = [
    Comment ('' R - Route rule (forward), lower priority''),
    Comment ('' @ - ACL rule (drop), higher priority''),
    Comment ('' # - Comment''),
    Comment ('' '' @ [CHR 0x09] @ ''src_addr'' @ [CHR 0x09] @ [CHR 0x09] @ ''dst_addr'' @ [CHR 0x09] @ [CHR 0x09] @ ''src_port'' @ [CHR 0x09] @ ''dst_port'' @ [CHR 0x09] @ ''protocol'' @ [CHR 0x09] @ ''port (R only)''),
    Blank [],
    Comment ('' All requests to 192.168.4.44 -> port 1''),
    Route (subnet_route 4 1),
    Comment ('' All requests to 192.168.3.33 -> port 0''),
    Route (subnet_route 3 0),
    Blank []]"

definition subnet_rule :: "u32 \<Rightarrow> acl_rule" where
  "subnet_rule dst = \<lparr>priority = 1, proto_value = 0, proto_mask = 0, src_value = 0, src_len = 0, dst_value = dst, dst_len = 24,
     srcp_lo = 0, srcp_hi = 65535, dstp_lo = 0, dstp_hi = 65535\<rparr>"

lemma decimal_digits_of: "decimal 1 = ''1''" "decimal 3 = ''3''" "decimal 4 = ''4''" "decimal 24 = ''24''" "decimal 168 = ''168''"
  "decimal 192 = ''192''" "decimal 65535 = ''65535''"
  by (simp_all add: decimal.simps char_of_def bit_numeral_rec bit_Suc_0_iff)

lemma hex_0: "hexadecimal 0 = ''0x0''"
  by (simp add: hexadecimal_def hex_digits.simps hex_char_def char_of_def bit_Suc_0_iff)

lemma subnet_route_text: "print_line (Route (subnet_route 4 1)) =
    ''R'' @ [CHR 0x09] @ ''0.0.0.0/0'' @ [CHR 0x09, CHR 0x09] @ ''192.168.4.0/24'' @ [CHR 0x09] @ ''0:65535'' @ [CHR 0x09, CHR 0x09]
      @ ''0:65535'' @ [CHR 0x09, CHR 0x09] @ ''0/0x0'' @ [CHR 0x09, CHR 0x09] @ ''1'' @ [CHR 0x0A]"
  by (simp add: print_line_def members_def subnet_route_def print_net_def print_ipv4_net_def print_range_def print_protocol_def hex_0 decimal_digits_of[simplified])

lemma rules_conf_ok: "list_all line_ok rules_conf"
  by (simp add: rules_conf_def line_ok_def subnet_route_def print_line_def members_def print_net_def print_ipv4_net_def print_range_def
      print_protocol_def hex_0 decimal_digits_of[simplified] net_ok_def range_ok_def blanks_def text_ok_def xconst)

theorem rules_loaded_witness:
  "add_table_entries 32 dotted (\<lambda>rule port t. (0, t @ [(rule, port)])) (Some (concat (map print_line rules_conf))) [] =
    Inr [(subnet_rule 0xC0A80400, 1), (subnet_rule 0xC0A80300, 0)]"
proof -
  have "concat (map (line_rules dotted) rules_conf) = [(subnet_rule 0xC0A80400, 1), (subnet_rule 0xC0A80300, 0)]"
    by (simp add: rules_conf_def line_rules_def subnet_route_def subnet_rule_def net_value_def dotted_def)
  then show ?thesis
    using rules_loaded[OF rules_conf_ok, of 32 "\<lambda>rule port t. (0, t @ [(rule, port)])" dotted "[]"] by (simp add: load_rules_def)
qed

text \<open>
  The results of the parsers are not looked at. A rule whose destination does not parse keeps the source network of the same line as
  its destination; a rule whose source does not parse, or that lacks a member, uses what was never set.
\<close>

lemma bad_destination_keeps_source:
  assumes "parse_rule_members buff 7 = [r, s, d, sp, dp, pr, out]" "parse_ipv4_net w IPv4 s = Some (addr, len)"
    "parse_ipv4_net w IPv4 d = None" "parse_range w sp (CHR '':'') = Some (a, b)" "parse_range w dp (CHR '':'') = Some (a', b')"
    "parse_range w pr (CHR ''/'') = Some (a'', b'')" "atoi out = Inr port"
    "add_route_rule w IPv4 (\<lambda>rule port t. (0, t @ [(rule, port)])) buff [] = Inr t"
  shows "dst_value (fst (hd t)) = addr \<and> dst_len (fst (hd t)) = len"
  using assms by (auto simp: add_route_rule_def xconst member_of_def assign_def read_locals_def Let_def)

lemma short_line_undefined:
  "length (parse_rule_members buff 7) < 7 \<Longrightarrow> add_route_rule w IPv4 add buff p = Inl Uninit"
  by (simp add: add_route_rule_def xconst member_of_def)

end
