(* ===== verification/Router_Packets.thy ===== *)
theory Router_Packets
  imports Router_Text
begin

text \<open>
  The packets the router answers or rewrites itself: ARP replies and ICMP echo replies of \<^verbatim>\<open>runtime.c\<close> and the change of MAC
  addresses of \<^verbatim>\<open>pipeline_acl.c\<close>. The bytes of a packet are a function of their offset from \<^verbatim>\<open>rte_pktmbuf_mtod\<close>; loads and
  stores are those of the little-endian machine. The structures of DPDK are not part of the sources: their offsets and sizes, the
  constants of its headers, its byte-order functions and \<^verbatim>\<open>ether_addr_copy\<close> are the parameter \<open>D\<close>, and what is documented
  of them (the layout of the Ethernet, ARP and IPv4 headers and the network byte order) is the predicate \<open>wire_format\<close>. The ICMP
  header is the one of \<^verbatim>\<open>main.h\<close>.
\<close>

section \<open>Bytes of a packet\<close>

type_synonym bytes = "nat \<Rightarrow> u8"

definition rd16 :: "bytes \<Rightarrow> nat \<Rightarrow> u16" where
  "rd16 d p = ucast (d p) OR push_bit 8 (ucast (d (p + 1)))"

definition rd32 :: "bytes \<Rightarrow> nat \<Rightarrow> u32" where
  "rd32 d p = ucast (d p) OR push_bit 8 (ucast (d (p + 1))) OR push_bit 16 (ucast (d (p + 2))) OR push_bit 24 (ucast (d (p + 3)))"

definition wr_bytes :: "bytes \<Rightarrow> nat \<Rightarrow> u8 list \<Rightarrow> bytes" where
  "wr_bytes d p bs = (\<lambda>q. if p \<le> q \<and> q < p + length bs then bs ! (q - p) else d q)"

definition rd_bytes :: "bytes \<Rightarrow> nat \<Rightarrow> nat \<Rightarrow> u8 list" where
  "rd_bytes d p n = map d [p..<p + n]"

definition le_bytes :: "nat \<Rightarrow> 'w::len word \<Rightarrow> u8 list" where
  "le_bytes n v = map (\<lambda>i. ucast (drop_bit (8 * i) v)) [0..<n]"

definition wr16 :: "bytes \<Rightarrow> nat \<Rightarrow> u16 \<Rightarrow> bytes" where "wr16 d p v = wr_bytes d p (le_bytes 2 v)"
definition wr32 :: "bytes \<Rightarrow> nat \<Rightarrow> u32 \<Rightarrow> bytes" where "wr32 d p v = wr_bytes d p (le_bytes 4 v)"
definition wr64 :: "bytes \<Rightarrow> nat \<Rightarrow> u64 \<Rightarrow> bytes" where "wr64 d p v = wr_bytes d p (le_bytes 8 v)"

section \<open>What DPDK provides\<close>

record dpdk =
  sizeof_ether_hdr :: nat
  d_addr :: nat
  s_addr :: nat
  ether_type :: nat
  sizeof_ipv4_hdr :: nat
  next_proto_id :: nat
  src_addr :: nat
  dst_addr :: nat
  sizeof_arp_hdr :: nat
  arp_hrd :: nat
  arp_pro :: nat
  arp_hln :: nat
  arp_pln :: nat
  arp_op :: nat
  arp_sha :: nat
  arp_sip :: nat
  arp_tha :: nat
  arp_tip :: nat
  ETHER_TYPE_ARP :: u16
  ETHER_TYPE_IPv4 :: u16
  ETHER_ADDR_LEN :: u8
  ARP_HRD_ETHER :: u16
  ARP_OP_REPLY :: u32
  rte_cpu_to_be_16 :: "u16 \<Rightarrow> u16"
  rte_be_to_cpu_32 :: "u32 \<Rightarrow> u32"
  rte_cpu_to_be_32 :: "u32 \<Rightarrow> u32"
  ether_addr_copy :: "u8 list \<Rightarrow> bytes \<Rightarrow> nat \<Rightarrow> bytes"
  RTE_ETH_IS_IPV4_HDR :: "u32 \<Rightarrow> bool"

definition swap16 :: "u16 \<Rightarrow> u16" where
  "swap16 v = push_bit 8 v OR drop_bit 8 v"

definition swap32 :: "u32 \<Rightarrow> u32" where
  "swap32 v = push_bit 24 v OR push_bit 8 (v AND 0xFF00) OR drop_bit 8 v AND 0xFF00 OR drop_bit 24 v"

definition wire_format :: "dpdk \<Rightarrow> bool" where
  "wire_format D \<longleftrightarrow>
     sizeof_ether_hdr D = 14 \<and> d_addr D = 0 \<and> s_addr D = 6 \<and> ether_type D = 12
   \<and> sizeof_ipv4_hdr D = 20 \<and> next_proto_id D = 9 \<and> src_addr D = 12 \<and> dst_addr D = 16
   \<and> sizeof_arp_hdr D = 28 \<and> arp_hrd D = 0 \<and> arp_pro D = 2 \<and> arp_hln D = 4 \<and> arp_pln D = 5 \<and> arp_op D = 6
   \<and> arp_sha D = 8 \<and> arp_sip D = 14 \<and> arp_tha D = 18 \<and> arp_tip D = 24
   \<and> ETHER_TYPE_ARP D = 0x0806 \<and> ETHER_TYPE_IPv4 D = 0x0800 \<and> ETHER_ADDR_LEN D = 6 \<and> ARP_HRD_ETHER D = 1 \<and> ARP_OP_REPLY D = 2
   \<and> rte_cpu_to_be_16 D = swap16 \<and> rte_be_to_cpu_32 D = swap32 \<and> rte_cpu_to_be_32 D = swap32
   \<and> (\<forall>a d p. length a = 6 \<longrightarrow> ether_addr_copy D a d p = wr_bytes d p a)"

section \<open>The operations\<close>

definition icmp_type :: nat where [xconst]: "icmp_type = 0"
definition icmp_code :: nat where [xconst]: "icmp_code = 1"
definition icmp_cksum :: nat where [xconst]: "icmp_cksum = 2"
definition IP_ICMP_ECHO_REPLY :: u8 where [xconst]: "IP_ICMP_ECHO_REPLY = 0"
definition IP_ICMP_ECHO_REQUEST :: u8 where [xconst]: "IP_ICMP_ECHO_REQUEST = 8"
definition IPPROTO_ICMP :: u8 where [xconst]: "IPPROTO_ICMP = 1"

definition RTE_BE_TO_CPU_16 :: "u16 \<Rightarrow> u16" where
  "RTE_BE_TO_CPU_16 be_16_v = push_bit 8 (be_16_v AND 0xFF) OR drop_bit 8 be_16_v"

definition htons :: "u16 \<Rightarrow> u16" where
  "htons v = swap16 v"

definition ether_addr :: "bytes \<Rightarrow> nat \<Rightarrow> u8 list" where
  "ether_addr d p = rd_bytes d p 6"

definition initialize_arp_header ::
  "dpdk \<Rightarrow> bytes \<Rightarrow> nat \<Rightarrow> u8 list \<Rightarrow> u8 list \<Rightarrow> u32 \<Rightarrow> u32 \<Rightarrow> u32 \<Rightarrow> bytes" where
  "initialize_arp_header D d arp_hdr src_mac dst_mac src_ip dst_ip opcode =
    (let d = wr16 d (arp_hdr + arp_hrd D) (rte_cpu_to_be_16 D (ARP_HRD_ETHER D));
         d = wr16 d (arp_hdr + arp_pro D) (rte_cpu_to_be_16 D (ETHER_TYPE_IPv4 D));
         d = wr_bytes d (arp_hdr + arp_hln D) [ETHER_ADDR_LEN D];
         d = wr_bytes d (arp_hdr + arp_pln D) [4];
         d = wr16 d (arp_hdr + arp_op D) (rte_cpu_to_be_16 D (ucast opcode));
         d = ether_addr_copy D src_mac d (arp_hdr + arp_sha D);
         d = wr32 d (arp_hdr + arp_sip D) src_ip;
         d = ether_addr_copy D dst_mac d (arp_hdr + arp_tha D)
     in wr32 d (arp_hdr + arp_tip D) dst_ip)"

definition initialize_eth_header :: "dpdk \<Rightarrow> bytes \<Rightarrow> nat \<Rightarrow> u8 list \<Rightarrow> u8 list \<Rightarrow> u16 \<Rightarrow> bytes" where
  "initialize_eth_header D d eth_hdr src_mac dst_mac ethtype =
    (let d = ether_addr_copy D dst_mac d (eth_hdr + d_addr D);
         d = ether_addr_copy D src_mac d (eth_hdr + s_addr D)
     in wr16 d (eth_hdr + ether_type D) (rte_cpu_to_be_16 D ethtype))"

text \<open>The address of a port: \<^verbatim>\<open>struct ip_port_conf\<close>, with the address in network order.\<close>

record ip_port_conf =
  port_id :: u8
  ip :: u32
  mac_addr :: "u8 list"

text \<open>The frame built in a new buffer \<open>pkt\<close> for an ARP packet \<open>m\<close>, and its length.\<close>

definition arp_reply :: "dpdk \<Rightarrow> ip_port_conf \<Rightarrow> bytes \<Rightarrow> bytes \<Rightarrow> bytes \<times> nat" where
  "arp_reply D c m pkt =
    (let pkt_size = sizeof_ether_hdr D + sizeof_arp_hdr D;
         pkt = initialize_eth_header D pkt 0 (mac_addr c) (ether_addr m (s_addr D)) (ETHER_TYPE_ARP D);
         ip_dst = rd32 m (sizeof_ether_hdr D + arp_sip D)
     in (initialize_arp_header D pkt (sizeof_ether_hdr D) (mac_addr c) (ether_addr m (s_addr D)) (ip c) ip_dst (ARP_OP_REPLY D), pkt_size))"

definition is_arp :: "dpdk \<Rightarrow> bytes \<Rightarrow> bool" where
  "is_arp D m \<longleftrightarrow> RTE_BE_TO_CPU_16 (rd16 m (ether_type D)) = ETHER_TYPE_ARP D"

definition ip_h :: "dpdk \<Rightarrow> nat" where "ip_h D = sizeof_ether_hdr D"
definition icmp_h :: "dpdk \<Rightarrow> nat" where "icmp_h D = ip_h D + sizeof_ipv4_hdr D"

definition is_echo_request :: "dpdk \<Rightarrow> bytes \<Rightarrow> bool" where
  "is_echo_request D m \<longleftrightarrow> m (ip_h D + next_proto_id D) = IPPROTO_ICMP
     \<and> m (icmp_h D + icmp_type) = IP_ICMP_ECHO_REQUEST \<and> m (icmp_h D + icmp_code) = 0"

definition echo_cksum :: "u16 \<Rightarrow> u16" where
  "echo_cksum ck =
    (let cksum = NOT (ucast ck :: u32) AND 0xFFFF;
         cksum = cksum + (NOT (ucast (htons (push_bit 8 (ucast IP_ICMP_ECHO_REQUEST)))) AND 0xFFFF);
         cksum = cksum + ucast (htons (push_bit 8 (ucast IP_ICMP_ECHO_REPLY)));
         cksum = (cksum AND 0xFFFF) + drop_bit 16 cksum;
         cksum = (cksum AND 0xFFFF) + drop_bit 16 cksum
     in ucast (NOT cksum))"

definition echo_reply :: "dpdk \<Rightarrow> bytes \<Rightarrow> bytes" where
  "echo_reply D m =
    (let eth_addr = ether_addr m (s_addr D);
         m = ether_addr_copy D (ether_addr m (d_addr D)) m (s_addr D);
         m = ether_addr_copy D eth_addr m (d_addr D);
         ip_addr = rd32 m (ip_h D + src_addr D);
         m = wr32 m (ip_h D + src_addr D) (rd32 m (ip_h D + dst_addr D));
         m = wr32 m (ip_h D + dst_addr D) ip_addr;
         m = wr_bytes m (icmp_h D + icmp_type) [IP_ICMP_ECHO_REPLY]
     in wr16 m (icmp_h D + icmp_cksum) (echo_cksum (rd16 m (icmp_h D + icmp_cksum))))"

definition dell_macaddr_dst :: u64 where [xconst]: "dell_macaddr_dst = 0xdab02101bfa4"
definition acer_macaddr_dst :: u64 where [xconst]: "acer_macaddr_dst = 0x3bac2101bfa4"

text \<open>
  The entry of \<^verbatim>\<open>app.ip_ports\<close>, an array of two pointers, and the handler of a table hit on its first packet, which came in on \<open>port\<close>.
\<close>

definition ip_port :: "ip_port_conf option list \<Rightarrow> nat \<Rightarrow> app_error + ip_port_conf" where
  "ip_port cs i = (if i < length cs then case cs ! i of Some c \<Rightarrow> Inr c | None \<Rightarrow> Inl Uninit else Inl Uninit)"

definition overwrite_mac :: "dpdk \<Rightarrow> ip_port_conf option list \<Rightarrow> u8 \<Rightarrow> u64 \<Rightarrow> bytes \<Rightarrow> app_error + bytes" where
  "overwrite_mac D ip_ports port macaddr_dst m =
    (let m = wr64 m (d_addr D) macaddr_dst in
     bindE (ip_port ip_ports (unat (port XOR 1))) (\<lambda>c.
     Inr (ether_addr_copy D (mac_addr c) m (s_addr D))))"

definition update_pkt_macaddr :: "dpdk \<Rightarrow> ip_port_conf option list \<Rightarrow> u32 \<Rightarrow> u8 \<Rightarrow> bytes \<Rightarrow> app_error + bytes" where
  "update_pkt_macaddr D ip_ports packet_type port m =
    (if RTE_ETH_IS_IPV4_HDR D packet_type then
       let ip_dst = rte_be_to_cpu_32 D (rd32 m (ip_h D + dst_addr D)) in
       if ip_dst = 0xc0a80321 then overwrite_mac D ip_ports port acer_macaddr_dst m
       else if ip_dst = 0xc0a8042c then overwrite_mac D ip_ports port dell_macaddr_dst m
       else Inr m
     else Inr m)"

section \<open>Reading what was written\<close>

lemma length_le_bytes [simp]: "length (le_bytes n v) = n"
  by (simp add: le_bytes_def)

lemma rd_bytes_split: "n \<le> k \<Longrightarrow> rd_bytes d p k = rd_bytes d p n @ rd_bytes d (p + n) (k - n)"
  using upt_add_eq_append[of p "p + n" "k - n"] by (simp add: rd_bytes_def)

lemma rd_wr_same: "n = length bs \<Longrightarrow> rd_bytes (wr_bytes d p bs) p n = bs"
  by (rule nth_equalityI) (simp_all add: rd_bytes_def wr_bytes_def)

lemma rd_wr_other: "q + n \<le> p \<or> p + length bs \<le> q \<Longrightarrow> rd_bytes (wr_bytes d p bs) q n = rd_bytes d q n"
  by (auto simp: rd_bytes_def wr_bytes_def)

lemma wr_bytes_get: "wr_bytes d p bs q = (if p \<le> q \<and> q < p + length bs then bs ! (q - p) else d q)"
  by (simp add: wr_bytes_def)

lemma length_rd_bytes [simp]: "length (rd_bytes d p n) = n"
  by (simp add: rd_bytes_def)

lemma length_ether_addr [simp]: "length (ether_addr d p) = 6"
  by (simp add: ether_addr_def)

lemma rd_bytes_4: "rd_bytes d p 4 = [d p, d (p + 1), d (p + 2), d (p + 3)]"
  by (simp add: rd_bytes_def upt_rec eval_nat_numeral)

lemma le_bytes_4: "le_bytes 4 v = [ucast v, ucast (drop_bit 8 v), ucast (drop_bit 16 v), ucast (drop_bit 24 v)]"
  by (simp add: le_bytes_def upt_rec)

lemma rd32_le: "le_bytes 4 (rd32 d p) = rd_bytes d p 4"
proof -
  have "(ucast (rd32 d p) :: u8) = d p" "(ucast (drop_bit 8 (rd32 d p)) :: u8) = d (p + 1)"
    "(ucast (drop_bit 16 (rd32 d p)) :: u8) = d (p + 2)" "(ucast (drop_bit 24 (rd32 d p)) :: u8) = d (p + 3)"
    by (rule bit_word_eqI, auto simp: rd32_def bit_simps dest: bit_imp_le_length)+
  then show ?thesis unfolding rd_bytes_4 le_bytes_4 by simp
qed

lemma rd32_cong: "rd_bytes d p 4 = rd_bytes d' q 4 \<Longrightarrow> rd32 d p = rd32 d' q"
  unfolding rd_bytes_4 by (simp add: rd32_def)

lemma wire_consts:
  assumes "wire_format D"
  shows "sizeof_ether_hdr D = 14" "d_addr D = 0" "s_addr D = 6" "ether_type D = 12" "sizeof_ipv4_hdr D = 20" "next_proto_id D = 9"
    "src_addr D = 12" "dst_addr D = 16" "ip_h D = 14" "icmp_h D = 34" "rte_be_to_cpu_32 D = swap32"
  using assms by (simp_all add: wire_format_def ip_h_def icmp_h_def)

lemma wire_copy: "wire_format D \<Longrightarrow> length a = 6 \<Longrightarrow> ether_addr_copy D a d p = wr_bytes d p a"
  by (simp add: wire_format_def)

section \<open>ARP\<close>

lemma swapped_words: "le_bytes 2 (swap16 1) = [0, 1]" "le_bytes 2 (swap16 2) = [0, 2]" "le_bytes 2 (swap16 0x800) = [8, 0]"
  "le_bytes 2 (swap16 0x806) = [8, 6]"
  by (simp_all add: le_bytes_def swap16_def upt_rec)

lemma rd_bytes_parts: "rd_bytes d 0 42 = rd_bytes d 0 6 @ rd_bytes d 6 6 @ rd_bytes d 12 2 @ rd_bytes d 14 2 @ rd_bytes d 16 2
    @ rd_bytes d 18 1 @ rd_bytes d 19 1 @ rd_bytes d 20 2 @ rd_bytes d 22 6 @ rd_bytes d 28 4 @ rd_bytes d 32 6 @ rd_bytes d 38 4"
  using rd_bytes_split[of 6 42 d 0] rd_bytes_split[of 6 36 d 6] rd_bytes_split[of 2 30 d 12] rd_bytes_split[of 2 28 d 14]
    rd_bytes_split[of 2 26 d 16] rd_bytes_split[of 1 24 d 18] rd_bytes_split[of 1 23 d 19] rd_bytes_split[of 2 22 d 20]
    rd_bytes_split[of 6 20 d 22] rd_bytes_split[of 4 14 d 28] rd_bytes_split[of 6 10 d 32]
  by simp

text \<open>
  C8: The answer to an ARP packet, byte for byte. Whatever was in the new buffer, the frame has 42 bytes: the sender of
  the request as the destination, the port as the source, the type of ARP, an Ethernet and IPv4 reply, the port's hardware and protocol
  address as the sender and those of the requester as the target.
\<close>

theorem arp_reply_wire:
  assumes "wire_format D" and "length (mac_addr c) = 6"
  shows "snd (arp_reply D c m pkt) = 42
    \<and> rd_bytes (fst (arp_reply D c m pkt)) 0 42 =
      ether_addr m 6 @ mac_addr c @ [8, 6] @ [0, 1] @ [8, 0] @ [6, 4] @ [0, 2] @ mac_addr c @ le_bytes 4 (ip c)
      @ ether_addr m 6 @ rd_bytes m 28 4"
  using assms
  by (simp add: arp_reply_def initialize_eth_header_def initialize_arp_header_def wire_format_def Let_def wr16_def wr32_def
      rd_bytes_parts rd_wr_same rd_wr_other rd32_le swapped_words)

section \<open>The Internet checksum\<close>

text \<open>The reference, RFC 1071: the one's complement sum of the 16-bit words in network order, an odd byte padded with zero.\<close>

fun net_words :: "u8 list \<Rightarrow> nat list" where
  "net_words [] = []"
| "net_words [a] = [256 * unat a]"
| "net_words (a # b # bs) = (256 * unat a + unat b) # net_words bs"

definition carry_add :: "nat \<Rightarrow> nat \<Rightarrow> nat" where
  "carry_add s x = (s + x) mod 2 ^ 16 + (s + x) div 2 ^ 16"

definition checksum_ok :: "u8 list \<Rightarrow> bool" where
  "checksum_ok bs \<longleftrightarrow> foldl carry_add 0 (net_words bs) = 0xFFFF"

lemma unat_byte: "unat (b :: u8) < 256"
  using unsigned_less[of b] by simp

lemma net_words_bound: "x \<in> set (net_words bs) \<Longrightarrow> x < 2 ^ 16"
proof (induction bs rule: net_words.induct)
  case (2 a)
  then show ?case using unat_byte[of a] by simp
next
  case (3 a b bs)
  then show ?case using unat_byte[of a] unat_byte[of b] by auto
qed simp

lemma carry_add_props:
  assumes "s < 2 ^ 16" "x < 2 ^ 16"
  shows "carry_add s x < 2 ^ 16" "carry_add s x mod 65535 = (s + x) mod 65535" "carry_add s x = 0 \<longleftrightarrow> s = 0 \<and> x = 0"
proof -
  have c: "carry_add s x = (if s + x < 2 ^ 16 then s + x else s + x - 65535)"
  proof (cases "s + x < 2 ^ 16")
    case False
    then have "(s + x) div 2 ^ 16 = 1" "(s + x) mod 2 ^ 16 = s + x - 2 ^ 16"
      using assms by (simp_all add: div_nat_eqI le_mod_geq)
    then show ?thesis using False by (simp add: carry_add_def)
  qed (simp add: carry_add_def)
  show "carry_add s x < 2 ^ 16" "carry_add s x = 0 \<longleftrightarrow> s = 0 \<and> x = 0" using c assms by auto
  show "carry_add s x mod 65535 = (s + x) mod 65535" using c by (auto simp: le_mod_geq)
qed

lemma carry_sum:
  assumes "\<forall>x \<in> set ws. x < 2 ^ 16" "s < 2 ^ 16"
  shows "foldl carry_add s ws < 2 ^ 16 \<and> foldl carry_add s ws mod 65535 = (s + sum_list ws) mod 65535
    \<and> (foldl carry_add s ws = 0 \<longleftrightarrow> s + sum_list ws = 0)"
  using assms
proof (induction ws arbitrary: s)
  case (Cons x ws)
  have x: "x < 2 ^ 16" using Cons.prems by simp
  note c = carry_add_props[OF Cons.prems(2) x]
  have "(carry_add s x + sum_list ws) mod 65535 = (s + x + sum_list ws) mod 65535" using c(2) by (metis mod_add_left_eq)
  then show ?case using Cons.IH[of "carry_add s x"] Cons.prems c by (simp add: add.assoc)
qed simp

lemma checksum_ok_sum: "checksum_ok bs \<longleftrightarrow> 65535 dvd sum_list (net_words bs) \<and> sum_list (net_words bs) \<noteq> 0"
proof -
  let ?s = "foldl carry_add 0 (net_words bs)"
  have p: "?s < 2 ^ 16" "?s mod 65535 = sum_list (net_words bs) mod 65535" "?s = 0 \<longleftrightarrow> sum_list (net_words bs) = 0"
    using carry_sum[of "net_words bs" 0] net_words_bound by simp_all
  have "?s = 65535 \<longleftrightarrow> ?s mod 65535 = 0 \<and> ?s \<noteq> 0" using p(1) by auto
  then show ?thesis using p(2,3) by (simp add: checksum_ok_def dvd_eq_mod_eq_0)
qed

lemma net_words_zero: "sum_list (net_words bs) = 0 \<longleftrightarrow> (\<forall>b \<in> set bs. b = 0)"
  by (induction bs rule: net_words.induct) (auto simp: unat_eq_0)

section \<open>ICMP\<close>

lemma unat_not16: "unat (NOT (x :: u16)) = 65535 - unat x"
proof -
  have "NOT x = 65535 - x" by (simp add: not_eq_complement)
  moreover have "x \<le> 65535" using unsigned_less[of x, where 'a = nat] by (simp add: word_le_nat_alt)
  ultimately show ?thesis by (simp add: unat_sub)
qed

lemma mask16: "(0xFFFF :: u32) = mask 16"
  by (simp add: mask_eq_exp_minus_1)

lemma fold_word:
  assumes "n < 2 ^ 32"
  shows "((of_nat n :: u32) AND 0xFFFF) + drop_bit 16 (of_nat n) = of_nat (n mod 65536 + n div 65536)"
proof -
  have "(of_nat n :: u32) AND 0xFFFF = of_nat (n mod 65536)"
  proof -
    have "n mod 65536 = take_bit 16 n" by (simp add: take_bit_eq_mod)
    then show ?thesis unfolding mask16 by (intro bit_word_eqI) (auto simp: bit_simps)
  qed
  moreover have "unat (drop_bit 16 (of_nat n :: u32)) = n div 65536"
    using assms by (subst unat_drop_bit_eq) (simp add: unat_of_nat_small drop_bit_eq_div)
  then have "drop_bit 16 (of_nat n :: u32) = of_nat (n div 65536)" by (metis of_nat_unat ucast_id)
  ultimately show ?thesis by simp
qed

lemma ucast_not_of_nat: "(ucast (NOT (of_nat t :: u32)) :: u16) = NOT (of_nat t)"
  by (rule bit_word_eqI) (auto simp: bit_simps)

lemma echo_cksum_value: "unat (echo_cksum ck) = (if 65527 \<le> unat ck then unat ck - 65527 else unat ck + 8)"
proof -
  let ?k = "unat ck"
  have k: "?k < 65536" using unsigned_less[of ck, where 'a = nat] by simp
  have "NOT (ucast ck :: u32) AND 0xFFFF = ucast (NOT ck)"
    unfolding mask16 by (rule bit_word_eqI) (auto simp: bit_simps)
  then have not: "NOT (ucast ck :: u32) AND 0xFFFF = of_nat (65535 - ?k)" by (simp add: unat_not16[symmetric])
  let ?s = "65535 - ?k + 65527"
  let ?t = "?s mod 65536 + ?s div 65536"
  let ?u = "?t mod 65536 + ?t div 65536"
  have s: "(NOT (ucast ck :: u32) AND 0xFFFF) + (NOT (ucast (htons (push_bit 8 (ucast IP_ICMP_ECHO_REQUEST)))) AND 0xFFFF)
      + ucast (htons (push_bit 8 (ucast IP_ICMP_ECHO_REPLY))) = of_nat ?s"
    unfolding not by (simp add: htons_def swap16_def xconst)
  have t: "?t = (if ?k \<ge> 65527 then ?s else ?s - 65535)"
  proof (cases "?k \<ge> 65527")
    case False
    then have "?s div 65536 = 1" "?s mod 65536 = ?s - 65536" using k by (simp_all add: div_nat_eqI le_mod_geq)
    then show ?thesis using False by simp
  qed simp
  then have lt: "?t < 65536" using k by auto
  have "echo_cksum ck = ucast (NOT (of_nat ?t :: u32))"
    unfolding echo_cksum_def Let_def s using fold_word[of ?s] fold_word[of ?t] k lt by simp
  also have "\<dots> = NOT (of_nat ?t)"
    by (rule ucast_not_of_nat)
  finally have "unat (echo_cksum ck) = 65535 - ?t" using unat_of_nat_small[of ?t, where 'a = 16] lt by (simp add: unat_not16 del: of_nat_add)
  then show ?thesis using t k by (auto split: if_splits)
qed


lemma rd16_value: "unat (rd16 d p) = unat (d p) + 256 * unat (d (p + 1))"
proof -
  have up: "unat (ucast (b :: u8) :: u16) = unat b" for b
    using unat_byte[of b] by (simp add: unsigned_ucast_eq take_bit_eq_mod)
  have hi: "unat (push_bit 8 (ucast (d (p + 1))) :: u16) = 256 * unat (d (p + 1))"
    using unat_byte[of "d (p + 1)"] by (simp add: push_bit_eq_mult unat_word_ariths up)
  have "rd16 d p = ucast (d p) + push_bit 8 (ucast (d (p + 1)))"
    unfolding rd16_def by (rule disjunctive_add[symmetric]) (auto simp: bit_simps dest: bit_imp_le_length)
  then show ?thesis
    using unat_byte[of "d p"] unat_byte[of "d (p + 1)"] by (simp add: unat_word_ariths up hi[simplified])
qed

lemma wr16_get: "wr16 d p v p = ucast v" "wr16 d p v (p + 1) = ucast (drop_bit 8 v)"
  "q \<noteq> p \<Longrightarrow> q \<noteq> p + 1 \<Longrightarrow> wr16 d p v q = d q"
  by (auto simp: wr16_def wr_bytes_def le_bytes_def upt_rec)

lemma half_bytes: "unat (ucast (v :: u16) :: u8) + 256 * unat (ucast (drop_bit 8 v) :: u8) = unat v"
proof -
  have "unat (ucast v :: u8) = unat v mod 256" by (simp add: unsigned_ucast_eq take_bit_eq_mod)
  moreover have "unat (ucast (drop_bit 8 v) :: u8) = unat v div 256"
    using unsigned_less[of v, where 'a = nat] by (simp only: unsigned_ucast_eq unat_drop_bit_eq) (simp add: take_bit_eq_mod drop_bit_eq_div)
  ultimately show ?thesis by simp
qed


lemma wr_bytes_1: "wr_bytes d p [b] = d(p := b)"
  by (auto simp: wr_bytes_def)

text \<open>The reply as its bytes, from those of the request.\<close>

lemma echo_reply_parts:
  fixes m :: bytes
  assumes "wire_format D"
  defines "m' \<equiv> echo_reply D m"
  shows "rd_bytes m' 0 6 = rd_bytes m 6 6" "rd_bytes m' 6 6 = rd_bytes m 0 6" "rd_bytes m' 26 4 = rd_bytes m 30 4"
    "rd_bytes m' 30 4 = rd_bytes m 26 4" "m' 34 = 0" "unat (m' 36) + 256 * unat (m' 37) = unat (echo_cksum (rd16 m 36))"
    "q \<in> {12..<26} \<union> {35} \<union> {38..} \<Longrightarrow> m' q = m q"
proof -
  let ?m1 = "wr_bytes (wr_bytes m 6 (rd_bytes m 0 6)) 0 (rd_bytes m 6 6)"
  have o: "rd32 (wr_bytes d p bs) q = rd32 d q" if "q + 4 \<le> p \<or> p + length bs \<le> q" for d p bs q
    using that by (intro rd32_cong rd_wr_other)
  have "rd16 (wr_bytes d p bs) q = rd16 d q" if "q + 2 \<le> p \<or> p + length bs \<le> q" for d p bs q
    using that by (auto simp: rd16_def wr_bytes_def)
  then have e: "m' = wr16 (wr_bytes (wr32 (wr32 ?m1 26 (rd32 m 30)) 30 (rd32 m 26)) 34 [0]) 36 (echo_cksum (rd16 m 36))"
    unfolding m'_def using assms(1)
    by (simp add: echo_reply_def Let_def wire_consts wire_copy ether_addr_def xconst wr32_def o)
  show "rd_bytes m' 0 6 = rd_bytes m 6 6" "rd_bytes m' 6 6 = rd_bytes m 0 6" "rd_bytes m' 26 4 = rd_bytes m 30 4"
    "rd_bytes m' 30 4 = rd_bytes m 26 4"
    unfolding e wr16_def wr32_def by (simp_all add: rd_wr_same rd_wr_other rd32_le)
  show "m' 34 = 0" unfolding e by (simp add: wr16_get wr_bytes_1)
  show "unat (m' 36) + 256 * unat (m' 37) = unat (echo_cksum (rd16 m 36))"
    unfolding e using half_bytes wr16_get(1,2)[of _ 36] by simp
  show "m' q = m q" if "q \<in> {12..<26} \<union> {35} \<union> {38..}"
    unfolding e using that by (auto simp: wr16_def wr32_def wr_bytes_get)
qed

text \<open>A pair of bytes as the sum in network order counts it, and as the machine reads it: the factor is 256 modulo 65535.\<close>

lemma swapped_sum: "(x + (256 * a + b) + r) mod 65535 = (x + 256 * (a + 256 * b) + r) mod (65535 :: nat)"
proof -
  have "x + 256 * (a + 256 * b) + r = x + (256 * a + b) + r + b * 65535" by simp
  then show ?thesis by (metis mod_mult_self1)
qed

lemma reply_sum:
  assumes "c' = (if 65527 \<le> c then c - 65527 else c + 8)" "(2048 + 256 * c + r) mod 65535 = 0"
  shows "(256 * c' + r) mod (65535 :: nat) = 0"
proof (cases "65527 \<le> c")
  case True
  then have "2048 + 256 * c + r = 256 * c' + r + 256 * 65535" using assms(1) by simp
  then show ?thesis using assms(2) by (metis mod_mult_self1)
next
  case False
  then have "2048 + 256 * c + r = 256 * c' + r" using assms(1) by simp
  then show ?thesis using assms(2) by simp
qed

lemma net_words_append: "even (length xs) \<Longrightarrow> net_words (xs @ ys) = net_words xs @ net_words ys"
  by (induction xs rule: net_words.induct) auto

lemma ip_header_sum:
  assumes "wire_format D"
  shows "sum_list (net_words (rd_bytes (echo_reply D m) 14 20)) = sum_list (net_words (rd_bytes m 14 20))"
proof -
  have split: "rd_bytes d 14 20 = rd_bytes d 14 12 @ rd_bytes d 26 4 @ rd_bytes d 30 4" for d :: bytes
    using rd_bytes_split[of 12 20 d 14] rd_bytes_split[of 4 8 d 26] by simp
  have "rd_bytes (echo_reply D m) 14 12 = rd_bytes m 14 12"
    unfolding rd_bytes_def using echo_reply_parts(7)[OF assms] by (intro map_cong) auto
  then show ?thesis by (simp add: split net_words_append echo_reply_parts(3,4)[OF assms])
qed

lemma icmp_sum:
  assumes "4 \<le> n"
  shows "sum_list (net_words (rd_bytes d 34 n)) =
    256 * unat (d 34) + unat (d 35) + (256 * unat (d 36) + unat (d 37)) + sum_list (net_words (rd_bytes d 38 (n - 4)))"
proof -
  have "rd_bytes d 34 n = [d 34, d 35, d 36, d 37] @ rd_bytes d 38 (n - 4)"
    using rd_bytes_split[OF assms, of d 34] rd_bytes_4[of d 34] by simp
  then show ?thesis by simp
qed

text \<open>
  C7: The answer to an echo request. The addresses of the frame and of the IP header are exchanged, and the header checksum
  is right exactly when the request's was. The ICMP checksum is not computed anew but adjusted: for a request whose checksum is right in
  the sense of RFC 1071, the reply's is right exactly when the identifier, the sequence number and the data are not all zero. Then
  the adjusted checksum is zero where the sum asks for all ones.
\<close>

theorem icmp_reply_checksum:
  assumes "wire_format D" and "is_echo_request D m" and "4 \<le> n" and "checksum_ok (rd_bytes m 34 n)"
  shows "(checksum_ok (rd_bytes (echo_reply D m) 34 n) \<longleftrightarrow> (\<exists>k \<in> {38..<34 + n}. m k \<noteq> 0))
    \<and> (checksum_ok (rd_bytes (echo_reply D m) 14 20) \<longleftrightarrow> checksum_ok (rd_bytes m 14 20))
    \<and> rd_bytes (echo_reply D m) 0 6 = rd_bytes m 6 6 \<and> rd_bytes (echo_reply D m) 6 6 = rd_bytes m 0 6
    \<and> rd_bytes (echo_reply D m) 26 4 = rd_bytes m 30 4 \<and> rd_bytes (echo_reply D m) 30 4 = rd_bytes m 26 4
    \<and> echo_reply D m 34 = IP_ICMP_ECHO_REPLY \<and> (\<forall>k \<ge> 38. echo_reply D m k = m k)"
proof -
  let ?m = "echo_reply D m" and ?r = "sum_list (net_words (rd_bytes m 38 (n - 4)))" and ?c = "unat (rd16 m 36)"
  note parts = echo_reply_parts[OF assms(1), where m = m]
  have req: "m 34 = 8" "m 35 = 0"
    using assms(1,2) by (simp_all add: is_echo_request_def wire_consts xconst)
  have c: "?c = unat (m 36) + 256 * unat (m 37)" using rd16_value[of m 36] by simp
  have c16: "?c < 65536" using unsigned_less[of "rd16 m 36", where 'a = nat] by simp
  have rest: "rd_bytes ?m 38 (n - 4) = rd_bytes m 38 (n - 4)"
    unfolding rd_bytes_def using parts(7) by (intro map_cong) auto
  have zero: "?r = 0 \<longleftrightarrow> \<not> (\<exists>k \<in> {38..<34 + n}. m k \<noteq> 0)"
    using assms(3) unfolding net_words_zero by (auto simp: rd_bytes_def)
  let ?c' = "unat (?m 36) + 256 * unat (?m 37)"
  have c': "?c' = (if 65527 \<le> ?c then ?c - 65527 else ?c + 8)" using parts(6) echo_cksum_value by simp
  have sum: "sum_list (net_words (rd_bytes m 34 n)) = 2048 + (256 * unat (m 36) + unat (m 37)) + ?r"
    using icmp_sum[OF assms(3), of m] req by simp
  have sum': "sum_list (net_words (rd_bytes ?m 34 n)) = 256 * unat (?m 36) + unat (?m 37) + ?r"
    using icmp_sum[OF assms(3), of ?m] parts(5) parts(7)[of 35] req rest by simp
  have ok: "(2048 + 256 * ?c + ?r) mod 65535 = 0"
    using assms(4) swapped_sum[of 2048 "unat (m 36)" "unat (m 37)" ?r] unfolding checksum_ok_sum sum c dvd_eq_mod_eq_0 by linarith
  have "(256 * ?c' + ?r) mod 65535 = 0" by (rule reply_sum[OF c' ok])
  then have "65535 dvd sum_list (net_words (rd_bytes ?m 34 n))"
    using swapped_sum[of 0 "unat (?m 36)" "unat (?m 37)" ?r] unfolding sum' dvd_eq_mod_eq_0 by simp
  moreover have "sum_list (net_words (rd_bytes ?m 34 n)) = 0 \<longleftrightarrow> ?r = 0"
  proof
    assume r: "?r = 0"
    obtain k where k: "2048 + (256 * unat (m 36) + unat (m 37)) = 65535 * k"
      using assms(4) unfolding checksum_ok_sum sum r by (auto elim: dvdE)
    have b: "unat (m 36) < 256" "unat (m 37) < 256" by (rule unat_byte)+
    then have k1: "k = 1" using k by simp
    have "256 * unat (m 36) + unat (m 37) = 63487" using k[unfolded k1] by simp
    then have "unat (m 37) = 255" "unat (m 36) = 247" using b by presburger+
    then have "?c = 65527" using c by simp
    then have "?c' = 0" using c' by simp
    then show "sum_list (net_words (rd_bytes ?m 34 n)) = 0" using sum' r by simp
  qed (simp add: sum')
  ultimately have "checksum_ok (rd_bytes ?m 34 n) \<longleftrightarrow> (\<exists>k \<in> {38..<34 + n}. m k \<noteq> 0)"
    unfolding checksum_ok_sum zero by argo
  then show ?thesis
    using parts ip_header_sum[OF assms(1)] by (simp add: checksum_ok_sum xconst)
qed

text \<open>DPDK as it is documented, for the witnesses.\<close>

definition sample_dpdk :: dpdk where
  "sample_dpdk = \<lparr>sizeof_ether_hdr = 14, d_addr = 0, s_addr = 6, ether_type = 12, sizeof_ipv4_hdr = 20, next_proto_id = 9, src_addr = 12,
     dst_addr = 16, sizeof_arp_hdr = 28, arp_hrd = 0, arp_pro = 2, arp_hln = 4, arp_pln = 5, arp_op = 6, arp_sha = 8, arp_sip = 14,
     arp_tha = 18, arp_tip = 24, ETHER_TYPE_ARP = 0x0806, ETHER_TYPE_IPv4 = 0x0800, ETHER_ADDR_LEN = 6, ARP_HRD_ETHER = 1,
     ARP_OP_REPLY = 2, rte_cpu_to_be_16 = swap16, rte_be_to_cpu_32 = swap32, rte_cpu_to_be_32 = swap32, ether_addr_copy = (\<lambda>a d p. wr_bytes d p a),
     RTE_ETH_IS_IPV4_HDR = (\<lambda>t. bit t 4)\<rparr>"

lemma sample_wire: "wire_format sample_dpdk"
  by (simp add: wire_format_def sample_dpdk_def)

theorem arp_reply_wire_witness:
  "rd_bytes (fst (arp_reply sample_dpdk \<lparr>port_id = 0, ip = 0x0103A8C0, mac_addr = [1, 2, 3, 4, 5, 6]\<rparr> (\<lambda>i. of_nat i) (\<lambda>i. 0))) 0 42 =
    [6, 7, 8, 9, 10, 11, 1, 2, 3, 4, 5, 6, 8, 6, 0, 1, 8, 0, 6, 4, 0, 2, 1, 2, 3, 4, 5, 6, 192, 168, 3, 1,
     6, 7, 8, 9, 10, 11, 28, 29, 30, 31]"
proof -
  have "le_bytes 4 (0x0103A8C0 :: u32) = [192, 168, 3, 1]" by (simp add: le_bytes_def upt_rec)
  moreover have "ether_addr (\<lambda>i. of_nat i) 6 = [6, 7, 8, 9, 10, 11]" "rd_bytes (\<lambda>i. of_nat i) 28 4 = [28, 29, 30, 31]"
    by (simp_all add: ether_addr_def rd_bytes_def)
  ultimately show ?thesis
    using arp_reply_wire[OF sample_wire, of "\<lparr>port_id = 0, ip = 0x0103A8C0, mac_addr = [1, 2, 3, 4, 5, 6]\<rparr>" "\<lambda>i. of_nat i" "\<lambda>i. 0"]
    by simp
qed

text \<open>A ping with identifier 1 and sequence number 2, and the silent one for which the adjusted checksum is wrong.\<close>

definition ping :: "u8 list \<Rightarrow> bytes" where
  "ping icmp = wr_bytes (wr_bytes (\<lambda>i. 0) 23 [1]) 34 icmp"

lemma ping_request: "is_echo_request sample_dpdk (ping (8 # 0 # rest))"
  by (simp add: is_echo_request_def sample_dpdk_def ip_h_def icmp_h_def ping_def wr_bytes_def xconst)

lemma ping_message: "n = length icmp \<Longrightarrow> rd_bytes (ping icmp) 34 n = icmp"
  by (simp add: ping_def rd_wr_same)

theorem icmp_reply_checksum_witness:
  "checksum_ok (rd_bytes (echo_reply sample_dpdk (ping [8, 0, 0xF7, 0xFC, 0, 1, 0, 2])) 34 8)
    \<and> \<not> checksum_ok (rd_bytes (echo_reply sample_dpdk (ping [8, 0, 0xF7, 0xFF, 0, 0, 0, 0])) 34 8)"
proof -
  have ok: "checksum_ok (rd_bytes (ping [8, 0, 0xF7, 0xFC, 0, 1, 0, 2]) 34 8)" "checksum_ok (rd_bytes (ping [8, 0, 0xF7, 0xFF, 0, 0, 0, 0]) 34 8)"
    by (simp_all add: ping_message checksum_ok_def carry_add_def)
  have "ping [8, 0, 0xF7, 0xFC, 0, 1, 0, 2] 39 \<noteq> 0" "\<forall>k \<in> {38..<42}. ping [8, 0, 0xF7, 0xFF, 0, 0, 0, 0] k = 0"
    by (auto simp: ping_def wr_bytes_def nth_Cons split: nat.splits)
  then show ?thesis
    using icmp_reply_checksum[OF sample_wire ping_request _ ok(1)] icmp_reply_checksum[OF sample_wire ping_request _ ok(2)] by fastforce
qed

section \<open>Forwarded packets\<close>

text \<open>
  The change of addresses of a forwarded packet writes eight bytes over the six of the destination address, and the copy of the source
  address that follows repairs the two beyond: only the two addresses change.
\<close>

lemma update_pkt_macaddr_result:
  assumes "wire_format D" "RTE_ETH_IS_IPV4_HDR D packet_type" "ip_port ip_ports (unat (port XOR 1)) = Inr c" "length (mac_addr c) = 6"
    "swap32 (rd32 m 30) = dst" "dst = 0xc0a80321 \<and> mac = acer_macaddr_dst \<or> dst = 0xc0a8042c \<and> mac = dell_macaddr_dst"
  shows "\<exists>m'. update_pkt_macaddr D ip_ports packet_type port m = Inr m' \<and> rd_bytes m' 0 6 = le_bytes 6 mac
    \<and> rd_bytes m' 6 6 = mac_addr c \<and> (\<forall>k \<ge> 12. m' k = m k)"
proof -
  have "update_pkt_macaddr D ip_ports packet_type port m = Inr (wr_bytes (wr64 m 0 mac) 6 (mac_addr c))"
    using assms by (auto simp: update_pkt_macaddr_def overwrite_mac_def wire_consts wire_copy)
  moreover have "rd_bytes (wr64 m 0 mac) 0 6 = le_bytes 6 mac"
    by (rule nth_equalityI) (auto simp: rd_bytes_def wr64_def wr_bytes_def le_bytes_def)
  moreover have "\<forall>k \<ge> 12. wr_bytes (wr64 m 0 mac) 6 (mac_addr c) k = m k" using assms(4) by (auto simp: wr64_def wr_bytes_def)
  ultimately show ?thesis using assms(4) by (simp add: rd_wr_same rd_wr_other)
qed

end
