(* ===== verification/Router_Runtime.thy ===== *)
theory Router_Runtime
  imports Router_Config Router_Rules Router_Packets
begin

text \<open>
  The router at work: its initialisation (\<^verbatim>\<open>init.c\<close>), the choice of a loop by core (\<^verbatim>\<open>main.c\<close>) and the loops of the receiving,
  the working and the sending core (\<^verbatim>\<open>runtime.c\<close>), which run at the same time and meet in the rings. A step is one turn of a
  loop, or one attempt of the inner loop that waits for room in a ring; any core may take the next step. Packet buffers are named by
  numbers. The rings are a parameter with the two bulk operations the code calls; what the network cards do (the packets a burst
  returns, the number it takes) and the buffer the pool hands out are part of the event of a step. The calls to the cards and to the
  pool are recorded in order.
\<close>

section \<open>State\<close>

definition APP_MBUF_ARRAY_SIZE :: nat where [xconst]: "APP_MBUF_ARRAY_SIZE = 256"
definition ENOENT :: int where [xconst]: "ENOENT = 2"

record 'r ring_ops =
  enqueue_bulk :: "'r \<Rightarrow> nat list \<Rightarrow> int \<times> 'r"
  dequeue_bulk :: "'r \<Rightarrow> nat \<Rightarrow> int \<times> nat list \<times> 'r"

record app_mbuf_array =
  array :: "nat list"
  n_mbufs :: u16

record rte_mbuf =
  data :: bytes
  data_len :: u16
  pkt_len :: u32
  port :: u8

datatype core = Rx_core | Tx_core

text \<open>A call of \<^verbatim>\<open>rte_eth_rx_burst\<close> with its port and the packets it returned; of \<^verbatim>\<open>rte_eth_tx_burst\<close>, by which core, with its port,
  the packets and the number it took; of \<^verbatim>\<open>rte_pktmbuf_free\<close>.\<close>

datatype call = Rx_burst u32 "(nat \<times> rte_mbuf) list" | Tx_burst core u32 "nat list" nat | Free nat

record 'r router =
  rings_rx :: "'r option list"
  rings_tx :: "'r option list"
  ip_ports :: "ip_port_conf option list"
  mbufs :: "nat \<Rightarrow> rte_mbuf"
  mbuf_rx :: app_mbuf_array
  mbuf_tx :: "app_mbuf_array list"
  worker_mbuf :: app_mbuf_array
  rx_at :: "u32 \<times> nat option"
  worker_at :: "u32 \<times> bool"
  tx_at :: u32
  calls :: "call list"

text \<open>An entry of an array of pointers, and a store of several entries from an index on.\<close>

definition pointer :: "'a option list \<Rightarrow> nat \<Rightarrow> app_error + 'a" where
  "pointer ps i = (if i < length ps then case ps ! i of Some p \<Rightarrow> Inr p | None \<Rightarrow> Inl Uninit else Inl Uninit)"

definition array_store :: "app_mbuf_array \<Rightarrow> nat \<Rightarrow> nat list \<Rightarrow> app_error + app_mbuf_array" where
  "array_store b k ms =
    (if k + length ms \<le> length (array b) then Inr (b\<lparr>array := take k (array b) @ ms @ drop (k + length ms) (array b)\<rparr>)
     else Inl Uninit)"

section \<open>Initialisation\<close>

text \<open>What the calls of the initialisation return.\<close>

record 'r dpdk_init =
  pool_create :: bool
  ring_create :: "string \<Rightarrow> nat \<Rightarrow> u32 \<Rightarrow> 'r option"
  dev_configure :: "u8 \<Rightarrow> int"
  rx_queue_setup :: "u8 \<Rightarrow> u32 \<Rightarrow> int"
  tx_queue_setup :: "u8 \<Rightarrow> u32 \<Rightarrow> int"
  macaddr_get :: "u8 \<Rightarrow> u8 list"
  rte_malloc_conf :: "u8 \<Rightarrow> bool"
  dev_start :: "u8 \<Rightarrow> int"
  link_up :: "u8 \<Rightarrow> bool"

definition app_init_mbuf_pools :: "'r dpdk_init \<Rightarrow> app_error + unit" where
  "app_init_mbuf_pools I = (if pool_create I then Inr () else Inl Rte_panic)"

fun create_rings :: "'r dpdk_init \<Rightarrow> string \<Rightarrow> u32 \<Rightarrow> nat list \<Rightarrow> 'r option list \<Rightarrow> app_error + 'r option list" where
  "create_rings I name ring_size [] rs = Inr rs"
| "create_rings I name ring_size (i # is) rs =
    (case ring_create I name i ring_size of
       None \<Rightarrow> Inl Rte_panic
     | Some r \<Rightarrow> if i < length rs then create_rings I name ring_size is (rs[i := Some r]) else Inl Uninit)"

definition app_init_rings :: "'r dpdk_init \<Rightarrow> app_params \<Rightarrow> 'r router \<Rightarrow> app_error + 'r router" where
  "app_init_rings I a s =
    bindE (create_rings I ''app_ring_rx_'' (ring_rx_size a) [0..<unat (n_ports a)] (rings_rx s)) (\<lambda>rx.
    bindE (create_rings I ''app_ring_tx_'' (ring_tx_size a) [0..<unat (n_ports a)] (rings_tx s)) (\<lambda>tx.
    Inr (s\<lparr>rings_rx := rx, rings_tx := tx\<rparr>)))"

definition init_ip_port :: "'r dpdk_init \<Rightarrow> dpdk \<Rightarrow> (u8 \<Rightarrow> u8 \<Rightarrow> u8 \<Rightarrow> u8 \<Rightarrow> u32) \<Rightarrow> u8 \<Rightarrow> ip_port_conf option list \<Rightarrow>
    app_error + ip_port_conf option list" where
  "init_ip_port I D IPv4 p cs =
    (if p = 0 then
       if \<not> rte_malloc_conf I p then Inl Uninit
       else Inr (cs[0 := Some \<lparr>port_id = 0, ip = rte_cpu_to_be_32 D (IPv4 192 168 3 1), mac_addr = macaddr_get I p\<rparr>])
     else if p = 1 then
       if \<not> rte_malloc_conf I p then Inl Uninit
       else Inr (cs[1 := Some \<lparr>port_id = 1, ip = rte_cpu_to_be_32 D (IPv4 192 168 4 1), mac_addr = macaddr_get I p\<rparr>])
     else Inr cs)"

fun init_ports :: "'r dpdk_init \<Rightarrow> dpdk \<Rightarrow> (u8 \<Rightarrow> u8 \<Rightarrow> u8 \<Rightarrow> u8 \<Rightarrow> u32) \<Rightarrow> app_params \<Rightarrow> u32 list \<Rightarrow> ip_port_conf option list \<Rightarrow>
    app_error + ip_port_conf option list" where
  "init_ports I D IPv4 a [] cs = Inr cs"
| "init_ports I D IPv4 a (n # ns) cs =
    (let p = ucast n :: u8 in
     if dev_configure I p < 0 then Inl Rte_panic
     else if rx_queue_setup I p (port_rx_ring_size a) < 0 then Inl Rte_panic
     else if tx_queue_setup I p (port_tx_ring_size a) < 0 then Inl Rte_panic
     else bindE (init_ip_port I D IPv4 p cs) (\<lambda>cs.
       bindE (ip_port cs (unat p)) (\<lambda>_.
       if dev_start I p < 0 then Inl Rte_panic
       else init_ports I D IPv4 a ns cs)))"

definition app_ports_check_link :: "'r dpdk_init \<Rightarrow> app_params \<Rightarrow> app_error + unit" where
  "app_ports_check_link I a =
    (if list_all (\<lambda>n. link_up I (ucast n)) (take (unat (n_ports a)) (ports a)) then Inr () else Inl Rte_panic)"

definition app_init_ports ::
  "'r dpdk_init \<Rightarrow> dpdk \<Rightarrow> (u8 \<Rightarrow> u8 \<Rightarrow> u8 \<Rightarrow> u8 \<Rightarrow> u32) \<Rightarrow> app_params \<Rightarrow> 'r router \<Rightarrow> app_error + 'r router" where
  "app_init_ports I D IPv4 a s =
    bindE (init_ports I D IPv4 a (take (unat (n_ports a)) (ports a)) (ip_ports s)) (\<lambda>cs.
    bindE (app_ports_check_link I a) (\<lambda>_. Inr (s\<lparr>ip_ports := cs\<rparr>)))"

definition app_init ::
  "'r dpdk_init \<Rightarrow> dpdk \<Rightarrow> (u8 \<Rightarrow> u8 \<Rightarrow> u8 \<Rightarrow> u8 \<Rightarrow> u32) \<Rightarrow> app_params \<Rightarrow> 'r router \<Rightarrow> app_error + 'r router" where
  "app_init I D IPv4 a s =
    bindE (app_init_mbuf_pools I) (\<lambda>_.
    bindE (app_init_rings I a s) (\<lambda>s.
    app_init_ports I D IPv4 a s))"

text \<open>The structure before it, all pointers null and all arrays zero.\<close>

definition empty_array :: app_mbuf_array where
  "empty_array = \<lparr>array = replicate APP_MBUF_ARRAY_SIZE 0, n_mbufs = 0\<rparr>"

definition router0 :: "(nat \<Rightarrow> rte_mbuf) \<Rightarrow> 'r router" where
  "router0 M = \<lparr>rings_rx = replicate APP_MAX_PORTS None, rings_tx = replicate APP_MAX_PORTS None, ip_ports = [None, None], mbufs = M,
     mbuf_rx = empty_array, mbuf_tx = replicate APP_MAX_PORTS empty_array, worker_mbuf = empty_array,
     rx_at = (0, None), worker_at = (0, False), tx_at = 0, calls = []\<rparr>"

section \<open>Cores\<close>

datatype loop = Loop_rx | Loop_worker | Loop_worker_acl | Loop_tx | No_loop

definition app_lcore_main_loop :: "app_params \<Rightarrow> u32 \<Rightarrow> loop" where
  "app_lcore_main_loop a lcore =
    (if lcore = core_rx a then Loop_rx
     else if lcore = core_worker a then if pipeline_type a = e_APP_PIPELINE_ACL then Loop_worker_acl else Loop_worker
     else if lcore = core_tx a then Loop_tx
     else No_loop)"

definition next_port :: "app_params \<Rightarrow> u32 \<Rightarrow> u32" where
  "next_port a i = (i + 1) AND (n_ports a - 1)"

section \<open>The receiving core\<close>

definition targets_router :: "dpdk \<Rightarrow> ip_port_conf option list \<Rightarrow> u32 \<Rightarrow> bytes \<Rightarrow> app_error + bool" where
  "targets_router D cs i d =
    (if \<not> is_echo_request D d then Inr False
     else bindE (ip_port cs (unat i)) (\<lambda>c.
       if rd32 d (ip_h D + dst_addr D) = ip c then Inr True
       else bindE (ip_port cs (unat (i XOR 1))) (\<lambda>c'. Inr (rd32 d (ip_h D + dst_addr D) = ip c'))))"

definition answer_arp :: "dpdk \<Rightarrow> u32 \<Rightarrow> nat \<Rightarrow> nat option \<Rightarrow> nat \<Rightarrow> 'r router \<Rightarrow> app_error + 'r router" where
  "answer_arp D i m alloc taken s =
    (case alloc of
       None \<Rightarrow> Inl Uninit
     | Some pkt \<Rightarrow>
         bindE (ip_port (ip_ports s) (unat i)) (\<lambda>c.
         let (d, pkt_size) = arp_reply D c (data (mbufs s m)) (data (mbufs s pkt));
             b = (mbufs s pkt)\<lparr>data := d, data_len := of_nat pkt_size, pkt_len := of_nat pkt_size, port := ucast i\<rparr>
         in Inr (s\<lparr>mbufs := (mbufs s)(pkt := b), calls := calls s @ [Tx_burst Rx_core i [pkt] taken, Free pkt]\<rparr>)))"

definition answer_echo :: "dpdk \<Rightarrow> u32 \<Rightarrow> nat \<Rightarrow> nat \<Rightarrow> 'r router \<Rightarrow> 'r router" where
  "answer_echo D i m taken s =
    s\<lparr>mbufs := (mbufs s)(m := (mbufs s m)\<lparr>data := echo_reply D (data (mbufs s m))\<rparr>),
      calls := calls s @ [Tx_burst Rx_core i [m] taken, Free m]\<rparr>"

text \<open>One turn, up to the wait for the ring: \<open>burst\<close> is what the card returned.\<close>

definition rx_turn ::
  "app_params \<Rightarrow> dpdk \<Rightarrow> (nat \<times> rte_mbuf) list \<Rightarrow> nat option \<Rightarrow> nat \<Rightarrow> 'r router \<Rightarrow> app_error + 'r router" where
  "rx_turn a D burst alloc taken s =
    (let i = fst (rx_at s);
         s = s\<lparr>mbufs := fold (\<lambda>(m, b) M. M(m := b)) burst (mbufs s), calls := calls s @ [Rx_burst (ports a ! unat i) burst]\<rparr>
     in bindE (array_store (mbuf_rx s) 0 (map fst burst)) (\<lambda>arr.
        let s = s\<lparr>mbuf_rx := arr\<rparr>;
            cont = s\<lparr>rx_at := (next_port a i, None)\<rparr>;
            m = array arr ! 0
        in if burst = [] then Inr cont
           else if is_arp D (data (mbufs s m)) then answer_arp D i m alloc taken cont
           else bindE (targets_router D (ip_ports s) i (data (mbufs s m))) (\<lambda>here.
             if here then Inr (answer_echo D i m taken cont)
             else Inr (s\<lparr>rx_at := (i, Some (length burst))\<rparr>))))"

definition rx_retry :: "'r ring_ops \<Rightarrow> app_params \<Rightarrow> 'r router \<Rightarrow> app_error + 'r router" where
  "rx_retry R a s =
    (let i = fst (rx_at s); n = the (snd (rx_at s)) in
     bindE (pointer (rings_rx s) (unat i)) (\<lambda>r.
     let (ret, r) = enqueue_bulk R r (take n (array (mbuf_rx s)));
         s = s\<lparr>rings_rx := (rings_rx s)[unat i := Some r]\<rparr>
     in if ret < 0 then Inr s else Inr (s\<lparr>rx_at := (next_port a i, None)\<rparr>)))"

section \<open>The working core\<close>

definition worker_turn :: "'r ring_ops \<Rightarrow> app_params \<Rightarrow> 'r router \<Rightarrow> app_error + 'r router" where
  "worker_turn R a s =
    (let i = fst (worker_at s) in
     bindE (pointer (rings_rx s) (unat i)) (\<lambda>r.
     let (ret, ms, r) = dequeue_bulk R r (unat (burst_size_worker_read a));
         s = s\<lparr>rings_rx := (rings_rx s)[unat i := Some r]\<rparr>
     in if ret = - ENOENT then Inr (s\<lparr>worker_at := (next_port a i, False)\<rparr>)
        else bindE (array_store (worker_mbuf s) 0 ms) (\<lambda>arr.
          Inr (s\<lparr>worker_mbuf := arr, worker_at := (i, True)\<rparr>))))"

definition worker_retry :: "'r ring_ops \<Rightarrow> app_params \<Rightarrow> 'r router \<Rightarrow> app_error + 'r router" where
  "worker_retry R a s =
    (let i = fst (worker_at s) in
     bindE (pointer (rings_tx s) (unat (i XOR 1))) (\<lambda>r.
     let (ret, r) = enqueue_bulk R r (take (unat (burst_size_worker_write a)) (array (worker_mbuf s)));
         s = s\<lparr>rings_tx := (rings_tx s)[unat (i XOR 1) := Some r]\<rparr>
     in if ret < 0 then Inr s else Inr (s\<lparr>worker_at := (next_port a i, False)\<rparr>)))"

section \<open>The sending core\<close>

definition tx_turn :: "'r ring_ops \<Rightarrow> app_params \<Rightarrow> nat \<Rightarrow> 'r router \<Rightarrow> app_error + 'r router" where
  "tx_turn R a taken s =
    (let i = unat (tx_at s);
         buf = mbuf_tx s ! i;
         n = n_mbufs buf
     in bindE (pointer (rings_tx s) i) (\<lambda>r.
        let (ret, ms, r) = dequeue_bulk R r (unat (burst_size_tx_read a));
            s = s\<lparr>rings_tx := (rings_tx s)[i := Some r], tx_at := next_port a (tx_at s)\<rparr>
        in if ret = - ENOENT then Inr s
           else bindE (array_store buf (unat n) ms) (\<lambda>buf.
             let n = n + ucast (burst_size_tx_read a) in
             if ucast n < burst_size_tx_write a then Inr (s\<lparr>mbuf_tx := (mbuf_tx s)[i := buf\<lparr>n_mbufs := n\<rparr>]\<rparr>)
             else let pkts = take (unat n) (array buf);
                      freed = map Free (drop taken pkts)
                  in Inr (s\<lparr>mbuf_tx := (mbuf_tx s)[i := buf\<lparr>n_mbufs := 0\<rparr>],
                            calls := calls s @ Tx_burst Tx_core (ports a ! i) pkts taken # freed\<rparr>))))"

end
