(* ===== verification/Router_Forwarding.thy ===== *)
theory Router_Forwarding
  imports Router_Runtime
begin

text \<open>
  The router from its command line to its packets: the three loops as a transition system in which any core takes the next step, and the
  order in which packets leave. The rings are described by the predicate \<open>ring_fifo\<close>, the documented behaviour of the bulk operations:
  all or nothing, in order.
\<close>

section \<open>Steps\<close>

datatype event = Rx_turn "(nat \<times> rte_mbuf) list" "nat option" nat | Rx_retry | Worker_turn | Worker_retry | Tx_turn nat

definition possible :: "app_params \<Rightarrow> event \<Rightarrow> 'r router \<Rightarrow> bool" where
  "possible a ev s = (case ev of
     Rx_turn burst alloc taken \<Rightarrow> snd (rx_at s) = None \<and> length burst \<le> unat (burst_size_rx_read a) \<and> alloc \<noteq> None
   | Rx_retry \<Rightarrow> snd (rx_at s) \<noteq> None
   | Worker_turn \<Rightarrow> \<not> snd (worker_at s)
   | Worker_retry \<Rightarrow> snd (worker_at s)
   | Tx_turn taken \<Rightarrow> True)"

definition exec :: "'r ring_ops \<Rightarrow> app_params \<Rightarrow> dpdk \<Rightarrow> event \<Rightarrow> 'r router \<Rightarrow> app_error + 'r router" where
  "exec R a D ev s = (case ev of
     Rx_turn burst alloc taken \<Rightarrow> rx_turn a D burst alloc taken s
   | Rx_retry \<Rightarrow> rx_retry R a s
   | Worker_turn \<Rightarrow> worker_turn R a s
   | Worker_retry \<Rightarrow> worker_retry R a s
   | Tx_turn taken \<Rightarrow> tx_turn R a taken s)"

inductive runs :: "'r ring_ops \<Rightarrow> app_params \<Rightarrow> dpdk \<Rightarrow> 'r router \<Rightarrow> event list \<Rightarrow> 'r router \<Rightarrow> bool"
  for R a D s0 where
  runs_start: "runs R a D s0 [] s0"
| runs_step: "runs R a D s0 evs s \<Longrightarrow> possible a ev s \<Longrightarrow> exec R a D ev s = Inr s' \<Longrightarrow> runs R a D s0 (evs @ [ev]) s'"

section \<open>What is promised\<close>

definition ring_fifo :: "'r ring_ops \<Rightarrow> ('r \<Rightarrow> nat list) \<Rightarrow> bool" where
  "ring_fifo R contents \<longleftrightarrow>
     (\<forall>r ms. let (ret, r') = enqueue_bulk R r ms in
        ret = 0 \<and> contents r' = contents r @ ms \<or> ret < 0 \<and> contents r' = contents r)
   \<and> (\<forall>r n. let (ret, ms, r') = dequeue_bulk R r n in
        if n \<le> length (contents r) then ret = 0 \<and> ms = take n (contents r) \<and> contents r' = drop n (contents r)
        else ret = - ENOENT \<and> contents r' = contents r)"

definition for_router :: "dpdk \<Rightarrow> ip_port_conf option list \<Rightarrow> bytes \<Rightarrow> bool" where
  "for_router D cs d \<longleftrightarrow> is_arp D d
     \<or> is_echo_request D d \<and> (\<exists>c. Some c \<in> set cs \<and> rd32 d (ip_h D + dst_addr D) = ip c)"

text \<open>The packets received on port \<open>p\<close> that the router does not answer itself, and the packets given to the card of port \<open>p\<close> by the
  sending core.\<close>

definition accepted :: "dpdk \<Rightarrow> ip_port_conf option list \<Rightarrow> u32 \<Rightarrow> call list \<Rightarrow> nat list" where
  "accepted D cs p cl = concat (map (\<lambda>c. case c of
     Rx_burst q burst \<Rightarrow> if q = p \<and> burst \<noteq> [] \<and> \<not> for_router D cs (data (snd (hd burst))) then map fst burst else []
   | _ \<Rightarrow> []) cl)"

definition handed_out :: "u32 \<Rightarrow> call list \<Rightarrow> nat list" where
  "handed_out p cl = concat (map (\<lambda>c. case c of Tx_burst Tx_core q ms k \<Rightarrow> if q = p then ms else [] | _ \<Rightarrow> []) cl)"

definition ring_at :: "('r \<Rightarrow> nat list) \<Rightarrow> 'r option list \<Rightarrow> nat \<Rightarrow> nat list" where
  "ring_at contents rs i = (case rs ! i of Some r \<Rightarrow> contents r | None \<Rightarrow> [])"

definition rx_pending :: "nat \<Rightarrow> 'r router \<Rightarrow> nat list" where
  "rx_pending i s = (if snd (rx_at s) \<noteq> None \<and> unat (fst (rx_at s)) = i then take (the (snd (rx_at s))) (array (mbuf_rx s)) else [])"

definition worker_pending :: "app_params \<Rightarrow> nat \<Rightarrow> 'r router \<Rightarrow> nat list" where
  "worker_pending a i s = (if snd (worker_at s) \<and> unat (fst (worker_at s)) = i
     then take (unat (burst_size_worker_write a)) (array (worker_mbuf s)) else [])"

definition tx_buffer :: "nat \<Rightarrow> 'r router \<Rightarrow> nat list" where
  "tx_buffer i s = take (unat (n_mbufs (mbuf_tx s ! i))) (array (mbuf_tx s ! i))"

text \<open>On the way from port \<open>i\<close> to the other one, the oldest first.\<close>

definition in_flight :: "('r \<Rightarrow> nat list) \<Rightarrow> app_params \<Rightarrow> nat \<Rightarrow> 'r router \<Rightarrow> nat list" where
  "in_flight contents a i s = tx_buffer (1 - i) s @ ring_at contents (rings_tx s) (1 - i) @ worker_pending a i s
     @ ring_at contents (rings_rx s) i @ rx_pending i s"

definition flow :: "('r \<Rightarrow> nat list) \<Rightarrow> app_params \<Rightarrow> dpdk \<Rightarrow> 'r router \<Rightarrow> nat \<Rightarrow> bool" where
  "flow contents a D s i \<longleftrightarrow>
     accepted D (ip_ports s) (ports a ! i) (calls s) = handed_out (ports a ! (1 - i)) (calls s) @ in_flight contents a i s"

section \<open>The invariant\<close>

definition two_port_config :: "app_params \<Rightarrow> bool" where
  "two_port_config a \<longleftrightarrow> n_ports a = 2 \<and> ports a ! 0 \<noteq> ports a ! 1 \<and> burst_size_rx_read a = 1 \<and> burst_size_worker_read a = 1
     \<and> burst_size_worker_write a = 1 \<and> burst_size_tx_read a = 1 \<and> burst_size_tx_write a = 1"

definition shape :: "'r router \<Rightarrow> bool" where
  "shape s \<longleftrightarrow> length (rings_rx s) = 4 \<and> length (rings_tx s) = 4 \<and> length (mbuf_tx s) = 4
     \<and> (\<forall>i < 2. rings_rx s ! i \<noteq> None \<and> rings_tx s ! i \<noteq> None \<and> length (array (mbuf_tx s ! i)) = 256 \<and> n_mbufs (mbuf_tx s ! i) = 0)
     \<and> (\<exists>c c'. ip_ports s = [Some c, Some c']) \<and> length (array (mbuf_rx s)) = 256 \<and> length (array (worker_mbuf s)) = 256
     \<and> fst (rx_at s) \<in> {0, 1} \<and> snd (rx_at s) \<in> {None, Some 1} \<and> fst (worker_at s) \<in> {0, 1} \<and> tx_at s \<in> {0, 1}"

definition router_inv :: "('r \<Rightarrow> nat list) \<Rightarrow> app_params \<Rightarrow> dpdk \<Rightarrow> 'r router \<Rightarrow> bool" where
  "router_inv contents a D s \<longleftrightarrow> shape s \<and> flow contents a D s 0 \<and> flow contents a D s 1"

lemma pending_frame [simp]:
  "rx_pending i (s\<lparr>rings_rx := x\<rparr>) = rx_pending i s" "rx_pending i (s\<lparr>rings_tx := x\<rparr>) = rx_pending i s"
  "rx_pending i (s\<lparr>worker_at := w\<rparr>) = rx_pending i s" "rx_pending i (s\<lparr>worker_mbuf := b\<rparr>) = rx_pending i s"
  "rx_pending i (s\<lparr>tx_at := t\<rparr>) = rx_pending i s" "rx_pending i (s\<lparr>mbuf_tx := bs\<rparr>) = rx_pending i s"
  "rx_pending i (s\<lparr>calls := cl\<rparr>) = rx_pending i s" "rx_pending i (s\<lparr>mbufs := M\<rparr>) = rx_pending i s"
  "worker_pending a i (s\<lparr>rings_rx := x\<rparr>) = worker_pending a i s" "worker_pending a i (s\<lparr>rings_tx := x\<rparr>) = worker_pending a i s"
  "worker_pending a i (s\<lparr>rx_at := p\<rparr>) = worker_pending a i s" "worker_pending a i (s\<lparr>mbuf_rx := b\<rparr>) = worker_pending a i s"
  "worker_pending a i (s\<lparr>tx_at := t\<rparr>) = worker_pending a i s" "worker_pending a i (s\<lparr>mbuf_tx := bs\<rparr>) = worker_pending a i s"
  "worker_pending a i (s\<lparr>calls := cl\<rparr>) = worker_pending a i s" "worker_pending a i (s\<lparr>mbufs := M\<rparr>) = worker_pending a i s"
  by (simp_all add: rx_pending_def worker_pending_def)

lemma tx_buffer_empty: "n_mbufs (mbuf_tx s ! i) = 0 \<Longrightarrow> tx_buffer i s = []"
  by (simp add: tx_buffer_def)

lemma ring_at_update:
  "j < length rs \<Longrightarrow> ring_at contents (rs[j := Some r]) i = (if j = i then contents r else ring_at contents rs i)"
  by (auto simp: ring_at_def)

lemma ring_at_Some: "rs ! i = Some r \<Longrightarrow> ring_at contents rs i = contents r"
  by (simp add: ring_at_def)

lemma rx_pending_at:
  "rx_at s = (j, None) \<Longrightarrow> rx_pending i s = []"
  "rx_at s = (j, Some n) \<Longrightarrow> rx_pending i s = (if unat j = i then take n (array (mbuf_rx s)) else [])"
  by (simp_all add: rx_pending_def)

lemma worker_pending_at:
  "worker_at s = (j, False) \<Longrightarrow> worker_pending a i s = []"
  "worker_at s = (j, True) \<Longrightarrow>
    worker_pending a i s = (if unat j = i then take (unat (burst_size_worker_write a)) (array (worker_mbuf s)) else [])"
  by (simp_all add: worker_pending_def)

text \<open>The state without the buffers of the sending core, which are empty between its turns.\<close>

definition waiting :: "('r \<Rightarrow> nat list) \<Rightarrow> app_params \<Rightarrow> nat \<Rightarrow> 'r router \<Rightarrow> nat list" where
  "waiting contents a i s = ring_at contents (rings_tx s) (1 - i) @ worker_pending a i s @ ring_at contents (rings_rx s) i @ rx_pending i s"

lemma flow_waiting:
  assumes "shape s" "i = 0 \<or> i = 1"
  shows "flow contents a D s i \<longleftrightarrow>
    accepted D (ip_ports s) (ports a ! i) (calls s) = handed_out (ports a ! (1 - i)) (calls s) @ waiting contents a i s"
  using assms tx_buffer_empty[of s "1 - i"] by (auto simp: flow_def in_flight_def waiting_def shape_def)

lemma shape_update:
  assumes "shape s"
  shows "j < 2 \<Longrightarrow> shape (s\<lparr>rings_rx := (rings_rx s)[j := Some r]\<rparr>)" "j < 2 \<Longrightarrow> shape (s\<lparr>rings_tx := (rings_tx s)[j := Some r]\<rparr>)"
    "p \<in> {0, 1} \<Longrightarrow> n \<in> {None, Some 1} \<Longrightarrow> shape (s\<lparr>rx_at := (p, n)\<rparr>)" "p \<in> {0, 1} \<Longrightarrow> shape (s\<lparr>worker_at := (p, w)\<rparr>)"
    "p \<in> {0, 1} \<Longrightarrow> shape (s\<lparr>tx_at := p\<rparr>)" "shape (s\<lparr>calls := cl\<rparr>)" "shape (s\<lparr>mbufs := M\<rparr>)"
    "length (array b) = 256 \<Longrightarrow> shape (s\<lparr>mbuf_rx := b\<rparr>)" "length (array b) = 256 \<Longrightarrow> shape (s\<lparr>worker_mbuf := b\<rparr>)"
    "j < 2 \<Longrightarrow> length (array b) = 256 \<Longrightarrow> n_mbufs b = 0 \<Longrightarrow> shape (s\<lparr>mbuf_tx := (mbuf_tx s)[j := b]\<rparr>)"
  using assms unfolding shape_def by (simp_all add: nth_list_update)

lemma fifo_enqueue:
  assumes "ring_fifo R contents" "enqueue_bulk R r ms = (ret, r')"
  shows "ret < 0 \<and> contents r' = contents r \<or> ret = 0 \<and> contents r' = contents r @ ms"
  using assms unfolding ring_fifo_def by (auto dest!: spec[of _ r] spec[of _ ms] simp: Let_def)

lemma fifo_dequeue:
  assumes "ring_fifo R contents" "dequeue_bulk R r 1 = (ret, ms, r')"
  shows "ret = - ENOENT \<and> contents r' = contents r \<or> ret = 0 \<and> (\<exists>m. ms = [m] \<and> contents r = m # contents r')"
proof -
  have "if 1 \<le> length (contents r) then ret = 0 \<and> ms = take 1 (contents r) \<and> contents r' = drop 1 (contents r)
      else ret = - ENOENT \<and> contents r' = contents r"
    using conjunct2[OF assms(1)[unfolded ring_fifo_def], THEN spec[of _ r], THEN spec[of _ 1]] assms(2) by (simp add: Let_def)
  then show ?thesis by (cases "contents r") auto
qed

lemma next_port_2: "two_port_config a \<Longrightarrow> i \<in> {0, 1} \<Longrightarrow> next_port a i \<in> {0, 1}"
  by (auto simp: next_port_def two_port_config_def)

lemma ports_distinct:
  assumes "two_port_config a" "i = 0 \<or> i = 1" "j = 0 \<or> j = 1"
  shows "ports a ! j = ports a ! (1 - i) \<longleftrightarrow> j = 1 - i"
proof -
  have "ports a ! 0 \<noteq> ports a ! 1" using assms(1) by (simp add: two_port_config_def)
  with assms(2,3) show ?thesis by (elim disjE) simp_all
qed

lemma pointer_Some: "i < length ps \<Longrightarrow> ps ! i = Some p \<Longrightarrow> pointer ps i = Inr p"
  by (simp add: pointer_def)

lemma shape_rings:
  assumes "shape s" "i < 2"
  obtains r r' where "rings_rx s ! i = Some r" "rings_tx s ! i = Some r'" "i < length (rings_rx s)" "i < length (rings_tx s)"
    "i < length (mbuf_tx s)"
  using assms by (auto simp: shape_def)

text \<open>A step that leaves the calls as they are keeps the invariant when what waits stays the same.\<close>

lemma inv_same_waiting:
  assumes "router_inv contents a D s" "shape s'" "ip_ports s' = ip_ports s" "calls s' = calls s"
    "\<And>i. i = 0 \<or> i = 1 \<Longrightarrow> waiting contents a i s' = waiting contents a i s"
  shows "router_inv contents a D s'"
proof -
  have "flow contents a D s' i" if i: "i = 0 \<or> i = 1" for i
    using assms(1,3,4) assms(5)[OF i] i flow_waiting[OF assms(2) i] flow_waiting[of s i] by (auto simp: router_inv_def)
  then show ?thesis using assms(2) by (simp add: router_inv_def)
qed

lemma rx_retry_inv:
  assumes inv: "router_inv contents a D s" and "ring_fifo R contents" "two_port_config a" "snd (rx_at s) \<noteq> None"
  shows "\<exists>s'. rx_retry R a s = Inr s' \<and> router_inv contents a D s'"
proof -
  have sh: "shape s" using inv by (simp add: router_inv_def)
  obtain j where at: "rx_at s = (j, Some 1)" "j \<in> {0, 1}" using sh assms(4) by (cases "rx_at s") (auto simp: shape_def)
  have j: "unat j < 2" using at by auto
  obtain r where r: "rings_rx s ! unat j = Some r" "unat j < length (rings_rx s)" using shape_rings[OF sh j] by metis
  obtain ret r' where e: "enqueue_bulk R r (take 1 (array (mbuf_rx s))) = (ret, r')" by fastforce
  let ?s = "s\<lparr>rings_rx := (rings_rx s)[unat j := Some r']\<rparr>"
  let ?t = "if ret < 0 then ?s else ?s\<lparr>rx_at := (next_port a j, None)\<rparr>"
  have "rx_retry R a s = Inr ?t" using at r e by (simp add: rx_retry_def pointer_Some)
  moreover have "shape ?t" using next_port_2[OF assms(3) at(2)] shape_update(1)[OF sh j] by (simp add: shape_update(3))
  moreover have "waiting contents a i ?t = waiting contents a i s" for i
    using fifo_enqueue[OF assms(2) e] at r
    by (auto simp: waiting_def ring_at_update ring_at_Some rx_pending_at)
  ultimately show ?thesis using inv_same_waiting[OF inv, of ?t] by simp
qed

lemma worker_retry_inv:
  assumes inv: "router_inv contents a D s" and "ring_fifo R contents" "two_port_config a" "snd (worker_at s)"
  shows "\<exists>s'. worker_retry R a s = Inr s' \<and> router_inv contents a D s'"
proof -
  have sh: "shape s" using inv by (simp add: router_inv_def)
  obtain j where at: "worker_at s = (j, True)" "j \<in> {0, 1}" using sh assms(4) by (cases "worker_at s") (auto simp: shape_def)
  define k where "k = unat (j XOR 1)"
  have k: "k = 1 - unat j" "k < 2" using at by (auto simp: k_def)
  obtain r where r: "rings_tx s ! k = Some r" "k < length (rings_tx s)" using shape_rings[OF sh k(2)] by metis
  have w: "unat (burst_size_worker_write a) = 1" using assms(3) by (simp add: two_port_config_def)
  obtain ret r' where e: "enqueue_bulk R r (take 1 (array (worker_mbuf s))) = (ret, r')" by fastforce
  let ?s = "s\<lparr>rings_tx := (rings_tx s)[k := Some r']\<rparr>"
  let ?t = "if ret < 0 then ?s else ?s\<lparr>worker_at := (next_port a j, False)\<rparr>"
  have "worker_retry R a s = Inr ?t" using at r e by (simp add: worker_retry_def pointer_Some w k_def)
  moreover have "shape ?t" using next_port_2[OF assms(3) at(2)] shape_update(2)[OF sh k(2)] by (simp add: shape_update(4))
  moreover have "waiting contents a i ?t = waiting contents a i s" if i: "i = 0 \<or> i = 1" for i
  proof -
    have "k = 1 - i \<longleftrightarrow> unat j = i" using k i at by auto
    then show ?thesis
      using fifo_enqueue[OF assms(2) e] at r w
      by (auto simp: waiting_def ring_at_update ring_at_Some worker_pending_at)
  qed
  ultimately show ?thesis using inv_same_waiting[OF inv, of ?t] by simp
qed

lemma worker_turn_inv:
  assumes inv: "router_inv contents a D s" and "ring_fifo R contents" "two_port_config a" "\<not> snd (worker_at s)"
  shows "\<exists>s'. worker_turn R a s = Inr s' \<and> router_inv contents a D s'"
proof -
  have sh: "shape s" using inv by (simp add: router_inv_def)
  obtain j where at: "worker_at s = (j, False)" "j \<in> {0, 1}" using sh assms(4) by (cases "worker_at s") (auto simp: shape_def)
  have j: "unat j < 2" using at by auto
  obtain r where r: "rings_rx s ! unat j = Some r" "unat j < length (rings_rx s)" using shape_rings[OF sh j] by metis
  have w: "unat (burst_size_worker_read a) = 1" "unat (burst_size_worker_write a) = 1" using assms(3) by (simp_all add: two_port_config_def)
  have len: "length (array (worker_mbuf s)) = 256" using sh by (simp add: shape_def)
  obtain ret ms r' where e: "dequeue_bulk R r 1 = (ret, ms, r')" by (metis prod_cases3)
  let ?s = "s\<lparr>rings_rx := (rings_rx s)[unat j := Some r']\<rparr>"
  have sh': "shape ?s" by (rule shape_update(1)[OF sh j])
  from fifo_dequeue[OF assms(2) e] show ?thesis
  proof (elim disjE conjE exE)
    assume ret: "ret = - ENOENT" and c: "contents r' = contents r"
    let ?t = "?s\<lparr>worker_at := (next_port a j, False)\<rparr>"
    have "worker_turn R a s = Inr ?t" using at r e ret by (simp add: worker_turn_def pointer_Some w)
    moreover have "shape ?t" using next_port_2[OF assms(3) at(2)] sh' by (intro shape_update(4)) simp_all
    moreover have "waiting contents a i ?t = waiting contents a i s" for i
      using at r c by (auto simp: waiting_def ring_at_update ring_at_Some worker_pending_at)
    ultimately show ?thesis using inv_same_waiting[OF inv, of ?t] by simp
  next
    fix m assume ret: "ret = 0" and ms: "ms = [m]" and c: "contents r = m # contents r'"
    let ?w = "(worker_mbuf s)\<lparr>array := m # drop 1 (array (worker_mbuf s))\<rparr>"
    let ?t = "?s\<lparr>worker_mbuf := ?w, worker_at := (j, True)\<rparr>"
    have "worker_turn R a s = Inr ?t"
      using at r e ret ms len by (simp add: worker_turn_def pointer_Some w array_store_def ENOENT_def)
    moreover have "shape ?t" using at len sh' by (intro shape_update(4) shape_update(9)) simp_all
    moreover have "waiting contents a i ?t = waiting contents a i s" for i
      using at r c w by (auto simp: waiting_def ring_at_update ring_at_Some worker_pending_at)
    ultimately show ?thesis using inv_same_waiting[OF inv, of ?t] by simp
  qed
qed

lemma calls_append:
  "handed_out p (xs @ ys) = handed_out p xs @ handed_out p ys" "accepted D cs p (xs @ ys) = accepted D cs p xs @ accepted D cs p ys"
  by (simp_all add: handed_out_def accepted_def)

lemma calls_silent:
  "handed_out p (map Free xs) = []" "accepted D cs p (map Free xs) = []"
  "handed_out p [Tx_burst Rx_core q ms k, Free m] = []" "accepted D cs p [Tx_burst Rx_core q ms k, Free m] = []"
  "handed_out p [Rx_burst q burst] = []"
  by (simp_all add: handed_out_def accepted_def comp_def)

lemma call_handed:
  "handed_out p (Tx_burst Tx_core q ms k # cl) = (if q = p then ms else []) @ handed_out p cl"
  "accepted D cs p (Tx_burst co q ms k # cl) = accepted D cs p cl"
  by (simp_all add: handed_out_def accepted_def)

lemma tx_turn_inv:
  assumes inv: "router_inv contents a D s" and "ring_fifo R contents" "two_port_config a"
  shows "\<exists>s'. tx_turn R a taken s = Inr s' \<and> router_inv contents a D s'"
proof -
  have sh: "shape s" using inv by (simp add: router_inv_def)
  define j where "j = unat (tx_at s)"
  have at: "tx_at s \<in> {0, 1}" using sh by (simp add: shape_def)
  then have j: "j = 0 \<or> j = 1" "j < 2" unfolding j_def by auto
  obtain r where r: "rings_tx s ! j = Some r" "j < length (rings_tx s)" using shape_rings[OF sh j(2)] by metis
  obtain ret ms r' where e: "dequeue_bulk R r 1 = (ret, ms, r')" by (metis prod_cases3)
  let ?s = "s\<lparr>rings_tx := (rings_tx s)[j := Some r'], tx_at := next_port a (tx_at s)\<rparr>"
  let ?b = "mbuf_tx s ! j"
  have w: "burst_size_tx_read a = 1" "burst_size_tx_write a = 1" using assms(3) by (simp_all add: two_port_config_def)
  have b: "n_mbufs ?b = 0" "length (array ?b) = 256" using sh j by (auto simp: shape_def)
  have sh': "shape ?s"
    using next_port_2[OF assms(3) at] shape_update(2)[OF sh j(2)] by (intro shape_update(5)) simp_all
  from fifo_dequeue[OF assms(2) e] show ?thesis
  proof (elim disjE conjE exE)
    assume ret: "ret = - ENOENT" and c: "contents r' = contents r"
    have "tx_turn R a taken s = Inr ?s" using r e ret by (simp add: tx_turn_def pointer_Some w j_def[symmetric])
    moreover have "waiting contents a i ?s = waiting contents a i s" for i
      using r c by (auto simp: waiting_def ring_at_update ring_at_Some)
    ultimately show ?thesis using inv_same_waiting[OF inv sh'] by simp
  next
    fix m assume ret: "ret = 0" and ms: "ms = [m]" and c: "contents r = m # contents r'"
    let ?u = "?s\<lparr>mbuf_tx := (mbuf_tx s)[j := ?b\<lparr>array := m # drop 1 (array ?b), n_mbufs := 0\<rparr>]\<rparr>"
    let ?t = "?u\<lparr>calls := calls s @ Tx_burst Tx_core (ports a ! j) [m] taken # map Free (drop taken [m])\<rparr>"
    have res: "tx_turn R a taken s = Inr ?t"
      using r e ret ms b by (simp add: tx_turn_def pointer_Some w array_store_def ENOENT_def j_def[symmetric] Let_def)
    have "shape ?u" using shape_update(10)[OF sh', of j "?b\<lparr>array := m # drop 1 (array ?b), n_mbufs := 0\<rparr>"] b j by simp
    then have sh'': "shape ?t" by (rule shape_update(6))
    have "flow contents a D ?t i" if i: "i = 0 \<or> i = 1" for i
    proof -
      have p: "ports a ! j = ports a ! (1 - i) \<longleftrightarrow> j = 1 - i" 
        using ports_distinct[OF assms(3)] i j(1) by blast
      have f: "accepted D (ip_ports s) (ports a ! i) (calls s) = handed_out (ports a ! (1 - i)) (calls s) @ waiting contents a i s"
        using inv i flow_waiting[OF sh i] by (auto simp: router_inv_def)
      have "ring_at contents (rings_tx s) j = [m] @ contents r'" using r(1) c ring_at_Some by fastforce
      then have "ring_at contents (rings_tx s) (1 - i) =
          (if j = 1 - i then [m] else []) @ ring_at contents ((rings_tx s)[j := Some r']) (1 - i)"
        using ring_at_update[OF r(2), of contents r' "1 - i"] by (cases "j = 1 - i") simp_all
      then have "waiting contents a i s = (if j = 1 - i then [m] else []) @ waiting contents a i ?t"
        unfolding waiting_def by simp
      then show ?thesis
        unfolding flow_waiting[OF sh'' i] using f p by (simp add: calls_append call_handed calls_silent del: One_nat_def)
    qed
    then show ?thesis using res sh'' by (simp add: router_inv_def)
  qed
qed

lemma targets_router_two:
  assumes "i \<in> {0, 1}" "\<not> is_arp D d"
  shows "targets_router D [Some c, Some c'] i d = Inr (for_router D [Some c, Some c'] d)"
proof -
  have p: "ip_port [Some c, Some c'] 0 = Inr c" "ip_port [Some c, Some c'] 1 = Inr c'" by (simp_all add: ip_port_def)
  from assms(1) show ?thesis
  proof (elim insertE)
    assume "i = 0"
    then show ?thesis using assms(2) p by (auto simp: targets_router_def for_router_def)
  next
    assume "i = 1"
    then show ?thesis using assms(2) p by (auto simp: targets_router_def for_router_def)
  qed simp
qed

lemma accepted_burst:
  "accepted D cs p [Rx_burst q burst] =
    (if q = p \<and> burst \<noteq> [] \<and> \<not> for_router D cs (data (snd (hd burst))) then map fst burst else [])"
  by (simp add: accepted_def)

text \<open>A turn of the receiving core, by what it does: nothing, an answer, or a packet to be forwarded.\<close>

lemma rx_turn_result:
  assumes sh: "shape s" and "two_port_config a" and at: "rx_at s = (j, None)" "j \<in> {0, 1}"
    and burst: "length burst \<le> 1" and al: "alloc \<noteq> None"
  obtains (quiet) M b cl where "rx_turn a D burst alloc taken s = Inr (s\<lparr>mbufs := M, mbuf_rx := b, rx_at := (next_port a j, None),
        calls := calls s @ [Rx_burst (ports a ! unat j) burst] @ cl\<rparr>)" "length (array b) = 256"
      "burst = [] \<or> for_router D (ip_ports s) (data (snd (hd burst)))"
      "\<And>p. handed_out p cl = []" "\<And>p cs. accepted D cs p cl = []"
  | (forward) M b m where "rx_turn a D burst alloc taken s = Inr (s\<lparr>mbufs := M, mbuf_rx := b, rx_at := (j, Some 1),
        calls := calls s @ [Rx_burst (ports a ! unat j) burst]\<rparr>)" "length (array b) = 256" "take 1 (array b) = [m]"
      "burst \<noteq> []" "map fst burst = [m]" "\<not> for_router D (ip_ports s) (data (snd (hd burst)))"
proof -
  obtain c c' where ips: "ip_ports s = [Some c, Some c']" using sh by (auto simp: shape_def)
  have len: "length (array (mbuf_rx s)) = 256" using sh by (simp add: shape_def)
  consider "burst = []" | m b where "burst = [(m, b)]" using burst by (cases burst) auto
  then show thesis
  proof cases
    case 1
    then show thesis
      using quiet[where M = "mbufs s" and b = "mbuf_rx s" and cl = "[]"] at len
      by (simp add: rx_turn_def array_store_def handed_out_def accepted_def)
  next
    case 2
    let ?M = "(mbufs s)(m := b)" and ?b = "(mbuf_rx s)\<lparr>array := m # drop 1 (array (mbuf_rx s))\<rparr>"
    let ?s = "s\<lparr>mbufs := ?M, calls := calls s @ [Rx_burst (ports a ! unat j) burst], mbuf_rx := ?b\<rparr>"
    have turn: "rx_turn a D burst alloc taken s =
        (if is_arp D (data b) then answer_arp D j m alloc taken (?s\<lparr>rx_at := (next_port a j, None)\<rparr>)
         else bindE (targets_router D (ip_ports s) j (data b)) (\<lambda>here.
           if here then Inr (answer_echo D j m taken (?s\<lparr>rx_at := (next_port a j, None)\<rparr>))
           else Inr (?s\<lparr>rx_at := (j, Some 1)\<rparr>)))"
      using at len unfolding 2 by (simp add: rx_turn_def array_store_def Let_def cong: if_cong)
    show thesis
    proof (cases "is_arp D (data b)")
      case True
      obtain pkt where pkt: "alloc = Some pkt" using al by blast
      obtain cc where "ip_port (ip_ports s) (unat j) = Inr cc" using at(2) ips by (auto simp: ip_port_def)
      then obtain M' where "rx_turn a D burst alloc taken s = Inr (?s\<lparr>rx_at := (next_port a j, None), mbufs := M',
          calls := calls ?s @ [Tx_burst Rx_core j [pkt] taken, Free pkt]\<rparr>)"
        unfolding turn using True pkt by (simp add: answer_arp_def split_beta Let_def)
      then have "rx_turn a D burst alloc taken s = Inr (s\<lparr>mbufs := M', mbuf_rx := ?b, rx_at := (next_port a j, None),
          calls := calls s @ [Rx_burst (ports a ! unat j) burst] @ [Tx_burst Rx_core j [pkt] taken, Free pkt]\<rparr>)"
        by simp
      then show thesis
        using quiet[where M = M' and b = ?b and cl = "[Tx_burst Rx_core j [pkt] taken, Free pkt]"] True 2 len
        by (simp add: for_router_def handed_out_def accepted_def)
    next
      case False
      show thesis
      proof (cases "for_router D (ip_ports s) (data b)")
        case True
        then obtain M' where "rx_turn a D burst alloc taken s = Inr (?s\<lparr>rx_at := (next_port a j, None), mbufs := M',
            calls := calls ?s @ [Tx_burst Rx_core j [m] taken, Free m]\<rparr>)"
          unfolding turn using False targets_router_two[OF at(2) False] ips by (simp add: answer_echo_def)
        then have "rx_turn a D burst alloc taken s = Inr (s\<lparr>mbufs := M', mbuf_rx := ?b, rx_at := (next_port a j, None),
            calls := calls s @ [Rx_burst (ports a ! unat j) burst] @ [Tx_burst Rx_core j [m] taken, Free m]\<rparr>)"
          by simp
        then show thesis
          using quiet[where M = M' and b = ?b and cl = "[Tx_burst Rx_core j [m] taken, Free m]"] True 2 len
          by (simp add: handed_out_def accepted_def)
      next
        case no: False
        then have "rx_turn a D burst alloc taken s = Inr (s\<lparr>mbufs := ?M, mbuf_rx := ?b, rx_at := (j, Some 1),
            calls := calls s @ [Rx_burst (ports a ! unat j) burst]\<rparr>)"
          unfolding turn using False targets_router_two[OF at(2) False] ips by simp
        then show thesis using forward[where M = ?M and b = ?b and m = m] no 2 len by simp
      qed
    qed
  qed
qed

lemma rx_turn_inv:
  assumes inv: "router_inv contents a D s" and cfg: "two_port_config a" and "possible a (Rx_turn burst alloc taken) s"
  shows "\<exists>s'. rx_turn a D burst alloc taken s = Inr s' \<and> router_inv contents a D s'"
proof -
  have sh: "shape s" using inv by (simp add: router_inv_def)
  have p: "snd (rx_at s) = None" "length burst \<le> 1" "alloc \<noteq> None"
    using assms(3) cfg by (simp_all add: possible_def two_port_config_def)
  obtain j where at: "rx_at s = (j, None)" "j \<in> {0, 1}" using sh p(1) by (cases "rx_at s") (auto simp: shape_def)
  have f: "accepted D (ip_ports s) (ports a ! i) (calls s) = handed_out (ports a ! (1 - i)) (calls s) @ waiting contents a i s"
    if "i = 0 \<or> i = 1" for i using inv that flow_waiting[OF sh that] by (auto simp: router_inv_def)
  show ?thesis
  proof (cases rule: rx_turn_result[OF sh cfg at p(2,3), of D taken, case_names quiet forward])
    case (quiet M b cl)
    let ?t = "s\<lparr>mbufs := M, mbuf_rx := b, rx_at := (next_port a j, None), calls := calls s @ [Rx_burst (ports a ! unat j) burst] @ cl\<rparr>"
    have sh': "shape ?t"
      using next_port_2[OF cfg at(2)] quiet(2) by (intro shape_update(6) shape_update(3) shape_update(8) shape_update(7) sh) simp_all
    have "waiting contents a i ?t = waiting contents a i s" for i using at by (simp add: waiting_def rx_pending_at)
    moreover have "accepted D (ip_ports s) q [Rx_burst (ports a ! unat j) burst] = []" for q
      using quiet(3) by (auto simp: accepted_def)
    then have "accepted D (ip_ports s) q (calls s @ [Rx_burst (ports a ! unat j) burst] @ cl) = accepted D (ip_ports s) q (calls s)"
      "handed_out q (calls s @ [Rx_burst (ports a ! unat j) burst] @ cl) = handed_out q (calls s)" for q
      by (simp_all only: calls_append calls_silent quiet(4,5) append_Nil2)
    ultimately have "flow contents a D ?t i" if "i = 0 \<or> i = 1" for i
      unfolding flow_waiting[OF sh' that] using f[OF that] by (simp del: One_nat_def)
    then show ?thesis using quiet(1) sh' by (simp add: router_inv_def)
  next
    case (forward M b m)
    let ?t = "s\<lparr>mbufs := M, mbuf_rx := b, rx_at := (j, Some 1), calls := calls s @ [Rx_burst (ports a ! unat j) burst]\<rparr>"
    have sh': "shape ?t"
      using at(2) forward(2) by (intro shape_update(6) shape_update(3) shape_update(8) shape_update(7) sh) simp_all
    have "flow contents a D ?t i" if i: "i = 0 \<or> i = 1" for i
    proof -
      have "unat j = 0 \<or> unat j = 1" using at(2) by auto
      then have "ports a ! unat j = ports a ! i \<longleftrightarrow> unat j = i" using ports_distinct[OF cfg, of "1 - i" "unat j"] i by auto
      moreover have "waiting contents a i ?t = waiting contents a i s @ (if unat j = i then [m] else [])"
        using at forward(3) by (simp add: waiting_def rx_pending_at)
      ultimately show ?thesis
        unfolding flow_waiting[OF sh' i] using f[OF i] forward(4-6)
        by (simp add: accepted_burst calls_append calls_silent del: One_nat_def)
    qed
    then show ?thesis using forward(1) sh' by (simp add: router_inv_def)
  qed
qed

lemma exec_inv:
  assumes "router_inv contents a D s" "ring_fifo R contents" "two_port_config a" "possible a ev s"
  shows "\<exists>s'. exec R a D ev s = Inr s' \<and> router_inv contents a D s'"
  using assms rx_turn_inv rx_retry_inv worker_turn_inv worker_retry_inv tx_turn_inv
  by (cases ev) (simp_all add: exec_def possible_def)

lemma runs_inv:
  assumes "runs R a D s0 evs s" "router_inv contents a D s0" "ring_fifo R contents" "two_port_config a"
  shows "router_inv contents a D s"
  using assms
proof (induction rule: runs.induct)
  case (runs_step evs s ev s')
  then show ?case using exec_inv[of contents a D s R ev] by auto
qed

section \<open>From the command line to the first packet\<close>

definition bursts :: "app_params \<Rightarrow> u32 list" where
  "bursts a = [burst_size_rx_read a, burst_size_worker_read a, burst_size_worker_write a, burst_size_tx_read a, burst_size_tx_write a]"

lemma bursts_frame [simp]:
  "bursts (a\<lparr>ports := ps\<rparr>) = bursts a" "bursts (a\<lparr>n_ports := n\<rparr>) = bursts a" "bursts (a\<lparr>pipeline_type := t\<rparr>) = bursts a"
  "bursts (a\<lparr>core_rx := c\<rparr>) = bursts a" "bursts (a\<lparr>core_worker := c\<rparr>) = bursts a" "bursts (a\<lparr>core_tx := c\<rparr>) = bursts a"
  by (simp_all add: bursts_def)

lemma mask_loop_bursts: "bursts (snd (mask_loop pm is a)) = bursts a"
  by (induction pm "is" a rule: mask_loop.induct) simp_all

lemma port_mask_bursts: "app_parse_port_mask w is_pow2 m a = (ret, a') \<Longrightarrow> bursts a' = bursts a"
  using mask_loop_bursts[of "fst (strtoul w 16 m)" "[0..<64]" "a\<lparr>n_ports := 0\<rparr>"]
  by (auto simp: app_parse_port_mask_def Let_def split: if_splits prod.splits)

lemma options_bursts: "parse_options w is_pow2 os provided a = Some a' \<Longrightarrow> bursts a' = bursts a"
proof (induction w is_pow2 os provided a rule: parse_options.induct)
  case (2 w is_pow2 m os provided a)
  then show ?case using port_mask_bursts by (fastforce split: prod.splits if_splits)
qed (auto split: if_splits option.splits)

lemma port_selection_cases: "port_selection w os sel = sel \<or> (\<exists>P. port_selection w os sel = filter P [0..<64])"
  by (induction w os sel rule: port_selection.induct) auto

lemma two_selected:
  assumes "config_wf a (port_selection w os [0, 0, 0, 0])" "n_ports a = 2"
  obtains p q where "p < q" "q < 64" "take 2 (ports a) = [of_nat p, of_nat q]" "length (ports a) = 4"
proof -
  let ?sel = "port_selection w os [0, 0, 0, 0]"
  have l: "length ?sel = 2" "take 2 (ports a) = map of_nat ?sel" "length (ports a) = 4"
    using assms by (auto simp: config_wf_def xconst)
  then have "?sel \<noteq> [0, 0, 0, 0]" by auto
  then obtain P where P: "?sel = filter P [0..<64]" using port_selection_cases[of w os "[0, 0, 0, 0]"] by auto
  obtain p q where pq: "?sel = [p, q]" using l(1) by (auto simp: numeral_2_eq_2 length_Suc_conv)
  have "sorted_wrt (<) ?sel" unfolding P by (intro sorted_wrt_filter) simp
  moreover have "set ?sel \<subseteq> {0..<64}" unfolding P by auto
  ultimately show thesis using that[of p q] pq l by simp
qed

lemma create_rings_result:
  assumes "create_rings I name n is rs = Inr rs'" "\<And>i r. ring_create I name i n = Some r \<Longrightarrow> contents r = []"
  shows "length rs' = length rs \<and> (\<forall>i \<in> set is. i < length rs \<and> (\<exists>r. rs' ! i = Some r \<and> contents r = []))
    \<and> (\<forall>i. i \<notin> set is \<longrightarrow> rs' ! i = rs ! i)"
  using assms(1)
proof (induction "is" arbitrary: rs)
  case (Cons i "is")
  then obtain r where r: "ring_create I name i n = Some r" "i < length rs" "create_rings I name n is (rs[i := Some r]) = Inr rs'"
    by (auto split: option.splits if_splits)
  have "rs' ! i = Some r \<and> contents r = []" if "i \<notin> set is" using Cons.IH[OF r(3)] that r assms(2) by simp
  then show ?case using Cons.IH[OF r(3)] r by auto
qed simp

lemma init_two_ports:
  assumes "init_ports I D IPv4 a [of_nat p, of_nat q] [None, None] = Inr cs" "p < q" "q < 64"
  shows "p = 0 \<and> q = 1 \<and> (\<exists>c c'. cs = [Some c, Some c'])"
proof -
  have u: "(ucast (of_nat n :: u32) :: u8) = of_nat n" "unat (of_nat n :: u8) = n" if "n < 64" for n
    using that by (rule_tac bit_word_eqI, auto simp: bit_simps unat_of_nat_small)
  have "p < 2" "q < 2"
    using assms u[of p] u[of q]
    by (auto simp: Let_def ip_port_def init_ip_port_def split: if_splits)
  then have "p = 0" "q = 1" using assms(2) by auto
  then show ?thesis using assms(1) by (auto simp: Let_def ip_port_def init_ip_port_def split: if_splits)
qed

definition rings_start_empty :: "'r dpdk_init \<Rightarrow> ('r \<Rightarrow> nat list) \<Rightarrow> bool" where
  "rings_start_empty I contents \<longleftrightarrow> (\<forall>name i n r. ring_create I name i n = Some r \<longrightarrow> contents r = [])"

lemma start_inv:
  assumes a: "config_wf a (port_selection w os [0, 0, 0, 0])" "n_ports a = 2" "bursts a = [1, 1, 1, 1, 1]"
    and i: "app_init I D IPv4 a (router0 M) = Inr s0" "rings_start_empty I contents"
  shows "two_port_config a \<and> ports a ! 0 = 0 \<and> ports a ! 1 = 1 \<and> router_inv contents a D s0"
proof -
  obtain p q where pq: "p < q" "q < 64" "take 2 (ports a) = [of_nat p, of_nat q]" "length (ports a) = 4"
    using two_selected[OF a(1,2)] by blast
  have up: "[0..<2] = [0, Suc 0]" by (simp add: upt_rec)
  obtain rx tx cs where rx: "create_rings I ''app_ring_rx_'' (ring_rx_size a) [0..<2] (replicate APP_MAX_PORTS None) = Inr rx"
    and tx: "create_rings I ''app_ring_tx_'' (ring_tx_size a) [0..<2] (replicate APP_MAX_PORTS None) = Inr tx"
    and cs: "init_ports I D IPv4 a [of_nat p, of_nat q] [None, None] = Inr cs"
    and s0: "s0 = (router0 M)\<lparr>rings_rx := rx, rings_tx := tx, ip_ports := cs\<rparr>"
    using i(1) a(2) pq(3) unfolding app_init_def app_init_rings_def app_init_ports_def
    by (auto simp: router0_def simp del: init_ports.simps create_rings.simps)
  note cs' = init_two_ports[OF cs pq(1,2)]
  have r: "length rs = 4 \<and> (\<exists>r. rs ! 0 = Some r \<and> contents r = []) \<and> (\<exists>r. rs ! 1 = Some r \<and> contents r = [])"
    if "create_rings I name n [0..<2] (replicate APP_MAX_PORTS None) = Inr rs" for name n rs
    using create_rings_result[OF that, of contents] i(2) by (simp add: rings_start_empty_def xconst up)
  have ports: "ports a ! 0 = 0" "ports a ! 1 = 1"
    using cs' nth_take[of 0 2 "ports a"] nth_take[of 1 2 "ports a"] pq(3) by simp_all
  have cfg: "two_port_config a" using a(2,3) ports by (simp add: two_port_config_def bursts_def)
  have arr: "length (array empty_array) = 256" "n_mbufs empty_array = 0" by (simp_all add: empty_array_def xconst)
  have "shape s0"
    unfolding shape_def s0 using r[OF rx] r[OF tx] cs' arr
    by (auto simp: router0_def less_2_cases_iff APP_MAX_PORTS_def)
  moreover have "flow contents a D s0 i" if "i = 0 \<or> i = 1" for i
    unfolding flow_waiting[OF \<open>shape s0\<close> that] using that r[OF rx] r[OF tx]
    by (auto simp: s0 router0_def waiting_def ring_at_def rx_pending_def worker_pending_def accepted_def handed_out_def)
  ultimately show ?thesis using cfg ports by (simp add: router_inv_def)
qed

lemma exec_ip_ports: "exec R a D ev s = Inr s' \<Longrightarrow> ip_ports s' = ip_ports s"
  by (cases ev) (auto simp: exec_def rx_turn_def rx_retry_def worker_turn_def worker_retry_def tx_turn_def answer_arp_def answer_echo_def
      Let_def split_beta split: if_splits option.splits)

lemma runs_ip_ports: "runs R a D s0 evs s \<Longrightarrow> ip_ports s = ip_ports s0"
  by (induction rule: runs.induct) (auto dest: exec_ip_ports)

text \<open>
  C4: Forwarding keeps the order and loses nothing. Started with two ports and without the ACL pipeline, the router that got
  through its initialisation serves the ports 0 and 1, one loop on each of the three cores. Whatever the interleaving of the loops and
  whatever the cards deliver, the packets received on a port that are not for the router itself are, in the order of their arrival,
  those the sending core has given to the card of the other port followed by those still in its buffer, the two rings and the arrays
  of the loops; and no step fails as long as the pool has buffers.
\<close>

theorem forwarding_in_order:
  assumes "app_parse_args w is_pow2 enabled RTE_MAX_LCORE os app = Some a" and "power_of_2_test is_pow2" and "RTE_MAX_LCORE \<le> 2 ^ 32"
    and "n_ports a = 2" and "pipeline_type a \<noteq> e_APP_PIPELINE_ACL"
    and "app_init I D IPv4 a (router0 M) = Inr s0"
    and "rings_start_empty I contents" and "ring_fifo R contents"
    and "runs R a D s0 evs s"
  shows "map (app_lcore_main_loop a) [core_rx a, core_worker a, core_tx a] = [Loop_rx, Loop_worker, Loop_tx]
    \<and> ports a ! 0 = 0 \<and> ports a ! 1 = 1
    \<and> accepted D (ip_ports s0) 0 (calls s) = handed_out 1 (calls s) @ in_flight contents a 0 s
    \<and> accepted D (ip_ports s0) 1 (calls s) = handed_out 0 (calls s) @ in_flight contents a 1 s
    \<and> (\<forall>ev. possible a ev s \<longrightarrow> (\<exists>s'. exec R a D ev s = Inr s'))"
proof -
  have cfg: "config_wf a (port_selection w os [0, 0, 0, 0])" "distinct [core_rx a, core_worker a, core_tx a]"
    using config_accepted[OF assms(1-3)] by blast+
  have "bursts a = bursts app"
    using assms(1) options_bursts by (fastforce simp: app_parse_args_def bind_eq_Some_conv split: if_splits)
  then have "bursts a = [1, 1, 1, 1, 1]" by (simp add: bursts_def app_def)
  note start = start_inv[OF cfg(1) assms(4) this assms(6,7)]
  have inv: "router_inv contents a D s" using runs_inv[OF assms(9)] start assms(8) by blast
  then have "flow contents a D s 0" "flow contents a D s 1" by (simp_all add: router_inv_def)
  moreover have "\<forall>ev. possible a ev s \<longrightarrow> (\<exists>s'. exec R a D ev s = Inr s')"
    using exec_inv[OF inv assms(8)] start by blast
  moreover have "map (app_lcore_main_loop a) [core_rx a, core_worker a, core_tx a] = [Loop_rx, Loop_worker, Loop_tx]"
    using cfg(2) assms(5) by (auto simp: app_lcore_main_loop_def)
  ultimately show ?thesis using start runs_ip_ports[OF assms(9)] by (simp add: flow_def)
qed

section \<open>A run\<close>

text \<open>Rings as lists of at most 127 entries, an initialisation that succeeds, and one packet on its way.\<close>

definition list_ring :: "nat list ring_ops" where
  "list_ring = \<lparr>enqueue_bulk = (\<lambda>r ms. if length r + length ms \<le> 127 then (0, r @ ms) else (-105, r)),
     dequeue_bulk = (\<lambda>r n. if n \<le> length r then (0, take n r, drop n r) else (- ENOENT, [], r))\<rparr>"

definition sample_init :: "nat list dpdk_init" where
  "sample_init = \<lparr>pool_create = True, ring_create = (\<lambda>name i n. Some []), dev_configure = (\<lambda>p. 0), rx_queue_setup = (\<lambda>p n. 0),
     tx_queue_setup = (\<lambda>p n. 0), macaddr_get = (\<lambda>p. [2, 0, 0, 0, 0, p]), rte_malloc_conf = (\<lambda>p. True), dev_start = (\<lambda>p. 0),
     link_up = (\<lambda>p. True)\<rparr>"

definition plain :: app_params where
  "plain = two_ports\<lparr>pipeline_type := 0\<rparr>"

definition blank :: rte_mbuf where
  "blank = \<lparr>data = (\<lambda>i. 0), data_len = 60, pkt_len = 60, port = 0\<rparr>"

definition ready :: "nat list router" where
  "ready = (router0 (\<lambda>m. blank))\<lparr>rings_rx := [Some [], Some [], None, None], rings_tx := [Some [], Some [], None, None],
     ip_ports := [Some \<lparr>port_id = 0, ip = 0x0103A8C0, mac_addr = [2, 0, 0, 0, 0, 0]\<rparr>,
       Some \<lparr>port_id = 1, ip = 0x0104A8C0, mac_addr = [2, 0, 0, 0, 0, 1]\<rparr>]\<rparr>"

lemma plain_accepted: "app_parse_args 32 power_of_2 (\<lambda>l. l < 4) 8 [Port_mask ''0x3''] app = Some plain"
proof -
  have l: "collect_lcores (\<lambda>l. l < 4) [0..<8] [] = Some [0, 1, 2, 3]" by (simp add: upt_rec)
  have "replicate APP_MAX_PORTS 0 = [0 :: u32, 0, 0, 0]" by (simp add: xconst numeral_eq_Suc)
  then show ?thesis by (simp add: app_parse_args_def l two_ports_mask app_def two_ports_def plain_def xconst)
qed

lemma sample_ready: "app_init sample_init sample_dpdk dotted plain (router0 (\<lambda>m. blank)) = Inr ready"
proof -
  have n: "replicate APP_MAX_PORTS None = [None, None, None, None]" by (simp add: xconst numeral_eq_Suc)
  have p: "take 2 [0, 1, 0, 0] = [0 :: u32, 1]" by (simp add: numeral_2_eq_2)
  have ips: "swap32 (dotted 192 168 3 1) = 0x0103A8C0" "swap32 (dotted 192 168 4 1) = 0x0104A8C0"
    by (simp_all add: dotted_def swap32_def)
  have up: "[0..<2] = [0, Suc 0]" by (simp add: upt_rec)
  show ?thesis
    by (simp add: app_init_def app_init_mbuf_pools_def app_init_rings_def app_init_ports_def app_ports_check_link_def init_ip_port_def
        ip_port_def sample_init_def sample_dpdk_def plain_def two_ports_def router0_def ready_def n p up ips)
qed

lemma sample_fifo: "ring_fifo list_ring (\<lambda>r. r)" "rings_start_empty sample_init (\<lambda>r. r)"
  by (auto simp: ring_fifo_def list_ring_def rings_start_empty_def sample_init_def Let_def)

lemma runs_append:
  "runs R a D s0 evs s \<Longrightarrow> possible a ev s \<Longrightarrow> exec R a D ev s = Inr s' \<Longrightarrow> evs' = evs @ [ev] \<Longrightarrow> runs R a D s0 evs' s'"
  by (simp add: runs_step)

definition one_packet :: "event list" where
  "one_packet = [Rx_turn [(7, blank)] (Some 1) 0, Rx_retry, Worker_turn, Worker_retry, Tx_turn 0, Tx_turn 1]"

definition stored :: "nat \<Rightarrow> app_mbuf_array" where
  "stored m = empty_array\<lparr>array := m # drop 1 (array empty_array)\<rparr>"

definition after :: "nat list router" where
  "after = ready\<lparr>mbuf_rx := stored 7, worker_mbuf := stored 7, mbuf_tx := (mbuf_tx ready)[1 := stored 7],
     rx_at := (1, None), worker_at := (1, False), tx_at := 0,
     calls := [Rx_burst 0 [(7, blank)], Tx_burst Tx_core 1 [7] 1]\<rparr>"

lemma stored_at: "take (Suc 0) (array (stored m)) = [m]" "array (stored m) ! 0 = m" "array_store empty_array 0 [m] = Inr (stored m)"
  "n_mbufs empty_array = 0" "n_mbufs (stored m) = 0"
  by (simp_all add: stored_def array_store_def empty_array_def xconst)

lemma one_packet_run: "runs list_ring plain sample_dpdk ready one_packet after"
proof -
  have pl: "ports plain = [0, 1, 0, 0]" "n_ports plain = 2" "burst_size_rx_read plain = 1" "burst_size_worker_read plain = 1"
    "burst_size_worker_write plain = 1" "burst_size_tx_read plain = 1" "burst_size_tx_write plain = 1"
    by (simp_all add: plain_def two_ports_def app_def)
  have np: "next_port plain 0 = 1" "next_port plain 1 = 0" by (simp_all add: next_port_def pl)
  have b: "\<not> is_arp sample_dpdk (data blank)" "targets_router sample_dpdk cs i (data blank) = Inr False" for cs i
    by (simp_all add: is_arp_def sample_dpdk_def blank_def rd16_def RTE_BE_TO_CPU_16_def targets_router_def is_echo_request_def xconst)
  have m: "(\<lambda>m. blank)(7 := blank) = (\<lambda>m. blank)" by auto
  have n: "replicate APP_MAX_PORTS empty_array = [empty_array, empty_array, empty_array, empty_array]"
    by (simp add: xconst numeral_eq_Suc)
  let ?s1 = "ready\<lparr>mbuf_rx := stored 7, rx_at := (0, Some 1), calls := [Rx_burst 0 [(7, blank)]]\<rparr>"
  let ?s2 = "?s1\<lparr>rings_rx := [Some [7], Some [], None, None], rx_at := (1, None)\<rparr>"
  let ?s3 = "?s2\<lparr>rings_rx := [Some [], Some [], None, None], worker_mbuf := stored 7, worker_at := (0, True)\<rparr>"
  let ?s4 = "?s3\<lparr>rings_tx := [Some [], Some [7], None, None], worker_at := (1, False)\<rparr>"
  let ?s5 = "?s4\<lparr>tx_at := 1\<rparr>"
  have "runs list_ring plain sample_dpdk ready [] ready" by (rule runs_start)
  then have "runs list_ring plain sample_dpdk ready [Rx_turn [(7, blank)] (Some 1) 0] ?s1"
    by (rule runs_append)
      (simp_all add: possible_def exec_def rx_turn_def ready_def router0_def pl stored_at b m)
  then have "runs list_ring plain sample_dpdk ready [Rx_turn [(7, blank)] (Some 1) 0, Rx_retry] ?s2"
    by (rule runs_append)
      (simp_all add: possible_def exec_def rx_retry_def ready_def router0_def pointer_def list_ring_def np stored_at)
  then have "runs list_ring plain sample_dpdk ready [Rx_turn [(7, blank)] (Some 1) 0, Rx_retry, Worker_turn] ?s3"
    by (rule runs_append)
      (simp_all add: possible_def exec_def worker_turn_def ready_def router0_def pointer_def list_ring_def pl stored_at ENOENT_def)
  then have "runs list_ring plain sample_dpdk ready [Rx_turn [(7, blank)] (Some 1) 0, Rx_retry, Worker_turn, Worker_retry] ?s4"
    by (rule runs_append)
      (simp_all add: possible_def exec_def worker_retry_def ready_def router0_def pointer_def list_ring_def pl np stored_at)
  then have "runs list_ring plain sample_dpdk ready [Rx_turn [(7, blank)] (Some 1) 0, Rx_retry, Worker_turn, Worker_retry, Tx_turn 0] ?s5"
    by (rule runs_append)
      (simp_all add: possible_def exec_def tx_turn_def ready_def router0_def pointer_def list_ring_def pl np)
  then show ?thesis
    by (rule runs_append)
      (simp_all add: one_packet_def after_def possible_def exec_def tx_turn_def ready_def router0_def pointer_def list_ring_def pl np
        stored_at ENOENT_def n)
qed

theorem forwarding_in_order_witness:
  "runs list_ring plain sample_dpdk ready one_packet after
    \<and> accepted sample_dpdk (ip_ports ready) 0 (calls after) = [7] \<and> handed_out 1 (calls after) = [7]
    \<and> (\<exists>s'. exec list_ring plain sample_dpdk Worker_turn after = Inr s')"
proof -
  have p: "power_of_2_test power_of_2" by (simp add: power_of_2_test_def power_of_2_def)
  have pl: "n_ports plain = 2" "pipeline_type plain \<noteq> e_APP_PIPELINE_ACL" by (simp_all add: plain_def two_ports_def xconst)
  have w: "possible plain Worker_turn after" by (simp add: possible_def after_def)
  have h: "handed_out 1 (calls after) = [7]" by (simp add: handed_out_def after_def)
  have q: "in_flight (\<lambda>r. r) plain 0 after = []"
    by (simp add: in_flight_def tx_buffer_def ring_at_def worker_pending_def rx_pending_def after_def ready_def router0_def stored_at
        APP_MAX_PORTS_def)
  have "8 \<le> (2 :: nat) ^ 32" by simp
  note f = forwarding_in_order[OF plain_accepted p this pl sample_ready sample_fifo(2,1) one_packet_run]
  then show ?thesis using one_packet_run w h q by (metis append_Nil2)
qed

end
