(* ===== verification/Router_Acl.thy ===== *)
theory Router_Acl
  imports Router_Runtime
begin

text \<open>
  The worker with the ACL pipeline (\<^verbatim>\<open>app_main_loop_worker_pipeline_acl\<close> of \<^verbatim>\<open>pipeline_acl.c\<close>) up to the point where it only
  runs the pipeline: the format of the fields of a rule, and the construction of the pipeline with its ports, its table and the rules of
  the file. The pipeline belongs to DPDK and is a parameter with the functions the code calls, each returning its code and the new pipeline.
\<close>

section \<open>The fields of a rule\<close>

datatype acl_field_type = RTE_ACL_FIELD_TYPE_BITMASK | RTE_ACL_FIELD_TYPE_MASK | RTE_ACL_FIELD_TYPE_RANGE

record acl_field_def =
  field_type :: acl_field_type
  field_size :: nat
  field_index :: nat
  input_index :: nat
  field_offset :: nat

definition ipv4_field_formats :: "dpdk \<Rightarrow> acl_field_def list" where
  "ipv4_field_formats D =
    [\<lparr>field_type = RTE_ACL_FIELD_TYPE_BITMASK, field_size = 1, field_index = 0, input_index = 0,
       field_offset = sizeof_ether_hdr D + next_proto_id D\<rparr>,
     \<lparr>field_type = RTE_ACL_FIELD_TYPE_MASK, field_size = 4, field_index = 1, input_index = 1,
       field_offset = sizeof_ether_hdr D + src_addr D\<rparr>,
     \<lparr>field_type = RTE_ACL_FIELD_TYPE_MASK, field_size = 4, field_index = 2, input_index = 2,
       field_offset = sizeof_ether_hdr D + dst_addr D\<rparr>,
     \<lparr>field_type = RTE_ACL_FIELD_TYPE_RANGE, field_size = 2, field_index = 3, input_index = 3,
       field_offset = sizeof_ether_hdr D + sizeof_ipv4_hdr D\<rparr>,
     \<lparr>field_type = RTE_ACL_FIELD_TYPE_RANGE, field_size = 2, field_index = 4, input_index = 3,
       field_offset = sizeof_ether_hdr D + sizeof_ipv4_hdr D + 2\<rparr>]"

section \<open>The pipeline\<close>

record ('p, 'r) pipeline_ops =
  pipeline_create :: "'p option"
  port_in_create :: "'r option \<Rightarrow> u32 \<Rightarrow> 'p \<Rightarrow> int \<times> u32 \<times> 'p"
  port_out_create :: "'r option \<Rightarrow> u32 \<Rightarrow> 'p \<Rightarrow> int \<times> u32 \<times> 'p"
  table_create :: "nat \<Rightarrow> acl_field_def list \<Rightarrow> 'p \<Rightarrow> int \<times> u32 \<times> 'p"
  port_in_connect_to_table :: "u32 \<Rightarrow> u32 \<Rightarrow> 'p \<Rightarrow> int \<times> 'p"
  table_entry_add :: "u32 \<Rightarrow> acl_rule \<Rightarrow> u32 \<Rightarrow> 'p \<Rightarrow> int \<times> 'p"
  port_in_enable :: "u32 \<Rightarrow> 'p \<Rightarrow> int \<times> 'p"
  pipeline_check :: "'p \<Rightarrow> int"

fun create_ports :: "('r option \<Rightarrow> u32 \<Rightarrow> 'p \<Rightarrow> int \<times> u32 \<times> 'p) \<Rightarrow> u32 \<Rightarrow> 'r option list \<Rightarrow> 'p \<Rightarrow> app_error + u32 list \<times> 'p" where
  "create_ports create burst [] p = Inr ([], p)"
| "create_ports create burst (r # rs) p =
    (let (rc, n, p) = create r burst p in
     if rc \<noteq> 0 then Inl Rte_panic
     else bindE (create_ports create burst rs p) (\<lambda>(ids, p). Inr (n # ids, p)))"

fun for_ports :: "(u32 \<Rightarrow> 'p \<Rightarrow> int \<times> 'p) \<Rightarrow> u32 list \<Rightarrow> 'p \<Rightarrow> app_error + 'p" where
  "for_ports f [] p = Inr p"
| "for_ports f (n # ids) p = (let (rc, p) = f n p in if rc \<noteq> 0 then Inl Rte_panic else for_ports f ids p)"

definition acl_pipeline_setup ::
  "nat \<Rightarrow> (u8 \<Rightarrow> u8 \<Rightarrow> u8 \<Rightarrow> u8 \<Rightarrow> u32) \<Rightarrow> dpdk \<Rightarrow> ('p, 'r) pipeline_ops \<Rightarrow> string option \<Rightarrow> app_params \<Rightarrow> 'r router \<Rightarrow> app_error + 'p" where
  "acl_pipeline_setup w IPv4 D P fopen a s =
    (case pipeline_create P of None \<Rightarrow> Inl Rte_panic | Some p \<Rightarrow>
     let n = unat (n_ports a) in
     bindE (create_ports (port_in_create P) (burst_size_worker_read a) (take n (rings_rx s)) p) (\<lambda>(port_in_id, p).
     bindE (create_ports (port_out_create P) (burst_size_worker_write a) (take n (rings_tx s)) p) (\<lambda>(port_out_id, p).
     let (rc, table_id, p) = table_create P 32 (ipv4_field_formats D) p in
     if rc \<noteq> 0 then Inl Rte_panic
     else bindE (for_ports (\<lambda>i. port_in_connect_to_table P i table_id) port_in_id p) (\<lambda>p.
       bindE (add_table_entries w IPv4 (table_entry_add P table_id) fopen p) (\<lambda>p.
       bindE (for_ports (port_in_enable P) port_in_id p) (\<lambda>p.
       if pipeline_check P p < 0 then Inl Rte_panic else Inr p))))))"

section \<open>What is built\<close>

lemma create_ports_result:
  assumes "create_ports create burst rs p = Inr (ids, p')"
  shows "length ids = length rs"
  using assms by (induction rs arbitrary: p ids p') (auto simp: Let_def split: prod.splits if_splits)

text \<open>
  The fields lie inside the headers and do not overlap: protocol, addresses and ports of the IPv4 and the transport header.
\<close>

lemma field_formats_disjoint:
  assumes "wire_format D"
  shows "map (\<lambda>f. (field_offset f, field_offset f + field_size f)) (ipv4_field_formats D) = [(23, 24), (26, 30), (30, 34), (34, 36), (36, 38)]"
  using assms by (simp add: ipv4_field_formats_def wire_format_def)

text \<open>
  A pipeline that is run has the rules of its file. When the set-up succeeds on a file of rules as \<open>rules_loaded\<close> reads it, the
  pipeline is the one in which one input and one output port per configured port were created, the inputs connected to the table,
  and the route rules of the file added in their order before the inputs were enabled; a consistency check passed on it.
\<close>

lemma acl_pipeline_built:
  assumes "acl_pipeline_setup w IPv4 D P (Some (concat (map print_line ls))) a s = Inr p"
    and "list_all line_ok ls" and "32 \<le> w" and "\<forall>t rule port q. 0 \<le> fst (table_entry_add P t rule port q)"
    and "unat (n_ports a) \<le> length (rings_rx s)"
  shows "\<exists>ins t q. length ins = unat (n_ports a)
    \<and> for_ports (port_in_enable P) ins (load_rules (table_entry_add P t) (concat (map (line_rules IPv4) ls)) q) = Inr p
    \<and> 0 \<le> pipeline_check P p"
proof -
  have loaded: "add_table_entries w IPv4 (table_entry_add P t) (Some (concat (map print_line ls))) q =
      Inr (load_rules (table_entry_add P t) (concat (map (line_rules IPv4) ls)) q)" for t q
    using add_lines_printed[OF assms(2,3), of "table_entry_add P t" IPv4 "[]" q] assms(4)
    by (simp add: add_table_entries_def add_lines_end)
  show ?thesis
    using assms(1,5)
    by (auto simp: acl_pipeline_setup_def loaded Let_def split_beta dest!: create_ports_result split: option.splits if_splits) blast
qed

end
