(* ===== verification/Spec2Isabelle.thy ===== *)
theory Spec2Isabelle
  imports XMHF_BootProps XMHF_SvmLaunch HPT_CopyProps XMHF_QuiesceRound XMHF_AppProps Router_Forwarding Router_Acl
begin

text \<open>
  A verification library for the XMHF hypervisor with the quiesce application
  (\<^verbatim>\<open>src/xmhf-secure-router\<close>), the hypervisor that isolates a router from the system it runs on, and for that router
  (\<^verbatim>\<open>src/test-router\<close>).

  \<^bold>\<open>The program.\<close> The boot loader takes a region out of the memory map of the machine, finds the processors
  in the tables of the firmware, moves the image into the region and starts the secure loader, which builds the page tables of
  the runtime and enters it. The runtime starts on every core of the machine, sets up nested page tables and
  the control structure of the virtual machine, and launches the guest. From then on it runs only
  when the guest exits: the event hub handles the exit, emulates the access to the interrupt
  controller while the guest starts its cores, answers the memory map request of the BIOS, or calls
  the application. The application answers one hypercall: it copies the process map of a guest
  program, stops the other cores by interrupts, changes the hypervisor's page tables and releases the
  cores into user space. The router is such a program: it reads its command line and its rules, sets up ports and rings,
  and runs a receiving, a working and a sending loop on three cores that pass packets through the rings; it answers ARP and echo
  requests for its own addresses.

  \<^bold>\<open>The theories\<close>, bottom up, with the files they model (below \<^verbatim>\<open>xmhf/src/xmhf-core\<close> unless said
  otherwise):

  \<^item> \<open>XMHF_Prelude\<close>, \<open>XMHF_Memory\<close>: words, the error sum with its bind, bounded loops, byte
    addressed memory with loads and stores, \<^verbatim>\<open>memcpy\<close> and \<^verbatim>\<open>memset\<close>.
  \<^item> \<open>XMHF_Paging\<close>, \<open>XMHF_Platform\<close>: the macros of \<^verbatim>\<open>_paging.h\<close>; the structures \<^verbatim>\<open>VCPU\<close>, \<^verbatim>\<open>RPB\<close>, the
    VMCS fields and the constants as records and definitions. The state \<open>xmhf_state\<close> holds memory,
    the processor structures, the globals and a log of the privileged operations performed; what
    the processor answers is the parameter \<open>hardware\<close>.
  \<^item> \<open>XMHF_MemTypes\<close>, \<open>XMHF_MemProt\<close>, \<open>XMHF_EPT\<close>: \<^verbatim>\<open>xmhf-memprot\<close>. The tables are built in byte
    memory; \<open>XMHF_EPT\<close> has the walk of the processor as specification and shows that on Intel the walk reaches
    no page of the hypervisor, and that a protection change is what the walk enforces. On AMD it shows what the
    tables contain, not what the processor walks (see below).
  \<^item> \<open>XMHF_SmpGuest\<close>, \<open>XMHF_EventHub\<close>, \<open>XMHF_EventProps\<close>: \<^verbatim>\<open>xmhf-smpguest\<close> and \<^verbatim>\<open>xmhf-eventhub\<close> on
    Intel, every handler with its error branches, and what an exit writes to memory. The contract of an application is a
    locale of \<open>XMHF_EventHub\<close> that \<open>XMHF_QuiesceApp\<close> interprets on the quiesce application.
  \<^item> \<open>XMHF_QuiesceApp\<close>, \<open>XMHF_AppProps\<close>: \<^verbatim>\<open>hypapps/quiesce/app\<close>, and the address space its hypercall leaves: the walk of the
    processor finds every page of the program's list open to user code and the old translation elsewhere.
  \<^item> \<open>XMHF_VMCS\<close>, \<open>XMHF_Partition\<close>: the transfer of the VMCS, with fields of 16 bits cut by the processor, the runs of a guest
    whose exits are confined, and \<^verbatim>\<open>xmhf-partition\<close> on Intel.
  \<^item> \<open>XMHF_SvmGuest\<close>, \<open>XMHF_SvmHub\<close>, \<open>XMHF_SvmPartition\<close>: the AMD side of \<^verbatim>\<open>xmhf-smpguest\<close>,
    \<^verbatim>\<open>xmhf-eventhub\<close> and \<^verbatim>\<open>xmhf-partition\<close> with the functions that choose the vendor. What is promised on both
    vendors (the walk of the guest's tables, the protection of ports) is stated
    over these functions. The contract of an application on AMD is a locale of \<open>XMHF_SvmHub\<close>.
  \<^item> \<open>XMHF_Exception\<close>: \<^verbatim>\<open>xmhf-xcphandler\<close>, the descriptor table and the dispatch of exceptions.
  \<^item> \<open>XMHF_BasePlatform\<close>, \<open>XMHF_Startup\<close>: \<^verbatim>\<open>xmhf-baseplatform\<close>, the timer, PCI and ACPI access, the allocation of the
    processor structures on both vendors, the wake-up of the cores, and \<^verbatim>\<open>xmhf-startup/runtime.c\<close>.
  \<^item> \<open>XMHF_LaunchProps\<close>, \<open>XMHF_SvmLaunch\<close>: the main results follow a core from the entry of the runtime to the
    launch, on Intel also through every confined run of the guest; on AMD they state the contents of the control block and of
    the tables.
  \<^item> \<open>XMHF_BootMap\<close>, \<open>XMHF_BootSmp\<close>, \<open>XMHF_BootLoader\<close>, \<open>XMHF_SecureLoader\<close>, \<open>XMHF_BootProps\<close>: \<^verbatim>\<open>xmhf-bootloader\<close> and
    \<^verbatim>\<open>xmhf-secureloader\<close>, the memory map, the processors, the check of SINIT modules, the parameter blocks and the page tables
    of the runtime; \<open>XMHF_BootProps\<close> composes all of it with the launch.
  \<^item> \<open>HPT_Bitfield\<close>, \<open>HPT_Entries\<close>, \<open>HPT_Walker\<close>, \<open>HPT_WalkProps\<close>, \<open>HPT_CopyProps\<close>: the page table
    library of \<^verbatim>\<open>libbaremetal/libxmhfutil\<close> and its contexts in the application; a checked access agrees
    with the walk of the processor, and checked copies return.
  \<^item> \<open>XMHF_Quiesce\<close>, \<open>XMHF_QuiesceRound\<close>: the rendezvous of four cores as a step relation on the
    shared variables, with mutual exclusion, completion of the first round under every schedule and
    the reason why there is no second one. The four cores have the identifications the source names; the shutdown callback, which
    is called outside a round and reboots, is not part of it.
  \<^item> \<open>Router_Text\<close>, \<open>Router_Config\<close>, \<open>Router_Rules\<close>, \<open>Router_Acl\<close>: \<^verbatim>\<open>test-router/config.c\<close>, the rules of \<^verbatim>\<open>pipeline_acl.c\<close> and the
    set-up of its pipeline. An accepted command line gives a well-formed configuration, and a file of route rules is loaded as written, the shipped one
    included.
  \<^item> \<open>Router_Packets\<close>: the replies of \<^verbatim>\<open>runtime.c\<close> on the bytes of a packet, with the Internet checksum as the reference, and the change
    of MAC addresses.
  \<^item> \<open>Router_Runtime\<close>, \<open>Router_Forwarding\<close>: \<^verbatim>\<open>init.c\<close>, \<^verbatim>\<open>main.c\<close> and \<^verbatim>\<open>runtime.c\<close>. The three loops are interleaved steps on a common
    state; from the command line on, forwarding keeps the order of the packets and loses none inside the router.

  \<^bold>\<open>Addresses and aliasing.\<close> The processor structures, the VMCS copies and the control blocks are components of the state,
  apart from the bytes of memory, although they lie in the runtime's own memory. That is adequate as long as nothing
  stores to them through a pointer: the two places that store through a pointer of the guest, the E820 answer and the quiesce
  hypercall, are named by \<open>confined\<close>, and the claims about runs of a guest (\<open>guest_run\<close>) are restricted to exits that leave the
  addresses of the runtime alone. An address is one of the runtime (a virtual one) unless said otherwise; \<open>hva2spa1\<close> and
  \<open>spa2hva1\<close> are the conversions of the source, and \<open>XMHF_SecureLoader\<close> shows where they agree with the runtime's page tables: on
  its image. On AMD the source uses the identity instead, so that the addresses it gives to the processor are virtual ones
  (\<open>svm_npt_root_virtual\<close>); no isolation is claimed there. The host context of the page table library makes pointers with
  \<open>spa2hva1\<close> for pages outside the image as well, and nothing is claimed about what lies behind them.

  \<^bold>\<open>Errors, fuel and bounds.\<close> A halt, a failed assertion, an endless wait and an access outside an
  array are the values of \<open>xmhf_error\<close>. Loops over tables are bounded by the constants of the source.
  The search of the ACPI table takes fuel: as much as the table has records suffices, when no record has length zero.
  Waiting for a device is one reading of its register: the code goes on when it is ready and otherwise waits endlessly.
  Copy loops take fuel: as much fuel as bytes suffices, since each round copies at least one byte.
  The walk over a guest's list in the application takes fuel as well; the guest can make it endless.
  A failure of the router (an unset pointer or variable, \<^verbatim>\<open>rte_exit\<close>, \<^verbatim>\<open>rte_panic\<close>) is a value of \<open>app_error\<close>; its loops never end and are
  modelled by their turns, so that they need no fuel. DPDK is not part of the repository: its header layouts, constants and functions are
  parameters, and what is documented of them is stated as \<open>wire_format\<close>, \<open>ring_fifo\<close>, \<open>rings_start_empty\<close> and \<open>power_of_2_test\<close>; each
  property that assumes them has a witness with a concrete instance.
  Shared memory of the rendezvous is sequentially consistent, as the code's locks and volatile
  variables assume.

  \<^bold>\<open>Not modelled.\<close> Debug output and the command line of the boot loader; the assembly entry code; TPM and TXT code
  (register access and measurements with hash functions of a library), which the options of this tree leave out together with
  DMA protection; the vendored allocator, cryptography and C library; the other variants of the tree, which differ
  in a few files; the network driver; the DPDK example programs; of the router, its main function, the list of mappings it
  builds for the hypercall, and the running of a pipeline, which is a call into DPDK.
\<close>

end
